(* ===== verification/Prelude.thy ===== *)
theory Prelude
  imports Main "HOL-Library.Char_ord" "HOL-Library.List_Lexorder" "HOL-Library.Product_Lexorder"
    "HOL-Library.Multiset" "HOL-Library.State_Monad"
begin

section \<open>Shared vocabulary of the provider model\<close>

text \<open>
  Types and lemmas every component uses: the three-state values Terraform hands to the
  provider, diagnostics, Go maps, Go errors, and the state monad in which a handler talks
  to the Gravitino API.

  \<^item> \<open>tfval\<close>: a Terraform value is null, unknown or known. This is the data format of the
    plugin protocol; the accessors are the zero-value accessors of the Go types.
  \<^item> \<open>gomap\<close>: a Go map, as the list of its entries in the order in which the run-time
    happens to iterate over it. Keys are distinct (\<open>wf_map\<close>). A function over a Go map that
    must not depend on the iteration order is proved invariant under permutation.
  \<^item> \<open>diagnostic\<close>: one entry of a diagnostics list, with the attribute path it points at.
\<close>

named_theorems tf_simps "unfolding rules of the Terraform value accessors"
named_theorems model_defs "definitions that unfold when a handler is executed"

subsection \<open>Terraform values\<close>

datatype 'a tfval = TNull | TUnknown | TKnown 'a

definition IsNull :: "'a tfval \<Rightarrow> bool" where
  "IsNull v = (case v of TNull \<Rightarrow> True | _ \<Rightarrow> False)"

definition IsUnknown :: "'a tfval \<Rightarrow> bool" where
  "IsUnknown v = (case v of TUnknown \<Rightarrow> True | _ \<Rightarrow> False)"

definition ValueString :: "string tfval \<Rightarrow> string" where
  "ValueString v = (case v of TKnown s \<Rightarrow> s | _ \<Rightarrow> [])"

definition ValueBool :: "bool tfval \<Rightarrow> bool" where
  "ValueBool v = (case v of TKnown b \<Rightarrow> b | _ \<Rightarrow> False)"

definition ValueInt64 :: "int tfval \<Rightarrow> int" where
  "ValueInt64 v = (case v of TKnown i \<Rightarrow> i | _ \<Rightarrow> 0)"

lemma IsNull_simps [simp, tf_simps]:
  "IsNull TNull" "\<not> IsNull TUnknown" "\<not> IsNull (TKnown x)"
  by (simp_all add: IsNull_def)

lemma IsUnknown_simps [simp, tf_simps]:
  "\<not> IsUnknown TNull" "IsUnknown TUnknown" "\<not> IsUnknown (TKnown x)"
  by (simp_all add: IsUnknown_def)

lemma ValueString_simps [simp, tf_simps]:
  "ValueString TNull = []" "ValueString TUnknown = []" "ValueString (TKnown s) = s"
  by (simp_all add: ValueString_def)

lemma ValueBool_simps [simp, tf_simps]:
  "ValueBool TNull = False" "ValueBool TUnknown = False" "ValueBool (TKnown b) = b"
  by (simp_all add: ValueBool_def)

lemma ValueInt64_simps [simp, tf_simps]:
  "ValueInt64 TNull = 0" "ValueInt64 TUnknown = 0" "ValueInt64 (TKnown i) = i"
  by (simp_all add: ValueInt64_def)

lemma tfval_known_iff: "\<not> IsNull v \<and> \<not> IsUnknown v \<longleftrightarrow> (\<exists>x. v = TKnown x)"
  by (cases v) auto

subsection \<open>Diagnostics\<close>

datatype severity = SevError | SevWarning

datatype path_step = AtName string | AtListIndex nat | AtMapKey string

record diagnostic =
  dg_severity :: severity
  dg_path :: "path_step list option"
  dg_summary :: string
  dg_detail :: string

type_synonym diags = "diagnostic list"

definition error_diag :: "string \<Rightarrow> string \<Rightarrow> diagnostic" where
  "error_diag summary detail =
     \<lparr>dg_severity = SevError, dg_path = None, dg_summary = summary, dg_detail = detail\<rparr>"

definition attribute_error :: "path_step list \<Rightarrow> string \<Rightarrow> string \<Rightarrow> diagnostic" where
  "attribute_error p summary detail =
     \<lparr>dg_severity = SevError, dg_path = Some p, dg_summary = summary, dg_detail = detail\<rparr>"

definition attribute_warning :: "path_step list \<Rightarrow> string \<Rightarrow> string \<Rightarrow> diagnostic" where
  "attribute_warning p summary detail =
     \<lparr>dg_severity = SevWarning, dg_path = Some p, dg_summary = summary, dg_detail = detail\<rparr>"

definition HasError :: "diags \<Rightarrow> bool" where
  "HasError ds = list_ex (\<lambda>d. dg_severity d = SevError) ds"

lemma HasError_simps [simp]:
  "\<not> HasError []"
  "HasError (d # ds) \<longleftrightarrow> dg_severity d = SevError \<or> HasError ds"
  "HasError (ds @ es) \<longleftrightarrow> HasError ds \<or> HasError es"
  by (auto simp: HasError_def)

lemma error_diag_severity [simp]:
  "dg_severity (error_diag s d) = SevError"
  "dg_severity (attribute_error p s d) = SevError"
  "dg_severity (attribute_warning p s d) = SevWarning"
  by (simp_all add: error_diag_def attribute_error_def attribute_warning_def)

subsection \<open>Go maps\<close>

type_synonym 'v gomap = "(string \<times> 'v) list"

definition keys :: "'v gomap \<Rightarrow> string list" where
  "keys m = map fst m"

definition wf_map :: "'v gomap \<Rightarrow> bool" where
  "wf_map m = distinct (keys m)"

definition put :: "string \<Rightarrow> 'v \<Rightarrow> 'v gomap \<Rightarrow> 'v gomap" where
  "put k v m = (if k \<in> set (keys m)
     then map (\<lambda>(k', v'). if k' = k then (k, v) else (k', v')) m
     else m @ [(k, v)])"

definition del :: "string \<Rightarrow> 'v gomap \<Rightarrow> 'v gomap" where
  "del k m = filter (\<lambda>(k', _). k' \<noteq> k) m"

lemma keys_simps [simp]:
  "keys [] = []" "keys (kv # m) = fst kv # keys m" "keys (m @ n) = keys m @ keys n"
  by (simp_all add: keys_def)

lemma set_keys: "set (keys m) = dom (map_of m)"
  by (simp add: keys_def dom_map_of_conv_image_fst)

lemma map_of_None_keys: "map_of m k = None \<longleftrightarrow> k \<notin> set (keys m)"
  by (simp add: keys_def map_of_eq_None_iff)

lemma map_of_in_keys: "k \<in> set (keys m) \<longleftrightarrow> (\<exists>v. map_of m k = Some v)"
  by (metis map_of_None_keys not_None_eq)

lemma wf_map_mset: "mset m = mset n \<Longrightarrow> wf_map m \<longleftrightarrow> wf_map n"
  unfolding wf_map_def keys_def by (metis mset_eq_imp_distinct_iff mset_map)

lemma map_of_mset:
  assumes "mset m = mset n" and "wf_map m"
  shows "map_of m = map_of n"
proof -
  have "distinct (map fst m)" "distinct (map fst n)"
    using assms wf_map_mset [OF assms(1)] by (simp_all add: wf_map_def keys_def)
  moreover have "set m = set n" using assms(1) by (rule mset_eq_setD)
  ultimately show ?thesis by (simp add: map_of_inject_set)
qed

lemma map_of_put [simp]: "map_of (put k v m) = (map_of m)(k \<mapsto> v)"
proof (cases "k \<in> set (keys m)")
  case True
  have "k \<in> set (keys m) \<Longrightarrow>
      map_of (map (\<lambda>(k', v'). if k' = k then (k, v) else (k', v')) m) = (map_of m)(k \<mapsto> v)" for m
  proof (induction m)
    case (Cons a m)
    have "k \<notin> set (keys m) \<Longrightarrow> map (\<lambda>(k', v'). if k' = k then (k, v) else (k', v')) m = m"
      by (induction m) (auto simp: keys_def)
    with Cons show ?case
      by (cases "k \<in> set (keys m)") (auto simp: fun_eq_iff split: prod.splits)
  qed simp
  with True show ?thesis by (simp add: put_def)
next
  case False
  then show ?thesis
    by (auto simp: put_def fun_eq_iff map_add_def map_of_in_keys split: option.splits)
qed

lemma map_of_del [simp]: "map_of (del k m) = (map_of m)(k := None)"
  by (induction m) (auto simp: del_def fun_eq_iff)

lemma keys_put: "keys (put k v m) = (if k \<in> set (keys m) then keys m else keys m @ [k])"
  by (auto simp: put_def keys_def)

lemma wf_put [simp]: "wf_map m \<Longrightarrow> wf_map (put k v m)"
  by (simp add: wf_map_def keys_put)

lemma keys_del: "keys (del k m) = filter (\<lambda>k'. k' \<noteq> k) (keys m)"
  by (induction m) (auto simp: del_def)

lemma wf_del [simp]: "wf_map m \<Longrightarrow> wf_map (del k m)"
  by (simp add: wf_map_def keys_del)

lemma wf_map_Nil [simp]: "wf_map []"
  by (simp add: wf_map_def)

lemma wf_map_Cons [simp]: "wf_map ((k, v) # m) \<longleftrightarrow> k \<notin> set (keys m) \<and> wf_map m"
  by (auto simp: wf_map_def)

text \<open>Filling a map from a list whose keys are distinct.\<close>

lemma fold_put_distinct:
  assumes "distinct (map f xs)" "set (keys m) \<inter> set (map f xs) = {}"
  shows "fold (\<lambda>x m. put (f x) x m) xs m = m @ map (\<lambda>x. (f x, x)) xs"
  using assms
proof (induction xs arbitrary: m)
  case (Cons x xs)
  have "put (f x) x m = m @ [(f x, x)]" using Cons.prems by (simp add: put_def)
  then show ?case using Cons by simp
qed simp

subsection \<open>64-bit signed integers\<close>

text \<open>Go's \<open>int\<close> and \<open>time.Duration\<close> are 64-bit two's complement: an arithmetic result
  outside the range wraps around.\<close>

definition wrap64 :: "int \<Rightarrow> int" where
  "wrap64 x = (x + 2 ^ 63) mod 2 ^ 64 - 2 ^ 63"

definition fits64 :: "int \<Rightarrow> bool" where
  "fits64 x \<longleftrightarrow> - (2 ^ 63) \<le> x \<and> x < 2 ^ 63"

lemma wrap64_fits [simp]: "fits64 (wrap64 x)"
proof -
  have "0 \<le> (x + 2 ^ 63) mod 2 ^ 64" and "(x + 2 ^ 63) mod 2 ^ 64 < (2 ^ 64 :: int)"
    by (rule pos_mod_sign, simp) (rule pos_mod_bound, simp)
  then show ?thesis by (simp add: wrap64_def fits64_def)
qed

lemma wrap64_id [simp]: "fits64 x \<Longrightarrow> wrap64 x = x"
  by (simp add: wrap64_def fits64_def)

end
