(* ===== verification/GoStrings.thy ===== *)
theory GoStrings
  imports Prelude
begin

section \<open>The Go string library, as far as the provider uses it\<close>

text \<open>
  Go strings are byte sequences, so \<open>string\<close> (a list of bytes) is the data itself. The
  functions of the packages \<open>strings\<close> and \<open>strconv\<close> that the provider calls are written
  out on their ASCII behaviour: a byte above 127 is neither white space nor a letter, and
  \<open>quote\<close> (the \<open>%q\<close> verb) copies it.
\<close>

definition code :: "char \<Rightarrow> nat" where
  "code c = of_char c"

definition is_space :: "char \<Rightarrow> bool" where
  "is_space c = (code c \<in> {9, 10, 11, 12, 13, 32})"

definition is_digit :: "char \<Rightarrow> bool" where
  "is_digit c = (48 \<le> code c \<and> code c \<le> 57)"

definition is_upper :: "char \<Rightarrow> bool" where
  "is_upper c = (65 \<le> code c \<and> code c \<le> 90)"

definition is_lower :: "char \<Rightarrow> bool" where
  "is_lower c = (97 \<le> code c \<and> code c \<le> 122)"

definition is_ascii :: "char \<Rightarrow> bool" where
  "is_ascii c = (code c < 128)"

definition trim_space :: "string \<Rightarrow> string" where
  "trim_space s = rev (dropWhile is_space (rev (dropWhile is_space s)))"

definition upper_char :: "char \<Rightarrow> char" where
  "upper_char c = (if is_lower c then char_of (code c - 32) else c)"

definition lower_char :: "char \<Rightarrow> char" where
  "lower_char c = (if is_upper c then char_of (code c + 32) else c)"

definition to_upper :: "string \<Rightarrow> string" where
  "to_upper s = map upper_char s"

definition to_lower :: "string \<Rightarrow> string" where
  "to_lower s = map lower_char s"

definition equal_fold :: "string \<Rightarrow> string \<Rightarrow> bool" where
  "equal_fold s t = (to_lower s = to_lower t)"

definition has_prefix :: "string \<Rightarrow> string \<Rightarrow> bool" where
  "has_prefix s p = (take (length p) s = p)"

definition trim_prefix :: "string \<Rightarrow> string \<Rightarrow> string" where
  "trim_prefix s p = (if has_prefix s p then drop (length p) s else s)"

definition trim_right_char :: "char \<Rightarrow> string \<Rightarrow> string" where
  "trim_right_char c s = rev (dropWhile (\<lambda>x. x = c) (rev s))"

definition trim_left_char :: "char \<Rightarrow> string \<Rightarrow> string" where
  "trim_left_char c s = dropWhile (\<lambda>x. x = c) s"

fun contains_sub :: "string \<Rightarrow> string \<Rightarrow> bool" where
  "contains_sub [] p = (p = [])"
| "contains_sub (c # s) p = (has_prefix (c # s) p \<or> contains_sub s p)"

text \<open>\<open>strings.Split(s, sep)\<close> for a one-byte separator, and \<open>strings.SplitN(s, sep, n)\<close>
  for \<open>n\<close> of at least one.\<close>

fun split_on :: "char \<Rightarrow> string \<Rightarrow> string list" where
  "split_on c [] = [[]]"
| "split_on c (x # xs) =
     (if x = c then [] # split_on c xs
      else (case split_on c xs of [] \<Rightarrow> [[x]] | y # ys \<Rightarrow> (x # y) # ys))"

fun split_n :: "char \<Rightarrow> nat \<Rightarrow> string \<Rightarrow> string list" where
  "split_n c (Suc (Suc n)) s =
     (if c \<in> set s then takeWhile (\<lambda>x. x \<noteq> c) s # split_n c (Suc n) (tl (dropWhile (\<lambda>x. x \<noteq> c) s))
      else [s])"
| "split_n c n s = [s]"

fun join :: "string \<Rightarrow> string list \<Rightarrow> string" where
  "join sep [] = []"
| "join sep [x] = x"
| "join sep (x # xs) = x @ sep @ join sep xs"

subsection \<open>Numbers\<close>

definition digit_val :: "char \<Rightarrow> int" where
  "digit_val c = int (code c) - 48"

definition digits_val :: "string \<Rightarrow> int" where
  "digits_val s = foldl (\<lambda>n c. 10 * n + digit_val c) 0 s"

text \<open>\<open>strconv.Atoi\<close>: an optional sign, then at least one decimal digit, and a value that
  fits into 64 bits; everything else is an error.\<close>

definition atoi :: "string \<Rightarrow> int option" where
  "atoi s =
     (let (neg, ds) = (case s of [] \<Rightarrow> (False, [])
                       | c # cs \<Rightarrow> if c = CHR ''-'' then (True, cs)
                                   else if c = CHR ''+'' then (False, cs) else (False, s));
          n = (if neg then - digits_val ds else digits_val ds)
      in if ds \<noteq> [] \<and> list_all is_digit ds \<and> fits64 n then Some n else None)"

fun nat_digits :: "nat \<Rightarrow> string" where
  "nat_digits n = (if n < 10 then [char_of (48 + n)]
                   else nat_digits (n div 10) @ [char_of (48 + n mod 10)])"

declare nat_digits.simps [simp del]

definition itoa :: "int \<Rightarrow> string" where
  "itoa i = (if i < 0 then CHR ''-'' # nat_digits (nat (- i)) else nat_digits (nat i))"

subsection \<open>Quoting\<close>

definition hex_digit :: "nat \<Rightarrow> char" where
  "hex_digit n = (if n < 10 then char_of (48 + n) else char_of (87 + n))"

definition quote_char :: "char \<Rightarrow> string" where
  "quote_char c =
     (if code c = 34 then [CHR 0x5C, CHR 0x22]
      else if code c = 92 then [CHR 0x5C, CHR 0x5C]
      else if code c = 7 then [CHR 0x5C, CHR ''a'']
      else if code c = 8 then [CHR 0x5C, CHR ''b'']
      else if code c = 12 then [CHR 0x5C, CHR ''f'']
      else if code c = 10 then [CHR 0x5C, CHR ''n'']
      else if code c = 13 then [CHR 0x5C, CHR ''r'']
      else if code c = 9 then [CHR 0x5C, CHR ''t'']
      else if code c = 11 then [CHR 0x5C, CHR ''v'']
      else if code c < 32 \<or> code c = 127
        then [CHR 0x5C, CHR ''x'', hex_digit (code c div 16), hex_digit (code c mod 16)]
      else [c])"

definition quote :: "string \<Rightarrow> string" where
  "quote s = [CHR 0x22] @ concat (map quote_char s) @ [CHR 0x22]"

subsection \<open>Lemmas\<close>

lemma split_on_ne [simp]: "split_on c s \<noteq> []"
  by (induction s) (auto split: list.splits)

lemma join_Cons: "xs \<noteq> [] \<Longrightarrow> join sep (x # xs) = x @ sep @ join sep xs"
  by (cases xs) auto

lemma join_split_on: "join [c] (split_on c s) = s"
proof (induction s)
  case (Cons x s)
  obtain y ys where "split_on c s = y # ys" by (cases "split_on c s") auto
  with Cons show ?case by (cases ys) auto
qed simp

lemma split_on_no_sep: "c \<notin> set s \<Longrightarrow> split_on c s = [s]"
  by (induction s) auto

lemma split_on_append: "c \<notin> set s \<Longrightarrow> split_on c (s @ c # t) = s # split_on c t"
  by (induction s) auto

lemma split_on_join:
  "xs \<noteq> [] \<Longrightarrow> \<forall>x \<in> set xs. c \<notin> set x \<Longrightarrow> split_on c (join [c] xs) = xs"
proof (induction xs)
  case (Cons x xs)
  show ?case
  proof (cases xs)
    case Nil
    with Cons.prems show ?thesis by (simp add: split_on_no_sep)
  next
    case (Cons y ys)
    then have "split_on c (join [c] (x # xs)) = split_on c (x @ c # join [c] xs)" by simp
    also have "\<dots> = x # split_on c (join [c] xs)"
      using Cons.prems by (intro split_on_append) simp
    also have "\<dots> = x # xs" using Cons Cons.IH Cons.prems by simp
    finally show ?thesis .
  qed
qed simp

lemma split_on_no_char: "x \<in> set (split_on c s) \<Longrightarrow> c \<notin> set x"
proof (induction s arbitrary: x)
  case (Cons a s)
  then show ?case by (auto split: if_splits list.splits)
qed simp

lemma split_n_length: "0 < n \<Longrightarrow> length (split_n c n s) \<le> n"
  by (induction c n s rule: split_n.induct) auto

lemma takeWhile_sep: "c \<in> set s \<Longrightarrow> takeWhile (\<lambda>x. x \<noteq> c) s @ c # tl (dropWhile (\<lambda>x. x \<noteq> c) s) = s"
  by (induction s) auto

lemma split_n_ne [simp]: "split_n c n s \<noteq> []"
  by (cases "(c, n, s)" rule: split_n.cases) auto

lemma join_split_n: "join [c] (split_n c n s) = s"
  by (induction c n s rule: split_n.induct) (auto simp: join_Cons takeWhile_sep)

lemma split_n_butlast: "x \<in> set (butlast (split_n c n s)) \<Longrightarrow> c \<notin> set x"
  by (induction c n s rule: split_n.induct) (auto dest: set_takeWhileD split: if_splits)

lemma while_sep:
  "c \<notin> set x \<Longrightarrow> takeWhile (\<lambda>y. y \<noteq> c) (x @ c # t) = x"
  "c \<notin> set x \<Longrightarrow> dropWhile (\<lambda>y. y \<noteq> c) (x @ c # t) = c # t"
  by (induction x) auto

lemma split_n_join:
  assumes "length xs = Suc n" and "\<forall>x \<in> set (butlast xs). c \<notin> set x"
  shows "split_n c (Suc n) (join [c] xs) = xs"
  using assms
proof (induction n arbitrary: xs)
  case 0
  then show ?case by (cases xs) auto
next
  case (Suc n)
  then obtain x ys where xs: "xs = x # ys" "ys \<noteq> []" "length ys = Suc n" by (cases xs) fastforce+
  have x: "c \<notin> set x" using Suc.prems xs by simp
  then have "takeWhile (\<lambda>y. y \<noteq> c) (x @ c # join [c] ys) = x"
    and "dropWhile (\<lambda>y. y \<noteq> c) (x @ c # join [c] ys) = c # join [c] ys"
    by (simp_all add: while_sep)
  moreover have "split_n c (Suc n) (join [c] ys) = ys"
    using Suc xs by auto
  ultimately show ?case using xs by (simp add: join_Cons)
qed

lemma trim_space_no_space: "\<forall>c \<in> set s. \<not> is_space c \<Longrightarrow> trim_space s = s"
proof -
  have *: "\<forall>c \<in> set t. \<not> is_space c \<Longrightarrow> dropWhile is_space t = t" for t
    by (cases t) auto
  assume "\<forall>c \<in> set s. \<not> is_space c"
  with * [of s] * [of "rev s"] show ?thesis by (simp add: trim_space_def)
qed

lemma dropWhile_last_append:
  "x \<in> set xs \<Longrightarrow> \<not> P x \<Longrightarrow> dropWhile P (xs @ ys) = dropWhile P xs @ ys"
  by (rule dropWhile_append1)

lemma trim_space_idem [simp]: "trim_space (trim_space s) = trim_space s"
proof -
  define t where "t = dropWhile is_space s"
  define u where "u = dropWhile is_space (rev t)"
  have hd_u: "dropWhile is_space u = u" unfolding u_def by simp
  have "dropWhile is_space (rev u) = rev u"
  proof (cases "rev u")
    case (Cons a w)
    obtain v where v: "rev t = v @ u" unfolding u_def by (metis takeWhile_dropWhile_id)
    then have "t = rev u @ rev v" by (metis rev_append rev_rev_ident)
    then have "hd t = a" using Cons by simp
    moreover have "t \<noteq> []" using v Cons by auto
    moreover have "t \<noteq> [] \<Longrightarrow> \<not> is_space (hd t)" unfolding t_def by (rule hd_dropWhile)
    ultimately show ?thesis using Cons by simp
  qed simp
  then show ?thesis using hd_u by (simp add: trim_space_def t_def [symmetric] u_def [symmetric])
qed

lemma has_prefix_append [simp]: "has_prefix (p @ s) p"
  by (simp add: has_prefix_def)

lemma has_prefix_iff: "has_prefix s p \<longleftrightarrow> (\<exists>t. s = p @ t)"
  unfolding has_prefix_def by (metis append_eq_conv_conj)

lemma to_upper_simps [simp]: "to_upper [] = []" "to_upper (c # s) = upper_char c # to_upper s"
  by (simp_all add: to_upper_def)

lemma code_char_of [simp]: "n < 256 \<Longrightarrow> code (char_of n) = n"
  by (simp add: code_def)

lemma char_of_code [simp]: "char_of (code c) = c"
  by (simp add: code_def)

lemma code_lt [simp]: "code c < 256"
  unfolding code_def by (rule nat_of_char_less_256)

lemma code_inject [simp]: "code c = code d \<longleftrightarrow> c = d"
  by (simp add: code_def)

lemma upper_char_idem [simp]: "upper_char (upper_char c) = upper_char c"
proof (cases "is_lower c")
  case True
  then have "code c - 32 < 256" "\<not> is_lower (char_of (code c - 32))"
    by (auto simp: is_lower_def)
  with True show ?thesis by (simp add: upper_char_def)
qed (simp add: upper_char_def)

lemma to_upper_idem [simp]: "to_upper (to_upper s) = to_upper s"
  by (simp add: to_upper_def o_def)

lemma lower_upper_char: "lower_char (upper_char c) = lower_char c"
proof (cases "is_lower c")
  case True
  then have l: "97 \<le> code c" "code c \<le> 122" by (simp_all add: is_lower_def)
  then have u: "upper_char c = char_of (code c - 32)" "code (char_of (code c - 32)) = code c - 32"
    using True by (simp_all add: upper_char_def)
  have "is_upper (char_of (code c - 32))" unfolding is_upper_def u(2) using l by linarith
  moreover have "\<not> is_upper c" using l by (simp add: is_upper_def)
  moreover have "code (char_of (code c - 32)) + 32 = code c" using l u(2) by simp
  ultimately show ?thesis by (simp add: u(1) lower_char_def)
qed (simp add: upper_char_def)

lemma equal_fold_upper: "equal_fold (to_upper s) s"
  by (simp add: equal_fold_def to_upper_def to_lower_def o_def lower_upper_char)

subsection \<open>Printed numbers parse back\<close>

lemma digit_char:
  "n < 10 \<Longrightarrow> is_digit (char_of (48 + n))"
  "n < 10 \<Longrightarrow> digit_val (char_of (48 + n)) = int n"
  by (simp_all add: is_digit_def digit_val_def)

lemma digits_val_snoc [simp]: "digits_val (s @ [c]) = 10 * digits_val s + digit_val c"
  by (simp add: digits_val_def)

lemma digits_val_single [simp]: "digits_val [c] = digit_val c"
  by (simp add: digits_val_def)

lemma nat_digits_props:
  "list_all is_digit (nat_digits n) \<and> digits_val (nat_digits n) = int n \<and> nat_digits n \<noteq> []"
proof (induction n rule: nat_digits.induct)
  case (1 n)
  show ?case
  proof (cases "n < 10")
    case True
    then show ?thesis by (simp add: nat_digits.simps [of n] digit_char)
  next
    case False
    have "n mod 10 < 10" by simp
    then have "is_digit (char_of (48 + n mod 10))" "digit_val (char_of (48 + n mod 10)) = int (n mod 10)"
      by (blast intro: digit_char)+
    with False "1.IH" have "list_all is_digit (nat_digits n)"
      and v: "digits_val (nat_digits n) = 10 * int (n div 10) + int (n mod 10)"
      and "nat_digits n \<noteq> []"
      by (simp_all add: nat_digits.simps [of n])
    moreover have "10 * int (n div 10) + int (n mod 10) = int n" by presburger
    ultimately show ?thesis by simp
  qed
qed

lemma is_digit_special:
  "is_digit c \<Longrightarrow> c \<noteq> CHR ''-'' \<and> c \<noteq> CHR ''+'' \<and> c \<noteq> CHR ''.'' \<and> c \<noteq> CHR ''v'' \<and> \<not> is_space c"
  by (auto simp: is_digit_def is_space_def code_def)

lemma itoa_digits: "0 \<le> n \<Longrightarrow> list_all is_digit (itoa n) \<and> itoa n \<noteq> []"
  using nat_digits_props [of "nat n"] by (simp add: itoa_def)

lemma atoi_digits:
  assumes "list_all is_digit s" and "s \<noteq> []" and "fits64 (digits_val s)"
  shows "atoi s = Some (digits_val s)"
proof -
  obtain c cs where s: "s = c # cs" using assms(2) by (cases s) auto
  then have "c \<noteq> CHR ''-''" "c \<noteq> CHR ''+''" using assms(1) is_digit_special by auto
  with s assms show ?thesis by (simp add: atoi_def Let_def)
qed

lemma atoi_itoa: "0 \<le> n \<Longrightarrow> fits64 n \<Longrightarrow> atoi (itoa n) = Some n"
  using nat_digits_props [of "nat n"] atoi_digits [of "nat_digits (nat n)"] by (simp add: itoa_def)

end
