(* ===== verification/Errors.thy ===== *)
theory Errors
  imports GoStrings
begin

section \<open>API errors and their diagnostics (client/errors.go, models/common.go)\<close>

text \<open>
  A Go error is a value; \<open>fmt.Errorf("...: %w", err)\<close> wraps another one. \<open>ErrSys\<close> stands
  for the errors of the transport and the context that the client distinguishes with
  \<open>errors.Is\<close>; its text is the one the standard library produces. \<open>errors.As\<close> walks the
  chain of wrapped errors and stops at the first one of the requested type.
\<close>

record error_response =
  er_Code :: int
  er_Type :: string
  er_Message :: string
  er_Stack :: "string list"

record http_error =
  he_StatusCode :: int
  he_Status :: string
  he_Response :: "error_response option"

datatype sys_kind = ConnReset | NetTimeout | DeadlineExceeded | Canceled | EndOfFile | OtherSys

datatype gerror =
    ErrText string
  | ErrWrap string gerror
  | ErrSys sys_kind string
  | ErrHTTP http_error
  | ErrResponse error_response

fun ErrorResponse_Error :: "error_response \<Rightarrow> string" where
  "ErrorResponse_Error e = er_Message e @ '' ('' @ er_Type e @ '')''"

fun HTTPError_Error :: "http_error \<Rightarrow> string" where
  "HTTPError_Error e =
     (case he_Response e of
        Some r \<Rightarrow> er_Message r @ '' (HTTP '' @ itoa (he_StatusCode e) @ '' '' @ he_Status e
                  @ '', type '' @ er_Type r @ '')''
      | None \<Rightarrow> ''request failed with status '' @ itoa (he_StatusCode e) @ '' '' @ he_Status e)"

fun err_text :: "gerror \<Rightarrow> string" where
  "err_text (ErrText s) = s"
| "err_text (ErrWrap p e) = p @ err_text e"
| "err_text (ErrSys k s) = s"
| "err_text (ErrHTTP h) = HTTPError_Error h"
| "err_text (ErrResponse r) = ErrorResponse_Error r"

fun as_http :: "gerror \<Rightarrow> http_error option" where
  "as_http (ErrHTTP h) = Some h"
| "as_http (ErrWrap p e) = as_http e"
| "as_http _ = None"

fun as_response :: "gerror \<Rightarrow> error_response option" where
  "as_response (ErrResponse r) = Some r"
| "as_response (ErrWrap p e) = as_response e"
| "as_response _ = None"

fun is_sys :: "gerror \<Rightarrow> sys_kind \<Rightarrow> bool" where
  "is_sys (ErrSys k s) k' = (k = k')"
| "is_sys (ErrWrap p e) k' = is_sys e k'"
| "is_sys _ k' = False"

definition AsNotFound :: "http_error \<Rightarrow> bool" where
  "AsNotFound e = (he_StatusCode e = 404)"

definition IsNotFoundError :: "gerror \<Rightarrow> bool" where
  "IsNotFoundError err = (case as_http err of Some h \<Rightarrow> AsNotFound h | None \<Rightarrow> False)"

definition errorHint :: "gerror \<Rightarrow> string" where
  "errorHint err =
     (let s = err_text err in
      if contains_sub s ''connection refused''
        then ''The Gravitino server is unreachable. Verify the URI and that the server is running.''
      else if contains_sub s ''no such host''
        then ''Host not found. Verify the Gravitino server hostname is correct.''
      else if contains_sub s ''certificate'' \<or> contains_sub s ''x509''
        then ''TLS certificate error. If using self-signed certificates, configure your HTTP client accordingly.''
      else if contains_sub s ''401'' \<or> contains_sub s ''Unauthorized''
        then ''Authentication failed. Check your credentials (username/password or OAuth token).''
      else if contains_sub s ''timeout'' \<or> contains_sub s ''deadline exceeded''
        then ''Request timed out. The Gravitino server may be overloaded or unreachable; the provider aborts each HTTP attempt after the configured timeout (30s by default; raise it with the provider's timeout attribute or GRAVITINO_TIMEOUT).''
      else if contains_sub s ''invalid character''
        then ''Invalid response from server. The URI may be incorrect (e.g., pointing to a web page instead of the API).''
      else [])"

definition hint_diags :: "gerror \<Rightarrow> diags" where
  "hint_diags err = (if errorHint err \<noteq> [] then [error_diag ''Hint'' (errorHint err)] else [])"

definition stack_diags :: "string list \<Rightarrow> diags" where
  "stack_diags stack =
     (if stack \<noteq> [] then [error_diag ''Server Stack Trace'' (join [CHR 10] stack)] else [])"

definition failed_summary :: "string \<Rightarrow> string \<Rightarrow> string" where
  "failed_summary operation resource = ''Failed '' @ operation @ '' '' @ quote resource"

definition NewResourceError :: "string \<Rightarrow> string \<Rightarrow> gerror \<Rightarrow> diags" where
  "NewResourceError operation resource err =
     (case as_http err of
        Some h \<Rightarrow>
          (case he_Response h of
             Some r \<Rightarrow>
               [error_diag (failed_summary operation resource)
                  (''Server returned ['' @ itoa (he_StatusCode h) @ '' '' @ he_Status h @ ''] ('' @ er_Type r
                   @ ''): '' @ er_Message r)]
               @ stack_diags (er_Stack r)
           | None \<Rightarrow>
               [error_diag (failed_summary operation resource) (HTTPError_Error h)] @ hint_diags err)
      | None \<Rightarrow>
          (case as_response err of
             Some r \<Rightarrow>
               [error_diag (failed_summary operation resource)
                  (''Server returned ['' @ itoa (er_Code r) @ '' '' @ er_Type r @ '']: '' @ er_Message r)]
               @ stack_diags (er_Stack r)
           | None \<Rightarrow>
               [error_diag (failed_summary operation resource) (err_text err)] @ hint_diags err))"

text \<open>\<open>isDropRefused\<close>: a typed payload is authoritative, only an untyped 409 falls back to
  the status.\<close>

definition drop_refused_types :: "string list" where
  "drop_refused_types = [''InUseException'', ''MetalakeInUseException'', ''CatalogInUseException'',
     ''NonEmptyMetalakeException'', ''NonEmptyCatalogException'']"

definition isDropRefused :: "gerror \<Rightarrow> bool" where
  "isDropRefused err =
     (case as_http err of
        None \<Rightarrow> False
      | Some h \<Rightarrow>
          (case he_Response h of
             Some r \<Rightarrow> if er_Type r \<noteq> [] then er_Type r \<in> set drop_refused_types
                       else he_StatusCode h = 409
           | None \<Rightarrow> he_StatusCode h = 409))"

definition force_destroy_diag :: "string \<Rightarrow> diagnostic" where
  "force_destroy_diag resource = error_diag ''force_destroy is false''
     (''Gravitino refused to drop '' @ quote resource @ '' because it still contains objects or is in use. ''
      @ ''Set force_destroy = true on this resource and run terraform destroy again to drop it ''
      @ ''together with everything underneath it, or delete the nested objects first.'')"

definition NewDropError :: "string \<Rightarrow> string \<Rightarrow> bool \<Rightarrow> gerror \<Rightarrow> diags" where
  "NewDropError operation resource forceDestroy err =
     (let ds = NewResourceError operation resource err in
      if forceDestroy \<or> \<not> isDropRefused err then ds else ds @ [force_destroy_diag resource])"

text \<open>\<open>NewStatisticsError\<close> (client/statistics.go) names the two refusals of a statistics write.\<close>

definition NewStatisticsError :: "string \<Rightarrow> string \<Rightarrow> gerror \<Rightarrow> diags" where
  "NewStatisticsError operation resource err =
     (case as_http err of
        None \<Rightarrow> NewResourceError operation resource err
      | Some h \<Rightarrow>
          if he_StatusCode h = 409 then
            [error_diag (''Statistic is unmodifiable ('' @ operation @ '' '' @ quote resource @ '')'')
               (''Gravitino refused the request with [409 Conflict]: '' @ HTTPError_Error h @ ''. ''
                @ ''The statistic is owned by the catalog behind '' @ quote resource @ '' (for example Iceberg), which recomputes it; ''
                @ ''only custom statistics that Gravitino manages itself can be written or dropped. ''
                @ ''Remove the statistic from the resource configuration instead of setting it here.'')]
          else if he_StatusCode h = 501 then
            [error_diag (''Statistics are not supported ('' @ operation @ '' '' @ quote resource @ '')'')
               (''Gravitino refused the request with [501 Not Implemented]: '' @ HTTPError_Error h @ ''. ''
                @ ''The catalog behind '' @ quote resource @ '' does not implement statistics. ''
                @ ''Statistics are available on lakehouse catalogs (for example Hive or Iceberg); ''
                @ ''remove this resource or point it at a supported table.'')]
          else NewResourceError operation resource err)"

subsection \<open>Facts the handlers rest on\<close>

lemma HasError_NewResourceError [simp]: "HasError (NewResourceError op res err)"
  by (simp add: NewResourceError_def split: option.splits)

lemma HasError_NewDropError [simp]: "HasError (NewDropError op res f err)"
  by (simp add: NewDropError_def Let_def)

lemma HasError_NewStatisticsError [simp]: "HasError (NewStatisticsError op res err)"
  by (simp add: NewStatisticsError_def split: option.splits)

lemma as_http_wrap [simp]: "IsNotFoundError (ErrWrap p e) = IsNotFoundError e"
  by (simp add: IsNotFoundError_def)

lemma quote_ne [simp]: "quote s \<noteq> []"
  by (simp add: quote_def)

lemma summary_neq_force: "dg_summary (force_destroy_diag r) \<noteq> failed_summary op res"
  by (simp add: force_destroy_diag_def error_diag_def failed_summary_def)

lemma force_destroy_diag_notin:
  "force_destroy_diag r \<notin> set (NewResourceError op res err)"
proof -
  have "\<forall>d \<in> set (NewResourceError op res err).
      dg_summary d = failed_summary op res \<or> dg_summary d = ''Hint'' \<or> dg_summary d = ''Server Stack Trace''"
    by (auto simp: NewResourceError_def error_diag_def stack_diags_def hint_diags_def
        split: option.splits)
  moreover have "dg_summary (force_destroy_diag r) \<noteq> ''Hint''"
    "dg_summary (force_destroy_diag r) \<noteq> ''Server Stack Trace''"
    by (simp_all add: force_destroy_diag_def error_diag_def)
  ultimately show ?thesis using summary_neq_force by blast
qed

subsection \<open>Properties\<close>

text \<open>A refused drop is explained exactly when the explanation applies: the hint to set
  force_destroy is given if and only if the drop was not forced and the server refused it
  because the object is in use or not empty. A typed payload decides this alone: a 409 of
  another type gets no hint.\<close>

theorem force_destroy_hint_iff:
  "(force_destroy_diag res \<in> set (NewDropError op res force err) \<longleftrightarrow> \<not> force \<and> isDropRefused err) \<and>
   (as_http err = Some h \<and> he_Response h = Some r \<and> er_Type r \<noteq> [] \<longrightarrow>
      (isDropRefused err \<longleftrightarrow> er_Type r \<in> set drop_refused_types))"
  using force_destroy_diag_notin
  by (auto simp: NewDropError_def Let_def isDropRefused_def)

definition in_use_error :: gerror where
  "in_use_error = ErrHTTP \<lparr>he_StatusCode = 409, he_Status = ''Conflict'', he_Response =
     Some \<lparr>er_Code = 1009, er_Type = ''NonEmptyCatalogException'', er_Message = ''not empty'', er_Stack = []\<rparr>\<rparr>"

theorem force_destroy_hint_iff_witness:
  "force_destroy_diag ''c'' \<in> set (NewDropError ''delete catalog'' ''c'' False in_use_error)"
proof -
  have "isDropRefused in_use_error" by code_simp
  then show ?thesis using force_destroy_hint_iff [of "''c''" "''delete catalog''" False in_use_error] by simp
qed

end
