(* ===== verification/Version.thy ===== *)
theory Version
  imports Errors
begin

section \<open>Server versions and the version gates\<close>

text \<open>
  Part one is models/version.go (and the object-type spelling of models/privilege_names.go):
  parsing and comparing Gravitino version strings. Part two is client/server_version.go and
  client/version.go: the version the client remembers and the two kinds of gate. The
  permissive gate (\<open>AtLeast\<close>) treats an unknown version as current; the fail-closed gates
  (\<open>Check...Supported\<close>) resolve the version and refuse when it stays unknown.

  The probe \<open>GET /api/version\<close> is a parameter: a state transformer that returns the version
  string of the response or an error.
\<close>

subsection \<open>Version strings\<close>

text \<open>The Go \<open>[3]int\<close>, with the lexicographic order of releases.\<close>

datatype version3 = V3 (major: int) (minor: int) (patch: int)

instantiation version3 :: linorder
begin

definition less_eq_version3 :: "version3 \<Rightarrow> version3 \<Rightarrow> bool" where
  "v \<le> w \<longleftrightarrow> (major v, minor v, patch v) \<le> (major w, minor w, patch w)"

definition less_version3 :: "version3 \<Rightarrow> version3 \<Rightarrow> bool" where
  "v < w \<longleftrightarrow> (major v, minor v, patch v) < (major w, minor w, patch w)"

instance
proof
  fix v w :: version3
  assume "v \<le> w" and "w \<le> v"
  then show "v = w" by (cases v; cases w) (auto simp: less_eq_version3_def)
qed (auto simp: less_eq_version3_def less_version3_def)

end

fun set_component :: "nat \<Rightarrow> int \<Rightarrow> version3 \<Rightarrow> version3" where
  "set_component i n (V3 a b c) =
     (if i = 0 then V3 n b c else if i = 1 then V3 a n c else V3 a b n)"

fun parse_components :: "nat \<Rightarrow> string list \<Rightarrow> version3 \<Rightarrow> version3 option" where
  "parse_components i [] parsed = Some parsed"
| "parse_components i (part # parts) parsed =
     (if i \<ge> 3 then Some parsed
      else case atoi (trim_space part) of
             None \<Rightarrow> None
           | Some n \<Rightarrow> if n < 0 then None
                       else parse_components (Suc i) parts (set_component i n parsed))"

definition cut_suffix :: "string \<Rightarrow> string" where
  "cut_suffix v = takeWhile (\<lambda>c. c \<noteq> CHR ''-'' \<and> c \<noteq> CHR ''+'') v"

definition parseServerVersion :: "string \<Rightarrow> version3 option" where
  "parseServerVersion version =
     (let v = cut_suffix (trim_prefix (trim_space version) ''v'')
      in if v = [] then None else parse_components 0 (split_on (CHR ''.'') v) (V3 0 0 0))"

definition ValidServerVersion :: "string \<Rightarrow> bool" where
  "ValidServerVersion version = (parseServerVersion version \<noteq> None)"

definition ServerVersionAtLeast :: "string \<Rightarrow> int \<Rightarrow> int \<Rightarrow> int \<Rightarrow> bool" where
  "ServerVersionAtLeast version maj mnr pat =
     (case parseServerVersion version of
        None \<Rightarrow> False
      | Some p \<Rightarrow> if major p \<noteq> maj then major p > maj
                  else if minor p \<noteq> mnr then minor p > mnr
                  else patch p \<ge> pat)"

subsection \<open>Object and index types added in 1.3.1\<close>

definition CanonicalObjectType :: "string \<Rightarrow> string" where
  "CanonicalObjectType objectType = to_upper (trim_space objectType)"

definition CanonicalPrivilege :: "string \<Rightarrow> string" where
  "CanonicalPrivilege v = to_upper (trim_space v)"

definition ObjectTypeRequiresGravitino131 :: "string \<Rightarrow> bool" where
  "ObjectTypeRequiresGravitino131 objectType =
     (CanonicalObjectType objectType \<in> {''VIEW'', ''FUNCTION''})"

definition IndexTypeRequiresGravitino131 :: "string \<Rightarrow> bool" where
  "IndexTypeRequiresGravitino131 indexType =
     (to_lower (trim_space indexType) \<in>
        {''data_skipping_minmax'', ''data_skipping_bloom_filter'', ''data_skipping_set''})"

subsection \<open>The detected version of a client\<close>

text \<open>The part of \<open>client.Client\<close> the gates use is its \<open>version\<close> field, guarded by a
  mutex; \<open>'s\<close> is the rest of the world the probe acts on.\<close>

record 's vclient =
  vc_version :: string
  vc_world :: 's

type_synonym 's probe = "'s \<Rightarrow> (gerror + string) \<times> 's"

definition ServerVersion :: "'s vclient \<Rightarrow> string" where
  "ServerVersion c = vc_version c"

definition setServerVersion :: "string \<Rightarrow> 's vclient \<Rightarrow> 's vclient" where
  "setServerVersion v c = c\<lparr>vc_version := v\<rparr>"

definition GetVersion :: "'s probe \<Rightarrow> 's vclient \<Rightarrow> (gerror + string) \<times> 's vclient" where
  "GetVersion probe c = (let (r, w) = probe (vc_world c) in (r, c\<lparr>vc_world := w\<rparr>))"

definition DetectServerVersion :: "'s probe \<Rightarrow> 's vclient \<Rightarrow> gerror option \<times> 's vclient" where
  "DetectServerVersion probe c =
     (let (r, c1) = GetVersion probe c in
      case r of
        Inl err \<Rightarrow> (Some err, c1)
      | Inr version \<Rightarrow>
          if \<not> ValidServerVersion version
          then (Some (ErrText (''the server reported an unparsable version '' @ quote version)), c1)
          else (None, setServerVersion version c1))"

definition AtLeast :: "'s vclient \<Rightarrow> int \<Rightarrow> int \<Rightarrow> int \<Rightarrow> bool" where
  "AtLeast c maj mnr pat =
     (let version = ServerVersion c in
      if \<not> ValidServerVersion version then True
      else ServerVersionAtLeast version maj mnr pat)"

definition SupportsExternalType :: "'s vclient \<Rightarrow> bool" where
  "SupportsExternalType c = AtLeast c 1 3 1"

definition ResolveServerVersion :: "'s probe \<Rightarrow> 's vclient \<Rightarrow> (gerror + string) \<times> 's vclient" where
  "ResolveServerVersion probe c =
     (if ValidServerVersion (ServerVersion c) then (Inr (ServerVersion c), c)
      else
        let (r, c1) = GetVersion probe c in
        case r of
          Inl err \<Rightarrow> (Inl err, c1)
        | Inr version \<Rightarrow>
            (Inr version, if ValidServerVersion version then setServerVersion version c1 else c1))"

subsection \<open>Fail-closed gates\<close>

definition CheckMetadataObjectTypeSupported ::
  "'s probe \<Rightarrow> string \<Rightarrow> 's vclient \<Rightarrow> gerror option \<times> 's vclient" where
  "CheckMetadataObjectTypeSupported probe objectType c =
     (if \<not> ObjectTypeRequiresGravitino131 objectType then (None, c)
      else
        let (r, c1) = ResolveServerVersion probe c in
        case r of
          Inl err \<Rightarrow>
            (Some (ErrWrap (''cannot verify that metadata object type '' @ quote objectType
                            @ '' is supported by the server: '') err), c1)
        | Inr version \<Rightarrow>
            if \<not> ServerVersionAtLeast version 1 3 1
            then (Some (ErrText (''metadata object type '' @ quote objectType
                    @ '' requires Gravitino 1.3.1 or newer, but the server reports version ''
                    @ quote version)), c1)
            else (None, c1))"

definition CheckPolicyObjectTypesSupported ::
  "'s probe \<Rightarrow> string list \<Rightarrow> 's vclient \<Rightarrow> gerror option \<times> 's vclient" where
  "CheckPolicyObjectTypesSupported probe objectTypes c =
     (let unsupported = map CanonicalObjectType (filter ObjectTypeRequiresGravitino131 objectTypes) in
      if unsupported = [] then (None, c)
      else
        let vals = join '', '' (sort unsupported);
            (r, c1) = ResolveServerVersion probe c in
        case r of
          Inl err \<Rightarrow>
            (Some (ErrWrap (''cannot verify that supported_object_types value(s) '' @ vals
                            @ '' are supported by the server: '') err), c1)
        | Inr version \<Rightarrow>
            if \<not> ServerVersionAtLeast version 1 3 1
            then (Some (ErrText (''supported_object_types value(s) '' @ vals
                    @ '' require Gravitino >= 1.3.1, but the server reports version ''
                    @ quote version)), c1)
            else (None, c1))"

text \<open>The gate sees of an index its type and whether it carries properties.\<close>

definition index_feature :: "string list \<Rightarrow> bool \<Rightarrow> string" where
  "index_feature restricted hasProperties =
     (if restricted \<noteq> [] \<and> hasProperties
      then ''index type(s) '' @ join '', '' restricted @ '' and the index properties''
      else if restricted \<noteq> [] then ''index type(s) '' @ join '', '' restricted
      else ''the index properties'')"

definition CheckIndexesSupported ::
  "'s probe \<Rightarrow> (string \<times> 'p list) list \<Rightarrow> 's vclient \<Rightarrow> gerror option \<times> 's vclient" where
  "CheckIndexesSupported probe indexes c =
     (let restricted = map (\<lambda>(t, _). to_lower (trim_space t))
                         (filter (\<lambda>(t, _). IndexTypeRequiresGravitino131 t) indexes);
          hasProperties = list_ex (\<lambda>(_, ps). length ps > 0) indexes in
      if restricted = [] \<and> \<not> hasProperties then (None, c)
      else
        let feature = index_feature (sort restricted) hasProperties;
            (r, c1) = ResolveServerVersion probe c in
        case r of
          Inl err \<Rightarrow>
            (Some (ErrWrap (''cannot verify that '' @ feature @ '' are supported by the server: '') err), c1)
        | Inr version \<Rightarrow>
            if \<not> ServerVersionAtLeast version 1 3 1
            then (Some (ErrText (feature @ '' require Gravitino >= 1.3.1, but the server reports version ''
                    @ quote version)), c1)
            else (None, c1))"

subsection \<open>Lemmas: parsing\<close>

lemma AtLeast_iff_le:
  "ServerVersionAtLeast s a b c \<longleftrightarrow> (\<exists>v. parseServerVersion s = Some v \<and> V3 a b c \<le> v)"
  by (auto simp: ServerVersionAtLeast_def less_eq_version3_def split: option.splits)

lemma AtLeast_valid: "ServerVersionAtLeast s a b c \<Longrightarrow> ValidServerVersion s"
  by (auto simp: AtLeast_iff_le ValidServerVersion_def)

definition release_string :: "int \<Rightarrow> int \<Rightarrow> int \<Rightarrow> string" where
  "release_string a b c = itoa a @ ''.'' @ itoa b @ ''.'' @ itoa c"

lemma release_chars:
  "0 \<le> a \<Longrightarrow> 0 \<le> b \<Longrightarrow> 0 \<le> c \<Longrightarrow> x \<in> set (release_string a b c) \<Longrightarrow> is_digit x \<or> x = CHR ''.''"
  using itoa_digits [of a] itoa_digits [of b] itoa_digits [of c]
  by (auto simp: release_string_def list_all_iff)

lemma release_char_props:
  assumes "is_digit x \<or> x = CHR ''.''"
  shows "x \<noteq> CHR ''-''" "x \<noteq> CHR ''+''" "x \<noteq> CHR ''v''" "\<not> is_space x"
  using assms is_digit_special by (auto simp: is_space_def code_def)

lemma split_release:
  assumes "0 \<le> a" "0 \<le> b" "0 \<le> c"
  shows "split_on (CHR ''.'') (release_string a b c) = [itoa a, itoa b, itoa c]"
proof -
  have "CHR ''.'' \<notin> set (itoa n)" if "0 \<le> n" for n
    using itoa_digits [OF that] is_digit_special by (auto simp: list_all_iff)
  then have "split_on (CHR ''.'') (join [CHR ''.''] [itoa a, itoa b, itoa c]) = [itoa a, itoa b, itoa c]"
    using assms by (intro split_on_join) auto
  then show ?thesis by (simp add: release_string_def)
qed

lemma trim_space_itoa: "0 \<le> n \<Longrightarrow> trim_space (itoa n) = itoa n"
  using itoa_digits [of n] is_digit_special by (intro trim_space_no_space) (auto simp: list_all_iff)

lemma parse_components_release:
  assumes "0 \<le> a" "0 \<le> b" "0 \<le> c" "fits64 a" "fits64 b" "fits64 c"
  shows "parse_components 0 [itoa a, itoa b, itoa c] (V3 0 0 0) = Some (V3 a b c)"
  using assms by (simp add: trim_space_itoa atoi_itoa)

lemma cut_suffix_append:
  "\<forall>x \<in> set v. x \<noteq> CHR ''-'' \<and> x \<noteq> CHR ''+'' \<Longrightarrow>
   t = [] \<or> hd t = CHR ''-'' \<or> hd t = CHR ''+'' \<Longrightarrow> cut_suffix (v @ t) = v"
  by (cases t) (auto simp: cut_suffix_def takeWhile_append2)

subsection \<open>Lemmas: the remembered version\<close>

lemma GetVersion_version [simp]: "vc_version (snd (GetVersion probe c)) = vc_version c"
  by (simp add: GetVersion_def split: prod.splits)

lemma Resolve_known:
  "ValidServerVersion (vc_version c) \<Longrightarrow> ResolveServerVersion probe c = (Inr (vc_version c), c)"
  by (simp add: ResolveServerVersion_def ServerVersion_def)

lemma Resolve_valid_stored:
  assumes "ResolveServerVersion probe c = (Inr v, c')" and "ValidServerVersion v"
  shows "vc_version c' = v"
  using assms
  by (auto simp: ResolveServerVersion_def ServerVersion_def setServerVersion_def
      split: if_splits prod.splits sum.splits)

subsection \<open>The contract of a fail-closed gate\<close>

locale fail_closed_gate =
  fixes gate :: "'s probe \<Rightarrow> 'a \<Rightarrow> 's vclient \<Rightarrow> gerror option \<times> 's vclient"
    and restricted :: "'a \<Rightarrow> bool"
  assumes free: "\<not> restricted x \<Longrightarrow> gate probe x c = (None, c)"
    and outcome: "restricted x \<Longrightarrow>
      fst (gate probe x c) = None \<longleftrightarrow>
      (\<exists>v. fst (ResolveServerVersion probe c) = Inr v \<and> ServerVersionAtLeast v 1 3 1)"
    and resolves: "restricted x \<Longrightarrow> snd (gate probe x c) = snd (ResolveServerVersion probe c)"
begin

text \<open>A restricted value passes only when the client then remembers a version of at least 1.3.1.\<close>

lemma passed_remembers:
  assumes "restricted x" and "fst (gate probe x c) = None"
  shows "ServerVersionAtLeast (vc_version (snd (gate probe x c))) 1 3 1"
proof -
  obtain v where v: "fst (ResolveServerVersion probe c) = Inr v" "ServerVersionAtLeast v 1 3 1"
    using assms outcome by blast
  then have "ResolveServerVersion probe c = (Inr v, snd (ResolveServerVersion probe c))"
    by (metis prod.collapse)
  with v show ?thesis
    using Resolve_valid_stored AtLeast_valid assms(1) resolves by metis
qed

lemma known_no_probe:
  assumes "ValidServerVersion (vc_version c)"
  shows "gate probe x c = (fst (gate probe x c), c)"
proof (cases "restricted x")
  case True
  with assms have "snd (gate probe x c) = c" by (simp add: resolves Resolve_known)
  then show ?thesis by (metis prod.collapse)
qed (simp add: free)

lemma failed_probe_refuses:
  assumes "restricted x" and "fst (ResolveServerVersion probe c) = Inl err"
  shows "fst (gate probe x c) \<noteq> None"
  using assms outcome by simp

lemma passes_again:
  assumes "fst (gate probe x c) = None"
  shows "gate probe' x (snd (gate probe x c)) = (None, snd (gate probe x c))"
proof (cases "restricted x")
  case True
  define c1 where "c1 = snd (gate probe x c)"
  have al: "ServerVersionAtLeast (vc_version c1) 1 3 1"
    using passed_remembers True assms by (simp add: c1_def)
  then have val: "ValidServerVersion (vc_version c1)" by (rule AtLeast_valid)
  then have "fst (ResolveServerVersion probe' c1) = Inr (vc_version c1)" by (simp add: Resolve_known)
  with al True have "fst (gate probe' x c1) = None" using outcome by blast
  with known_no_probe [OF val] show ?thesis by (metis c1_def)
qed (simp add: free)

end

lemmas gate_defs = CheckMetadataObjectTypeSupported_def CheckPolicyObjectTypesSupported_def
  CheckIndexesSupported_def

definition policy_types_restricted :: "string list \<Rightarrow> bool" where
  "policy_types_restricted ts = list_ex ObjectTypeRequiresGravitino131 ts"

definition indexes_restricted :: "(string \<times> 'p list) list \<Rightarrow> bool" where
  "indexes_restricted ixs = list_ex (\<lambda>(t, ps). IndexTypeRequiresGravitino131 t \<or> ps \<noteq> []) ixs"

interpretation object_gate: fail_closed_gate CheckMetadataObjectTypeSupported ObjectTypeRequiresGravitino131
  by unfold_locales
    (auto simp: CheckMetadataObjectTypeSupported_def split: prod.splits sum.splits)

interpretation policy_gate: fail_closed_gate CheckPolicyObjectTypesSupported policy_types_restricted
  by unfold_locales
    (auto simp: CheckPolicyObjectTypesSupported_def policy_types_restricted_def Let_def
      list_ex_iff filter_empty_conv split: prod.splits sum.splits)

lemma indexes_restricted_iff:
  "indexes_restricted ixs \<longleftrightarrow>
     filter (\<lambda>(t, _). IndexTypeRequiresGravitino131 t) ixs \<noteq> [] \<or> list_ex (\<lambda>(_, ps). length ps > 0) ixs"
  by (auto simp: indexes_restricted_def list_ex_iff filter_empty_conv)

interpretation index_gate: fail_closed_gate CheckIndexesSupported indexes_restricted
  by unfold_locales
    (auto simp: CheckIndexesSupported_def indexes_restricted_iff Let_def
      split: prod.splits sum.splits)

subsection \<open>Properties\<close>

lemma trim_prefix_v:
  "\<forall>x \<in> set (take 1 r). x \<noteq> CHR ''v'' \<Longrightarrow> pre \<in> {[], ''v''} \<Longrightarrow> trim_prefix (pre @ r) ''v'' = r"
  by (cases r) (auto simp: trim_prefix_def has_prefix_def)

text \<open>Every version string a Gravitino release reports (three numbers, an optional leading v
  and a suffix such as -SNAPSHOT or +build) is read as its three numbers, and the comparison
  with a required release is the lexicographic order of the triples, so the suffix never
  makes a snapshot look older than its release.\<close>

theorem release_compare:
  assumes "0 \<le> a" "0 \<le> b" "0 \<le> c" "fits64 a" "fits64 b" "fits64 c"
    and "pre \<in> {[], ''v''}" and "suf = [] \<or> hd suf = CHR ''-'' \<or> hd suf = CHR ''+''"
    and "\<forall>x \<in> set suf. \<not> is_space x"
  shows "parseServerVersion (pre @ release_string a b c @ suf) = Some (V3 a b c) \<and>
    (ServerVersionAtLeast (pre @ release_string a b c @ suf) x y z \<longleftrightarrow> V3 x y z \<le> V3 a b c)"
proof -
  let ?r = "release_string a b c"
  have chars: "is_digit x \<or> x = CHR ''.''" if "x \<in> set ?r" for x
    using release_chars [OF assms(1-3) that] .
  have "\<forall>x \<in> set (pre @ ?r @ suf). \<not> is_space x"
    using assms(7,9) release_char_props(4) [OF chars] by (auto simp: is_space_def code_def)
  then have "trim_space (pre @ ?r @ suf) = pre @ ?r @ suf" by (rule trim_space_no_space)
  moreover have "?r \<noteq> []" by (simp add: release_string_def)
  moreover have "trim_prefix (pre @ ?r @ suf) ''v'' = ?r @ suf"
  proof (rule trim_prefix_v [OF _ assms(7)])
    have "set (take 1 (?r @ suf)) \<subseteq> set ?r" using \<open>?r \<noteq> []\<close> by (cases ?r) auto
    then show "\<forall>x \<in> set (take 1 (?r @ suf)). x \<noteq> CHR ''v''" using release_char_props(3) [OF chars] by blast
  qed
  moreover have "cut_suffix (?r @ suf) = ?r"
    using release_char_props(1,2) [OF chars] assms(8) by (intro cut_suffix_append) auto
  ultimately have "parseServerVersion (pre @ ?r @ suf) = Some (V3 a b c)"
    using parse_components_release [OF assms(1-6)] split_release [OF assms(1-3)]
    by (simp add: parseServerVersion_def del: parse_components.simps)
  then show ?thesis by (simp add: AtLeast_iff_le)
qed

theorem release_compare_witness:
  "ServerVersionAtLeast ''v1.10.0-SNAPSHOT'' 1 3 1"
proof -
  have eq: "''v1.10.0-SNAPSHOT'' = ''v'' @ release_string 1 10 0 @ ''-SNAPSHOT''" by code_simp
  have "\<forall>x \<in> set ''-SNAPSHOT''. \<not> is_space x" by (simp add: is_space_def code_def)
  then have "ServerVersionAtLeast (''v'' @ release_string 1 10 0 @ ''-SNAPSHOT'') 1 3 1"
    using release_compare [of 1 10 0 "''v''" "''-SNAPSHOT''" 1 3 1]
    by (simp add: fits64_def less_eq_version3_def)
  then show ?thesis by (simp only: eq)
qed

text \<open>C15: The three gates fail closed. A metadata object type, a policy object type or an index that
  needs 1.3.1 is let through only if the client afterwards remembers a version of at least
  1.3.1; if the version cannot be resolved, the request is refused.\<close>

theorem gates_fail_closed:
  "(ObjectTypeRequiresGravitino131 t \<and> fst (CheckMetadataObjectTypeSupported probe t c) = None \<longrightarrow>
      ServerVersionAtLeast (vc_version (snd (CheckMetadataObjectTypeSupported probe t c))) 1 3 1) \<and>
   (policy_types_restricted ts \<and> fst (CheckPolicyObjectTypesSupported probe ts c) = None \<longrightarrow>
      ServerVersionAtLeast (vc_version (snd (CheckPolicyObjectTypesSupported probe ts c))) 1 3 1) \<and>
   (indexes_restricted ixs \<and> fst (CheckIndexesSupported probe ixs c) = None \<longrightarrow>
      ServerVersionAtLeast (vc_version (snd (CheckIndexesSupported probe ixs c))) 1 3 1) \<and>
   (ObjectTypeRequiresGravitino131 t \<and> policy_types_restricted ts \<and> indexes_restricted ixs \<and>
      fst (ResolveServerVersion probe c) = Inl err \<longrightarrow>
      fst (CheckMetadataObjectTypeSupported probe t c) \<noteq> None \<and>
      fst (CheckPolicyObjectTypesSupported probe ts c) \<noteq> None \<and>
      fst (CheckIndexesSupported probe ixs c) \<noteq> None)"
  by (auto intro: object_gate.passed_remembers policy_gate.passed_remembers index_gate.passed_remembers
      dest: object_gate.failed_probe_refuses policy_gate.failed_probe_refuses index_gate.failed_probe_refuses)

definition old_server :: "unit vclient" where
  "old_server = \<lparr>vc_version = [], vc_world = ()\<rparr>"

theorem gates_fail_closed_witness:
  "ServerVersionAtLeast (vc_version (snd (CheckMetadataObjectTypeSupported (\<lambda>w. (Inr ''1.4.0'', w)) ''view'' old_server))) 1 3 1
   \<and> fst (CheckMetadataObjectTypeSupported (\<lambda>w. (Inl (ErrText ''down''), w)) '' View'' old_server) \<noteq> None"
proof -
  have 1: "ObjectTypeRequiresGravitino131 ''view''" "ObjectTypeRequiresGravitino131 '' View''"
    "policy_types_restricted ['' View'']" "indexes_restricted [(''data_skipping_set'', [] :: unit list)]"
    by code_simp+
  have "fst (CheckMetadataObjectTypeSupported (\<lambda>w. (Inr ''1.4.0'', w)) ''view'' old_server) = None" by code_simp
  moreover have "fst (ResolveServerVersion (\<lambda>w. (Inl (ErrText ''down''), w)) old_server) = Inl (ErrText ''down'')"
    by code_simp
  ultimately show ?thesis
    using 1 gates_fail_closed [of "''view''" "\<lambda>w. (Inr ''1.4.0'', w)" old_server "['' View'']" "[(''data_skipping_set'', [] :: unit list)]"]
      gates_fail_closed [of "'' View''" "\<lambda>w. (Inl (ErrText ''down''), w)" old_server "['' View'']" "[(''data_skipping_set'', [] :: unit list)]"]
    by blast
qed

text \<open>When the version probe fails, the two kinds of gate disagree: the planning check for the
  external column type treats the server as current, while the checks made before a request
  refuse a type that needs 1.3.1.\<close>

theorem unknown_version_is_current_only_for_external_types:
  assumes "vc_version c = []" "ObjectTypeRequiresGravitino131 t" "fst (probe (vc_world c)) = Inl err"
  shows "SupportsExternalType c \<and> fst (CheckMetadataObjectTypeSupported probe t c) \<noteq> None"
proof -
  have inv: "\<not> ValidServerVersion (vc_version c)"
    by (simp add: assms(1)) code_simp
  have "fst (ResolveServerVersion probe c) = Inl err"
    using inv assms(3) by (auto simp: ResolveServerVersion_def ServerVersion_def GetVersion_def split: prod.splits)
  then show ?thesis
    using inv object_gate.failed_probe_refuses [OF assms(2)]
    by (simp add: SupportsExternalType_def AtLeast_def ServerVersion_def Let_def)
qed

theorem unknown_version_is_current_only_for_external_types_witness:
  "SupportsExternalType old_server \<and>
   fst (CheckMetadataObjectTypeSupported (\<lambda>w. (Inl (ErrText ''down''), w)) ''FUNCTION'' old_server) \<noteq> None"
  by (rule unknown_version_is_current_only_for_external_types [of _ _ _ "ErrText ''down''"]) code_simp+

end
