(* ===== verification/Json.thy ===== *)
theory Json
  imports GoStrings
begin

section \<open>JSON text (encoding/json)\<close>

text \<open>
  The provider compares and stores JSON documents as text, so the model goes down to the
  text: \<open>json_text\<close> is the compact output of an encoder with \<open>SetEscapeHTML(false)\<close>
  (\<open>marshalCompactJSON\<close> in models/datatype.go), \<open>parse_json\<close> is the decoder's grammar.
  A number keeps its literal. Bytes above 127 are copied by both directions, which is what
  encoding/json does with valid UTF-8 other than U+2028 and U+2029. The fuel of the parser is
  the length of its input plus one; \<open>parse_json_text\<close> shows that this is enough for every
  document the encoder writes.
\<close>

datatype json = JNull | JBool bool | JNum string | is_JStr: JStr string
  | JArr "json list" | JObj "(string \<times> json) list"

subsection \<open>Encoding\<close>

definition json_escape :: "char \<Rightarrow> string" where
  "json_escape c =
     (if code c = 34 then [CHR 0x5C, CHR 0x22]
      else if code c = 92 then [CHR 0x5C, CHR 0x5C]
      else if code c = 8 then [CHR 0x5C, CHR ''b'']
      else if code c = 12 then [CHR 0x5C, CHR ''f'']
      else if code c = 10 then [CHR 0x5C, CHR ''n'']
      else if code c = 13 then [CHR 0x5C, CHR ''r'']
      else if code c = 9 then [CHR 0x5C, CHR ''t'']
      else if code c < 32
        then [CHR 0x5C, CHR ''u'', CHR ''0'', CHR ''0'', hex_digit (code c div 16), hex_digit (code c mod 16)]
      else [c])"

definition string_text :: "string \<Rightarrow> string" where
  "string_text s = CHR 0x22 # concat (map json_escape s) @ [CHR 0x22]"

fun json_text :: "json \<Rightarrow> string" where
  "json_text JNull = ''null''"
| "json_text (JBool b) = (if b then ''true'' else ''false'')"
| "json_text (JNum n) = n"
| "json_text (JStr s) = string_text s"
| "json_text (JArr xs) = ''['' @ join '','' (map json_text xs) @ '']''"
| "json_text (JObj kvs) =
     ''{'' @ join '','' (map (\<lambda>kv. string_text (fst kv) @ '':'' @ json_text (snd kv)) kvs) @ ''}''"

text \<open>A Go map is encoded with its keys in order.\<close>

definition jmap :: "(string \<times> json) list \<Rightarrow> json" where
  "jmap kvs = JObj (sort_key fst kvs)"

subsection \<open>Decoding\<close>

definition is_json_ws :: "char \<Rightarrow> bool" where
  "is_json_ws c = (code c \<in> {9, 10, 13, 32})"

definition skip_ws :: "string \<Rightarrow> string" where
  "skip_ws s = dropWhile is_json_ws s"

definition hex_val :: "char \<Rightarrow> nat option" where
  "hex_val c = (if is_digit c then Some (code c - 48)
                else if 97 \<le> code c \<and> code c \<le> 102 then Some (code c - 87)
                else if 65 \<le> code c \<and> code c \<le> 70 then Some (code c - 55)
                else None)"

fun hex4 :: "string \<Rightarrow> nat option" where
  "hex4 [a, b, c, d] =
     (case (hex_val a, hex_val b, hex_val c, hex_val d) of
        (Some w, Some x, Some y, Some z) \<Rightarrow> Some (((w * 16 + x) * 16 + y) * 16 + z)
      | _ \<Rightarrow> None)"
| "hex4 _ = None"

definition utf8 :: "nat \<Rightarrow> string" where
  "utf8 n =
     (if n < 128 then [char_of n]
      else if n < 2048 then [char_of (192 + n div 64), char_of (128 + n mod 64)]
      else if n < 65536
        then [char_of (224 + n div 4096), char_of (128 + n div 64 mod 64), char_of (128 + n mod 64)]
      else [char_of (240 + n div 262144), char_of (128 + n div 4096 mod 64),
            char_of (128 + n div 64 mod 64), char_of (128 + n mod 64)])"

definition is_surrogate :: "nat \<Rightarrow> bool" where
  "is_surrogate n = (55296 \<le> n \<and> n < 57344)"

definition simple_escape :: "char \<Rightarrow> char option" where
  "simple_escape e =
     (if code e \<in> {34, 92, 47} then Some e
      else if e = CHR ''b'' then Some (char_of (8 :: nat))
      else if e = CHR ''f'' then Some (char_of (12 :: nat))
      else if e = CHR ''n'' then Some (char_of (10 :: nat))
      else if e = CHR ''r'' then Some (char_of (13 :: nat))
      else if e = CHR ''t'' then Some (char_of (9 :: nat))
      else None)"

text \<open>The text of a string after its opening quote, up to and including the closing one. An
  unpaired surrogate becomes U+FFFD.\<close>

fun parse_chars :: "nat \<Rightarrow> string \<Rightarrow> (string \<times> string) option" where
  "parse_chars 0 s = None"
| "parse_chars (Suc n) [] = None"
| "parse_chars (Suc n) (c # cs) =
     (if code c = 34 then Some ([], cs)
      else if code c < 32 then None
      else if code c \<noteq> 92 then map_option (\<lambda>(s, r). (c # s, r)) (parse_chars n cs)
      else case cs of
        [] \<Rightarrow> None
      | e # es \<Rightarrow>
          if e = CHR ''u'' then
            (case hex4 (take 4 es) of
               None \<Rightarrow> None
             | Some u \<Rightarrow>
                 if \<not> is_surrogate u
                 then map_option (\<lambda>(s, r). (utf8 u @ s, r)) (parse_chars n (drop 4 es))
                 else (case (if take 2 (drop 4 es) = [CHR 0x5C, CHR ''u'']
                             then hex4 (take 4 (drop 6 es)) else None) of
                         Some l \<Rightarrow>
                           if u < 56320 \<and> 56320 \<le> l \<and> l < 57344
                           then map_option (\<lambda>(s, r). (utf8 (65536 + (u - 55296) * 1024 + (l - 56320)) @ s, r))
                                  (parse_chars n (drop 10 es))
                           else map_option (\<lambda>(s, r). (utf8 65533 @ s, r)) (parse_chars n (drop 4 es))
                       | None \<Rightarrow> map_option (\<lambda>(s, r). (utf8 65533 @ s, r)) (parse_chars n (drop 4 es))))
          else (case simple_escape e of
                  None \<Rightarrow> None
                | Some x \<Rightarrow> map_option (\<lambda>(s, r). (x # s, r)) (parse_chars n es)))"

definition parse_string :: "string \<Rightarrow> (string \<times> string) option" where
  "parse_string s =
     (case s of [] \<Rightarrow> None | c # cs \<Rightarrow> if code c = 34 then parse_chars (Suc (length cs)) cs else None)"

text \<open>\<open>-?(0|[1-9][0-9]*)([.][0-9]+)?([eE][+-]?[0-9]+)?\<close>, as literal and rest.\<close>

definition span_digits :: "string \<Rightarrow> string \<times> string" where
  "span_digits s = (takeWhile is_digit s, dropWhile is_digit s)"

definition parse_int_part :: "string \<Rightarrow> (string \<times> string) option" where
  "parse_int_part s =
     (case s of [] \<Rightarrow> None
      | c # cs \<Rightarrow> if c = CHR ''0'' then Some ([c], cs)
                  else if is_digit c then Some (span_digits s) else None)"

definition parse_frac :: "string \<Rightarrow> (string \<times> string) option" where
  "parse_frac s =
     (case s of [] \<Rightarrow> Some ([], [])
      | c # cs \<Rightarrow> if c = CHR ''.''
                  then (let (ds, r) = span_digits cs in if ds = [] then None else Some (c # ds, r))
                  else Some ([], s))"

definition parse_exp :: "string \<Rightarrow> (string \<times> string) option" where
  "parse_exp s =
     (case s of [] \<Rightarrow> Some ([], [])
      | c # cs \<Rightarrow>
          if c = CHR ''e'' \<or> c = CHR ''E''
          then (let (sg, t) = (case cs of [] \<Rightarrow> ([], [])
                     | d # ds \<Rightarrow> if d = CHR ''+'' \<or> d = CHR ''-'' then ([d], ds) else ([], cs));
                    (ds, r) = span_digits t
                in if ds = [] then None else Some (c # sg @ ds, r))
          else Some ([], s))"

definition parse_number :: "string \<Rightarrow> (string \<times> string) option" where
  "parse_number s =
     (let (sg, t) = (case s of [] \<Rightarrow> ([], []) | c # cs \<Rightarrow> if c = CHR ''-'' then ([c], cs) else ([], s)) in
      case parse_int_part t of None \<Rightarrow> None
      | Some (i, r1) \<Rightarrow>
          (case parse_frac r1 of None \<Rightarrow> None
           | Some (f, r2) \<Rightarrow>
               (case parse_exp r2 of None \<Rightarrow> None
                | Some (e, r3) \<Rightarrow> Some (sg @ i @ f @ e, r3))))"

fun parse_value :: "nat \<Rightarrow> string \<Rightarrow> (json \<times> string) option"
  and parse_elems :: "nat \<Rightarrow> string \<Rightarrow> (json list \<times> string) option"
  and parse_members :: "nat \<Rightarrow> string \<Rightarrow> ((string \<times> json) list \<times> string) option" where
  "parse_value 0 s = None"
| "parse_value (Suc n) s =
     (case skip_ws s of
        [] \<Rightarrow> None
      | c # cs \<Rightarrow>
          if c = CHR 0x22 then map_option (\<lambda>(x, r). (JStr x, r)) (parse_string (c # cs))
          else if c = CHR ''['' then
            (if take 1 (skip_ws cs) = '']'' then Some (JArr [], tl (skip_ws cs))
             else map_option (\<lambda>(xs, r). (JArr xs, r)) (parse_elems n cs))
          else if c = CHR ''{'' then
            (if take 1 (skip_ws cs) = ''}'' then Some (JObj [], tl (skip_ws cs))
             else map_option (\<lambda>(kvs, r). (JObj kvs, r)) (parse_members n cs))
          else if take 4 (c # cs) = ''null'' then Some (JNull, drop 4 (c # cs))
          else if take 4 (c # cs) = ''true'' then Some (JBool True, drop 4 (c # cs))
          else if take 5 (c # cs) = ''false'' then Some (JBool False, drop 5 (c # cs))
          else map_option (\<lambda>(x, r). (JNum x, r)) (parse_number (c # cs)))"
| "parse_elems 0 s = None"
| "parse_elems (Suc n) s =
     (case parse_value n s of
        None \<Rightarrow> None
      | Some (x, r) \<Rightarrow>
          (case skip_ws r of
             [] \<Rightarrow> None
           | c # cs \<Rightarrow>
               if c = CHR '','' then map_option (\<lambda>(xs, r'). (x # xs, r')) (parse_elems n cs)
               else if c = CHR '']'' then Some ([x], cs)
               else None))"
| "parse_members 0 s = None"
| "parse_members (Suc n) s =
     (case parse_string (skip_ws s) of
        None \<Rightarrow> None
      | Some (k, r) \<Rightarrow>
          (case skip_ws r of
             [] \<Rightarrow> None
           | c # cs \<Rightarrow>
               if c \<noteq> CHR '':'' then None
               else (case parse_value n cs of
                       None \<Rightarrow> None
                     | Some (x, r1) \<Rightarrow>
                         (case skip_ws r1 of
                            [] \<Rightarrow> None
                          | d # ds \<Rightarrow>
                              if d = CHR '','' then map_option (\<lambda>(kvs, r'). ((k, x) # kvs, r')) (parse_members n ds)
                              else if d = CHR ''}'' then Some ([(k, x)], ds)
                              else None))))"

definition parse_json :: "string \<Rightarrow> json option" where
  "parse_json s =
     (case parse_value (Suc (length s)) s of
        None \<Rightarrow> None
      | Some (j, r) \<Rightarrow> if skip_ws r = [] then Some j else None)"

subsection \<open>What the encoder writes, the decoder reads back\<close>

definition delimited :: "string \<Rightarrow> bool" where
  "delimited r \<longleftrightarrow> r = [] \<or> hd r \<in> {CHR '','', CHR '']'', CHR ''}''}"

fun wf_json :: "json \<Rightarrow> bool" where
  "wf_json (JNum n) = (parse_number n = Some (n, []))"
| "wf_json (JArr xs) = list_all wf_json xs"
| "wf_json (JObj kvs) = list_all (\<lambda>kv. wf_json (snd kv)) kvs"
| "wf_json _ = True"

lemma delimited_simps [simp]:
  "delimited []" "delimited (CHR '','' # r)" "delimited (CHR '']'' # r)" "delimited (CHR ''}'' # r)"
  by (simp_all add: delimited_def)

lemma delimited_hd:
  "delimited r \<Longrightarrow> r = [] \<or> (\<not> is_digit (hd r) \<and> hd r \<noteq> CHR ''.'' \<and> hd r \<noteq> CHR ''e'' \<and> hd r \<noteq> CHR ''E''
     \<and> hd r \<noteq> CHR ''-'' \<and> hd r \<noteq> CHR ''+'' \<and> hd r \<noteq> CHR ''0'')"
  by (auto simp: delimited_def is_digit_def code_def)

lemma while_delim:
  "r = [] \<or> \<not> P (hd r) \<Longrightarrow> takeWhile P (s @ r) = takeWhile P s"
  "r = [] \<or> \<not> P (hd r) \<Longrightarrow> dropWhile P (s @ r) = dropWhile P s @ r"
  by (induction s) (cases r; auto)+

lemma span_digits_delim:
  "r = [] \<or> \<not> is_digit (hd r) \<Longrightarrow>
     span_digits (s @ r) = (fst (span_digits s), snd (span_digits s) @ r)"
  by (simp add: span_digits_def while_delim)

lemma parse_int_part_delim:
  assumes "delimited r" and "parse_int_part s = Some (a, t)"
  shows "parse_int_part (s @ r) = Some (a, t @ r)"
proof -
  have nd: "r = [] \<or> \<not> is_digit (hd r)" using delimited_hd [OF assms(1)] by auto
  obtain c cs where s: "s = c # cs" using assms(2) by (cases s) (auto simp: parse_int_part_def)
  show ?thesis using assms(2) span_digits_delim [OF nd, of "c # cs"]
    by (auto simp: s parse_int_part_def split: if_splits)
qed

lemma parse_frac_delim:
  assumes "delimited r" and "parse_frac s = Some (a, t)"
  shows "parse_frac (s @ r) = Some (a, t @ r)"
proof -
  have nd: "r = [] \<or> \<not> is_digit (hd r)" using delimited_hd [OF assms(1)] by auto
  show ?thesis
  proof (cases s)
    case Nil
    then show ?thesis using assms delimited_hd [OF assms(1)]
      by (cases r) (auto simp: parse_frac_def)
  next
    case (Cons c cs)
    then show ?thesis using assms(2) span_digits_delim [OF nd, of cs]
      by (cases "span_digits cs") (auto simp: parse_frac_def Let_def split: if_splits)
  qed
qed

lemma parse_exp_delim:
  assumes "delimited r" and "parse_exp s = Some (a, t)"
  shows "parse_exp (s @ r) = Some (a, t @ r)"
proof -
  have nd: "r = [] \<or> \<not> is_digit (hd r)" using delimited_hd [OF assms(1)] by auto
  show ?thesis
  proof (cases s)
    case Nil
    then show ?thesis using assms delimited_hd [OF assms(1)]
      by (cases r) (auto simp: parse_exp_def)
  next
    case s: (Cons c cs)
    show ?thesis
    proof (cases cs)
      case Nil
      then show ?thesis using assms(2) s
        by (auto simp: parse_exp_def span_digits_def split: if_splits)
    next
      case (Cons d ds)
      then show ?thesis
        using assms(2) s span_digits_delim [OF nd, of ds] span_digits_delim [OF nd, of "d # ds"]
        by (cases "span_digits ds"; cases "span_digits (d # ds)")
          (auto simp: parse_exp_def Let_def split: if_splits)
    qed
  qed
qed

lemma parse_number_delim:
  assumes "delimited r" and "parse_number s = Some (a, t)"
  shows "parse_number (s @ r) = Some (a, t @ r)"
proof -
  have "s \<noteq> []" using assms(2) by (auto simp: parse_number_def parse_int_part_def)
  then obtain c cs where s: "s = c # cs" by (cases s) auto
  obtain sg u where unfold: "\<And>q. parse_number (s @ q) =
      (case parse_int_part (u @ q) of None \<Rightarrow> None
       | Some (i, r1) \<Rightarrow>
           (case parse_frac r1 of None \<Rightarrow> None
            | Some (f, r2) \<Rightarrow>
                (case parse_exp r2 of None \<Rightarrow> None
                 | Some (e, r3) \<Rightarrow> Some (sg @ i @ f @ e, r3))))"
  proof (cases "c = CHR ''-''")
    case True
    then show ?thesis by (intro that [of "''-''" cs]) (simp add: parse_number_def s)
  next
    case False
    then show ?thesis by (intro that [of "[]" s]) (simp add: parse_number_def s)
  qed
  obtain i r1 f r2 e where 1: "parse_int_part u = Some (i, r1)" "parse_frac r1 = Some (f, r2)"
      "parse_exp r2 = Some (e, t)" "a = sg @ i @ f @ e"
    using assms(2) unfold [of "[]"] by (auto split: option.splits)
  then show ?thesis
    using parse_int_part_delim [OF assms(1) 1(1)] parse_frac_delim [OF assms(1) 1(2)]
      parse_exp_delim [OF assms(1) 1(3)] unfold [of r]
    by simp
qed

lemma hex_val_digit: "n < 16 \<Longrightarrow> hex_val (hex_digit n) = Some n"
  by (auto simp: hex_val_def hex_digit_def is_digit_def)

lemma code_lits:
  "code (CHR 0x5C) = 92" "code (CHR 0x22) = 34" "code CHR ''b'' = 98" "code CHR ''f'' = 102"
  "code CHR ''n'' = 110" "code CHR ''r'' = 114" "code CHR ''t'' = 116" "code CHR ''u'' = 117"
  "code CHR ''0'' = 48"
  by (simp_all add: code_def)

lemma code_eqD: "code c = n \<Longrightarrow> c = char_of n"
  by (metis char_of_code)

lemma char_of_lits: "char_of (34 :: nat) = CHR 0x22" "char_of (92 :: nat) = CHR 0x5C"
  by (simp_all flip: code_inject add: code_lits)

lemma hex4_control:
  "n < 32 \<Longrightarrow> hex4 [CHR ''0'', CHR ''0'', hex_digit (n div 16), hex_digit (n mod 16)] = Some n"
  by (simp add: hex_val_digit) (simp add: hex_val_def is_digit_def code_lits)

lemma parse_chars_escape:
  "parse_chars (Suc n) (json_escape c @ rest) = map_option (\<lambda>(s, r). (c # s, r)) (parse_chars n rest)"
proof (cases "code c = 34 \<or> code c = 92 \<or> code c = 8 \<or> code c = 12 \<or> code c = 10 \<or> code c = 13 \<or> code c = 9")
  case True
  then show ?thesis
    by (elim disjE) (simp_all add: json_escape_def simple_escape_def code_lits, (auto dest!: code_eqD simp: char_of_lits))
next
  case False
  show ?thesis
  proof (cases "code c < 32")
    case True
    then show ?thesis using False hex4_control [OF True]
      by (simp add: json_escape_def code_lits is_surrogate_def utf8_def)
  next
    case F2: False
    then show ?thesis using False by (simp add: json_escape_def)
  qed
qed

lemma parse_chars_text:
  "length s < n \<Longrightarrow> parse_chars n (concat (map json_escape s) @ CHR 0x22 # rest) = Some (s, rest)"
proof (induction s arbitrary: n)
  case Nil
  then show ?case by (cases n) (simp_all add: code_lits)
next
  case (Cons c s)
  then obtain m where "n = Suc m" by (cases n) auto
  with Cons show ?case by (simp add: parse_chars_escape)
qed

lemma json_escape_length: "length s \<le> length (concat (map json_escape s))"
proof (induction s)
  case (Cons c s)
  have "1 \<le> length (json_escape c)" by (simp add: json_escape_def)
  with Cons show ?case by simp
qed simp

lemma parse_string_text: "parse_string (string_text s @ rest) = Some (s, rest)"
  using json_escape_length [of s]
  by (simp add: parse_string_def string_text_def code_lits parse_chars_text del: parse_chars.simps)

lemma parse_number_hd:
  assumes "parse_number (c # cs) = Some x"
  shows "c = CHR ''-'' \<or> is_digit c"
  using assms by (auto simp: parse_number_def parse_int_part_def is_digit_def code_lits split: if_splits)

lemma json_text_hd:
  assumes "wf_json j"
  obtains c cs where "json_text j = c # cs" "\<not> is_json_ws c" "c \<noteq> CHR '']''" "c \<noteq> CHR ''}''"
proof (cases j)
  case (JNum n)
  then have n: "parse_number n = Some (n, [])" using assms by simp
  then obtain c cs where c: "n = c # cs" by (cases n) (auto simp: parse_number_def parse_int_part_def)
  then have "c = CHR ''-'' \<or> is_digit c" using n parse_number_hd by blast
  then have "\<not> is_json_ws c \<and> c \<noteq> CHR '']'' \<and> c \<noteq> CHR ''}''"
    by (elim disjE) (simp add: is_json_ws_def code_def, auto simp: is_digit_def is_json_ws_def code_def)
  then show ?thesis using that [of c cs] JNum c by simp
next
  case (JBool b)
  then show ?thesis using that by (cases b) (simp_all add: is_json_ws_def code_def)
qed (use that in \<open>simp_all add: is_json_ws_def code_def string_text_def\<close>)

lemma skip_ws_hd: "\<not> is_json_ws c \<Longrightarrow> skip_ws (c # cs) = c # cs"
  by (simp add: skip_ws_def)

lemma skip_ws_text: "wf_json j \<Longrightarrow> skip_ws (json_text j @ r) = json_text j @ r"
  by (erule json_text_hd) (simp add: skip_ws_hd)

lemma skip_ws_punct [simp]:
  "skip_ws (CHR '','' # r) = CHR '','' # r" "skip_ws (CHR '']'' # r) = CHR '']'' # r"
  "skip_ws (CHR ''}'' # r) = CHR ''}'' # r" "skip_ws (CHR '':'' # r) = CHR '':'' # r"
  "skip_ws (CHR ''['' # r) = CHR ''['' # r" "skip_ws (CHR ''{'' # r) = CHR ''{'' # r"
  "skip_ws (CHR ''n'' # r) = CHR ''n'' # r" "skip_ws (CHR ''t'' # r) = CHR ''t'' # r"
  "skip_ws (CHR ''f'' # r) = CHR ''f'' # r" "skip_ws (CHR 0x22 # r) = CHR 0x22 # r"
  by (simp_all add: skip_ws_def is_json_ws_def code_def)

lemma skip_ws_string [simp]: "skip_ws (string_text s @ r) = string_text s @ r"
  by (simp add: string_text_def)

lemma string_text_nonempty [simp]: "string_text s \<noteq> []" "0 < length (string_text s)"
  by (simp_all add: string_text_def)

text \<open>The text of the elements up to the closing bracket.\<close>

lemma parse_elems_text:
  assumes "\<And>x n r. x \<in> set xs \<Longrightarrow> delimited r \<Longrightarrow> length (json_text x) < n \<Longrightarrow>
      parse_value n (json_text x @ r) = Some (x, r)"
    and "list_all wf_json xs" "xs \<noteq> []" "length (join '','' (map json_text xs)) + 1 < n"
  shows "parse_elems n (join '','' (map json_text xs) @ CHR '']'' # r) = Some (xs, r)"
  using assms
proof (induction xs arbitrary: n)
  case (Cons x xs)
  obtain m where m: "n = Suc m" using Cons.prems(4) by (cases n) auto
  show ?case
  proof (cases xs)
    case Nil
    have "parse_value m (json_text x @ CHR '']'' # r) = Some (x, CHR '']'' # r)"
      using Cons.prems(4) by (intro Cons.prems(1)) (simp_all add: Nil m)
    then show ?thesis by (simp add: Nil m)
  next
    case (Cons y ys)
    let ?t = "join '','' (map json_text xs) @ CHR '']'' # r"
    have "parse_value m (json_text x @ CHR '','' # ?t) = Some (x, CHR '','' # ?t)"
      using Cons.prems(4) by (intro Cons.prems(1)) (simp_all add: Cons m)
    moreover have "parse_elems m ?t = Some (xs, r)"
      using Cons.prems by (intro Cons.IH) (auto simp: Cons m)
    ultimately show ?thesis by (simp add: Cons m)
  qed
qed simp

lemma parse_members_text:
  assumes "\<And>k x n r. (k, x) \<in> set kvs \<Longrightarrow> delimited r \<Longrightarrow> length (json_text x) < n \<Longrightarrow>
      parse_value n (json_text x @ r) = Some (x, r)"
    and "kvs \<noteq> []"
    and "length (join '','' (map (\<lambda>kv. string_text (fst kv) @ '':'' @ json_text (snd kv)) kvs)) + 1 < n"
  shows "parse_members n (join '','' (map (\<lambda>kv. string_text (fst kv) @ '':'' @ json_text (snd kv)) kvs)
      @ CHR ''}'' # r) = Some (kvs, r)"
  using assms
proof (induction kvs arbitrary: n)
  case (Cons kx kvs)
  obtain k x where kx: "kx = (k, x)" by (cases kx)
  obtain m where m: "n = Suc m" using Cons.prems(3) by (cases n) auto
  show ?case
  proof (cases kvs)
    case Nil
    have "parse_value m (json_text x @ CHR ''}'' # r) = Some (x, CHR ''}'' # r)"
      using Cons.prems(3) by (intro Cons.prems(1) [of k]) (simp_all add: Nil m kx)
    then show ?thesis by (simp add: Nil m kx parse_string_text)
  next
    case (Cons y ys)
    let ?t = "join '','' (map (\<lambda>kv. string_text (fst kv) @ '':'' @ json_text (snd kv)) kvs) @ CHR ''}'' # r"
    have "parse_value m (json_text x @ CHR '','' # ?t) = Some (x, CHR '','' # ?t)"
      using Cons.prems(3) by (intro Cons.prems(1) [of k]) (simp_all add: Cons m kx)
    moreover have "parse_members m ?t = Some (kvs, r)"
      using Cons.prems by (intro Cons.IH) (auto simp: Cons m kx)
    ultimately show ?thesis by (simp add: Cons m kx parse_string_text)
  qed
qed simp

lemma join_hd: "xs \<noteq> [] \<Longrightarrow> hd xs \<noteq> [] \<Longrightarrow> \<exists>t. join sep xs = hd xs @ t"
  by (cases "(sep, xs)" rule: join.cases) auto

lemma parse_value_text:
  "wf_json j \<Longrightarrow> delimited r \<Longrightarrow> length (json_text j) < n \<Longrightarrow>
     parse_value n (json_text j @ r) = Some (j, r)"
proof (induction j arbitrary: n r)
  case (JNum x)
  then obtain m where m: "n = Suc m" by (cases n) auto
  have x: "parse_number x = Some (x, [])" using JNum by simp
  obtain c cs where c: "x = c # cs" using x by (cases x) (auto simp: parse_number_def parse_int_part_def)
  have "c = CHR ''-'' \<or> is_digit c" using x c parse_number_hd by blast
  then have "c \<noteq> CHR 0x22" "c \<noteq> CHR ''[''" "c \<noteq> CHR ''{''" "c \<noteq> CHR ''n''" "c \<noteq> CHR ''t''" "c \<noteq> CHR ''f''"
    by (auto simp: is_digit_def code_def)
  moreover have "parse_number (x @ r) = Some (x, r)"
    using parse_number_delim [OF JNum.prems(2) x] by simp
  moreover have "skip_ws (x @ r) = x @ r" using skip_ws_text [OF JNum.prems(1)] by simp
  ultimately show ?case by (simp add: m c)
next
  case (JStr s)
  then obtain m where "n = Suc m" by (cases n) auto
  then show ?case using parse_string_text [of s r] by (simp add: string_text_def)
next
  case (JArr xs)
  then obtain m where m: "n = Suc m" by (cases n) auto
  show ?case
  proof (cases "xs = []")
    case False
    let ?t = "join '','' (map json_text xs) @ CHR '']'' # r"
    have e: "parse_elems m ?t = Some (xs, r)"
      using JArr.prems False m
      by (intro parse_elems_text JArr.IH) (auto simp: list_all_iff)
    have "wf_json (hd xs)" using JArr.prems(1) False by (cases xs) auto
    then obtain c cs where c: "json_text (hd xs) = c # cs" "\<not> is_json_ws c" "c \<noteq> CHR '']''"
      by (rule json_text_hd)
    obtain t where "join '','' (map json_text xs) = c # cs @ t"
      using join_hd [where xs = "map json_text xs" and sep = "'',''"] False c(1) by (auto simp: hd_map)
    then have "take 1 (skip_ws ?t) \<noteq> '']''" using c by (simp add: skip_ws_hd)
    with e show ?thesis by (simp add: m)
  qed (simp add: m)
next
  case (JObj kvs)
  then obtain m where m: "n = Suc m" by (cases n) auto
  show ?case
  proof (cases "kvs = []")
    case False
    let ?t = "join '','' (map (\<lambda>kv. string_text (fst kv) @ '':'' @ json_text (snd kv)) kvs) @ CHR ''}'' # r"
    have e: "parse_members m ?t = Some (kvs, r)"
      using JObj.prems False m
      by (intro parse_members_text) (force simp: list_all_iff intro!: JObj.IH)+
    obtain t where "join '','' (map (\<lambda>kv. string_text (fst kv) @ '':'' @ json_text (snd kv)) kvs)
        = CHR 0x22 # t"
      using join_hd [where xs = "map (\<lambda>kv. string_text (fst kv) @ '':'' @ json_text (snd kv)) kvs" and sep = "'',''"] False
      by (auto simp: hd_map string_text_def)
    then have "take 1 (skip_ws ?t) \<noteq> ''}''" by simp
    with e show ?thesis by (simp add: m)
  qed (simp add: m)
qed (case_tac n; simp)+

theorem parse_json_text:
  assumes "wf_json j"
  shows "parse_json (json_text j) = Some j"
  using parse_value_text [OF assms delimited_simps(1) lessI]
  by (simp add: parse_json_def skip_ws_def del: parse_value.simps)

end
