(* ===== verification/DataTypes.thy ===== *)
theory DataTypes
  imports Json Errors
begin

section \<open>Data types, literals and expressions (models/datatype.go)\<close>

text \<open>
  \<open>data_type\<close> is the struct \<open>DataType\<close> with all of its fields: a Go pointer is an option, a
  nil slice is \<open>None\<close>. \<open>DataType_MarshalJSON\<close> and \<open>DataType_UnmarshalJSON\<close> work on JSON
  documents; \<open>DataType_String\<close> and \<open>ParseDataType\<close> on their text. The decoder matches member
  names like encoding/json: exactly, or ignoring case; \<open>null\<close> leaves a string as it is and
  resets a pointer or a slice; a repeated member replaces the earlier one. The text of the
  library's own decoding errors is not modelled (\<open>json_error\<close>).

  The theorems: every type the parser accepts passes \<open>Validate\<close>; the canonical text of a
  valid structured type parses back to the type with the fields of other kinds dropped, and
  that text is a fixed point; the object form is a way around the pattern for primitive names.
\<close>

datatype data_type =
    DataType (dt_Type: string) (dt_Fields: "struct_field list option")
      (dt_ContainsNull: "bool option") (dt_ElementType: "data_type option")
      (dt_KeyType: "data_type option") (dt_ValueType: "data_type option")
      (dt_ValueContainsNull: "bool option") (dt_Types: "data_type list option")
      (dt_UnparsedType: string) (dt_CatalogString: string)
  and struct_field =
    StructField (sf_Name: string) (sf_Type: data_type) (sf_Nullable: "bool option") (sf_Comment: string)

definition primitive :: "string \<Rightarrow> data_type" where
  "primitive name = DataType name None None None None None None None [] []"

definition structuredKindName :: "string \<Rightarrow> bool" where
  "structuredKindName name =
     (name \<in> {''struct'', ''list'', ''map'', ''union'', ''unparsed'', ''external''})"

definition IsStructured :: "data_type \<Rightarrow> bool" where
  "IsStructured d = structuredKindName (dt_Type d)"

subsection \<open>Marshalling\<close>

definition opt_bool :: "string \<Rightarrow> bool option \<Rightarrow> (string \<times> json) list" where
  "opt_bool k b = (case b of None \<Rightarrow> [] | Some x \<Rightarrow> [(k, JBool x)])"

fun DataType_MarshalJSON :: "data_type \<Rightarrow> json"
  and StructField_MarshalJSON :: "struct_field \<Rightarrow> json" where
  "DataType_MarshalJSON (DataType ty flds cn elm key vl vcn typs unparsed cat) =
     (if \<not> structuredKindName ty then JStr ty
      else jmap ([(''type'', JStr ty)] @
        (if ty = ''struct''
           then [(''fields'', case flds of None \<Rightarrow> JNull | Some fs \<Rightarrow> JArr (map StructField_MarshalJSON fs))]
         else if ty = ''list''
           then [(''elementType'', case elm of None \<Rightarrow> JNull | Some e \<Rightarrow> DataType_MarshalJSON e)]
                @ opt_bool ''containsNull'' cn
         else if ty = ''map''
           then [(''keyType'', case key of None \<Rightarrow> JNull | Some e \<Rightarrow> DataType_MarshalJSON e),
                 (''valueType'', case vl of None \<Rightarrow> JNull | Some e \<Rightarrow> DataType_MarshalJSON e)]
                @ opt_bool ''valueContainsNull'' vcn
         else if ty = ''union''
           then [(''types'', case typs of None \<Rightarrow> JNull | Some ts \<Rightarrow> JArr (map DataType_MarshalJSON ts))]
         else if ty = ''unparsed'' then [(''unparsedType'', JStr unparsed)]
         else [(''catalogString'', JStr cat)])))"
| "StructField_MarshalJSON (StructField name ty nullable comment) =
     jmap ([(''name'', JStr name), (''type'', DataType_MarshalJSON ty)]
       @ opt_bool ''nullable'' nullable
       @ (if comment \<noteq> [] then [(''comment'', JStr comment)] else []))"

definition DataType_String :: "data_type \<Rightarrow> string" where
  "DataType_String d =
     (if dt_Type d = [] then []
      else if \<not> IsStructured d then dt_Type d
      else json_text (DataType_MarshalJSON d))"

subsection \<open>Unmarshalling\<close>

definition json_error :: gerror where
  "json_error = ErrSys OtherSys ''json: cannot decode the value''"

definition member_of :: "string list \<Rightarrow> string \<Rightarrow> string option" where
  "member_of names k = (if k \<in> set names then Some k else find (\<lambda>n. equal_fold n k) names)"

fun decode_string :: "json \<Rightarrow> string \<Rightarrow> gerror + string" where
  "decode_string JNull old = Inr old"
| "decode_string (JStr s) old = Inr s"
| "decode_string _ old = Inl json_error"

fun decode_bool :: "json \<Rightarrow> gerror + bool option" where
  "decode_bool JNull = Inr None"
| "decode_bool (JBool b) = Inr (Some b)"
| "decode_bool _ = Inl json_error"

fun strings_of :: "json list \<Rightarrow> string list option" where
  "strings_of [] = Some []"
| "strings_of (JStr s # js) = map_option (\<lambda>ss. s # ss) (strings_of js)"
| "strings_of (JNull # js) = map_option (\<lambda>ss. [] # ss) (strings_of js)"
| "strings_of _ = None"

definition decodeUnparsedType :: "json \<Rightarrow> string" where
  "decodeUnparsedType raw =
     (case raw of
        JArr xs \<Rightarrow> (case strings_of xs of Some (s # ss) \<Rightarrow> s | _ \<Rightarrow> [])
      | JStr s \<Rightarrow> s
      | _ \<Rightarrow> [])"

record raw_type =
  raw_Type :: string
  raw_Fields :: "struct_field list option"
  raw_ContainsNull :: "bool option"
  raw_ElementType :: "data_type option"
  raw_KeyType :: "data_type option"
  raw_ValueType :: "data_type option"
  raw_ValueContainsNull :: "bool option"
  raw_Types :: "data_type list option"
  raw_UnparsedType :: json
  raw_CatalogString :: string

definition raw_empty :: raw_type where
  "raw_empty = \<lparr>raw_Type = [], raw_Fields = None, raw_ContainsNull = None, raw_ElementType = None,
     raw_KeyType = None, raw_ValueType = None, raw_ValueContainsNull = None, raw_Types = None,
     raw_UnparsedType = JNull, raw_CatalogString = []\<rparr>"

record raw_field =
  rf_Name :: string
  rf_Type :: data_type
  rf_Nullable :: "bool option"
  rf_Comment :: string

definition raw_members :: "string list" where
  "raw_members = [''type'', ''fields'', ''containsNull'', ''elementType'', ''keyType'', ''valueType'',
     ''valueContainsNull'', ''types'', ''unparsedType'', ''catalogString'']"

definition field_members :: "string list" where
  "field_members = [''name'', ''type'', ''nullable'', ''comment'']"

definition missing_type :: gerror where
  "missing_type = ErrText (''data type object is missing the required '' @ quote ''type'' @ '' field'')"

definition of_raw :: "raw_type \<Rightarrow> data_type" where
  "of_raw raw = DataType (raw_Type raw) (raw_Fields raw) (raw_ContainsNull raw) (raw_ElementType raw)
     (raw_KeyType raw) (raw_ValueType raw) (raw_ValueContainsNull raw) (raw_Types raw)
     (decodeUnparsedType (raw_UnparsedType raw)) (raw_CatalogString raw)"

definition of_field :: "raw_field \<Rightarrow> struct_field" where
  "of_field f = StructField (rf_Name f) (rf_Type f) (rf_Nullable f) (rf_Comment f)"

fun DataType_UnmarshalJSON :: "json \<Rightarrow> gerror + data_type"
  and decode_members :: "(string \<times> json) list \<Rightarrow> raw_type \<Rightarrow> gerror + raw_type"
  and decode_types :: "json list \<Rightarrow> gerror + data_type list"
  and decode_field_members :: "(string \<times> json) list \<Rightarrow> raw_field \<Rightarrow> gerror + raw_field"
  and decode_fields :: "json list \<Rightarrow> gerror + struct_field list" where
  "DataType_UnmarshalJSON JNull = Inr (primitive [])"
| "DataType_UnmarshalJSON (JStr name) = Inr (primitive name)"
| "DataType_UnmarshalJSON (JObj kvs) =
     (case decode_members kvs raw_empty of
        Inl e \<Rightarrow> Inl e
      | Inr raw \<Rightarrow> if raw_Type raw = [] then Inl missing_type else Inr (of_raw raw))"
| "DataType_UnmarshalJSON _ = Inl json_error"
| "decode_members [] raw = Inr raw"
| "decode_members ((k, v) # kvs) raw =
     (let m = member_of raw_members k;
          step =
            (if m = Some ''type'' then map_sum id (\<lambda>s. raw\<lparr>raw_Type := s\<rparr>) (decode_string v (raw_Type raw))
             else if m = Some ''fields'' then
               (case v of JNull \<Rightarrow> Inr (raw\<lparr>raw_Fields := None\<rparr>)
                | JArr xs \<Rightarrow> map_sum id (\<lambda>fs. raw\<lparr>raw_Fields := Some fs\<rparr>) (decode_fields xs)
                | _ \<Rightarrow> Inl json_error)
             else if m = Some ''containsNull'' then map_sum id (\<lambda>b. raw\<lparr>raw_ContainsNull := b\<rparr>) (decode_bool v)
             else if m = Some ''elementType'' then
               (if v = JNull then Inr (raw\<lparr>raw_ElementType := None\<rparr>)
                else map_sum id (\<lambda>d. raw\<lparr>raw_ElementType := Some d\<rparr>) (DataType_UnmarshalJSON v))
             else if m = Some ''keyType'' then
               (if v = JNull then Inr (raw\<lparr>raw_KeyType := None\<rparr>)
                else map_sum id (\<lambda>d. raw\<lparr>raw_KeyType := Some d\<rparr>) (DataType_UnmarshalJSON v))
             else if m = Some ''valueType'' then
               (if v = JNull then Inr (raw\<lparr>raw_ValueType := None\<rparr>)
                else map_sum id (\<lambda>d. raw\<lparr>raw_ValueType := Some d\<rparr>) (DataType_UnmarshalJSON v))
             else if m = Some ''valueContainsNull''
               then map_sum id (\<lambda>b. raw\<lparr>raw_ValueContainsNull := b\<rparr>) (decode_bool v)
             else if m = Some ''types'' then
               (case v of JNull \<Rightarrow> Inr (raw\<lparr>raw_Types := None\<rparr>)
                | JArr xs \<Rightarrow> map_sum id (\<lambda>ts. raw\<lparr>raw_Types := Some ts\<rparr>) (decode_types xs)
                | _ \<Rightarrow> Inl json_error)
             else if m = Some ''unparsedType'' then Inr (raw\<lparr>raw_UnparsedType := v\<rparr>)
             else if m = Some ''catalogString''
               then map_sum id (\<lambda>s. raw\<lparr>raw_CatalogString := s\<rparr>) (decode_string v (raw_CatalogString raw))
             else Inr raw)
      in case step of Inl e \<Rightarrow> Inl e | Inr raw' \<Rightarrow> decode_members kvs raw')"
| "decode_types [] = Inr []"
| "decode_types (j # js) =
     (case DataType_UnmarshalJSON j of
        Inl e \<Rightarrow> Inl e
      | Inr d \<Rightarrow> map_sum id (\<lambda>ds. d # ds) (decode_types js))"
| "decode_field_members [] f = Inr f"
| "decode_field_members ((k, v) # kvs) f =
     (let m = member_of field_members k;
          step =
            (if m = Some ''name'' then map_sum id (\<lambda>s. f\<lparr>rf_Name := s\<rparr>) (decode_string v (rf_Name f))
             else if m = Some ''type'' then map_sum id (\<lambda>d. f\<lparr>rf_Type := d\<rparr>) (DataType_UnmarshalJSON v)
             else if m = Some ''nullable'' then map_sum id (\<lambda>b. f\<lparr>rf_Nullable := b\<rparr>) (decode_bool v)
             else if m = Some ''comment'' then map_sum id (\<lambda>s. f\<lparr>rf_Comment := s\<rparr>) (decode_string v (rf_Comment f))
             else Inr f)
      in case step of Inl e \<Rightarrow> Inl e | Inr f' \<Rightarrow> decode_field_members kvs f')"
| "decode_fields [] = Inr []"
| "decode_fields (j # js) =
     (case (case j of
              JNull \<Rightarrow> Inr \<lparr>rf_Name = [], rf_Type = primitive [], rf_Nullable = None, rf_Comment = []\<rparr>
            | JObj kvs \<Rightarrow> decode_field_members kvs
                \<lparr>rf_Name = [], rf_Type = primitive [], rf_Nullable = None, rf_Comment = []\<rparr>
            | _ \<Rightarrow> Inl json_error) of
        Inl e \<Rightarrow> Inl e
      | Inr f \<Rightarrow> map_sum id (\<lambda>fs. of_field f # fs) (decode_fields js))"

subsection \<open>Validation\<close>

definition blank :: "string \<Rightarrow> bool" where
  "blank s = (trim_space s = [])"

definition type_prefix :: "string \<Rightarrow> string" where
  "type_prefix ty = ''data type '' @ quote ty"

fun Validate :: "data_type \<Rightarrow> gerror option"
  and validate_fields :: "string \<Rightarrow> nat \<Rightarrow> struct_field list \<Rightarrow> gerror option"
  and validate_types :: "string \<Rightarrow> nat \<Rightarrow> data_type list \<Rightarrow> gerror option" where
  "Validate (DataType ty flds cn elm key vl vcn typs unparsed cat) =
     (if blank ty then Some missing_type
      else if ty = ''struct'' then
        (case flds of
           Some (f # fs) \<Rightarrow> validate_fields ty 0 (f # fs)
         | _ \<Rightarrow> Some (ErrText (type_prefix ty @ '' requires at least one entry in '' @ quote ''fields'')))
      else if ty = ''list'' then
        (case elm of
           None \<Rightarrow> Some (ErrText (type_prefix ty @ '' requires '' @ quote ''elementType''))
         | Some e \<Rightarrow> Validate e)
      else if ty = ''map'' then
        (case key of
           None \<Rightarrow> Some (ErrText (type_prefix ty @ '' requires '' @ quote ''keyType''))
         | Some k \<Rightarrow>
             (case vl of
                None \<Rightarrow> Some (ErrText (type_prefix ty @ '' requires '' @ quote ''valueType''))
              | Some v \<Rightarrow> (case Validate k of Some err \<Rightarrow> Some err | None \<Rightarrow> Validate v)))
      else if ty = ''union'' then
        (case typs of
           Some (t # ts) \<Rightarrow> validate_types ty 0 (t # ts)
         | _ \<Rightarrow> Some (ErrText (type_prefix ty @ '' requires at least one entry in '' @ quote ''types'')))
      else if ty = ''unparsed'' \<and> blank unparsed
        then Some (ErrText (type_prefix ty @ '' requires '' @ quote ''unparsedType''))
      else if ty = ''external'' \<and> blank cat
        then Some (ErrText (type_prefix ty @ '' requires '' @ quote ''catalogString''))
      else None)"
| "validate_fields ty i [] = None"
| "validate_fields ty i (StructField name fty nullable comment # fs) =
     (if blank name then Some (ErrText (type_prefix ty @ '': field '' @ itoa (int i) @ '' is missing a name''))
      else case Validate fty of
             Some err \<Rightarrow> Some (ErrWrap (type_prefix ty @ '': field '' @ quote name @ '': '') err)
           | None \<Rightarrow> validate_fields ty (Suc i) fs)"
| "validate_types ty i [] = None"
| "validate_types ty i (t # ts) =
     (case Validate t of
        Some err \<Rightarrow> Some (ErrWrap (type_prefix ty @ '': member '' @ itoa (int i) @ '': '') err)
      | None \<Rightarrow> validate_types ty (Suc i) ts)"

fun UsesExternalType :: "data_type \<Rightarrow> bool"
  and field_uses_external :: "struct_field \<Rightarrow> bool" where
  "UsesExternalType (DataType ty flds cn elm key vl vcn typs unparsed cat) =
     (if ty = ''external'' then True
      else if ty = ''struct''
        then (case flds of None \<Rightarrow> False | Some fs \<Rightarrow> list_ex field_uses_external fs)
      else if ty = ''list'' then (case elm of None \<Rightarrow> False | Some e \<Rightarrow> UsesExternalType e)
      else if ty = ''map''
        then (case key of None \<Rightarrow> False | Some k \<Rightarrow> UsesExternalType k)
             \<or> (case vl of None \<Rightarrow> False | Some v \<Rightarrow> UsesExternalType v)
      else if ty = ''union''
        then (case typs of None \<Rightarrow> False | Some ts \<Rightarrow> list_ex UsesExternalType ts)
      else False)"
| "field_uses_external (StructField name ty nullable comment) = UsesExternalType ty"

subsection \<open>The Terraform representation\<close>

definition is_letter :: "char \<Rightarrow> bool" where
  "is_letter c = (is_upper c \<or> is_lower c)"

definition is_type_char :: "char \<Rightarrow> bool" where
  "is_type_char c = (is_letter c \<or> is_digit c \<or> c = CHR ''_'' \<or> c = CHR '' '')"

text \<open>\<open>([(][0-9]+(,[0-9]+)?[)])?\<close> up to the end of the text.\<close>

definition type_args :: "string \<Rightarrow> bool" where
  "type_args s =
     (case s of [] \<Rightarrow> True
      | c # cs \<Rightarrow>
          c = CHR ''('' \<and> takeWhile is_digit cs \<noteq> [] \<and>
          (case dropWhile is_digit cs of
             [] \<Rightarrow> False
           | d # ds \<Rightarrow>
               if d = CHR '','' then takeWhile is_digit ds \<noteq> [] \<and> dropWhile is_digit ds = '')''
               else d # ds = '')''))"

definition primitiveTypePattern :: "string \<Rightarrow> bool" where
  "primitiveTypePattern s =
     (case s of [] \<Rightarrow> False | c # cs \<Rightarrow> is_letter c \<and> type_args (dropWhile is_type_char cs))"

definition structuredKindAsStringError :: "string \<Rightarrow> gerror" where
  "structuredKindAsStringError name =
     ErrText (''invalid column type '' @ quote name @ '': '' @ quote name
       @ '' is a structural data type, describe it as a JSON object, for example {'' @ quote ''type'' @ '': ''
       @ quote name @ '', ...}'')"

definition invalidPrimitiveTypeError :: "string \<Rightarrow> gerror" where
  "invalidPrimitiveTypeError v =
     ErrText (''invalid column type '' @ quote v @ '': expected a Gravitino primitive type such as ''
       @ quote ''integer'' @ '' or '' @ quote ''varchar(255)''
       @ '', or a JSON object describing a struct, list, map, union, unparsed or external type'')"

text \<open>\<open>json.Unmarshal\<close> into a \<open>DataType\<close> and into a string.\<close>

definition unmarshal_type :: "string \<Rightarrow> gerror + data_type" where
  "unmarshal_type s = (case parse_json s of None \<Rightarrow> Inl json_error | Some j \<Rightarrow> DataType_UnmarshalJSON j)"

definition unmarshal_string :: "string \<Rightarrow> gerror + string" where
  "unmarshal_string s = (case parse_json s of None \<Rightarrow> Inl json_error | Some j \<Rightarrow> decode_string j [])"

definition parse_primitive :: "string \<Rightarrow> gerror + data_type" where
  "parse_primitive name =
     (if structuredKindName name then Inl (structuredKindAsStringError name)
      else if \<not> primitiveTypePattern name then Inl (invalidPrimitiveTypeError name)
      else Inr (primitive name))"

definition ParseDataType :: "string \<Rightarrow> gerror + data_type" where
  "ParseDataType v =
     (case trim_space v of
        [] \<Rightarrow> Inl (ErrText ''column type must not be empty'')
      | c # cs \<Rightarrow>
          if c = CHR ''{'' then
            (case unmarshal_type (c # cs) of
               Inl e \<Rightarrow> Inl (ErrWrap ''invalid structured column type: '' e)
             | Inr d \<Rightarrow> (case Validate d of Some e \<Rightarrow> Inl e | None \<Rightarrow> Inr d))
          else if c = CHR 0x22 then
            (case unmarshal_string (c # cs) of
               Inl e \<Rightarrow> Inl (ErrWrap ''invalid column type: '' e)
             | Inr name \<Rightarrow> parse_primitive name)
          else parse_primitive (c # cs))"

subsection \<open>Literals, expressions and column positions\<close>

record literal =
  lit_Type :: string
  lit_DataType :: "data_type option"
  lit_Value :: string

definition NewLiteral :: "data_type \<Rightarrow> string \<Rightarrow> literal" where
  "NewLiteral d v = \<lparr>lit_Type = ''literal'', lit_DataType = Some d, lit_Value = v\<rparr>"

definition Literal_MarshalJSON :: "literal \<Rightarrow> json" where
  "Literal_MarshalJSON l = jmap
     [(''type'', JStr ''literal''),
      (''dataType'', case lit_DataType l of None \<Rightarrow> JNull | Some d \<Rightarrow> DataType_MarshalJSON d),
      (''value'', JStr (lit_Value l))]"

datatype expression =
  Expression (ex_Type: string) (ex_DataType: "data_type option") (ex_Value: string)
    (ex_FieldName: "string list option") (ex_FuncName: string) (ex_FuncArgs: "expression list option")

definition NewFieldExpression :: "string list option \<Rightarrow> expression" where
  "NewFieldExpression fieldPath = Expression ''field'' None [] fieldPath [] None"

datatype column_position = CPFirst | CPAfter string | CPDefault

definition ColumnPosition_MarshalJSON :: "column_position \<Rightarrow> json" where
  "ColumnPosition_MarshalJSON p =
     (case p of CPAfter c \<Rightarrow> jmap [(''after'', JStr c)] | CPFirst \<Rightarrow> JStr ''first'' | CPDefault \<Rightarrow> JStr ''default'')"

subsection \<open>The canonical text is stable\<close>

text \<open>\<open>canon\<close> drops the fields that do not belong to the kind of the type.\<close>

fun canon :: "data_type \<Rightarrow> data_type"
  and canon_field :: "struct_field \<Rightarrow> struct_field" where
  "canon (DataType ty flds cn elm key vl vcn typs unparsed cat) =
     (if ty = ''struct''
        then DataType ty (map_option (map canon_field) flds) None None None None None None [] []
      else if ty = ''list'' then DataType ty None cn (map_option canon elm) None None None None [] []
      else if ty = ''map''
        then DataType ty None None None (map_option canon key) (map_option canon vl) vcn None [] []
      else if ty = ''union'' then DataType ty None None None None None None (map_option (map canon) typs) [] []
      else if ty = ''unparsed'' then DataType ty None None None None None None None unparsed []
      else if ty = ''external'' then DataType ty None None None None None None None [] cat
      else primitive ty)"
| "canon_field (StructField name ty nullable comment) = StructField name (canon ty) nullable comment"

lemma member_of_raw [simp]:
  "member_of raw_members ''type'' = Some ''type''"
  "member_of raw_members ''fields'' = Some ''fields''"
  "member_of raw_members ''containsNull'' = Some ''containsNull''"
  "member_of raw_members ''elementType'' = Some ''elementType''"
  "member_of raw_members ''keyType'' = Some ''keyType''"
  "member_of raw_members ''valueType'' = Some ''valueType''"
  "member_of raw_members ''valueContainsNull'' = Some ''valueContainsNull''"
  "member_of raw_members ''types'' = Some ''types''"
  "member_of raw_members ''unparsedType'' = Some ''unparsedType''"
  "member_of raw_members ''catalogString'' = Some ''catalogString''"
  by (simp_all add: member_of_def raw_members_def)

lemma member_of_field [simp]:
  "member_of field_members ''name'' = Some ''name''"
  "member_of field_members ''type'' = Some ''type''"
  "member_of field_members ''nullable'' = Some ''nullable''"
  "member_of field_members ''comment'' = Some ''comment''"
  by (simp_all add: member_of_def field_members_def)

lemma not_blank_nonempty: "\<not> blank s \<Longrightarrow> s \<noteq> []"
  by (auto simp: blank_def trim_space_def)

lemma marshal_not_null [simp]: "DataType_MarshalJSON d \<noteq> JNull"
  by (cases d) (simp add: jmap_def)

lemma opt_bool_simps [simp]: "opt_bool k None = []" "opt_bool k (Some b) = [(k, JBool b)]"
  by (simp_all add: opt_bool_def)

lemma blank_kinds [simp]:
  "\<not> blank ''struct''" "\<not> blank ''list''" "\<not> blank ''map''" "\<not> blank ''union''"
  "\<not> blank ''unparsed''" "\<not> blank ''external''"
  by (simp_all add: blank_def trim_space_def is_space_def code_def)

lemma unmarshal_struct:
  "decode_fields (map StructField_MarshalJSON fs) = Inr gs \<Longrightarrow>
   DataType_UnmarshalJSON (jmap [(''type'', JStr ''struct''), (''fields'', JArr (map StructField_MarshalJSON fs))])
     = Inr (DataType ''struct'' (Some gs) None None None None None None [] [])"
  by (simp add: jmap_def raw_empty_def of_raw_def decodeUnparsedType_def)

lemma unmarshal_list:
  "j \<noteq> JNull \<Longrightarrow> DataType_UnmarshalJSON j = Inr d \<Longrightarrow>
   DataType_UnmarshalJSON (jmap ([(''type'', JStr ''list''), (''elementType'', j)] @ opt_bool ''containsNull'' cn))
     = Inr (DataType ''list'' None cn (Some d) None None None None [] [])"
  by (cases cn) (simp_all add: jmap_def raw_empty_def of_raw_def decodeUnparsedType_def)

lemma unmarshal_map:
  "j \<noteq> JNull \<Longrightarrow> l \<noteq> JNull \<Longrightarrow> DataType_UnmarshalJSON j = Inr d \<Longrightarrow> DataType_UnmarshalJSON l = Inr e \<Longrightarrow>
   DataType_UnmarshalJSON (jmap ([(''type'', JStr ''map''), (''keyType'', j), (''valueType'', l)]
       @ opt_bool ''valueContainsNull'' vcn))
     = Inr (DataType ''map'' None None None (Some d) (Some e) vcn None [] [])"
  by (cases vcn) (simp_all add: jmap_def raw_empty_def of_raw_def decodeUnparsedType_def)

lemma unmarshal_union:
  "decode_types (map DataType_MarshalJSON ts) = Inr us \<Longrightarrow>
   DataType_UnmarshalJSON (jmap [(''type'', JStr ''union''), (''types'', JArr (map DataType_MarshalJSON ts))])
     = Inr (DataType ''union'' None None None None None None (Some us) [] [])"
  by (simp add: jmap_def raw_empty_def of_raw_def decodeUnparsedType_def)

lemma unmarshal_opaque:
  "DataType_UnmarshalJSON (jmap [(''type'', JStr ''unparsed''), (''unparsedType'', JStr u)])
     = Inr (DataType ''unparsed'' None None None None None None None u [])"
  "DataType_UnmarshalJSON (jmap [(''type'', JStr ''external''), (''catalogString'', JStr c)])
     = Inr (DataType ''external'' None None None None None None None [] c)"
  by (simp_all add: jmap_def raw_empty_def of_raw_def decodeUnparsedType_def)

lemma unmarshal_field:
  "DataType_UnmarshalJSON j = Inr d \<Longrightarrow>
   decode_fields (jmap ([(''name'', JStr name), (''type'', j)] @ opt_bool ''nullable'' nullable
       @ (if comment \<noteq> [] then [(''comment'', JStr comment)] else [])) # js)
     = map_sum id (\<lambda>fs. StructField name d nullable comment # fs) (decode_fields js)"
  by (cases nullable) (simp_all add: jmap_def of_field_def)

lemma unmarshal_marshal_aux:
  "Validate d = None \<Longrightarrow> DataType_UnmarshalJSON (DataType_MarshalJSON d) = Inr (canon d)"
  "validate_fields ty i fs = None \<Longrightarrow>
     decode_fields (map StructField_MarshalJSON fs) = Inr (map canon_field fs)"
  "validate_types ty i ts = None \<Longrightarrow>
     decode_types (map DataType_MarshalJSON ts) = Inr (map canon ts)"
proof (induction d and ty i fs and ty i ts rule: Validate_validate_fields_validate_types.induct)
  case (1 ty flds cn elm key vl vcn typs unparsed cat)
  have ne: "\<not> blank ty" using "1.prems" by (auto split: if_splits)
  consider "ty = ''struct''" | "ty = ''list''" | "ty = ''map''" | "ty = ''union''"
    | "ty = ''unparsed'' \<or> ty = ''external''" | "\<not> structuredKindName ty"
    by (auto simp: structuredKindName_def)
  then show ?case
  proof cases
    case 1
    then obtain f fs where "flds = Some (f # fs)" "validate_fields ty 0 (f # fs) = None"
      using "1.prems" by (auto split: option.splits list.splits)
    with 1 "1.IH"(1) unmarshal_struct [of "f # fs" "map canon_field (f # fs)"] show ?thesis
      by (simp add: structuredKindName_def)
  next
    case 2
    then obtain e where "elm = Some e" "Validate e = None" using "1.prems" by (auto split: option.splits)
    with 2 "1.IH"(2) unmarshal_list [of "DataType_MarshalJSON e" "canon e"] show ?thesis
      by (simp add: structuredKindName_def)
  next
    case 3
    then obtain k v where "key = Some k" "vl = Some v" "Validate k = None" "Validate v = None"
      using "1.prems" by (auto split: option.splits)
    with 3 "1.IH"(3,4) unmarshal_map [of "DataType_MarshalJSON k" "DataType_MarshalJSON v" "canon k" "canon v"]
    show ?thesis by (simp add: structuredKindName_def)
  next
    case 4
    then obtain t ts where "typs = Some (t # ts)" "validate_types ty 0 (t # ts) = None"
      using "1.prems" by (auto split: option.splits list.splits)
    with 4 "1.IH"(5) unmarshal_union [of "t # ts" "map canon (t # ts)"] show ?thesis
      by (simp add: structuredKindName_def)
  next
    case 5
    then show ?thesis using unmarshal_opaque by (auto simp: structuredKindName_def)
  next
    case 6
    then show ?thesis by (auto simp: structuredKindName_def)
  qed
next
  case (3 ty i name fty nullable comment fs)
  then have "Validate fty = None" "validate_fields ty (Suc i) fs = None" "\<not> blank name"
    by (auto split: if_splits option.splits)
  with 3 unmarshal_field [of "DataType_MarshalJSON fty" "canon fty" name nullable comment] show ?case by simp
qed (simp_all split: option.splits)

lemma marshal_canon:
  "DataType_MarshalJSON (canon d) = DataType_MarshalJSON d"
  "StructField_MarshalJSON (canon_field f) = StructField_MarshalJSON f"
proof (induction d and f)
  case (DataType ty flds cn elm key vl vcn typs unparsed cat)
  then show ?case
    by (auto simp: structuredKindName_def primitive_def option.map_comp comp_def
        intro!: arg_cong [where f = jmap] split: option.splits)
qed simp

lemma validate_canon:
  "Validate d = None \<Longrightarrow> Validate (canon d) = None"
  "validate_fields ty i fs = None \<Longrightarrow> validate_fields ty i (map canon_field fs) = None"
  "validate_types ty i ts = None \<Longrightarrow> validate_types ty i (map canon ts) = None"
proof (induction d and ty i fs and ty i ts rule: Validate_validate_fields_validate_types.induct)
  case (1 ty flds cn elm key vl vcn typs unparsed cat)
  then show ?case
    by (auto simp: primitive_def split: if_splits option.splits list.splits)
next
  case (3 ty i name fty nullable comment fs)
  then show ?case by (auto split: if_splits option.splits)
qed (auto split: option.splits)

lemma wf_json_sort: "list_all (\<lambda>kv. wf_json (snd kv)) (sort_key fst kvs) = list_all (\<lambda>kv. wf_json (snd kv)) kvs"
  by (simp add: list_all_iff)

lemma wf_marshal: "wf_json (DataType_MarshalJSON d)" "wf_json (StructField_MarshalJSON f)"
proof (induction d and f)
  case (DataType ty flds cn elm key vl vcn typs unparsed cat)
  then show ?case
    by (auto simp: jmap_def wf_json_sort opt_bool_def list_all_iff split: option.splits)
next
  case (StructField name ty nullable comment)
  then show ?case by (auto simp: jmap_def wf_json_sort opt_bool_def list_all_iff split: option.splits)
qed

lemma trim_space_braces [simp]:
  "trim_space (CHR ''{'' # s @ ''}'') = CHR ''{'' # s @ ''}''"
  by (simp add: trim_space_def is_space_def code_def)

lemma unmarshal_text: "wf_json j \<Longrightarrow> unmarshal_type (json_text j) = DataType_UnmarshalJSON j"
  by (simp add: unmarshal_type_def parse_json_text)

lemma structured_text:
  assumes "IsStructured d"
  obtains t where "json_text (DataType_MarshalJSON d) = CHR ''{'' # t @ ''}''"
  using assms by (cases d) (auto simp: IsStructured_def jmap_def)

lemma letter_not_special: "is_letter c \<Longrightarrow> \<not> is_space c \<and> c \<noteq> CHR ''{'' \<and> c \<noteq> CHR 0x22"
  by (auto simp: is_letter_def is_upper_def is_lower_def is_space_def code_def)

lemma primitive_pattern_not_blank: "primitiveTypePattern s \<Longrightarrow> \<not> blank s"
  using letter_not_special
  by (cases s) (auto simp: primitiveTypePattern_def blank_def trim_space_def dropWhile_append)

lemma validate_primitive: "\<not> structuredKindName name \<Longrightarrow> \<not> blank name \<Longrightarrow> Validate (primitive name) = None"
  by (auto simp: primitive_def structuredKindName_def)

lemma parse_primitive_ok:
  "parse_primitive name = Inr d \<longleftrightarrow>
     \<not> structuredKindName name \<and> primitiveTypePattern name \<and> d = primitive name"
  by (auto simp: parse_primitive_def)

lemma parse_accepted:
  assumes "ParseDataType s = Inr d"
  shows "Validate d = None"
  using assms validate_primitive primitive_pattern_not_blank
  by (auto simp: ParseDataType_def parse_primitive_ok split: list.splits if_splits sum.splits option.splits)

lemma validate_nonempty: "Validate d = None \<Longrightarrow> \<not> blank (dt_Type d)"
  by (cases d) (auto split: if_splits)

lemma parse_canonical_text:
  assumes "Validate d = None" "IsStructured d"
  shows "ParseDataType (DataType_String d) = Inr (canon d)"
proof -
  obtain t where t: "json_text (DataType_MarshalJSON d) = CHR ''{'' # t @ ''}''"
    using structured_text [OF assms(2)] .
  have ty: "dt_Type d \<noteq> []" using validate_nonempty [OF assms(1)] not_blank_nonempty by blast
  have "unmarshal_type (json_text (DataType_MarshalJSON d)) = Inr (canon d)"
    by (simp add: unmarshal_text wf_marshal unmarshal_marshal_aux(1) [OF assms(1)])
  with ty assms(2) validate_canon(1) [OF assms(1)] t show ?thesis
    by (simp add: DataType_String_def ParseDataType_def)
qed

lemma canon_kind [simp]: "dt_Type (canon d) = dt_Type d"
  by (cases d) (simp add: primitive_def)

lemma string_canon: "DataType_String (canon d) = DataType_String d"
  by (simp add: DataType_String_def IsStructured_def marshal_canon)

subsection \<open>Properties\<close>

text \<open>C5: A column type the parser accepts is complete: \<open>Validate\<close> has no objection, so a plan
  with that type is never sent with a missing element, key, value or member type. Conversely
  the canonical text of a complete structured type is accepted: it parses to the same type
  without the fields of other kinds, which has the same text and the same JSON. Reading a
  structured type back from the state is therefore stable after one step.\<close>

theorem parse_reparse:
  assumes "ParseDataType s = Inr d"
  shows "Validate d = None \<and>
    (IsStructured d \<longrightarrow> ParseDataType (DataType_String d) = Inr (canon d)
      \<and> DataType_String (canon d) = DataType_String d
      \<and> DataType_MarshalJSON (canon d) = DataType_MarshalJSON d)"
  using parse_accepted [OF assms] parse_canonical_text [OF parse_accepted [OF assms]]
  by (simp_all add: string_canon marshal_canon)

theorem parse_reparse_witness:
  "ParseDataType (DataType_String (DataType ''list'' None (Some True) (Some (primitive ''integer''))
      None None None None [] [])) =
   Inr (DataType ''list'' None (Some True) (Some (primitive ''integer'')) None None None None [] [])"
proof -
  have "ParseDataType ''{\"type\":\"list\",\"containsNull\":true,\"elementType\":\"integer\"}'' =
      Inr (DataType ''list'' None (Some True) (Some (primitive ''integer'')) None None None None [] [])"
    by code_simp
  from parse_reparse [OF this] show ?thesis
    by (simp add: IsStructured_def structuredKindName_def primitive_def)
qed

text \<open>A bare primitive name is normalised once: the parser accepts it only if it has the
  documented shape and is not the name of a structured kind, the result is its text without
  surrounding white space, and that text parses to the same type.\<close>

theorem parse_bare_name:
  assumes "ParseDataType s = Inr d" "trim_space s = c # cs" "c \<noteq> CHR ''{''" "c \<noteq> CHR 0x22"
  shows "DataType_String d = trim_space s \<and> \<not> IsStructured d \<and> primitiveTypePattern (DataType_String d)
    \<and> ParseDataType (DataType_String d) = Inr d"
proof -
  have p: "parse_primitive (trim_space s) = Inr d"
    using assms by (simp add: ParseDataType_def)
  then have d: "d = primitive (trim_space s)" "\<not> structuredKindName (trim_space s)"
      "primitiveTypePattern (trim_space s)" by (simp_all add: parse_primitive_ok)
  then have "DataType_String d = trim_space s"
    using assms(2) by (simp add: DataType_String_def IsStructured_def primitive_def)
  moreover have "\<not> IsStructured d" using d by (simp add: IsStructured_def primitive_def)
  moreover have "ParseDataType (trim_space s) = Inr d"
    using assms p trim_space_idem [of s] by (simp add: ParseDataType_def)
  ultimately show ?thesis using d by simp
qed

theorem parse_bare_name_witness:
  "DataType_String (primitive ''decimal(10,2)'') = ''decimal(10,2)''"
proof -
  have "ParseDataType '' decimal(10,2) '' = Inr (primitive ''decimal(10,2)'')" by code_simp
  moreover have "trim_space '' decimal(10,2) '' = CHR ''d'' # ''ecimal(10,2)''" by code_simp
  ultimately show ?thesis using parse_bare_name [of "'' decimal(10,2) ''"] by fastforce
qed

text \<open>The object form is not restricted to the structured kinds: \<open>{"type": name}\<close> is
  accepted for every name that is not blank and not a structured kind, and the result is the
  primitive type of that name, also when the same name written directly is refused because it
  does not match the pattern.\<close>

theorem object_form_bypasses_pattern:
  assumes "\<not> blank name" "\<not> structuredKindName name"
  shows "ParseDataType (json_text (JObj [(''type'', JStr name)])) = Inr (primitive name)
    \<and> (\<not> primitiveTypePattern name \<longrightarrow> parse_primitive name = Inl (invalidPrimitiveTypeError name))"
proof (intro conjI impI)
  have "unmarshal_type (json_text (JObj [(''type'', JStr name)])) = Inr (primitive name)"
    using assms by (subst unmarshal_text) (simp_all add: raw_empty_def of_raw_def
        decodeUnparsedType_def primitive_def not_blank_nonempty)
  then show "ParseDataType (json_text (JObj [(''type'', JStr name)])) = Inr (primitive name)"
    using validate_primitive [OF assms(2,1)]
      trim_space_braces [of "string_text ''type'' @ '':'' @ string_text name"]
    by (simp add: ParseDataType_def)
  show "parse_primitive name = Inl (invalidPrimitiveTypeError name)" if "\<not> primitiveTypePattern name"
    using assms that by (simp add: parse_primitive_def)
qed

theorem object_form_bypasses_pattern_witness:
  "ParseDataType (json_text (JObj [(''type'', JStr ''9x!'')])) = Inr (primitive ''9x!'')
   \<and> (\<exists>e. ParseDataType ''9x!'' = Inl e)"
proof
  have "\<not> blank ''9x!''" "\<not> structuredKindName ''9x!''" by code_simp+
  then show "ParseDataType (json_text (JObj [(''type'', JStr ''9x!'')])) = Inr (primitive ''9x!'')"
    using object_form_bypasses_pattern by blast
  show "\<exists>e. ParseDataType ''9x!'' = Inl e"
    by (intro exI [of _ "invalidPrimitiveTypeError ''9x!''"]) code_simp
qed

end
