(* ===== verification/Paths.thy ===== *)
theory Paths
  imports GoStrings
begin

section \<open>URL paths of the REST API (client/paths.go)\<close>

text \<open>
  Every path is built from fixed words and user-supplied names, each name escaped with
  \<open>url.PathEscape\<close> (Go's \<open>encodePathSegment\<close> mode, written out here). The locale
  \<open>segment_escape\<close> is the contract the builders need from the escape function: it is
  injective and its result contains no slash. Under it the segments of a path, and so the names it was
  built from, can be read back from its text; the interpretation on \<open>PathEscape\<close> gives that
  to every builder of the client.
\<close>

definition is_alnum :: "char \<Rightarrow> bool" where
  "is_alnum c = (is_digit c \<or> is_upper c \<or> is_lower c)"

definition path_safe :: "char \<Rightarrow> bool" where
  "path_safe c = (is_alnum c \<or> c \<in> set ''-_.~$&+=:@'')"

definition upper_hex :: "nat \<Rightarrow> char" where
  "upper_hex n = (if n < 10 then char_of (48 + n) else char_of (55 + n))"

definition escape_char :: "char \<Rightarrow> string" where
  "escape_char c =
     (if path_safe c then [c] else [CHR ''%'', upper_hex (code c div 16), upper_hex (code c mod 16)])"

definition PathEscape :: "string \<Rightarrow> string" where
  "PathEscape s = concat (map escape_char s)"

subsection \<open>The builders\<close>

definition metalakePath :: "string \<Rightarrow> string" where
  "metalakePath metalake = ''/metalakes/'' @ PathEscape metalake"

definition catalogPath :: "string \<Rightarrow> string \<Rightarrow> string" where
  "catalogPath metalake catalog = metalakePath metalake @ ''/catalogs/'' @ PathEscape catalog"

definition schemaPath :: "string \<Rightarrow> string \<Rightarrow> string \<Rightarrow> string" where
  "schemaPath metalake catalog schema = catalogPath metalake catalog @ ''/schemas/'' @ PathEscape schema"

definition catalogCollectionPath :: "string \<Rightarrow> string \<Rightarrow> string \<Rightarrow> string \<Rightarrow> string" where
  "catalogCollectionPath metalake catalog schema kind = schemaPath metalake catalog schema @ ''/'' @ kind"

definition catalogEntityPath :: "string \<Rightarrow> string \<Rightarrow> string \<Rightarrow> string \<Rightarrow> string \<Rightarrow> string" where
  "catalogEntityPath metalake catalog schema kind name =
     catalogCollectionPath metalake catalog schema kind @ ''/'' @ PathEscape name"

definition collectionPath :: "string \<Rightarrow> string \<Rightarrow> string" where
  "collectionPath metalake kind = metalakePath metalake @ ''/'' @ kind"

definition entityPath :: "string \<Rightarrow> string \<Rightarrow> string \<Rightarrow> string" where
  "entityPath metalake kind name = collectionPath metalake kind @ ''/'' @ PathEscape name"

definition objectPath :: "string \<Rightarrow> string \<Rightarrow> string \<Rightarrow> string" where
  "objectPath metalake objectType objectFullName =
     metalakePath metalake @ ''/objects/'' @ PathEscape objectType @ ''/'' @ PathEscape objectFullName"

definition jobRunsPath :: "string \<Rightarrow> string" where
  "jobRunsPath metalake = metalakePath metalake @ ''/jobs/runs''"

definition jobRunPath :: "string \<Rightarrow> string \<Rightarrow> string" where
  "jobRunPath metalake jobID = jobRunsPath metalake @ ''/'' @ PathEscape jobID"

definition jobTemplatesPath :: "string \<Rightarrow> string" where
  "jobTemplatesPath metalake = metalakePath metalake @ ''/jobs/templates''"

definition jobTemplatePath :: "string \<Rightarrow> string \<Rightarrow> string" where
  "jobTemplatePath metalake name = jobTemplatesPath metalake @ ''/'' @ PathEscape name"

subsection \<open>The escape function\<close>

fun unescape :: "string \<Rightarrow> string" where
  "unescape (c # cs) =
     (if c = CHR ''%'' then
        (case cs of
           h # l # r \<Rightarrow>
             char_of ((if is_digit h then code h - 48 else code h - 55) * 16
               + (if is_digit l then code l - 48 else code l - 55)) # unescape r
         | _ \<Rightarrow> [])
      else c # unescape cs)"
| "unescape [] = []"

lemma upper_hex_val:
  "n < 16 \<Longrightarrow> (if is_digit (upper_hex n) then code (upper_hex n) - 48 else code (upper_hex n) - 55) = n"
  by (simp add: upper_hex_def is_digit_def)

lemma unescape_char: "unescape (escape_char c @ r) = c # unescape r"
proof (cases "path_safe c")
  case True
  then have "c \<noteq> CHR ''%''"
    by (auto simp: path_safe_def is_alnum_def is_digit_def is_upper_def is_lower_def code_def)
  with True show ?thesis by (simp add: escape_char_def)
next
  case False
  have "code c div 16 < 16" using code_lt [of c] by linarith
  moreover have "code c mod 16 < 16" by simp
  ultimately have "unescape (CHR ''%'' # upper_hex (code c div 16) # upper_hex (code c mod 16) # r)
      = char_of (code c div 16 * 16 + code c mod 16) # unescape r"
    using upper_hex_val [of "code c div 16"] upper_hex_val [of "code c mod 16"]
    by (subst unescape.simps) (simp del: unescape.simps)
  also have "code c div 16 * 16 + code c mod 16 = code c" by (rule div_mult_mod_eq)
  finally show ?thesis using False by (simp add: escape_char_def del: unescape.simps)
qed

lemma unescape_PathEscape: "unescape (PathEscape s) = s"
  by (induction s) (simp_all add: PathEscape_def unescape_char del: unescape.simps(1))

lemma upper_hex_alnum: "n < 16 \<Longrightarrow> is_alnum (upper_hex n)"
  by (simp add: upper_hex_def is_alnum_def is_digit_def is_upper_def)

lemma escape_char_plain:
  assumes "x \<in> set (escape_char c)"
  shows "is_alnum x \<or> x \<in> set ''-_.~$&+=:@%''"
proof (cases "path_safe c")
  case True
  then show ?thesis using assms by (auto simp: escape_char_def path_safe_def)
next
  case False
  have "code c div 16 < 16" using code_lt [of c] by linarith
  moreover have "code c mod 16 < 16" by simp
  moreover have "x = CHR ''%'' \<or> x = upper_hex (code c div 16) \<or> x = upper_hex (code c mod 16)"
    using assms False by (simp add: escape_char_def)
  ultimately show ?thesis using upper_hex_alnum by auto
qed

lemma PathEscape_chars: "x \<in> set (PathEscape s) \<Longrightarrow> is_alnum x \<or> x \<in> set ''-_.~$&+=:@%''"
  using escape_char_plain by (fastforce simp: PathEscape_def)

lemma special_not_alnum:
  "\<not> is_alnum CHR ''/''" "\<not> is_alnum CHR ''?''" "\<not> is_alnum CHR ''#''"
  by (simp_all add: is_alnum_def is_digit_def is_upper_def is_lower_def code_def)

lemma PathEscape_no_delimiter:
  "CHR ''/'' \<notin> set (PathEscape s)" "CHR ''?'' \<notin> set (PathEscape s)" "CHR ''#'' \<notin> set (PathEscape s)"
  using PathEscape_chars [of "CHR ''/''" s] PathEscape_chars [of "CHR ''?''" s]
    PathEscape_chars [of "CHR ''#''" s] special_not_alnum by auto

subsection \<open>What a builder needs from the escape function\<close>

datatype segment = Word (seg: string) | Name (seg: string)

locale segment_escape =
  fixes esc :: "string \<Rightarrow> string"
  assumes esc_inject: "esc a = esc b \<Longrightarrow> a = b"
    and esc_slash: "CHR ''/'' \<notin> set (esc a)"
begin

fun piece :: "segment \<Rightarrow> string" where
  "piece (Word w) = w"
| "piece (Name n) = esc n"

definition render :: "segment list \<Rightarrow> string" where
  "render ss = concat (map (\<lambda>s. CHR ''/'' # piece s) ss)"

definition plain :: "segment list \<Rightarrow> bool" where
  "plain ss = (\<forall>w. Word w \<in> set ss \<longrightarrow> CHR ''/'' \<notin> set w)"

lemma render_split:
  "plain ss \<Longrightarrow> CHR ''/'' \<notin> set p \<Longrightarrow> split_on CHR ''/'' (p @ render ss) = p # map piece ss"
proof (induction ss arbitrary: p)
  case Nil
  then show ?case by (simp add: render_def split_on_no_sep)
next
  case (Cons s ss)
  have "CHR ''/'' \<notin> set (piece s)" using Cons.prems esc_slash by (cases s) (auto simp: plain_def)
  moreover have "plain ss" using Cons.prems by (auto simp: plain_def)
  ultimately show ?case
    using Cons.prems split_on_append [of "CHR ''/''" p "piece s @ render ss"] Cons.IH [of "piece s"]
    by (simp add: render_def)
qed

lemma render_inject:
  assumes "plain ss" "plain ts" "list_all2 (\<lambda>s t. is_Word s = is_Word t) ss ts" "render ss = render ts"
  shows "ss = ts"
proof -
  have "map piece ss = map piece ts"
    using render_split [OF assms(1), of "[]"] render_split [OF assms(2), of "[]"] assms(4) by simp
  with assms(3) show ?thesis
  proof (induction ss ts rule: list_all2_induct)
    case (Cons s ss t ts)
    then show ?case by (cases s; cases t) (auto dest: esc_inject)
  qed simp
qed

lemma render_append: "render (ss @ ts) = render ss @ render ts"
  by (simp add: render_def)

end

interpretation url: segment_escape PathEscape
proof
  show "PathEscape a = PathEscape b \<Longrightarrow> a = b" for a b
    by (metis unescape_PathEscape)
  show "CHR ''/'' \<notin> set (PathEscape a)" for a by (rule PathEscape_no_delimiter)
qed

lemma path_rendered:
  "metalakePath m = url.render [Word ''metalakes'', Name m]"
  "catalogPath m c = url.render [Word ''metalakes'', Name m, Word ''catalogs'', Name c]"
  "schemaPath m c s = url.render [Word ''metalakes'', Name m, Word ''catalogs'', Name c, Word ''schemas'', Name s]"
  "catalogCollectionPath m c s k =
     url.render [Word ''metalakes'', Name m, Word ''catalogs'', Name c, Word ''schemas'', Name s, Word k]"
  "catalogEntityPath m c s k n =
     url.render [Word ''metalakes'', Name m, Word ''catalogs'', Name c, Word ''schemas'', Name s, Word k, Name n]"
  "collectionPath m k = url.render [Word ''metalakes'', Name m, Word k]"
  "entityPath m k n = url.render [Word ''metalakes'', Name m, Word k, Name n]"
  "objectPath m t f = url.render [Word ''metalakes'', Name m, Word ''objects'', Name t, Name f]"
  "jobRunPath m j = url.render [Word ''metalakes'', Name m, Word ''jobs'', Word ''runs'', Name j]"
  "jobTemplatePath m n = url.render [Word ''metalakes'', Name m, Word ''jobs'', Word ''templates'', Name n]"
  by (simp_all add: url.render_def metalakePath_def catalogPath_def schemaPath_def
      catalogCollectionPath_def catalogEntityPath_def collectionPath_def entityPath_def objectPath_def
      jobRunPath_def jobRunsPath_def jobTemplatePath_def jobTemplatesPath_def)

text \<open>Distinct objects have distinct URLs: a catalog-scoped path determines the metalake,
  the catalog, the schema, the collection and the name it was built from, whatever characters
  the names contain, so a request can never address another object than the one meant.\<close>

theorem entity_path_injective:
  assumes "CHR ''/'' \<notin> set k" "CHR ''/'' \<notin> set k'"
    and "catalogEntityPath m c s k n = catalogEntityPath m' c' s' k' n'"
  shows "m = m' \<and> c = c' \<and> s = s' \<and> k = k' \<and> n = n'"
  using url.render_inject [OF _ _ _ assms(3) [unfolded path_rendered]] assms(1,2)
  by (auto simp: url.plain_def)

theorem entity_path_injective_witness:
  "catalogEntityPath ''m'' ''c'' ''a/b'' ''tables'' ''t'' \<noteq> catalogEntityPath ''m'' ''c'' ''a'' ''tables'' ''b/t''"
  using entity_path_injective [of "''tables''" "''tables''" "''m''" "''c''" "''a/b''" "''t''" "''m''" "''c''" "''a''" "''b/t''"]
  by auto

text \<open>C21: The same for the metadata objects that tags, policies, roles, owners and statistics hang
  on: type and full name are read back unchanged from the path, and neither can smuggle a query
  or a fragment into the URL.\<close>

theorem object_path_injective:
  assumes "objectPath m t f = objectPath m' t' f'"
  shows "m = m' \<and> t = t' \<and> f = f' \<and> CHR ''?'' \<notin> set (objectPath m t f) \<and> CHR ''#'' \<notin> set (objectPath m t f)"
proof -
  have "m = m' \<and> t = t' \<and> f = f'"
    using url.render_inject [OF _ _ _ assms [unfolded path_rendered]] by (auto simp: url.plain_def)
  then show ?thesis by (simp add: objectPath_def metalakePath_def PathEscape_no_delimiter)
qed

theorem object_path_injective_witness:
  "CHR ''?'' \<notin> set (objectPath ''m'' ''TABLE'' ''c.s.t?force=true'')"
  using object_path_injective [of "''m''" "''TABLE''" "''c.s.t?force=true''"] by blast

end
