(* ===== verification/Api.thy ===== *)
theory Api
  imports Paths Json Errors
begin

section \<open>The client's methods as requests (client/*.go)\<close>

text \<open>
  Every method of the client is one call of \<open>Get\<close>, \<open>Post\<close>, \<open>PostIdempotent\<close>, \<open>Put\<close>, \<open>Delete\<close> or
  \<open>Patch\<close>: a verb, a path, a body and whether the request may be repeated. \<open>call\<close> holds these
  four, and each method is the call it makes; what happens to a call is modelled in
  \<open>HttpClient\<close>. A request body the caller passes in stays a document (\<open>json\<close>); the ones the
  method builds are written out. The \<open>List...Details\<close> methods that load the entities one by
  one are \<open>fetch_details\<close>.
\<close>

record call =
  ca_method :: string
  ca_path :: string
  ca_body :: "json option"
  ca_retryable :: bool

definition Get :: "string \<Rightarrow> call" where
  "Get p = \<lparr>ca_method = ''GET'', ca_path = p, ca_body = None, ca_retryable = True\<rparr>"

definition Post :: "string \<Rightarrow> json option \<Rightarrow> call" where
  "Post p b = \<lparr>ca_method = ''POST'', ca_path = p, ca_body = b, ca_retryable = False\<rparr>"

definition PostIdempotent :: "string \<Rightarrow> json option \<Rightarrow> call" where
  "PostIdempotent p b = \<lparr>ca_method = ''POST'', ca_path = p, ca_body = b, ca_retryable = True\<rparr>"

definition Put :: "string \<Rightarrow> json option \<Rightarrow> call" where
  "Put p b = \<lparr>ca_method = ''PUT'', ca_path = p, ca_body = b, ca_retryable = True\<rparr>"

definition Delete :: "string \<Rightarrow> call" where
  "Delete p = \<lparr>ca_method = ''DELETE'', ca_path = p, ca_body = None, ca_retryable = True\<rparr>"

definition Patch :: "string \<Rightarrow> json option \<Rightarrow> call" where
  "Patch p b = \<lparr>ca_method = ''PATCH'', ca_path = p, ca_body = b, ca_retryable = True\<rparr>"

definition updates_body :: "json list \<Rightarrow> json option" where
  "updates_body us = Some (JObj [(''updates'', JArr us)])"

definition bool_text :: "bool \<Rightarrow> string" where
  "bool_text b = (if b then ''true'' else ''false'')"

definition force_query :: "bool \<Rightarrow> string" where
  "force_query force = ''?force='' @ bool_text force"

text \<open>\<open>url.QueryEscape\<close>: a space becomes a plus sign, and only letters, digits and four marks are
  left as they are.\<close>

definition query_char :: "char \<Rightarrow> string" where
  "query_char c =
     (if is_alnum c \<or> c \<in> set ''-_.~'' then [c]
      else if c = CHR '' '' then ''+''
      else [CHR ''%'', upper_hex (code c div 16), upper_hex (code c mod 16)])"

definition QueryEscape :: "string \<Rightarrow> string" where
  "QueryEscape s = concat (map query_char s)"

definition roles_body :: "string list \<Rightarrow> json option" where
  "roles_body rs = Some (JObj [(''roleNames'', JArr (map JStr rs))])"

subsection \<open>Metalakes and catalogs\<close>

definition ListMetalakes :: "call" where
  "ListMetalakes = Get ''/metalakes''"

definition GetMetalake :: "string \<Rightarrow> call" where
  "GetMetalake m = Get (metalakePath m)"

definition CreateMetalake :: "json \<Rightarrow> call" where
  "CreateMetalake req = Post ''/metalakes'' (Some req)"

definition UpdateMetalake :: "string \<Rightarrow> json list \<Rightarrow> call" where
  "UpdateMetalake m us = Put (metalakePath m) (updates_body us)"

definition DropMetalake :: "string \<Rightarrow> bool \<Rightarrow> call" where
  "DropMetalake m force = Delete (metalakePath m @ force_query force)"

definition SetMetalakeInUse :: "string \<Rightarrow> bool \<Rightarrow> call" where
  "SetMetalakeInUse m inUse = Patch (metalakePath m) (Some (JObj [(''inUse'', JBool inUse)]))"

subsection \<open>Catalogs\<close>

definition ListCatalogsDetails :: "string \<Rightarrow> call" where
  "ListCatalogsDetails m = Get (metalakePath m @ ''/catalogs?details=true'')"

definition GetCatalog :: "string \<Rightarrow> string \<Rightarrow> call" where
  "GetCatalog m c = Get (catalogPath m c)"

definition CreateCatalog :: "string \<Rightarrow> json \<Rightarrow> call" where
  "CreateCatalog m req = Post (metalakePath m @ ''/catalogs'') (Some req)"

definition UpdateCatalog :: "string \<Rightarrow> string \<Rightarrow> json list \<Rightarrow> call" where
  "UpdateCatalog m c us = Put (catalogPath m c) (updates_body us)"

definition DropCatalog :: "string \<Rightarrow> string \<Rightarrow> bool \<Rightarrow> call" where
  "DropCatalog m c force = Delete (catalogPath m c @ force_query force)"

definition TestCatalogConfig :: "string \<Rightarrow> json \<Rightarrow> call" where
  "TestCatalogConfig m req = PostIdempotent (metalakePath m @ ''/catalogs/testConnection'') (Some req)"

definition TestCatalogConnection :: "string \<Rightarrow> string \<Rightarrow> json option \<Rightarrow> call" where
  "TestCatalogConnection m c req = PostIdempotent (catalogPath m c @ ''/testConnection'') req"

definition SetCatalogInUse :: "string \<Rightarrow> string \<Rightarrow> bool \<Rightarrow> call" where
  "SetCatalogInUse m c inUse = Patch (catalogPath m c) (Some (JObj [(''inUse'', JBool inUse)]))"

subsection \<open>Schemas\<close>

definition GetSchema :: "string \<Rightarrow> string \<Rightarrow> string \<Rightarrow> call" where
  "GetSchema m c s = Get (schemaPath m c s)"

definition CreateSchema :: "string \<Rightarrow> string \<Rightarrow> json \<Rightarrow> call" where
  "CreateSchema m c req = Post (catalogPath m c @ ''/schemas'') (Some req)"

definition UpdateSchema :: "string \<Rightarrow> string \<Rightarrow> string \<Rightarrow> json list \<Rightarrow> call" where
  "UpdateSchema m c s us = Put (schemaPath m c s) (updates_body us)"

definition DropSchema :: "string \<Rightarrow> string \<Rightarrow> string \<Rightarrow> call" where
  "DropSchema m c s = Delete (schemaPath m c s)"

subsection \<open>Tables\<close>

definition tablesPath :: "string \<Rightarrow> string \<Rightarrow> string \<Rightarrow> string" where
  "tablesPath m c s = catalogCollectionPath m c s ''tables''"

definition tablePath :: "string \<Rightarrow> string \<Rightarrow> string \<Rightarrow> string \<Rightarrow> string" where
  "tablePath m c s n = catalogEntityPath m c s ''tables'' n"

definition ListTables :: "string \<Rightarrow> string \<Rightarrow> string \<Rightarrow> call" where
  "ListTables m c s = Get (tablesPath m c s)"

definition GetTable :: "string \<Rightarrow> string \<Rightarrow> string \<Rightarrow> string \<Rightarrow> call" where
  "GetTable m c s n = Get (tablePath m c s n)"

definition CreateTable :: "string \<Rightarrow> string \<Rightarrow> string \<Rightarrow> json \<Rightarrow> call" where
  "CreateTable m c s req = Post (tablesPath m c s) (Some req)"

definition UpdateTable :: "string \<Rightarrow> string \<Rightarrow> string \<Rightarrow> string \<Rightarrow> json list \<Rightarrow> call" where
  "UpdateTable m c s n us = Put (tablePath m c s n) (updates_body us)"

definition DropTable :: "string \<Rightarrow> string \<Rightarrow> string \<Rightarrow> string \<Rightarrow> call" where
  "DropTable m c s n = Delete (tablePath m c s n)"

subsection \<open>Views\<close>

definition GetView :: "string \<Rightarrow> string \<Rightarrow> string \<Rightarrow> string \<Rightarrow> call" where
  "GetView m c s n = Get (catalogEntityPath m c s ''views'' n)"

definition CreateView :: "string \<Rightarrow> string \<Rightarrow> string \<Rightarrow> json \<Rightarrow> call" where
  "CreateView m c s req = Post (catalogCollectionPath m c s ''views'') (Some req)"

definition UpdateView :: "string \<Rightarrow> string \<Rightarrow> string \<Rightarrow> string \<Rightarrow> json list \<Rightarrow> call" where
  "UpdateView m c s n us = Put (catalogEntityPath m c s ''views'' n) (updates_body us)"

definition DropView :: "string \<Rightarrow> string \<Rightarrow> string \<Rightarrow> string \<Rightarrow> call" where
  "DropView m c s n = Delete (catalogEntityPath m c s ''views'' n)"

subsection \<open>Filesets\<close>

definition GetFileset :: "string \<Rightarrow> string \<Rightarrow> string \<Rightarrow> string \<Rightarrow> call" where
  "GetFileset m c s n = Get (catalogEntityPath m c s ''filesets'' n)"

definition CreateFileset :: "string \<Rightarrow> string \<Rightarrow> string \<Rightarrow> json \<Rightarrow> call" where
  "CreateFileset m c s req = Post (catalogCollectionPath m c s ''filesets'') (Some req)"

definition UpdateFileset :: "string \<Rightarrow> string \<Rightarrow> string \<Rightarrow> string \<Rightarrow> json list \<Rightarrow> call" where
  "UpdateFileset m c s n us = Put (catalogEntityPath m c s ''filesets'' n) (updates_body us)"

definition DropFileset :: "string \<Rightarrow> string \<Rightarrow> string \<Rightarrow> string \<Rightarrow> call" where
  "DropFileset m c s n = Delete (catalogEntityPath m c s ''filesets'' n)"

subsection \<open>Topics\<close>

definition GetTopic :: "string \<Rightarrow> string \<Rightarrow> string \<Rightarrow> string \<Rightarrow> call" where
  "GetTopic m c s n = Get (catalogEntityPath m c s ''topics'' n)"

definition CreateTopic :: "string \<Rightarrow> string \<Rightarrow> string \<Rightarrow> json \<Rightarrow> call" where
  "CreateTopic m c s req = Post (catalogCollectionPath m c s ''topics'') (Some req)"

definition UpdateTopic :: "string \<Rightarrow> string \<Rightarrow> string \<Rightarrow> string \<Rightarrow> json list \<Rightarrow> call" where
  "UpdateTopic m c s n us = Put (catalogEntityPath m c s ''topics'' n) (updates_body us)"

definition DropTopic :: "string \<Rightarrow> string \<Rightarrow> string \<Rightarrow> string \<Rightarrow> call" where
  "DropTopic m c s n = Delete (catalogEntityPath m c s ''topics'' n)"

subsection \<open>Models\<close>

definition GetModel :: "string \<Rightarrow> string \<Rightarrow> string \<Rightarrow> string \<Rightarrow> call" where
  "GetModel m c s n = Get (catalogEntityPath m c s ''models'' n)"

definition CreateModel :: "string \<Rightarrow> string \<Rightarrow> string \<Rightarrow> json \<Rightarrow> call" where
  "CreateModel m c s req = Post (catalogCollectionPath m c s ''models'') (Some req)"

definition UpdateModel :: "string \<Rightarrow> string \<Rightarrow> string \<Rightarrow> string \<Rightarrow> json list \<Rightarrow> call" where
  "UpdateModel m c s n us = Put (catalogEntityPath m c s ''models'' n) (updates_body us)"

definition DropModel :: "string \<Rightarrow> string \<Rightarrow> string \<Rightarrow> string \<Rightarrow> call" where
  "DropModel m c s n = Delete (catalogEntityPath m c s ''models'' n)"

definition ListModelVersions :: "string \<Rightarrow> string \<Rightarrow> string \<Rightarrow> string \<Rightarrow> bool \<Rightarrow> call" where
  "ListModelVersions m c s n details = Get (catalogEntityPath m c s ''models'' n @ ''/versions'' @ (if details then ''?details=true'' else []))"

definition LinkModelVersion :: "string \<Rightarrow> string \<Rightarrow> string \<Rightarrow> string \<Rightarrow> json \<Rightarrow> call" where
  "LinkModelVersion m c s n req = Post (catalogEntityPath m c s ''models'' n @ ''/versions'') (Some req)"

definition modelVersionPath :: "string \<Rightarrow> string \<Rightarrow> string \<Rightarrow> string \<Rightarrow> int \<Rightarrow> string" where
  "modelVersionPath m c s n v = catalogEntityPath m c s ''models'' n @ ''/versions/'' @ itoa v"

definition modelVersionAliasPath :: "string \<Rightarrow> string \<Rightarrow> string \<Rightarrow> string \<Rightarrow> string \<Rightarrow> string" where
  "modelVersionAliasPath m c s n a = catalogEntityPath m c s ''models'' n @ ''/aliases/'' @ PathEscape a"

definition GetModelVersion :: "string \<Rightarrow> string \<Rightarrow> string \<Rightarrow> string \<Rightarrow> int \<Rightarrow> call" where
  "GetModelVersion m c s n v = Get (modelVersionPath m c s n v)"

definition UpdateModelVersion :: "string \<Rightarrow> string \<Rightarrow> string \<Rightarrow> string \<Rightarrow> int \<Rightarrow> json list \<Rightarrow> call" where
  "UpdateModelVersion m c s n v us = Put (modelVersionPath m c s n v) (updates_body us)"

definition DeleteModelVersion :: "string \<Rightarrow> string \<Rightarrow> string \<Rightarrow> string \<Rightarrow> int \<Rightarrow> call" where
  "DeleteModelVersion m c s n v = Delete (modelVersionPath m c s n v)"

definition GetModelVersionByAlias :: "string \<Rightarrow> string \<Rightarrow> string \<Rightarrow> string \<Rightarrow> string \<Rightarrow> call" where
  "GetModelVersionByAlias m c s n a = Get (modelVersionAliasPath m c s n a)"

subsection \<open>Functions\<close>

definition ListFunctionsDetails :: "string \<Rightarrow> string \<Rightarrow> string \<Rightarrow> call" where
  "ListFunctionsDetails m c s = Get (catalogCollectionPath m c s ''functions'' @ ''?details=true'')"

definition GetFunction :: "string \<Rightarrow> string \<Rightarrow> string \<Rightarrow> string \<Rightarrow> call" where
  "GetFunction m c s n = Get (catalogEntityPath m c s ''functions'' n)"

definition RegisterFunction :: "string \<Rightarrow> string \<Rightarrow> string \<Rightarrow> json \<Rightarrow> call" where
  "RegisterFunction m c s req = Post (catalogCollectionPath m c s ''functions'') (Some req)"

definition UpdateFunction :: "string \<Rightarrow> string \<Rightarrow> string \<Rightarrow> string \<Rightarrow> json list \<Rightarrow> call" where
  "UpdateFunction m c s n us = Put (catalogEntityPath m c s ''functions'' n) (updates_body us)"

definition DropFunction :: "string \<Rightarrow> string \<Rightarrow> string \<Rightarrow> string \<Rightarrow> call" where
  "DropFunction m c s n = Delete (catalogEntityPath m c s ''functions'' n)"

subsection \<open>Partitions\<close>

definition partitionsPath :: "string \<Rightarrow> string \<Rightarrow> string \<Rightarrow> string \<Rightarrow> string" where
  "partitionsPath m c s t = catalogEntityPath m c s ''tables'' t @ ''/partitions''"

definition ListPartitions :: "string \<Rightarrow> string \<Rightarrow> string \<Rightarrow> string \<Rightarrow> call" where
  "ListPartitions m c s t = Get (partitionsPath m c s t @ ''?details=true'')"

definition GetPartition :: "string \<Rightarrow> string \<Rightarrow> string \<Rightarrow> string \<Rightarrow> string \<Rightarrow> call" where
  "GetPartition m c s t n = Get (partitionsPath m c s t @ ''/'' @ PathEscape n)"

definition AddPartitions :: "string \<Rightarrow> string \<Rightarrow> string \<Rightarrow> string \<Rightarrow> json list \<Rightarrow> call" where
  "AddPartitions m c s t ps = Post (partitionsPath m c s t) (Some (JObj [(''partitions'', JArr ps)]))"

definition DropPartition :: "string \<Rightarrow> string \<Rightarrow> string \<Rightarrow> string \<Rightarrow> string \<Rightarrow> call" where
  "DropPartition m c s t n = Delete (partitionsPath m c s t @ ''/'' @ PathEscape n)"

subsection \<open>Roles\<close>

definition ListRoles :: "string \<Rightarrow> string \<Rightarrow> string \<Rightarrow> call" where
  "ListRoles m t f = Get (objectPath m t f @ ''/roles'')"

definition CreateRole :: "string \<Rightarrow> string \<Rightarrow> string gomap \<Rightarrow> json list option \<Rightarrow> call" where
  "CreateRole m n props os = Post (collectionPath m ''roles'')
     (Some (JObj ([(''name'', JStr n)]
        @ (if props = [] then [] else [(''properties'', jmap (map (\<lambda>(k, v). (k, JStr v)) props))])
        @ [(''securableObjects'', JArr (case os of None \<Rightarrow> [] | Some xs \<Rightarrow> xs))])))"

definition GetRole :: "string \<Rightarrow> string \<Rightarrow> call" where
  "GetRole m n = Get (entityPath m ''roles'' n)"

definition DeleteRole :: "string \<Rightarrow> string \<Rightarrow> call" where
  "DeleteRole m n = Delete (entityPath m ''roles'' n)"

definition ListAllRoles :: "string \<Rightarrow> call" where
  "ListAllRoles m = Get (collectionPath m ''roles'')"

definition OverrideRolePrivileges :: "string \<Rightarrow> string \<Rightarrow> json list option \<Rightarrow> call" where
  "OverrideRolePrivileges m n os = Put (metalakePath m @ ''/permissions/roles/'' @ PathEscape n)
     (Some (JObj [(''overrides'', JArr (case os of None \<Rightarrow> [] | Some xs \<Rightarrow> xs))]))"

subsection \<open>Tags\<close>

definition ListTagsDetailed :: "string \<Rightarrow> call" where
  "ListTagsDetailed m = Get (collectionPath m ''tags'' @ ''?details=true'')"

definition GetTag :: "string \<Rightarrow> string \<Rightarrow> call" where
  "GetTag m n = Get (entityPath m ''tags'' n)"

definition CreateTag :: "string \<Rightarrow> json \<Rightarrow> call" where
  "CreateTag m req = Post (collectionPath m ''tags'') (Some req)"

definition UpdateTag :: "string \<Rightarrow> string \<Rightarrow> json list \<Rightarrow> call" where
  "UpdateTag m n us = Put (entityPath m ''tags'' n) (updates_body us)"

definition DeleteTag :: "string \<Rightarrow> string \<Rightarrow> call" where
  "DeleteTag m n = Delete (entityPath m ''tags'' n)"

definition ListTagsForObject :: "string \<Rightarrow> string \<Rightarrow> string \<Rightarrow> call" where
  "ListTagsForObject m t f = Get (objectPath m t f @ ''/tags?details=true'')"

definition AssociateTags :: "string \<Rightarrow> string \<Rightarrow> string \<Rightarrow> json \<Rightarrow> call" where
  "AssociateTags m t f req = Post (objectPath m t f @ ''/tags'') (Some req)"

definition ListObjectsForTag :: "string \<Rightarrow> string \<Rightarrow> call" where
  "ListObjectsForTag m n = Get (entityPath m ''tags'' n @ ''/objects'')"

subsection \<open>Policies\<close>

definition ListPoliciesForObject :: "string \<Rightarrow> string \<Rightarrow> string \<Rightarrow> call" where
  "ListPoliciesForObject m t f = Get (objectPath m t f @ ''/policies?details=true'')"

definition AssociatePolicies :: "string \<Rightarrow> string \<Rightarrow> string \<Rightarrow> json \<Rightarrow> call" where
  "AssociatePolicies m t f req = Post (objectPath m t f @ ''/policies'') (Some req)"

definition ListPolicies :: "string \<Rightarrow> call" where
  "ListPolicies m = Get (collectionPath m ''policies'')"

definition CreatePolicy :: "string \<Rightarrow> json \<Rightarrow> call" where
  "CreatePolicy m req = Post (collectionPath m ''policies'') (Some req)"

definition GetPolicy :: "string \<Rightarrow> string \<Rightarrow> call" where
  "GetPolicy m n = Get (entityPath m ''policies'' n)"

definition UpdatePolicy :: "string \<Rightarrow> string \<Rightarrow> json list \<Rightarrow> call" where
  "UpdatePolicy m n us = Put (entityPath m ''policies'' n) (updates_body us)"

definition SetPolicyEnabled :: "string \<Rightarrow> string \<Rightarrow> bool \<Rightarrow> call" where
  "SetPolicyEnabled m n enable = Patch (entityPath m ''policies'' n) (Some (JObj [(''enable'', JBool enable)]))"

definition DeletePolicy :: "string \<Rightarrow> string \<Rightarrow> call" where
  "DeletePolicy m n = Delete (entityPath m ''policies'' n)"

definition ListObjectsForPolicy :: "string \<Rightarrow> string \<Rightarrow> call" where
  "ListObjectsForPolicy m n = Get (entityPath m ''policies'' n @ ''/objects'')"

subsection \<open>Statistics\<close>

definition ListStatistics :: "string \<Rightarrow> string \<Rightarrow> string \<Rightarrow> call" where
  "ListStatistics m t f = Get (objectPath m t f @ ''/statistics'')"

definition ListPartitionStatistics :: "string \<Rightarrow> string \<Rightarrow> string \<Rightarrow> call" where
  "ListPartitionStatistics m t f = Get (objectPath m t f @ ''/statistics/partitions'')"

definition UpdateStatistics :: "string \<Rightarrow> string \<Rightarrow> string \<Rightarrow> json \<Rightarrow> call" where
  "UpdateStatistics m t f req = Put (objectPath m t f @ ''/statistics'') (Some req)"

definition DeleteStatistics :: "string \<Rightarrow> string \<Rightarrow> string \<Rightarrow> json \<Rightarrow> call" where
  "DeleteStatistics m t f req = Post (objectPath m t f @ ''/statistics'') (Some req)"

definition UpdatePartitionStatistics :: "string \<Rightarrow> string \<Rightarrow> string \<Rightarrow> json \<Rightarrow> call" where
  "UpdatePartitionStatistics m t f req = Put (objectPath m t f @ ''/statistics/partitions'') (Some req)"

definition DeletePartitionStatistics :: "string \<Rightarrow> string \<Rightarrow> string \<Rightarrow> json \<Rightarrow> call" where
  "DeletePartitionStatistics m t f req = Post (objectPath m t f @ ''/statistics/partitions'') (Some req)"

subsection \<open>Owners\<close>

definition GetOwner :: "string \<Rightarrow> string \<Rightarrow> string \<Rightarrow> call" where
  "GetOwner m t f = Get (metalakePath m @ ''/owners/'' @ PathEscape t @ ''/'' @ PathEscape f)"

definition SetOwner :: "string \<Rightarrow> string \<Rightarrow> string \<Rightarrow> json \<Rightarrow> call" where
  "SetOwner m t f req = Put (metalakePath m @ ''/owners/'' @ PathEscape t @ ''/'' @ PathEscape f) (Some req)"

subsection \<open>Users\<close>

definition AddUser :: "string \<Rightarrow> string \<Rightarrow> call" where
  "AddUser m n = Post (collectionPath m ''users'') (Some (JObj [(''name'', JStr n)]))"

definition GetUser :: "string \<Rightarrow> string \<Rightarrow> call" where
  "GetUser m n = Get (entityPath m ''users'' n)"

definition ListUsers :: "string \<Rightarrow> call" where
  "ListUsers m = Get (collectionPath m ''users'')"

definition RemoveUser :: "string \<Rightarrow> string \<Rightarrow> call" where
  "RemoveUser m n = Delete (entityPath m ''users'' n)"

definition GrantRolesToUser :: "string \<Rightarrow> string \<Rightarrow> string list \<Rightarrow> call" where
  "GrantRolesToUser m n roles = Put (metalakePath m @ ''/permissions/users/'' @ PathEscape n @ ''/grant'') (roles_body roles)"

definition RevokeRolesFromUser :: "string \<Rightarrow> string \<Rightarrow> string list \<Rightarrow> call" where
  "RevokeRolesFromUser m n roles = Put (metalakePath m @ ''/permissions/users/'' @ PathEscape n @ ''/revoke'') (roles_body roles)"

subsection \<open>Groups\<close>

definition AddGroup :: "string \<Rightarrow> string \<Rightarrow> call" where
  "AddGroup m n = Post (collectionPath m ''groups'') (Some (JObj [(''name'', JStr n)]))"

definition GetGroup :: "string \<Rightarrow> string \<Rightarrow> call" where
  "GetGroup m n = Get (entityPath m ''groups'' n)"

definition ListGroups :: "string \<Rightarrow> call" where
  "ListGroups m = Get (collectionPath m ''groups'')"

definition RemoveGroup :: "string \<Rightarrow> string \<Rightarrow> call" where
  "RemoveGroup m n = Delete (entityPath m ''groups'' n)"

definition GrantRolesToGroup :: "string \<Rightarrow> string \<Rightarrow> string list \<Rightarrow> call" where
  "GrantRolesToGroup m n roles = Put (metalakePath m @ ''/permissions/groups/'' @ PathEscape n @ ''/grant'') (roles_body roles)"

definition RevokeRolesFromGroup :: "string \<Rightarrow> string \<Rightarrow> string list \<Rightarrow> call" where
  "RevokeRolesFromGroup m n roles = Put (metalakePath m @ ''/permissions/groups/'' @ PathEscape n @ ''/revoke'') (roles_body roles)"

subsection \<open>The built-in identity provider\<close>

definition AddIdpUser :: "json \<Rightarrow> call" where
  "AddIdpUser req = Post ''/idp/users'' (Some req)"

definition GetIdpUser :: "string \<Rightarrow> call" where
  "GetIdpUser n = Get (''/idp/users/'' @ PathEscape n)"

definition ChangeIdpUserPassword :: "string \<Rightarrow> json \<Rightarrow> call" where
  "ChangeIdpUserPassword n req = Put (''/idp/users/'' @ PathEscape n) (Some req)"

definition RemoveIdpUser :: "string \<Rightarrow> call" where
  "RemoveIdpUser n = Delete (''/idp/users/'' @ PathEscape n)"

definition AddIdpGroup :: "json \<Rightarrow> call" where
  "AddIdpGroup req = Post ''/idp/groups'' (Some req)"

definition GetIdpGroup :: "string \<Rightarrow> call" where
  "GetIdpGroup n = Get (''/idp/groups/'' @ PathEscape n)"

definition ChangeIdpGroupMembership :: "string \<Rightarrow> json \<Rightarrow> call" where
  "ChangeIdpGroupMembership n req = Put (''/idp/groups/'' @ PathEscape n @ ''/users'') (Some req)"

definition RemoveIdpGroup :: "string \<Rightarrow> bool \<Rightarrow> call" where
  "RemoveIdpGroup n force = Delete (''/idp/groups/'' @ PathEscape n @ force_query force)"

subsection \<open>Jobs\<close>

definition ListJobs :: "string \<Rightarrow> call" where
  "ListJobs m = Get (jobRunsPath m)"

definition GetJob :: "string \<Rightarrow> string \<Rightarrow> call" where
  "GetJob m j = Get (jobRunPath m j)"

definition RunJob :: "string \<Rightarrow> json \<Rightarrow> call" where
  "RunJob m req = Post (jobRunsPath m) (Some req)"

definition CancelJob :: "string \<Rightarrow> string \<Rightarrow> call" where
  "CancelJob m j = Post (jobRunPath m j) None"

definition ListJobTemplates :: "string \<Rightarrow> call" where
  "ListJobTemplates m = Get (jobTemplatesPath m @ ''?details=true'')"

definition RegisterJobTemplate :: "string \<Rightarrow> json \<Rightarrow> call" where
  "RegisterJobTemplate m req = Post (jobTemplatesPath m) (Some req)"

definition GetJobTemplate :: "string \<Rightarrow> string \<Rightarrow> call" where
  "GetJobTemplate m n = Get (jobTemplatePath m n)"

definition UpdateJobTemplate :: "string \<Rightarrow> string \<Rightarrow> json list \<Rightarrow> call" where
  "UpdateJobTemplate m n us = Put (jobTemplatePath m n) (updates_body us)"

definition DeleteJobTemplate :: "string \<Rightarrow> string \<Rightarrow> call" where
  "DeleteJobTemplate m n = Delete (jobTemplatePath m n)"

subsection \<open>Secrets\<close>

definition GetSecrets :: "string \<Rightarrow> string \<Rightarrow> string \<Rightarrow> call" where
  "GetSecrets m t f = Get (objectPath m t f @ ''/secrets'')"

subsection \<open>Credentials\<close>

definition GetCredentials :: "string \<Rightarrow> string \<Rightarrow> string \<Rightarrow> call" where
  "GetCredentials m t f = Get (objectPath m t f @ ''/credentials'')"

subsection \<open>Health\<close>

definition GetHealth :: "call" where
  "GetHealth = Get ''/health''"

definition GetLiveness :: "call" where
  "GetLiveness = Get ''/health/live''"

definition GetReadiness :: "call" where
  "GetReadiness = Get ''/health/ready''"

subsection \<open>Authentication\<close>

definition GetAuthenticatedPrincipal :: "call" where
  "GetAuthenticatedPrincipal = Get ''/authn/me''"

subsection \<open>Iceberg REST service\<close>

definition GetIcebergRestServiceURI :: "string \<Rightarrow> call" where
  "GetIcebergRestServiceURI m = Get (''/system/iceberg-rest'' @ (if m \<noteq> [] then ''?metalake='' @ QueryEscape m else []))"

subsection \<open>Lists that load every entity\<close>

text \<open>The loop of the \<open>List...Details\<close> methods: the identifiers come from one request, every
  entity from another. Four of the five methods leave out an entity that is gone by the time
  it is loaded; \<open>ListModelsDetails\<close> does not.\<close>

fun fetch_details ::
    "bool \<Rightarrow> (string \<Rightarrow> 'w \<Rightarrow> (gerror + 'e) \<times> 'w) \<Rightarrow> string list \<Rightarrow> 'w \<Rightarrow> (gerror + 'e list) \<times> 'w" where
  "fetch_details skip get [] w = (Inr [], w)"
| "fetch_details skip get (n # ns) w =
     (case get n w of
        (Inl err, w') \<Rightarrow>
          if skip \<and> IsNotFoundError err then fetch_details skip get ns w' else (Inl err, w')
      | (Inr e, w') \<Rightarrow>
          (case fetch_details skip get ns w' of (r, w'') \<Rightarrow> (map_sum id (\<lambda>es. e # es) r, w'')))"

definition list_details ::
    "bool \<Rightarrow> ('w \<Rightarrow> (gerror + string list) \<times> 'w) \<Rightarrow> (string \<Rightarrow> 'w \<Rightarrow> (gerror + 'e) \<times> 'w)
       \<Rightarrow> 'w \<Rightarrow> (gerror + 'e list) \<times> 'w" where
  "list_details skip ids get w =
     (case ids w of (Inl err, w') \<Rightarrow> (Inl err, w') | (Inr ns, w') \<Rightarrow> fetch_details skip get ns w')"

text \<open>The methods, over a transport that runs a call and decodes the result.\<close>

definition ListSchemasDetails where
  "ListSchemasDetails run_ids run m c =
     list_details True (run_ids (Get (catalogPath m c @ ''/schemas''))) (\<lambda>n. run (GetSchema m c n))"

definition ListViewsDetails where
  "ListViewsDetails run_ids run m c s =
     list_details True (run_ids (Get (catalogCollectionPath m c s ''views''))) (\<lambda>n. run (GetView m c s n))"

definition ListTopicsDetails where
  "ListTopicsDetails run_ids run m c s =
     list_details True (run_ids (Get (catalogCollectionPath m c s ''topics''))) (\<lambda>n. run (GetTopic m c s n))"

definition ListFilesetsDetails where
  "ListFilesetsDetails run_ids run m c s =
     list_details True (run_ids (Get (catalogCollectionPath m c s ''filesets''))) (\<lambda>n. run (GetFileset m c s n))"

definition ListModelsDetails where
  "ListModelsDetails run_ids run m c s =
     list_details False (run_ids (Get (catalogCollectionPath m c s ''models''))) (\<lambda>n. run (GetModel m c s n))"

text \<open>On a server that answers every read from a fixed catalogue, the loop is a filter.\<close>

definition read_result :: "(string \<Rightarrow> gerror + 'e) \<Rightarrow> string list \<Rightarrow> 'e list" where
  "read_result view ns = concat (map (\<lambda>n. case view n of Inr e \<Rightarrow> [e] | Inl _ \<Rightarrow> []) ns)"

lemma fetch_details_skips:
  assumes "\<forall>n \<in> set ns. \<forall>err. view n = Inl err \<longrightarrow> IsNotFoundError err"
  shows "fetch_details True (\<lambda>n w. (view n, w)) ns w = (Inr (read_result view ns), w)"
  using assms by (induction ns) (auto simp: read_result_def split: sum.splits)

lemma fetch_details_stops:
  assumes "\<forall>n \<in> set ns. \<exists>e. view n = Inr e" "view n = Inl err"
  shows "fetch_details False (\<lambda>n w. (view n, w)) (ns @ n # ns') w = (Inl err, w)"
  using assms by (induction ns) (auto split: sum.splits)

subsection \<open>Properties\<close>

text \<open>A listing survives a concurrent drop: when the only failures are entities that no longer
  exist, the list of views has exactly the remaining ones, in the server's order. The list of
  models is the exception: the first model that disappeared makes the whole listing fail
  with its 404, although the other models were read.\<close>

theorem listing_survives_drop:
  assumes "ids w = (Inr (ns @ n # ns'), w)"
    and "\<forall>k \<in> set (ns @ ns'). \<exists>e. view k = Inr e"
    and "view n = Inl err" "IsNotFoundError err"
    and "\<And>k. run (GetView m c s k) w = (view k, w)" "\<And>k. run (GetModel m c s k) w = (view k, w)"
  shows "ListViewsDetails (\<lambda>_. ids) run m c s w = (Inr (read_result view (ns @ ns')), w) \<and>
    ListModelsDetails (\<lambda>_. ids) run m c s w = (Inl err, w)"
proof -
  have skip: "fetch_details True (\<lambda>k. run (GetView m c s k)) ks w = fetch_details True (\<lambda>k w. (view k, w)) ks w"
    for ks using assms(5) by (induction ks) (auto split: sum.splits)
  have stop: "fetch_details False (\<lambda>k. run (GetModel m c s k)) ks w = fetch_details False (\<lambda>k w. (view k, w)) ks w"
    for ks using assms(6) by (induction ks) (auto split: sum.splits)
  have "fetch_details True (\<lambda>k w. (view k, w)) (ns @ n # ns') w = (Inr (read_result view (ns @ n # ns')), w)"
    using assms(2-4) by (intro fetch_details_skips ballI allI impI) (auto dest!: bspec)
  moreover have "read_result view (ns @ n # ns') = read_result view (ns @ ns')"
    using assms(3) by (simp add: read_result_def)
  moreover have "fetch_details False (\<lambda>k w. (view k, w)) (ns @ n # ns') w = (Inl err, w)"
    using assms(2,3) by (intro fetch_details_stops) auto
  ultimately show ?thesis
    using assms(1) by (simp add: ListViewsDetails_def ListModelsDetails_def list_details_def skip stop)
qed

text \<open>A server with two entities, the first of which is dropped after the list was taken.\<close>

definition gone :: gerror where
  "gone = ErrHTTP \<lparr>he_StatusCode = 404, he_Status = ''Not Found'', he_Response = None\<rparr>"

definition two_entities :: "call \<Rightarrow> unit \<Rightarrow> (gerror + string) \<times> unit" where
  "two_entities ca w =
     (if ca_path ca \<in> {catalogEntityPath ''m'' ''c'' ''s'' ''views'' ''a'', catalogEntityPath ''m'' ''c'' ''s'' ''models'' ''a''}
      then (Inl gone, w) else (Inr ''entity'', w))"

theorem listing_survives_drop_witness:
  "ListViewsDetails (\<lambda>_ w. (Inr [''a'', ''b''], w)) two_entities ''m'' ''c'' ''s'' () = (Inr [''entity''], ()) \<and>
   ListModelsDetails (\<lambda>_ w. (Inr [''a'', ''b''], w)) two_entities ''m'' ''c'' ''s'' () = (Inl gone, ())"
proof -
  let ?view = "\<lambda>n. if n = ''a'' then Inl gone else Inr ''entity''"
  have ne: "catalogEntityPath ''m'' ''c'' ''s'' k n = catalogEntityPath ''m'' ''c'' ''s'' k' n' \<longleftrightarrow> k = k' \<and> n = n'"
    if "CHR ''/'' \<notin> set k" "CHR ''/'' \<notin> set k'" for k n k' n'
    using url.render_inject [of "[Word ''metalakes'', Name ''m'', Word ''catalogs'', Name ''c'', Word ''schemas'', Name ''s'', Word k, Name n]"
        "[Word ''metalakes'', Name ''m'', Word ''catalogs'', Name ''c'', Word ''schemas'', Name ''s'', Word k', Name n']"] that
    by (auto simp: path_rendered url.plain_def)
  have "two_entities (GetView ''m'' ''c'' ''s'' k) () = (?view k, ())"
    "two_entities (GetModel ''m'' ''c'' ''s'' k) () = (?view k, ())" for k
    by (auto simp: two_entities_def GetView_def GetModel_def Get_def ne)
  then show ?thesis
    using listing_survives_drop [of "\<lambda>w. (Inr [''a'', ''b''], w)" "()" "[]" "''a''" "[''b'']" ?view gone
        two_entities "''m''" "''c''" "''s''"]
    by (simp add: gone_def IsNotFoundError_def AsNotFound_def read_result_def)
qed

text \<open>No request that creates an object is ever repeated by the client: of the methods that
  post, only the two connection tests are retryable, and those create nothing.\<close>

theorem creations_not_retried:
  "\<not> ca_retryable (CreateMetalake req) \<and> \<not> ca_retryable (CreateCatalog m req) \<and>
   \<not> ca_retryable (CreateSchema m c req) \<and> \<not> ca_retryable (CreateTable m c s req) \<and>
   \<not> ca_retryable (CreateView m c s req) \<and> \<not> ca_retryable (CreateFileset m c s req) \<and>
   \<not> ca_retryable (CreateTopic m c s req) \<and> \<not> ca_retryable (CreateModel m c s req) \<and>
   \<not> ca_retryable (LinkModelVersion m c s n req) \<and> \<not> ca_retryable (RegisterFunction m c s req) \<and>
   \<not> ca_retryable (AddPartitions m c s n ps) \<and> \<not> ca_retryable (CreateRole m n props os) \<and>
   \<not> ca_retryable (CreateTag m req) \<and> \<not> ca_retryable (AssociateTags m t f req) \<and>
   \<not> ca_retryable (CreatePolicy m req) \<and> \<not> ca_retryable (AssociatePolicies m t f req) \<and>
   \<not> ca_retryable (AddUser m n) \<and> \<not> ca_retryable (AddGroup m n) \<and> \<not> ca_retryable (AddIdpUser req) \<and>
   \<not> ca_retryable (AddIdpGroup req) \<and> \<not> ca_retryable (RunJob m req) \<and>
   \<not> ca_retryable (RegisterJobTemplate m req) \<and>
   ca_retryable (TestCatalogConfig m req) \<and> ca_retryable (TestCatalogConnection m c body)"
  by (simp add: Post_def PostIdempotent_def CreateMetalake_def CreateCatalog_def CreateSchema_def
      CreateTable_def CreateView_def CreateFileset_def CreateTopic_def CreateModel_def
      LinkModelVersion_def RegisterFunction_def AddPartitions_def CreateRole_def CreateTag_def
      AssociateTags_def CreatePolicy_def AssociatePolicies_def AddUser_def AddGroup_def AddIdpUser_def
      AddIdpGroup_def RunJob_def RegisterJobTemplate_def TestCatalogConfig_def TestCatalogConnection_def)

end
