(* ===== verification/HttpClient.thy ===== *)
theory HttpClient
  imports Api
begin

section \<open>The HTTP client (client/client.go)\<close>

text \<open>
  \<open>doRequest\<close> is the retry loop: it runs in an environment (\<open>env\<close>) that answers for the
  transport, the caller's context, the clock and the random source, over a state that also
  records what was sent and how long the client slept. Durations are nanoseconds in 64 bits;
  a multiplication wraps (\<open>wrap64\<close>). The loop ends because it only continues while
  \<open>attempt < maxRetries\<close>, so it is a total function. \<open>do_call\<close> turns the response into a result or
  an \<open>HTTPError\<close>.

  What stands in the environment: \<open>http.NewRequestWithContext\<close>, \<open>httpClient.Do\<close>, the
  authentication header, \<open>ctx.Err\<close>, the timer of \<open>sleepContext\<close>, \<open>rand.Int64N\<close> and the date
  form of \<open>http.ParseTime\<close>. Logging is left out.
\<close>

subsection \<open>State and environment\<close>

record request =
  rq_method :: string
  rq_url :: string
  rq_headers :: "(string \<times> string) list"
  rq_body :: "string option"

record response =
  rs_StatusCode :: int
  rs_RetryAfter :: string
  rs_Body :: string
  rs_ReadFails :: bool

record 'w net =
  nt_world :: 'w
  nt_sent :: "request list"
  nt_slept :: "int list"

record 'w env =
  ev_new_request :: "string \<Rightarrow> string \<Rightarrow> gerror option"
  ev_auth :: "('w \<Rightarrow> (gerror + string \<times> string) \<times> 'w) option"
  ev_send :: "request \<Rightarrow> 'w \<Rightarrow> (gerror + response) \<times> 'w"
  ev_ctx_err :: "'w \<Rightarrow> gerror option"
  ev_wait :: "int \<Rightarrow> 'w \<Rightarrow> gerror option \<times> 'w"
  ev_rand :: "int \<Rightarrow> 'w \<Rightarrow> int \<times> 'w"
  ev_date :: "string \<Rightarrow> 'w \<Rightarrow> int option"

record retryPolicy =
  rp_maxRetries :: nat
  rp_baseDelay :: int
  rp_maxDelay :: int

record client =
  cl_baseURL :: string
  cl_timeout :: int
  cl_userAgent :: string
  cl_retry :: retryPolicy

definition second :: int where "second = 1000000000"

definition millisecond :: int where "millisecond = 1000000"

definition defaultRetryPolicy :: retryPolicy where
  "defaultRetryPolicy = \<lparr>rp_maxRetries = 3, rp_baseDelay = 100 * millisecond, rp_maxDelay = 2 * second\<rparr>"

definition WithTimeout :: "int \<Rightarrow> client \<Rightarrow> client" where
  "WithTimeout t c = (if 0 < t then c\<lparr>cl_timeout := t\<rparr> else c)"

definition WithUserAgent :: "string \<Rightarrow> client \<Rightarrow> client" where
  "WithUserAgent version c =
     (let v = trim_space version; v' = (if v = [] then ''dev'' else v)
      in c\<lparr>cl_userAgent := ''terraform-provider-gravitino/'' @ v'\<rparr>)"

text \<open>\<open>parse_url\<close> stands for \<open>url.Parse\<close>: scheme, host and the URL as text.\<close>

definition New ::
    "(string \<Rightarrow> gerror + string \<times> string \<times> string) \<Rightarrow> string \<Rightarrow> (client \<Rightarrow> client) list \<Rightarrow> gerror + client" where
  "New parse_url uri opts =
     (case parse_url (trim_right_char CHR ''/'' uri) of
        Inl err \<Rightarrow> Inl (ErrWrap ''invalid URI: '' err)
      | Inr (scheme, host, text) \<Rightarrow>
          if scheme \<noteq> ''http'' \<and> scheme \<noteq> ''https''
            then Inl (ErrText (''invalid URI '' @ quote uri @ '': scheme must be http or https''))
          else if host = [] then Inl (ErrText (''invalid URI '' @ quote uri @ '': host must not be empty''))
          else Inr (fold (\<lambda>f c. f c) opts
                 \<lparr>cl_baseURL = text, cl_timeout = 30 * second,
                  cl_userAgent = ''terraform-provider-gravitino/dev'', cl_retry = defaultRetryPolicy\<rparr>))"

subsection \<open>Durations as text\<close>

text \<open>\<open>time.Duration.String\<close>: a fraction without trailing zeros, units from ns to h.\<close>

definition strip_zeros :: "string \<Rightarrow> string" where
  "strip_zeros s = rev (dropWhile (\<lambda>c. c = CHR ''0'') (rev s))"

definition fraction_text :: "nat \<Rightarrow> nat \<Rightarrow> string" where
  "fraction_text v prec =
     (let ds = nat_digits (v mod 10 ^ prec);
          padded = replicate (prec - length ds) CHR ''0'' @ ds;
          s = strip_zeros padded
      in if s = [] then [] else CHR ''.'' # s)"

definition duration_text :: "int \<Rightarrow> string" where
  "duration_text d =
     (let u = nat \<bar>d\<bar>;
          sign = (if d < 0 then ''-'' else []);
          secs = u div 10 ^ 9;
          tail = nat_digits (secs mod 60) @ fraction_text u 9 @ ''s''
      in if u = 0 then ''0s''
         else if u < 1000 then sign @ nat_digits u @ ''ns''
         else if u < 10 ^ 6 then sign @ nat_digits (u div 1000) @ fraction_text u 3 @ [CHR 0xC2, CHR 0xB5] @ ''s''
         else if u < 10 ^ 9 then sign @ nat_digits (u div 10 ^ 6) @ fraction_text u 6 @ ''ms''
         else if secs < 60 then sign @ tail
         else if secs < 3600 then sign @ nat_digits (secs div 60) @ ''m'' @ tail
         else sign @ nat_digits (secs div 3600) @ ''h'' @ nat_digits (secs div 60 mod 60) @ ''m'' @ tail)"

subsection \<open>The retry policy\<close>

definition retryableStatus :: "int \<Rightarrow> bool" where
  "retryableStatus status = (status \<in> {429, 500, 502, 503, 504})"

definition isTimeout :: "gerror \<Rightarrow> bool" where
  "isTimeout err = (is_sys err DeadlineExceeded \<or> is_sys err NetTimeout)"

definition isConnectionReset :: "gerror \<Rightarrow> bool" where
  "isConnectionReset err = is_sys err ConnReset"

definition parseRetryAfter :: "(string \<Rightarrow> int option) \<Rightarrow> string \<Rightarrow> int option" where
  "parseRetryAfter date header =
     (let v = trim_space header in
      if v = [] then None
      else (case atoi v of
              Some seconds \<Rightarrow> if seconds < 0 then None else Some (wrap64 (seconds * second))
            | None \<Rightarrow> (case date v of None \<Rightarrow> None | Some delay \<Rightarrow> Some (if delay < 0 then 0 else delay))))"

fun doubled :: "nat \<Rightarrow> int \<Rightarrow> int \<Rightarrow> int" where
  "doubled 0 limit delay = delay"
| "doubled (Suc n) limit delay = (if delay < limit then doubled n limit (wrap64 (delay * 2)) else delay)"

definition backoff ::
    "retryPolicy \<Rightarrow> (int \<Rightarrow> 'w \<Rightarrow> int \<times> 'w) \<Rightarrow> nat \<Rightarrow> int option \<Rightarrow> 'w \<Rightarrow> int \<times> 'w" where
  "backoff p rand attempt retryAfter w =
     (case retryAfter of
        Some d \<Rightarrow> (if d > rp_maxDelay p then rp_maxDelay p else d, w)
      | None \<Rightarrow>
          (let d = doubled attempt (rp_maxDelay p) (rp_baseDelay p);
               delay = (if d > rp_maxDelay p \<or> d \<le> 0 then rp_maxDelay p else d);
               half = delay div 2;
               (r, w') = rand (half + 1) w
           in (half + r, w')))"

definition sleepContext :: "'w env \<Rightarrow> int \<Rightarrow> 'w net \<Rightarrow> gerror option \<times> 'w net" where
  "sleepContext ev delay n =
     (if delay \<le> 0 then (None, n\<lparr>nt_slept := nt_slept n @ [delay]\<rparr>)
      else (case ev_wait ev delay (nt_world n) of
              (err, w) \<Rightarrow> (err, n\<lparr>nt_world := w, nt_slept := nt_slept n @ [delay]\<rparr>)))"

definition requestError :: "client \<Rightarrow> 'w env \<Rightarrow> string \<Rightarrow> string \<Rightarrow> gerror \<Rightarrow> 'w \<Rightarrow> gerror" where
  "requestError c ev verb path err w =
     (case ev_ctx_err ev w of
        Some ctxErr \<Rightarrow> ErrWrap (verb @ '' '' @ path @ '' aborted: '') ctxErr
      | None \<Rightarrow>
          if isTimeout err
          then ErrWrap (verb @ '' '' @ path @ '' timed out after '' @ duration_text (cl_timeout c) @ '': '') err
          else ErrWrap (verb @ '' '' @ path @ '' failed: '') err)"

subsection \<open>One request\<close>

text \<open>\<open>json.Marshal\<close> also escapes the three HTML characters.\<close>

definition html_char :: "char \<Rightarrow> string" where
  "html_char c =
     (if c = CHR ''<'' then [CHR 0x5C] @ ''u003c''
      else if c = CHR ''>'' then [CHR 0x5C] @ ''u003e''
      else if c = CHR ''&'' then [CHR 0x5C] @ ''u0026''
      else [c])"

definition json_marshal :: "json \<Rightarrow> string" where
  "json_marshal j = concat (map html_char (json_text j))"

definition base_headers :: "client \<Rightarrow> string option \<Rightarrow> (string \<times> string) list" where
  "base_headers c payload =
     [(''Accept'', ''application/vnd.gravitino.v1+json''), (''User-Agent'', cl_userAgent c)]
     @ (if payload \<noteq> None then [(''Content-Type'', ''application/json'')] else [])"

definition auth_headers :: "'w env \<Rightarrow> 'w net \<Rightarrow> (gerror + (string \<times> string) list) \<times> 'w net" where
  "auth_headers ev n =
     (case ev_auth ev of
        None \<Rightarrow> (Inr [], n)
      | Some header \<Rightarrow>
          (case header (nt_world n) of
             (Inl err, w) \<Rightarrow> (Inl err, n\<lparr>nt_world := w\<rparr>)
           | (Inr (k, v), w) \<Rightarrow> (Inr (if k \<noteq> [] \<and> v \<noteq> [] then [(k, v)] else []), n\<lparr>nt_world := w\<rparr>)))"

definition send_request :: "'w env \<Rightarrow> request \<Rightarrow> 'w net \<Rightarrow> (gerror + response) \<times> 'w net" where
  "send_request ev rq n =
     (case ev_send ev rq (nt_world n) of
        (r, w) \<Rightarrow> (r, n\<lparr>nt_world := w, nt_sent := nt_sent n @ [rq]\<rparr>))"

datatype attempt_result = Final "gerror + response" | Again

definition pause ::
    "client \<Rightarrow> 'w env \<Rightarrow> string \<Rightarrow> string \<Rightarrow> nat \<Rightarrow> int option \<Rightarrow> 'w net \<Rightarrow> attempt_result \<times> 'w net" where
  "pause c ev verb path attempt retryAfter n =
     (case backoff (cl_retry c) (ev_rand ev) attempt retryAfter (nt_world n) of
        (delay, w) \<Rightarrow>
          (case sleepContext ev delay (n\<lparr>nt_world := w\<rparr>) of
             (Some err, n') \<Rightarrow> (Final (Inl (requestError c ev verb path err (nt_world n'))), n')
           | (None, n') \<Rightarrow> (Again, n')))"

definition attempt_once ::
    "client \<Rightarrow> 'w env \<Rightarrow> string \<Rightarrow> string \<Rightarrow> string option \<Rightarrow> bool \<Rightarrow> nat \<Rightarrow> 'w net \<Rightarrow> attempt_result \<times> 'w net" where
  "attempt_once c ev verb path payload retryable attempt n =
     (let url = cl_baseURL c @ ''/api'' @ path in
      case ev_new_request ev verb url of
        Some err \<Rightarrow> (Final (Inl (ErrWrap (''failed to create '' @ verb @ '' '' @ path @ '' request: '') err)), n)
      | None \<Rightarrow>
          (case auth_headers ev n of
             (Inl err, n1) \<Rightarrow>
               (Final (Inl (ErrWrap (''auth header for '' @ verb @ '' '' @ path @ '' failed: '') err)), n1)
           | (Inr hs, n1) \<Rightarrow>
               (case send_request ev \<lparr>rq_method = verb, rq_url = url,
                        rq_headers = base_headers c payload @ hs, rq_body = payload\<rparr> n1 of
                  (Inl err, n2) \<Rightarrow>
                    if ev_ctx_err ev (nt_world n2) \<noteq> None
                      then (Final (Inl (requestError c ev verb path err (nt_world n2))), n2)
                    else if retryable \<and> attempt < rp_maxRetries (cl_retry c) \<and> isConnectionReset err
                      then pause c ev verb path attempt None n2
                    else (Final (Inl (requestError c ev verb path err (nt_world n2))), n2)
                | (Inr resp, n2) \<Rightarrow>
                    if \<not> retryable \<or> attempt \<ge> rp_maxRetries (cl_retry c) \<or> \<not> retryableStatus (rs_StatusCode resp)
                      then (Final (Inr resp), n2)
                    else pause c ev verb path attempt
                           (parseRetryAfter (\<lambda>v. ev_date ev v (nt_world n2)) (rs_RetryAfter resp)) n2)))"

lemma attempt_again:
  assumes "attempt_once c ev verb path payload retryable attempt n = (Again, n')"
  shows "retryable \<and> attempt < rp_maxRetries (cl_retry c)"
  using assms by (auto simp: attempt_once_def Let_def split: option.splits prod.splits sum.splits if_splits)

function attempt_loop ::
    "client \<Rightarrow> 'w env \<Rightarrow> string \<Rightarrow> string \<Rightarrow> string option \<Rightarrow> bool \<Rightarrow> nat \<Rightarrow> 'w net \<Rightarrow> (gerror + response) \<times> 'w net" where
  "attempt_loop c ev verb path payload retryable attempt n =
     (case attempt_once c ev verb path payload retryable attempt n of
        (Final r, n') \<Rightarrow> (r, n')
      | (Again, n') \<Rightarrow> attempt_loop c ev verb path payload retryable (Suc attempt) n')"
  by pat_completeness auto
termination
proof (relation "measure (\<lambda>(c, ev, verb, path, payload, retryable, attempt, n). rp_maxRetries (cl_retry c) - attempt)",
    goal_cases)
  case (2 c ev verb path payload retryable attempt n x1 n')
  then show ?case using attempt_again [of c ev verb path payload retryable attempt n n'] by (auto intro!: diff_less_mono2)
qed simp

declare attempt_loop.simps [simp del]

definition doRequest ::
    "client \<Rightarrow> 'w env \<Rightarrow> string \<Rightarrow> string \<Rightarrow> json option \<Rightarrow> bool \<Rightarrow> 'w net \<Rightarrow> (gerror + response) \<times> 'w net" where
  "doRequest c ev verb path body retryable n =
     attempt_loop c ev verb path (map_option json_marshal body) retryable 0 n"

subsection \<open>From responses to results\<close>

definition StatusText :: "int \<Rightarrow> string" where
  "StatusText s = (case map_of
     [(400, ''Bad Request''), (401, ''Unauthorized''), (402, ''Payment Required''), (403, ''Forbidden''),
      (404, ''Not Found''), (405, ''Method Not Allowed''), (406, ''Not Acceptable''),
      (407, ''Proxy Authentication Required''), (408, ''Request Timeout''), (409, ''Conflict''), (410, ''Gone''),
      (411, ''Length Required''), (412, ''Precondition Failed''), (413, ''Request Entity Too Large''),
      (414, ''Request URI Too Long''), (415, ''Unsupported Media Type''),
      (416, ''Requested Range Not Satisfiable''), (417, ''Expectation Failed''), (418, ''I'm a teapot''),
      (421, ''Misdirected Request''), (422, ''Unprocessable Entity''), (423, ''Locked''),
      (424, ''Failed Dependency''), (425, ''Too Early''), (426, ''Upgrade Required''),
      (428, ''Precondition Required''), (429, ''Too Many Requests''),
      (431, ''Request Header Fields Too Large''), (451, ''Unavailable For Legal Reasons''),
      (500, ''Internal Server Error''), (501, ''Not Implemented''), (502, ''Bad Gateway''),
      (503, ''Service Unavailable''), (504, ''Gateway Timeout''), (505, ''HTTP Version Not Supported''),
      (506, ''Variant Also Negotiates''), (507, ''Insufficient Storage''), (508, ''Loop Detected''),
      (510, ''Not Extended''), (511, ''Network Authentication Required'')] s of
     Some t \<Rightarrow> t | None \<Rightarrow> [])"

definition error_members :: "string list" where
  "error_members = [''code'', ''type'', ''message'', ''stack'']"

fun decode_error_members :: "(string \<times> json) list \<Rightarrow> error_response \<Rightarrow> error_response option" where
  "decode_error_members [] r = Some r"
| "decode_error_members ((k, v) # kvs) r =
     (let m = (if k \<in> set error_members then Some k else find (\<lambda>n. equal_fold n k) error_members);
          step =
            (if m = Some ''code''
               then (case v of JNull \<Rightarrow> Some r
                     | JNum x \<Rightarrow> map_option (\<lambda>i. r\<lparr>er_Code := i\<rparr>) (atoi x) | _ \<Rightarrow> None)
             else if m = Some ''type''
               then (case v of JNull \<Rightarrow> Some r | JStr x \<Rightarrow> Some (r\<lparr>er_Type := x\<rparr>) | _ \<Rightarrow> None)
             else if m = Some ''message''
               then (case v of JNull \<Rightarrow> Some r | JStr x \<Rightarrow> Some (r\<lparr>er_Message := x\<rparr>) | _ \<Rightarrow> None)
             else if m = Some ''stack''
               then (case v of JNull \<Rightarrow> Some (r\<lparr>er_Stack := []\<rparr>)
                     | JArr xs \<Rightarrow>
                         if list_all (\<lambda>x. x = JNull \<or> is_JStr x) xs
                         then Some (r\<lparr>er_Stack := map (\<lambda>x. case x of JStr t \<Rightarrow> t | _ \<Rightarrow> []) xs\<rparr>) else None
                     | _ \<Rightarrow> None)
             else Some r)
      in case step of None \<Rightarrow> None | Some r' \<Rightarrow> decode_error_members kvs r')"

definition decode_error_response :: "string \<Rightarrow> error_response option" where
  "decode_error_response raw =
     (let zero = \<lparr>er_Code = 0, er_Type = [], er_Message = [], er_Stack = []\<rparr> in
      case parse_json raw of
        Some (JObj kvs) \<Rightarrow> decode_error_members kvs zero
      | Some JNull \<Rightarrow> Some zero
      | _ \<Rightarrow> None)"

definition truncateBody :: "string \<Rightarrow> string" where
  "truncateBody raw =
     (let s = map (\<lambda>c. if c = CHR 10 then CHR '' '' else c) (trim_space raw)
      in if length s > 200 then take 200 s @ ''...'' else s)"

definition newHTTPError :: "response \<Rightarrow> http_error" where
  "newHTTPError resp =
     (let status = StatusText (rs_StatusCode resp);
          raw = take 2048 (rs_Body resp);
          plain = \<lparr>he_StatusCode = rs_StatusCode resp, he_Status = status, he_Response = None\<rparr>;
          echoed = plain\<lparr>he_Status := status @ '': '' @ truncateBody raw\<rparr>
      in if rs_ReadFails resp \<or> raw = [] then plain
         else case decode_error_response raw of
                None \<Rightarrow> echoed
              | Some r \<Rightarrow> if er_Type r = [] \<and> er_Message r = [] then echoed else plain\<lparr>he_Response := Some r\<rparr>)"

text \<open>\<open>decode\<close> is the JSON decoder of the result type; an empty body is its end-of-file error.\<close>

definition do_call ::
    "client \<Rightarrow> 'w env \<Rightarrow> (string \<Rightarrow> gerror + 'r) \<Rightarrow> 'r \<Rightarrow> call \<Rightarrow> 'w net \<Rightarrow> (gerror + 'r) \<times> 'w net" where
  "do_call c ev decode zero ca n =
     (case doRequest c ev (ca_method ca) (ca_path ca) (ca_body ca) (ca_retryable ca) n of
        (Inl err, n') \<Rightarrow> (Inl err, n')
      | (Inr resp, n') \<Rightarrow>
          if rs_StatusCode resp \<ge> 400 then (Inl (ErrHTTP (newHTTPError resp)), n')
          else (case decode (rs_Body resp) of
                  Inr r \<Rightarrow> (Inr r, n')
                | Inl err \<Rightarrow>
                    if is_sys err EndOfFile then (Inr zero, n')
                    else (Inl (ErrWrap (''failed to decode '' @ ca_method ca @ '' '' @ ca_path ca @ '' response: '') err), n')))"

subsection \<open>What one request may do\<close>

definition rand_ok :: "'w env \<Rightarrow> bool" where
  "rand_ok ev \<longleftrightarrow> (\<forall>m w. 0 < m \<longrightarrow> 0 \<le> fst (ev_rand ev m w) \<and> fst (ev_rand ev m w) < m)"

text \<open>\<open>extends p n n' rqs ds\<close>: between \<open>n\<close> and \<open>n'\<close> the requests \<open>rqs\<close> were sent, all with the same
  verb, URL and body, and the client slept the times \<open>ds\<close>, none above the cap of the policy.\<close>

definition extends ::
    "retryPolicy \<Rightarrow> string \<Rightarrow> string \<Rightarrow> string option \<Rightarrow> 'w net \<Rightarrow> 'w net \<Rightarrow> request list \<Rightarrow> int list \<Rightarrow> bool" where
  "extends p verb url payload n n' rqs ds \<longleftrightarrow>
     nt_sent n' = nt_sent n @ rqs \<and> nt_slept n' = nt_slept n @ ds \<and>
     (\<forall>rq \<in> set rqs. rq_method rq = verb \<and> rq_url rq = url \<and> rq_body rq = payload) \<and>
     (\<forall>d \<in> set ds. d \<le> rp_maxDelay p)"

lemma backoff_bounds:
  assumes "0 < rp_maxDelay p" "\<And>m w. 0 < m \<Longrightarrow> 0 \<le> fst (rand m w) \<and> fst (rand m w) < m"
  shows "fst (backoff p rand attempt ra w) \<le> rp_maxDelay p"
    and "ra = None \<Longrightarrow> 0 \<le> fst (backoff p rand attempt ra w)"
proof -
  define d where "d = doubled attempt (rp_maxDelay p) (rp_baseDelay p)"
  define delay where "delay = (if d > rp_maxDelay p \<or> d \<le> 0 then rp_maxDelay p else d)"
  have delay: "0 < delay" "delay \<le> rp_maxDelay p" using assms(1) by (auto simp: delay_def)
  have "0 < delay div 2 + 1" using delay by simp
  then have r: "0 \<le> fst (rand (delay div 2 + 1) w)" "fst (rand (delay div 2 + 1) w) \<le> delay div 2"
    using assms(2) [of "delay div 2 + 1" w] by simp_all
  have b: "backoff p rand attempt None w =
      (case rand (delay div 2 + 1) w of (r, w') \<Rightarrow> (delay div 2 + r, w'))"
    unfolding backoff_def delay_def d_def Let_def by simp
  show "fst (backoff p rand attempt ra w) \<le> rp_maxDelay p"
  proof (cases ra)
    case None
    then show ?thesis using b r delay by (auto split: prod.splits)
  qed (simp add: backoff_def)
  show "ra = None \<Longrightarrow> 0 \<le> fst (backoff p rand attempt ra w)"
    using b r delay by (auto split: prod.splits)
qed

lemma sleep_records:
  "sleepContext ev d n = (e, n') \<Longrightarrow> nt_slept n' = nt_slept n @ [d] \<and> nt_sent n' = nt_sent n"
  by (auto simp: sleepContext_def split: if_splits prod.splits)

lemma pause_extends:
  assumes "pause c ev verb path attempt ra n = (r, n')" "0 < rp_maxDelay (cl_retry c)" "rand_ok ev"
  shows "\<exists>d. extends (cl_retry c) m u b n n' [] [d]" and "\<And>resp. r \<noteq> Final (Inr resp)"
proof -
  obtain d w where d: "backoff (cl_retry c) (ev_rand ev) attempt ra (nt_world n) = (d, w)" by fastforce
  obtain e n2 where s: "sleepContext ev d (n\<lparr>nt_world := w\<rparr>) = (e, n2)" by fastforce
  have "fst (backoff (cl_retry c) (ev_rand ev) attempt ra (nt_world n)) \<le> rp_maxDelay (cl_retry c)"
    using assms(3) by (intro backoff_bounds(1) assms(2)) (auto simp: rand_ok_def)
  then have "d \<le> rp_maxDelay (cl_retry c)" by (simp add: d)
  moreover have "n' = n2" "\<And>resp. r \<noteq> Final (Inr resp)"
    using assms(1) d s by (auto simp: pause_def split: option.splits)
  ultimately show "\<exists>d. extends (cl_retry c) m u b n n' [] [d]" "\<And>resp. r \<noteq> Final (Inr resp)"
    using sleep_records [OF s] by (auto simp: extends_def)
qed

lemma auth_headers_records:
  "auth_headers ev n = (r, n') \<Longrightarrow> nt_sent n' = nt_sent n \<and> nt_slept n' = nt_slept n"
  by (auto simp: auth_headers_def split: option.splits prod.splits sum.splits)

lemma send_records:
  "send_request ev rq n = (r, n') \<Longrightarrow> nt_sent n' = nt_sent n @ [rq] \<and> nt_slept n' = nt_slept n"
  by (auto simp: send_request_def split: prod.splits)

lemma extends_trans:
  "extends p m u b n n1 rqs ds \<Longrightarrow> extends p m u b n1 n2 rqs' ds' \<Longrightarrow> extends p m u b n n2 (rqs @ rqs') (ds @ ds')"
  by (auto simp: extends_def)

lemma attempt_once_extends:
  assumes "attempt_once c ev verb path payload retryable attempt n = (r, n')"
    and "0 < rp_maxDelay (cl_retry c)" "rand_ok ev"
  shows "\<exists>rqs ds. extends (cl_retry c) verb (cl_baseURL c @ ''/api'' @ path) payload n n' rqs ds
    \<and> length rqs \<le> 1 \<and> length ds \<le> 1
    \<and> (r = Again \<longrightarrow> length rqs = 1 \<and> length ds = 1)
    \<and> (\<not> (retryable \<and> attempt < rp_maxRetries (cl_retry c)) \<longrightarrow> ds = [])
    \<and> (\<forall>resp. r = Final (Inr resp) \<longrightarrow> length rqs = 1 \<and>
        (\<not> retryable \<or> attempt \<ge> rp_maxRetries (cl_retry c) \<or> \<not> retryableStatus (rs_StatusCode resp)))"
proof -
  let ?url = "cl_baseURL c @ ''/api'' @ path"
  let ?E = "extends (cl_retry c) verb ?url payload"
  have refl: "?E n n [] []" by (simp add: extends_def)
  show ?thesis
  proof (cases "ev_new_request ev verb ?url")
    case (Some err)
    then show ?thesis using assms(1) refl by (intro exI [of _ "[]"]) (auto simp: attempt_once_def)
  next
    case None
    obtain h n1 where h: "auth_headers ev n = (h, n1)" by fastforce
    have e1: "?E n n1 [] []" using auth_headers_records [OF h] by (simp add: extends_def)
    show ?thesis
    proof (cases h)
      case (Inl err)
      then show ?thesis using assms(1) None h e1 by (intro exI [of _ "[]"]) (auto simp: attempt_once_def)
    next
      case (Inr hs)
      define rq where "rq = \<lparr>rq_method = verb, rq_url = ?url, rq_headers = base_headers c payload @ hs, rq_body = payload\<rparr>"
      obtain s n2 where s: "send_request ev rq n1 = (s, n2)" by fastforce
      have e2: "?E n n2 [rq] []"
        using send_records [OF s] e1 by (auto simp: extends_def rq_def)
      let ?ra = "\<lambda>resp. parseRetryAfter (\<lambda>v. ev_date ev v (nt_world n2)) (rs_RetryAfter resp)"
      have eq: "(r, n') = (case s of
            Inl err \<Rightarrow>
              if ev_ctx_err ev (nt_world n2) \<noteq> None
                then (Final (Inl (requestError c ev verb path err (nt_world n2))), n2)
              else if retryable \<and> attempt < rp_maxRetries (cl_retry c) \<and> isConnectionReset err
                then pause c ev verb path attempt None n2
              else (Final (Inl (requestError c ev verb path err (nt_world n2))), n2)
          | Inr resp \<Rightarrow>
              if \<not> retryable \<or> attempt \<ge> rp_maxRetries (cl_retry c) \<or> \<not> retryableStatus (rs_StatusCode resp)
                then (Final (Inr resp), n2)
              else pause c ev verb path attempt (?ra resp) n2)"
        using assms(1) None h s Inr by (simp add: attempt_once_def rq_def split: sum.splits)
      have paused: "\<exists>d. ?E n n' ([rq] @ []) ([] @ [d])" "\<And>resp. r \<noteq> Final (Inr resp)"
        if "pause c ev verb path attempt ra n2 = (r, n')" for ra
        using pause_extends [OF that assms(2,3)] extends_trans [OF e2] by blast+
      show ?thesis
        using eq e2 paused by (fastforce split: sum.splits if_splits)
    qed
  qed
qed

lemma attempt_loop_extends:
  assumes "attempt_loop c ev verb path payload retryable attempt n = (r, n')"
    and "0 < rp_maxDelay (cl_retry c)" "rand_ok ev" "attempt \<le> rp_maxRetries (cl_retry c)"
  shows "\<exists>rqs ds. extends (cl_retry c) verb (cl_baseURL c @ ''/api'' @ path) payload n n' rqs ds
    \<and> length rqs \<le> Suc (rp_maxRetries (cl_retry c) - attempt)
    \<and> length ds \<le> rp_maxRetries (cl_retry c) - attempt
    \<and> (\<not> retryable \<longrightarrow> length rqs \<le> 1 \<and> ds = [])
    \<and> (\<forall>resp. r = Inr resp \<longrightarrow> retryable \<and> retryableStatus (rs_StatusCode resp) \<longrightarrow>
         length rqs = Suc (rp_maxRetries (cl_retry c) - attempt))"
  using assms
proof (induction c ev verb path payload retryable attempt n rule: attempt_loop.induct)
  case (1 c ev verb path payload retryable attempt n)
  let ?E = "extends (cl_retry c) verb (cl_baseURL c @ ''/api'' @ path) payload"
  let ?max = "rp_maxRetries (cl_retry c)"
  obtain a n1 where a: "attempt_once c ev verb path payload retryable attempt n = (a, n1)" by fastforce
  obtain rqs ds where one: "?E n n1 rqs ds" "length rqs \<le> 1" "length ds \<le> 1"
      "a = Again \<Longrightarrow> length rqs = 1 \<and> length ds = 1"
      "\<not> (retryable \<and> attempt < ?max) \<Longrightarrow> ds = []"
      "\<And>resp. a = Final (Inr resp) \<Longrightarrow> length rqs = 1 \<and>
        (\<not> retryable \<or> attempt \<ge> ?max \<or> \<not> retryableStatus (rs_StatusCode resp))"
    using attempt_once_extends [OF a "1.prems"(2,3)] by metis
  show ?case
  proof (cases a)
    case (Final x)
    then have "r = x" "n' = n1"
      using "1.prems"(1) a by (auto simp: attempt_loop.simps [of c ev verb path payload retryable attempt n])
    moreover have "length ds \<le> ?max - attempt" using one(3,5) by (cases "retryable \<and> attempt < ?max") auto
    ultimately show ?thesis
      using one "1.prems"(4) Final by (intro exI [of _ rqs] exI [of _ ds]) auto
  next
    case Again
    then have ra: "retryable" "attempt < ?max"
      using attempt_again [of c ev verb path payload retryable attempt n n1] a by auto
    have "attempt_loop c ev verb path payload retryable (Suc attempt) n1 = (r, n')"
      using "1.prems"(1) a Again by (simp add: attempt_loop.simps [of c ev verb path payload retryable attempt n])
    then obtain rqs' ds' where rest: "?E n1 n' rqs' ds'" "length rqs' \<le> Suc (?max - Suc attempt)"
        "length ds' \<le> ?max - Suc attempt"
        "\<And>resp. r = Inr resp \<Longrightarrow> retryableStatus (rs_StatusCode resp) \<Longrightarrow> length rqs' = Suc (?max - Suc attempt)"
      using "1.IH" [OF a [symmetric] Again] "1.prems"(2,3) ra by fastforce
    have "?E n n' (rqs @ rqs') (ds @ ds')" using extends_trans [OF one(1) rest(1)] .
    then show ?thesis
      using one(2-4) Again rest(2-4) ra by (intro exI [of _ "rqs @ rqs'"] exI [of _ "ds @ ds'"]) fastforce
  qed
qed

subsection \<open>Properties\<close>

text \<open>C14: Retries are bounded and harmless to the payload: a call sends at most
  \<open>maxRetries + 1\<close> requests, sleeps at most \<open>maxRetries\<close> times and never longer than the cap at a
  time, and every attempt carries the same verb, URL and body. A call that is not marked
  retryable sends at most one request and never sleeps. A transient error status is handed
  to the caller only after all attempts were used.\<close>

theorem request_bounded:
  assumes "doRequest c ev verb path body retryable n = (r, n')"
    and "0 < rp_maxDelay (cl_retry c)" and "rand_ok ev"
  shows "\<exists>rqs ds. nt_sent n' = nt_sent n @ rqs \<and> nt_slept n' = nt_slept n @ ds
    \<and> length rqs \<le> Suc (rp_maxRetries (cl_retry c)) \<and> length ds \<le> rp_maxRetries (cl_retry c)
    \<and> (\<forall>d \<in> set ds. d \<le> rp_maxDelay (cl_retry c))
    \<and> (\<forall>rq \<in> set rqs. rq_method rq = verb \<and> rq_url rq = cl_baseURL c @ ''/api'' @ path
         \<and> rq_body rq = map_option json_marshal body)
    \<and> (\<not> retryable \<longrightarrow> length rqs \<le> 1 \<and> ds = [])
    \<and> (\<forall>resp. r = Inr resp \<and> retryable \<and> retryableStatus (rs_StatusCode resp) \<longrightarrow>
         length rqs = Suc (rp_maxRetries (cl_retry c)))"
  using attempt_loop_extends [OF assms(1) [unfolded doRequest_def] assms(2,3)] by (auto simp: extends_def)

text \<open>A server that is overloaded for good, and a context that is never cancelled.\<close>

definition busy_env :: "unit env" where
  "busy_env = \<lparr>ev_new_request = (\<lambda>_ _. None), ev_auth = None,
     ev_send = (\<lambda>rq w. (Inr \<lparr>rs_StatusCode = 503, rs_RetryAfter = [], rs_Body = [], rs_ReadFails = False\<rparr>, w)),
     ev_ctx_err = (\<lambda>w. None), ev_wait = (\<lambda>d w. (None, w)), ev_rand = (\<lambda>m w. (0, w)), ev_date = (\<lambda>v w. None)\<rparr>"

definition local_client :: client where
  "local_client = \<lparr>cl_baseURL = ''http://h'', cl_timeout = 30 * second,
     cl_userAgent = ''terraform-provider-gravitino/dev'', cl_retry = defaultRetryPolicy\<rparr>"

theorem request_bounded_witness:
  "\<exists>r n'. doRequest local_client busy_env ''GET'' ''/metalakes'' None True \<lparr>nt_world = (), nt_sent = [], nt_slept = []\<rparr> = (r, n')
     \<and> length (nt_sent n') = 4"
proof -
  let ?n = "\<lparr>nt_world = (), nt_sent = [], nt_slept = []\<rparr>"
  obtain r n' where rn: "doRequest local_client busy_env ''GET'' ''/metalakes'' None True ?n = (r, n')" by fastforce
  have "case fst (doRequest local_client busy_env ''GET'' ''/metalakes'' None True ?n) of
      Inr resp \<Rightarrow> retryableStatus (rs_StatusCode resp) | Inl e \<Rightarrow> False"
    by code_simp
  with rn obtain resp where "r = Inr resp" "retryableStatus (rs_StatusCode resp)"
    by (auto split: sum.splits)
  then show ?thesis
    using request_bounded [OF rn] rn
    by (fastforce simp: local_client_def defaultRetryPolicy_def second_def busy_env_def rand_ok_def)
qed

text \<open>Without a \<open>Retry-After\<close> the k-th pause of the default policy lies between half of
  100 ms doubled k times and all of it (equal jitter).\<close>

theorem equal_jitter:
  assumes "attempt < 3" "rand_ok ev"
  shows "50 * millisecond * 2 ^ attempt \<le> fst (backoff defaultRetryPolicy (ev_rand ev) attempt None w)
    \<and> fst (backoff defaultRetryPolicy (ev_rand ev) attempt None w) \<le> 100 * millisecond * 2 ^ attempt"
proof -
  let ?h = "50 * millisecond * 2 ^ attempt"
  have "attempt = 0 \<or> attempt = 1 \<or> attempt = 2" using assms(1) by arith
  then have "doubled attempt (2 * second) (100 * millisecond) = 100 * millisecond * 2 ^ attempt"
    by (auto simp: numeral_2_eq_2 second_def millisecond_def wrap64_id fits64_def)
  then have "backoff defaultRetryPolicy (ev_rand ev) attempt None w =
      (case ev_rand ev (?h + 1) w of (r, w') \<Rightarrow> (?h + r, w'))"
    using \<open>attempt = 0 \<or> attempt = 1 \<or> attempt = 2\<close>
    by (auto simp: backoff_def defaultRetryPolicy_def Let_def second_def millisecond_def)
  moreover have "0 < ?h + 1" by (simp add: millisecond_def add_nonneg_pos)
  then have "0 \<le> fst (ev_rand ev (?h + 1) w) \<and> fst (ev_rand ev (?h + 1) w) < ?h + 1"
    using assms(2) unfolding rand_ok_def by blast
  ultimately show ?thesis by (auto split: prod.splits)
qed

theorem equal_jitter_witness:
  "200 * millisecond \<le> fst (backoff defaultRetryPolicy (ev_rand busy_env) 2 None ())"
proof -
  have "rand_ok busy_env" by (simp add: rand_ok_def busy_env_def)
  then show ?thesis using equal_jitter [of 2 busy_env "()"] by simp
qed

text \<open>The 64-bit value of an integer: the upper half of the wheel is negative.\<close>

lemma wrap64_cases: "wrap64 x = (if x mod 2 ^ 64 < 2 ^ 63 then x mod 2 ^ 64 else x mod 2 ^ 64 - 2 ^ 64)"
proof -
  have eq: "(x + 2 ^ 63) mod 2 ^ 64 = (x mod 2 ^ 64 + 2 ^ 63) mod 2 ^ 64" by (simp only: mod_add_left_eq)
  have pos: "0 \<le> x mod 2 ^ 64" "x mod 2 ^ 64 < 2 ^ 64" by simp_all
  show ?thesis
  proof (cases "x mod 2 ^ 64 < 2 ^ 63")
    case True
    then show ?thesis unfolding wrap64_def eq using pos by simp
  next
    case False
    have "(x mod 2 ^ 64 + 2 ^ 63) mod 2 ^ 64 = (x mod 2 ^ 64 + 2 ^ 63 - 2 ^ 64) mod 2 ^ 64" by (simp only: minus_mod_self2)
    also have "\<dots> = x mod 2 ^ 64 + 2 ^ 63 - 2 ^ 64" using False pos by (intro mod_pos_pos_trivial) simp_all
    finally show ?thesis unfolding wrap64_def eq using False by simp
  qed
qed

lemma wrap64_nonpos: "wrap64 x \<le> 0 \<longleftrightarrow> x mod 2 ^ 64 = 0 \<or> 2 ^ 63 \<le> x mod 2 ^ 64"
proof -
  have "0 \<le> x mod 2 ^ 64" "x mod 2 ^ 64 < 2 ^ 64" by simp_all
  then show ?thesis unfolding wrap64_cases by (simp only: split: if_split) linarith
qed

text \<open>C22: A \<open>Retry-After\<close> of s seconds, for every s that \<open>strconv.Atoi\<close> accepts, is the product of s and a second in
  64-bit arithmetic, capped at the maximal delay. Up to 9223372036 seconds the product is exact. Beyond that it wraps
  around: the client does not wait at all exactly when the product lies in the upper half of its 64 bits (or is zero
  there), as it does from 9223372037 to 18446744073; at 18446744074 it is 0.29 seconds.\<close>

theorem retry_after_seconds:
  assumes "0 \<le> s" "s < 2 ^ 63" "0 < rp_maxDelay p"
    and "fst (backoff p rand attempt (parseRetryAfter date (itoa s)) w) = delay"
  shows "delay = min (wrap64 (s * second)) (rp_maxDelay p) \<and>
    (s \<le> 9223372036 \<longrightarrow> delay = min (s * second) (rp_maxDelay p)) \<and>
    (sleepContext ev delay n = (None, n\<lparr>nt_slept := nt_slept n @ [delay]\<rparr>) \<or> 0 < delay) \<and>
    (delay \<le> 0 \<longleftrightarrow> s * second mod 2 ^ 64 = 0 \<or> 2 ^ 63 \<le> s * second mod 2 ^ 64) \<and>
    (9223372037 \<le> s \<and> s \<le> 18446744073 \<longrightarrow> delay < 0) \<and>
    (s = 18446744074 \<longrightarrow> delay = min 290448384 (rp_maxDelay p))"
proof -
  have digits: "\<forall>c \<in> set (itoa s). is_digit c"
    using itoa_digits [OF assms(1)] by (simp add: list_all_iff)
  then have "trim_space (itoa s) = itoa s"
    by (intro trim_space_no_space) (auto simp: is_digit_def is_space_def)
  moreover have "itoa s \<noteq> []" using itoa_digits [OF assms(1)] by blast
  moreover have "atoi (itoa s) = Some s" using assms by (intro atoi_itoa) (simp_all add: fits64_def)
  ultimately have "parseRetryAfter date (itoa s) = Some (wrap64 (s * second))"
    using assms(1) by (simp add: parseRetryAfter_def)
  then have d: "delay = min (wrap64 (s * second)) (rp_maxDelay p)" using assms(4) by (auto simp: backoff_def min_def)
  have small: "wrap64 (s * second) = s * second" if "s \<le> 9223372036"
    using that assms(1) by (intro wrap64_id) (simp add: fits64_def second_def)
  have mid: "wrap64 (s * second) < 0" if "9223372037 \<le> s" "s \<le> 18446744073"
  proof -
    have "s * second mod 2 ^ 64 = s * second" using that assms(1) by (intro mod_pos_pos_trivial) (simp_all add: second_def)
    then show ?thesis unfolding wrap64_cases using that by (simp add: second_def)
  qed
  have sign: "delay \<le> 0 \<longleftrightarrow> wrap64 (s * second) \<le> 0" unfolding d using assms(3) by (simp add: min_def)
  have "sleepContext ev delay n = (None, n\<lparr>nt_slept := nt_slept n @ [delay]\<rparr>) \<or> 0 < delay" by (simp add: sleepContext_def)
  moreover have "wrap64 (18446744074 * second) = 290448384" by (simp add: wrap64_def second_def)
  ultimately show ?thesis using d sign small mid wrap64_nonpos [of "s * second"] by auto
qed

theorem retry_after_seconds_witness:
  "fst (backoff defaultRetryPolicy (\<lambda>m w. (0, w)) 0 (parseRetryAfter (\<lambda>v. None) ''5'') ()) = 2 * second \<and>
   fst (backoff defaultRetryPolicy (\<lambda>m w. (0, w)) 0 (parseRetryAfter (\<lambda>v. None) ''9223372037'') ()) < 0 \<and>
   fst (backoff defaultRetryPolicy (\<lambda>m w. (0, w)) 0 (parseRetryAfter (\<lambda>v. None) ''18446744074'') ()) = 290448384"
proof -
  note step = retry_after_seconds [of _ defaultRetryPolicy "\<lambda>m w. (0, w)" 0 "\<lambda>v. None" "()", OF _ _ _ refl]
  have five: "itoa 5 = ''5''" by code_simp
  have wrap: "itoa 9223372037 = ''9223372037''" by (simp add: itoa_def nat_digits.simps char_of_def bit_Suc_0_iff)
  have round: "itoa 18446744074 = ''18446744074''" by (simp add: itoa_def nat_digits.simps char_of_def bit_Suc_0_iff)
  have max: "0 < rp_maxDelay defaultRetryPolicy" by (simp add: defaultRetryPolicy_def second_def)
  have "fst (backoff defaultRetryPolicy (\<lambda>m w. (0, w)) 0 (parseRetryAfter (\<lambda>v. None) ''5'') ())
      = min (5 * second) (rp_maxDelay defaultRetryPolicy)"
    using step [of 5, unfolded five, THEN conjunct2, THEN conjunct1] max by simp
  then have "fst (backoff defaultRetryPolicy (\<lambda>m w. (0, w)) 0 (parseRetryAfter (\<lambda>v. None) ''5'') ()) = 2 * second"
    by (simp add: defaultRetryPolicy_def second_def)
  moreover have "fst (backoff defaultRetryPolicy (\<lambda>m w. (0, w)) 0 (parseRetryAfter (\<lambda>v. None) ''9223372037'') ()) < 0"
    using step [of 9223372037, unfolded wrap, THEN conjunct2, THEN conjunct2, THEN conjunct2, THEN conjunct2, THEN conjunct1] max by simp
  moreover have "fst (backoff defaultRetryPolicy (\<lambda>m w. (0, w)) 0 (parseRetryAfter (\<lambda>v. None) ''18446744074'') ())
      = min 290448384 (rp_maxDelay defaultRetryPolicy)"
    using step [of 18446744074, unfolded round, THEN conjunct2, THEN conjunct2, THEN conjunct2, THEN conjunct2, THEN conjunct2] max by simp
  then have "fst (backoff defaultRetryPolicy (\<lambda>m w. (0, w)) 0 (parseRetryAfter (\<lambda>v. None) ''18446744074'') ()) = 290448384"
    by (simp add: defaultRetryPolicy_def second_def)
  ultimately show ?thesis by blast
qed

text \<open>A status of 400 or more becomes an \<open>HTTPError\<close> with the real HTTP status, whatever code the
  body carries; it counts as "not found" exactly for 404. Its server message is there only
  when the first 2048 bytes of the body are a JSON error object with a type or a message;
  otherwise at most 200 bytes of the body are echoed.\<close>

theorem http_error_faithful:
  assumes "doRequest c ev (ca_method ca) (ca_path ca) (ca_body ca) (ca_retryable ca) n = (Inr resp, n')"
    and "400 \<le> rs_StatusCode resp"
  shows "\<exists>h. do_call c ev decode zero ca n = (Inl (ErrHTTP h), n') \<and> he_StatusCode h = rs_StatusCode resp
    \<and> (IsNotFoundError (ErrHTTP h) \<longleftrightarrow> rs_StatusCode resp = 404)
    \<and> (\<forall>r. he_Response h = Some r \<longrightarrow> decode_error_response (take 2048 (rs_Body resp)) = Some r
         \<and> (er_Type r \<noteq> [] \<or> er_Message r \<noteq> []))
    \<and> (he_Response h = None \<longrightarrow> length (he_Status h) \<le> length (StatusText (rs_StatusCode resp)) + 205)"
proof (intro exI conjI)
  let ?h = "newHTTPError resp"
  show "do_call c ev decode zero ca n = (Inl (ErrHTTP ?h), n')"
    using assms by (simp add: do_call_def)
  show code: "he_StatusCode ?h = rs_StatusCode resp"
    by (auto simp: newHTTPError_def Let_def split: option.splits)
  show "IsNotFoundError (ErrHTTP ?h) \<longleftrightarrow> rs_StatusCode resp = 404"
    using code by (simp add: IsNotFoundError_def AsNotFound_def)
  show "\<forall>r. he_Response ?h = Some r \<longrightarrow> decode_error_response (take 2048 (rs_Body resp)) = Some r
      \<and> (er_Type r \<noteq> [] \<or> er_Message r \<noteq> [])"
    by (auto simp: newHTTPError_def Let_def split: option.splits if_splits)
  show "he_Response ?h = None \<longrightarrow> length (he_Status ?h) \<le> length (StatusText (rs_StatusCode resp)) + 205"
    by (auto simp: newHTTPError_def Let_def truncateBody_def split: option.splits if_splits)
qed

definition missing_env :: "unit env" where
  "missing_env = busy_env\<lparr>ev_send := (\<lambda>rq w. (Inr \<lparr>rs_StatusCode = 404, rs_RetryAfter = [],
     rs_Body = ''{\"code\":1003,\"type\":\"NoSuchMetalakeException\",\"message\":\"gone\"}'', rs_ReadFails = False\<rparr>, w))\<rparr>"

theorem http_error_faithful_witness:
  "\<exists>h. fst (do_call local_client missing_env (\<lambda>b. Inr b) [] (GetMetalake ''m'')
      \<lparr>nt_world = (), nt_sent = [], nt_slept = []\<rparr>) = Inl (ErrHTTP h) \<and> IsNotFoundError (ErrHTTP h)"
proof -
  let ?n = "\<lparr>nt_world = (), nt_sent = [], nt_slept = []\<rparr>" and ?ca = "GetMetalake ''m''"
  obtain r n' where rn: "doRequest local_client missing_env (ca_method ?ca) (ca_path ?ca) (ca_body ?ca) (ca_retryable ?ca) ?n = (r, n')"
    by fastforce
  have "case fst (doRequest local_client missing_env (ca_method ?ca) (ca_path ?ca) (ca_body ?ca) (ca_retryable ?ca) ?n) of
      Inr resp \<Rightarrow> rs_StatusCode resp = 404 | Inl e \<Rightarrow> False"
    by code_simp
  with rn obtain resp where resp: "r = Inr resp" "rs_StatusCode resp = 404" by (auto split: sum.splits)
  show ?thesis
    using http_error_faithful [OF rn [unfolded resp(1)], of "\<lambda>b. Inr b" "[]"] resp(2) by auto
qed

text \<open>A rename is a request that cannot be repeated, but it is a retryable call: when the
  server renames a metalake and then answers 503, the client sends the same PUT again to the
  old name and reports the 404 of that second request, although the rename was done.\<close>

definition rename_url :: "string \<Rightarrow> string" where
  "rename_url name = ''http://h/api'' @ metalakePath name"

definition renaming_env :: "string env" where
  "renaming_env = \<lparr>ev_new_request = (\<lambda>_ _. None), ev_auth = None,
     ev_send = (\<lambda>rq name.
       if rq_url rq = rename_url name
       then (Inr \<lparr>rs_StatusCode = 503, rs_RetryAfter = [], rs_Body = [], rs_ReadFails = False\<rparr>, ''new'')
       else (Inr \<lparr>rs_StatusCode = 404, rs_RetryAfter = [], rs_Body = [], rs_ReadFails = False\<rparr>, name)),
     ev_ctx_err = (\<lambda>w. None), ev_wait = (\<lambda>d w. (None, w)), ev_rand = (\<lambda>m w. (0, w)), ev_date = (\<lambda>v w. None)\<rparr>"

theorem retried_rename_reports_missing:
  "case do_call local_client renaming_env (\<lambda>b. Inr b) []
      (UpdateMetalake ''old'' [JObj [(''@type'', JStr ''rename''), (''newName'', JStr ''new'')]])
      \<lparr>nt_world = ''old'', nt_sent = [], nt_slept = []\<rparr> of
     (r, n) \<Rightarrow> nt_world n = ''new'' \<and> length (nt_sent n) = 2 \<and>
       (case r of Inl err \<Rightarrow> IsNotFoundError err | Inr b \<Rightarrow> False)"
  by code_simp

end
