(* ===== verification/TfUtil.thy ===== *)
theory TfUtil
  imports Errors
begin

section \<open>Terraform values and Go values (tfutil, resourceutil, models/audit.go)\<close>

text \<open>
  The decoder of the plugin framework (\<open>ElementsAs\<close>) is third-party code and a parameter:
  the record \<open>fw\<close> holds what it makes of the elements of a known list or map of strings, and its error for an
  unknown list.
  \<open>fw_decodes\<close> is the documented behaviour the handlers rely on: elements that are all known
  decode to their contents. Building a framework value from Go values is building a \<open>tfval\<close>.

  \<open>fullyKnown\<close> inspects Go values by reflection, so its argument is a tree of the shapes it
  distinguishes. \<open>AssociationID\<close>, \<open>DiffAssociationNames\<close> and \<open>splitImportID\<close> are the helpers
  shared by the resources.
\<close>

type_synonym tf_strings = "string tfval list tfval"
type_synonym tf_map = "(string \<times> string tfval) list tfval"

record fw =
  fw_strings :: "string tfval list \<Rightarrow> diags + string list"
  fw_map :: "(string \<times> string tfval) list \<Rightarrow> diags + string gomap"
  fw_unhandled :: diags

definition known_map :: "string gomap \<Rightarrow> (string \<times> string tfval) list" where
  "known_map m = map (\<lambda>(k, v). (k, TKnown v)) m"

definition fw_decodes :: "('a fw_scheme) \<Rightarrow> bool" where
  "fw_decodes fw \<longleftrightarrow>
     (\<forall>xs. fw_strings fw (map TKnown xs) = Inr xs) \<and>
     (\<forall>m. wf_map m \<longrightarrow> (\<exists>m'. fw_map fw (known_map m) = Inr m' \<and> mset m' = mset m))"

text \<open>A concrete decoder: every element known, or one error.\<close>

fun known_list :: "string tfval list \<Rightarrow> string list option" where
  "known_list [] = Some []"
| "known_list (TKnown x # xs) = map_option (\<lambda>ys. x # ys) (known_list xs)"
| "known_list _ = None"

definition strict_error :: diags where
  "strict_error = [error_diag ''Value Conversion Error'' ''An unexpected error was encountered trying to build a value.'']"

definition strict_fw :: fw where
  "strict_fw =
     \<lparr>fw_strings = (\<lambda>xs. case known_list xs of Some ys \<Rightarrow> Inr ys | None \<Rightarrow> Inl strict_error),
      fw_map = (\<lambda>m. case known_list (map snd m) of Some ys \<Rightarrow> Inr (zip (map fst m) ys) | None \<Rightarrow> Inl strict_error),
      fw_unhandled = strict_error\<rparr>"

lemma known_list_known [simp]: "known_list (map TKnown xs) = Some xs"
  by (induction xs) simp_all

lemma map_known_map: "map snd (known_map m) = map TKnown (map snd m)" "map fst (known_map m) = map fst m"
  by (simp_all add: known_map_def case_prod_beta comp_def)

lemma strict_fw_map: "fw_map strict_fw (known_map m) = Inr m"
  unfolding strict_fw_def fw.simps map_known_map by (simp add: zip_map_fst_snd del: map_map)

lemma strict_fw_decodes: "fw_decodes strict_fw"
  by (simp add: fw_decodes_def strict_fw_map) (simp add: strict_fw_def)

subsection \<open>Conversions\<close>

definition StringMap :: "('a fw_scheme) \<Rightarrow> tf_map \<Rightarrow> diags \<Rightarrow> string gomap \<times> diags" where
  "StringMap fw v ds =
     (case v of
        TKnown m \<Rightarrow> (case fw_map fw m of Inr r \<Rightarrow> (r, ds) | Inl es \<Rightarrow> ([], ds @ es))
      | _ \<Rightarrow> ([], ds))"

definition SetToStrings :: "tf_strings \<Rightarrow> string list option" where
  "SetToStrings v = (case v of TKnown xs \<Rightarrow> Some (map ValueString xs) | _ \<Rightarrow> None)"

definition ListToStrings :: "tf_strings \<Rightarrow> string list option" where
  "ListToStrings v = (case v of TKnown xs \<Rightarrow> Some (map ValueString xs) | _ \<Rightarrow> None)"

definition StringsToSet :: "string list \<Rightarrow> tf_strings" where
  "StringsToSet xs = TKnown (map TKnown xs)"

definition StringsToList :: "string list \<Rightarrow> tf_strings" where
  "StringsToList xs = TKnown (map TKnown xs)"

text \<open>\<open>MapOrPrevious\<close> and \<open>ObjectOrPrevious\<close> are the same function on other value types.\<close>

definition StringOrPrevious :: "'a tfval \<Rightarrow> 'a tfval \<Rightarrow> 'a tfval" where
  "StringOrPrevious planned previous =
     (if \<not> IsUnknown planned then planned
      else if IsNull previous \<or> IsUnknown previous then TNull else previous)"

definition MapOrPrevious :: "'a tfval \<Rightarrow> 'a tfval \<Rightarrow> 'a tfval" where
  "MapOrPrevious = StringOrPrevious"

definition ObjectOrPrevious :: "'a tfval \<Rightarrow> 'a tfval \<Rightarrow> 'a tfval" where
  "ObjectOrPrevious = StringOrPrevious"

subsection \<open>Fully known values\<close>

text \<open>\<open>GAttr u\<close> is a framework value with \<open>IsUnknown() = u\<close>; a struct field has a tag, a Go name
  and a value; \<open>GOther\<close> is any value without parts.\<close>

datatype goval = GNil | GAttr bool | GStruct "((string \<times> string) \<times> goval) list" | GSlice "goval list" | GOther

definition skippedField :: "string list \<Rightarrow> string \<times> string \<Rightarrow> bool" where
  "skippedField skip f = list_ex (\<lambda>name. name \<noteq> [] \<and> (name = fst f \<or> name = snd f)) skip"

fun fullyKnown :: "string list \<Rightarrow> goval \<Rightarrow> bool" where
  "fullyKnown skip GNil = True"
| "fullyKnown skip (GAttr u) = (\<not> u)"
| "fullyKnown skip (GStruct fs) = list_all (\<lambda>(f, v). skippedField skip f \<or> fullyKnown skip v) fs"
| "fullyKnown skip (GSlice vs) = list_all (fullyKnown skip) vs"
| "fullyKnown skip GOther = True"

subsection \<open>Audit\<close>

record audit =
  au_Creator :: string
  au_CreateTime :: "string option"
  au_LastModifier :: string
  au_LastModifiedTime :: "string option"

record audit_tfsdk =
  at_creator :: "string tfval"
  at_create_time :: "string tfval"
  at_last_modifier :: "string tfval"
  at_last_modified_time :: "string tfval"

text \<open>A time is its RFC 3339 text.\<close>

definition auditTimeToString :: "string option \<Rightarrow> string tfval" where
  "auditTimeToString t = (case t of None \<Rightarrow> TNull | Some s \<Rightarrow> TKnown s)"

definition AuditToObjectValue :: "audit option \<Rightarrow> audit_tfsdk tfval" where
  "AuditToObjectValue a =
     (case a of
        None \<Rightarrow> TNull
      | Some x \<Rightarrow> TKnown \<lparr>at_creator = TKnown (au_Creator x),
          at_create_time = auditTimeToString (au_CreateTime x),
          at_last_modifier = TKnown (au_LastModifier x),
          at_last_modified_time = auditTimeToString (au_LastModifiedTime x)\<rparr>)"

subsection \<open>Shared helpers of the resources\<close>

definition AssociationID :: "string \<Rightarrow> string \<Rightarrow> string \<Rightarrow> string" where
  "AssociationID metalake objectType objectFullName = metalake @ ''.'' @ objectType @ ''.'' @ objectFullName"

definition DiffAssociationNames :: "string list \<Rightarrow> string list \<Rightarrow> string list \<times> string list" where
  "DiffAssociationNames current desired =
     (filter (\<lambda>n. n \<notin> set current) desired, filter (\<lambda>n. n \<notin> set desired) current)"

definition import_id_error :: "string \<Rightarrow> string \<Rightarrow> diagnostic" where
  "import_id_error expectedFormat ident =
     error_diag ''Invalid import ID'' (''Expected format '' @ expectedFormat @ '', got '' @ quote ident @ ''.'')"

definition splitImportID :: "bool \<Rightarrow> nat \<Rightarrow> string \<Rightarrow> string \<Rightarrow> diagnostic + string list" where
  "splitImportID exact n expectedFormat ident =
     (let parts = (if exact then split_on CHR ''.'' ident else split_n CHR ''.'' n ident)
      in if length parts \<noteq> n \<or> list_ex (\<lambda>p. trim_space p = []) parts
         then Inl (import_id_error expectedFormat ident) else Inr parts)"

definition SplitImportID :: "nat \<Rightarrow> string \<Rightarrow> string \<Rightarrow> diagnostic + string list" where
  "SplitImportID = splitImportID False"

definition SplitImportIDExact :: "nat \<Rightarrow> string \<Rightarrow> string \<Rightarrow> diagnostic + string list" where
  "SplitImportIDExact = splitImportID True"

subsection \<open>Handlers\<close>

text \<open>A handler runs on a world and either stops with diagnostics, leaving the recorded state as
  it is, or yields a value. \<open>state_write\<close> is what it does to the recorded state.\<close>

datatype 'm state_write = Keep | Save 'm | Remove

type_synonym ('a, 'w) step = "'w \<Rightarrow> (diags + 'a) \<times> 'w"

definition andThen :: "('a, 'w) step \<Rightarrow> ('a \<Rightarrow> ('b, 'w) step) \<Rightarrow> ('b, 'w) step" where
  "andThen m f w = (case m w of (Inl ds, w') \<Rightarrow> (Inl ds, w') | (Inr a, w') \<Rightarrow> f a w')"

definition done_with :: "'a \<Rightarrow> ('a, 'w) step" where
  "done_with a w = (Inr a, w)"

definition pure_step :: "diags + 'a \<Rightarrow> ('a, 'w) step" where
  "pure_step r w = (r, w)"

definition stop_if :: "bool \<Rightarrow> diags \<Rightarrow> (unit, 'w) step" where
  "stop_if b ds w = (if b then Inl ds else Inr (), w)"

text \<open>A call whose error is turned into diagnostics.\<close>

definition calling :: "('w \<Rightarrow> (gerror + 'a) \<times> 'w) \<Rightarrow> (gerror \<Rightarrow> diags) \<Rightarrow> ('a, 'w) step" where
  "calling f report w = (case f w of (Inl err, w') \<Rightarrow> (Inl (report err), w') | (Inr a, w') \<Rightarrow> (Inr a, w'))"

lemmas step_defs = andThen_def done_with_def pure_step_def stop_if_def calling_def

subsection \<open>Lemmas\<close>

lemma andThen_pure: "andThen (pure_step (Inr a)) f = f a"
  by (simp add: andThen_def pure_step_def fun_eq_iff)

lemma diff_names_converge:
  "(set current - set (snd (DiffAssociationNames current desired)))
     \<union> set (fst (DiffAssociationNames current desired)) = set desired"
  by (auto simp: DiffAssociationNames_def)

lemma diff_names_disjoint:
  "set (fst (DiffAssociationNames current desired)) \<inter> set (snd (DiffAssociationNames current desired)) = {}"
  by (auto simp: DiffAssociationNames_def)

lemma split_import_join:
  assumes "length ps = n" "0 < n" "\<forall>p \<in> set ps. trim_space p \<noteq> []" "\<forall>p \<in> set (butlast ps). CHR ''.'' \<notin> set p"
  shows "SplitImportID n fmt (join ''.'' ps) = Inr ps"
proof -
  obtain m where m: "n = Suc m" using assms(2) by (cases n) auto
  then have "split_n CHR ''.'' n (join ''.'' ps) = ps" using split_n_join assms(1,4) by simp
  then show ?thesis using assms(1,3) by (auto simp: SplitImportID_def splitImportID_def list_ex_iff)
qed

subsection \<open>Properties\<close>

text \<open>An import id written as the dot-joined names of an object is split back into exactly these
  names, provided that only the last of them contains a dot; whatever is accepted has the
  requested number of parts, none of them blank, and joins back to the id that was given.\<close>

theorem import_id_roundtrip:
  assumes "length ps = n" "0 < n" "\<forall>p \<in> set ps. trim_space p \<noteq> []" "\<forall>p \<in> set (butlast ps). CHR ''.'' \<notin> set p"
  shows "SplitImportID n fmt (join ''.'' ps) = Inr ps \<and>
    (\<forall>ident qs. SplitImportID n fmt ident = Inr qs \<longrightarrow>
       length qs = n \<and> join ''.'' qs = ident \<and> (\<forall>q \<in> set qs. trim_space q \<noteq> []))"
proof (rule conjI, rule split_import_join [OF assms], intro allI impI)
  fix ident qs assume "SplitImportID n fmt ident = Inr qs"
  then have q: "qs = split_n CHR ''.'' n ident" "length qs = n" "\<not> list_ex (\<lambda>p. trim_space p = []) qs"
    by (auto simp: SplitImportID_def splitImportID_def Let_def split: if_splits)
  then show "length qs = n \<and> join ''.'' qs = ident \<and> (\<forall>q \<in> set qs. trim_space q \<noteq> [])"
    using join_split_n [of "CHR ''.''" n ident] by (auto simp: list_ex_iff)
qed

theorem import_id_roundtrip_witness:
  "SplitImportID 4 ''metalake.catalog.schema.table'' ''m.c.s.a.b'' = Inr [''m'', ''c'', ''s'', ''a.b'']"
proof -
  have "\<forall>p \<in> set [''m'', ''c'', ''s'', ''a.b'']. trim_space p \<noteq> []" by code_simp
  moreover have "\<forall>p \<in> set (butlast [''m'', ''c'', ''s'', ''a.b'']). CHR ''.'' \<notin> set p" by code_simp
  moreover have "join ''.'' [''m'', ''c'', ''s'', ''a.b''] = ''m.c.s.a.b''" by code_simp
  ultimately show ?thesis
    using conjunct1 [OF import_id_roundtrip [of "[''m'', ''c'', ''s'', ''a.b'']" 4]] by fastforce
qed

text \<open>The add and remove lists of a tag or policy association move the set of names from
  the current one to the desired one, touch no name that is in both, and never name the same
  entry twice in opposite directions.\<close>

theorem association_diff_converges:
  "(set current - set (snd (DiffAssociationNames current desired)))
      \<union> set (fst (DiffAssociationNames current desired)) = set desired \<and>
   set (fst (DiffAssociationNames current desired)) \<inter> set (snd (DiffAssociationNames current desired)) = {} \<and>
   set (fst (DiffAssociationNames current desired)) \<inter> set current = {} \<and>
   set (snd (DiffAssociationNames current desired)) \<subseteq> set current"
  by (auto simp: DiffAssociationNames_def)

end
