(* ===== verification/TableModel.thy ===== *)
theory TableModel
  imports TfUtil DataTypes
begin

section \<open>The table models and their conversions (models/table*.go)\<close>

text \<open>
  Two representations of a table: the API's (\<open>table\<close>, \<open>column\<close>, \<open>sort_order\<close>, ...) and
  Terraform's (the \<open>_tfsdk\<close> records). A nil slice or map is \<open>None\<close> where the code tells it
  from an empty one (\<open>reflect.DeepEqual\<close> does). The conversions follow models/table_convert.go;
  the decoders of nested lists of the framework extend the record \<open>fw\<close>.
\<close>

subsection \<open>The API's table\<close>

record column =
  col_Name :: string
  col_Type :: data_type
  col_Comment :: string
  col_Nullable :: bool
  col_AutoIncrement :: bool
  col_DefaultValue :: "literal option"

record sort_order =
  so_SortTerm :: expression
  so_Direction :: string
  so_NullOrdering :: string

record distribution =
  di_Strategy :: string
  di_Number :: int
  di_FuncArgs :: "expression list option"

record partitioning =
  pt_Strategy :: string
  pt_FieldName :: "string list option"
  pt_FieldNames :: "string list list option"
  pt_NumBuckets :: "int option"
  pt_Width :: "int option"
  pt_FuncName :: string
  pt_FuncArgs :: "expression list option"

record index =
  ix_IndexType :: string
  ix_Name :: string
  ix_FieldNames :: "string list list option"
  ix_Properties :: "string gomap option"

record table =
  tb_Name :: string
  tb_Columns :: "column list"
  tb_Comment :: string
  tb_Audit :: "audit option"
  tb_Properties :: "string gomap"
  tb_Distribution :: "distribution option"
  tb_SortOrders :: "sort_order list"
  tb_Partitioning :: "partitioning list"
  tb_Indexes :: "index list"

record table_create_request =
  tcr_Name :: string
  tcr_Columns :: "column list"
  tcr_Comment :: string
  tcr_Properties :: "string gomap"
  tcr_SortOrders :: "sort_order list"
  tcr_Distribution :: "distribution option"
  tcr_Partitioning :: "partitioning list"
  tcr_Indexes :: "index list"

text \<open>The update requests, by their \<open>@type\<close>.\<close>

datatype table_update =
    NewRenameTableRequest string
  | NewUpdateTableCommentRequest string
  | NewSetTablePropertyRequest string string
  | NewRemoveTablePropertyRequest string
  | NewUpdateTableColumnTypeRequest "string list" data_type
  | NewUpdateTableColumnCommentRequest "string list" string
  | NewUpdateTableColumnPositionRequest "string list" column_position
  | NewUpdateTableColumnNullabilityRequest "string list" bool
  | NewUpdateTableColumnDefaultValueRequest "string list" "literal option"

definition update_Type :: "table_update \<Rightarrow> string" where
  "update_Type u = (case u of
     NewRenameTableRequest _ \<Rightarrow> ''rename''
   | NewUpdateTableCommentRequest _ \<Rightarrow> ''updateComment''
   | NewSetTablePropertyRequest _ _ \<Rightarrow> ''setProperty''
   | NewRemoveTablePropertyRequest _ \<Rightarrow> ''removeProperty''
   | NewUpdateTableColumnTypeRequest _ _ \<Rightarrow> ''updateColumnType''
   | NewUpdateTableColumnCommentRequest _ _ \<Rightarrow> ''updateColumnComment''
   | NewUpdateTableColumnPositionRequest _ _ \<Rightarrow> ''updateColumnPosition''
   | NewUpdateTableColumnNullabilityRequest _ _ \<Rightarrow> ''updateColumnNullability''
   | NewUpdateTableColumnDefaultValueRequest _ _ \<Rightarrow> ''updateColumnDefaultValue'')"

definition update_Property :: "table_update \<Rightarrow> string" where
  "update_Property u = (case u of
     NewSetTablePropertyRequest k _ \<Rightarrow> k | NewRemoveTablePropertyRequest k \<Rightarrow> k | _ \<Rightarrow> [])"

definition field_name_json :: "string list \<Rightarrow> string \<times> json" where
  "field_name_json f = (''fieldName'', JArr (map JStr f))"

definition TableUpdateRequest_MarshalJSON :: "table_update \<Rightarrow> json" where
  "TableUpdateRequest_MarshalJSON u = jmap ([(''@type'', JStr (update_Type u))] @
     (case u of
        NewRenameTableRequest n \<Rightarrow> [(''newName'', JStr n)]
      | NewUpdateTableCommentRequest c \<Rightarrow> [(''newComment'', JStr c)]
      | NewSetTablePropertyRequest k v \<Rightarrow> [(''property'', JStr k), (''value'', JStr v)]
      | NewRemoveTablePropertyRequest k \<Rightarrow> [(''property'', JStr k)]
      | NewUpdateTableColumnTypeRequest f t \<Rightarrow> [field_name_json f, (''newType'', DataType_MarshalJSON t)]
      | NewUpdateTableColumnCommentRequest f c \<Rightarrow> [field_name_json f, (''newComment'', JStr c)]
      | NewUpdateTableColumnPositionRequest f p \<Rightarrow> [field_name_json f, (''newPosition'', ColumnPosition_MarshalJSON p)]
      | NewUpdateTableColumnNullabilityRequest f b \<Rightarrow> [field_name_json f, (''nullable'', JBool b)]
      | NewUpdateTableColumnDefaultValueRequest f d \<Rightarrow>
          [field_name_json f, (''newDefaultValue'', case d of None \<Rightarrow> JNull | Some l \<Rightarrow> Literal_MarshalJSON l)]))"

subsection \<open>Terraform's table\<close>

record column_tfsdk =
  ct_Name :: "string tfval"
  ct_Type :: "string tfval"
  ct_Comment :: "string tfval"
  ct_Nullable :: "bool tfval"
  ct_AutoIncrement :: "bool tfval"
  ct_DefaultValue :: "string tfval"

record sort_order_tfsdk =
  st_FieldName :: tf_strings
  st_Direction :: "string tfval"
  st_NullOrdering :: "string tfval"

record distribution_tfsdk =
  dx_Strategy :: "string tfval"
  dx_Number :: "int tfval"
  dx_FuncArgs :: tf_strings

record partitioning_tfsdk =
  pp_Strategy :: "string tfval"
  pp_FieldName :: tf_strings
  pp_FieldNames :: "tf_strings list tfval"
  pp_NumBuckets :: "int tfval"
  pp_Width :: "int tfval"
  pp_FuncName :: "string tfval"
  pp_FuncArgs :: tf_strings

record index_tfsdk =
  it_IndexType :: "string tfval"
  it_Name :: "string tfval"
  it_FieldNames :: "tf_strings list tfval"
  it_Properties :: tf_map

record table_model =
  tm_Metalake :: "string tfval"
  tm_Catalog :: "string tfval"
  tm_Schema :: "string tfval"
  tm_Name :: "string tfval"
  tm_Comment :: "string tfval"
  tm_Properties :: tf_map
  tm_ID :: "string tfval"
  tm_Audit :: "audit_tfsdk tfval"
  tm_Columns :: "column_tfsdk list option"
  tm_SortOrders :: "sort_order_tfsdk list option"
  tm_Distribution :: "distribution_tfsdk option"
  tm_Partitioning :: "partitioning_tfsdk list option"
  tm_Indexes :: "index_tfsdk list option"

record table_tf =
  tt_Metalake :: "string tfval"
  tt_Catalog :: "string tfval"
  tt_Schema :: "string tfval"
  tt_Name :: "string tfval"
  tt_Comment :: "string tfval"
  tt_Properties :: tf_map
  tt_ID :: "string tfval"
  tt_Audit :: "audit_tfsdk tfval"
  tt_Columns :: "column_tfsdk tfval list tfval"
  tt_SortOrders :: "sort_order_tfsdk tfval list tfval"
  tt_Distribution :: "distribution_tfsdk tfval"
  tt_Partitioning :: "partitioning_tfsdk tfval list tfval"
  tt_Indexes :: "index_tfsdk tfval list tfval"

text \<open>The framework's decoders for the block lists of a table.\<close>

record table_fw = fw +
  tfw_columns :: "column_tfsdk tfval list \<Rightarrow> diags + column_tfsdk list"
  tfw_sort_orders :: "sort_order_tfsdk tfval list \<Rightarrow> diags + sort_order_tfsdk list"
  tfw_partitioning :: "partitioning_tfsdk tfval list \<Rightarrow> diags + partitioning_tfsdk list"
  tfw_indexes :: "index_tfsdk tfval list \<Rightarrow> diags + index_tfsdk list"

definition table_fw_decodes :: "('a table_fw_scheme) \<Rightarrow> bool" where
  "table_fw_decodes fw \<longleftrightarrow> fw_decodes fw \<and>
     (\<forall>xs. tfw_columns fw (map TKnown xs) = Inr xs) \<and> (\<forall>xs. tfw_sort_orders fw (map TKnown xs) = Inr xs) \<and>
     (\<forall>xs. tfw_partitioning fw (map TKnown xs) = Inr xs) \<and> (\<forall>xs. tfw_indexes fw (map TKnown xs) = Inr xs)"

text \<open>A concrete decoder: every block known, or one error.\<close>

fun known_blocks :: "'a tfval list \<Rightarrow> diags + 'a list" where
  "known_blocks [] = Inr []"
| "known_blocks (TKnown x # xs) = map_sum id (\<lambda>ys. x # ys) (known_blocks xs)"
| "known_blocks _ = Inl strict_error"

definition strict_table_fw :: table_fw where
  "strict_table_fw =
     \<lparr>fw_strings = fw_strings strict_fw, fw_map = fw_map strict_fw, fw_unhandled = strict_error,
      tfw_columns = known_blocks, tfw_sort_orders = known_blocks, tfw_partitioning = known_blocks,
      tfw_indexes = known_blocks\<rparr>"

lemma known_blocks_known [simp]: "known_blocks (map TKnown xs) = Inr xs"
  by (induction xs) simp_all

lemma strict_table_fw_decodes: "table_fw_decodes strict_table_fw"
  using strict_fw_decodes by (simp add: table_fw_decodes_def fw_decodes_def strict_table_fw_def)

definition slice :: "'a list option \<Rightarrow> 'a list" where
  "slice s = (case s of None \<Rightarrow> [] | Some xs \<Rightarrow> xs)"

lemma slice_simps [simp]: "slice None = []" "slice (Some xs) = xs"
  by (simp_all add: slice_def)

definition blocks_from ::
    "('a tfval list \<Rightarrow> diags + 'a list) \<Rightarrow> 'a tfval list tfval \<Rightarrow> diags \<Rightarrow> 'a list option \<times> diags" where
  "blocks_from decode v ds =
     (case v of
        TKnown xs \<Rightarrow>
          (case decode xs of
             Inl es \<Rightarrow> (None, ds @ es)
           | Inr ys \<Rightarrow> (if HasError ds then None else Some ys, ds))
      | _ \<Rightarrow> (None, ds))"

definition blocks_to :: "'a list option \<Rightarrow> 'a tfval list tfval" where
  "blocks_to s = (case s of None \<Rightarrow> TNull | Some xs \<Rightarrow> TKnown (map TKnown xs))"

text \<open>The error branch of the encoders (\<open>ObjectValueFrom\<close> on a struct of framework values) does not
  arise; an error already collected still makes them return a null list.\<close>

definition TableColumnsFromList where "TableColumnsFromList fw = blocks_from (tfw_columns fw)"
definition TableSortOrdersFromList where "TableSortOrdersFromList fw = blocks_from (tfw_sort_orders fw)"
definition TablePartitioningFromList where "TablePartitioningFromList fw = blocks_from (tfw_partitioning fw)"
definition TableIndexesFromList where "TableIndexesFromList fw = blocks_from (tfw_indexes fw)"

definition TableDistributionFromObject ::
    "distribution_tfsdk tfval \<Rightarrow> diags \<Rightarrow> distribution_tfsdk option" where
  "TableDistributionFromObject v ds = (case v of TKnown d \<Rightarrow> if HasError ds then None else Some d | _ \<Rightarrow> None)"

definition TableResourceModelFromTF ::
    "('a table_fw_scheme) \<Rightarrow> table_tf \<Rightarrow> diags \<Rightarrow> table_model \<times> diags" where
  "TableResourceModelFromTF fw t ds =
     (let (cols, ds1) = TableColumnsFromList fw (tt_Columns t) ds;
          (orders, ds2) = TableSortOrdersFromList fw (tt_SortOrders t) ds1;
          dist = TableDistributionFromObject (tt_Distribution t) ds2;
          (parts, ds3) = TablePartitioningFromList fw (tt_Partitioning t) ds2;
          (ixs, ds4) = TableIndexesFromList fw (tt_Indexes t) ds3
      in (\<lparr>tm_Metalake = tt_Metalake t, tm_Catalog = tt_Catalog t, tm_Schema = tt_Schema t,
           tm_Name = tt_Name t, tm_Comment = tt_Comment t, tm_Properties = tt_Properties t,
           tm_ID = tt_ID t, tm_Audit = tt_Audit t, tm_Columns = cols, tm_SortOrders = orders,
           tm_Distribution = dist, tm_Partitioning = parts, tm_Indexes = ixs\<rparr>, ds4))"

definition TableResourceModelToTF :: "table_model \<Rightarrow> table_tf" where
  "TableResourceModelToTF m =
     \<lparr>tt_Metalake = tm_Metalake m, tt_Catalog = tm_Catalog m, tt_Schema = tm_Schema m,
      tt_Name = tm_Name m, tt_Comment = tm_Comment m, tt_Properties = tm_Properties m,
      tt_ID = tm_ID m, tt_Audit = tm_Audit m, tt_Columns = blocks_to (tm_Columns m),
      tt_SortOrders = blocks_to (tm_SortOrders m),
      tt_Distribution = (case tm_Distribution m of None \<Rightarrow> TNull | Some d \<Rightarrow> TKnown d),
      tt_Partitioning = blocks_to (tm_Partitioning m), tt_Indexes = blocks_to (tm_Indexes m)\<rparr>"

subsection \<open>Conversions (models/table_convert.go)\<close>

definition opt_text :: "string \<Rightarrow> string tfval" where
  "opt_text s = (if s = [] then TNull else TKnown s)"

definition TablePropertiesFromModel :: "('a fw_scheme) \<Rightarrow> tf_map \<Rightarrow> diags + string gomap option" where
  "TablePropertiesFromModel fw v =
     (case v of
        TKnown m \<Rightarrow> (case fw_map fw m of Inl es \<Rightarrow> Inl es | Inr r \<Rightarrow> Inr (Some r))
      | _ \<Rightarrow> Inr None)"

definition ColumnDefaultValue :: "column_tfsdk \<Rightarrow> data_type \<Rightarrow> literal option" where
  "ColumnDefaultValue c d =
     (case ct_DefaultValue c of TKnown v \<Rightarrow> Some (NewLiteral d v) | _ \<Rightarrow> None)"

fun TableColumnsFromModel :: "column_tfsdk list \<Rightarrow> column list \<times> diags" where
  "TableColumnsFromModel [] = ([], [])"
| "TableColumnsFromModel (c # cs) =
     (let (rest, ds) = TableColumnsFromModel cs in
      case ParseDataType (ValueString (ct_Type c)) of
        Inl err \<Rightarrow>
          (rest, error_diag ''Invalid column type''
             (''Column '' @ quote (ValueString (ct_Name c)) @ '': '' @ err_text err @ ''.'') # ds)
      | Inr d \<Rightarrow>
          (\<lparr>col_Name = ValueString (ct_Name c), col_Type = d, col_Comment = ValueString (ct_Comment c),
            col_Nullable = ValueBool (ct_Nullable c), col_AutoIncrement = ValueBool (ct_AutoIncrement c),
            col_DefaultValue = ColumnDefaultValue c d\<rparr> # rest, ds))"

definition DefaultValueToModel :: "literal option \<Rightarrow> string tfval" where
  "DefaultValueToModel d =
     (case d of
        None \<Rightarrow> TNull
      | Some l \<Rightarrow>
          (case lit_DataType l of
             None \<Rightarrow> TNull
           | Some t \<Rightarrow> if equal_fold (dt_Type t) ''null'' then TNull else TKnown (lit_Value l)))"

definition column_to_model :: "column \<Rightarrow> column_tfsdk" where
  "column_to_model c =
     \<lparr>ct_Name = TKnown (col_Name c), ct_Type = TKnown (DataType_String (col_Type c)),
      ct_Comment = opt_text (col_Comment c), ct_Nullable = TKnown (col_Nullable c),
      ct_AutoIncrement = TKnown (col_AutoIncrement c), ct_DefaultValue = DefaultValueToModel (col_DefaultValue c)\<rparr>"

definition TableColumnsToModel :: "column list \<Rightarrow> column_tfsdk list" where
  "TableColumnsToModel cs = map column_to_model cs"

definition DefaultNullOrdering :: "string \<Rightarrow> string" where
  "DefaultNullOrdering direction = (if direction = ''desc'' then ''nulls_last'' else ''nulls_first'')"

definition listOfStrings :: "('a fw_scheme) \<Rightarrow> tf_strings \<Rightarrow> diags + string list option" where
  "listOfStrings fw v =
     (case v of TKnown xs \<Rightarrow> (case fw_strings fw xs of Inl es \<Rightarrow> Inl es | Inr ys \<Rightarrow> Inr (Some ys))
      | _ \<Rightarrow> Inr None)"

text \<open>An element of a known list of lists is a list value; decoding a null or unknown one is left
  to the framework's decoder of its (missing) elements.\<close>

fun inner_lists :: "('a fw_scheme) \<Rightarrow> tf_strings list \<Rightarrow> diags + string list list" where
  "inner_lists fw [] = Inr []"
| "inner_lists fw (v # vs) =
     (case (case v of TKnown xs \<Rightarrow> fw_strings fw xs | TNull \<Rightarrow> Inr []
            | TUnknown \<Rightarrow> Inl (fw_unhandled fw)) of
        Inl es \<Rightarrow> Inl es
      | Inr ys \<Rightarrow> map_sum id (\<lambda>yss. ys # yss) (inner_lists fw vs))"

definition listOfLists :: "('a fw_scheme) \<Rightarrow> tf_strings list tfval \<Rightarrow> diags + string list list option" where
  "listOfLists fw v =
     (case v of TKnown xs \<Rightarrow> map_sum id Some (inner_lists fw xs) | _ \<Rightarrow> Inr None)"

definition pathSegments :: "string \<Rightarrow> string list" where
  "pathSegments p = split_on CHR ''.'' p"

definition fieldPaths :: "expression list \<Rightarrow> string list" where
  "fieldPaths args =
     map (\<lambda>a. join ''.'' (slice (ex_FieldName a))) (filter (\<lambda>a. ex_Type a = [] \<or> ex_Type a = ''field'') args)"

definition field_args :: "string list \<Rightarrow> expression list" where
  "field_args args = map (\<lambda>a. NewFieldExpression (Some (pathSegments a))) args"

fun TableSortOrdersFromModel :: "('a fw_scheme) \<Rightarrow> sort_order_tfsdk list \<Rightarrow> diags + sort_order list" where
  "TableSortOrdersFromModel fw [] = Inr []"
| "TableSortOrdersFromModel fw (ord # ords) =
     (case listOfStrings fw (st_FieldName ord) of
        Inl es \<Rightarrow> Inl es
      | Inr f \<Rightarrow>
          (let direction = (if ValueString (st_Direction ord) = [] then ''asc'' else ValueString (st_Direction ord));
               nulls = (if ValueString (st_NullOrdering ord) = [] then DefaultNullOrdering direction
                        else ValueString (st_NullOrdering ord))
           in map_sum id (\<lambda>xs. \<lparr>so_SortTerm = NewFieldExpression f, so_Direction = direction, so_NullOrdering = nulls\<rparr> # xs)
                (TableSortOrdersFromModel fw ords)))"

definition TableSortOrdersToModel :: "sort_order list \<Rightarrow> sort_order_tfsdk list" where
  "TableSortOrdersToModel ords =
     map (\<lambda>ord. \<lparr>st_FieldName = StringsToList (slice (ex_FieldName (so_SortTerm ord))),
        st_Direction = TKnown (so_Direction ord), st_NullOrdering = opt_text (so_NullOrdering ord)\<rparr>) ords"

definition wrap32 :: "int \<Rightarrow> int" where
  "wrap32 x = (x + 2 ^ 31) mod 2 ^ 32 - 2 ^ 31"

definition TableDistributionFromModel ::
    "('a fw_scheme) \<Rightarrow> distribution_tfsdk option \<Rightarrow> diags + distribution option" where
  "TableDistributionFromModel fw d =
     (case d of
        None \<Rightarrow> Inr None
      | Some x \<Rightarrow>
          if IsNull (dx_Number x) \<or> IsUnknown (dx_Number x) then Inr None
          else (case listOfStrings fw (dx_FuncArgs x) of
                  Inl es \<Rightarrow> Inl es
                | Inr args \<Rightarrow> Inr (Some \<lparr>di_Strategy = ValueString (dx_Strategy x),
                    di_Number = wrap32 (ValueInt64 (dx_Number x)), di_FuncArgs = Some (field_args (slice args))\<rparr>)))"

definition DistributionIsAbsent :: "distribution \<Rightarrow> bool" where
  "DistributionIsAbsent d =
     (equal_fold (di_Strategy d) ''none'' \<or>
      (di_Strategy d = [] \<and> di_Number d = 0 \<and> slice (di_FuncArgs d) = []))"

definition opt_strings :: "string list \<Rightarrow> tf_strings" where
  "opt_strings xs = (if xs = [] then TNull else StringsToList xs)"

definition TableDistributionToModel :: "distribution option \<Rightarrow> distribution_tfsdk option" where
  "TableDistributionToModel d =
     (case d of
        None \<Rightarrow> None
      | Some x \<Rightarrow>
          if DistributionIsAbsent x then None
          else Some \<lparr>dx_Strategy = TKnown (di_Strategy x), dx_Number = TKnown (di_Number x),
                 dx_FuncArgs = opt_strings (fieldPaths (slice (di_FuncArgs x)))\<rparr>)"

fun TablePartitioningFromModel :: "('a fw_scheme) \<Rightarrow> partitioning_tfsdk list \<Rightarrow> diags + partitioning list" where
  "TablePartitioningFromModel fw [] = Inr []"
| "TablePartitioningFromModel fw (p # ps) =
     (case (listOfStrings fw (pp_FieldName p), listOfLists fw (pp_FieldNames p), listOfStrings fw (pp_FuncArgs p)) of
        (Inr f, Inr fs, Inr args) \<Rightarrow>
          map_sum id (\<lambda>xs.
            \<lparr>pt_Strategy = ValueString (pp_Strategy p), pt_FieldName = f, pt_FieldNames = fs,
             pt_NumBuckets = (case pp_NumBuckets p of TKnown n \<Rightarrow> Some n | _ \<Rightarrow> None),
             pt_Width = (case pp_Width p of TKnown n \<Rightarrow> Some n | _ \<Rightarrow> None),
             pt_FuncName = ValueString (pp_FuncName p),
             pt_FuncArgs = (if slice args = [] then None else Some (field_args (slice args)))\<rparr> # xs)
            (TablePartitioningFromModel fw ps)
      | (a, b, c) \<Rightarrow>
          Inl ((case a of Inl es \<Rightarrow> es | _ \<Rightarrow> []) @ (case b of Inl es \<Rightarrow> es | _ \<Rightarrow> []) @ (case c of Inl es \<Rightarrow> es | _ \<Rightarrow> [])))"

definition nestedStringList :: "string list list \<Rightarrow> tf_strings list tfval" where
  "nestedStringList xss = TKnown (map StringsToList xss)"

definition TablePartitioningToModel :: "partitioning list \<Rightarrow> partitioning_tfsdk list" where
  "TablePartitioningToModel ps =
     map (\<lambda>p. \<lparr>pp_Strategy = TKnown (pt_Strategy p), pp_FieldName = opt_strings (slice (pt_FieldName p)),
        pp_FieldNames = (if slice (pt_FieldNames p) = [] then TNull else nestedStringList (slice (pt_FieldNames p))),
        pp_NumBuckets = (case pt_NumBuckets p of None \<Rightarrow> TNull | Some n \<Rightarrow> TKnown n),
        pp_Width = (case pt_Width p of None \<Rightarrow> TNull | Some n \<Rightarrow> TKnown n),
        pp_FuncName = opt_text (pt_FuncName p),
        pp_FuncArgs = opt_strings (fieldPaths (slice (pt_FuncArgs p)))\<rparr>) ps"

fun TableIndexesFromModel :: "('a fw_scheme) \<Rightarrow> index_tfsdk list \<Rightarrow> diags + index list" where
  "TableIndexesFromModel fw [] = Inr []"
| "TableIndexesFromModel fw (i # ixs) =
     (case listOfLists fw (it_FieldNames i) of
        Inl es \<Rightarrow> Inl es
      | Inr fs \<Rightarrow>
          (case TablePropertiesFromModel fw (it_Properties i) of
             Inl es \<Rightarrow> Inl es
           | Inr ps \<Rightarrow>
               map_sum id (\<lambda>xs. \<lparr>ix_IndexType = ValueString (it_IndexType i), ix_Name = ValueString (it_Name i),
                 ix_FieldNames = fs, ix_Properties = ps\<rparr> # xs) (TableIndexesFromModel fw ixs)))"

definition index_to_model :: "index \<Rightarrow> index_tfsdk" where
  "index_to_model i =
     \<lparr>it_IndexType = TKnown (to_lower (ix_IndexType i)), it_Name = opt_text (ix_Name i),
      it_FieldNames = nestedStringList (slice (ix_FieldNames i)),
      it_Properties = (case ix_Properties i of None \<Rightarrow> TNull
                       | Some m \<Rightarrow> if m = [] then TNull else TKnown (known_map m))\<rparr>"

definition TableIndexesToModel :: "index list \<Rightarrow> index_tfsdk list" where
  "TableIndexesToModel ixs = map index_to_model ixs"

text \<open>\<open>ExternalTypeColumnDiagnostics\<close> (models/datatype.go).\<close>

definition ExternalTypeColumnDiagnostics :: "column_tfsdk list \<Rightarrow> string \<Rightarrow> bool \<Rightarrow> diags" where
  "ExternalTypeColumnDiagnostics columns serverVersion supported =
     (let server = (if serverVersion = [] then ''unknown'' else serverVersion) in
      if supported then []
      else concat (map (\<lambda>(i, c).
        case ct_Type c of
          TKnown t \<Rightarrow>
            (case ParseDataType t of
               Inl _ \<Rightarrow> []
             | Inr d \<Rightarrow>
                 if UsesExternalType d
                 then [attribute_error [AtName ''column'', AtListIndex i, AtName ''type'']
                         ''External column type requires Gravitino 1.3.1 or later''
                         (''Column '' @ quote (ValueString (ct_Name c))
                          @ '' uses the external data type, which the connected Gravitino '' @ server
                          @ '' server does not accept. Upgrade the server to 1.3.1 or later, or use a type Gravitino understands.'')]
                 else [])
        | _ \<Rightarrow> []) (enumerate 0 columns)))"

subsection \<open>What Gravitino reports can be written back\<close>

lemma StringsToList_decodes: "fw_decodes fw \<Longrightarrow> listOfStrings fw (StringsToList xs) = Inr (Some xs)"
  by (simp add: fw_decodes_def listOfStrings_def StringsToList_def)

lemma opt_strings_decodes:
  "fw_decodes fw \<Longrightarrow> listOfStrings fw (opt_strings xs) = Inr (if xs = [] then None else Some xs)"
  by (auto simp: opt_strings_def StringsToList_decodes) (simp add: listOfStrings_def)

lemma nested_decodes: "fw_decodes fw \<Longrightarrow> listOfLists fw (nestedStringList xss) = Inr (Some xss)"
proof -
  assume "fw_decodes fw"
  then have "inner_lists fw (map StringsToList xss) = Inr xss"
    by (induction xss) (auto simp: StringsToList_def fw_decodes_def)
  then show ?thesis by (simp add: listOfLists_def nestedStringList_def)
qed

text \<open>A field argument whose path has at least one segment and no dot in a segment.\<close>

definition plain_field :: "expression \<Rightarrow> bool" where
  "plain_field e \<longleftrightarrow> (\<exists>p. e = NewFieldExpression (Some p) \<and> p \<noteq> [] \<and> (\<forall>s \<in> set p. CHR ''.'' \<notin> set s))"

lemma field_args_paths:
  "\<forall>e \<in> set es. plain_field e \<Longrightarrow> field_args (fieldPaths es) = es"
proof (induction es)
  case (Cons e es)
  then obtain p where p: "e = NewFieldExpression (Some p)" "p \<noteq> []" "\<forall>s \<in> set p. CHR ''.'' \<notin> set s"
    by (auto simp: plain_field_def)
  have "pathSegments (join ''.'' p) = p" using p by (simp add: pathSegments_def split_on_join)
  with Cons p show ?case by (simp add: field_args_def fieldPaths_def NewFieldExpression_def)
qed (simp add: field_args_def fieldPaths_def)

text \<open>Only these arguments come back: all others are left out or read as a different path.\<close>

lemma field_args_iff: "field_args (fieldPaths es) = es \<longleftrightarrow> (\<forall>e \<in> set es. plain_field e)"
proof
  assume eq: "field_args (fieldPaths es) = es"
  show "\<forall>e \<in> set es. plain_field e"
  proof
    fix e assume "e \<in> set es"
    then have "e \<in> set (field_args (fieldPaths es))" using eq by simp
    then obtain a where "e = NewFieldExpression (Some (pathSegments a))" by (auto simp: field_args_def)
    moreover have "pathSegments a \<noteq> []" "\<forall>s \<in> set (pathSegments a). CHR ''.'' \<notin> set s"
      using split_on_no_char [of _ "CHR ''.''" a] by (auto simp: pathSegments_def)
    ultimately show "plain_field e" by (auto simp: plain_field_def)
  qed
qed (rule field_args_paths)

definition sort_order_ok :: "sort_order \<Rightarrow> bool" where
  "sort_order_ok s \<longleftrightarrow> (\<exists>p. so_SortTerm s = NewFieldExpression (Some p)) \<and> so_Direction s \<noteq> [] \<and> so_NullOrdering s \<noteq> []"

definition distribution_ok :: "distribution \<Rightarrow> bool" where
  "distribution_ok d \<longleftrightarrow> \<not> DistributionIsAbsent d \<and> - (2 ^ 31) \<le> di_Number d \<and> di_Number d < 2 ^ 31 \<and>
     (\<exists>es. di_FuncArgs d = Some es \<and> (\<forall>e \<in> set es. plain_field e))"

text \<open>An omitted list is reported and decoded as a missing one.\<close>

definition partitioning_ok :: "partitioning \<Rightarrow> bool" where
  "partitioning_ok p \<longleftrightarrow> pt_FieldName p \<noteq> Some [] \<and> pt_FieldNames p \<noteq> Some [] \<and> pt_FuncArgs p \<noteq> Some [] \<and>
     (\<forall>e \<in> set (slice (pt_FuncArgs p)). plain_field e)"

lemma wrap32_id: "- (2 ^ 31) \<le> x \<Longrightarrow> x < 2 ^ 31 \<Longrightarrow> wrap32 x = x"
  by (simp add: wrap32_def)

lemma wrap32_iff: "wrap32 x = x \<longleftrightarrow> - (2 ^ 31) \<le> x \<and> x < 2 ^ 31"
proof
  assume "wrap32 x = x"
  moreover obtain m where "wrap32 x = m - 2 ^ 31" "0 \<le> m" "m < 2 ^ 32"
    by (rule that [of "(x + 2 ^ 31) mod 2 ^ 32"]) (simp_all add: wrap32_def)
  ultimately show "- (2 ^ 31) \<le> x \<and> x < 2 ^ 31" by simp
qed (simp add: wrap32_id)

lemma sort_orders_roundtrip:
  assumes "fw_decodes fw"
  shows "TableSortOrdersFromModel fw (TableSortOrdersToModel os) = Inr os \<longleftrightarrow> (\<forall>s \<in> set os. sort_order_ok s)"
proof (induction os)
  case (Cons s os)
  have head: "TableSortOrdersFromModel fw (TableSortOrdersToModel (s # os)) =
      (let direction = (if so_Direction s = [] then ''asc'' else so_Direction s) in
       map_sum id (\<lambda>xs. \<lparr>so_SortTerm = NewFieldExpression (Some (slice (ex_FieldName (so_SortTerm s)))), so_Direction = direction,
           so_NullOrdering = (if so_NullOrdering s = [] then DefaultNullOrdering direction else so_NullOrdering s)\<rparr> # xs)
         (TableSortOrdersFromModel fw (TableSortOrdersToModel os)))"
    using assms by (simp add: TableSortOrdersToModel_def StringsToList_decodes opt_text_def Let_def)
  have same: "\<lparr>so_SortTerm = NewFieldExpression (Some (slice (ex_FieldName (so_SortTerm s)))), so_Direction = direction,
      so_NullOrdering = (if so_NullOrdering s = [] then DefaultNullOrdering direction else so_NullOrdering s)\<rparr> = s \<longleftrightarrow>
      sort_order_ok s" if "direction = (if so_Direction s = [] then ''asc'' else so_Direction s)" for direction
  proof -
    have "NewFieldExpression (Some (slice (ex_FieldName t))) = t \<longleftrightarrow> (\<exists>p. t = NewFieldExpression (Some p))" for t
      by (auto simp: NewFieldExpression_def intro: sym)
    then show ?thesis using that by (cases s) (auto simp: sort_order_ok_def DefaultNullOrdering_def)
  qed
  show ?case
    using Cons same by (cases "TableSortOrdersFromModel fw (TableSortOrdersToModel os)") (auto simp: head Let_def)
qed (simp add: TableSortOrdersToModel_def)

lemma distribution_roundtrip:
  assumes "fw_decodes fw"
  shows "TableDistributionFromModel fw (TableDistributionToModel (Some d)) = Inr (Some d) \<longleftrightarrow> distribution_ok d"
proof -
  have "slice (if fieldPaths es = [] then None else Some (fieldPaths es)) = fieldPaths es" for es by simp
  then have "TableDistributionFromModel fw (TableDistributionToModel (Some d)) =
      (if DistributionIsAbsent d then Inr None
       else Inr (Some \<lparr>di_Strategy = di_Strategy d, di_Number = wrap32 (di_Number d),
         di_FuncArgs = Some (field_args (fieldPaths (slice (di_FuncArgs d))))\<rparr>))"
    using assms by (simp add: TableDistributionToModel_def TableDistributionFromModel_def opt_strings_decodes)
  then show ?thesis
    using field_args_iff [of "slice (di_FuncArgs d)"]
    by (cases d; cases "di_FuncArgs d") (auto simp: distribution_ok_def wrap32_iff)
qed

lemma partitioning_roundtrip:
  assumes "fw_decodes fw"
  shows "TablePartitioningFromModel fw (TablePartitioningToModel ps) = Inr ps \<longleftrightarrow> (\<forall>p \<in> set ps. partitioning_ok p)"
proof (induction ps)
  case (Cons p ps)
  let ?names = "slice (pt_FieldNames p)" and ?args = "fieldPaths (slice (pt_FuncArgs p))"
  let ?q = "\<lparr>pt_Strategy = pt_Strategy p, pt_FieldName = (if slice (pt_FieldName p) = [] then None else Some (slice (pt_FieldName p))),
      pt_FieldNames = (if ?names = [] then None else Some ?names), pt_NumBuckets = pt_NumBuckets p, pt_Width = pt_Width p,
      pt_FuncName = pt_FuncName p, pt_FuncArgs = (if ?args = [] then None else Some (field_args ?args))\<rparr>"
  have read: "listOfStrings fw (opt_strings (slice (pt_FieldName p))) = Inr (pt_FieldName ?q)"
      "listOfLists fw (if ?names = [] then TNull else nestedStringList ?names) = Inr (pt_FieldNames ?q)"
      "listOfStrings fw (opt_strings ?args) = Inr (if ?args = [] then None else Some ?args)"
    using nested_decodes [OF assms] by (simp_all add: opt_strings_decodes [OF assms] listOfLists_def)
  have again: "slice (if ?args = [] then None else Some ?args) = ?args" by simp
  have n: "(case (case x of None \<Rightarrow> TNull | Some n \<Rightarrow> TKnown n) of TNull \<Rightarrow> None | TUnknown \<Rightarrow> None | TKnown n \<Rightarrow> Some n) = x" for x :: "int option"
    by (cases x) simp_all
  have txt_value: "ValueString (opt_text x) = x" "ValueString (TKnown x) = x" for x by (simp_all add: opt_text_def)
  have tail: "TablePartitioningToModel (p # ps) = hd (TablePartitioningToModel [p]) # TablePartitioningToModel ps"
    by (simp add: TablePartitioningToModel_def)
  have head: "TablePartitioningFromModel fw (TablePartitioningToModel (p # ps)) =
      map_sum id (\<lambda>xs. ?q # xs) (TablePartitioningFromModel fw (TablePartitioningToModel ps))"
    unfolding tail TablePartitioningFromModel.simps
    by (simp only: TablePartitioningToModel_def list.map list.sel partitioning_tfsdk.select_convs read sum.case prod.case again n
        txt_value) simp
  have empty: "fieldPaths [] = []" "field_args xs = [] \<longleftrightarrow> xs = []" for xs by (simp_all add: fieldPaths_def field_args_def)
  have "?q = p \<longleftrightarrow> partitioning_ok p"
    using field_args_iff [of "slice (pt_FuncArgs p)"]
    by (cases p; cases "pt_FieldName p"; cases "pt_FieldNames p"; cases "pt_FuncArgs p")
      (auto simp: partitioning_ok_def empty)
  then show ?case
    using Cons by (cases "TablePartitioningFromModel fw (TablePartitioningToModel ps)") (auto simp: head)
qed (simp add: TablePartitioningToModel_def)

text \<open>C23: The immutable blocks of a table are written back as Gravitino reported them exactly when the Terraform block
  can hold what was reported: a sort order by a field with an explicit direction and null ordering; a distribution
  that is present, has a 32-bit number and field arguments; a partitioning whose lists are not empty and whose arguments
  are fields. A field argument is a path of at least one segment without a dot in a segment. Everything else is
  changed on the way: other arguments are dropped, a segment with a dot is split, an empty list becomes none.\<close>

theorem blocks_roundtrip:
  assumes "fw_decodes fw"
  shows "(TableSortOrdersFromModel fw (TableSortOrdersToModel os) = Inr os \<longleftrightarrow> (\<forall>s \<in> set os. sort_order_ok s)) \<and>
    (TableDistributionFromModel fw (TableDistributionToModel (Some d)) = Inr (Some d) \<longleftrightarrow> distribution_ok d) \<and>
    (TablePartitioningFromModel fw (TablePartitioningToModel ps) = Inr ps \<longleftrightarrow> (\<forall>p \<in> set ps. partitioning_ok p))"
  using sort_orders_roundtrip [OF assms] distribution_roundtrip [OF assms] partitioning_roundtrip [OF assms] by blast

definition bucket_distribution :: distribution where
  "bucket_distribution = \<lparr>di_Strategy = ''hash'', di_Number = 4,
     di_FuncArgs = Some [NewFieldExpression (Some [''address'', ''city''])]\<rparr>"

definition by_day :: sort_order where
  "by_day = \<lparr>so_SortTerm = NewFieldExpression (Some [''day'']), so_Direction = ''desc'', so_NullOrdering = ''nulls_last''\<rparr>"

definition by_city :: "string list \<Rightarrow> partitioning" where
  "by_city path = \<lparr>pt_Strategy = ''function'', pt_FieldName = None, pt_FieldNames = None, pt_NumBuckets = None, pt_Width = None,
     pt_FuncName = ''upper'', pt_FuncArgs = Some [NewFieldExpression (Some path)]\<rparr>"

text \<open>All three blocks come back, and a dot inside a segment does not.\<close>

theorem blocks_roundtrip_witness:
  "TableSortOrdersFromModel strict_fw (TableSortOrdersToModel [by_day]) = Inr [by_day] \<and>
   TableDistributionFromModel strict_fw (TableDistributionToModel (Some bucket_distribution)) = Inr (Some bucket_distribution) \<and>
   TablePartitioningFromModel strict_fw (TablePartitioningToModel [by_city [''address'', ''city'']]) = Inr [by_city [''address'', ''city'']] \<and>
   TablePartitioningFromModel strict_fw (TablePartitioningToModel [by_city [''a.b'']]) \<noteq> Inr [by_city [''a.b'']]"
proof -
  have "\<not> DistributionIsAbsent bucket_distribution" by code_simp
  then have "distribution_ok bucket_distribution" "sort_order_ok by_day"
      "partitioning_ok (by_city [''address'', ''city''])" "\<not> partitioning_ok (by_city [''a.b''])"
    by (auto simp: distribution_ok_def sort_order_ok_def partitioning_ok_def plain_field_def bucket_distribution_def by_day_def
        by_city_def NewFieldExpression_def)
  then show ?thesis
    using blocks_roundtrip [OF strict_fw_decodes, of "[by_day]" bucket_distribution "[by_city [''address'', ''city'']]"]
      blocks_roundtrip [OF strict_fw_decodes, of "[]" bucket_distribution "[by_city [''a.b'']]"] by simp
qed

end
