(* ===== verification/PropertyDiff.thy ===== *)
theory PropertyDiff
  imports Prelude
begin

section \<open>Property bags\<close>

text \<open>
  Tables, metalakes, catalogs and other objects carry a map of string properties, and each
  resource turns the difference between the planned and the current map into update
  requests. The locale \<open>property_diff\<close> is the contract of such a function: which requests it
  produces, for distinct keys, in whatever order. Its lemmas show that a server that
  carries the requests out one after the other ends with the planned properties, that keys the
  provider does not manage are left alone, and that equal maps produce no request.
  \<open>property_server\<close> is what is asked of the server.
\<close>

definition property_server ::
    "(string \<Rightarrow> string \<Rightarrow> 'u) \<Rightarrow> (string \<Rightarrow> 'u) \<Rightarrow> ('s \<Rightarrow> string \<Rightarrow> string option) \<Rightarrow> ('u \<Rightarrow> 's \<Rightarrow> 's) \<Rightarrow> bool" where
  "property_server set_u rem_u view app \<longleftrightarrow>
     (\<forall>k v s. view (app (set_u k v) s) = (view s)(k \<mapsto> v)) \<and>
     (\<forall>k s. view (app (rem_u k) s) = (view s)(k := None))"

locale property_diff =
  fixes diff :: "string gomap \<Rightarrow> string gomap \<Rightarrow> 'u list"
    and set_u :: "string \<Rightarrow> string \<Rightarrow> 'u"
    and rem_u :: "string \<Rightarrow> 'u"
    and reserved :: "string \<Rightarrow> bool"
  assumes members: "wf_map p \<Longrightarrow> wf_map c \<Longrightarrow> u \<in> set (diff p c) \<longleftrightarrow>
      (\<exists>k v. u = set_u k v \<and> \<not> reserved k \<and> map_of p k = Some v \<and> map_of c k \<noteq> Some v) \<or>
      (\<exists>k. u = rem_u k \<and> \<not> reserved k \<and> map_of p k = None \<and> map_of c k \<noteq> None)"
    and set_inject: "set_u k v = set_u k' v' \<longleftrightarrow> k = k' \<and> v = v'"
    and rem_inject: "rem_u k = rem_u k' \<longleftrightarrow> k = k'"
    and set_not_rem: "set_u k v \<noteq> rem_u k'"
begin

definition legal :: "string gomap \<Rightarrow> string gomap \<Rightarrow> 'u \<Rightarrow> bool" where
  "legal p c u \<longleftrightarrow>
      (\<exists>k v. u = set_u k v \<and> \<not> reserved k \<and> map_of p k = Some v \<and> map_of c k \<noteq> Some v) \<or>
      (\<exists>k. u = rem_u k \<and> \<not> reserved k \<and> map_of p k = None \<and> map_of c k \<noteq> None)"

lemma legal_set: "legal p c (set_u k v) \<longleftrightarrow> \<not> reserved k \<and> map_of p k = Some v \<and> map_of c k \<noteq> Some v"
  by (auto simp: legal_def set_inject set_not_rem)

lemma legal_rem: "legal p c (rem_u k) \<longleftrightarrow> \<not> reserved k \<and> map_of p k = None \<and> map_of c k \<noteq> None"
  using set_not_rem by (auto simp: legal_def rem_inject dest: sym)

text \<open>Carrying out any list of legal requests: a key that occurs gets its planned value, any
  other key keeps its value.\<close>

lemma run_legal:
  assumes "property_server set_u rem_u view app" "\<forall>u \<in> set us. legal p c u"
  shows "view (fold app us s) k =
    (if \<exists>u \<in> set us. (\<exists>v. u = set_u k v) \<or> u = rem_u k then map_of p k else view s k)"
  using assms(2)
proof (induction us arbitrary: s)
  case (Cons u us)
  have IH: "view (fold app us t) k =
      (if \<exists>u \<in> set us. (\<exists>v. u = set_u k v) \<or> u = rem_u k then map_of p k else view t k)" for t
    using Cons by simp
  have "legal p c u" using Cons.prems by simp
  then consider k' v where "u = set_u k' v" "map_of p k' = Some v" | k' where "u = rem_u k'" "map_of p k' = None"
    unfolding legal_def by blast
  then have "view (app u s) k = (if (\<exists>v. u = set_u k v) \<or> u = rem_u k then map_of p k else view s k)"
  proof cases
    case 1
    then show ?thesis using assms(1) set_not_rem by (auto simp: property_server_def set_inject)
  next
    case 2
    then show ?thesis using assms(1) set_not_rem
      by (auto simp: property_server_def rem_inject dest: sym)
  qed
  then show ?case by (auto simp: IH)
qed simp

lemma converges:
  assumes "wf_map p" "wf_map c" "property_server set_u rem_u view app"
    and "\<And>k. \<not> reserved k \<Longrightarrow> view s k = map_of c k"
  shows "view (fold app (diff p c) s) k = (if reserved k then view s k else map_of p k)"
proof -
  have mem: "u \<in> set (diff p c) \<longleftrightarrow> legal p c u" for u
    using members [OF assms(1,2)] by (simp add: legal_def)
  have "view (fold app (diff p c) s) k =
      (if \<exists>u \<in> set (diff p c). (\<exists>v. u = set_u k v) \<or> u = rem_u k then map_of p k else view s k)"
    using mem by (intro run_legal [OF assms(3)]) blast
  also have "(\<exists>u \<in> set (diff p c). (\<exists>v. u = set_u k v) \<or> u = rem_u k) \<longleftrightarrow>
      \<not> reserved k \<and> map_of p k \<noteq> map_of c k"
  proof -
    have "(\<exists>u \<in> set (diff p c). (\<exists>v. u = set_u k v) \<or> u = rem_u k) \<longleftrightarrow>
        (\<exists>v. legal p c (set_u k v)) \<or> legal p c (rem_u k)"
      by (metis mem)
    also have "\<dots> \<longleftrightarrow> \<not> reserved k \<and> map_of p k \<noteq> map_of c k"
      unfolding legal_set legal_rem by (cases "map_of p k"; cases "map_of c k") auto
    finally show ?thesis .
  qed
  finally show ?thesis using assms(4) by simp
qed

lemma quiet:
  assumes "wf_map p" "wf_map c" "\<And>k. \<not> reserved k \<Longrightarrow> map_of p k = map_of c k"
  shows "diff p c = []"
proof -
  have "u \<notin> set (diff p c)" for u
    using members [OF assms(1,2), of u] assms(3) by auto
  then show ?thesis by (metis list.set_intros(1) neq_Nil_conv)
qed

end

subsection \<open>Properties in state\<close>

text \<open>The managed keys are those of the configuration: \<open>merge_managed\<close> keeps exactly them and takes
  the server's value for a key the server reports, when it is preferred.\<close>

definition merge_managed :: "bool \<Rightarrow> string gomap \<Rightarrow> string gomap \<Rightarrow> string gomap" where
  "merge_managed preferServer server managed =
     map (\<lambda>(k, v). (k, case map_of server k of Some sv \<Rightarrow> if preferServer then sv else v | None \<Rightarrow> v)) managed"

lemma merge_keys: "keys (merge_managed prefer server m) = keys m"
  by (simp add: merge_managed_def keys_def case_prod_beta comp_def)

lemma merge_apply: "merge_managed False server m = m"
  by (induction m) (auto simp: merge_managed_def split: option.splits)

lemma merge_lookup:
  "map_of (merge_managed True server m) k =
     (if k \<in> set (keys m) then (case map_of server k of Some v \<Rightarrow> Some v | None \<Rightarrow> map_of m k) else None)"
  by (induction m) (auto simp: merge_managed_def split: option.splits)

end
