(* ===== verification/TableResource.thy ===== *)
theory TableResource
  imports TableModel PropertyDiff Version
begin

section \<open>The table resource (resources/table)\<close>

text \<open>
  \<open>ModifyPlan\<close>, the diff into update requests, the refresh from the server and the four CRUD
  handlers of gravitino_table. The handlers run on a client with its detected version
  (\<open>vclient\<close>); the calls of the API are a parameter (\<open>table_api\<close>). Logging is left out.
\<close>

subsection \<open>Reserved properties (reserved.go)\<close>

definition table_reserved :: "string \<Rightarrow> bool" where
  "table_reserved k = (k = ''in-use'')"

definition filterReservedProperties :: "string gomap \<Rightarrow> string gomap" where
  "filterReservedProperties m = filter (\<lambda>(k, _). \<not> table_reserved k) m"

subsection \<open>Planning (plan.go)\<close>

definition string_goval :: "string \<Rightarrow> string \<Rightarrow> 'a tfval \<Rightarrow> (string \<times> string) \<times> goval" where
  "string_goval tag name v = ((tag, name), GAttr (IsUnknown v))"

definition sort_order_goval :: "sort_order_tfsdk \<Rightarrow> goval" where
  "sort_order_goval s = GStruct [string_goval ''field_name'' ''FieldName'' (st_FieldName s),
     string_goval ''direction'' ''Direction'' (st_Direction s),
     string_goval ''null_ordering'' ''NullOrdering'' (st_NullOrdering s)]"

definition distribution_goval :: "distribution_tfsdk option \<Rightarrow> goval" where
  "distribution_goval d = (case d of None \<Rightarrow> GNil | Some x \<Rightarrow>
     GStruct [string_goval ''strategy'' ''Strategy'' (dx_Strategy x),
       string_goval ''number'' ''Number'' (dx_Number x), string_goval ''func_args'' ''FuncArgs'' (dx_FuncArgs x)])"

definition partitioning_goval :: "partitioning_tfsdk \<Rightarrow> goval" where
  "partitioning_goval p = GStruct [string_goval ''strategy'' ''Strategy'' (pp_Strategy p),
     string_goval ''field_name'' ''FieldName'' (pp_FieldName p),
     string_goval ''field_names'' ''FieldNames'' (pp_FieldNames p),
     string_goval ''num_buckets'' ''NumBuckets'' (pp_NumBuckets p),
     string_goval ''width'' ''Width'' (pp_Width p), string_goval ''func_name'' ''FuncName'' (pp_FuncName p),
     string_goval ''func_args'' ''FuncArgs'' (pp_FuncArgs p)]"

definition index_goval :: "index_tfsdk \<Rightarrow> goval" where
  "index_goval i = GStruct [string_goval ''index_type'' ''IndexType'' (it_IndexType i),
     string_goval ''name'' ''Name'' (it_Name i), string_goval ''field_names'' ''FieldNames'' (it_FieldNames i),
     string_goval ''properties'' ''Properties'' (it_Properties i)]"

definition sortOrdersChanged ::
    "('a fw_scheme) \<Rightarrow> sort_order_tfsdk list \<Rightarrow> sort_order_tfsdk list \<Rightarrow> bool" where
  "sortOrdersChanged fw plan state =
     (if \<not> fullyKnown [] (GSlice (map sort_order_goval plan)) then False
      else case (TableSortOrdersFromModel fw plan, TableSortOrdersFromModel fw state) of
             (Inr p, Inr c) \<Rightarrow> p \<noteq> c
           | _ \<Rightarrow> False)"

definition distributionChanged ::
    "('a fw_scheme) \<Rightarrow> distribution_tfsdk option \<Rightarrow> distribution_tfsdk option \<Rightarrow> bool" where
  "distributionChanged fw plan state =
     (if \<not> fullyKnown [] (distribution_goval plan) then False
      else case (TableDistributionFromModel fw plan, TableDistributionFromModel fw state) of
             (Inr p, Inr c) \<Rightarrow> p \<noteq> c
           | _ \<Rightarrow> False)"

definition partitioningChanged ::
    "('a fw_scheme) \<Rightarrow> partitioning_tfsdk list \<Rightarrow> partitioning_tfsdk list \<Rightarrow> bool" where
  "partitioningChanged fw plan state =
     (if \<not> fullyKnown [] (GSlice (map partitioning_goval plan)) then False
      else case (TablePartitioningFromModel fw plan, TablePartitioningFromModel fw state) of
             (Inr p, Inr c) \<Rightarrow> p \<noteq> c
           | _ \<Rightarrow> False)"

text \<open>\<open>reflect.DeepEqual\<close> on two maps and on two indexes.\<close>

definition maps_equal :: "string gomap option \<Rightarrow> string gomap option \<Rightarrow> bool" where
  "maps_equal a b =
     (case (a, b) of
        (None, None) \<Rightarrow> True
      | (Some m, Some n) \<Rightarrow> length m = length n \<and> list_all (\<lambda>(k, v). map_of n k = Some v) m
      | _ \<Rightarrow> False)"

definition index_equal :: "index \<Rightarrow> index \<Rightarrow> bool" where
  "index_equal i j \<longleftrightarrow> ix_IndexType i = ix_IndexType j \<and> ix_Name i = ix_Name j \<and>
     ix_FieldNames i = ix_FieldNames j \<and> maps_equal (ix_Properties i) (ix_Properties j)"

fun adopt_names :: "index_tfsdk list \<Rightarrow> index list \<Rightarrow> index list \<Rightarrow> index list" where
  "adopt_names (p # plan) (i # planned) (c # current) =
     (if IsUnknown (it_Name p) then i\<lparr>ix_Name := ix_Name c\<rparr> else i) # adopt_names plan planned current"
| "adopt_names plan planned current = planned"

definition indexesChanged :: "('a fw_scheme) \<Rightarrow> index_tfsdk list \<Rightarrow> index_tfsdk list \<Rightarrow> bool" where
  "indexesChanged fw plan state =
     (if \<not> fullyKnown [''name''] (GSlice (map index_goval plan)) then False
      else case (TableIndexesFromModel fw plan, TableIndexesFromModel fw state) of
             (Inr p, Inr c) \<Rightarrow> \<not> list_all2 index_equal (adopt_names plan p c) c
           | _ \<Rightarrow> False)"

definition known :: "'a tfval \<Rightarrow> bool" where
  "known v = (\<not> IsNull v \<and> \<not> IsUnknown v)"

definition column_map :: "column_tfsdk list \<Rightarrow> (string \<times> column_tfsdk) list" where
  "column_map cs = fold (\<lambda>c m. put (ValueString (ct_Name c)) c m) cs []"

definition columnsReplaceRequired :: "column_tfsdk list \<Rightarrow> column_tfsdk list \<Rightarrow> bool" where
  "columnsReplaceRequired plan state =
     (if list_ex (\<lambda>c. IsUnknown (ct_Name c)) plan then False
      else let planned = column_map plan in
        if length planned \<noteq> length state then True
        else list_ex (\<lambda>c.
               case map_of planned (ValueString (ct_Name c)) of
                 None \<Rightarrow> True
               | Some d \<Rightarrow> known (ct_DefaultValue c) \<and> \<not> known (ct_DefaultValue d)) state)"

definition immutableBlockChange :: "('a fw_scheme) \<Rightarrow> table_model \<Rightarrow> table_model \<Rightarrow> string" where
  "immutableBlockChange fw plan state =
     (if sortOrdersChanged fw (slice (tm_SortOrders plan)) (slice (tm_SortOrders state)) then ''sort_order''
      else if distributionChanged fw (tm_Distribution plan) (tm_Distribution state) then ''distribution''
      else if partitioningChanged fw (slice (tm_Partitioning plan)) (slice (tm_Partitioning state)) then ''partitioning''
      else if indexesChanged fw (slice (tm_Indexes plan)) (slice (tm_Indexes state)) then ''index''
      else [])"

definition unset_empty :: "string tfval \<Rightarrow> string tfval" where
  "unset_empty c = (if known c \<and> ValueString c = [] then TNull else c)"

text \<open>One column of \<open>canonicalisePlan\<close>, at position \<open>i\<close>.\<close>

definition canonical_column :: "nat \<Rightarrow> column_tfsdk \<Rightarrow> column_tfsdk \<times> diags" where
  "canonical_column i c =
     (let c1 = c\<lparr>ct_Comment := unset_empty (ct_Comment c)\<rparr> in
      if \<not> known (ct_Type c1) then (c1, [])
      else case ParseDataType (ValueString (ct_Type c1)) of
             Inl err \<Rightarrow>
               (c1, [attribute_error [AtName ''column'', AtListIndex i, AtName ''type''] ''Invalid column type'' (err_text err)])
           | Inr d \<Rightarrow> (c1\<lparr>ct_Type := TKnown (DataType_String d)\<rparr>, []))"

definition canonical_columns :: "column_tfsdk list \<Rightarrow> column_tfsdk list \<times> diags" where
  "canonical_columns cs =
     (let rs = map (\<lambda>(i, c). canonical_column i c) (enumerate 0 cs) in (map fst rs, concat (map snd rs)))"

definition canonicalisePlan :: "table_model \<Rightarrow> table_model \<times> diags" where
  "canonicalisePlan plan =
     (let (cs, ds) = canonical_columns (slice (tm_Columns plan))
      in (plan\<lparr>tm_Comment := unset_empty (tm_Comment plan), tm_Columns := map_option (\<lambda>_. cs) (tm_Columns plan)\<rparr>, ds))"

record plan_response =
  pr_Plan :: "table_tf option"
  pr_RequiresReplace :: "string list"
  pr_Diagnostics :: diags

definition ModifyPlan :: "('a table_fw_scheme) \<Rightarrow> table_tf option \<Rightarrow> table_tf option \<Rightarrow> plan_response" where
  "ModifyPlan fw req_plan req_state =
     (case req_plan of
        None \<Rightarrow> \<lparr>pr_Plan = None, pr_RequiresReplace = [], pr_Diagnostics = []\<rparr>
      | Some tfPlan \<Rightarrow>
          let (plan, ds1) = TableResourceModelFromTF fw tfPlan [];
              (state, ds2) = (case req_state of
                 None \<Rightarrow> (\<lparr>tm_Metalake = TNull, tm_Catalog = TNull, tm_Schema = TNull, tm_Name = TNull,
                    tm_Comment = TNull, tm_Properties = TNull, tm_ID = TNull, tm_Audit = TNull, tm_Columns = None,
                    tm_SortOrders = None, tm_Distribution = None, tm_Partitioning = None, tm_Indexes = None\<rparr>, ds1)
               | Some tfState \<Rightarrow> TableResourceModelFromTF fw tfState ds1)
          in if HasError ds2 then \<lparr>pr_Plan = Some tfPlan, pr_RequiresReplace = [], pr_Diagnostics = ds2\<rparr>
          else let (plan1, ds3) = canonicalisePlan plan in
            if HasError ds3 then \<lparr>pr_Plan = Some tfPlan, pr_RequiresReplace = [], pr_Diagnostics = ds2 @ ds3\<rparr>
            else
              let tfPlan1 = tfPlan\<lparr>tt_Comment := tm_Comment plan1\<rparr>;
                  tfPlan2 = (if known (tt_Columns tfPlan) then tfPlan1\<lparr>tt_Columns := blocks_to (tm_Columns plan1)\<rparr> else tfPlan1);
                  blocks = (\<not> IsUnknown (tt_SortOrders tfPlan2) \<and>
                       sortOrdersChanged fw (slice (tm_SortOrders plan1)) (slice (tm_SortOrders state)))
                   \<or> (\<not> IsUnknown (tt_Distribution tfPlan2) \<and>
                       distributionChanged fw (tm_Distribution plan1) (tm_Distribution state))
                   \<or> (\<not> IsUnknown (tt_Partitioning tfPlan2) \<and>
                       partitioningChanged fw (slice (tm_Partitioning plan1)) (slice (tm_Partitioning state)))
                   \<or> (\<not> IsUnknown (tt_Indexes tfPlan2) \<and>
                       indexesChanged fw (slice (tm_Indexes plan1)) (slice (tm_Indexes state)));
                  cols = \<not> IsUnknown (tt_Columns tfPlan2) \<and>
                    columnsReplaceRequired (slice (tm_Columns plan1)) (slice (tm_Columns state))
              in \<lparr>pr_Plan = Some tfPlan2,
                  pr_RequiresReplace = (if req_state = None then []
                     else (if blocks then [''sort_order'', ''distribution'', ''partitioning'', ''index''] else [])
                          @ (if cols then [''column''] else [])),
                  pr_Diagnostics = ds2 @ ds3\<rparr>)"

subsection \<open>Updates (updates.go)\<close>

definition buildCreateRequest :: "('a table_fw_scheme) \<Rightarrow> table_model \<Rightarrow> diags + table_create_request" where
  "buildCreateRequest fw plan =
     (let props = TablePropertiesFromModel fw (tm_Properties plan);
          (cols, col_ds) = TableColumnsFromModel (slice (tm_Columns plan));
          orders = TableSortOrdersFromModel fw (slice (tm_SortOrders plan));
          dist = TableDistributionFromModel fw (tm_Distribution plan);
          parts = TablePartitioningFromModel fw (slice (tm_Partitioning plan));
          ixs = TableIndexesFromModel fw (slice (tm_Indexes plan))
      in case (props, orders, dist, parts, ixs) of
           (Inr ps, Inr os, Inr d, Inr pt, Inr xs) \<Rightarrow>
             if col_ds \<noteq> [] then Inl col_ds
             else Inr \<lparr>tcr_Name = ValueString (tm_Name plan), tcr_Columns = cols,
                    tcr_Comment = ValueString (tm_Comment plan),
                    tcr_Properties = filterReservedProperties (slice ps), tcr_SortOrders = os,
                    tcr_Distribution = d, tcr_Partitioning = pt, tcr_Indexes = xs\<rparr>
         | (a, b, c, e, f) \<Rightarrow>
             Inl ((case a of Inl es \<Rightarrow> es | _ \<Rightarrow> []) @ col_ds @ (case b of Inl es \<Rightarrow> es | _ \<Rightarrow> [])
                  @ (case c of Inl es \<Rightarrow> es | _ \<Rightarrow> []) @ (case e of Inl es \<Rightarrow> es | _ \<Rightarrow> []) @ (case f of Inl es \<Rightarrow> es | _ \<Rightarrow> [])))"

definition property_requests :: "string gomap \<Rightarrow> string gomap \<Rightarrow> table_update list" where
  "property_requests planned current =
     map (\<lambda>(k, v). NewSetTablePropertyRequest k v)
       (filter (\<lambda>(k, v). \<not> table_reserved k \<and> map_of current k \<noteq> Some v) planned)
     @ map (\<lambda>(k, v). NewRemoveTablePropertyRequest k)
       (filter (\<lambda>(k, v). \<not> table_reserved k \<and> map_of planned k = None) current)"

definition sorted_property_requests :: "string gomap \<Rightarrow> string gomap \<Rightarrow> table_update list" where
  "sorted_property_requests planned current =
     sort_key (\<lambda>u. (update_Property u, update_Type u)) (property_requests planned current)"

definition tablePropertyUpdates :: "('a fw_scheme) \<Rightarrow> tf_map \<Rightarrow> tf_map \<Rightarrow> diags + table_update list" where
  "tablePropertyUpdates fw plan state =
     (case (TablePropertiesFromModel fw plan, TablePropertiesFromModel fw state) of
        (Inr p, Inr c) \<Rightarrow> Inr (sorted_property_requests (slice p) (slice c))
      | (a, b) \<Rightarrow> Inl ((case a of Inl es \<Rightarrow> es | _ \<Rightarrow> []) @ (case b of Inl es \<Rightarrow> es | _ \<Rightarrow> [])))"

fun position_requests :: "string option \<Rightarrow> string list \<Rightarrow> table_update list" where
  "position_requests prev [] = []"
| "position_requests prev (n # ns) =
     NewUpdateTableColumnPositionRequest [n] (case prev of None \<Rightarrow> CPFirst | Some p \<Rightarrow> CPAfter p)
     # position_requests (Some n) ns"

definition column_names :: "column_tfsdk list \<Rightarrow> string list" where
  "column_names cs = map (\<lambda>c. ValueString (ct_Name c)) cs"

definition tableColumnPositionUpdates :: "column_tfsdk list \<Rightarrow> column_tfsdk list \<Rightarrow> table_update list" where
  "tableColumnPositionUpdates plan state =
     (if column_names state = column_names plan then [] else position_requests None (column_names plan))"

text \<open>The updates of one column that keeps its name.\<close>

definition one_column_updates :: "string \<Rightarrow> column_tfsdk \<Rightarrow> column_tfsdk \<Rightarrow> data_type \<Rightarrow> data_type \<Rightarrow> table_update list" where
  "one_column_updates name desired current desiredType currentType =
     (if DataType_String desiredType \<noteq> DataType_String currentType
        then [NewUpdateTableColumnTypeRequest [name] desiredType] else [])
     @ (if ct_Comment desired \<noteq> ct_Comment current
        then [NewUpdateTableColumnCommentRequest [name] (ValueString (ct_Comment desired))] else [])
     @ (if ct_Nullable desired \<noteq> ct_Nullable current
        then [NewUpdateTableColumnNullabilityRequest [name] (ValueBool (ct_Nullable desired))] else [])
     @ (if ct_DefaultValue desired \<noteq> ct_DefaultValue current
        then [NewUpdateTableColumnDefaultValueRequest [name] (ColumnDefaultValue desired desiredType)] else [])"

definition column_type_error :: "gerror \<Rightarrow> diags" where
  "column_type_error err = [attribute_error [AtName ''column''] ''Invalid column type'' (err_text err)]"

fun kept_column_updates ::
    "(string \<times> column_tfsdk) list \<Rightarrow> column_tfsdk list \<Rightarrow> diags + table_update list" where
  "kept_column_updates planned [] = Inr []"
| "kept_column_updates planned (c # cs) =
     (let name = ValueString (ct_Name c) in
      case map_of planned name of
        None \<Rightarrow> kept_column_updates planned cs
      | Some d \<Rightarrow>
          (case ParseDataType (ValueString (ct_Type d)) of
             Inl err \<Rightarrow> Inl (column_type_error err)
           | Inr dt \<Rightarrow>
               (case ParseDataType (ValueString (ct_Type c)) of
                  Inl err \<Rightarrow> Inl (column_type_error err)
                | Inr tc \<Rightarrow>
                    map_sum id (\<lambda>us. one_column_updates name d c dt tc @ us) (kept_column_updates planned cs))))"

definition tableColumnUpdates :: "column_tfsdk list \<Rightarrow> column_tfsdk list \<Rightarrow> diags + table_update list" where
  "tableColumnUpdates plan state =
     map_sum id (\<lambda>us. us @ tableColumnPositionUpdates plan state)
       (kept_column_updates (column_map plan) state)"

subsection \<open>Refreshing the state (state.go)\<close>

definition mergeTableProperties ::
    "('a fw_scheme) \<Rightarrow> string gomap \<Rightarrow> tf_map \<Rightarrow> bool \<Rightarrow> diags + tf_map" where
  "mergeTableProperties fw serverProperties desired preferServer =
     (let filtered = filterReservedProperties serverProperties in
      case desired of
        TKnown m \<Rightarrow>
          (case fw_map fw m of
             Inl es \<Rightarrow> Inl es
           | Inr managed \<Rightarrow>
               if managed = [] then Inr desired
               else Inr (TKnown (known_map (merge_managed preferServer filtered managed))))
      | _ \<Rightarrow> Inr (if filtered = [] then TNull else TKnown (known_map filtered)))"

definition mergeIndexProperties ::
    "('a fw_scheme) \<Rightarrow> string gomap option \<Rightarrow> tf_map \<Rightarrow> bool \<Rightarrow> diags + tf_map" where
  "mergeIndexProperties fw serverProperties desired preferServer =
     (case desired of
        TKnown m \<Rightarrow>
          (case fw_map fw m of
             Inl es \<Rightarrow> Inl es
           | Inr managed \<Rightarrow>
               if managed = [] then Inr desired
               else Inr (TKnown (known_map (merge_managed preferServer (slice serverProperties) managed))))
      | _ \<Rightarrow> Inr TNull)"

fun merge_index_list ::
    "('a fw_scheme) \<Rightarrow> bool \<Rightarrow> (index \<times> index_tfsdk) list \<Rightarrow> diags + index_tfsdk list" where
  "merge_index_list fw preferServer [] = Inr []"
| "merge_index_list fw preferServer ((i, d) # ps) =
     (case mergeIndexProperties fw (ix_Properties i) (it_Properties d) preferServer of
        Inl es \<Rightarrow> Inl es
      | Inr m \<Rightarrow> map_sum id (\<lambda>xs. (index_to_model i)\<lparr>it_Properties := m\<rparr> # xs) (merge_index_list fw preferServer ps))"

definition mergeTableIndexes ::
    "('a fw_scheme) \<Rightarrow> index list \<Rightarrow> index_tfsdk list \<Rightarrow> bool \<Rightarrow> diags + index_tfsdk list" where
  "mergeTableIndexes fw server desired preferServer =
     (if length server \<noteq> length desired then Inr (TableIndexesToModel server)
      else merge_index_list fw preferServer (zip server desired))"

definition tableID :: "string \<Rightarrow> string \<Rightarrow> string \<Rightarrow> string \<Rightarrow> string" where
  "tableID metalake catalog schema name = metalake @ ''.'' @ catalog @ ''.'' @ schema @ ''.'' @ name"

definition tableStateFromServer ::
    "('a fw_scheme) \<Rightarrow> table \<Rightarrow> table_model \<Rightarrow> bool \<Rightarrow> diags + table_model" where
  "tableStateFromServer fw t state preferServer =
     (case mergeTableProperties fw (tb_Properties t) (tm_Properties state) preferServer of
        Inl es \<Rightarrow> Inl es
      | Inr props \<Rightarrow>
          (case mergeTableIndexes fw (tb_Indexes t) (slice (tm_Indexes state)) preferServer of
             Inl es \<Rightarrow> Inl es
           | Inr ixs \<Rightarrow>
               Inr (state\<lparr>tm_Name := TKnown (tb_Name t), tm_Comment := opt_text (tb_Comment t),
                 tm_Audit := AuditToObjectValue (tb_Audit t), tm_Properties := props,
                 tm_Columns := Some (TableColumnsToModel (tb_Columns t)),
                 tm_SortOrders := Some (TableSortOrdersToModel (tb_SortOrders t)),
                 tm_Distribution := TableDistributionToModel (tb_Distribution t),
                 tm_Partitioning := Some (TablePartitioningToModel (tb_Partitioning t)),
                 tm_Indexes := Some ixs,
                 tm_ID := TKnown (tableID (ValueString (tm_Metalake state)) (ValueString (tm_Catalog state))
                            (ValueString (tm_Schema state)) (tb_Name t))\<rparr>)))"

subsection \<open>The handlers (resource.go)\<close>

record 'w table_api =
  ta_create :: "string \<Rightarrow> string \<Rightarrow> string \<Rightarrow> table_create_request \<Rightarrow> 'w \<Rightarrow> (gerror + table) \<times> 'w"
  ta_get :: "string \<Rightarrow> string \<Rightarrow> string \<Rightarrow> string \<Rightarrow> 'w \<Rightarrow> (gerror + table) \<times> 'w"
  ta_update :: "string \<Rightarrow> string \<Rightarrow> string \<Rightarrow> string \<Rightarrow> table_update list \<Rightarrow> 'w \<Rightarrow> (gerror + table) \<times> 'w"
  ta_drop :: "string \<Rightarrow> string \<Rightarrow> string \<Rightarrow> string \<Rightarrow> 'w \<Rightarrow> (gerror + bool) \<times> 'w"
  ta_probe :: "'w probe"

text \<open>A call on the world of the client.\<close>

definition on_world :: "('w \<Rightarrow> 'r \<times> 'w) \<Rightarrow> 'w vclient \<Rightarrow> 'r \<times> 'w vclient" where
  "on_world f c = (case f (vc_world c) of (r, w) \<Rightarrow> (r, c\<lparr>vc_world := w\<rparr>))"

lemma on_world_eq: "on_world f c = (a, c') \<longleftrightarrow> (\<exists>w. f (vc_world c) = (a, w) \<and> c' = c\<lparr>vc_world := w\<rparr>)"
  by (auto simp: on_world_def case_prod_beta prod_eq_iff)

definition from_tf :: "('a table_fw_scheme) \<Rightarrow> table_tf \<Rightarrow> diags + table_model" where
  "from_tf fw t = (case TableResourceModelFromTF fw t [] of (m, ds) \<Rightarrow> if HasError ds then Inl ds else Inr m)"

definition CheckExternalTypesSupported :: "column_tfsdk list \<Rightarrow> (unit, 'w vclient) step" where
  "CheckExternalTypesSupported columns c =
     (let ds = ExternalTypeColumnDiagnostics columns (ServerVersion c) (SupportsExternalType c)
      in (if HasError ds then Inl ds else Inr (), c))"

definition check_indexes :: "'w probe \<Rightarrow> index list \<Rightarrow> (unit, 'w vclient) step" where
  "check_indexes probe ixs c =
     (case CheckIndexesSupported probe (map (\<lambda>i. (ix_IndexType i, slice (ix_Properties i))) ixs) c of
        (Some err, c') \<Rightarrow> (Inl [attribute_error [AtName ''index''] ''Unsupported index'' (err_text err)], c')
      | (None, c') \<Rightarrow> (Inr (), c'))"

definition table_Create ::
    "('a table_fw_scheme) \<Rightarrow> 'w table_api \<Rightarrow> table_tf \<Rightarrow> (table_tf state_write, 'w vclient) step" where
  "table_Create fw api tfPlan =
     andThen (pure_step (from_tf fw tfPlan)) (\<lambda>plan.
     andThen (CheckExternalTypesSupported (slice (tm_Columns plan))) (\<lambda>_.
     andThen (pure_step (buildCreateRequest fw plan)) (\<lambda>req.
     andThen (check_indexes (ta_probe api) (tcr_Indexes req)) (\<lambda>_.
     andThen (calling (on_world (ta_create api (ValueString (tm_Metalake plan)) (ValueString (tm_Catalog plan))
                (ValueString (tm_Schema plan)) req))
              (NewResourceError ''creating table'' (ValueString (tm_Name plan)))) (\<lambda>t.
     andThen (pure_step (tableStateFromServer fw t plan False)) (\<lambda>created.
     done_with (Save (TableResourceModelToTF created))))))))"

definition table_Read ::
    "('a table_fw_scheme) \<Rightarrow> 'w table_api \<Rightarrow> table_tf \<Rightarrow> (table_tf state_write, 'w vclient) step" where
  "table_Read fw api tfState =
     andThen (pure_step (from_tf fw tfState)) (\<lambda>state c.
       case on_world (ta_get api (ValueString (tm_Metalake state)) (ValueString (tm_Catalog state))
                (ValueString (tm_Schema state)) (ValueString (tm_Name state))) c of
         (Inl err, c') \<Rightarrow>
           if IsNotFoundError err then (Inr Remove, c')
           else (Inl (NewResourceError ''reading table'' (ValueString (tm_Name state)) err), c')
       | (Inr t, c') \<Rightarrow>
           andThen (pure_step (tableStateFromServer fw t state True)) (\<lambda>refreshed.
             done_with (Save (TableResourceModelToTF refreshed))) c')"

definition immutable_error :: "string \<Rightarrow> diags" where
  "immutable_error changed = [error_diag (changed @ '' cannot be updated in place'')
     (''Gravitino v1.3.0 defines no update request for '' @ changed @ '' of an existing table, so changing it forces a ''
      @ ''new table. The change could not be detected while planning because the configured value was not known ''
      @ ''yet; make the value known in the plan or drop the table explicitly.'')]"

definition column_replace_error :: diags where
  "column_replace_error = [error_diag ''column cannot be updated in place''
     (''The set of column names changed, or a column default value was removed. Gravitino cannot tell a renamed ''
      @ ''column from a deleted and added one, and it cannot clear a column default value, so such a change ''
      @ ''forces a new table. The change could not be detected while planning because the configured value was ''
      @ ''not known yet.'')]"

definition table_updates ::
    "('a fw_scheme) \<Rightarrow> table_model \<Rightarrow> table_model \<Rightarrow> diags + table_update list" where
  "table_updates fw plan state =
     (let head = (if tm_Name plan \<noteq> tm_Name state then [NewRenameTableRequest (ValueString (tm_Name plan))] else [])
            @ (if tm_Comment plan \<noteq> tm_Comment state then [NewUpdateTableCommentRequest (ValueString (tm_Comment plan))] else [])
      in case (if IsUnknown (tm_Properties plan) then Inr []
               else tablePropertyUpdates fw (tm_Properties plan) (tm_Properties state)) of
           Inl es \<Rightarrow> Inl es
         | Inr props \<Rightarrow>
             map_sum id (\<lambda>cols. head @ props @ cols)
               (tableColumnUpdates (slice (tm_Columns plan)) (slice (tm_Columns state))))"

definition put_updates ::
    "'w table_api \<Rightarrow> table_model \<Rightarrow> table_update list \<Rightarrow> (unit, 'w vclient) step" where
  "put_updates api state updates =
     (if updates = [] then done_with ()
      else andThen (calling (on_world (ta_update api (ValueString (tm_Metalake state)) (ValueString (tm_Catalog state))
                     (ValueString (tm_Schema state)) (ValueString (tm_Name state)) updates))
             (NewResourceError ''updating table'' (ValueString (tm_Name state)))) (\<lambda>_. done_with ()))"

definition table_Update ::
    "('a table_fw_scheme) \<Rightarrow> 'w table_api \<Rightarrow> table_tf \<Rightarrow> table_tf \<Rightarrow> (table_tf state_write, 'w vclient) step" where
  "table_Update fw api tfPlan tfState =
     andThen (pure_step (from_tf fw tfPlan)) (\<lambda>plan.
     andThen (pure_step (from_tf fw tfState)) (\<lambda>state.
     andThen (CheckExternalTypesSupported (slice (tm_Columns plan))) (\<lambda>_.
     andThen (stop_if (immutableBlockChange fw plan state \<noteq> []) (immutable_error (immutableBlockChange fw plan state))) (\<lambda>_.
     andThen (stop_if (columnsReplaceRequired (slice (tm_Columns plan)) (slice (tm_Columns state))) column_replace_error) (\<lambda>_.
     andThen (pure_step (table_updates fw plan state)) (\<lambda>updates.
     andThen (put_updates api state updates) (\<lambda>_.
     andThen (calling (on_world (ta_get api (ValueString (tm_Metalake plan)) (ValueString (tm_Catalog plan))
                (ValueString (tm_Schema plan)) (ValueString (tm_Name plan))))
              (NewResourceError ''reading table after update'' (ValueString (tm_Name state)))) (\<lambda>t.
     andThen (pure_step (tableStateFromServer fw t plan False)) (\<lambda>updated.
     done_with (Save (TableResourceModelToTF updated)))))))))))"

definition table_Delete ::
    "('a table_fw_scheme) \<Rightarrow> 'w table_api \<Rightarrow> table_tf \<Rightarrow> (table_tf state_write, 'w vclient) step" where
  "table_Delete fw api tfState =
     andThen (pure_step (from_tf fw tfState)) (\<lambda>state c.
       case on_world (ta_drop api (ValueString (tm_Metalake state)) (ValueString (tm_Catalog state))
                (ValueString (tm_Schema state)) (ValueString (tm_Name state))) c of
         (Inl err, c') \<Rightarrow>
           if IsNotFoundError err then (Inr Remove, c')
           else (Inl (NewResourceError ''dropping table'' (ValueString (tm_Name state)) err), c')
       | (Inr _, c') \<Rightarrow> (Inr Remove, c'))"

definition table_ImportState :: "string \<Rightarrow> diagnostic + (string \<times> string) list" where
  "table_ImportState reqID =
     (case SplitImportID 4 ''metalake.catalog.schema.table'' reqID of
        Inl d \<Rightarrow> Inl d
      | Inr parts \<Rightarrow> Inr [(''metalake'', parts ! 0), (''catalog'', parts ! 1), (''schema'', parts ! 2),
                         (''name'', parts ! 3), (''id'', reqID)])"

subsection \<open>The property diff meets its contract\<close>

lemma property_requests_members:
  assumes "wf_map p" "wf_map c"
  shows "u \<in> set (property_requests p c) \<longleftrightarrow>
      (\<exists>k v. u = NewSetTablePropertyRequest k v \<and> \<not> table_reserved k \<and> map_of p k = Some v \<and> map_of c k \<noteq> Some v) \<or>
      (\<exists>k. u = NewRemoveTablePropertyRequest k \<and> \<not> table_reserved k \<and> map_of p k = None \<and> map_of c k \<noteq> None)"
proof -
  have "(k, v) \<in> set m \<longleftrightarrow> map_of m k = Some v" if "wf_map m" for k v and m :: "string gomap"
    using that by (simp add: wf_map_def keys_def)
  then show ?thesis using assms by (auto simp: property_requests_def)
qed

interpretation table_props: property_diff sorted_property_requests NewSetTablePropertyRequest
    NewRemoveTablePropertyRequest table_reserved
  by unfold_locales (auto simp: sorted_property_requests_def property_requests_members)

lemma property_requests_inj:
  assumes "wf_map p" "wf_map c"
  shows "inj_on (\<lambda>u. (update_Property u, update_Type u)) (set (property_requests p c))"
proof (rule inj_onI)
  fix u w assume "u \<in> set (property_requests p c)" "w \<in> set (property_requests p c)"
    and "(update_Property u, update_Type u) = (update_Property w, update_Type w)"
  then show "u = w"
    unfolding property_requests_members [OF assms] by (auto simp: update_Property_def update_Type_def)
qed

lemma property_requests_mset:
  assumes "mset p = mset p'" "mset c = mset c'" "wf_map p" "wf_map c"
  shows "mset (property_requests p c) = mset (property_requests p' c')"
  using assms(1,2) map_of_mset [OF assms(1,3)] map_of_mset [OF assms(2,4)]
  by (simp add: property_requests_def mset_filter)

lemma sorted_property_requests_mset:
  assumes "mset p = mset p'" "mset c = mset c'" "wf_map p" "wf_map c"
  shows "sorted_property_requests p c = sorted_property_requests p' c'"
  unfolding sorted_property_requests_def
  by (rule sort_key_inj_key_eq) (simp_all add: property_requests_mset [OF assms] property_requests_inj [OF assms(3,4)])

subsection \<open>Column positions\<close>

text \<open>What the code relies on: the server applies a position request by taking the column out and
  putting it first, or directly after the named one.\<close>

definition moves_columns :: "(string \<Rightarrow> column_position \<Rightarrow> string list \<Rightarrow> string list) \<Rightarrow> bool" where
  "moves_columns mv \<longleftrightarrow>
     (\<forall>n cs. n \<in> set cs \<longrightarrow> distinct cs \<longrightarrow> mv n CPFirst cs = n # removeAll n cs) \<and>
     (\<forall>n p xs ys. distinct (xs @ p # ys) \<longrightarrow> n \<in> set ys \<longrightarrow>
        mv n (CPAfter p) (xs @ p # ys) = xs @ p # n # removeAll n ys)"

definition run_position :: "(string \<Rightarrow> column_position \<Rightarrow> string list \<Rightarrow> string list) \<Rightarrow> table_update \<Rightarrow> string list \<Rightarrow> string list" where
  "run_position mv u cs =
     (case u of NewUpdateTableColumnPositionRequest [n] p \<Rightarrow> mv n p cs | _ \<Rightarrow> cs)"

lemma run_positions:
  assumes "moves_columns mv" "distinct (done @ todo @ rest)" "distinct cs" "set todo = set (drop (length done) cs)"
    and "take (length done) cs = done" "length done \<le> length cs"
  shows "fold (run_position mv) (position_requests (if done = [] then None else Some (last done)) todo) cs = done @ todo"
  using assms
proof (induction todo arbitrary: "done" cs)
  case Nil
  then show ?case by (metis append_take_drop_id fold_simps(1) position_requests.simps(1) set_empty append_Nil2 list.set(1))
next
  case (Cons n todo)
  define ys where "ys = drop (length done) cs"
  have cs: "cs = done @ ys" using Cons.prems(5) by (metis append_take_drop_id ys_def)
  have n: "n \<in> set ys" using Cons.prems(4) by (auto simp: ys_def)
  have dist: "distinct (done @ ys)" using Cons.prems(3) cs by simp
  let ?pos = "if done = [] then CPFirst else CPAfter (last done)"
  have step: "mv n ?pos cs = done @ n # removeAll n ys"
  proof (cases "done = []")
    case True
    then show ?thesis using Cons.prems(1) n dist cs by (simp add: moves_columns_def)
  next
    case False
    then have "cs = butlast done @ last done # ys" using cs by simp
    moreover have "distinct (butlast done @ last done # ys)" using calculation Cons.prems(3) by simp
    ultimately have "mv n (CPAfter (last done)) cs = butlast done @ last done # n # removeAll n ys"
      using Cons.prems(1) n unfolding moves_columns_def by blast
    then show ?thesis using False by simp
  qed
  have "distinct (done @ [n] @ removeAll n ys)"
    using dist n by (auto simp: distinct_removeAll)
  moreover have "set todo = set (removeAll n ys)"
    using Cons.prems(2,4) by (auto simp: ys_def)
  ultimately have "fold (run_position mv) (position_requests (Some n) todo) (done @ n # removeAll n ys)
      = (done @ [n]) @ todo"
    using Cons.IH [of "done @ [n]" "done @ n # removeAll n ys"] Cons.prems(1,2) by simp
  moreover have "position_requests (if done = [] then None else Some (last done)) (n # todo)
      = NewUpdateTableColumnPositionRequest [n] ?pos # position_requests (Some n) todo"
    by simp
  moreover have "run_position mv (NewUpdateTableColumnPositionRequest [n] ?pos) cs = done @ n # removeAll n ys"
    by (simp add: run_position_def step)
  ultimately show ?case by simp
qed

text \<open>A concrete mover.\<close>

definition move_column :: "string \<Rightarrow> column_position \<Rightarrow> string list \<Rightarrow> string list" where
  "move_column n p cs =
     (let rest = removeAll n cs in
      case p of
        CPFirst \<Rightarrow> n # rest
      | CPAfter q \<Rightarrow> takeWhile (\<lambda>x. x \<noteq> q) rest @ q # n # tl (dropWhile (\<lambda>x. x \<noteq> q) rest)
      | CPDefault \<Rightarrow> rest @ [n])"

lemma move_column_moves: "moves_columns move_column"
proof -
  have "move_column n (CPAfter p) (xs @ p # ys) = xs @ p # n # removeAll n ys"
    if "distinct (xs @ p # ys)" "n \<in> set ys" for n p xs ys
  proof -
    have "removeAll n (xs @ p # ys) = xs @ p # removeAll n ys"
      using that by (auto intro!: removeAll_id)
    moreover have "takeWhile (\<lambda>x. x \<noteq> p) (xs @ p # zs) = xs \<and> dropWhile (\<lambda>x. x \<noteq> p) (xs @ p # zs) = p # zs" for zs
    proof -
      have "\<And>x. x \<in> set xs \<Longrightarrow> x \<noteq> p" using that(1) by auto
      then show ?thesis by (simp add: takeWhile_append2 dropWhile_append2)
    qed
    ultimately show ?thesis by (simp add: move_column_def)
  qed
  then show ?thesis by (auto simp: moves_columns_def move_column_def)
qed

lemma column_names_simps [simp]: "column_names [] = []" "column_names (c # cs) = ValueString (ct_Name c) # column_names cs"
  by (simp_all add: column_names_def)

subsection \<open>Matching columns by name\<close>

lemma column_map_distinct:
  assumes "distinct (column_names cs)"
  shows "column_map cs = map (\<lambda>c. (ValueString (ct_Name c), c)) cs"
  using fold_put_distinct [of "\<lambda>c. ValueString (ct_Name c)" cs "[]"] assms
  by (simp add: column_map_def column_names_def)

lemma column_map_of:
  assumes "distinct (column_names cs)"
  shows "map_of (column_map cs) n = Some c \<longleftrightarrow> c \<in> set cs \<and> ValueString (ct_Name c) = n"
proof -
  have "distinct (map fst (column_map cs))"
    using assms by (simp add: column_map_distinct column_names_def comp_def)
  then show ?thesis by (auto simp: column_map_distinct [OF assms])
qed

lemma column_map_none:
  "distinct (column_names cs) \<Longrightarrow> map_of (column_map cs) n = None \<longleftrightarrow> n \<notin> set (column_names cs)"
  by (simp add: column_map_distinct map_of_eq_None_iff column_names_def image_image)

lemma length_column_names [simp]: "length (column_names cs) = length cs"
  by (simp add: column_names_def)

subsection \<open>Properties\<close>

text \<open>The property updates of a table converge: carried out one after the other by a server
  that sets and removes properties as the requests say, they turn the current properties into
  the planned ones; the reserved in-use property is never touched; and the list does not
  depend on the order in which Go iterates over the two maps.\<close>

theorem table_property_updates_converge:
  assumes "wf_map p" "wf_map c"
    and "property_server NewSetTablePropertyRequest NewRemoveTablePropertyRequest view app"
    and "\<And>k. \<not> table_reserved k \<Longrightarrow> view s k = map_of c k"
    and "mset p = mset p'" "mset c = mset c'"
  shows "view (fold app (sorted_property_requests p c) s) k = (if table_reserved k then view s k else map_of p k)
    \<and> sorted_property_requests p' c' = sorted_property_requests p c"
  using table_props.converges [OF assms(1-4)] sorted_property_requests_mset [OF assms(5,6,1,2)] by simp

text \<open>A server that keeps the properties in a map.\<close>

definition run_property :: "table_update \<Rightarrow> (string \<Rightarrow> string option) \<Rightarrow> string \<Rightarrow> string option" where
  "run_property u m =
     (case u of NewSetTablePropertyRequest k v \<Rightarrow> m(k \<mapsto> v) | NewRemoveTablePropertyRequest k \<Rightarrow> m(k := None) | _ \<Rightarrow> m)"

theorem table_property_updates_converge_witness:
  "fold run_property (sorted_property_requests [(''a'', ''1''), (''b'', ''2'')] [(''b'', ''0''), (''c'', ''3'')])
     (map_of [(''b'', ''0''), (''c'', ''3'')]) ''c'' = None"
proof -
  have "property_server NewSetTablePropertyRequest NewRemoveTablePropertyRequest (\<lambda>m. m) run_property"
    by (simp add: property_server_def run_property_def)
  then have "fold run_property (sorted_property_requests [(''a'', ''1''), (''b'', ''2'')] [(''b'', ''0''), (''c'', ''3'')])
      (map_of [(''b'', ''0''), (''c'', ''3'')]) ''c'' = map_of [(''a'', ''1''), (''b'', ''2'')] ''c''"
    using table_property_updates_converge [of "[(''a'', ''1''), (''b'', ''2'')]" "[(''b'', ''0''), (''c'', ''3'')]"
        "\<lambda>m. m" run_property "map_of [(''b'', ''0''), (''c'', ''3'')]" "[(''a'', ''1''), (''b'', ''2'')]"
        "[(''b'', ''0''), (''c'', ''3'')]" "''c''", THEN conjunct1]
    by (simp add: table_reserved_def del: fold_simps fun_upd_apply)
  also have "\<dots> = None" by simp
  finally show ?thesis .
qed

text \<open>C10: The position updates yield exactly the planned column order, from every order of the same
  columns, on a server that applies them in sequence; an unchanged order needs no request.\<close>

theorem column_positions_converge:
  assumes "moves_columns mv" "distinct (column_names plan)" "distinct (column_names state)"
    and "set (column_names plan) = set (column_names state)"
  shows "fold (run_position mv) (tableColumnPositionUpdates plan state) (column_names state) = column_names plan"
  using run_positions [of mv "[]" "column_names plan" "[]" "column_names state"] assms
  by (simp add: tableColumnPositionUpdates_def)

definition bare_column :: "string \<Rightarrow> column_tfsdk" where
  "bare_column n = \<lparr>ct_Name = TKnown n, ct_Type = TKnown ''integer'', ct_Comment = TNull, ct_Nullable = TKnown True,
     ct_AutoIncrement = TKnown False, ct_DefaultValue = TNull\<rparr>"

theorem column_positions_converge_witness:
  "fold (run_position move_column)
     (tableColumnPositionUpdates (map bare_column [''c'', ''a'', ''b'']) (map bare_column [''a'', ''b'', ''c'']))
     [''a'', ''b'', ''c''] = [''c'', ''a'', ''b'']"
  using column_positions_converge [OF move_column_moves, of "map bare_column [''c'', ''a'', ''b'']" "map bare_column [''a'', ''b'', ''c'']"]
  by (auto simp: bare_column_def)

text \<open>C24: When all planned column names are known and neither plan nor state lists a name twice, a new table is required exactly when
  the set of column names changes or a column that has a known default value loses it.\<close>

theorem columns_replace_iff:
  assumes "\<forall>c \<in> set plan. \<not> IsUnknown (ct_Name c)" "distinct (column_names plan)" "distinct (column_names state)"
  shows "columnsReplaceRequired plan state \<longleftrightarrow>
    set (column_names plan) \<noteq> set (column_names state) \<or>
    (\<exists>d \<in> set plan. \<exists>c \<in> set state. ValueString (ct_Name d) = ValueString (ct_Name c) \<and>
       known (ct_DefaultValue c) \<and> \<not> known (ct_DefaultValue d))"
proof -
  let ?body = "\<lambda>c. case map_of (column_map plan) (ValueString (ct_Name c)) of
      None \<Rightarrow> True | Some d \<Rightarrow> known (ct_DefaultValue c) \<and> \<not> known (ct_DefaultValue d)"
  have len: "length (column_map plan) = card (set (column_names plan))" "length state = card (set (column_names state))"
    using distinct_card [OF assms(2)] distinct_card [OF assms(3)] by (simp_all add: column_map_distinct [OF assms(2)])
  have body: "?body c \<longleftrightarrow> ValueString (ct_Name c) \<notin> set (column_names plan) \<or>
      (\<exists>d \<in> set plan. ValueString (ct_Name d) = ValueString (ct_Name c) \<and> known (ct_DefaultValue c) \<and> \<not> known (ct_DefaultValue d))" for c
  proof (cases "map_of (column_map plan) (ValueString (ct_Name c))")
    case None
    then have "ValueString (ct_Name c) \<notin> set (column_names plan)"
      using column_map_none [OF assms(2)] by blast
    then show ?thesis by (simp add: None)
  next
    case (Some d)
    then have d: "d \<in> set plan" "ValueString (ct_Name d) = ValueString (ct_Name c)"
      using column_map_of [OF assms(2)] by blast+
    then have "ValueString (ct_Name c) \<in> set (column_names plan)"
      by (metis column_names_def image_eqI set_map)
    moreover have "e = d" if "e \<in> set plan" "ValueString (ct_Name e) = ValueString (ct_Name c)" for e
      using that Some column_map_of [OF assms(2), of "ValueString (ct_Name c)" e] by simp
    moreover have "?body c \<longleftrightarrow> known (ct_DefaultValue c) \<and> \<not> known (ct_DefaultValue d)" by (simp add: Some)
    ultimately show ?thesis using d by blast
  qed
  have "columnsReplaceRequired plan state \<longleftrightarrow>
      card (set (column_names plan)) \<noteq> card (set (column_names state)) \<or> (\<exists>c \<in> set state. ?body c)"
    using assms(1) len by (auto simp: columnsReplaceRequired_def Let_def list_ex_iff)
  also have "\<dots> \<longleftrightarrow> card (set (column_names plan)) \<noteq> card (set (column_names state)) \<or>
      \<not> set (column_names state) \<subseteq> set (column_names plan) \<or>
      (\<exists>d \<in> set plan. \<exists>c \<in> set state. ValueString (ct_Name d) = ValueString (ct_Name c) \<and>
         known (ct_DefaultValue c) \<and> \<not> known (ct_DefaultValue d))"
    unfolding body by (auto simp: column_names_def)
  finally have main: "columnsReplaceRequired plan state \<longleftrightarrow>
      card (set (column_names plan)) \<noteq> card (set (column_names state)) \<or>
      \<not> set (column_names state) \<subseteq> set (column_names plan) \<or>
      (\<exists>d \<in> set plan. \<exists>c \<in> set state. ValueString (ct_Name d) = ValueString (ct_Name c) \<and>
         known (ct_DefaultValue c) \<and> \<not> known (ct_DefaultValue d))" .
  have "card (set (column_names plan)) \<noteq> card (set (column_names state)) \<or>
      \<not> set (column_names state) \<subseteq> set (column_names plan) \<longleftrightarrow> set (column_names plan) \<noteq> set (column_names state)"
    using card_subset_eq [of "set (column_names plan)" "set (column_names state)"]
      card_subset_eq [of "set (column_names plan)" "set (column_names state)"] by (metis List.finite_set order_refl psubset_card_mono card_subset_eq)
  with main show ?thesis by blast
qed

theorem columns_replace_iff_witness:
  "columnsReplaceRequired [bare_column ''a''] [(bare_column ''a'')\<lparr>ct_DefaultValue := TKnown ''7''\<rparr>] \<and>
   \<not> columnsReplaceRequired [(bare_column ''a'')\<lparr>ct_DefaultValue := TKnown ''7''\<rparr>] [bare_column ''a'']"
  using columns_replace_iff [of "[bare_column ''a'']" "[(bare_column ''a'')\<lparr>ct_DefaultValue := TKnown ''7''\<rparr>]"]
    columns_replace_iff [of "[(bare_column ''a'')\<lparr>ct_DefaultValue := TKnown ''7''\<rparr>]" "[bare_column ''a'']"]
  by (simp add: bare_column_def known_def)

text \<open>A change of auto_increment has no effect: a plan that differs from the state only in the
  auto_increment flags of its columns neither produces an update request nor asks for a
  new table, although the schema documents that such a change is applied in place.\<close>

theorem auto_increment_change_ignored:
  assumes "distinct (column_names state)" "\<forall>c \<in> set state. \<not> IsUnknown (ct_Name c)"
    and "\<forall>c \<in> set state. \<exists>d. ParseDataType (ValueString (ct_Type c)) = Inr d"
    and "plan = map (\<lambda>c. c\<lparr>ct_AutoIncrement := flag c\<rparr>) state"
  shows "tableColumnUpdates plan state = Inr [] \<and> \<not> columnsReplaceRequired plan state"
proof -
  have names: "column_names plan = column_names state" by (simp add: assms(4) column_names_def)
  have dist: "distinct (column_names plan)" using names assms(1) by simp
  have look: "map_of (column_map plan) (ValueString (ct_Name c)) = Some (c\<lparr>ct_AutoIncrement := flag c\<rparr>)"
    if "c \<in> set state" for c
    using that column_map_of [OF dist] by (auto simp: assms(4))
  have "kept_column_updates (column_map plan) cs = Inr []" if "set cs \<subseteq> set state" for cs
    using that
  proof (induction cs)
    case (Cons c cs)
    then have "c \<in> set state" by simp
    then obtain d where "ParseDataType (ValueString (ct_Type c)) = Inr d" using assms(3) by blast
    with Cons look [OF \<open>c \<in> set state\<close>] show ?case by (simp add: one_column_updates_def)
  qed simp
  then have "tableColumnUpdates plan state = Inr []"
    by (simp add: tableColumnUpdates_def tableColumnPositionUpdates_def names)
  moreover have "\<not> columnsReplaceRequired plan state"
    unfolding columnsReplaceRequired_def Let_def using look assms(2)
    by (auto simp: list_ex_iff assms(4) column_map_distinct [OF dist [unfolded assms(4)]])
  ultimately show ?thesis by blast
qed

theorem auto_increment_change_ignored_witness:
  "tableColumnUpdates [(bare_column ''a'')\<lparr>ct_AutoIncrement := TKnown True\<rparr>] [bare_column ''a''] = Inr []"
proof -
  have "ParseDataType ''integer'' = Inr (primitive ''integer'')" by code_simp
  then show ?thesis
    using auto_increment_change_ignored [of "[bare_column ''a'']" "[(bare_column ''a'')\<lparr>ct_AutoIncrement := TKnown True\<rparr>]" "\<lambda>_. TKnown True"]
    by (simp add: bare_column_def)
qed

lemma map_of_filtered: "map_of (filterReservedProperties m) k = (if table_reserved k then None else map_of m k)"
  by (induction m) (auto simp: filterReservedProperties_def)

text \<open>The properties written to state never contradict the plan and never grow: after an apply
  they are the configured ones, whatever the server reports; after a refresh they have the
  same keys, with the server's value where it reports one. Keys the catalog adds on its own
  therefore cannot show up as drift as long as the configuration manages any property.\<close>

theorem merged_properties_managed:
  assumes "fw_decodes fw" "wf_map m" "m \<noteq> []"
  shows "(\<exists>m'. mergeTableProperties fw server (TKnown (known_map m)) False = Inr (TKnown (known_map m')) \<and> mset m' = mset m) \<and>
    (\<exists>m'. mergeTableProperties fw server (TKnown (known_map m)) True = Inr (TKnown (known_map m')) \<and>
       set (keys m') = set (keys m) \<and>
       (\<forall>k \<in> set (keys m). map_of m' k =
          (if \<not> table_reserved k \<and> map_of server k \<noteq> None then map_of server k else map_of m k)))"
proof -
  obtain m' where m': "fw_map fw (known_map m) = Inr m'" "mset m' = mset m"
    using assms(1,2) unfolding fw_decodes_def by blast
  have ne: "m' \<noteq> []" using m'(2) assms(3) by auto
  have look: "map_of m' = map_of m" using m'(2) assms(2) by (metis map_of_mset wf_map_mset)
  have ks: "set (keys m') = set (keys m)" by (simp add: set_keys look)
  have "map_of (merge_managed True (filterReservedProperties server) m') k =
      (if \<not> table_reserved k \<and> map_of server k \<noteq> None then map_of server k else map_of m k)"
    if "k \<in> set (keys m)" for k
    using that by (auto simp: merge_lookup map_of_filtered ks look split: option.splits)
  then have "\<exists>m'. mergeTableProperties fw server (TKnown (known_map m)) True = Inr (TKnown (known_map m')) \<and>
      set (keys m') = set (keys m) \<and>
      (\<forall>k \<in> set (keys m). map_of m' k =
         (if \<not> table_reserved k \<and> map_of server k \<noteq> None then map_of server k else map_of m k))"
    using m' ne ks by (intro exI [of _ "merge_managed True (filterReservedProperties server) m'"])
      (simp add: mergeTableProperties_def merge_keys Let_def)
  moreover have "\<exists>m'. mergeTableProperties fw server (TKnown (known_map m)) False = Inr (TKnown (known_map m')) \<and> mset m' = mset m"
    using m' ne by (intro exI [of _ m']) (simp add: mergeTableProperties_def merge_apply Let_def)
  ultimately show ?thesis by blast
qed

theorem merged_properties_managed_witness:
  "\<exists>m'. mergeTableProperties strict_fw [(''location'', ''/x''), (''format'', ''ORC'')]
      (TKnown (known_map [(''format'', ''orc'')])) True = Inr (TKnown (known_map m')) \<and> map_of m' ''format'' = Some ''ORC''"
proof -
  have "\<exists>m'. mergeTableProperties strict_fw [(''location'', ''/x''), (''format'', ''ORC'')]
      (TKnown (known_map [(''format'', ''orc'')])) True = Inr (TKnown (known_map m')) \<and>
      (\<forall>k \<in> set (keys [(''format'', ''orc'')]). map_of m' k =
          (if \<not> table_reserved k \<and> map_of [(''location'', ''/x''), (''format'', ''ORC'')] k \<noteq> None
           then map_of [(''location'', ''/x''), (''format'', ''ORC'')] k else map_of [(''format'', ''orc'')] k))"
    using merged_properties_managed [OF strict_fw_decodes, of "[(''format'', ''orc'')]"] by fastforce
  then show ?thesis by (auto simp: table_reserved_def)
qed

lemma external_check_world: "snd (CheckExternalTypesSupported cols c) = c"
  by (simp add: CheckExternalTypesSupported_def Let_def)

lemma external_check_error: "fst (CheckExternalTypesSupported cols c) = Inl ds \<Longrightarrow> HasError ds"
  by (auto simp: CheckExternalTypesSupported_def Let_def split: if_splits)

text \<open>C11: An update that Gravitino cannot apply in place is refused before anything is sent: if an
  immutable block or the set of column names changed, or a default value was removed, the
  handler reports an error and the server has not been contacted.\<close>

theorem update_refused_untouched:
  assumes "from_tf fw tfPlan = Inr plan" "from_tf fw tfState = Inr state"
    and "immutableBlockChange fw plan state \<noteq> [] \<or>
      columnsReplaceRequired (slice (tm_Columns plan)) (slice (tm_Columns state))"
  shows "\<exists>ds. table_Update fw api tfPlan tfState c = (Inl ds, c) \<and> HasError ds"
proof -
  obtain r where r: "CheckExternalTypesSupported (slice (tm_Columns plan)) c = (r, c)"
    using external_check_world by (metis prod.collapse)
  show ?thesis
  proof (cases r)
    case (Inl ds)
    then show ?thesis
      using r external_check_error [of "slice (tm_Columns plan)" c ds]
      by (simp add: table_Update_def assms(1,2) andThen_pure andThen_def)
  next
    case (Inr u)
    then show ?thesis
      using r assms(3)
      by (auto simp: table_Update_def assms(1,2) andThen_pure andThen_def stop_if_def immutable_error_def
          column_replace_error_def)
  qed
qed

definition bare_table :: "column_tfsdk list \<Rightarrow> table_tf" where
  "bare_table cs = TableResourceModelToTF
     \<lparr>tm_Metalake = TKnown ''m'', tm_Catalog = TKnown ''c'', tm_Schema = TKnown ''s'', tm_Name = TKnown ''t'',
      tm_Comment = TNull, tm_Properties = TNull, tm_ID = TKnown ''m.c.s.t'', tm_Audit = TNull, tm_Columns = Some cs,
      tm_SortOrders = None, tm_Distribution = None, tm_Partitioning = None, tm_Indexes = None\<rparr>"

theorem update_refused_untouched_witness:
  "\<forall>(api :: unit table_api) c. \<exists>ds.
     table_Update strict_table_fw api (bare_table [bare_column ''a'']) (bare_table [bare_column ''b'']) c = (Inl ds, c)
     \<and> HasError ds"
proof -
  obtain plan state where
    p: "from_tf strict_table_fw (bare_table [bare_column ''a'']) = Inr plan" "tm_Columns plan = Some [bare_column ''a'']" and
    s: "from_tf strict_table_fw (bare_table [bare_column ''b'']) = Inr state" "tm_Columns state = Some [bare_column ''b'']"
    by (simp add: from_tf_def bare_table_def TableResourceModelToTF_def TableResourceModelFromTF_def blocks_from_def
        blocks_to_def TableColumnsFromList_def TableSortOrdersFromList_def TablePartitioningFromList_def
        TableIndexesFromList_def strict_table_fw_def TableDistributionFromObject_def)
  have "columnsReplaceRequired [bare_column ''a''] [bare_column ''b'']" by code_simp
  then show ?thesis by (intro allI update_refused_untouched [OF p(1) s(1)]) (simp add: p(2) s(2))
qed

text \<open>A table whose indexes need Gravitino 1.3.1 (a data-skipping type or index properties) is
  created only by a client that then knows its server to be at least 1.3.1.\<close>

theorem create_respects_index_gate:
  assumes "from_tf fw tfPlan = Inr plan" "buildCreateRequest fw plan = Inr req"
    and "indexes_restricted (map (\<lambda>i. (ix_IndexType i, slice (ix_Properties i))) (tcr_Indexes req))"
    and "table_Create fw api tfPlan c = (Inr w, c')"
  shows "ServerVersionAtLeast (vc_version c') 1 3 1"
proof -
  obtain r where r: "CheckExternalTypesSupported (slice (tm_Columns plan)) c = (r, c)"
    using external_check_world by (metis prod.collapse)
  obtain g c1 where g: "CheckIndexesSupported (ta_probe api) (map (\<lambda>i. (ix_IndexType i, slice (ix_Properties i))) (tcr_Indexes req)) c = (g, c1)"
    by fastforce
  have ok: "r = Inr ()" "g = None" and step: "vc_version c' = vc_version c1"
    using assms(4) r g
    by (auto simp: table_Create_def assms(1,2) andThen_pure andThen_def check_indexes_def calling_def on_world_def
        done_with_def pure_step_def split: sum.splits prod.splits option.splits)
  then show ?thesis
    using index_gate.passed_remembers [OF assms(3), of "ta_probe api" c] g by simp
qed

definition gone_error :: gerror where
  "gone_error = ErrHTTP \<lparr>he_StatusCode = 404, he_Status = ''Not Found'', he_Response = None\<rparr>"

definition echo_table :: "table_create_request \<Rightarrow> table" where
  "echo_table r = \<lparr>tb_Name = tcr_Name r, tb_Columns = tcr_Columns r, tb_Comment = tcr_Comment r, tb_Audit = None,
     tb_Properties = tcr_Properties r, tb_Distribution = tcr_Distribution r, tb_SortOrders = tcr_SortOrders r,
     tb_Partitioning = tcr_Partitioning r, tb_Indexes = tcr_Indexes r\<rparr>"

definition echo_api :: "unit table_api" where
  "echo_api = \<lparr>ta_create = (\<lambda>m c s r w. (Inr (echo_table r), w)), ta_get = (\<lambda>m c s n w. (Inl gone_error, w)),
     ta_update = (\<lambda>m c s n us w. (Inl gone_error, w)), ta_drop = (\<lambda>m c s n w. (Inr True, w)),
     ta_probe = (\<lambda>w. (Inr ''1.3.1'', w))\<rparr>"

definition skipping_table :: table_tf where
  "skipping_table = (bare_table [bare_column ''a''])\<lparr>tt_Indexes := TKnown [TKnown
     \<lparr>it_IndexType = TKnown ''data_skipping_set'', it_Name = TKnown ''i'',
      it_FieldNames = TKnown [TKnown [TKnown ''a'']], it_Properties = TNull\<rparr>]\<rparr>"

theorem create_respects_index_gate_witness:
  "ServerVersionAtLeast (vc_version (snd (table_Create strict_table_fw echo_api skipping_table old_server))) 1 3 1"
proof -
  have p: "\<not> isl (from_tf strict_table_fw skipping_table)" by code_simp
  have b: "\<not> isl (buildCreateRequest strict_table_fw (projr (from_tf strict_table_fw skipping_table)))" by code_simp
  have i: "indexes_restricted (map (\<lambda>i. (ix_IndexType i, slice (ix_Properties i)))
      (tcr_Indexes (projr (buildCreateRequest strict_table_fw (projr (from_tf strict_table_fw skipping_table))))))"
    by code_simp
  have r: "\<not> isl (fst (table_Create strict_table_fw echo_api skipping_table old_server))" by code_simp
  show ?thesis
    by (rule create_respects_index_gate [where plan = "projr (from_tf strict_table_fw skipping_table)"
          and req = "projr (buildCreateRequest strict_table_fw (projr (from_tf strict_table_fw skipping_table)))"
          and w = "projr (fst (table_Create strict_table_fw echo_api skipping_table old_server))", OF _ _ i])
      (use p b r in \<open>simp_all add: sum.collapse(2)\<close>)
qed

end
