(* ===== verification/Handlers.thy ===== *)
theory Handlers
  imports TfUtil
begin

section \<open>The common shape of the read and delete handlers\<close>

text \<open>
  Every resource reads its object in the same way: a 404 removes it from the state, any other error
  is reported and leaves the state, an answer is absorbed into the model. Deleting treats a 404 as
  done. The resources instantiate \<open>refresh\<close> and \<open>drop_or_gone\<close> with their client call, their
  diagnostics and the function that copies the answer into the model.
\<close>

definition refresh ::
    "('w \<Rightarrow> (gerror + 'e) \<times> 'w) \<Rightarrow> (gerror \<Rightarrow> diags) \<Rightarrow> ('e \<Rightarrow> diags + 'm) \<Rightarrow> ('m state_write, 'w) step" where
  "refresh load report absorb w =
     (case load w of
        (Inl err, w') \<Rightarrow> (if IsNotFoundError err then Inr Remove else Inl (report err), w')
      | (Inr e, w') \<Rightarrow> (map_sum (\<lambda>ds. ds) Save (absorb e), w'))"

definition drop_or_gone ::
    "('w \<Rightarrow> (gerror + 'e) \<times> 'w) \<Rightarrow> (gerror \<Rightarrow> diags) \<Rightarrow> ('m state_write, 'w) step" where
  "drop_or_gone drop_it report w =
     (case drop_it w of
        (Inl err, w') \<Rightarrow> (if IsNotFoundError err then Inr Remove else Inl (report err), w')
      | (Inr _, w') \<Rightarrow> (Inr Remove, w'))"

lemma refresh_removes_iff:
  "fst (refresh load report absorb w) = Inr Remove \<longleftrightarrow> (\<exists>err. fst (load w) = Inl err \<and> IsNotFoundError err)"
  by (auto simp: refresh_def map_sum_def split: prod.splits sum.splits)

lemma refresh_saves_iff:
  "fst (refresh load report absorb w) = Inr (Save m) \<longleftrightarrow> (\<exists>e. fst (load w) = Inr e \<and> absorb e = Inr m)"
  by (auto simp: refresh_def map_sum_def split: prod.splits sum.splits)

end
