(* ===== verification/InUse.thy ===== *)
theory InUse
  imports TfUtil PropertyDiff
begin

section \<open>Enabling and disabling metalakes and catalogs\<close>

text \<open>
  Metalakes and catalogs are in use or disabled. Gravitino refuses to alter a disabled one and to
  drop one that is in use, so the two handlers (\<open>Update\<close>, \<open>Delete\<close> of
  resources/metalake/resource.go and resources/catalog/resource.go) wrap the metadata request in
  PATCH requests. The protocol is the same text in both files; it is written here once, over the
  three calls it makes, and each handler instantiates it with its own.

  \<open>logging_*\<close> run a call and record it. The lemmas are about the recorded events of a run against
  any server: whatever it answers, a PUT is sent only after the last acknowledged PATCH enabled
  the object, an unforced drop only after one disabled it.
\<close>

definition inUseOnCreate :: "bool tfval \<Rightarrow> bool tfval" where
  "inUseOnCreate planned = (if IsUnknown planned \<or> IsNull planned then TKnown True else planned)"

text \<open>\<open>force_destroy\<close> is never sent; it only has to be known before it is saved.\<close>

definition force_on_create :: "bool tfval \<Rightarrow> bool tfval" where
  "force_on_create planned = (if IsUnknown planned \<or> IsNull planned then TKnown False else planned)"

definition force_on_update :: "bool tfval \<Rightarrow> bool tfval \<Rightarrow> bool tfval" where
  "force_on_update planned previous =
     (if IsUnknown planned \<or> IsNull planned
      then (if IsUnknown previous \<or> IsNull previous then TKnown False else previous) else planned)"

definition in_use_on_update :: "bool tfval \<Rightarrow> bool tfval \<Rightarrow> bool tfval" where
  "in_use_on_update planned previous = (if IsUnknown planned then previous else planned)"

definition in_use_changed :: "bool tfval \<Rightarrow> bool tfval \<Rightarrow> bool" where
  "in_use_changed planned previous \<longleftrightarrow> \<not> IsNull planned \<and> planned \<noteq> previous"

text \<open>Plan and state, read one after the other.\<close>

definition both_get :: "diags + 'm \<Rightarrow> diags + 'm \<Rightarrow> diags + 'm \<times> 'm" where
  "both_get p s =
     (case (p, s) of
        (Inr a, Inr b) \<Rightarrow> Inr (a, b)
      | (Inl ds, Inl es) \<Rightarrow> Inl (ds @ es)
      | (Inl ds, _) \<Rightarrow> Inl ds
      | (_, Inl es) \<Rightarrow> Inl es)"

type_synonym 'w patch = "string \<Rightarrow> bool \<Rightarrow> 'w \<Rightarrow> (gerror + unit) \<times> 'w"
type_synonym ('u, 'e, 'w) put = "string \<Rightarrow> 'u list \<Rightarrow> 'w \<Rightarrow> (gerror + 'e) \<times> 'w"
type_synonym 'w dropping = "string \<Rightarrow> bool \<Rightarrow> 'w \<Rightarrow> (gerror + bool) \<times> 'w"

definition set_in_use :: "'w patch \<Rightarrow> string \<Rightarrow> string \<Rightarrow> bool \<Rightarrow> (unit, 'w) step" where
  "set_in_use patch operation name b = calling (patch name b) (NewResourceError operation name)"

text \<open>The PUT: when it fails and the object had been enabled for it only, it is disabled again, and an
  error of that attempt is only logged.\<close>

definition put_or_restore ::
    "string \<Rightarrow> 'w patch \<Rightarrow> ('u, 'e, 'w) put \<Rightarrow> string \<Rightarrow> 'u list \<Rightarrow> bool \<Rightarrow> ('e, 'w) step" where
  "put_or_restore noun patch send name updates temporarilyEnabled w =
     (case send name updates w of
        (Inl err, w') \<Rightarrow>
          (Inl (NewResourceError (''updating '' @ noun) name err),
           if temporarilyEnabled then snd (patch name False w') else w')
      | (Inr e, w') \<Rightarrow> (Inr e, w'))"

text \<open>The part of \<open>Update\<close> after the plan is resolved: \<open>changed\<close> is inUseChanged, \<open>on\<close> the planned
  flag, \<open>updates\<close> the request list or the diagnostics of building it, \<open>keep\<close> the model when there
  is nothing to send and \<open>absorb\<close> the model made of the answer.\<close>

definition in_use_update ::
    "string \<Rightarrow> 'w patch \<Rightarrow> ('u, 'e, 'w) put \<Rightarrow> string \<Rightarrow> bool \<Rightarrow> bool \<Rightarrow> diags + 'u list
       \<Rightarrow> diags + 'm \<Rightarrow> ('e \<Rightarrow> diags + 'm) \<Rightarrow> ('m \<Rightarrow> string) \<Rightarrow> ('m, 'w) step" where
  "in_use_update noun patch send name changed on updates keep absorb finalName =
     andThen (if changed \<and> on then set_in_use patch (''enabling '' @ noun) name True else done_with ()) (\<lambda>_.
     andThen (pure_step updates) (\<lambda>us.
     andThen (if \<not> changed \<and> \<not> on \<and> us \<noteq> [] then set_in_use patch (''enabling '' @ noun) name True
              else done_with ()) (\<lambda>_.
     andThen (if us = [] then pure_step keep
              else andThen (put_or_restore noun patch send name us (\<not> changed \<and> \<not> on \<and> us \<noteq> []))
                     (\<lambda>e. pure_step (absorb e))) (\<lambda>m.
     andThen (if changed \<and> \<not> on \<or> \<not> changed \<and> \<not> on \<and> us \<noteq> []
              then set_in_use patch (''disabling '' @ noun) (finalName m) False else done_with ()) (\<lambda>_.
     done_with m)))))"

text \<open>\<open>Delete\<close>: an unforced drop first disables the object; a refused one puts it back into use
  when the state says it was, and again only logs an error of that attempt.\<close>

definition in_use_delete ::
    "string \<Rightarrow> 'w patch \<Rightarrow> 'w dropping \<Rightarrow> string \<Rightarrow> bool \<Rightarrow> bool \<Rightarrow> ('m state_write, 'w) step" where
  "in_use_delete noun patch drop_it name force wasOn w =
     (case (if force then (Inr (), w) else patch name False w) of
        (Inl err, w1) \<Rightarrow>
          (if IsNotFoundError err then Inr Remove
           else Inl (NewResourceError (''disabling '' @ noun @ '' before deletion'') name err), w1)
      | (Inr _, w1) \<Rightarrow>
          (case drop_it name force w1 of
             (Inr _, w2) \<Rightarrow> (Inr Remove, w2)
           | (Inl err, w2) \<Rightarrow>
               if IsNotFoundError err then (Inr Remove, w2)
               else (Inl (NewDropError (''deleting '' @ noun) name force err),
                     if \<not> force \<and> wasOn then snd (patch name True w2) else w2)))"

subsection \<open>Recorded runs\<close>

datatype in_use_event = Patched string bool bool | PutSent string bool | Dropped string bool bool

definition acknowledged :: "'e + 'a \<Rightarrow> bool" where
  "acknowledged r = (case r of Inl _ \<Rightarrow> False | Inr _ \<Rightarrow> True)"

definition logging_patch :: "'w patch \<Rightarrow> ('w \<times> in_use_event list) patch" where
  "logging_patch patch name b =
     (\<lambda>(w, es). case patch name b w of (r, w') \<Rightarrow> (r, w', es @ [Patched name b (acknowledged r)]))"

definition logging_put :: "('u, 'e, 'w) put \<Rightarrow> ('u, 'e, 'w \<times> in_use_event list) put" where
  "logging_put send name us =
     (\<lambda>(w, es). case send name us w of (r, w') \<Rightarrow> (r, w', es @ [PutSent name (acknowledged r)]))"

definition logging_drop :: "'w dropping \<Rightarrow> ('w \<times> in_use_event list) dropping" where
  "logging_drop drop_it name force =
     (\<lambda>(w, es). case drop_it name force w of (r, w') \<Rightarrow> (r, w', es @ [Dropped name force (acknowledged r)]))"

text \<open>The flag after the acknowledged PATCH requests, and the two orders Gravitino asks for.\<close>

fun flag_after :: "bool \<Rightarrow> in_use_event list \<Rightarrow> bool" where
  "flag_after on [] = on"
| "flag_after on (Patched _ b ok # es) = flag_after (if ok then b else on) es"
| "flag_after on (_ # es) = flag_after on es"

fun orders_kept :: "bool \<Rightarrow> in_use_event list \<Rightarrow> bool" where
  "orders_kept on [] = True"
| "orders_kept on (Patched _ b ok # es) = orders_kept (if ok then b else on) es"
| "orders_kept on (PutSent _ _ # es) = (on \<and> orders_kept on es)"
| "orders_kept on (Dropped _ force _ # es) = ((force \<or> \<not> on) \<and> orders_kept on es)"

lemma acknowledged_simps [simp]: "\<not> acknowledged (Inl e)" "acknowledged (Inr a)"
  by (simp_all add: acknowledged_def)

lemmas in_use_run_defs =
  in_use_update_def put_or_restore_def set_in_use_def logging_patch_def logging_put_def step_defs

text \<open>Every run of the update keeps the orders, and a run that yields a model leaves the planned flag.\<close>

lemma in_use_update_run:
  assumes "in_use_update noun (logging_patch patch) (logging_put send) name changed on updates keep absorb finalName (w, [])
      = (r, w', es)"
    and "init = (if changed then \<not> on else on)"
  shows "orders_kept init es \<and> (\<forall>m. r = Inr m \<longrightarrow> flag_after init es = on)"
  using assms
  by (auto simp: in_use_run_defs split: if_splits sum.splits prod.splits)

lemma in_use_update_result:
  assumes "in_use_update noun patch send name changed on updates keep absorb finalName w = (Inr m, w')"
  shows "(updates = Inr [] \<and> keep = Inr m) \<or> (\<exists>e. absorb e = Inr m)"
  using assms
  by (auto simp: in_use_update_def put_or_restore_def set_in_use_def step_defs split: if_splits sum.splits prod.splits)

text \<open>Every run of the deletion keeps the orders. An error leaves the flag the state records,
  unless the PATCH that should restore it failed.\<close>

lemma in_use_delete_run:
  assumes "in_use_delete noun (logging_patch patch) (logging_drop drop_it) name force wasOn (w, []) = (r, w', es)"
  shows "orders_kept wasOn es \<and>
    (r = Inr Remove \<or> flag_after wasOn es = wasOn \<or> Patched name True False \<in> set es)"
  using assms
  by (auto simp: in_use_delete_def logging_patch_def logging_drop_def split: if_splits sum.splits prod.splits)

lemma map_of_entry: "wf_map m \<Longrightarrow> (k, v) \<in> set m \<longleftrightarrow> map_of m k = Some v"
  by (simp add: wf_map_def keys_def)

text \<open>The answer to a refused request, for the examples.\<close>

definition refused :: gerror where
  "refused = ErrHTTP \<lparr>he_StatusCode = 409, he_Status = ''409 Conflict'', he_Response = None\<rparr>"

end
