(* ===== verification/MetalakeResource.thy ===== *)
theory MetalakeResource
  imports InUse
begin

section \<open>The metalake resource (resources/metalake/resource.go, models/metalake.go)\<close>

text \<open>
  The handlers of a metalake. The configuration and the recorded state arrive decoded, as the
  result of the framework's \<open>Get\<close> (diagnostics or a model); the four calls of the client are the
  record \<open>metalake_api\<close>. A handler yields diagnostics, leaving the recorded state as it was, or
  what to do with it (\<open>state_write\<close>).
\<close>

subsection \<open>Data\<close>

record metalake =
  ml_Name :: string
  ml_Comment :: string
  ml_Properties :: "string gomap"
  ml_Audit :: "audit option"

record metalake_create_request =
  mcr_Name :: string
  mcr_Comment :: string
  mcr_Properties :: "string gomap"

datatype metalake_update =
  RenameMetalakeRequest string
| UpdateMetalakeCommentRequest string
| SetMetalakePropertyRequest string string
| RemoveMetalakePropertyRequest string

record metalake_model =
  mm_ID :: "string tfval"
  mm_Name :: "string tfval"
  mm_Comment :: "string tfval"
  mm_Properties :: tf_map
  mm_InUse :: "bool tfval"
  mm_ForceDestroy :: "bool tfval"
  mm_Audit :: "audit_tfsdk tfval"

record 'w metalake_api =
  ma_create :: "metalake_create_request \<Rightarrow> 'w \<Rightarrow> (gerror + metalake) \<times> 'w"
  ma_get :: "string \<Rightarrow> 'w \<Rightarrow> (gerror + metalake) \<times> 'w"
  ma_update :: "(metalake_update, metalake, 'w) put"
  ma_set_in_use :: "'w patch"
  ma_drop :: "'w dropping"

subsection \<open>Properties and comment\<close>

definition metalake_reserved :: "string \<Rightarrow> bool" where
  "metalake_reserved k \<longleftrightarrow> k = ''in-use'' \<or> k = ''gravitino.identifier''"

definition metalake_filterReservedProperties :: "string gomap \<Rightarrow> string gomap" where
  "metalake_filterReservedProperties props = filter (\<lambda>(k, _). \<not> metalake_reserved k) props"

definition mapToProperties :: "('a fw_scheme) \<Rightarrow> tf_map \<Rightarrow> diags + string gomap" where
  "mapToProperties fw v = (case v of TKnown m \<Rightarrow> fw_map fw m | _ \<Rightarrow> Inr [])"

definition commentFromServer :: "string \<Rightarrow> string tfval \<Rightarrow> string tfval" where
  "commentFromServer serverValue planned =
     (if serverValue \<noteq> [] then TKnown serverValue
      else if \<not> IsUnknown planned \<and> \<not> IsNull planned then planned else TNull)"

definition mergeProperties :: "('a fw_scheme) \<Rightarrow> tf_map \<Rightarrow> string gomap \<Rightarrow> diags + tf_map" where
  "mergeProperties fw plan serverProps =
     (case plan of
        TUnknown \<Rightarrow> Inr TNull
      | TNull \<Rightarrow>
          (let serverOnly = metalake_filterReservedProperties serverProps
           in Inr (if serverOnly = [] then TNull else TKnown (known_map serverOnly)))
      | TKnown m \<Rightarrow>
          map_sum (\<lambda>ds. ds) (\<lambda>planned. TKnown (known_map (merge_managed True serverProps planned))) (fw_map fw m))"

definition metalake_propertyUpdates :: "string gomap \<Rightarrow> string gomap \<Rightarrow> metalake_update list" where
  "metalake_propertyUpdates oldProps newProps =
     concat (map (\<lambda>(key, oldVal).
         if metalake_reserved key then []
         else case map_of newProps key of
             None \<Rightarrow> [RemoveMetalakePropertyRequest key]
           | Some newVal \<Rightarrow> if oldVal \<noteq> newVal then [SetMetalakePropertyRequest key newVal] else []) oldProps) @
     concat (map (\<lambda>(key, newVal).
         if metalake_reserved key then []
         else if map_of oldProps key = None then [SetMetalakePropertyRequest key newVal] else []) newProps)"

definition metalakeToState :: "('a fw_scheme) \<Rightarrow> metalake \<Rightarrow> metalake_model \<Rightarrow> diags + metalake_model" where
  "metalakeToState fw m state =
     map_sum (\<lambda>ds. ds)
       (\<lambda>props. state\<lparr>mm_Name := TKnown (ml_Name m),
          mm_Comment := commentFromServer (ml_Comment m) (mm_Comment state),
          mm_Properties := props,
          mm_InUse := (if IsNull (mm_InUse state) then TKnown True else mm_InUse state),
          mm_ForceDestroy := (if IsNull (mm_ForceDestroy state) then TKnown False else mm_ForceDestroy state),
          mm_Audit := AuditToObjectValue (ml_Audit m)\<rparr>)
       (mergeProperties fw (mm_Properties state) (ml_Properties m))"

subsection \<open>Handlers\<close>

definition metalake_Create ::
    "('a fw_scheme) \<Rightarrow> 'w metalake_api \<Rightarrow> diags + metalake_model \<Rightarrow> (metalake_model state_write, 'w) step" where
  "metalake_Create fw api planGet =
     andThen (pure_step planGet) (\<lambda>plan.
     andThen (pure_step (mapToProperties fw (mm_Properties plan))) (\<lambda>props.
     andThen (calling (ma_create api
                \<lparr>mcr_Name = ValueString (mm_Name plan), mcr_Comment = ValueString (mm_Comment plan),
                 mcr_Properties = metalake_filterReservedProperties props\<rparr>)
              (NewResourceError ''creating metalake'' (ValueString (mm_Name plan)))) (\<lambda>result.
     let plan' = plan\<lparr>mm_ID := mm_Name plan, mm_InUse := inUseOnCreate (mm_InUse plan),
                   mm_ForceDestroy := force_on_create (mm_ForceDestroy plan)\<rparr> in
     andThen (if \<not> ValueBool (mm_InUse plan')
              then set_in_use (ma_set_in_use api) ''disabling metalake'' (ValueString (mm_Name plan)) False
              else done_with ()) (\<lambda>_.
     andThen (pure_step (metalakeToState fw result plan')) (\<lambda>m.
     done_with (Save m))))))"

definition metalake_Read ::
    "('a fw_scheme) \<Rightarrow> 'w metalake_api \<Rightarrow> diags + metalake_model \<Rightarrow> (metalake_model state_write, 'w) step" where
  "metalake_Read fw api stateGet =
     andThen (pure_step stateGet) (\<lambda>state w.
       case ma_get api (ValueString (mm_Name state)) w of
         (Inl err, w') \<Rightarrow>
           (if IsNotFoundError err then Inr Remove
            else Inl (NewResourceError ''reading metalake'' (ValueString (mm_Name state)) err), w')
       | (Inr m, w') \<Rightarrow>
           (map_sum (\<lambda>ds. ds) Save (metalakeToState fw m (state\<lparr>mm_ID := mm_Name state\<rparr>)), w'))"

definition metalake_updates :: "('a fw_scheme) \<Rightarrow> metalake_model \<Rightarrow> metalake_model \<Rightarrow> diags + metalake_update list" where
  "metalake_updates fw plan state =
     (let head = (if mm_Name plan \<noteq> mm_Name state then [RenameMetalakeRequest (ValueString (mm_Name plan))] else [])
            @ (if \<not> IsUnknown (mm_Comment plan) \<and> mm_Comment plan \<noteq> mm_Comment state
               then [UpdateMetalakeCommentRequest (ValueString (mm_Comment plan))] else [])
      in if IsUnknown (mm_Properties plan) then Inr head
         else map_sum (\<lambda>ds. ds) (\<lambda>(oldProps, newProps). head @ metalake_propertyUpdates oldProps newProps)
                (both_get (mapToProperties fw (mm_Properties state)) (mapToProperties fw (mm_Properties plan))))"

definition metalake_resolve :: "metalake_model \<Rightarrow> metalake_model \<Rightarrow> metalake_model" where
  "metalake_resolve plan state =
     plan\<lparr>mm_InUse := in_use_on_update (mm_InUse plan) (mm_InUse state),
       mm_ForceDestroy := force_on_update (mm_ForceDestroy plan) (mm_ForceDestroy state)\<rparr>"

definition metalake_Update ::
    "('a fw_scheme) \<Rightarrow> 'w metalake_api \<Rightarrow> diags + metalake_model \<Rightarrow> diags + metalake_model
       \<Rightarrow> (metalake_model state_write, 'w) step" where
  "metalake_Update fw api planGet stateGet =
     andThen (pure_step (both_get planGet stateGet)) (\<lambda>(plan0, state).
     let plan = metalake_resolve plan0 state in
     andThen (in_use_update ''metalake'' (ma_set_in_use api) (ma_update api) (ValueString (mm_Name state))
                (in_use_changed (mm_InUse plan) (mm_InUse state)) (ValueBool (mm_InUse plan))
                (metalake_updates fw plan state) (Inr (plan\<lparr>mm_Audit := mm_Audit state\<rparr>))
                (\<lambda>result. metalakeToState fw result plan) (\<lambda>m. ValueString (mm_Name m))) (\<lambda>m.
     done_with (Save (m\<lparr>mm_ID := mm_Name m\<rparr>))))"

definition metalake_Delete ::
    "'w metalake_api \<Rightarrow> diags + metalake_model \<Rightarrow> (metalake_model state_write, 'w) step" where
  "metalake_Delete api stateGet =
     andThen (pure_step stateGet) (\<lambda>state.
       in_use_delete ''metalake'' (ma_set_in_use api) (ma_drop api) (ValueString (mm_Name state))
         (ValueBool (mm_ForceDestroy state)) (ValueBool (mm_InUse state)))"

definition metalake_ImportState :: "string \<Rightarrow> diagnostic + (string \<times> string) list" where
  "metalake_ImportState reqID =
     (if reqID = [] \<or> CHR ''.'' \<in> set reqID
      then Inl (error_diag ''Invalid import ID'' (''Expected the metalake name without dots, got: '' @ reqID))
      else Inr [(''name'', reqID)])"

subsection \<open>The property diff meets its contract\<close>

lemma metalake_property_members:
  assumes "wf_map p" "wf_map c"
  shows "u \<in> set (metalake_propertyUpdates c p) \<longleftrightarrow>
      (\<exists>k v. u = SetMetalakePropertyRequest k v \<and> \<not> metalake_reserved k \<and> map_of p k = Some v \<and> map_of c k \<noteq> Some v) \<or>
      (\<exists>k. u = RemoveMetalakePropertyRequest k \<and> \<not> metalake_reserved k \<and> map_of p k = None \<and> map_of c k \<noteq> None)"
proof -
  have "u \<in> set (metalake_propertyUpdates c p) \<longleftrightarrow>
      (\<exists>(k, v) \<in> set c. \<not> metalake_reserved k \<and>
         (case map_of p k of None \<Rightarrow> u = RemoveMetalakePropertyRequest k
          | Some v' \<Rightarrow> v \<noteq> v' \<and> u = SetMetalakePropertyRequest k v')) \<or>
      (\<exists>(k, v) \<in> set p. \<not> metalake_reserved k \<and> map_of c k = None \<and> u = SetMetalakePropertyRequest k v)"
    unfolding metalake_propertyUpdates_def set_append set_concat set_map UN_iff Un_iff bex_simps(7) case_prod_beta
    by (rule arg_cong2 [where f = "(\<or>)"]; rule bex_cong [OF refl]; simp split: option.split; blast)
  also have "\<dots> \<longleftrightarrow>
      (\<exists>k v. map_of c k = Some v \<and> \<not> metalake_reserved k \<and>
         (case map_of p k of None \<Rightarrow> u = RemoveMetalakePropertyRequest k
          | Some v' \<Rightarrow> v \<noteq> v' \<and> u = SetMetalakePropertyRequest k v')) \<or>
      (\<exists>k v. map_of p k = Some v \<and> \<not> metalake_reserved k \<and> map_of c k = None \<and> u = SetMetalakePropertyRequest k v)"
    unfolding Bex_def split_paired_Ex prod.case map_of_entry [OF assms(1)] map_of_entry [OF assms(2)] ..
  finally show ?thesis
    by (cases u) (auto split: option.splits)
qed

interpretation metalake_props: property_diff "\<lambda>p c. metalake_propertyUpdates c p"
    SetMetalakePropertyRequest RemoveMetalakePropertyRequest metalake_reserved
  by unfold_locales (simp_all add: metalake_property_members)

subsection \<open>Properties\<close>

definition logged_metalake :: "'w metalake_api \<Rightarrow> ('w \<times> in_use_event list) metalake_api" where
  "logged_metalake api =
     \<lparr>ma_create = (\<lambda>req (w, es). case ma_create api req w of (r, w') \<Rightarrow> (r, w', es)),
      ma_get = (\<lambda>n (w, es). case ma_get api n w of (r, w') \<Rightarrow> (r, w', es)),
      ma_update = logging_put (ma_update api), ma_set_in_use = logging_patch (ma_set_in_use api),
      ma_drop = logging_drop (ma_drop api)\<rparr>"

lemma metalakeToState_in_use:
  "metalakeToState fw m state = Inr m' \<Longrightarrow> \<not> IsNull (mm_InUse state) \<Longrightarrow> mm_InUse m' = mm_InUse state"
  by (auto simp: metalakeToState_def map_sum_def split: sum.splits)

lemma metalake_update_run:
  assumes "mm_InUse state = TKnown on" "mm_InUse plan \<noteq> TNull"
    and "metalake_Update fw (logged_metalake api) (Inr plan) (Inr state) (w, []) = (r, w', es)"
  shows "orders_kept on es \<and>
    (\<forall>m. r = Inr (Save m) \<longrightarrow>
       mm_InUse m = in_use_on_update (mm_InUse plan) (TKnown on) \<and> flag_after on es = ValueBool (mm_InUse m))"
proof -
  define plan' where "plan' = metalake_resolve plan state"
  let ?changed = "in_use_changed (mm_InUse plan') (mm_InUse state)"
  let ?run = "in_use_update ''metalake'' (logging_patch (ma_set_in_use api)) (logging_put (ma_update api))
      (ValueString (mm_Name state)) ?changed (ValueBool (mm_InUse plan')) (metalake_updates fw plan' state)
      (Inr (plan'\<lparr>mm_Audit := mm_Audit state\<rparr>)) (\<lambda>result. metalakeToState fw result plan')
      (\<lambda>m. ValueString (mm_Name m)) (w, [])"
  have flag: "mm_InUse plan' = in_use_on_update (mm_InUse plan) (TKnown on)"
    by (simp add: plan'_def metalake_resolve_def assms(1))
  then obtain b where b: "mm_InUse plan' = TKnown b"
    using assms(2) by (cases "mm_InUse plan") (auto simp: in_use_on_update_def)
  have init: "on = (if ?changed then \<not> ValueBool (mm_InUse plan') else ValueBool (mm_InUse plan'))"
    by (auto simp: in_use_changed_def b assms(1))
  obtain q where q: "?run = (q, w', es)" and r: "r = map_sum (\<lambda>ds. ds) (\<lambda>m. Save (m\<lparr>mm_ID := mm_Name m\<rparr>)) q"
    using assms(3)
    by (auto simp: metalake_Update_def both_get_def andThen_pure andThen_def [of "in_use_update _ _ _ _ _ _ _ _ _ _"]
        done_with_def Let_def plan'_def [symmetric] logged_metalake_def split: prod.splits sum.splits)
  have saved: "mm_InUse m = mm_InUse plan'" if "q = Inr m" for m
    using in_use_update_result [OF q [unfolded that]] metalakeToState_in_use [of fw _ plan' m] b by auto
  note run = in_use_update_run [OF q init]
  show ?thesis
  proof (cases q)
    case (Inl ds)
    then show ?thesis using run r by simp
  next
    case (Inr m)
    then show ?thesis using run r saved [OF Inr] flag by simp
  qed
qed

text \<open>C3: Whatever the server answers to the single requests, an update sends the metadata request only
  while the metalake is enabled, and one that succeeds leaves the in-use flag of the server as the
  state it records says: the planned flag, or the recorded one when the plan leaves it unknown. An unforced
  drop is sent only while the metalake is disabled, and a deletion that fails leaves the flag as the
  state says unless the request that restores it failed too.\<close>

theorem metalake_in_use_protocol:
  assumes "mm_InUse state = TKnown on" "mm_InUse plan \<noteq> TNull"
  shows "(\<forall>r w' es. metalake_Update fw (logged_metalake api) (Inr plan) (Inr state) (w, []) = (r, w', es) \<longrightarrow>
      orders_kept on es \<and>
      (\<forall>m. r = Inr (Save m) \<longrightarrow>
         mm_InUse m = in_use_on_update (mm_InUse plan) (TKnown on) \<and> flag_after on es = ValueBool (mm_InUse m))) \<and>
    (\<forall>r w' es. metalake_Delete (logged_metalake api) (Inr state) (w, []) = (r, w', es) \<longrightarrow>
      orders_kept on es \<and>
      (r = Inr Remove \<or> flag_after on es = on \<or> Patched (ValueString (mm_Name state)) True False \<in> set es))"
proof (intro conjI allI impI)
  fix r w' es assume "metalake_Delete (logged_metalake api) (Inr state) (w, []) = (r, w', es)"
  then have "in_use_delete ''metalake'' (logging_patch (ma_set_in_use api)) (logging_drop (ma_drop api))
      (ValueString (mm_Name state)) (ValueBool (mm_ForceDestroy state)) on (w, []) = (r, w', es)"
    by (simp add: metalake_Delete_def andThen_pure assms(1) logged_metalake_def)
  from in_use_delete_run [OF this]
  show "orders_kept on es" "r = Inr Remove \<or> flag_after on es = on \<or> Patched (ValueString (mm_Name state)) True False \<in> set es"
    by blast+
next
  fix r w' es
  assume "metalake_Update fw (logged_metalake api) (Inr plan) (Inr state) (w, []) = (r, w', es)"
  note run = metalake_update_run [OF assms this]
  show "orders_kept on es" by (rule conjunct1 [OF run])
  fix m assume "r = Inr (Save m)"
  with conjunct2 [OF run] show "mm_InUse m = in_use_on_update (mm_InUse plan) (TKnown on)" "flag_after on es = ValueBool (mm_InUse m)"
    by blast+
qed

text \<open>A server with one metalake whose world is the in-use flag. A disabled metalake is not
  altered, and without force the metalake is never dropped: it is not empty.\<close>

definition flag_metalake :: "bool metalake_api" where
  "flag_metalake =
     \<lparr>ma_create = (\<lambda>req _. (Inr \<lparr>ml_Name = mcr_Name req, ml_Comment = mcr_Comment req,
         ml_Properties = mcr_Properties req, ml_Audit = None\<rparr>, True)),
      ma_get = (\<lambda>n on. (Inr \<lparr>ml_Name = n, ml_Comment = [], ml_Properties = [], ml_Audit = None\<rparr>, on)),
      ma_update = (\<lambda>n us on. (if on then Inr \<lparr>ml_Name = n, ml_Comment = ''new'', ml_Properties = [], ml_Audit = None\<rparr>
         else Inl refused, on)),
      ma_set_in_use = (\<lambda>n b _. (Inr (), b)),
      ma_drop = (\<lambda>n force on. (if force then Inr True else Inl refused, on))\<rparr>"

definition bare_metalake :: "string \<Rightarrow> bool tfval \<Rightarrow> metalake_model" where
  "bare_metalake comment inUse =
     \<lparr>mm_ID = TKnown ''m'', mm_Name = TKnown ''m'', mm_Comment = TKnown comment, mm_Properties = TNull,
      mm_InUse = inUse, mm_ForceDestroy = TKnown False, mm_Audit = TNull\<rparr>"

theorem metalake_in_use_protocol_witness:
  "orders_kept False (snd (snd (metalake_Update strict_fw (logged_metalake flag_metalake)
       (Inr (bare_metalake ''new'' TUnknown)) (Inr (bare_metalake ''old'' (TKnown False))) (False, [])))) \<and>
   snd (metalake_Update strict_fw (logged_metalake flag_metalake)
       (Inr (bare_metalake ''new'' TUnknown)) (Inr (bare_metalake ''old'' (TKnown False))) (False, [])) =
     (False, [Patched ''m'' True True, PutSent ''m'' True, Patched ''m'' False True])"
proof
  have "mm_InUse (bare_metalake ''old'' (TKnown False)) = TKnown False" "mm_InUse (bare_metalake ''new'' TUnknown) \<noteq> TNull"
    by (simp_all add: bare_metalake_def)
  from metalake_in_use_protocol [OF this, of strict_fw flag_metalake False]
  show "orders_kept False (snd (snd (metalake_Update strict_fw (logged_metalake flag_metalake)
       (Inr (bare_metalake ''new'' TUnknown)) (Inr (bare_metalake ''old'' (TKnown False))) (False, []))))"
    by (metis prod.collapse)
qed code_simp

text \<open>A metalake planned as disabled is created first and disabled afterwards. When the second
  request fails the handler reports an error and records nothing, although the metalake exists: it
  is not tracked, and the next apply tries to create it again.\<close>

theorem metalake_created_but_untracked:
  assumes "mapToProperties fw (mm_Properties plan) = Inr props" "mm_InUse plan = TKnown False"
    and "ma_create api \<lparr>mcr_Name = ValueString (mm_Name plan), mcr_Comment = ValueString (mm_Comment plan),
           mcr_Properties = metalake_filterReservedProperties props\<rparr> w = (Inr created, w1)"
    and "ma_set_in_use api (ValueString (mm_Name plan)) False w1 = (Inl err, w2)"
  shows "metalake_Create fw api (Inr plan) w = (Inl (NewResourceError ''disabling metalake'' (ValueString (mm_Name plan)) err), w2)"
  using assms by (simp add: metalake_Create_def set_in_use_def step_defs Let_def inUseOnCreate_def)

theorem metalake_created_but_untracked_witness:
  "metalake_Create strict_fw (flag_metalake\<lparr>ma_set_in_use := \<lambda>n b on. (Inl refused, on)\<rparr>)
     (Inr (bare_metalake ''c'' (TKnown False))) False = (Inl (NewResourceError ''disabling metalake'' ''m'' refused), True)"
  using metalake_created_but_untracked [of strict_fw "bare_metalake ''c'' (TKnown False)" "[]"
      "flag_metalake\<lparr>ma_set_in_use := \<lambda>n b on. (Inl refused, on)\<rparr>" False _ True refused True]
  by (simp add: mapToProperties_def bare_metalake_def flag_metalake_def metalake_filterReservedProperties_def)

end
