(* ===== verification/CatalogResource.thy ===== *)
theory CatalogResource
  imports MetalakeResource
begin

section \<open>The catalog resource (resources/catalog/resource.go, models/catalog.go)\<close>

text \<open>
  The handlers of a catalog, over the same in-use protocol as the metalake. They differ from the
  metalake's in three ways that the definitions show: the property bag is read element by element
  and cannot fail, the property requests are not filtered by the reserved key, and the state is
  refreshed (without an answer of the server) also when an update has nothing to send.
\<close>

subsection \<open>Data\<close>

record catalog =
  ca_Name :: string
  ca_Type :: string
  ca_Provider :: string
  ca_Comment :: string
  ca_Properties :: "string gomap"
  ca_Audit :: "audit option"

record catalog_create_request =
  ccr_Name :: string
  ccr_Type :: string
  ccr_Provider :: string
  ccr_Comment :: string
  ccr_Properties :: "string gomap"

datatype catalog_update =
  RenameCatalogRequest string
| UpdateCatalogCommentRequest string
| SetCatalogPropertyRequest string string
| RemoveCatalogPropertyRequest string

record catalog_model =
  cm_ID :: "string tfval"
  cm_Metalake :: "string tfval"
  cm_Name :: "string tfval"
  cm_Type :: "string tfval"
  cm_Provider :: "string tfval"
  cm_Comment :: "string tfval"
  cm_Properties :: tf_map
  cm_InUse :: "bool tfval"
  cm_ForceDestroy :: "bool tfval"
  cm_Audit :: "audit_tfsdk tfval"

record 'w catalog_api =
  cta_create :: "string \<Rightarrow> catalog_create_request \<Rightarrow> 'w \<Rightarrow> (gerror + catalog) \<times> 'w"
  cta_get :: "string \<Rightarrow> string \<Rightarrow> 'w \<Rightarrow> (gerror + catalog) \<times> 'w"
  cta_update :: "string \<Rightarrow> (catalog_update, catalog, 'w) put"
  cta_set_in_use :: "string \<Rightarrow> 'w patch"
  cta_drop :: "string \<Rightarrow> 'w dropping"

subsection \<open>Properties and state\<close>

definition reservedCatalogProperties :: "string \<Rightarrow> bool" where
  "reservedCatalogProperties k \<longleftrightarrow> k = ''in-use''"

definition mapFromTF :: "tf_map \<Rightarrow> string gomap" where
  "mapFromTF v = (case v of TKnown m \<Rightarrow> map (\<lambda>(k, x). (k, ValueString x)) m | _ \<Rightarrow> [])"

definition mergeCatalogProperties :: "('a fw_scheme) \<Rightarrow> tf_map \<Rightarrow> string gomap \<Rightarrow> diags + tf_map" where
  "mergeCatalogProperties fw properties serverProps =
     (case properties of
        TUnknown \<Rightarrow> Inr TNull
      | TNull \<Rightarrow>
          (let serverOnly = filter (\<lambda>(k, _). \<not> reservedCatalogProperties k) serverProps
           in Inr (if serverOnly = [] then TNull else TKnown (known_map serverOnly)))
      | TKnown m \<Rightarrow>
          map_sum (\<lambda>ds. ds) (\<lambda>planned. TKnown (known_map (merge_managed True serverProps planned))) (fw_map fw m))"

definition catalog_defaults :: "string \<Rightarrow> catalog_model \<Rightarrow> catalog_model" where
  "catalog_defaults metalake m =
     m\<lparr>cm_Metalake := TKnown metalake,
       cm_InUse := (if IsNull (cm_InUse m) then TKnown True else cm_InUse m),
       cm_ForceDestroy := (if IsNull (cm_ForceDestroy m) then TKnown False else cm_ForceDestroy m)\<rparr>"

definition setStateFromCatalog ::
    "('a fw_scheme) \<Rightarrow> string \<Rightarrow> catalog option \<Rightarrow> catalog_model \<Rightarrow> diags + catalog_model" where
  "setStateFromCatalog fw metalake answer model =
     (case answer of
        Some c \<Rightarrow>
          map_sum (\<lambda>ds. ds)
            (\<lambda>props. catalog_defaults metalake
               (model\<lparr>cm_Name := TKnown (ca_Name c), cm_Type := TKnown (ca_Type c), cm_Provider := TKnown (ca_Provider c),
                  cm_Comment := TKnown (ca_Comment c), cm_ID := TKnown (metalake @ ''.'' @ ca_Name c),
                  cm_Properties := props, cm_Audit := AuditToObjectValue (ca_Audit c)\<rparr>))
            (mergeCatalogProperties fw (cm_Properties model) (ca_Properties c))
      | None \<Rightarrow>
          map_sum (\<lambda>ds. ds)
            (\<lambda>props. catalog_defaults metalake
               (model\<lparr>cm_ID := TKnown (metalake @ ''.'' @ ValueString (cm_Name model)), cm_Properties := props\<rparr>))
            (mergeCatalogProperties fw (cm_Properties model) []))"

definition catalog_propertyUpdates :: "string gomap \<Rightarrow> string gomap \<Rightarrow> catalog_update list" where
  "catalog_propertyUpdates oldProps newProps =
     concat (map (\<lambda>(k, v). if map_of oldProps k \<noteq> Some v then [SetCatalogPropertyRequest k v] else []) newProps) @
     concat (map (\<lambda>(k, _). if map_of newProps k = None then [RemoveCatalogPropertyRequest k] else []) oldProps)"

subsection \<open>Handlers\<close>

definition catalog_Create ::
    "('a fw_scheme) \<Rightarrow> 'w catalog_api \<Rightarrow> diags + catalog_model \<Rightarrow> (catalog_model state_write, 'w) step" where
  "catalog_Create fw api planGet =
     andThen (pure_step planGet) (\<lambda>plan.
     andThen (calling (cta_create api (ValueString (cm_Metalake plan))
                \<lparr>ccr_Name = ValueString (cm_Name plan), ccr_Type = ValueString (cm_Type plan),
                 ccr_Provider = ValueString (cm_Provider plan), ccr_Comment = ValueString (cm_Comment plan),
                 ccr_Properties = mapFromTF (cm_Properties plan)\<rparr>)
              (NewResourceError ''creating catalog'' (ValueString (cm_Name plan)))) (\<lambda>result.
     let plan' = plan\<lparr>cm_InUse := inUseOnCreate (cm_InUse plan), cm_ForceDestroy := force_on_create (cm_ForceDestroy plan)\<rparr> in
     andThen (if \<not> ValueBool (cm_InUse plan')
              then set_in_use (cta_set_in_use api (ValueString (cm_Metalake plan))) ''disabling catalog''
                     (ValueString (cm_Name plan)) False
              else done_with ()) (\<lambda>_.
     andThen (pure_step (setStateFromCatalog fw (ValueString (cm_Metalake plan)) (Some result) plan')) (\<lambda>m.
     done_with (Save m)))))"

definition catalog_Read ::
    "('a fw_scheme) \<Rightarrow> 'w catalog_api \<Rightarrow> diags + catalog_model \<Rightarrow> (catalog_model state_write, 'w) step" where
  "catalog_Read fw api stateGet =
     andThen (pure_step stateGet) (\<lambda>state w.
       case cta_get api (ValueString (cm_Metalake state)) (ValueString (cm_Name state)) w of
         (Inl err, w') \<Rightarrow>
           (if IsNotFoundError err then Inr Remove
            else Inl (NewResourceError ''reading catalog'' (ValueString (cm_Name state)) err), w')
       | (Inr c, w') \<Rightarrow>
           (map_sum (\<lambda>ds. ds) Save (setStateFromCatalog fw (ValueString (cm_Metalake state)) (Some c) state), w'))"

definition catalog_updates :: "catalog_model \<Rightarrow> catalog_model \<Rightarrow> catalog_update list" where
  "catalog_updates plan state =
     (if cm_Name plan \<noteq> cm_Name state then [RenameCatalogRequest (ValueString (cm_Name plan))] else []) @
     (if \<not> IsUnknown (cm_Comment plan) \<and> cm_Comment plan \<noteq> cm_Comment state
      then [UpdateCatalogCommentRequest (ValueString (cm_Comment plan))] else []) @
     (if IsUnknown (cm_Properties plan) then []
      else catalog_propertyUpdates (mapFromTF (cm_Properties state)) (mapFromTF (cm_Properties plan)))"

definition catalog_resolve :: "catalog_model \<Rightarrow> catalog_model \<Rightarrow> catalog_model" where
  "catalog_resolve plan state =
     plan\<lparr>cm_InUse := in_use_on_update (cm_InUse plan) (cm_InUse state),
       cm_ForceDestroy := force_on_update (cm_ForceDestroy plan) (cm_ForceDestroy state)\<rparr>"

definition catalog_Update ::
    "('a fw_scheme) \<Rightarrow> 'w catalog_api \<Rightarrow> diags + catalog_model \<Rightarrow> diags + catalog_model
       \<Rightarrow> (catalog_model state_write, 'w) step" where
  "catalog_Update fw api planGet stateGet =
     andThen (pure_step (both_get planGet stateGet)) (\<lambda>(plan0, state).
     let plan = catalog_resolve plan0 state; metalake = ValueString (cm_Metalake state) in
     andThen (in_use_update ''catalog'' (cta_set_in_use api metalake) (cta_update api metalake) (ValueString (cm_Name state))
                (in_use_changed (cm_InUse plan) (cm_InUse state)) (ValueBool (cm_InUse plan))
                (Inr (catalog_updates plan state))
                (setStateFromCatalog fw metalake None (plan\<lparr>cm_Audit := cm_Audit state\<rparr>))
                (\<lambda>result. setStateFromCatalog fw metalake (Some result) plan) (\<lambda>m. ValueString (cm_Name m))) (\<lambda>m.
     done_with (Save m)))"

definition catalog_Delete ::
    "'w catalog_api \<Rightarrow> diags + catalog_model \<Rightarrow> (catalog_model state_write, 'w) step" where
  "catalog_Delete api stateGet =
     andThen (pure_step stateGet) (\<lambda>state.
       in_use_delete ''catalog'' (cta_set_in_use api (ValueString (cm_Metalake state)))
         (cta_drop api (ValueString (cm_Metalake state))) (ValueString (cm_Name state))
         (ValueBool (cm_ForceDestroy state)) (ValueBool (cm_InUse state)))"

text \<open>\<open>strings.LastIndex\<close> with the text before and after the match.\<close>

definition split_last_dot :: "string \<Rightarrow> (string \<times> string) option" where
  "split_last_dot s =
     (if CHR ''.'' \<in> set s
      then Some (rev (tl (dropWhile (\<lambda>c. c \<noteq> CHR ''.'') (rev s))), rev (takeWhile (\<lambda>c. c \<noteq> CHR ''.'') (rev s)))
      else None)"

definition catalog_ImportState :: "string \<Rightarrow> diagnostic + (string \<times> string) list" where
  "catalog_ImportState reqID =
     (case split_last_dot reqID of
        Some (metalake, name) \<Rightarrow>
          if metalake = [] \<or> name = []
          then Inl (error_diag ''Invalid import ID'' (''Expected 'metalake.catalog_name', got: '' @ reqID))
          else Inr [(''metalake'', metalake), (''name'', name), (''id'', reqID)]
      | None \<Rightarrow> Inl (error_diag ''Invalid import ID'' (''Expected 'metalake.catalog_name', got: '' @ reqID)))"

subsection \<open>The property diff meets its contract\<close>

lemma catalog_property_members:
  assumes "wf_map p" "wf_map c"
  shows "u \<in> set (catalog_propertyUpdates c p) \<longleftrightarrow>
      (\<exists>k v. u = SetCatalogPropertyRequest k v \<and> \<not> False \<and> map_of p k = Some v \<and> map_of c k \<noteq> Some v) \<or>
      (\<exists>k. u = RemoveCatalogPropertyRequest k \<and> \<not> False \<and> map_of p k = None \<and> map_of c k \<noteq> None)"
proof -
  have "u \<in> set (catalog_propertyUpdates c p) \<longleftrightarrow>
      (\<exists>(k, v) \<in> set p. map_of c k \<noteq> Some v \<and> u = SetCatalogPropertyRequest k v) \<or>
      (\<exists>(k, v) \<in> set c. map_of p k = None \<and> u = RemoveCatalogPropertyRequest k)"
    unfolding catalog_propertyUpdates_def set_append set_concat set_map UN_iff Un_iff bex_simps(7) case_prod_beta
    by (rule arg_cong2 [where f = "(\<or>)"]; rule bex_cong [OF refl]; simp; blast)
  also have "\<dots> \<longleftrightarrow>
      (\<exists>k v. map_of p k = Some v \<and> map_of c k \<noteq> Some v \<and> u = SetCatalogPropertyRequest k v) \<or>
      (\<exists>k v. map_of c k = Some v \<and> map_of p k = None \<and> u = RemoveCatalogPropertyRequest k)"
    unfolding Bex_def split_paired_Ex prod.case map_of_entry [OF assms(1)] map_of_entry [OF assms(2)] ..
  finally show ?thesis by (cases u) auto
qed

interpretation catalog_props: property_diff "\<lambda>p c. catalog_propertyUpdates c p"
    SetCatalogPropertyRequest RemoveCatalogPropertyRequest "\<lambda>_. False"
  by unfold_locales (simp_all add: catalog_property_members)

subsection \<open>Properties\<close>

definition logged_catalog :: "'w catalog_api \<Rightarrow> ('w \<times> in_use_event list) catalog_api" where
  "logged_catalog api =
     \<lparr>cta_create = (\<lambda>m req (w, es). case cta_create api m req w of (r, w') \<Rightarrow> (r, w', es)),
      cta_get = (\<lambda>m n (w, es). case cta_get api m n w of (r, w') \<Rightarrow> (r, w', es)),
      cta_update = (\<lambda>m. logging_put (cta_update api m)), cta_set_in_use = (\<lambda>m. logging_patch (cta_set_in_use api m)),
      cta_drop = (\<lambda>m. logging_drop (cta_drop api m))\<rparr>"

lemma setState_in_use:
  "setStateFromCatalog fw ml c model = Inr m' \<Longrightarrow> \<not> IsNull (cm_InUse model) \<Longrightarrow> cm_InUse m' = cm_InUse model"
  by (auto simp: setStateFromCatalog_def catalog_defaults_def map_sum_def split: sum.splits option.splits)

lemma catalog_update_run:
  assumes "cm_InUse state = TKnown on" "cm_InUse plan \<noteq> TNull"
    and "catalog_Update fw (logged_catalog api) (Inr plan) (Inr state) (w, []) = (r, w', es)"
  shows "orders_kept on es \<and>
    (\<forall>m. r = Inr (Save m) \<longrightarrow>
       cm_InUse m = in_use_on_update (cm_InUse plan) (TKnown on) \<and> flag_after on es = ValueBool (cm_InUse m))"
proof -
  define plan' where "plan' = catalog_resolve plan state"
  let ?ml = "ValueString (cm_Metalake state)"
  let ?changed = "in_use_changed (cm_InUse plan') (cm_InUse state)"
  let ?run = "in_use_update ''catalog'' (logging_patch (cta_set_in_use api ?ml)) (logging_put (cta_update api ?ml))
      (ValueString (cm_Name state)) ?changed (ValueBool (cm_InUse plan')) (Inr (catalog_updates plan' state))
      (setStateFromCatalog fw ?ml None (plan'\<lparr>cm_Audit := cm_Audit state\<rparr>))
      (\<lambda>result. setStateFromCatalog fw ?ml (Some result) plan') (\<lambda>m. ValueString (cm_Name m)) (w, [])"
  have flag: "cm_InUse plan' = in_use_on_update (cm_InUse plan) (TKnown on)"
    by (simp add: plan'_def catalog_resolve_def assms(1))
  then obtain b where b: "cm_InUse plan' = TKnown b"
    using assms(2) by (cases "cm_InUse plan") (auto simp: in_use_on_update_def)
  have init: "on = (if ?changed then \<not> ValueBool (cm_InUse plan') else ValueBool (cm_InUse plan'))"
    by (auto simp: in_use_changed_def b assms(1))
  obtain q where q: "?run = (q, w', es)" and r: "r = map_sum (\<lambda>ds. ds) Save q"
    using assms(3)
    by (auto simp: catalog_Update_def both_get_def andThen_pure andThen_def [of "in_use_update _ _ _ _ _ _ _ _ _ _"]
        done_with_def Let_def plan'_def [symmetric] logged_catalog_def split: prod.splits sum.splits)
  have saved: "cm_InUse m = cm_InUse plan'" if "q = Inr m" for m
    using in_use_update_result [OF q [unfolded that]]
      setState_in_use [of fw ?ml _ plan' m] setState_in_use [of fw ?ml _ "plan'\<lparr>cm_Audit := cm_Audit state\<rparr>" m] b by auto
  note run = in_use_update_run [OF q init]
  show ?thesis
  proof (cases q)
    case (Inl ds)
    then show ?thesis using run r by simp
  next
    case (Inr m)
    then show ?thesis using run r saved [OF Inr] flag by simp
  qed
qed

text \<open>The catalog's handlers keep the in-use protocol too: the metadata request goes out only while
  the catalog is enabled, a successful update leaves the flag the recorded state names, an unforced
  drop goes out only while it is disabled, and a failed deletion restores the flag.\<close>

theorem catalog_in_use_protocol:
  assumes "cm_InUse state = TKnown on" "cm_InUse plan \<noteq> TNull"
  shows "(\<forall>r w' es. catalog_Update fw (logged_catalog api) (Inr plan) (Inr state) (w, []) = (r, w', es) \<longrightarrow>
      orders_kept on es \<and>
      (\<forall>m. r = Inr (Save m) \<longrightarrow>
         cm_InUse m = in_use_on_update (cm_InUse plan) (TKnown on) \<and> flag_after on es = ValueBool (cm_InUse m))) \<and>
    (\<forall>r w' es. catalog_Delete (logged_catalog api) (Inr state) (w, []) = (r, w', es) \<longrightarrow>
      orders_kept on es \<and>
      (r = Inr Remove \<or> flag_after on es = on \<or> Patched (ValueString (cm_Name state)) True False \<in> set es))"
proof (intro conjI allI impI)
  fix r w' es assume "catalog_Delete (logged_catalog api) (Inr state) (w, []) = (r, w', es)"
  then have "in_use_delete ''catalog'' (logging_patch (cta_set_in_use api (ValueString (cm_Metalake state))))
      (logging_drop (cta_drop api (ValueString (cm_Metalake state))))
      (ValueString (cm_Name state)) (ValueBool (cm_ForceDestroy state)) on (w, []) = (r, w', es)"
    by (simp add: catalog_Delete_def andThen_pure assms(1) logged_catalog_def)
  from in_use_delete_run [OF this]
  show "orders_kept on es" "r = Inr Remove \<or> flag_after on es = on \<or> Patched (ValueString (cm_Name state)) True False \<in> set es"
    by blast+
next
  fix r w' es
  assume "catalog_Update fw (logged_catalog api) (Inr plan) (Inr state) (w, []) = (r, w', es)"
  note run = catalog_update_run [OF assms this]
  show "orders_kept on es" by (rule conjunct1 [OF run])
  fix m assume "r = Inr (Save m)"
  with conjunct2 [OF run] show "cm_InUse m = in_use_on_update (cm_InUse plan) (TKnown on)" "flag_after on es = ValueBool (cm_InUse m)"
    by blast+
qed

text \<open>A server with one catalog whose world is its name and in-use flag; requests for another name are
  answered 404, and nothing is dropped.\<close>

definition no_such_catalog :: gerror where
  "no_such_catalog = ErrHTTP \<lparr>he_StatusCode = 404, he_Status = ''404 Not Found'', he_Response = None\<rparr>"

definition answer_catalog :: "string \<Rightarrow> catalog" where
  "answer_catalog n = \<lparr>ca_Name = n, ca_Type = ''relational'', ca_Provider = ''hive'', ca_Comment = [], ca_Properties = [], ca_Audit = None\<rparr>"

definition renamed_to :: "catalog_update list \<Rightarrow> string \<Rightarrow> string" where
  "renamed_to us n = (case us of RenameCatalogRequest m # _ \<Rightarrow> m | _ \<Rightarrow> n)"

definition name_catalog :: "(string \<times> bool) catalog_api" where
  "name_catalog =
     \<lparr>cta_create = (\<lambda>_ req _. (Inr (answer_catalog (ccr_Name req)), ccr_Name req, True)),
      cta_get = (\<lambda>_ n w. (if n = fst w then Inr (answer_catalog n) else Inl no_such_catalog, w)),
      cta_update = (\<lambda>_ n us w. if n \<noteq> fst w then (Inl no_such_catalog, w) else if \<not> snd w then (Inl refused, w)
         else (Inr (answer_catalog (renamed_to us n)), renamed_to us n, True)),
      cta_set_in_use = (\<lambda>_ n b w. if n = fst w then (Inr (), n, b) else (Inl no_such_catalog, w)),
      cta_drop = (\<lambda>_ n force w. (Inl refused, w))\<rparr>"

definition bare_catalog :: "string \<Rightarrow> bool tfval \<Rightarrow> catalog_model" where
  "bare_catalog n inUse =
     \<lparr>cm_ID = TKnown (''m.'' @ n), cm_Metalake = TKnown ''m'', cm_Name = TKnown n, cm_Type = TKnown ''relational'',
      cm_Provider = TKnown ''hive'', cm_Comment = TKnown [], cm_Properties = TNull, cm_InUse = inUse,
      cm_ForceDestroy = TKnown False, cm_Audit = TNull\<rparr>"

theorem catalog_in_use_protocol_witness:
  "orders_kept True (snd (snd (catalog_Delete (logged_catalog name_catalog)
       (Inr (bare_catalog ''c'' (TKnown True))) ((''c'', True), [])))) \<and>
   snd (catalog_Delete (logged_catalog name_catalog) (Inr (bare_catalog ''c'' (TKnown True))) ((''c'', True), [])) =
     ((''c'', True), [Patched ''c'' False True, Dropped ''c'' False False, Patched ''c'' True True])"
proof
  have "cm_InUse (bare_catalog ''c'' (TKnown True)) = TKnown True" "cm_InUse (bare_catalog ''c'' TUnknown) \<noteq> TNull"
    by (simp_all add: bare_catalog_def)
  from conjunct2 [OF catalog_in_use_protocol [OF this, of strict_fw name_catalog "(''c'', True)"]]
  show "orders_kept True (snd (snd (catalog_Delete (logged_catalog name_catalog)
       (Inr (bare_catalog ''c'' (TKnown True))) ((''c'', True), []))))"
    by (metis prod.collapse)
qed code_simp

text \<open>Renaming and disabling a catalog in one apply: when the rename succeeds and the final disabling request
  fails, the handler reports an error and the recorded state keeps the old name; the next refresh
  finds nothing under it and drops the catalog from the state, although it exists.\<close>

theorem catalog_lost_after_rename:
  assumes "cm_Name state = TKnown old" "cm_Name plan = TKnown new" "old \<noteq> new"
    and "cm_InUse state = TKnown True" "cm_InUse plan = TKnown False"
    and "cta_update api (ValueString (cm_Metalake state)) old (catalog_updates (catalog_resolve plan state) state) w = (Inr c, w1)"
    and "ca_Name c = new"
    and "mergeCatalogProperties fw (cm_Properties plan) (ca_Properties c) = Inr props"
    and "cta_set_in_use api (ValueString (cm_Metalake state)) new False w1 = (Inl err, w2)"
    and "cta_get api (ValueString (cm_Metalake state)) old w2 = (Inl missing, w3)" "IsNotFoundError missing"
  shows "catalog_Update fw api (Inr plan) (Inr state) w = (Inl (NewResourceError ''disabling catalog'' new err), w2) \<and>
    catalog_Read fw api (Inr state) w2 = (Inr Remove, w3)"
proof
  have us: "catalog_updates (catalog_resolve plan state) state \<noteq> []"
    using assms(1-3) by (simp add: catalog_updates_def catalog_resolve_def)
  have resolved: "cm_InUse (catalog_resolve plan state) = TKnown False"
      "cm_Properties (catalog_resolve plan state) = cm_Properties plan"
    by (simp_all add: catalog_resolve_def in_use_on_update_def assms(5))
  have absorbed: "\<exists>m. setStateFromCatalog fw (ValueString (cm_Metalake state)) (Some c) (catalog_resolve plan state) = Inr m
      \<and> cm_Name m = TKnown new"
    by (simp add: setStateFromCatalog_def resolved assms(7,8) catalog_defaults_def)
  then obtain m where m: "setStateFromCatalog fw (ValueString (cm_Metalake state)) (Some c) (catalog_resolve plan state) = Inr m"
      "cm_Name m = TKnown new" by blast
  show "catalog_Update fw api (Inr plan) (Inr state) w = (Inl (NewResourceError ''disabling catalog'' new err), w2)"
    using assms(9)
    by (simp add: catalog_Update_def both_get_def in_use_update_def put_or_restore_def set_in_use_def step_defs Let_def
        in_use_changed_def resolved assms(1,4) us assms(6) m)
  show "catalog_Read fw api (Inr state) w2 = (Inr Remove, w3)"
    by (simp add: catalog_Read_def andThen_pure assms(1,10,11))
qed

definition stuck_catalog :: "(string \<times> bool) catalog_api" where
  "stuck_catalog = name_catalog\<lparr>cta_set_in_use := \<lambda>_ _ _ w. (Inl refused, w)\<rparr>"

theorem catalog_lost_after_rename_witness:
  "catalog_Read strict_fw stuck_catalog (Inr (bare_catalog ''old'' (TKnown True)))
     (snd (catalog_Update strict_fw stuck_catalog (Inr (bare_catalog ''new'' (TKnown False)))
        (Inr (bare_catalog ''old'' (TKnown True))) (''old'', True))) = (Inr Remove, (''new'', True))"
proof -
  have nf: "IsNotFoundError no_such_catalog" and ne: "''old'' \<noteq> ''new''" by code_simp+
  have us: "catalog_updates (catalog_resolve (bare_catalog ''new'' (TKnown False)) (bare_catalog ''old'' (TKnown True)))
      (bare_catalog ''old'' (TKnown True)) = [RenameCatalogRequest ''new'']" by code_simp
  have run: "catalog_Update strict_fw stuck_catalog (Inr (bare_catalog ''new'' (TKnown False)))
        (Inr (bare_catalog ''old'' (TKnown True))) (''old'', True)
      = (Inl (NewResourceError ''disabling catalog'' ''new'' refused), (''new'', True)) \<and>
      catalog_Read strict_fw stuck_catalog (Inr (bare_catalog ''old'' (TKnown True))) (''new'', True)
      = (Inr Remove, (''new'', True))"
    by (rule catalog_lost_after_rename [of _ _ _ _ _ _ "answer_catalog ''new''" "(''new'', True)" _ TNull _ _ no_such_catalog, OF _ _ ne])
      (simp_all only: us nf ne not_False_eq_True, simp_all add: bare_catalog_def stuck_catalog_def name_catalog_def renamed_to_def
        answer_catalog_def mergeCatalogProperties_def)
  then show ?thesis by simp
qed

text \<open>The property requests of a metalake and of a catalog converge: carried out one after the
  other by a server that sets and removes properties as they say, they turn the current into the
  planned properties. The metalake's never name a reserved key; the catalog's are not filtered and
  leave that to the validator of its schema.\<close>

theorem property_updates_converge:
  assumes "wf_map p" "wf_map c"
    and "property_server SetMetalakePropertyRequest RemoveMetalakePropertyRequest view app"
    and "property_server SetCatalogPropertyRequest RemoveCatalogPropertyRequest cview capp"
    and "\<And>k. \<not> metalake_reserved k \<Longrightarrow> view s k = map_of c k" "\<And>k. cview cs k = map_of c k"
  shows "view (fold app (metalake_propertyUpdates c p) s) k = (if metalake_reserved k then view s k else map_of p k) \<and>
    cview (fold capp (catalog_propertyUpdates c p) cs) k = map_of p k"
  using metalake_props.converges [of p c view app s k] catalog_props.converges [of p c cview capp cs k] assms by simp

definition run_metalake :: "metalake_update \<Rightarrow> (string \<Rightarrow> string option) \<Rightarrow> string \<Rightarrow> string option" where
  "run_metalake u m =
     (case u of SetMetalakePropertyRequest k v \<Rightarrow> m(k \<mapsto> v) | RemoveMetalakePropertyRequest k \<Rightarrow> m(k := None) | _ \<Rightarrow> m)"

definition run_catalog :: "catalog_update \<Rightarrow> (string \<Rightarrow> string option) \<Rightarrow> string \<Rightarrow> string option" where
  "run_catalog u m =
     (case u of SetCatalogPropertyRequest k v \<Rightarrow> m(k \<mapsto> v) | RemoveCatalogPropertyRequest k \<Rightarrow> m(k := None) | _ \<Rightarrow> m)"

theorem property_updates_converge_witness:
  "fold run_metalake (metalake_propertyUpdates [(''a'', ''1''), (''b'', ''2'')] [(''b'', ''3'')])
     (map_of [(''a'', ''1''), (''b'', ''2'')]) ''b'' = Some ''3''"
  using property_updates_converge [of "[(''b'', ''3'')]" "[(''a'', ''1''), (''b'', ''2'')]" "\<lambda>m. m" run_metalake "\<lambda>m. m" run_catalog
      "map_of [(''a'', ''1''), (''b'', ''2'')]" "map_of [(''a'', ''1''), (''b'', ''2'')]" "''b''"]
  by (simp add: property_server_def run_metalake_def run_catalog_def metalake_reserved_def)

end
