(* ===== verification/RoleResource.thy ===== *)
theory RoleResource
  imports Handlers CatalogResource Version
begin

section \<open>The role resource (resources/role/resource.go, models/role.go)\<close>

text \<open>
  A role is a name with securable objects, each with the privileges granted or denied on it.
  The model holds Terraform sets (their elements as a list, each possibly unknown); the API the
  structures of roles.yaml. Gravitino answers in lower case, so \<open>securableObjectsToTF\<close> reports
  canonical spellings, and an update overrides all privileges when \<open>securableObjectsChanged\<close>
  finds a difference between the planned and the recorded sets.
\<close>

subsection \<open>Data\<close>

record privilege =
  pv_Name :: string
  pv_Condition :: string

record securable_object =
  so_FullName :: string
  so_Type :: string
  so_Privileges :: "privilege list"

record role =
  ro_Name :: string
  ro_Properties :: "string gomap option"
  ro_SecurableObjects :: "securable_object list"
  ro_Audit :: "audit option"

record role_create_request =
  rcr_Name :: string
  rcr_Properties :: "string gomap"
  rcr_SecurableObjects :: "securable_object list"

record privilege_model =
  pm_Name :: "string tfval"
  pm_Condition :: "string tfval"

record securable_object_model =
  sm_FullName :: "string tfval"
  sm_Type :: "string tfval"
  sm_Privileges :: "privilege_model tfval list tfval"

record role_model =
  rm_ID :: "string tfval"
  rm_Metalake :: "string tfval"
  rm_Name :: "string tfval"
  rm_Properties :: tf_map
  rm_SecurableObjects :: "securable_object_model tfval list tfval"
  rm_Audit :: "audit_tfsdk tfval"

record 'w role_api =
  ra_create :: "string \<Rightarrow> role_create_request \<Rightarrow> 'w \<Rightarrow> (gerror + role) \<times> 'w"
  ra_get :: "string \<Rightarrow> string \<Rightarrow> 'w \<Rightarrow> (gerror + role) \<times> 'w"
  ra_override :: "string \<Rightarrow> string \<Rightarrow> securable_object list \<Rightarrow> 'w \<Rightarrow> (gerror + role) \<times> 'w"
  ra_delete :: "string \<Rightarrow> string \<Rightarrow> 'w \<Rightarrow> (gerror + bool) \<times> 'w"

subsection \<open>The spellings the schema admits (models/privilege_names.go)\<close>

definition AllPrivileges :: "string list" where
  "AllPrivileges = [''CREATE_CATALOG'', ''USE_CATALOG'', ''CREATE_SCHEMA'', ''USE_SCHEMA'', ''CREATE_TABLE'',
    ''MODIFY_TABLE'', ''SELECT_TABLE'', ''CREATE_FILESET'', ''WRITE_FILESET'', ''READ_FILESET'',
    ''CREATE_TOPIC'', ''PRODUCE_TOPIC'', ''CONSUME_TOPIC'', ''MANAGE_USERS'', ''MANAGE_GROUPS'',
    ''CREATE_ROLE'', ''MANAGE_GRANTS'', ''REGISTER_MODEL'', ''LINK_MODEL_VERSION'', ''USE_MODEL'',
    ''REGISTER_FUNCTION'', ''EXECUTE_FUNCTION'', ''MODIFY_FUNCTION'', ''CREATE_TAG'', ''APPLY_TAG'',
    ''CREATE_POLICY'', ''APPLY_POLICY'', ''REGISTER_JOB_TEMPLATE'', ''USE_JOB_TEMPLATE'', ''RUN_JOB'']"

definition AllObjectTypes :: "string list" where
  "AllObjectTypes = [''METALAKE'', ''CATALOG'', ''SCHEMA'', ''TABLE'', ''FILESET'', ''TOPIC'', ''ROLE'', ''MODEL'',
    ''FUNCTION'', ''TAG'', ''POLICY'', ''JOB_TEMPLATE'']"

subsection \<open>Conversions\<close>

text \<open>The elements of a set that are objects; a null or unknown element does not decode and is skipped.\<close>

definition set_elements :: "'a tfval list tfval \<Rightarrow> 'a list" where
  "set_elements v =
     (case v of TKnown xs \<Rightarrow> concat (map (\<lambda>x. case x of TKnown a \<Rightarrow> [a] | _ \<Rightarrow> []) xs) | _ \<Rightarrow> [])"

definition known_set :: "'a list \<Rightarrow> 'a tfval list tfval" where
  "known_set xs = TKnown (map TKnown xs)"

definition privilege_from :: "privilege_model \<Rightarrow> privilege" where
  "privilege_from pm = \<lparr>pv_Name = ValueString (pm_Name pm), pv_Condition = ValueString (pm_Condition pm)\<rparr>"

definition privilegesFromTF :: "privilege_model tfval list tfval \<Rightarrow> privilege list" where
  "privilegesFromTF l = map privilege_from (set_elements l)"

definition object_from :: "securable_object_model \<Rightarrow> securable_object" where
  "object_from so =
     \<lparr>so_FullName = ValueString (sm_FullName so), so_Type = CanonicalObjectType (ValueString (sm_Type so)),
      so_Privileges = privilegesFromTF (sm_Privileges so)\<rparr>"

definition securableObjectsFromTF :: "securable_object_model tfval list tfval \<Rightarrow> securable_object list" where
  "securableObjectsFromTF l = map object_from (set_elements l)"

definition privilege_to :: "privilege \<Rightarrow> privilege_model" where
  "privilege_to p = \<lparr>pm_Name = TKnown (CanonicalPrivilege (pv_Name p)), pm_Condition = TKnown (CanonicalPrivilege (pv_Condition p))\<rparr>"

definition object_to :: "securable_object \<Rightarrow> securable_object_model" where
  "object_to so =
     \<lparr>sm_FullName = TKnown (so_FullName so), sm_Type = TKnown (CanonicalObjectType (so_Type so)),
      sm_Privileges = known_set (map privilege_to (so_Privileges so))\<rparr>"

definition securableObjectsToTF :: "securable_object list \<Rightarrow> securable_object_model tfval list tfval" where
  "securableObjectsToTF objects = known_set (map object_to objects)"

text \<open>A nil Go map becomes a null value, any other a known one.\<close>

definition MapValueFrom :: "string gomap option \<Rightarrow> tf_map" where
  "MapValueFrom m = (case m of None \<Rightarrow> TNull | Some r \<Rightarrow> TKnown (known_map r))"

definition setStateFromRole :: "string \<Rightarrow> role \<Rightarrow> role_model \<Rightarrow> role_model" where
  "setStateFromRole metalake r model =
     model\<lparr>rm_Metalake := TKnown metalake, rm_Name := TKnown (ro_Name r), rm_ID := TKnown (metalake @ ''.'' @ ro_Name r),
       rm_Properties := MapValueFrom (ro_Properties r), rm_SecurableObjects := securableObjectsToTF (ro_SecurableObjects r),
       rm_Audit := AuditToObjectValue (ro_Audit r)\<rparr>"

subsection \<open>Comparing the planned with the recorded privileges\<close>

fun privilegesEqual_loop :: "(privilege \<Rightarrow> nat) \<Rightarrow> privilege list \<Rightarrow> bool" where
  "privilegesEqual_loop counts [] = True"
| "privilegesEqual_loop counts (p # ps) =
     (counts p \<noteq> 0 \<and> privilegesEqual_loop (counts(p := counts p - 1)) ps)"

definition privilegesEqual :: "privilege list \<Rightarrow> privilege list \<Rightarrow> bool" where
  "privilegesEqual a b \<longleftrightarrow> length a = length b \<and> privilegesEqual_loop (\<lambda>p. count_list a p) b"

definition object_key :: "securable_object \<Rightarrow> string" where
  "object_key so = so_FullName so @ ''/'' @ so_Type so"

definition securableObjectMapFromTF :: "securable_object_model tfval list tfval \<Rightarrow> securable_object gomap" where
  "securableObjectMapFromTF l = fold (\<lambda>so m. put (object_key so) so m) (securableObjectsFromTF l) []"

definition securableObjectsChanged :: "role_model \<Rightarrow> role_model \<Rightarrow> bool" where
  "securableObjectsChanged plan state =
     (if IsUnknown (rm_SecurableObjects plan) then False
      else
        let planned = securableObjectMapFromTF (rm_SecurableObjects plan);
            current = securableObjectMapFromTF (rm_SecurableObjects state)
        in length planned \<noteq> length current \<or>
           list_ex (\<lambda>(key, pso). case map_of current key of
               None \<Rightarrow> True
             | Some sso \<Rightarrow> \<not> privilegesEqual (so_Privileges pso) (so_Privileges sso)) planned)"

subsection \<open>Handlers\<close>

definition role_Create :: "'w role_api \<Rightarrow> diags + role_model \<Rightarrow> (role_model state_write, 'w) step" where
  "role_Create api planGet =
     andThen (pure_step planGet) (\<lambda>plan.
     andThen (calling (ra_create api (ValueString (rm_Metalake plan))
                \<lparr>rcr_Name = ValueString (rm_Name plan), rcr_Properties = mapFromTF (rm_Properties plan),
                 rcr_SecurableObjects = securableObjectsFromTF (rm_SecurableObjects plan)\<rparr>)
              (NewResourceError ''creating role'' (ValueString (rm_Name plan)))) (\<lambda>r.
     done_with (Save (setStateFromRole (ValueString (rm_Metalake plan)) r plan))))"

definition role_Read :: "'w role_api \<Rightarrow> diags + role_model \<Rightarrow> (role_model state_write, 'w) step" where
  "role_Read api stateGet =
     andThen (pure_step stateGet) (\<lambda>state.
       refresh (ra_get api (ValueString (rm_Metalake state)) (ValueString (rm_Name state)))
         (NewResourceError ''reading role'' (ValueString (rm_Name state)))
         (\<lambda>r. Inr (setStateFromRole (ValueString (rm_Metalake state)) r state)))"

definition role_Update ::
    "'w role_api \<Rightarrow> diags + role_model \<Rightarrow> diags + role_model \<Rightarrow> (role_model state_write, 'w) step" where
  "role_Update api planGet stateGet =
     andThen (pure_step (both_get planGet stateGet)) (\<lambda>(plan, state).
     let metalake = ValueString (rm_Metalake plan); name = ValueString (rm_Name plan) in
     andThen (if securableObjectsChanged plan state
              then andThen (calling (ra_override api metalake name (securableObjectsFromTF (rm_SecurableObjects plan)))
                     (NewResourceError ''updating role privileges'' name)) (\<lambda>_. done_with ())
              else done_with ()) (\<lambda>_.
     refresh (ra_get api metalake name) (NewResourceError ''reading role after update'' name)
       (\<lambda>r. Inr (setStateFromRole metalake r plan))))"

definition role_Delete :: "'w role_api \<Rightarrow> diags + role_model \<Rightarrow> (role_model state_write, 'w) step" where
  "role_Delete api stateGet =
     andThen (pure_step stateGet) (\<lambda>state.
       drop_or_gone (ra_delete api (ValueString (rm_Metalake state)) (ValueString (rm_Name state)))
         (NewResourceError ''deleting role'' (ValueString (rm_Name state))))"

definition role_ImportState :: "string \<Rightarrow> diagnostic + (string \<times> string) list" where
  "role_ImportState reqID =
     (case SplitImportIDExact 2 ''metalake.role_name'' reqID of
        Inl d \<Rightarrow> Inl d
      | Inr parts \<Rightarrow> Inr [(''metalake'', parts ! 0), (''name'', parts ! 1), (''id'', reqID)])"

subsection \<open>Lemmas\<close>

lemma privilegesEqual_loop_iff: "privilegesEqual_loop c ps \<longleftrightarrow> (\<forall>p. count_list ps p \<le> c p)"
proof (induction ps arbitrary: c)
  case (Cons p ps)
  have "(\<forall>q. count_list (p # ps) q \<le> c q) \<longleftrightarrow> c p \<noteq> 0 \<and> (\<forall>q. count_list ps q \<le> (c(p := c p - 1)) q)"
  proof (intro iffI conjI allI)
    assume A: "\<forall>q. count_list (p # ps) q \<le> c q"
    have B: "Suc (count_list ps p) \<le> c p" using spec [OF A, of p] by simp
    then show "c p \<noteq> 0" by simp
    show "count_list ps q \<le> (c(p := c p - 1)) q" for q
      using B spec [OF A, of q] by (cases "q = p") auto
  next
    fix q assume A: "c p \<noteq> 0 \<and> (\<forall>q. count_list ps q \<le> (c(p := c p - 1)) q)"
    show "count_list (p # ps) q \<le> c q" using A spec [OF conjunct2 [OF A], of q] by (cases "q = p") auto
  qed
  then show ?case using Cons.IH by simp
qed simp

lemma privilegesEqual_iff: "privilegesEqual a b \<longleftrightarrow> mset a = mset b"
proof
  assume e: "privilegesEqual a b"
  then have "mset b \<subseteq># mset a"
    by (simp add: privilegesEqual_def privilegesEqual_loop_iff subseteq_mset_def count_mset)
  moreover have "size (mset a) = size (mset b)" using e by (simp add: privilegesEqual_def)
  ultimately show "mset a = mset b" by (metis mset_subset_size subset_mset.le_less nat_neq_iff)
next
  assume "mset a = mset b"
  then show "privilegesEqual a b"
    by (metis privilegesEqual_def privilegesEqual_loop_iff count_mset mset_eq_length order_refl)
qed

lemma object_key_inject:
  assumes "object_key a = object_key b" "CHR ''/'' \<notin> set (so_Type a)" "CHR ''/'' \<notin> set (so_Type b)"
  shows "so_FullName a = so_FullName b \<and> so_Type a = so_Type b"
proof -
  have last: "takeWhile (\<lambda>c. c \<noteq> CHR ''/'') (rev (object_key x)) = rev (so_Type x)" if "CHR ''/'' \<notin> set (so_Type x)" for x
  proof -
    have "\<forall>c \<in> set (rev (so_Type x)). c \<noteq> CHR ''/''" using that by auto
    then show ?thesis by (simp add: object_key_def takeWhile_append)
  qed
  have "so_Type a = so_Type b" using last [OF assms(2)] last [OF assms(3)] assms(1) by simp
  then show ?thesis using assms(1) by (simp add: object_key_def)
qed

definition grant :: "securable_object \<Rightarrow> string \<times> string \<times> privilege multiset" where
  "grant so = (so_FullName so, so_Type so, mset (so_Privileges so))"

definition object_id :: "securable_object \<Rightarrow> string \<times> string" where
  "object_id so = (so_FullName so, so_Type so)"

definition one_entry_per_object :: "securable_object list \<Rightarrow> bool" where
  "one_entry_per_object xs \<longleftrightarrow> distinct (map object_id xs)"

text \<open>What the comparison sees of a list of entries: for each object the privileges of its last entry, in no order.\<close>

definition granted :: "securable_object list \<Rightarrow> string \<times> string \<Rightarrow> privilege multiset option" where
  "granted xs = fold (\<lambda>so g. g(object_id so \<mapsto> mset (so_Privileges so))) xs Map.empty"

lemma granted_snoc: "granted (xs @ [so]) = (granted xs)(object_id so \<mapsto> mset (so_Privileges so))"
  by (simp add: granted_def)

lemma granted_dom: "granted xs obj = Some ps \<Longrightarrow> \<exists>so \<in> set xs. object_id so = obj"
  by (induction xs rule: rev_induct) (auto simp: granted_snoc granted_def [of "[]"] split: if_splits)

lemma granted_distinct:
  "one_entry_per_object xs \<Longrightarrow> granted xs (f, t) = Some ps \<longleftrightarrow> (f, t, ps) \<in> grant ` set xs"
proof (induction xs rule: rev_induct)
  case (snoc so xs)
  have new: "object_id so \<notin> object_id ` set xs" and IH: "granted xs (f, t) = Some ps \<longleftrightarrow> (f, t, ps) \<in> grant ` set xs"
    using snoc by (simp_all add: one_entry_per_object_def)
  have "object_id x = (f, t)" if "(f, t, ps) = grant x" for x using that by (simp add: grant_def object_id_def)
  then have "object_id so = (f, t) \<Longrightarrow> (f, t, ps) \<notin> grant ` set xs" using new by force
  then show ?case by (auto simp: granted_snoc IH grant_def object_id_def)
qed (simp add: granted_def)

lemma granted_sets:
  assumes "one_entry_per_object xs" "one_entry_per_object ys"
  shows "granted xs = granted ys \<longleftrightarrow> grant ` set xs = grant ` set ys"
proof
  assume e: "granted xs = granted ys"
  have "(f, t, ps) \<in> grant ` set xs \<longleftrightarrow> (f, t, ps) \<in> grant ` set ys" for f t ps
    unfolding granted_distinct [OF assms(1), symmetric] granted_distinct [OF assms(2), symmetric] e ..
  then show "grant ` set xs = grant ` set ys" by (intro set_eqI) (metis prod_cases3)
next
  assume e: "grant ` set xs = grant ` set ys"
  have "granted xs (f, t) = granted ys (f, t)" for f t
    using granted_distinct [OF assms(1), of f t] granted_distinct [OF assms(2), of f t] e
    by (cases "granted xs (f, t)"; cases "granted ys (f, t)") auto
  then show "granted xs = granted ys" by auto
qed

subsection \<open>The maps the code compares\<close>

text \<open>Two maps agree when they have the same keys and agree at each; the code counts keys and looks from one side only.\<close>

lemma dom_size:
  assumes "wf_map m"
  shows "card (dom (map_of m)) = length m"
  using distinct_card [of "map fst m"] assms by (simp add: wf_map_def keys_def dom_map_of_conv_image_fst)

lemma one_sided_comparison:
  assumes "wf_map A" "wf_map B"
  shows "length A = length B \<and> (\<forall>(k, a) \<in> set A. \<exists>b. map_of B k = Some b \<and> r a b) \<longleftrightarrow>
    (\<forall>k. rel_option r (map_of A k) (map_of B k))"
proof
  assume one: "length A = length B \<and> (\<forall>(k, a) \<in> set A. \<exists>b. map_of B k = Some b \<and> r a b)"
  have sub: "map_of A k = Some a \<Longrightarrow> \<exists>b. map_of B k = Some b \<and> r a b" for k a
    using one map_of_SomeD [of A k a] by fast
  then have "dom (map_of A) \<subseteq> dom (map_of B)" by (fastforce simp: dom_def)
  then have "dom (map_of A) = dom (map_of B)"
    using dom_size [OF assms(1)] dom_size [OF assms(2)] one by (intro card_subset_eq) (simp_all add: finite_dom_map_of)
  then have none: "map_of A k = None \<Longrightarrow> map_of B k = None" for k by (metis domIff)
  show "\<forall>k. rel_option r (map_of A k) (map_of B k)"
  proof
    fix k show "rel_option r (map_of A k) (map_of B k)" using sub [of k] none [of k] by (cases "map_of A k") auto
  qed
next
  assume rel: "\<forall>k. rel_option r (map_of A k) (map_of B k)"
  have "map_of A k = None \<longleftrightarrow> map_of B k = None" for k
    using spec [OF rel, of k] by (cases "map_of A k"; cases "map_of B k") auto
  then have "dom (map_of A) = dom (map_of B)" by (intro set_eqI) (simp add: domIff)
  then have "length A = length B" using dom_size [OF assms(1)] dom_size [OF assms(2)] by simp
  moreover have "\<exists>b. map_of B k = Some b \<and> r a b" if "(k, a) \<in> set A" for k a
  proof -
    have "map_of A k = Some a" using assms(1) that by (simp add: wf_map_def keys_def)
    then show ?thesis using spec [OF rel, of k] by (cases "map_of B k") auto
  qed
  ultimately show "length A = length B \<and> (\<forall>(k, a) \<in> set A. \<exists>b. map_of B k = Some b \<and> r a b)" by blast
qed

definition slash_free :: "securable_object \<Rightarrow> bool" where
  "slash_free so \<longleftrightarrow> CHR ''/'' \<notin> set (so_Type so)"

lemma object_map_snoc:
  "map_of (fold (\<lambda>so m. put (object_key so) so m) (xs @ [so]) []) =
     (map_of (fold (\<lambda>so m. put (object_key so) so m) xs []))(object_key so \<mapsto> so)"
  by simp

lemma wf_object_map: "wf_map (fold (\<lambda>so m. put (object_key so) so m) xs [])"
  by (induction xs rule: rev_induct) simp_all

lemma object_map_entry:
  "map_of (fold (\<lambda>so m. put (object_key so) so m) xs []) k = Some so \<Longrightarrow> so \<in> set xs \<and> object_key so = k"
  by (induction xs rule: rev_induct) (auto simp: object_map_snoc split: if_splits)

lemma object_map_granted:
  assumes "CHR ''/'' \<notin> set t"
  shows "\<forall>so \<in> set xs. slash_free so \<Longrightarrow>
    map_option (\<lambda>so. mset (so_Privileges so)) (map_of (fold (\<lambda>so m. put (object_key so) so m) xs []) (f @ ''/'' @ t)) = granted xs (f, t)"
proof (induction xs rule: rev_induct)
  case (snoc so xs)
  have key: "f @ ''/'' @ t = object_key so \<longleftrightarrow> (f, t) = object_id so"
    using object_key_inject [of so "so\<lparr>so_FullName := f, so_Type := t\<rparr>"] assms snoc.prems
    by (auto simp: object_key_def object_id_def slash_free_def)
  have IH: "map_option (\<lambda>so. mset (so_Privileges so)) (map_of (fold (\<lambda>so m. put (object_key so) so m) xs []) (f @ ''/'' @ t)) =
      granted xs (f, t)"
    using snoc by simp
  show ?case unfolding object_map_snoc granted_snoc fun_upd_apply key using IH by simp
qed (simp add: granted_def)

lemma granted_slash: "\<forall>so \<in> set xs. slash_free so \<Longrightarrow> CHR ''/'' \<in> set t \<Longrightarrow> granted xs (f, t) = None"
  using granted_dom [of xs "(f, t)"] by (cases "granted xs (f, t)") (auto simp: object_id_def slash_free_def)

lemma object_map_other:
  assumes "\<forall>so \<in> set xs. slash_free so" "\<nexists>f t. CHR ''/'' \<notin> set t \<and> k = f @ ''/'' @ t"
  shows "map_of (fold (\<lambda>so m. put (object_key so) so m) xs []) k = None"
proof (rule ccontr)
  assume "map_of (fold (\<lambda>so m. put (object_key so) so m) xs []) k \<noteq> None"
  then obtain so where "so \<in> set xs" "object_key so = k" using object_map_entry [of xs k] by blast
  then have "CHR ''/'' \<notin> set (so_Type so)" "k = so_FullName so @ ''/'' @ so_Type so"
    using assms(1) by (auto simp: slash_free_def object_key_def)
  then show False using assms(2) by blast
qed

lemma object_maps_agree:
  assumes "\<forall>so \<in> set xs \<union> set ys. slash_free so"
  defines "m \<equiv> \<lambda>xs. map_of (fold (\<lambda>so m. put (object_key so) so m) xs [])"
  shows "(\<forall>k. rel_option (\<lambda>a b. privilegesEqual (so_Privileges a) (so_Privileges b)) (m xs k) (m ys k)) \<longleftrightarrow> granted xs = granted ys"
proof -
  let ?p = "map_option (\<lambda>so. mset (so_Privileges so))"
  have rel: "rel_option (\<lambda>a b. privilegesEqual (so_Privileges a) (so_Privileges b)) u v \<longleftrightarrow> ?p u = ?p v" for u v
    by (cases u; cases v) (simp_all add: privilegesEqual_iff)
  have seen: "?p (m zs (f @ ''/'' @ t)) = granted zs (f, t)" if "zs \<in> {xs, ys}" "CHR ''/'' \<notin> set t" for zs f t
    using that assms(1) object_map_granted [of t zs f] unfolding m_def by blast
  show ?thesis unfolding rel
  proof
    assume agree: "\<forall>k. ?p (m xs k) = ?p (m ys k)"
    have "granted xs (f, t) = granted ys (f, t)" for f t
      using seen [of xs t f] seen [of ys t f] granted_slash [of xs t f] granted_slash [of ys t f] assms(1) spec [OF agree, of "f @ ''/'' @ t"]
      by (cases "CHR ''/'' \<in> set t") simp_all
    then show "granted xs = granted ys" by auto
  next
    assume agree: "granted xs = granted ys"
    show "\<forall>k. ?p (m xs k) = ?p (m ys k)"
    proof
      fix k show "?p (m xs k) = ?p (m ys k)"
      proof (cases "\<exists>f t. CHR ''/'' \<notin> set t \<and> k = f @ ''/'' @ t")
        case True
        then obtain f t where k: "CHR ''/'' \<notin> set t" "k = f @ ''/'' @ t" by blast
        show ?thesis using seen [of xs t f] seen [of ys t f] agree k by simp
      next
        case False
        then show ?thesis using object_map_other [of xs k] object_map_other [of ys k] assms(1) by (simp add: m_def)
      qed
    qed
  qed
qed

subsection \<open>Properties\<close>

text \<open>C12: When no object type contains a slash, so that the joined key of the comparison confuses no two objects,
  the privileges of a role are overridden exactly when the securable objects are not left to be computed and plan and
  state differ in the privileges of the last entry of some object, in whatever order objects and privileges are listed. When neither
  lists an object twice, these are the differences as sets of objects with their privileges; the other entries of an object
  that is listed twice are overlooked (\<open>split_grant_overlooked\<close>).\<close>

theorem role_changed_iff:
  assumes "\<forall>so \<in> set (securableObjectsFromTF (rm_SecurableObjects plan)) \<union> set (securableObjectsFromTF (rm_SecurableObjects state)). slash_free so"
  shows "(securableObjectsChanged plan state \<longleftrightarrow> rm_SecurableObjects plan \<noteq> TUnknown \<and>
      granted (securableObjectsFromTF (rm_SecurableObjects plan)) \<noteq> granted (securableObjectsFromTF (rm_SecurableObjects state))) \<and>
    (rm_SecurableObjects plan \<noteq> TUnknown \<and> one_entry_per_object (securableObjectsFromTF (rm_SecurableObjects plan)) \<and>
       one_entry_per_object (securableObjectsFromTF (rm_SecurableObjects state)) \<longrightarrow>
     (securableObjectsChanged plan state \<longleftrightarrow>
        grant ` set (securableObjectsFromTF (rm_SecurableObjects plan)) \<noteq>
        grant ` set (securableObjectsFromTF (rm_SecurableObjects state))))"
proof -
  define P where "P = securableObjectsFromTF (rm_SecurableObjects plan)"
  define S where "S = securableObjectsFromTF (rm_SecurableObjects state)"
  define m where "m = (\<lambda>xs. fold (\<lambda>so m. put (object_key so) so m) xs [])"
  have sl: "\<forall>so \<in> set P \<union> set S. slash_free so" using assms by (simp add: P_def S_def)
  have un: "IsUnknown (rm_SecurableObjects plan) \<longleftrightarrow> rm_SecurableObjects plan = TUnknown"
    by (cases "rm_SecurableObjects plan") auto
  have same: "length (m P) = length (m S) \<and>
      (\<forall>(k, p) \<in> set (m P). \<exists>s. map_of (m S) k = Some s \<and> privilegesEqual (so_Privileges p) (so_Privileges s)) \<longleftrightarrow> granted P = granted S"
    unfolding m_def using one_sided_comparison [OF wf_object_map wf_object_map] object_maps_agree [OF sl] by simp
  have "securableObjectsChanged plan state \<longleftrightarrow> rm_SecurableObjects plan \<noteq> TUnknown \<and> \<not> (length (m P) = length (m S) \<and>
      (\<forall>(k, p) \<in> set (m P). \<exists>s. map_of (m S) k = Some s \<and> privilegesEqual (so_Privileges p) (so_Privileges s)))"
    unfolding securableObjectsChanged_def securableObjectMapFromTF_def un Let_def list_ex_iff m_def P_def S_def
    by (simp only: if_distrib [of "\<lambda>b. b = _"] not_all de_Morgan_conj split: if_split) (force split: option.splits)
  then have main: "securableObjectsChanged plan state \<longleftrightarrow> rm_SecurableObjects plan \<noteq> TUnknown \<and> granted P \<noteq> granted S"
    unfolding same .
  then show ?thesis using granted_sets [of P S] unfolding P_def S_def by blast
qed

definition grant_of :: "string \<Rightarrow> string \<Rightarrow> (string \<times> string) list \<Rightarrow> securable_object_model" where
  "grant_of fullName objectType ps =
     \<lparr>sm_FullName = TKnown fullName, sm_Type = TKnown objectType,
      sm_Privileges = known_set (map (\<lambda>(n, c). \<lparr>pm_Name = TKnown n, pm_Condition = TKnown c\<rparr>) ps)\<rparr>"

definition role_with :: "securable_object_model list \<Rightarrow> role_model" where
  "role_with objs =
     \<lparr>rm_ID = TKnown ''m.r'', rm_Metalake = TKnown ''m'', rm_Name = TKnown ''r'', rm_Properties = TNull,
      rm_SecurableObjects = known_set objs, rm_Audit = TNull\<rparr>"

theorem role_changed_iff_witness:
  "\<not> securableObjectsChanged
     (role_with [grant_of ''c'' ''CATALOG'' [(''USE_CATALOG'', ''ALLOW''), (''CREATE_SCHEMA'', ''DENY'')]])
     (role_with [grant_of ''c'' ''CATALOG'' [(''CREATE_SCHEMA'', ''DENY''), (''USE_CATALOG'', ''ALLOW'')]])"
proof -
  let ?p = "role_with [grant_of ''c'' ''CATALOG'' [(''USE_CATALOG'', ''ALLOW''), (''CREATE_SCHEMA'', ''DENY'')]]"
  let ?s = "role_with [grant_of ''c'' ''CATALOG'' [(''CREATE_SCHEMA'', ''DENY''), (''USE_CATALOG'', ''ALLOW'')]]"
  have one: "one_entry_per_object (securableObjectsFromTF (rm_SecurableObjects ?p))"
      "one_entry_per_object (securableObjectsFromTF (rm_SecurableObjects ?s))" by code_simp+
  have slash: "\<forall>so \<in> set (securableObjectsFromTF (rm_SecurableObjects ?p)) \<union> set (securableObjectsFromTF (rm_SecurableObjects ?s)). slash_free so"
    by code_simp
  have "grant ` set (securableObjectsFromTF (rm_SecurableObjects ?p)) = grant ` set (securableObjectsFromTF (rm_SecurableObjects ?s))"
    by (simp add: role_with_def grant_of_def known_set_def securableObjectsFromTF_def set_elements_def object_from_def
        privilegesFromTF_def privilege_from_def grant_def)
  moreover have "rm_SecurableObjects ?p \<noteq> TUnknown" by (simp add: role_with_def known_set_def)
  ultimately show ?thesis using role_changed_iff [OF slash] one by blast
qed

text \<open>The server stores the spellings and answers in lower case.\<close>

definition lower_echo :: "securable_object \<Rightarrow> securable_object" where
  "lower_echo so =
     so\<lparr>so_Type := to_lower (so_Type so),
        so_Privileges := map (\<lambda>p. \<lparr>pv_Name = to_lower (pv_Name p), pv_Condition = to_lower (pv_Condition p)\<rparr>) (so_Privileges so)\<rparr>"

definition spelled_ok :: "string \<times> string \<times> (string \<times> string) list \<Rightarrow> bool" where
  "spelled_ok g \<longleftrightarrow> fst (snd g) \<in> set AllObjectTypes \<and>
     (\<forall>(n, c) \<in> set (snd (snd g)). n \<in> set AllPrivileges \<and> c \<in> {''ALLOW'', ''DENY''})"

text \<open>Constants in upper case with underscores survive both spellings.\<close>

definition constant_char :: "char \<Rightarrow> bool" where
  "constant_char c \<longleftrightarrow> is_upper c \<or> c = CHR ''_''"

lemma constant_char_spelling:
  assumes "constant_char c"
  shows "upper_char (lower_char c) = c" "upper_char c = c" "\<not> is_space c" "\<not> is_space (lower_char c)"
proof -
  have a: "code c = 95 \<or> (65 \<le> code c \<and> code c \<le> 90)"
    using assms by (auto simp: constant_char_def is_upper_def code_def)
  then have l: "code (char_of (code c + 32)) = code c + 32" "char_of (code c + 32 - 32) = c"
  proof -
    have "code c + 32 < 256" using a by auto
    then show "code (char_of (code c + 32)) = code c + 32" "char_of (code c + 32 - 32) = c" by simp_all
  qed
  show "upper_char (lower_char c) = c" "upper_char c = c" "\<not> is_space c" "\<not> is_space (lower_char c)"
    using a l by (auto simp: upper_char_def lower_char_def is_upper_def is_lower_def is_space_def)
qed

lemma constant_spelling:
  assumes "list_all constant_char s"
  shows "to_upper (trim_space s) = s" "to_upper (trim_space (to_lower s)) = s"
proof -
  have "trim_space s = s" "trim_space (to_lower s) = to_lower s"
    using assms constant_char_spelling(3,4) by (auto intro!: trim_space_no_space simp: to_lower_def list_all_iff)
  then show "to_upper (trim_space s) = s" "to_upper (trim_space (to_lower s)) = s"
    using assms constant_char_spelling(1,2) by (auto simp: to_upper_def to_lower_def list_all_iff intro!: map_idI)
qed

lemma spellings_constant: "list_all (list_all constant_char) (''ALLOW'' # ''DENY'' # AllObjectTypes @ AllPrivileges)"
  by (simp add: AllObjectTypes_def AllPrivileges_def constant_char_def is_upper_def code_def)

lemma set_elements_known [simp]: "set_elements (known_set xs) = xs"
  by (induction xs) (simp_all add: set_elements_def known_set_def)

text \<open>What the schema lets through survives the server: the securable objects of a plan, sent, stored and
  answered in lower case, are written back to the state exactly as they were planned, so the apply is
  consistent and the next plan finds nothing to change.\<close>

theorem role_spelling_roundtrip:
  assumes "\<forall>g \<in> set gs. spelled_ok g"
  shows "securableObjectsToTF (map lower_echo (securableObjectsFromTF (known_set (map (\<lambda>(f, t, ps). grant_of f t ps) gs))))
    = known_set (map (\<lambda>(f, t, ps). grant_of f t ps) gs)"
proof -
  have type_ok: "CanonicalObjectType t = t" "CanonicalObjectType (to_lower t) = t" if "t \<in> set AllObjectTypes" for t
    using that spellings_constant constant_spelling [of t] by (simp_all add: CanonicalObjectType_def list_all_iff [of _ AllObjectTypes])
  have name_ok: "CanonicalPrivilege (to_lower n) = n" if "n \<in> set AllPrivileges \<or> n \<in> {''ALLOW'', ''DENY''}" for n
    using that spellings_constant constant_spelling [of n] by (auto simp: CanonicalPrivilege_def list_all_iff [of _ AllPrivileges])
  have "object_to (lower_echo (object_from (grant_of f t ps))) = grant_of f t ps" if "spelled_ok (f, t, ps)" for f t ps
    using that
    by (auto simp: spelled_ok_def object_to_def lower_echo_def object_from_def grant_of_def privilegesFromTF_def
        privilege_to_def privilege_from_def type_ok name_ok comp_def case_prod_beta
        intro!: arg_cong [where f = known_set])
  then show ?thesis
    unfolding securableObjectsToTF_def securableObjectsFromTF_def set_elements_known map_map
    using assms by (intro arg_cong [where f = known_set] map_cong refl) auto
qed

theorem role_spelling_roundtrip_witness:
  "securableObjectsToTF (map lower_echo (securableObjectsFromTF
     (known_set [grant_of ''c.s.t'' ''TABLE'' [(''SELECT_TABLE'', ''ALLOW'')]])))
   = known_set [grant_of ''c.s.t'' ''TABLE'' [(''SELECT_TABLE'', ''ALLOW'')]]"
  using role_spelling_roundtrip [of "[(''c.s.t'', ''TABLE'', [(''SELECT_TABLE'', ''ALLOW'')])]"]
  by (simp add: spelled_ok_def AllObjectTypes_def AllPrivileges_def)

text \<open>Two entries for one object are compared by the last of them only: a plan that grants two sets of
  privileges on the same object in two entries counts as unchanged against a state that has just the
  second, although the override request would carry both. The first grant is never sent.\<close>

theorem split_grant_overlooked:
  "\<not> securableObjectsChanged (role_with [grant_of f t ps, grant_of f t qs]) (role_with [grant_of f t qs]) \<and>
   map so_Privileges (securableObjectsFromTF (rm_SecurableObjects (role_with [grant_of f t ps, grant_of f t qs]))) =
     map (map (\<lambda>(n, c). \<lparr>pv_Name = n, pv_Condition = c\<rparr>)) [ps, qs]"
proof
  show "map so_Privileges (securableObjectsFromTF (rm_SecurableObjects (role_with [grant_of f t ps, grant_of f t qs]))) =
     map (map (\<lambda>(n, c). \<lparr>pv_Name = n, pv_Condition = c\<rparr>)) [ps, qs]"
    by (simp add: role_with_def securableObjectsFromTF_def object_from_def grant_of_def privilegesFromTF_def
        privilege_from_def case_prod_beta)
  have "securableObjectMapFromTF (known_set [grant_of f t ps, grant_of f t qs]) = securableObjectMapFromTF (known_set [grant_of f t qs])"
    by (simp add: securableObjectMapFromTF_def securableObjectsFromTF_def object_from_def grant_of_def put_def object_key_def)
  moreover have "securableObjectMapFromTF (known_set [grant_of f t qs]) =
      [(object_key (object_from (grant_of f t qs)), object_from (grant_of f t qs))]"
    by (simp add: securableObjectMapFromTF_def securableObjectsFromTF_def put_def)
  ultimately show "\<not> securableObjectsChanged (role_with [grant_of f t ps, grant_of f t qs]) (role_with [grant_of f t qs])"
    by (simp add: securableObjectsChanged_def role_with_def Let_def privilegesEqual_iff)
qed

end
