(* ===== verification/Float64.thy ===== *)
theory Float64
  imports Complex_Main "HOL-Library.Log_Nat"
begin

section \<open>Numbers as float64\<close>

text \<open>
  Go decodes a JSON number into a float64 and the token cache multiplies durations by one. A finite
  float64 is the rational it denotes; \<open>float64\<close> rounds a rational to the nearest one, halves to
  even. The lemmas bound the relative rounding error.
\<close>

definition round_half_even :: "rat \<Rightarrow> int" where
  "round_half_even x =
     (let f = \<lfloor>x\<rfloor>; d = x - of_int f
      in if d < 1 / 2 then f else if d > 1 / 2 then f + 1 else if even f then f else f + 1)"

text \<open>The float64 nearest to a rational; \<open>None\<close> when it is out of range.\<close>

definition float64 :: "rat \<Rightarrow> rat option" where
  "float64 v =
     (if v = 0 then Some 0
      else
        let a = \<bar>v\<bar>;
            (n, d) = quotient_of a;
            e0 = bitlen n - bitlen d;
            e = (if 2 powi e0 \<le> a then e0 else e0 - 1);
            q = 2 powi (max e (- 1022) - 52);
            r = of_int (round_half_even (a / q)) * q
        in if r \<ge> 2 powi 1024 then None else Some (sgn v * r))"

lemma round_half_even_near: "\<bar>of_int (round_half_even x) - x\<bar> \<le> 1 / 2"
proof -
  have "of_int \<lfloor>x\<rfloor> \<le> x" "x < of_int \<lfloor>x\<rfloor> + 1" by linarith+
  then show ?thesis unfolding round_half_even_def Let_def by (auto simp: abs_le_iff)
qed

lemma round_half_even_int [simp]: "round_half_even (of_int n) = n"
  by (simp add: round_half_even_def)

text \<open>The exponent is the one of the leading bit.\<close>

lemma leading_exponent:
  fixes a :: rat
  assumes "0 < a" "quotient_of a = (n, d)"
  shows "2 powi (bitlen n - bitlen d - 1) \<le> a"
proof -
  have d: "0 < d" and a: "a = of_int n / of_int d"
    using assms(2) quotient_of_denom_pos [of a] quotient_of_div [of a] by auto
  then have n: "0 < n" using assms(1) by (simp add: zero_less_divide_iff)
  have "2 ^ nat (bitlen n - 1) \<le> n" "d < 2 ^ nat (bitlen d)"
    using bitlen_bounds [of n] bitlen_bounds [of d] n d by simp_all
  then have lo: "(2 :: rat) ^ nat (bitlen n - 1) \<le> of_int n" and hi: "of_int d < (2 :: rat) ^ nat (bitlen d)"
    by (metis of_int_le_iff of_int_numeral of_int_power, metis of_int_less_iff of_int_numeral of_int_power)
  have "bitlen n - bitlen d - 1 = int (nat (bitlen n - 1)) - int (nat (bitlen d))"
    using n bitlen_nonneg [of d] bitlen_ge_iff_power [of 1 n] by simp
  then have "2 powi (bitlen n - bitlen d - 1) = (2 :: rat) ^ nat (bitlen n - 1) / 2 ^ nat (bitlen d)"
    by (simp add: power_int_diff del: int_nat_eq)
  also have "\<dots> \<le> of_int n / of_int d"
    using lo hi d n by (intro frac_le) auto
  finally show ?thesis by (simp add: a)
qed

text \<open>Within the normal range the rounding error is at most half a unit in the last place.\<close>

lemma float64_normal:
  assumes "2 powi (- 1022) \<le> v" "v < 2 powi 1023"
  obtains r where "float64 v = Some r" "\<bar>r - v\<bar> \<le> v * 2 powi (- 53)"
proof -
  have v: "0 < v" using assms(1) by (meson less_le_trans zero_less_numeral zero_less_power_int)
  obtain n d where nd: "quotient_of v = (n, d)" by fastforce
  define e0 where "e0 = bitlen n - bitlen d"
  define e where "e = (if 2 powi e0 \<le> v then e0 else e0 - 1)"
  define q :: rat where "q = 2 powi (max e (- 1022) - 52)"
  define r where "r = of_int (round_half_even (v / q)) * q"
  have q: "0 < q" by (simp add: q_def)
  have e: "2 powi (max e (- 1022)) \<le> v"
    using leading_exponent [OF v nd] assms(1) by (auto simp: e_def e0_def max_def)
  have qv: "q * 2 ^ 52 \<le> v"
  proof -
    have "q * 2 ^ 52 = 2 powi (max e (- 1022) - 52) * 2 powi 52" unfolding q_def by (simp only: power_int_numeral)
    also have "\<dots> = 2 powi (max e (- 1022) - 52 + 52)" by (rule power_int_add [symmetric]) simp
    finally show ?thesis using e by simp
  qed
  have "r - v = (of_int (round_half_even (v / q)) - v / q) * q" using q by (simp add: r_def left_diff_distrib)
  then have "\<bar>r - v\<bar> = \<bar>of_int (round_half_even (v / q)) - v / q\<bar> * q" using q by (simp add: abs_mult)
  also have "\<dots> \<le> 1 / 2 * q" using round_half_even_near q by (intro mult_right_mono) auto
  also have "\<dots> \<le> v * 2 powi (- 53)" using qv by (simp add: power_int_minus field_simps)
  finally have near: "\<bar>r - v\<bar> \<le> v * 2 powi (- 53)" .
  have "v * 2 powi (- 53) \<le> v * 1" using v by (intro mult_left_mono) (simp_all add: power_int_minus)
  then have "r \<le> 2 * v" using near by linarith
  also have "\<dots> < 2 * 2 powi 1023" using assms(2) by simp
  also have "\<dots> = 2 powi 1024" by (simp flip: power_int_add_1)
  finally have small: "r < 2 powi 1024" .
  have "float64 v = (if r \<ge> 2 powi 1024 then None else Some (sgn v * r))"
    unfolding r_def q_def e_def e0_def using v nd by (simp add: float64_def Let_def)
  then have "float64 v = Some r" using small v by (simp only: linorder_not_le [symmetric] if_False sgn_pos mult_1_left)
  with near show thesis by (rule that [rotated])
qed

end
