(* ===== verification/FunctionModel.thy ===== *)
theory FunctionModel
  imports Float64 HttpClient Version DataTypes TableModel
begin

section \<open>Function definitions (models/function*.go)\<close>

text \<open>
  A function has definitions, identified by their parameters; a definition has implementations,
  identified by their runtime. Data types and default values are \<open>json.RawMessage\<close>: the text of a
  JSON value, empty when absent. Comparing two definitions or implementations is comparing what
  \<open>json.Marshal\<close> makes of them, so the model goes down to that text: \<open>compact\<close> is what Marshal does
  to a raw message, \<open>struct_text\<close> a struct whose omitted fields are left out of the list. Comparing
  two data types (\<open>RawJSONEqual\<close>) decodes both into Go values, where the order of object members
  is lost, the last of two equal keys wins and a number is a float64.
\<close>

subsection \<open>JSON values as Go values\<close>

datatype any = ANull | ABool bool | ANum rat | AStr string | AArr "any list" | AMap "(string \<times> any) list"

definition number_value :: "string \<Rightarrow> rat" where
  "number_value s =
     (let neg = (take 1 s = ''-'');
          t = (if neg then tl s else s);
          i = takeWhile is_digit t; r1 = dropWhile is_digit t;
          f = (if take 1 r1 = ''.'' then takeWhile is_digit (tl r1) else []);
          r2 = (if take 1 r1 = ''.'' then dropWhile is_digit (tl r1) else r1);
          e = (if r2 = [] then 0
               else if take 1 (tl r2) = ''-'' then - digits_val (tl (tl r2))
               else if take 1 (tl r2) = ''+'' then digits_val (tl (tl r2))
               else digits_val (tl r2));
          v = of_int (digits_val (i @ f)) * 10 powi (e - int (length f))
      in if neg then - v else v)"

fun to_any :: "json \<Rightarrow> any option" where
  "to_any JNull = Some ANull"
| "to_any (JBool b) = Some (ABool b)"
| "to_any (JNum n) = map_option ANum (float64 (number_value n))"
| "to_any (JStr s) = Some (AStr s)"
| "to_any (JArr xs) = map_option AArr (those (map to_any xs))"
| "to_any (JObj kvs) =
     map_option (\<lambda>es. AMap (sort_key fst (fold (\<lambda>(k, v) m. put k v m) es [])))
       (those (map (\<lambda>kv. map_option (Pair (fst kv)) (to_any (snd kv))) kvs))"

definition unmarshal_any :: "string \<Rightarrow> any option" where
  "unmarshal_any s = Option.bind (parse_json s) to_any"

subsection \<open>Raw messages\<close>

text \<open>Compaction drops white space outside strings and escapes the HTML characters.\<close>

fun compact :: "bool \<Rightarrow> bool \<Rightarrow> string \<Rightarrow> string" where
  "compact in_str esc [] = []"
| "compact False esc (c # cs) =
     (if is_json_ws c then compact False False cs else c # compact (c = CHR 0x22) False cs)"
| "compact True True (c # cs) = html_char c @ compact True False cs"
| "compact True False (c # cs) = html_char c @ compact (c \<noteq> CHR 0x22) (c = CHR 0x5C) cs"

definition raw_marshal :: "string \<Rightarrow> string option" where
  "raw_marshal r =
     (if r = [] then Some ''null'' else if parse_json r = None then None else Some (compact False False r))"

definition str_marshal :: "string \<Rightarrow> string" where
  "str_marshal s = json_marshal (JStr s)"

definition struct_text :: "(string \<times> string option) list \<Rightarrow> string option" where
  "struct_text fs =
     (if list_ex (\<lambda>f. snd f = None) fs then None
      else Some (''{'' @ join '','' (map (\<lambda>f. string_text (fst f) @ '':'' @ the (snd f)) fs) @ ''}''))"

definition array_text :: "string option list \<Rightarrow> string option" where
  "array_text xs = map_option (\<lambda>ts. ''['' @ join '','' ts @ '']'') (those xs)"

definition unless_empty :: "'a list \<Rightarrow> string \<Rightarrow> string option \<Rightarrow> (string \<times> string option) list" where
  "unless_empty v k t = (if v = [] then [] else [(k, t)])"

definition DataTypeToString :: "string \<Rightarrow> string" where
  "DataTypeToString raw =
     (if raw = [] then []
      else case unmarshal_string raw of Inr s \<Rightarrow> s | Inl _ \<Rightarrow> trim_space raw)"

definition RawJSONEqual :: "string \<Rightarrow> string \<Rightarrow> bool" where
  "RawJSONEqual a b =
     (if a = [] \<or> b = [] then a = [] \<and> b = []
      else case (unmarshal_any a, unmarshal_any b) of (Some x, Some y) \<Rightarrow> x = y | _ \<Rightarrow> False)"

definition preferRaw :: "string \<Rightarrow> string \<Rightarrow> string" where
  "preferRaw previous returned =
     (if previous = [] \<or> \<not> RawJSONEqual previous returned then returned else previous)"

definition not_valid_json :: "string \<Rightarrow> gerror" where
  "not_valid_json s = ErrText (quote s @ '' is not valid JSON'')"

definition encodeDataTypeExpression :: "string \<Rightarrow> gerror + string" where
  "encodeDataTypeExpression trimmed =
     (if take 1 trimmed \<in> {''{'', ''['', [CHR 0x22]}
      then (if parse_json trimmed = None then Inl (not_valid_json trimmed) else Inr trimmed)
      else Inr (str_marshal trimmed))"

definition DataTypeFromString :: "string \<Rightarrow> gerror + string" where
  "DataTypeFromString v =
     (let trimmed = trim_space v in
      if trimmed = [] then Inl (ErrText ''must not be empty'')
      else case ParseDataType trimmed of Inl e \<Rightarrow> Inl e | Inr _ \<Rightarrow> encodeDataTypeExpression trimmed)"

definition RawJSONFromString :: "string \<Rightarrow> gerror + string" where
  "RawJSONFromString v =
     (let trimmed = trim_space v in
      if trimmed = [] then Inl (ErrText ''must not be empty'') else encodeDataTypeExpression trimmed)"

subsection \<open>Functions on the wire\<close>

record function_param =
  fp_Name :: string
  fp_DataType :: string
  fp_Comment :: string
  fp_DefaultValue :: string

record function_column =
  fc_Name :: string
  fc_DataType :: string
  fc_Comment :: string

record function_resources =
  fr_Jars :: "string list"
  fr_Files :: "string list"
  fr_Archives :: "string list"

record function_impl =
  fi_Language :: string
  fi_Runtime :: string
  fi_SQL :: string
  fi_ClassName :: string
  fi_Handler :: string
  fi_CodeBlock :: string
  fi_Resources :: "function_resources option"
  fi_Properties :: "string gomap"

record function_definition =
  fd_Parameters :: "function_param list"
  fd_ReturnType :: string
  fd_ReturnColumns :: "function_column list"
  fd_Impls :: "function_impl list"

record gfunction =
  fn_Name :: string
  fn_FunctionType :: string
  fn_Deterministic :: bool
  fn_Comment :: string
  fn_Definitions :: "function_definition list"
  fn_Audit :: "audit option"

record function_register_request =
  frr_Name :: string
  frr_FunctionType :: string
  frr_Deterministic :: bool
  frr_Comment :: string
  frr_Definitions :: "function_definition list"

datatype function_update =
  NewUpdateFunctionCommentRequest "string option"
| NewAddFunctionDefinitionRequest function_definition
| NewRemoveFunctionDefinitionRequest "function_param list"
| NewAddFunctionImplRequest "function_param list" function_impl
| NewUpdateFunctionImplRequest "function_param list" string function_impl
| NewRemoveFunctionImplRequest "function_param list" string

definition FunctionParam_text :: "function_param \<Rightarrow> string option" where
  "FunctionParam_text p = struct_text
     ([(''name'', Some (str_marshal (fp_Name p))), (''dataType'', raw_marshal (fp_DataType p))]
      @ unless_empty (fp_Comment p) ''comment'' (Some (str_marshal (fp_Comment p)))
      @ unless_empty (fp_DefaultValue p) ''defaultValue'' (raw_marshal (fp_DefaultValue p)))"

definition FunctionColumn_text :: "function_column \<Rightarrow> string option" where
  "FunctionColumn_text c = struct_text
     ([(''name'', Some (str_marshal (fc_Name c))), (''dataType'', raw_marshal (fc_DataType c))]
      @ unless_empty (fc_Comment c) ''comment'' (Some (str_marshal (fc_Comment c))))"

definition strings_json :: "string list \<Rightarrow> json" where
  "strings_json xs = JArr (map JStr xs)"

definition opt_member :: "'a list \<Rightarrow> string \<Rightarrow> json \<Rightarrow> (string \<times> json) list" where
  "opt_member v k j = (if v = [] then [] else [(k, j)])"

definition FunctionImpl_json :: "function_impl \<Rightarrow> json" where
  "FunctionImpl_json i = JObj
     ([(''language'', JStr (fi_Language i)), (''runtime'', JStr (fi_Runtime i))]
      @ opt_member (fi_SQL i) ''sql'' (JStr (fi_SQL i))
      @ opt_member (fi_ClassName i) ''className'' (JStr (fi_ClassName i))
      @ opt_member (fi_Handler i) ''handler'' (JStr (fi_Handler i))
      @ opt_member (fi_CodeBlock i) ''codeBlock'' (JStr (fi_CodeBlock i))
      @ (case fi_Resources i of None \<Rightarrow> []
         | Some r \<Rightarrow> [(''resources'', JObj (opt_member (fr_Jars r) ''jars'' (strings_json (fr_Jars r))
              @ opt_member (fr_Files r) ''files'' (strings_json (fr_Files r))
              @ opt_member (fr_Archives r) ''archives'' (strings_json (fr_Archives r))))])
      @ opt_member (fi_Properties i) ''properties'' (jmap (map (\<lambda>kv. (fst kv, JStr (snd kv))) (fi_Properties i))))"

definition FunctionImpl_text :: "function_impl \<Rightarrow> string" where
  "FunctionImpl_text i = json_marshal (FunctionImpl_json i)"

definition FunctionDefinition_text :: "function_definition \<Rightarrow> string option" where
  "FunctionDefinition_text d = struct_text
     (unless_empty (fd_Parameters d) ''parameters'' (array_text (map FunctionParam_text (fd_Parameters d)))
      @ unless_empty (fd_ReturnType d) ''returnType'' (raw_marshal (fd_ReturnType d))
      @ unless_empty (fd_ReturnColumns d) ''returnColumns'' (array_text (map FunctionColumn_text (fd_ReturnColumns d)))
      @ unless_empty (fd_Impls d) ''impls'' (array_text (map (\<lambda>i. Some (FunctionImpl_text i)) (fd_Impls d))))"

definition FunctionDefinitionSignature :: "function_param list \<Rightarrow> string" where
  "FunctionDefinitionSignature parameters =
     join '','' (map (\<lambda>p. fp_Name p @ '':'' @ DataTypeToString (fp_DataType p)) parameters)"

definition Signature :: "function_definition \<Rightarrow> string" where
  "Signature d = FunctionDefinitionSignature (fd_Parameters d)"

text \<open>The Go-syntax fallback of \<open>Shape\<close> for a definition that does not encode prints every field, so
  it is the definition itself.\<close>

definition Shape :: "function_definition \<Rightarrow> function_definition + string" where
  "Shape d =
     (let d' = d\<lparr>fd_Impls := []\<rparr>
      in case FunctionDefinition_text d' of Some t \<Rightarrow> Inr t | None \<Rightarrow> Inl d')"

definition functionDefinitionEqual :: "function_definition \<Rightarrow> function_definition \<Rightarrow> bool" where
  "functionDefinitionEqual a b =
     (case (FunctionDefinition_text a, FunctionDefinition_text b) of (Some s, Some t) \<Rightarrow> s = t | _ \<Rightarrow> False)"

definition FunctionImplEqual :: "function_impl \<Rightarrow> function_impl \<Rightarrow> bool" where
  "FunctionImplEqual a b = (FunctionImpl_text a = FunctionImpl_text b)"

definition FunctionImplKey :: "function_impl \<Rightarrow> string" where
  "FunctionImplKey i = fi_Runtime i"

definition NormalizeFunctionType :: "string \<Rightarrow> string" where
  "NormalizeFunctionType = to_upper"

subsection \<open>What the encoder writes is valid\<close>

definition html_escape :: "char \<Rightarrow> string" where
  "html_escape c = concat (map html_char (json_escape c))"

lemma html_escape_plain:
  assumes "c \<notin> {CHR ''<'', CHR ''>'', CHR ''&''}"
  shows "html_escape c = json_escape c"
proof -
  have hex: "hex_digit n \<notin> {CHR ''<'', CHR ''>'', CHR ''&''}" if "n < 16" for n
  proof
    assume "hex_digit n \<in> {CHR ''<'', CHR ''>'', CHR ''&''}"
    then have "hex_val (hex_digit n) \<in> {hex_val CHR ''<'', hex_val CHR ''>'', hex_val CHR ''&''}" by auto
    then show False using that by (simp add: hex_val_digit) (simp add: hex_val_def is_digit_def code_def)
  qed
  have digits: "hex_digit (code c div 16) \<notin> {CHR ''<'', CHR ''>'', CHR ''&''}" "hex_digit (code c mod 16) \<notin> {CHR ''<'', CHR ''>'', CHR ''&''}"
    using less_mult_imp_div_less [of "code c" 16 16] code_lt [of c] by (intro hex; simp)+
  have "d \<notin> {CHR ''<'', CHR ''>'', CHR ''&''}" if "d \<in> set (json_escape c)" for d
    using that assms digits unfolding json_escape_def by (simp split: if_split_asm) ((elim disjE; simp)+)
  moreover have "concat (map html_char xs) = xs" if "\<forall>d \<in> set xs. d \<notin> {CHR ''<'', CHR ''>'', CHR ''&''}" for xs
    using that by (induction xs) (simp_all add: html_char_def)
  ultimately show ?thesis by (simp add: html_escape_def)
qed

lemma parse_chars_html:
  "parse_chars (Suc n) (html_escape c @ rest) = map_option (\<lambda>(s, r). (c # s, r)) (parse_chars n rest)"
proof (cases "c \<in> {CHR ''<'', CHR ''>'', CHR ''&''}")
  case True
  have hex: "hex_val CHR ''0'' = Some 0" "hex_val CHR ''3'' = Some 3" "hex_val CHR ''c'' = Some 12" "hex_val CHR ''e'' = Some 14"
    "hex_val CHR ''2'' = Some 2" "hex_val CHR ''6'' = Some 6"
    by (simp_all add: hex_val_def is_digit_def code_def)
  have utf: "utf8 60 = ''<''" "utf8 62 = ''>''" "utf8 38 = ''&''" "\<not> is_surrogate 60" "\<not> is_surrogate 62" "\<not> is_surrogate 38"
  proof -
    have lits: "code CHR ''<'' = 60" "code CHR ''>'' = 62" "code CHR ''&'' = 38" by (simp_all add: code_def)
    have "char_of (60 :: nat) = CHR ''<''" "char_of (62 :: nat) = CHR ''>''" "char_of (38 :: nat) = CHR ''&''"
      by (simp_all flip: code_inject add: lits)
    then show "utf8 60 = ''<''" "utf8 62 = ''>''" "utf8 38 = ''&''" "\<not> is_surrogate 60" "\<not> is_surrogate 62" "\<not> is_surrogate 38"
      by (simp_all add: utf8_def is_surrogate_def)
  qed
  have esc: "html_escape CHR ''<'' = [CHR 0x5C] @ ''u003c''" "html_escape CHR ''>'' = [CHR 0x5C] @ ''u003e''"
    "html_escape CHR ''&'' = [CHR 0x5C] @ ''u0026''"
    by (simp_all add: html_escape_def json_escape_def html_char_def code_def)
  from True show ?thesis
    by (elim insertE emptyE) (simp_all add: esc hex utf code_lits)
next
  case False
  then show ?thesis by (simp add: html_escape_plain parse_chars_escape)
qed

lemma parse_chars_html_text:
  "length s < n \<Longrightarrow> parse_chars n (concat (map html_escape s) @ CHR 0x22 # rest) = Some (s, rest)"
proof (induction s arbitrary: n)
  case Nil
  then show ?case by (cases n) (simp_all add: code_lits)
next
  case (Cons c s)
  then obtain m where "n = Suc m" by (cases n) auto
  with Cons show ?case by (simp add: parse_chars_html)
qed

lemma str_marshal_text: "str_marshal s = CHR 0x22 # concat (map html_escape s) @ [CHR 0x22]"
  by (induction s) (simp_all add: str_marshal_def json_marshal_def string_text_def html_escape_def html_char_def)

lemma html_escape_length: "length s \<le> length (concat (map html_escape s))"
proof (induction s)
  case (Cons c s)
  have "1 \<le> length (html_escape c)"
  proof (cases "c \<in> {CHR ''<'', CHR ''>'', CHR ''&''}")
    case True
    then show ?thesis by (auto simp: html_escape_def json_escape_def html_char_def code_def)
  next
    case False
    then show ?thesis by (simp add: html_escape_plain json_escape_def)
  qed
  with Cons show ?case by simp
qed simp

lemma parse_str_marshal: "parse_json (str_marshal s) = Some (JStr s)"
  using html_escape_length [of s]
  by (simp add: parse_json_def str_marshal_text parse_string_def code_lits parse_chars_html_text skip_ws_def is_json_ws_def
      del: parse_chars.simps)

lemma str_marshal_nonempty [simp]: "str_marshal s \<noteq> []"
  by (simp add: str_marshal_text)

lemma DataTypeToString_str [simp]: "DataTypeToString (str_marshal s) = s"
  by (simp add: DataTypeToString_def unmarshal_string_def parse_str_marshal)

lemma encode_valid: "encodeDataTypeExpression t = Inr r \<Longrightarrow> r \<noteq> [] \<and> parse_json r \<noteq> None"
  by (auto simp: encodeDataTypeExpression_def parse_str_marshal split: if_splits)

lemma raw_marshal_valid: "r = [] \<or> parse_json r \<noteq> None \<Longrightarrow> raw_marshal r \<noteq> None"
  by (auto simp: raw_marshal_def)

end
