(* ===== verification/FunctionTf.thy ===== *)
theory FunctionTf
  imports FunctionModel Handlers
begin

section \<open>Function definitions in Terraform (models/function_tfsdk.go, function_validation.go)\<close>

text \<open>
  The conversion of definitions from the configuration to the API, with its validation, and back to
  the state. Converting back has two modes: after an apply the plan decides which definitions are
  written and in which spelling, in a refresh the server does, and the state only keeps its spelling
  of a definition the server echoes. The decoders of nested lists are the framework's
  (\<open>function_fw\<close>); encoding a value cannot fail.
\<close>

record function_param_tfsdk =
  fpt_Name :: "string tfval"
  fpt_DataType :: "string tfval"
  fpt_Comment :: "string tfval"
  fpt_DefaultValue :: "string tfval"

record function_column_tfsdk =
  fct_Name :: "string tfval"
  fct_DataType :: "string tfval"
  fct_Comment :: "string tfval"

record function_resources_tfsdk =
  frt_Jars :: tf_strings
  frt_Files :: tf_strings
  frt_Archives :: tf_strings

record function_impl_tfsdk =
  fit_Language :: "string tfval"
  fit_Runtime :: "string tfval"
  fit_SQL :: "string tfval"
  fit_ClassName :: "string tfval"
  fit_Handler :: "string tfval"
  fit_CodeBlock :: "string tfval"
  fit_Resources :: "function_resources_tfsdk tfval"
  fit_Properties :: tf_map

record function_definition_tfsdk =
  fdt_Parameters :: "function_param_tfsdk tfval list tfval"
  fdt_ReturnType :: "string tfval"
  fdt_ReturnColumns :: "function_column_tfsdk tfval list tfval"
  fdt_Impls :: "function_impl_tfsdk tfval list tfval"

record function_fw = fw +
  ffw_params :: "function_param_tfsdk tfval list \<Rightarrow> diags + function_param_tfsdk list"
  ffw_columns :: "function_column_tfsdk tfval list \<Rightarrow> diags + function_column_tfsdk list"
  ffw_impls :: "function_impl_tfsdk tfval list \<Rightarrow> diags + function_impl_tfsdk list"
  ffw_definitions :: "function_definition_tfsdk tfval list \<Rightarrow> diags + function_definition_tfsdk list"

definition function_fw_decodes :: "('a function_fw_scheme) \<Rightarrow> bool" where
  "function_fw_decodes fw \<longleftrightarrow> fw_decodes fw \<and>
     (\<forall>xs. ffw_params fw (map TKnown xs) = Inr xs) \<and> (\<forall>xs. ffw_columns fw (map TKnown xs) = Inr xs) \<and>
     (\<forall>xs. ffw_impls fw (map TKnown xs) = Inr xs) \<and> (\<forall>xs. ffw_definitions fw (map TKnown xs) = Inr xs)"

definition strict_function_fw :: function_fw where
  "strict_function_fw =
     \<lparr>fw_strings = fw_strings strict_fw, fw_map = fw_map strict_fw, fw_unhandled = strict_error,
      ffw_params = known_blocks, ffw_columns = known_blocks, ffw_impls = known_blocks, ffw_definitions = known_blocks\<rparr>"

lemma strict_function_fw_decodes: "function_fw_decodes strict_function_fw"
  using strict_fw_decodes by (simp add: function_fw_decodes_def fw_decodes_def strict_function_fw_def)

subsection \<open>From the configuration\<close>

text \<open>A list is converted element by element; the first error stops the conversion.\<close>

fun traverse :: "(nat \<Rightarrow> 'a \<Rightarrow> diags + 'b) \<Rightarrow> nat \<Rightarrow> 'a list \<Rightarrow> diags + 'b list" where
  "traverse f i [] = Inr []"
| "traverse f i (x # xs) =
     (case f i x of Inl ds \<Rightarrow> Inl ds | Inr y \<Rightarrow> map_sum (\<lambda>ds. ds) (\<lambda>ys. y # ys) (traverse f (Suc i) xs))"

definition decode_list :: "('a tfval list \<Rightarrow> diags + 'a list) \<Rightarrow> 'a tfval list tfval \<Rightarrow> diags + 'a list" where
  "decode_list decode v = (case v of TKnown xs \<Rightarrow> decode xs | _ \<Rightarrow> Inr [])"

definition at_index :: "string \<Rightarrow> string \<Rightarrow> nat \<Rightarrow> string" where
  "at_index path attribute i = path @ attribute @ ''['' @ itoa (int i) @ '']''"

definition known_nonempty :: "string tfval \<Rightarrow> bool" where
  "known_nonempty v \<longleftrightarrow> \<not> IsNull v \<and> \<not> IsUnknown v \<and> ValueString v \<noteq> []"

definition FunctionParamFromTF :: "string \<Rightarrow> nat \<Rightarrow> function_param_tfsdk \<Rightarrow> diags + function_param" where
  "FunctionParamFromTF path i tp =
     (let parameterPath = at_index path ''.parameters'' i in
      case DataTypeFromString (ValueString (fpt_DataType tp)) of
        Inl err \<Rightarrow> Inl [error_diag ''Invalid function data type'' (parameterPath @ ''.data_type: '' @ err_text err @ ''.'')]
      | Inr dataType \<Rightarrow>
          (let p = \<lparr>fp_Name = ValueString (fpt_Name tp), fp_DataType = dataType,
                    fp_Comment = ValueString (fpt_Comment tp), fp_DefaultValue = []\<rparr> in
           if known_nonempty (fpt_DefaultValue tp)
           then (case RawJSONFromString (ValueString (fpt_DefaultValue tp)) of
                   Inl err \<Rightarrow> Inl [error_diag ''Invalid default value''
                     (parameterPath @ ''.default_value: '' @ err_text err @ '' (use jsonencode() for an argument document).'')]
                 | Inr v \<Rightarrow> Inr (p\<lparr>fp_DefaultValue := v\<rparr>))
           else Inr p))"

definition FunctionColumnFromTF :: "string \<Rightarrow> nat \<Rightarrow> function_column_tfsdk \<Rightarrow> diags + function_column" where
  "FunctionColumnFromTF path i tc =
     (case DataTypeFromString (ValueString (fct_DataType tc)) of
        Inl err \<Rightarrow> Inl [error_diag ''Invalid return column data type''
          (at_index path ''.return_columns'' i @ ''.data_type: '' @ err_text err @ ''.'')]
      | Inr dataType \<Rightarrow> Inr \<lparr>fc_Name = ValueString (fct_Name tc), fc_DataType = dataType, fc_Comment = ValueString (fct_Comment tc)\<rparr>)"

definition stringListFromTF :: "('a fw_scheme) \<Rightarrow> tf_strings \<Rightarrow> diags + string list" where
  "stringListFromTF fw v = (case v of TKnown xs \<Rightarrow> fw_strings fw xs | _ \<Rightarrow> Inr [])"

definition errors_of :: "diags + 'a \<Rightarrow> diags" where
  "errors_of r = (case r of Inl ds \<Rightarrow> ds | Inr _ \<Rightarrow> [])"

definition value_or_nil :: "diags + 'a list \<Rightarrow> 'a list" where
  "value_or_nil r = (case r of Inl _ \<Rightarrow> [] | Inr xs \<Rightarrow> xs)"

definition resources_from :: "('a fw_scheme) \<Rightarrow> function_resources_tfsdk tfval \<Rightarrow> diags + function_resources option" where
  "resources_from fw v =
     (case v of
        TKnown r \<Rightarrow>
          (let jars = stringListFromTF fw (frt_Jars r); files = stringListFromTF fw (frt_Files r);
               archives = stringListFromTF fw (frt_Archives r);
               ds = errors_of jars @ errors_of files @ errors_of archives;
               res = \<lparr>fr_Jars = value_or_nil jars, fr_Files = value_or_nil files, fr_Archives = value_or_nil archives\<rparr>
           in if HasError ds then Inl ds
              else if fr_Jars res \<noteq> [] \<or> fr_Files res \<noteq> [] \<or> fr_Archives res \<noteq> [] then Inr (Some res)
              else Inr None)
      | _ \<Rightarrow> Inr None)"

definition AllFunctionLanguages :: "string list" where
  "AllFunctionLanguages = [''SQL'', ''JAVA'', ''PYTHON'']"

definition AllFunctionRuntimes :: "string list" where
  "AllFunctionRuntimes = [''SPARK'', ''TRINO'']"

definition impl_errors :: "string \<Rightarrow> function_impl \<Rightarrow> diags" where
  "impl_errors path impl =
     (if fi_Runtime impl = []
      then [error_diag ''Invalid function implementation''
        (path @ ''.runtime: every implementation requires a runtime ('' @ join '', '' AllFunctionRuntimes @ '').'')]
      else []) @
     (if fi_Language impl = ''SQL''
      then (if fi_SQL impl = []
            then [error_diag ''Invalid SQL implementation'' (path @ ''.sql: a SQL implementation requires the sql expression.'')]
            else [])
      else if fi_Language impl = ''JAVA''
      then (if fi_ClassName impl = []
            then [error_diag ''Invalid JAVA implementation''
              (path @ ''.class_name: a JAVA implementation requires the fully qualified class name.'')]
            else [])
      else if fi_Language impl = ''PYTHON'' then []
      else [error_diag ''Invalid function implementation''
        (path @ ''.language: must be one of '' @ join '', '' AllFunctionLanguages @ ''.'')])"

definition FunctionImplFromTF :: "('a fw_scheme) \<Rightarrow> string \<Rightarrow> function_impl_tfsdk \<Rightarrow> diags + function_impl" where
  "FunctionImplFromTF fw path ti =
     (case (case fit_Properties ti of TKnown m \<Rightarrow> fw_map fw m | _ \<Rightarrow> Inr []) of
        Inl ds \<Rightarrow> Inl ds
      | Inr properties \<Rightarrow>
          (case resources_from fw (fit_Resources ti) of
             Inl ds \<Rightarrow> Inl ds
           | Inr resources \<Rightarrow>
               (let impl = \<lparr>fi_Language = ValueString (fit_Language ti), fi_Runtime = ValueString (fit_Runtime ti),
                      fi_SQL = ValueString (fit_SQL ti), fi_ClassName = ValueString (fit_ClassName ti),
                      fi_Handler = ValueString (fit_Handler ti), fi_CodeBlock = ValueString (fit_CodeBlock ti),
                      fi_Resources = resources, fi_Properties = properties\<rparr>
                in if impl_errors path impl \<noteq> [] then Inl (impl_errors path impl) else Inr impl)))"

definition duplicate_runtime :: "string \<Rightarrow> string \<Rightarrow> diags" where
  "duplicate_runtime path runtime =
     [error_diag ''Invalid function implementation''
        (path @ ''.runtime: a definition can hold at most one implementation per runtime, '' @ quote runtime
         @ '' is used more than once.'')]"

fun FunctionImplsFromTF ::
    "('a fw_scheme) \<Rightarrow> string \<Rightarrow> nat \<Rightarrow> string list \<Rightarrow> function_impl_tfsdk list \<Rightarrow> diags + function_impl list" where
  "FunctionImplsFromTF fw path i seen [] = Inr []"
| "FunctionImplsFromTF fw path i seen (ti # tis) =
     (case FunctionImplFromTF fw (at_index path ''.impls'' i) ti of
        Inl ds \<Rightarrow> Inl ds
      | Inr impl \<Rightarrow>
          if fi_Runtime impl \<in> set seen then Inl (duplicate_runtime (at_index path ''.impls'' i) (fi_Runtime impl))
          else map_sum (\<lambda>ds. ds) (\<lambda>impls. impl # impls)
                 (FunctionImplsFromTF fw path (Suc i) (fi_Runtime impl # seen) tis))"

definition return_type_from :: "string \<Rightarrow> string tfval \<Rightarrow> diags + string" where
  "return_type_from path v =
     (if known_nonempty v
      then (case DataTypeFromString (ValueString v) of
              Inl err \<Rightarrow> Inl [error_diag ''Invalid function return type'' (path @ ''.return_type: '' @ err_text err @ ''.'')]
            | Inr r \<Rightarrow> Inr r)
      else Inr [])"

definition sum_bind :: "'e + 'a \<Rightarrow> ('a \<Rightarrow> 'e + 'b) \<Rightarrow> 'e + 'b" where
  "sum_bind r f = (case r of Inl e \<Rightarrow> Inl e | Inr a \<Rightarrow> f a)"

definition FunctionDefinitionFromTF ::
    "('a function_fw_scheme) \<Rightarrow> string \<Rightarrow> function_definition_tfsdk \<Rightarrow> diags + function_definition" where
  "FunctionDefinitionFromTF fw path td =
     sum_bind (sum_bind (decode_list (ffw_params fw) (fdt_Parameters td)) (traverse (FunctionParamFromTF path) 0)) (\<lambda>parameters.
     sum_bind (return_type_from path (fdt_ReturnType td)) (\<lambda>returnType.
     sum_bind (sum_bind (decode_list (ffw_columns fw) (fdt_ReturnColumns td)) (traverse (FunctionColumnFromTF path) 0)) (\<lambda>columns.
     sum_bind (sum_bind (decode_list (ffw_impls fw) (fdt_Impls td)) (FunctionImplsFromTF fw path 0 [])) (\<lambda>impls.
     Inr \<lparr>fd_Parameters = parameters, fd_ReturnType = returnType, fd_ReturnColumns = columns, fd_Impls = impls\<rparr>))))"

definition FunctionDefinitionsFromTF ::
    "('a function_fw_scheme) \<Rightarrow> function_definition_tfsdk tfval list tfval \<Rightarrow> diags + function_definition list" where
  "FunctionDefinitionsFromTF fw v =
     sum_bind (decode_list (ffw_definitions fw) v)
       (traverse (\<lambda>i. FunctionDefinitionFromTF fw (at_index '''' ''definitions'' i)) 0)"

subsection \<open>The external data type (function_validation.go)\<close>

definition external_type_error :: "path_step list \<Rightarrow> string \<Rightarrow> string \<Rightarrow> string \<Rightarrow> string \<Rightarrow> diags" where
  "external_type_error attrPath label name server raw =
     (if raw = [] then []
      else case ParseDataType (DataTypeToString raw) of
        Inl _ \<Rightarrow> []
      | Inr d \<Rightarrow>
          if \<not> UsesExternalType d then []
          else [attribute_error attrPath ''External function data type requires Gravitino 1.3.1 or later''
            (''The '' @ (if name \<noteq> [] then label @ '' '' @ quote name else label)
             @ '' uses the external data type, which the connected Gravitino '' @ server
             @ '' server does not accept. Upgrade the server to 1.3.1 or later, or use a type Gravitino understands.'')])"

definition FunctionExternalTypeDiagnostics :: "function_definition list \<Rightarrow> string \<Rightarrow> bool \<Rightarrow> diags" where
  "FunctionExternalTypeDiagnostics definitions serverVersion supported =
     (if supported then []
      else
        let server = (if serverVersion = [] then ''unknown'' else serverVersion) in
        concat (map (\<lambda>(i, d).
          concat (map (\<lambda>(j, p). external_type_error
              [AtName ''definitions'', AtListIndex i, AtName ''parameters'', AtListIndex j, AtName ''data_type'']
              ''parameter'' (fp_Name p) server (fp_DataType p)) (enumerate 0 (fd_Parameters d)))
          @ external_type_error [AtName ''definitions'', AtListIndex i, AtName ''return_type''] ''return type'' [] server
              (fd_ReturnType d)
          @ concat (map (\<lambda>(j, c). external_type_error
              [AtName ''definitions'', AtListIndex i, AtName ''return_columns'', AtListIndex j, AtName ''data_type'']
              ''return column'' (fc_Name c) server (fc_DataType c)) (enumerate 0 (fd_ReturnColumns d))))
          (enumerate 0 definitions)))"

subsection \<open>To the state\<close>

text \<open>A Go map filled from a list keeps the last entry of a name, or the first when guarded by a look-up.\<close>

definition last_named :: "('a \<Rightarrow> string) \<Rightarrow> 'a list \<Rightarrow> string \<Rightarrow> 'a option" where
  "last_named name xs n = find (\<lambda>x. name x = n) (rev xs)"

definition first_named :: "('a \<Rightarrow> string) \<Rightarrow> 'a list \<Rightarrow> string \<Rightarrow> 'a option" where
  "first_named name xs n = find (\<lambda>x. name x = n) xs"

datatype mappingMode = mappingFromServer | mappingFromPlan

definition functionParamsToTF :: "function_param list \<Rightarrow> function_param list \<Rightarrow> function_param_tfsdk tfval list tfval" where
  "functionParamsToTF parameters previous =
     (if parameters = [] then TNull
      else TKnown (map (\<lambda>p.
        let prior = last_named fp_Name previous (fp_Name p);
            dataType = (case prior of Some q \<Rightarrow> preferRaw (fp_DataType q) (fp_DataType p) | None \<Rightarrow> fp_DataType p);
            defaultValue = (case prior of Some q \<Rightarrow> preferRaw (fp_DefaultValue q) (fp_DefaultValue p) | None \<Rightarrow> fp_DefaultValue p)
        in TKnown \<lparr>fpt_Name = TKnown (fp_Name p), fpt_DataType = TKnown (DataTypeToString dataType),
             fpt_Comment = opt_text (fp_Comment p),
             fpt_DefaultValue = (if defaultValue = [] then TNull else TKnown (DataTypeToString defaultValue))\<rparr>) parameters))"

definition functionColumnsToTF :: "function_column list \<Rightarrow> function_column list \<Rightarrow> function_column_tfsdk tfval list tfval" where
  "functionColumnsToTF columns previous =
     (if columns = [] then TNull
      else TKnown (map (\<lambda>c.
        let dataType = (case last_named fc_Name previous (fc_Name c) of
              Some q \<Rightarrow> preferRaw (fc_DataType q) (fc_DataType c) | None \<Rightarrow> fc_DataType c)
        in TKnown \<lparr>fct_Name = TKnown (fc_Name c), fct_DataType = TKnown (DataTypeToString dataType),
             fct_Comment = opt_text (fc_Comment c)\<rparr>) columns))"

definition stringListToTF :: "string list \<Rightarrow> tf_strings" where
  "stringListToTF xs = (if xs = [] then TNull else StringsToList xs)"

definition functionImplToObject :: "function_impl \<Rightarrow> function_impl_tfsdk" where
  "functionImplToObject impl =
     \<lparr>fit_Language = TKnown (fi_Language impl), fit_Runtime = TKnown (fi_Runtime impl), fit_SQL = opt_text (fi_SQL impl),
      fit_ClassName = opt_text (fi_ClassName impl), fit_Handler = opt_text (fi_Handler impl),
      fit_CodeBlock = opt_text (fi_CodeBlock impl),
      fit_Resources = (case fi_Resources impl of
          None \<Rightarrow> TNull
        | Some r \<Rightarrow>
            if fr_Jars r \<noteq> [] \<or> fr_Files r \<noteq> [] \<or> fr_Archives r \<noteq> []
            then TKnown \<lparr>frt_Jars = stringListToTF (fr_Jars r), frt_Files = stringListToTF (fr_Files r),
                         frt_Archives = stringListToTF (fr_Archives r)\<rparr>
            else TNull),
      fit_Properties = (if fi_Properties impl = [] then TNull else TKnown (known_map (fi_Properties impl)))\<rparr>"

text \<open>The implementations of the state in its order, each as the server has it (but kept as it is when
  it is equal on the wire), then, in a refresh, the ones only the server has.\<close>

definition ordered_impls :: "mappingMode \<Rightarrow> function_impl list \<Rightarrow> function_impl list \<Rightarrow> function_impl list" where
  "ordered_impls mode impls previous =
     (if previous = [] then impls
      else
        let kept = concat (map (\<lambda>prior.
              case last_named FunctionImplKey impls (FunctionImplKey prior) of
                None \<Rightarrow> if mode = mappingFromPlan then [prior] else []
              | Some i \<Rightarrow> [if FunctionImplEqual prior i then prior else i]) previous);
            converted = filter (\<lambda>k. k \<in> set (map FunctionImplKey impls)) (map FunctionImplKey previous)
        in kept @ (if mode = mappingFromServer
                   then snd (fold (\<lambda>i (done, new). if FunctionImplKey i \<in> set done then (done, new)
                          else (FunctionImplKey i # done, new @ [i])) impls (converted, []))
                   else []))"

definition functionImplsToTF :: "mappingMode \<Rightarrow> function_impl list \<Rightarrow> function_impl list \<Rightarrow> function_impl_tfsdk tfval list tfval" where
  "functionImplsToTF mode impls previous =
     (let ordered = ordered_impls mode impls previous
      in if ordered = [] then TNull else TKnown (map (\<lambda>i. TKnown (functionImplToObject i)) ordered))"

definition functionDefinitionToObject ::
    "mappingMode \<Rightarrow> function_definition \<Rightarrow> function_definition option \<Rightarrow> function_definition_tfsdk" where
  "functionDefinitionToObject mode d previous =
     \<lparr>fdt_Parameters = functionParamsToTF (fd_Parameters d) (case previous of None \<Rightarrow> [] | Some p \<Rightarrow> fd_Parameters p),
      fdt_ReturnType =
        (if fd_ReturnType d = [] then TNull
         else TKnown (DataTypeToString (case previous of None \<Rightarrow> fd_ReturnType d
                | Some p \<Rightarrow> preferRaw (fd_ReturnType p) (fd_ReturnType d)))),
      fdt_ReturnColumns = functionColumnsToTF (fd_ReturnColumns d) (case previous of None \<Rightarrow> [] | Some p \<Rightarrow> fd_ReturnColumns p),
      fdt_Impls = functionImplsToTF mode (fd_Impls d) (case previous of None \<Rightarrow> [] | Some p \<Rightarrow> fd_Impls p)\<rparr>"

definition mapFunctionDefinitions ::
    "mappingMode \<Rightarrow> function_definition list \<Rightarrow> function_definition list \<Rightarrow> function_definition_tfsdk tfval list tfval" where
  "mapFunctionDefinitions mode definitions previous =
     (let items = concat (map (\<lambda>p.
            case first_named Signature definitions (Signature p) of
              None \<Rightarrow> if mode = mappingFromPlan then [functionDefinitionToObject mode p (Some p)] else []
            | Some d \<Rightarrow> [functionDefinitionToObject mode (if functionDefinitionEqual p d then p else d) (Some p)]) previous);
          converted = filter (\<lambda>g. g \<in> set (map Signature definitions)) (map Signature previous);
          extra = (if mode = mappingFromServer
                   then snd (fold (\<lambda>d (done, new). if Signature d \<in> set done then (done, new)
                          else (Signature d # done, new @ [functionDefinitionToObject mode d None])) definitions (converted, []))
                   else [])
      in if items @ extra = [] then TNull else TKnown (map TKnown (items @ extra)))"

definition FunctionDefinitionsToTFRefreshed ::
    "function_definition list \<Rightarrow> function_definition list \<Rightarrow> function_definition_tfsdk tfval list tfval" where
  "FunctionDefinitionsToTFRefreshed = mapFunctionDefinitions mappingFromServer"

definition FunctionDefinitionsToTFApplied ::
    "function_definition list \<Rightarrow> function_definition list \<Rightarrow> function_definition_tfsdk tfval list tfval" where
  "FunctionDefinitionsToTFApplied = mapFunctionDefinitions mappingFromPlan"

definition FunctionDefinitionsToTF :: "function_definition list \<Rightarrow> function_definition_tfsdk tfval list tfval" where
  "FunctionDefinitionsToTF definitions = mapFunctionDefinitions mappingFromServer definitions []"

subsection \<open>What the conversion accepts\<close>

definition impl_complete :: "function_impl \<Rightarrow> bool" where
  "impl_complete i \<longleftrightarrow> fi_Runtime i \<noteq> [] \<and>
     (fi_Language i = ''SQL'' \<and> fi_SQL i \<noteq> [] \<or> fi_Language i = ''JAVA'' \<and> fi_ClassName i \<noteq> [] \<or> fi_Language i = ''PYTHON'')"

lemma complete_iff: "impl_errors path i = [] \<longleftrightarrow> impl_complete i"
  by (auto simp: impl_errors_def impl_complete_def)

lemma impl_from_complete: "FunctionImplFromTF fw path ti = Inr i \<Longrightarrow> impl_complete i"
  by (auto simp: FunctionImplFromTF_def Let_def simp flip: complete_iff [of path] split: sum.splits if_splits)

lemma impls_from:
  "FunctionImplsFromTF fw path n seen tis = Inr impls \<Longrightarrow>
     distinct (map FunctionImplKey impls) \<and> set (map FunctionImplKey impls) \<inter> set seen = {} \<and> list_all impl_complete impls"
proof (induction fw path n seen tis arbitrary: impls rule: FunctionImplsFromTF.induct)
  case (2 fw path n seen ti tis)
  obtain i where i: "FunctionImplFromTF fw (at_index path ''.impls'' n) ti = Inr i"
    using "2.prems" by (auto split: sum.splits)
  with "2.prems" obtain rest where r: "fi_Runtime i \<notin> set seen"
      "FunctionImplsFromTF fw path (Suc n) (fi_Runtime i # seen) tis = Inr rest" "impls = i # rest"
    by (cases "FunctionImplsFromTF fw path (Suc n) (fi_Runtime i # seen) tis") (auto split: if_splits)
  from "2.IH" [OF i r(1,2)] r impl_from_complete [OF i] show ?case
    by (auto simp: FunctionImplKey_def)
qed simp

lemma traverse_all: "traverse f n xs = Inr ys \<Longrightarrow> (\<And>i x y. f i x = Inr y \<Longrightarrow> P y) \<Longrightarrow> list_all P ys"
proof (induction xs arbitrary: n ys)
  case (Cons x xs)
  then obtain y zs where "f n x = Inr y" "traverse f (Suc n) xs = Inr zs" "ys = y # zs"
    by (cases "traverse f (Suc n) xs") (auto split: sum.splits)
  with Cons show ?case by auto
qed simp

lemma sum_bind_Inr: "sum_bind r f = Inr b \<longleftrightarrow> (\<exists>a. r = Inr a \<and> f a = Inr b)"
  by (simp add: sum_bind_def split: sum.split)

lemma encoded_data_type: "DataTypeFromString v = Inr r \<Longrightarrow> raw_marshal r \<noteq> None"
  by (rule raw_marshal_valid) (auto simp: DataTypeFromString_def Let_def dest: encode_valid split: if_splits sum.splits)

lemma encoded_document: "RawJSONFromString v = Inr r \<Longrightarrow> raw_marshal r \<noteq> None"
  by (rule raw_marshal_valid) (auto simp: RawJSONFromString_def Let_def dest: encode_valid split: if_splits)

lemma struct_text_some: "struct_text fs \<noteq> None \<longleftrightarrow> list_all (\<lambda>f. snd f \<noteq> None) fs"
  by (auto simp: struct_text_def list_ex_iff list_all_iff)

lemma array_text_some: "list_all (\<lambda>x. x \<noteq> None) xs \<Longrightarrow> array_text xs \<noteq> None"
  by (induction xs) (auto simp: array_text_def)

lemma param_encodes: "FunctionParamFromTF path i tp = Inr p \<Longrightarrow> FunctionParam_text p \<noteq> None"
  unfolding FunctionParam_text_def struct_text_some
  by (auto simp: FunctionParamFromTF_def Let_def unless_empty_def split: sum.splits if_splits
      dest: encoded_data_type encoded_document)

lemma column_encodes: "FunctionColumnFromTF path i tc = Inr c \<Longrightarrow> FunctionColumn_text c \<noteq> None"
  unfolding FunctionColumn_text_def struct_text_some
  by (auto simp: FunctionColumnFromTF_def unless_empty_def split: sum.splits dest: encoded_data_type)

lemma return_type_encodes: "return_type_from path v = Inr r \<Longrightarrow> raw_marshal r \<noteq> None"
  by (auto simp: return_type_from_def raw_marshal_def split: if_splits sum.splits dest: encoded_data_type)

definition definition_wellformed :: "function_definition \<Rightarrow> bool" where
  "definition_wellformed d \<longleftrightarrow> distinct (map FunctionImplKey (fd_Impls d)) \<and> list_all impl_complete (fd_Impls d) \<and>
     FunctionDefinition_text d \<noteq> None"

lemma definition_from_wellformed:
  assumes "FunctionDefinitionFromTF fw path td = Inr d"
  shows "definition_wellformed d"
proof -
  from assms obtain ps r cs impls where parts:
      "sum_bind (decode_list (ffw_params fw) (fdt_Parameters td)) (traverse (FunctionParamFromTF path) 0) = Inr ps"
      "return_type_from path (fdt_ReturnType td) = Inr r"
      "sum_bind (decode_list (ffw_columns fw) (fdt_ReturnColumns td)) (traverse (FunctionColumnFromTF path) 0) = Inr cs"
      "sum_bind (decode_list (ffw_impls fw) (fdt_Impls td)) (FunctionImplsFromTF fw path 0 []) = Inr impls"
    and d: "d = \<lparr>fd_Parameters = ps, fd_ReturnType = r, fd_ReturnColumns = cs, fd_Impls = impls\<rparr>"
    unfolding FunctionDefinitionFromTF_def sum_bind_Inr [where r = "sum_bind _ _"] sum_bind_Inr [where r = "return_type_from _ _"]
    by blast
  have "list_all (\<lambda>p. FunctionParam_text p \<noteq> None) ps"
    using parts(1) unfolding sum_bind_Inr by (elim exE conjE) (rule traverse_all [OF _ param_encodes])
  then have "array_text (map FunctionParam_text ps) \<noteq> None" by (intro array_text_some) (simp add: list.pred_map comp_def)
  moreover have "list_all (\<lambda>c. FunctionColumn_text c \<noteq> None) cs"
    using parts(3) unfolding sum_bind_Inr by (elim exE conjE) (rule traverse_all [OF _ column_encodes])
  then have "array_text (map FunctionColumn_text cs) \<noteq> None" by (intro array_text_some) (simp add: list.pred_map comp_def)
  moreover have "array_text (map (\<lambda>i. Some (FunctionImpl_text i)) impls) \<noteq> None"
    by (intro array_text_some) (simp add: list.pred_map comp_def list_all_iff)
  ultimately have "FunctionDefinition_text d \<noteq> None"
    unfolding FunctionDefinition_text_def struct_text_some d using return_type_encodes [OF parts(2)]
    by (simp add: unless_empty_def)
  moreover have "distinct (map FunctionImplKey impls) \<and> list_all impl_complete impls"
    using parts(4) impls_from unfolding sum_bind_Inr by blast
  ultimately show ?thesis by (simp add: definition_wellformed_def d)
qed

subsection \<open>Properties\<close>

text \<open>C25: Every definition accepted from the configuration is well formed, whatever the framework's
  decoders return: its implementations have different runtimes and carry what their language
  requires, and the request body that holds it can be encoded, although data types and defaults are
  passed on as raw text.\<close>

theorem accepted_definitions_wellformed:
  assumes "FunctionDefinitionsFromTF fw v = Inr ds" "d \<in> set ds"
  shows "distinct (map FunctionImplKey (fd_Impls d)) \<and>
    (\<forall>i \<in> set (fd_Impls d). fi_Runtime i \<noteq> [] \<and> fi_Language i \<in> {''SQL'', ''JAVA'', ''PYTHON''} \<and>
       (fi_Language i = ''SQL'' \<longrightarrow> fi_SQL i \<noteq> []) \<and> (fi_Language i = ''JAVA'' \<longrightarrow> fi_ClassName i \<noteq> [])) \<and>
    (\<exists>t. FunctionDefinition_text d = Some t)"
proof -
  have "list_all definition_wellformed ds"
    using assms(1) unfolding FunctionDefinitionsFromTF_def sum_bind_Inr by (elim exE conjE) (rule traverse_all [OF _ definition_from_wellformed])
  then have "definition_wellformed d" using assms(2) by (simp add: list_all_iff)
  then show ?thesis by (auto simp: definition_wellformed_def list_all_iff impl_complete_def)
qed

definition sql_definition_tfsdk :: function_definition_tfsdk where
  "sql_definition_tfsdk =
     \<lparr>fdt_Parameters = TKnown [TKnown \<lparr>fpt_Name = TKnown ''x'', fpt_DataType = TKnown ''integer'', fpt_Comment = TNull,
        fpt_DefaultValue = TNull\<rparr>],
      fdt_ReturnType = TKnown ''integer'', fdt_ReturnColumns = TNull,
      fdt_Impls = TKnown [TKnown \<lparr>fit_Language = TKnown ''SQL'', fit_Runtime = TKnown ''SPARK'', fit_SQL = TKnown ''x + 1'',
        fit_ClassName = TNull, fit_Handler = TNull, fit_CodeBlock = TNull, fit_Resources = TNull, fit_Properties = TNull\<rparr>]\<rparr>"

theorem accepted_definitions_wellformed_witness:
  "\<exists>d. FunctionDefinitionsFromTF strict_function_fw (TKnown [TKnown sql_definition_tfsdk]) = Inr [d] \<and>
     length (fd_Impls d) = 1 \<and> (\<exists>t. FunctionDefinition_text d = Some t)"
proof -
  have "case FunctionDefinitionsFromTF strict_function_fw (TKnown [TKnown sql_definition_tfsdk]) of
      Inr ds \<Rightarrow> map (\<lambda>d. length (fd_Impls d)) ds = [1] | Inl _ \<Rightarrow> False"
    by code_simp
  then obtain d where d: "FunctionDefinitionsFromTF strict_function_fw (TKnown [TKnown sql_definition_tfsdk]) = Inr [d]"
    "length (fd_Impls d) = 1" by (auto split: sum.splits)
  with accepted_definitions_wellformed [OF d(1), of d] show ?thesis by simp
qed

end
