(* ===== verification/FunctionResource.thy ===== *)
theory FunctionResource
  imports FunctionTf InUse TableResource
begin

section \<open>The function resource (resources/function/*.go)\<close>

text \<open>
  An update turns the difference between the recorded and the planned definitions into the six
  request types of the API (updates.go). The abstract view of a server here is a map from the
  signature of a definition to its shape and to a map from runtimes to implementations
  (\<open>definitions_view\<close>); \<open>function_server\<close> is what carrying out a request means on that view.
\<close>

subsection \<open>The difference of two lists of definitions (updates.go)\<close>

text \<open>The Go maps of definitions and implementations keep the first entry of a key.\<close>

definition indexDefinitions :: "function_definition list \<Rightarrow> function_definition gomap" where
  "indexDefinitions ds = fold (\<lambda>d m. if Signature d \<in> set (keys m) then m else put (Signature d) d m) ds []"

definition indexImpls :: "function_impl list \<Rightarrow> function_impl gomap" where
  "indexImpls is = fold (\<lambda>i m. if FunctionImplKey i \<in> set (keys m) then m else put (FunctionImplKey i) i m) is []"

definition sortedImplKeys :: "function_impl gomap \<Rightarrow> string list" where
  "sortedImplKeys m = sort (keys m)"

definition implementationUpdates :: "function_definition \<Rightarrow> function_definition \<Rightarrow> function_update list" where
  "implementationUpdates plan state =
     (let planImpls = indexImpls (fd_Impls plan); stateImpls = indexImpls (fd_Impls state) in
      concat (map (\<lambda>key.
        case map_of stateImpls key of
          None \<Rightarrow> []
        | Some s \<Rightarrow>
            (case map_of planImpls key of
               None \<Rightarrow> [NewRemoveFunctionImplRequest (fd_Parameters plan) (fi_Runtime s)]
             | Some p \<Rightarrow>
                 if FunctionImplEqual p s then []
                 else [NewUpdateFunctionImplRequest (fd_Parameters plan) (fi_Runtime p) p])) (sortedImplKeys stateImpls)) @
      concat (map (\<lambda>key.
        case map_of planImpls key of
          None \<Rightarrow> []
        | Some p \<Rightarrow> if map_of stateImpls key = None then [NewAddFunctionImplRequest (fd_Parameters plan) p] else [])
        (sortedImplKeys planImpls)))"

definition definitionUpdates :: "function_definition list \<Rightarrow> function_definition list \<Rightarrow> function_update list" where
  "definitionUpdates plan state =
     concat (map (\<lambda>s.
       case map_of (indexDefinitions plan) (Signature s) of
         None \<Rightarrow> [NewRemoveFunctionDefinitionRequest (fd_Parameters s)]
       | Some p \<Rightarrow> if Shape p \<noteq> Shape s then [NewRemoveFunctionDefinitionRequest (fd_Parameters s)] else []) state) @
     concat (map (\<lambda>p.
       case map_of (indexDefinitions state) (Signature p) of
         None \<Rightarrow> [NewAddFunctionDefinitionRequest p]
       | Some s \<Rightarrow> if Shape s \<noteq> Shape p then [NewAddFunctionDefinitionRequest p] else implementationUpdates p s) plan)"

definition commentValue :: "string tfval \<Rightarrow> string option" where
  "commentValue v = (case v of TKnown s \<Rightarrow> if s = [] then None else Some s | _ \<Rightarrow> None)"

subsection \<open>Handlers\<close>

record function_model =
  fm_ID :: "string tfval"
  fm_Metalake :: "string tfval"
  fm_Catalog :: "string tfval"
  fm_Schema :: "string tfval"
  fm_Name :: "string tfval"
  fm_FunctionType :: "string tfval"
  fm_Deterministic :: "bool tfval"
  fm_Comment :: "string tfval"
  fm_Definitions :: "function_definition_tfsdk tfval list tfval"
  fm_Audit :: "audit_tfsdk tfval"

record 'w function_api =
  fa_register :: "string \<Rightarrow> string \<Rightarrow> string \<Rightarrow> function_register_request \<Rightarrow> 'w \<Rightarrow> (gerror + gfunction) \<times> 'w"
  fa_get :: "string \<Rightarrow> string \<Rightarrow> string \<Rightarrow> string \<Rightarrow> 'w \<Rightarrow> (gerror + gfunction) \<times> 'w"
  fa_update :: "string \<Rightarrow> string \<Rightarrow> string \<Rightarrow> string \<Rightarrow> function_update list \<Rightarrow> 'w \<Rightarrow> (gerror + gfunction) \<times> 'w"
  fa_drop :: "string \<Rightarrow> string \<Rightarrow> string \<Rightarrow> string \<Rightarrow> 'w \<Rightarrow> (gerror + bool) \<times> 'w"

definition CheckFunctionExternalTypesSupported :: "function_definition list \<Rightarrow> (unit, 'w vclient) step" where
  "CheckFunctionExternalTypesSupported definitions c =
     (let ds = FunctionExternalTypeDiagnostics definitions (ServerVersion c) (SupportsExternalType c)
      in (if HasError ds then Inl ds else Inr (), c))"

definition applyFunctionToModel :: "gfunction \<Rightarrow> function_model \<Rightarrow> function_definition list \<Rightarrow> bool \<Rightarrow> function_model" where
  "applyFunctionToModel f m previous refreshing =
     m\<lparr>fm_ID := TKnown (ValueString (fm_Metalake m) @ ''.'' @ ValueString (fm_Catalog m) @ ''.''
         @ ValueString (fm_Schema m) @ ''.'' @ fn_Name f),
       fm_Name := TKnown (fn_Name f), fm_FunctionType := TKnown (NormalizeFunctionType (fn_FunctionType f)),
       fm_Deterministic := TKnown (fn_Deterministic f), fm_Comment := opt_text (fn_Comment f),
       fm_Definitions := (if refreshing then FunctionDefinitionsToTFRefreshed (fn_Definitions f) previous
                          else FunctionDefinitionsToTFApplied (fn_Definitions f) previous),
       fm_Audit := AuditToObjectValue (fn_Audit f)\<rparr>"

definition function_Create ::
    "('a function_fw_scheme) \<Rightarrow> 'w function_api \<Rightarrow> diags + function_model \<Rightarrow> (function_model state_write, 'w vclient) step" where
  "function_Create fw api planGet =
     andThen (pure_step planGet) (\<lambda>plan.
     andThen (pure_step (FunctionDefinitionsFromTF fw (fm_Definitions plan))) (\<lambda>definitions.
     andThen (CheckFunctionExternalTypesSupported definitions) (\<lambda>_.
     andThen (calling (on_world (fa_register api (ValueString (fm_Metalake plan)) (ValueString (fm_Catalog plan))
                (ValueString (fm_Schema plan))
                \<lparr>frr_Name = ValueString (fm_Name plan), frr_FunctionType = ValueString (fm_FunctionType plan),
                 frr_Deterministic = ValueBool (fm_Deterministic plan), frr_Comment = ValueString (fm_Comment plan),
                 frr_Definitions = definitions\<rparr>))
              (NewResourceError ''registering function'' (ValueString (fm_Name plan)))) (\<lambda>f.
     done_with (Save (applyFunctionToModel f plan definitions False))))))"

definition function_Read ::
    "('a function_fw_scheme) \<Rightarrow> 'w function_api \<Rightarrow> diags + function_model \<Rightarrow> (function_model state_write, 'w vclient) step" where
  "function_Read fw api stateGet =
     andThen (pure_step stateGet) (\<lambda>state.
       refresh (on_world (fa_get api (ValueString (fm_Metalake state)) (ValueString (fm_Catalog state))
                  (ValueString (fm_Schema state)) (ValueString (fm_Name state))))
         (NewResourceError ''reading function'' (ValueString (fm_Name state)))
         (\<lambda>f. map_sum (\<lambda>ds. ds) (\<lambda>refreshed. applyFunctionToModel f state refreshed True)
                (FunctionDefinitionsFromTF fw (fm_Definitions state))))"

definition buildFunctionUpdates ::
    "('a function_fw_scheme) \<Rightarrow> function_model \<Rightarrow> function_model \<Rightarrow> (function_update list, 'w vclient) step" where
  "buildFunctionUpdates fw plan state =
     andThen (pure_step (both_get (FunctionDefinitionsFromTF fw (fm_Definitions plan))
                          (FunctionDefinitionsFromTF fw (fm_Definitions state)))) (\<lambda>(planDefinitions, stateDefinitions).
     andThen (CheckFunctionExternalTypesSupported planDefinitions) (\<lambda>_.
     done_with ((if commentValue (fm_Comment plan) \<noteq> commentValue (fm_Comment state)
                 then [NewUpdateFunctionCommentRequest (commentValue (fm_Comment plan))] else [])
                @ definitionUpdates planDefinitions stateDefinitions)))"

definition function_Update ::
    "('a function_fw_scheme) \<Rightarrow> 'w function_api \<Rightarrow> diags + function_model \<Rightarrow> diags + function_model
       \<Rightarrow> (function_model state_write, 'w vclient) step" where
  "function_Update fw api planGet stateGet =
     andThen (pure_step (both_get planGet stateGet)) (\<lambda>(plan, state).
     andThen (buildFunctionUpdates fw plan state) (\<lambda>updates.
     let here = (\<lambda>call. call (ValueString (fm_Metalake state)) (ValueString (fm_Catalog state)) (ValueString (fm_Schema state))
                 (ValueString (fm_Name state)));
         absorb = (\<lambda>f. map_sum (\<lambda>ds. ds) (\<lambda>definitions. applyFunctionToModel f plan definitions False)
                     (FunctionDefinitionsFromTF fw (fm_Definitions plan)))
     in if updates \<noteq> []
        then refresh (on_world (here (\<lambda>m c s n. fa_update api m c s n updates)))
               (NewResourceError ''updating function'' (ValueString (fm_Name state))) absorb
        else refresh (on_world (here (fa_get api)))
               (NewResourceError ''reading function after update'' (ValueString (fm_Name state))) absorb))"

definition function_Delete ::
    "'w function_api \<Rightarrow> diags + function_model \<Rightarrow> (function_model state_write, 'w) step" where
  "function_Delete api stateGet =
     andThen (pure_step stateGet) (\<lambda>state.
       drop_or_gone (fa_drop api (ValueString (fm_Metalake state)) (ValueString (fm_Catalog state))
           (ValueString (fm_Schema state)) (ValueString (fm_Name state)))
         (NewResourceError ''dropping function'' (ValueString (fm_Name state))))"

definition function_ImportState :: "string \<Rightarrow> diagnostic + (string \<times> string) list" where
  "function_ImportState reqID =
     (case SplitImportID 4 ''metalake.catalog.schema.function'' reqID of
        Inl d \<Rightarrow> Inl d
      | Inr parts \<Rightarrow> Inr [(''metalake'', parts ! 0), (''catalog'', parts ! 1), (''schema'', parts ! 2),
                         (''name'', parts ! 3), (''id'', reqID)])"

text \<open>
  The plan modifier of the comment (comment_plan_modifier.go): an empty comment is planned as null, and clearing one
  replaces the function, because the server refuses to clear it in place. \<open>attribute\<close> is the text of the path.
\<close>

record comment_plan =
  cpl_PlanValue :: "string tfval"
  cpl_RequiresReplace :: bool
  cpl_Diagnostics :: diags

definition comment_PlanModifyString :: "path_step list \<Rightarrow> string \<Rightarrow> string tfval \<Rightarrow> string tfval \<Rightarrow> comment_plan" where
  "comment_PlanModifyString p attribute planned stateValue =
     (let normal = (if planned = TKnown [] then TNull else planned) in
      if planned = TUnknown \<or> normal \<noteq> TNull \<or> stateValue = TNull
      then \<lparr>cpl_PlanValue = normal, cpl_RequiresReplace = False, cpl_Diagnostics = []\<rparr>
      else \<lparr>cpl_PlanValue = TNull, cpl_RequiresReplace = True,
            cpl_Diagnostics = [attribute_warning p ''Clearing a function comment replaces the function''
              (''Gravitino cannot clear the comment of a function in place (the alter endpoint rejects a null comment), so ''
               @ attribute @ '' is replaced to drop the comment.'')]\<rparr>)"

subsection \<open>The abstract view of a server\<close>

type_synonym definition_view = "(function_definition + string) \<times> (string \<Rightarrow> string option)"

definition impls_view :: "function_impl list \<Rightarrow> string \<Rightarrow> string option" where
  "impls_view is r = map_option FunctionImpl_text (first_named FunctionImplKey is r)"

definition def_view :: "function_definition \<Rightarrow> definition_view" where
  "def_view d = (Shape d, impls_view (fd_Impls d))"

definition definitions_view :: "function_definition list \<Rightarrow> string \<Rightarrow> definition_view option" where
  "definitions_view ds g = map_option def_view (first_named Signature ds g)"

text \<open>What a request does to one implementation: the signature, the runtime and its new text.\<close>

fun acts_on :: "function_update \<Rightarrow> (string \<times> string \<times> string option) option" where
  "acts_on (NewAddFunctionImplRequest ps i) = Some (FunctionDefinitionSignature ps, FunctionImplKey i, Some (FunctionImpl_text i))"
| "acts_on (NewUpdateFunctionImplRequest ps r i) = Some (FunctionDefinitionSignature ps, r, Some (FunctionImpl_text i))"
| "acts_on (NewRemoveFunctionImplRequest ps r) = Some (FunctionDefinitionSignature ps, r, None)"
| "acts_on _ = None"

definition function_server :: "('s \<Rightarrow> string \<Rightarrow> definition_view option) \<Rightarrow> (function_update \<Rightarrow> 's \<Rightarrow> 's) \<Rightarrow> bool" where
  "function_server view app \<longleftrightarrow>
     (\<forall>d s. view (app (NewAddFunctionDefinitionRequest d) s) = (view s)(Signature d \<mapsto> def_view d)) \<and>
     (\<forall>ps s. view (app (NewRemoveFunctionDefinitionRequest ps) s) = (view s)(FunctionDefinitionSignature ps := None)) \<and>
     (\<forall>u s g k v. acts_on u = Some (g, k, v) \<longrightarrow>
        view (app u s) = (view s)(g := map_option (\<lambda>(sh, m). (sh, m(k := v))) (view s g)))"

subsection \<open>Lemmas\<close>

lemma index_lookup:
  "map_of (fold (\<lambda>x m. if f x \<in> set (keys m) then m else put (f x) x m) xs m) k =
     (case map_of m k of Some y \<Rightarrow> Some y | None \<Rightarrow> first_named f xs k)"
proof (induction xs arbitrary: m)
  case (Cons x xs)
  then show ?case
    by (cases "f x \<in> set (keys m)") (auto simp: first_named_def map_of_in_keys split: option.splits)
qed (simp add: first_named_def split: option.splits)

lemma indexDefinitions_of: "map_of (indexDefinitions ds) g = first_named Signature ds g"
  by (simp add: indexDefinitions_def index_lookup)

lemma indexImpls_of: "map_of (indexImpls is) r = first_named FunctionImplKey is r"
  by (simp add: indexImpls_def index_lookup)

lemma first_named_key: "first_named f xs k = Some x \<Longrightarrow> x \<in> set xs \<and> f x = k"
  by (auto simp: first_named_def find_Some_iff)

lemma first_named_distinct: "distinct (map f xs) \<Longrightarrow> x \<in> set xs \<Longrightarrow> first_named f xs (f x) = Some x"
  by (induction xs) (auto simp: first_named_def)

lemma first_named_none: "first_named f xs k = None \<longleftrightarrow> k \<notin> f ` set xs"
  by (auto simp: first_named_def find_None_iff)

lemma run_impl_requests:
  assumes "function_server view app" "\<forall>u \<in> set us. \<exists>k. acts_on u = Some (g, k, F k)" "view t g = Some (sh, m)"
  shows "view (fold app us t) =
    (view t)(g \<mapsto> (sh, \<lambda>k. if \<exists>u \<in> set us. acts_on u = Some (g, k, F k) then F k else m k))"
  using assms(2,3)
proof (induction us arbitrary: t m)
  case Nil
  then show ?case by (simp add: fun_upd_idem)
next
  case (Cons u us)
  obtain k where k: "acts_on u = Some (g, k, F k)" using Cons.prems by auto
  have v: "view (app u t) = (view t)(g \<mapsto> (sh, m(k := F k)))"
    using assms(1) k Cons.prems(2) by (simp add: function_server_def)
  have IH: "view (fold app us (app u t)) =
      (view (app u t))(g \<mapsto> (sh, \<lambda>j. if \<exists>u \<in> set us. acts_on u = Some (g, j, F j) then F j else (m(k := F k)) j))"
    using Cons.prems(1) v by (intro Cons.IH) auto
  also have "\<dots> = (view t)(g \<mapsto> (sh, \<lambda>j. if \<exists>v \<in> set (u # us). acts_on v = Some (g, j, F j) then F j else m j))"
    using k by (auto simp: v fun_eq_iff)
  finally show ?case by simp
qed

lemma run_removals:
  assumes "function_server view app"
  shows "view (fold app (map (\<lambda>d. NewRemoveFunctionDefinitionRequest (fd_Parameters d)) ds) t) g =
    (if g \<in> Signature ` set ds then None else view t g)"
  using assms
  by (induction ds arbitrary: t) (auto simp: function_server_def Signature_def)

lemma implementation_request_iff:
  "u \<in> set (implementationUpdates p s) \<longleftrightarrow>
     (\<exists>k. case (first_named FunctionImplKey (fd_Impls s) k, first_named FunctionImplKey (fd_Impls p) k) of
         (Some sj, None) \<Rightarrow> u = NewRemoveFunctionImplRequest (fd_Parameters p) (fi_Runtime sj)
       | (Some sj, Some pj) \<Rightarrow> \<not> FunctionImplEqual pj sj \<and> u = NewUpdateFunctionImplRequest (fd_Parameters p) (fi_Runtime pj) pj
       | (None, Some pj) \<Rightarrow> u = NewAddFunctionImplRequest (fd_Parameters p) pj
       | (None, None) \<Rightarrow> False)"
proof -
  have dom: "k \<in> set (sortedImplKeys (indexImpls xs)) \<longleftrightarrow> first_named FunctionImplKey xs k \<noteq> None" for k xs
    by (simp add: sortedImplKeys_def set_keys indexImpls_of [symmetric] domIff)
  have "u \<in> set (implementationUpdates p s) \<longleftrightarrow>
      (\<exists>k \<in> set (sortedImplKeys (indexImpls (fd_Impls s))).
         case (first_named FunctionImplKey (fd_Impls s) k, first_named FunctionImplKey (fd_Impls p) k) of
           (Some sj, None) \<Rightarrow> u = NewRemoveFunctionImplRequest (fd_Parameters p) (fi_Runtime sj)
         | (Some sj, Some pj) \<Rightarrow> \<not> FunctionImplEqual pj sj \<and> u = NewUpdateFunctionImplRequest (fd_Parameters p) (fi_Runtime pj) pj
         | _ \<Rightarrow> False) \<or>
      (\<exists>k \<in> set (sortedImplKeys (indexImpls (fd_Impls p))).
         case (first_named FunctionImplKey (fd_Impls s) k, first_named FunctionImplKey (fd_Impls p) k) of
           (None, Some pj) \<Rightarrow> u = NewAddFunctionImplRequest (fd_Parameters p) pj | _ \<Rightarrow> False)"
    unfolding implementationUpdates_def Let_def set_append set_concat set_map UN_iff Un_iff bex_simps(7) indexImpls_of
    by (rule arg_cong2 [where f = "(\<or>)"]; rule bex_cong [OF refl]; simp split: option.split; blast)
  then show ?thesis
    unfolding Bex_def dom by (auto split: option.splits) (metis option.distinct(1) option.inject)+
qed

lemma implementation_updates_view:
  assumes "function_server view app" "view t (Signature p) = Some (def_view s)" "Shape s = Shape p"
  shows "view (fold app (implementationUpdates p s) t) = (view t)(Signature p \<mapsto> def_view p)"
proof -
  let ?F = "impls_view (fd_Impls p)" and ?us = "implementationUpdates p s"
  have req: "\<exists>k. acts_on u = Some (Signature p, k, ?F k)" if mem: "u \<in> set ?us" for u
  proof -
    obtain k where k: "case (first_named FunctionImplKey (fd_Impls s) k, first_named FunctionImplKey (fd_Impls p) k) of
         (Some sj, None) \<Rightarrow> u = NewRemoveFunctionImplRequest (fd_Parameters p) (fi_Runtime sj)
       | (Some sj, Some pj) \<Rightarrow> \<not> FunctionImplEqual pj sj \<and> u = NewUpdateFunctionImplRequest (fd_Parameters p) (fi_Runtime pj) pj
       | (None, Some pj) \<Rightarrow> u = NewAddFunctionImplRequest (fd_Parameters p) pj
       | (None, None) \<Rightarrow> False"
      using mem unfolding implementation_request_iff ..
    have key: "fi_Runtime x = k" if "first_named FunctionImplKey xs k = Some x" for xs x
      using first_named_key [OF that] by (simp add: FunctionImplKey_def)
    show ?thesis
      using k key by (intro exI [of _ k]) (auto simp: Signature_def impls_view_def FunctionImplKey_def split: option.splits)
  qed
  have untouched: "impls_view (fd_Impls s) k = ?F k" if "\<not> (\<exists>u \<in> set ?us. acts_on u = Some (Signature p, k, ?F k))" for k
  proof (rule ccontr)
    assume ne: "impls_view (fd_Impls s) k \<noteq> ?F k"
    have "\<exists>u \<in> set ?us. acts_on u = Some (Signature p, k, ?F k)"
    proof (cases "first_named FunctionImplKey (fd_Impls s) k"; cases "first_named FunctionImplKey (fd_Impls p) k")
      fix sj assume s: "first_named FunctionImplKey (fd_Impls s) k = Some sj" "first_named FunctionImplKey (fd_Impls p) k = None"
      then have "NewRemoveFunctionImplRequest (fd_Parameters p) (fi_Runtime sj) \<in> set ?us"
        unfolding implementation_request_iff by (intro exI [of _ k]) simp
      then show ?thesis
        using s first_named_key [OF s(1)] by (intro bexI) (simp_all add: Signature_def impls_view_def FunctionImplKey_def)
    next
      fix sj pj
      assume s: "first_named FunctionImplKey (fd_Impls s) k = Some sj" and p: "first_named FunctionImplKey (fd_Impls p) k = Some pj"
      with ne have "NewUpdateFunctionImplRequest (fd_Parameters p) (fi_Runtime pj) pj \<in> set ?us"
        unfolding implementation_request_iff by (intro exI [of _ k]) (auto simp: FunctionImplEqual_def impls_view_def)
      then show ?thesis
        using p first_named_key [OF p] by (intro bexI) (simp_all add: Signature_def impls_view_def FunctionImplKey_def)
    next
      fix pj assume p: "first_named FunctionImplKey (fd_Impls s) k = None" "first_named FunctionImplKey (fd_Impls p) k = Some pj"
      then have "NewAddFunctionImplRequest (fd_Parameters p) pj \<in> set ?us"
        unfolding implementation_request_iff by (intro exI [of _ k]) simp
      then show ?thesis
        using p first_named_key [OF p(2)] by (intro bexI) (simp_all add: Signature_def impls_view_def)
    qed (use ne in \<open>simp add: impls_view_def\<close>)
    with that show False by blast
  qed
  have "view (fold app ?us t) = (view t)(Signature p \<mapsto> (Shape s,
      \<lambda>k. if \<exists>u \<in> set ?us. acts_on u = Some (Signature p, k, ?F k) then ?F k else impls_view (fd_Impls s) k))"
    using assms(2) req by (intro run_impl_requests [OF assms(1)]) (simp_all add: def_view_def)
  also have "(\<lambda>k. if \<exists>u \<in> set ?us. acts_on u = Some (Signature p, k, ?F k) then ?F k else impls_view (fd_Impls s) k) = ?F"
    by (rule ext) (metis untouched)
  finally show ?thesis unfolding def_view_def assms(3) .
qed

text \<open>The second half of the update: definitions are added or their implementations changed.\<close>

definition add_or_change :: "function_definition list \<Rightarrow> function_definition \<Rightarrow> function_update list" where
  "add_or_change state p =
     (case first_named Signature state (Signature p) of
        None \<Rightarrow> [NewAddFunctionDefinitionRequest p]
      | Some s \<Rightarrow> if Shape s \<noteq> Shape p then [NewAddFunctionDefinitionRequest p] else implementationUpdates p s)"

definition gone :: "function_definition list \<Rightarrow> function_definition \<Rightarrow> bool" where
  "gone plan s \<longleftrightarrow> (case first_named Signature plan (Signature s) of None \<Rightarrow> True | Some p \<Rightarrow> Shape p \<noteq> Shape s)"

lemma definitionUpdates_parts:
  "definitionUpdates plan state =
     map (\<lambda>d. NewRemoveFunctionDefinitionRequest (fd_Parameters d)) (filter (gone plan) state) @
     concat (map (add_or_change state) plan)"
proof -
  have "concat (map (\<lambda>s. case first_named Signature plan (Signature s) of
         None \<Rightarrow> [NewRemoveFunctionDefinitionRequest (fd_Parameters s)]
       | Some p \<Rightarrow> if Shape p \<noteq> Shape s then [NewRemoveFunctionDefinitionRequest (fd_Parameters s)] else []) state) =
      map (\<lambda>d. NewRemoveFunctionDefinitionRequest (fd_Parameters d)) (filter (gone plan) state)"
    by (induction state) (auto simp: gone_def split: option.splits)
  then show ?thesis by (simp add: definitionUpdates_def indexDefinitions_of add_or_change_def [abs_def])
qed

lemma add_or_change_view:
  assumes "function_server view app"
    and "\<And>s. first_named Signature state (Signature p) = Some s \<Longrightarrow> Shape s = Shape p \<Longrightarrow> view t (Signature p) = Some (def_view s)"
  shows "view (fold app (add_or_change state p) t) = (view t)(Signature p \<mapsto> def_view p)"
proof (cases "\<exists>s. first_named Signature state (Signature p) = Some s \<and> Shape s = Shape p")
  case True
  then obtain s where s: "first_named Signature state (Signature p) = Some s" "Shape s = Shape p" by blast
  then show ?thesis using implementation_updates_view [OF assms(1) assms(2) [OF s] s(2)] by (simp add: add_or_change_def)
next
  case False
  then have "add_or_change state p = [NewAddFunctionDefinitionRequest p]"
    by (auto simp: add_or_change_def split: option.splits)
  then show ?thesis using assms(1) by (simp add: function_server_def)
qed

lemma run_additions:
  assumes "function_server view app" "distinct (map Signature ps)"
    and "\<And>p s. p \<in> set ps \<Longrightarrow> first_named Signature state (Signature p) = Some s \<Longrightarrow> Shape s = Shape p \<Longrightarrow>
           view t (Signature p) = Some (def_view s)"
  shows "view (fold app (concat (map (add_or_change state) ps)) t) g =
    (case first_named Signature ps g of Some p \<Rightarrow> Some (def_view p) | None \<Rightarrow> view t g)"
  using assms(2,3)
proof (induction ps arbitrary: t)
  case (Cons p ps)
  let ?t = "fold app (add_or_change state p) t"
  have v: "view ?t = (view t)(Signature p \<mapsto> def_view p)"
    using Cons.prems(2) [of p] by (intro add_or_change_view [OF assms(1)]) simp
  have IH: "view (fold app (concat (map (add_or_change state) ps)) ?t) g =
      (case first_named Signature ps g of Some p \<Rightarrow> Some (def_view p) | None \<Rightarrow> view ?t g)"
  proof (rule Cons.IH)
    fix q s assume q: "q \<in> set ps" "first_named Signature state (Signature q) = Some s" "Shape s = Shape q"
    have "Signature q \<in> Signature ` set ps" using q(1) by (rule imageI)
    then have "Signature q \<noteq> Signature p" using Cons.prems(1) by auto
    then show "view ?t (Signature q) = Some (def_view s)" using Cons.prems(2) [of q s] q v by simp
  qed (use Cons.prems(1) in simp)
  have "Signature p = g \<Longrightarrow> first_named Signature ps g = None"
    using Cons.prems(1) by (auto simp: first_named_none)
  then show ?case using IH v by (auto simp: first_named_def split: option.splits)
qed (simp add: first_named_def)

subsection \<open>Properties\<close>

text \<open>An update of a function whose comment went through the plan modifier never asks the server to clear the comment.\<close>

lemma comment_never_cleared_in_place:
  assumes "fst (buildFunctionUpdates fw plan state w) = Inr updates"
    and "fm_Comment plan = cpl_PlanValue (comment_PlanModifyString p attribute planned (fm_Comment state))"
    and "planned \<noteq> TUnknown" "\<not> cpl_RequiresReplace (comment_PlanModifyString p attribute planned (fm_Comment state))"
  shows "NewUpdateFunctionCommentRequest None \<notin> set updates"
proof -
  obtain u1 u2 where "updates = (if commentValue (fm_Comment plan) \<noteq> commentValue (fm_Comment state)
      then [NewUpdateFunctionCommentRequest (commentValue (fm_Comment plan))] else []) @ definitionUpdates u1 u2"
    using assms(1) by (auto simp: buildFunctionUpdates_def step_defs split: prod.splits sum.splits)
  moreover have "NewUpdateFunctionCommentRequest None \<notin> set (definitionUpdates u1 u2)"
    by (auto simp: definitionUpdates_def implementationUpdates_def Let_def split: option.splits if_splits)
  moreover have "commentValue (fm_Comment plan) = commentValue (fm_Comment state) \<or> commentValue (fm_Comment plan) \<noteq> None"
    using assms(2-4) by (auto simp: comment_PlanModifyString_def commentValue_def Let_def split: if_splits tfval.splits)
  ultimately show ?thesis by (auto split: if_splits)
qed

text \<open>C2: The update requests of a function refine the replacement of its definitions: a server that
  carries them out one after the other ends, for every signature, with the shape and the
  implementations of the plan, and a plan equal to the state asks for nothing.\<close>

theorem definition_updates_converge:
  assumes "distinct (map Signature plan)" "distinct (map Signature state)"
    and "function_server view app" "view s = definitions_view state"
  shows "view (fold app (definitionUpdates plan state) s) = definitions_view plan \<and> definitionUpdates plan plan = []"
proof
  define t where "t = fold app (map (\<lambda>d. NewRemoveFunctionDefinitionRequest (fd_Parameters d)) (filter (gone plan) state)) s"
  have t: "view t g = (if g \<in> Signature ` set (filter (gone plan) state) then None else definitions_view state g)" for g
    using run_removals [OF assms(3)] by (simp add: t_def assms(4))
  have kept: "view t (Signature p) = Some (def_view q)"
    if "p \<in> set plan" "first_named Signature state (Signature p) = Some q" "Shape q = Shape p" for p q
  proof -
    have q: "q \<in> set state" "Signature q = Signature p" using first_named_key [OF that(2)] by auto
    have "\<not> gone plan d" if "d \<in> set state" "Signature d = Signature p" for d
    proof -
      have "d = q" using first_named_distinct [OF assms(2) that(1)] that(2) \<open>first_named Signature state (Signature p) = Some q\<close> by simp
      then show ?thesis
        using first_named_distinct [OF assms(1) \<open>p \<in> set plan\<close>] q \<open>Shape q = Shape p\<close> by (simp add: gone_def)
    qed
    then show ?thesis using that(2) by (auto simp: t definitions_view_def)
  qed
  show "view (fold app (definitionUpdates plan state) s) = definitions_view plan"
  proof
    fix g
    have "view (fold app (definitionUpdates plan state) s) g =
        (case first_named Signature plan g of Some p \<Rightarrow> Some (def_view p) | None \<Rightarrow> view t g)"
      unfolding definitionUpdates_parts fold_append comp_def t_def [symmetric]
      by (rule run_additions [OF assms(3,1) kept])
    also have "\<dots> = definitions_view plan g"
    proof (cases "first_named Signature plan g")
      case None
      then have "gone plan d" if "Signature d = g" for d using that by (simp add: gone_def)
      then have "view t g = None" using first_named_key [of Signature state g] by (auto simp: t definitions_view_def map_option_case split: option.splits)
      then show ?thesis using None by (simp add: definitions_view_def)
    qed (simp add: definitions_view_def)
    finally show "view (fold app (definitionUpdates plan state) s) g = definitions_view plan g" .
  qed
  have "\<not> gone plan p" if "p \<in> set plan" for p
    using first_named_distinct [OF assms(1) that] by (simp add: gone_def)
  moreover have "add_or_change plan p = []" if "p \<in> set plan" for p
  proof -
    have "u \<notin> set (implementationUpdates p p)" for u
      by (auto simp: implementation_request_iff FunctionImplEqual_def split: option.splits)
    then have "implementationUpdates p p = []" by (metis list.set_intros(1) neq_Nil_conv)
    then show ?thesis using first_named_distinct [OF assms(1) that] by (simp add: add_or_change_def)
  qed
  ultimately show "definitionUpdates plan plan = []" by (simp add: definitionUpdates_parts)
qed

text \<open>A server that is its own view, and a definition with one implementation.\<close>

definition run_function :: "function_update \<Rightarrow> (string \<Rightarrow> definition_view option) \<Rightarrow> string \<Rightarrow> definition_view option" where
  "run_function u v =
     (case acts_on u of
        Some (g, k, x) \<Rightarrow> v(g := map_option (\<lambda>(sh, m). (sh, m(k := x))) (v g))
      | None \<Rightarrow>
          (case u of
             NewAddFunctionDefinitionRequest d \<Rightarrow> v(Signature d \<mapsto> def_view d)
           | NewRemoveFunctionDefinitionRequest ps \<Rightarrow> v(FunctionDefinitionSignature ps := None)
           | _ \<Rightarrow> v))"

lemma run_function_server: "function_server (\<lambda>v. v) run_function"
  by (simp add: function_server_def run_function_def)

definition integer_raw :: string where
  "integer_raw = CHR 0x22 # ''integer'' @ [CHR 0x22]"

definition sql_impl :: "string \<Rightarrow> function_impl" where
  "sql_impl sql = \<lparr>fi_Language = ''SQL'', fi_Runtime = ''SPARK'', fi_SQL = sql, fi_ClassName = [], fi_Handler = [],
     fi_CodeBlock = [], fi_Resources = None, fi_Properties = []\<rparr>"

definition unary_definition :: "string \<Rightarrow> string \<Rightarrow> function_definition" where
  "unary_definition raw sql =
     \<lparr>fd_Parameters = [\<lparr>fp_Name = ''x'', fp_DataType = raw, fp_Comment = [], fp_DefaultValue = []\<rparr>],
      fd_ReturnType = raw, fd_ReturnColumns = [], fd_Impls = [sql_impl sql]\<rparr>"

theorem definition_updates_converge_witness:
  "fold run_function (definitionUpdates [unary_definition integer_raw ''x + 2''] [unary_definition integer_raw ''x + 1''])
     (definitions_view [unary_definition integer_raw ''x + 1'']) = definitions_view [unary_definition integer_raw ''x + 2'']"
proof -
  have d: "distinct (map Signature [unary_definition integer_raw ''x + 2''])"
    "distinct (map Signature [unary_definition integer_raw ''x + 1''])" by simp_all
  show ?thesis
    by (rule conjunct1 [OF definition_updates_converge [OF d run_function_server, where s = "definitions_view _", OF refl]])
qed

text \<open>C26: A server that writes a data type in another format: in the return type the refresh recognises
  the type and keeps the recorded spelling, as documented. In a parameter the spelling is part of
  the signature, so the refresh takes the definition for a new one and records the server's text, and
  the next update removes the definition and adds it again although nothing changed.\<close>

theorem reformatted_parameter_drifts:
  assumes "fd_Parameters p = [a]" "fp_DataType a = r" "fd_ReturnType p = r" "r \<noteq> []"
    and "RawJSONEqual r r'" "DataTypeToString r \<noteq> DataTypeToString r'"
    and "d = p\<lparr>fd_Parameters := [a\<lparr>fp_DataType := r'\<rparr>]\<rparr>"
  shows "(\<exists>x. FunctionDefinitionsToTFRefreshed [p\<lparr>fd_ReturnType := r'\<rparr>] [p] = TKnown [TKnown x] \<and>
      fdt_ReturnType x = TKnown (DataTypeToString r)) \<and>
    FunctionDefinitionsToTFRefreshed [d] [p] = TKnown [TKnown (functionDefinitionToObject mappingFromServer d None)] \<and>
    definitionUpdates [p] [d] = [NewRemoveFunctionDefinitionRequest (fd_Parameters d), NewAddFunctionDefinitionRequest p]"
proof (intro conjI)
  have r': "r' \<noteq> []" using assms(4,5) by (auto simp: RawJSONEqual_def)
  have pref: "preferRaw r r' = r" "preferRaw r r = r" using assms(4,5) by (simp_all add: preferRaw_def)
  have "Signature (p\<lparr>fd_ReturnType := r'\<rparr>) = Signature p" by (simp add: Signature_def)
  then show "\<exists>x. FunctionDefinitionsToTFRefreshed [p\<lparr>fd_ReturnType := r'\<rparr>] [p] = TKnown [TKnown x] \<and>
      fdt_ReturnType x = TKnown (DataTypeToString r)"
    using r' pref assms(3,4)
    by (simp add: FunctionDefinitionsToTFRefreshed_def mapFunctionDefinitions_def first_named_def functionDefinitionToObject_def)
  have sig: "Signature d \<noteq> Signature p"
    using assms(1,2,6,7) by (simp add: Signature_def FunctionDefinitionSignature_def)
  show "FunctionDefinitionsToTFRefreshed [d] [p] = TKnown [TKnown (functionDefinitionToObject mappingFromServer d None)]"
    using sig by (simp add: FunctionDefinitionsToTFRefreshed_def mapFunctionDefinitions_def first_named_def)
  show "definitionUpdates [p] [d] = [NewRemoveFunctionDefinitionRequest (fd_Parameters d), NewAddFunctionDefinitionRequest p]"
    using sig by (simp add: definitionUpdates_def indexDefinitions_of first_named_def)
qed

definition list_raw :: "string \<Rightarrow> string" where
  "list_raw sep =
     ''{'' @ string_text ''type'' @ '':'' @ sep @ string_text ''list'' @ '','' @ sep @ string_text ''elementType'' @ '':'' @ sep
     @ integer_raw @ ''}''"

theorem reformatted_parameter_drifts_witness:
  "length (definitionUpdates [unary_definition (list_raw []) ''x'']
     [(unary_definition (list_raw []) ''x'')\<lparr>fd_Parameters :=
        [\<lparr>fp_Name = ''x'', fp_DataType = list_raw '' '', fp_Comment = [], fp_DefaultValue = []\<rparr>]\<rparr>]) = 2"
proof -
  have "RawJSONEqual (list_raw []) (list_raw '' '')" by code_simp
  moreover have "DataTypeToString (list_raw []) \<noteq> DataTypeToString (list_raw '' '')" by code_simp
  moreover have "list_raw [] \<noteq> []" by (simp add: list_raw_def)
  ultimately show ?thesis
    using reformatted_parameter_drifts [of "unary_definition (list_raw []) ''x''"
        "\<lparr>fp_Name = ''x'', fp_DataType = list_raw [], fp_Comment = [], fp_DefaultValue = []\<rparr>" "list_raw []" "list_raw '' ''"]
    by (simp add: unary_definition_def)
qed

end
