(* ===== verification/OAuth.thy ===== *)
theory OAuth
  imports HttpClient DataTypes Float64
begin

section \<open>The OAuth token cache (client/auth/oauth_credentials.go)\<close>

text \<open>
  The provider sends requests concurrently and every request asks the same
  \<open>OAuthCredentialsProvider\<close> for its header. A call takes the cached token while it is valid;
  otherwise it takes the refresh lock, looks again and asks the token endpoint.

  A pool is the shared provider with any number of calls in flight, each at a program point (\<open>pc\<close>)
  of \<open>Header\<close> or \<open>refresh\<close>. \<open>thread_step\<close> runs one of them to its next point, \<open>reachable\<close>
  interleaves them with the clock. The accesses under \<open>mu\<close> are single steps, \<open>refreshMu\<close> is
  \<open>po_holder\<close>. \<open>po_began\<close> and \<open>po_issued\<close> record when a call began and what was stored; the code
  does not read them.

  The reply of the endpoint is an argument: an error of the HTTP client, or a status and a body.
\<close>

subsection \<open>The request\<close>

record oauth_config =
  oc_clientID :: string
  oc_clientSecret :: string
  oc_serverURI :: string
  oc_tokenPath :: string
  oc_scope :: string

definition NewOAuthCredentialsProvider :: "string \<Rightarrow> string \<Rightarrow> string \<Rightarrow> string \<Rightarrow> string \<Rightarrow> oauth_config" where
  "NewOAuthCredentialsProvider clientID clientSecret serverURI tokenPath scope =
     \<lparr>oc_clientID = clientID, oc_clientSecret = clientSecret, oc_serverURI = trim_right_char CHR ''/'' serverURI,
      oc_tokenPath = tokenPath, oc_scope = scope\<rparr>"

definition query_safe :: "char \<Rightarrow> bool" where
  "query_safe c \<longleftrightarrow> is_alnum c \<or> c \<in> set ''-_.~''"

definition QueryEscape :: "string \<Rightarrow> string" where
  "QueryEscape s = concat (map (\<lambda>c. if c = CHR '' '' then ''+'' else if query_safe c then [c]
     else [CHR ''%'', upper_hex (code c div 16), upper_hex (code c mod 16)]) s)"

text \<open>\<open>Values.Encode\<close> writes the keys in order.\<close>

definition form_text :: "(string \<times> string) list \<Rightarrow> string" where
  "form_text kvs = join ''&'' (map (\<lambda>(k, v). QueryEscape k @ ''='' @ QueryEscape v) (sort_key fst kvs))"

definition token_request :: "oauth_config \<Rightarrow> string \<times> string" where
  "token_request c =
     (oc_serverURI c @ ''/'' @ trim_left_char CHR ''/'' (oc_tokenPath c),
      form_text ([(''grant_type'', ''client_credentials''), (''client_id'', oc_clientID c),
        (''client_secret'', oc_clientSecret c)] @ (if oc_scope c \<noteq> [] then [(''scope'', oc_scope c)] else [])))"

subsection \<open>The answer\<close>

record tokenResponse =
  tr_AccessToken :: string
  tr_ExpiresIn :: int
  tr_Scope :: string

fun decode_token_members :: "(string \<times> json) list \<Rightarrow> tokenResponse \<Rightarrow> tokenResponse option" where
  "decode_token_members [] r = Some r"
| "decode_token_members ((k, v) # kvs) r =
     (let names = [''access_token'', ''expires_in'', ''scope''];
          m = (if k \<in> set names then Some k else find (\<lambda>n. equal_fold n k) names);
          step =
            (if m = Some ''access_token''
               then (case v of JNull \<Rightarrow> Some r | JStr x \<Rightarrow> Some (r\<lparr>tr_AccessToken := x\<rparr>) | _ \<Rightarrow> None)
             else if m = Some ''expires_in''
               then (case v of JNull \<Rightarrow> Some r | JNum x \<Rightarrow> map_option (\<lambda>i. r\<lparr>tr_ExpiresIn := i\<rparr>) (atoi x) | _ \<Rightarrow> None)
             else if m = Some ''scope''
               then (case v of JNull \<Rightarrow> Some r | JStr x \<Rightarrow> Some (r\<lparr>tr_Scope := x\<rparr>) | _ \<Rightarrow> None)
             else Some r)
      in case step of None \<Rightarrow> None | Some r' \<Rightarrow> decode_token_members kvs r')"

definition decode_token :: "string \<Rightarrow> gerror + tokenResponse" where
  "decode_token raw =
     (let zero = \<lparr>tr_AccessToken = [], tr_ExpiresIn = 0, tr_Scope = []\<rparr>;
          r = (case parse_json raw of
                 Some (JObj kvs) \<Rightarrow> decode_token_members kvs zero | Some JNull \<Rightarrow> Some zero | _ \<Rightarrow> None)
      in case r of None \<Rightarrow> Inl json_error | Some x \<Rightarrow> Inr x)"

text \<open>Durations are 64-bit nanoseconds; the product with 0.9 is one of float64 numbers, cut off.\<close>

definition token_lifetime :: "int \<Rightarrow> int" where
  "token_lifetime expiresIn =
     (let duration = wrap64 (expiresIn * second) in if duration \<le> 0 then 3600 * second else duration)"

definition refreshAfter :: "int \<Rightarrow> int" where
  "refreshAfter duration =
     (case (float64 (of_int duration), float64 (9 / 10)) of
        (Some x, Some y) \<Rightarrow> (case float64 (x * y) of Some z \<Rightarrow> \<lfloor>z\<rfloor> | None \<Rightarrow> 0)
      | _ \<Rightarrow> 0)"

type_synonym token_reply = "gerror + int \<times> string"

definition token_of_reply :: "token_reply \<Rightarrow> gerror + string \<times> int" where
  "token_of_reply reply =
     (case reply of
        Inl err \<Rightarrow> Inl err
      | Inr (status, body) \<Rightarrow>
          if status \<ge> 400 then Inl (ErrText (''token endpoint returned '' @ itoa status @ '': '' @ body))
          else (case decode_token body of
                  Inl err \<Rightarrow> Inl err
                | Inr r \<Rightarrow>
                    if tr_AccessToken r = [] then Inl (ErrText ''token endpoint returned empty access_token'')
                    else Inr (tr_AccessToken r, refreshAfter (token_lifetime (tr_ExpiresIn r)))))"

subsection \<open>Concurrent calls\<close>

datatype pc =
    Called
  | WaitRefresh
  | HoldLock
  | Sending int
  | Storing int string int
  | Unlock "gerror option"
  | ReadToken
  | Returned "gerror + string"

record issue =
  is_asked :: int
  is_stored :: int
  is_token :: string
  is_after :: int

record pool =
  po_token :: string
  po_expiry :: int
  po_holder :: "nat option"
  po_now :: int
  po_pc :: "nat \<Rightarrow> pc"
  po_began :: "nat \<Rightarrow> int"
  po_issued :: "issue list"

definition tokenValid :: "pool \<Rightarrow> bool" where
  "tokenValid p \<longleftrightarrow> po_token p \<noteq> [] \<and> po_now p < po_expiry p"

definition goto :: "nat \<Rightarrow> pc \<Rightarrow> pool \<Rightarrow> pool" where
  "goto i c p = p\<lparr>po_pc := (po_pc p)(i := c)\<rparr>"

definition thread_step :: "token_reply \<Rightarrow> nat \<Rightarrow> pool \<Rightarrow> pool option" where
  "thread_step reply i p =
     (case po_pc p i of
        Called \<Rightarrow>
          Some (goto i (if tokenValid p then ReadToken else WaitRefresh) (p\<lparr>po_began := (po_began p)(i := po_now p)\<rparr>))
      | WaitRefresh \<Rightarrow> if po_holder p = None then Some (goto i HoldLock (p\<lparr>po_holder := Some i\<rparr>)) else None
      | HoldLock \<Rightarrow> Some (goto i (if tokenValid p then Unlock None else Sending (po_now p)) p)
      | Sending asked \<Rightarrow>
          Some (goto i (case token_of_reply reply of Inl err \<Rightarrow> Unlock (Some err) | Inr (t, a) \<Rightarrow> Storing asked t a) p)
      | Storing asked t a \<Rightarrow>
          Some (goto i (Unlock None) (p\<lparr>po_token := t, po_expiry := po_now p + a,
            po_issued := \<lparr>is_asked = asked, is_stored = po_now p, is_token = t, is_after = a\<rparr> # po_issued p\<rparr>))
      | Unlock err \<Rightarrow>
          Some (goto i (case err of None \<Rightarrow> ReadToken
                        | Some e \<Rightarrow> Returned (Inl (ErrWrap ''oauth token refresh failed: '' e))) (p\<lparr>po_holder := None\<rparr>))
      | ReadToken \<Rightarrow> Some (goto i (Returned (Inr (''Bearer '' @ po_token p))) p)
      | Returned _ \<Rightarrow> Some (goto i Called p))"

definition fresh_pool :: "int \<Rightarrow> pool" where
  "fresh_pool now = \<lparr>po_token = [], po_expiry = 0, po_holder = None, po_now = now, po_pc = (\<lambda>_. Called),
     po_began = (\<lambda>_. now), po_issued = []\<rparr>"

inductive reachable :: "pool \<Rightarrow> bool" where
  start: "reachable (fresh_pool now)"
| step: "reachable p \<Longrightarrow> thread_step reply i p = Some p' \<Longrightarrow> reachable p'"
| pass: "reachable p \<Longrightarrow> 0 \<le> d \<Longrightarrow> reachable (p\<lparr>po_now := po_now p + d\<rparr>)"

subsection \<open>How long a token is kept\<close>

lemma float64_scaled:
  assumes "1 / 2 \<le> v" "v < 2 ^ 63"
  obtains r where "float64 v = Some r" "\<bar>r - v\<bar> \<le> v / 2 ^ 53"
proof -
  have "(2 :: rat) powi (- 1022) \<le> 2 powi (- 1)" "(2 :: rat) powi 63 \<le> 2 powi 1023"
    by (rule power_int_increasing; simp)+
  then have "2 powi (- 1022) \<le> v" "v < 2 powi 1023" using assms by (simp_all add: power_int_minus flip: power_int_numeral)
  then obtain r where "float64 v = Some r" "\<bar>r - v\<bar> \<le> v * 2 powi (- 53)" by (rule float64_normal)
  moreover have "v * 2 powi (- 53) = v / 2 ^ 53" by (simp only: power_int_minus power_int_numeral divide_inverse)
  ultimately show thesis using that by metis
qed

lemma nine_tenths: "float64 (9 / 10) = Some (8106479329266893 / 2 ^ 53)"
proof -
  have q: "quotient_of (9 / 10) = (9, 10)" by code_simp
  have b: "bitlen 9 = 4" "bitlen 10 = 4" by code_simp+
  have "\<lfloor>40532396646334464 / 5 :: rat\<rfloor> = 8106479329266892" by (simp add: floor_eq_iff)
  then have "round_half_even (9 / 10 / 2 powi (- 53)) = 8106479329266893"
    by (simp add: round_half_even_def Let_def power_int_minus)
  then show ?thesis by (simp add: float64_def q b power_int_minus)
qed

lemma refreshAfter_bounds:
  assumes "0 < d" "d < 2 ^ 63"
  shows "0 \<le> refreshAfter d" "refreshAfter d < d" "899 * d \<le> 1000 * refreshAfter d + 1000"
proof -
  let ?d = "of_int d :: rat" and ?y = "8106479329266893 / 2 ^ 53 :: rat"
  have d: "1 \<le> ?d" "?d < 2 ^ 63" using assms by simp_all
  then have half: "1 / 2 \<le> ?d" by simp
  obtain x where x: "float64 ?d = Some x" "\<bar>x - ?d\<bar> \<le> ?d / 2 ^ 53"
    by (rule float64_scaled [OF half d(2)])
  have xd: "(1 - 1 / 2 ^ 53) * ?d \<le> x" "x \<le> (1 + 1 / 2 ^ 53) * ?d"
    using x(2) unfolding abs_le_iff left_diff_distrib distrib_right by simp_all
  then have "1 / 2 \<le> x * ?y" "x * ?y < 2 ^ 63" using d by simp_all
  then obtain z where z: "float64 (x * ?y) = Some z" "\<bar>z - x * ?y\<bar> \<le> x * ?y / 2 ^ 53" by (rule float64_scaled)
  have zx: "(1 - 1 / 2 ^ 53) * (x * ?y) \<le> z" "z \<le> (1 + 1 / 2 ^ 53) * (x * ?y)"
    using z(2) unfolding abs_le_iff left_diff_distrib distrib_right by simp_all
  have "899 / 1000 * ?d \<le> z" "z < ?d" using xd zx d by simp_all
  moreover have "refreshAfter d = \<lfloor>z\<rfloor>" using x(1) z(1) by (simp add: refreshAfter_def nine_tenths)
  ultimately show "0 \<le> refreshAfter d" "refreshAfter d < d" "899 * d \<le> 1000 * refreshAfter d + 1000"
    using d by linarith+
qed

lemma token_lifetime_range: "0 < token_lifetime e \<and> token_lifetime e < 2 ^ 63"
  using wrap64_fits [of "e * second"] by (auto simp: token_lifetime_def Let_def fits64_def second_def)

lemma token_of_reply_ok: "token_of_reply reply = Inr (t, a) \<Longrightarrow> t \<noteq> [] \<and> 0 \<le> a"
  using token_lifetime_range refreshAfter_bounds(1) by (auto simp: token_of_reply_def split: sum.splits if_splits)

subsection \<open>Invariant\<close>

fun spaced :: "issue list \<Rightarrow> bool" where
  "spaced (x # y # r) \<longleftrightarrow> is_stored y + is_after y \<le> is_asked x \<and> spaced (y # r)"
| "spaced _ \<longleftrightarrow> True"

definition locked :: "pc \<Rightarrow> bool" where
  "locked c = (case c of HoldLock \<Rightarrow> True | Sending _ \<Rightarrow> True | Storing _ _ _ \<Rightarrow> True | Unlock _ \<Rightarrow> True | _ \<Rightarrow> False)"

definition latest :: "pool \<Rightarrow> bool" where
  "latest p = (case po_issued p of [] \<Rightarrow> po_token p = []
     | x # _ \<Rightarrow> po_token p = is_token x \<and> po_expiry p = is_stored x + is_after x \<and> is_token x \<noteq> [])"

definition stale :: "pool \<Rightarrow> int \<Rightarrow> bool" where
  "stale p asked \<longleftrightarrow> asked \<le> po_now p \<and> (po_token p = [] \<or> po_expiry p \<le> asked)"

definition fresh :: "pool \<Rightarrow> nat \<Rightarrow> bool" where
  "fresh p i \<longleftrightarrow> po_token p \<noteq> [] \<and> po_began p i \<le> po_expiry p"

definition served :: "pool \<Rightarrow> nat \<Rightarrow> string \<Rightarrow> bool" where
  "served p i h \<longleftrightarrow> (\<exists>x \<in> set (po_issued p). h = ''Bearer '' @ is_token x \<and> is_token x \<noteq> [] \<and>
     po_began p i \<le> is_stored x + is_after x)"

definition thread_ok :: "pool \<Rightarrow> nat \<Rightarrow> bool" where
  "thread_ok p i = (case po_pc p i of
       Sending asked \<Rightarrow> stale p asked
     | Storing asked t a \<Rightarrow> stale p asked \<and> t \<noteq> [] \<and> 0 \<le> a
     | Unlock err \<Rightarrow> err = None \<longrightarrow> fresh p i
     | ReadToken \<Rightarrow> fresh p i
     | Returned (Inr h) \<Rightarrow> served p i h
     | _ \<Rightarrow> True)"

definition cache_inv :: "pool \<Rightarrow> bool" where
  "cache_inv p \<longleftrightarrow> latest p \<and> spaced (po_issued p) \<and> (\<forall>i. po_holder p = Some i \<longleftrightarrow> locked (po_pc p i)) \<and>
     (\<forall>i. po_began p i \<le> po_now p) \<and> (\<forall>i. thread_ok p i)"

lemmas pool_defs = thread_ok_def locked_def stale_def fresh_def served_def latest_def goto_def tokenValid_def

text \<open>A thread keeps its part of the invariant when the fields it depends on stay as they are.\<close>

lemma thread_ok_frame:
  assumes "thread_ok p j" "po_pc q j = po_pc p j" "po_began q j = po_began p j" "po_now p \<le> po_now q"
    and "po_token q = po_token p" "po_expiry q = po_expiry p" "po_issued q = po_issued p"
  shows "thread_ok q j"
  using assms by (cases "po_pc p j") (auto simp: pool_defs split: sum.splits)

lemma spaced_Cons: "spaced (x # xs) \<longleftrightarrow> (case xs of [] \<Rightarrow> True | y # _ \<Rightarrow> is_stored y + is_after y \<le> is_asked x) \<and> spaced xs"
  by (cases xs) auto

text \<open>Storing a token: the other threads keep theirs, because the new one expires later.\<close>

lemma store_frame:
  assumes "thread_ok p j" "j \<noteq> i" "\<not> locked (po_pc p j)" "stale p asked" "0 \<le> a" "t \<noteq> []"
    and "q = goto i (Unlock None) (p\<lparr>po_token := t, po_expiry := po_now p + a,
            po_issued := \<lparr>is_asked = asked, is_stored = po_now p, is_token = t, is_after = a\<rparr> # po_issued p\<rparr>)"
  shows "thread_ok q j"
  using assms by (cases "po_pc p j") (auto simp: pool_defs split: sum.splits)

lemma cache_inv_step:
  assumes "cache_inv p" "thread_step reply i p = Some q"
  shows "cache_inv q"
proof -
  have inv: "latest p" "spaced (po_issued p)" "\<And>j. po_holder p = Some j \<longleftrightarrow> locked (po_pc p j)"
    "\<And>j. po_began p j \<le> po_now p" "\<And>j. thread_ok p j"
    using assms(1) by (auto simp: cache_inv_def)
  have other: "\<not> locked (po_pc p j)" if "locked (po_pc p i)" "j \<noteq> i" for j
    using inv(3) that by (metis option.inject)
  show ?thesis
  proof (cases "\<exists>asked t a. po_pc p i = Storing asked t a")
    case True
    then obtain asked t a where pc: "po_pc p i = Storing asked t a" by blast
    then have ok: "stale p asked" "t \<noteq> []" "0 \<le> a" using inv(5) [of i] by (auto simp: thread_ok_def)
    have q: "q = goto i (Unlock None) (p\<lparr>po_token := t, po_expiry := po_now p + a,
            po_issued := \<lparr>is_asked = asked, is_stored = po_now p, is_token = t, is_after = a\<rparr> # po_issued p\<rparr>)"
      using assms(2) pc by (simp add: thread_step_def)
    have lock: "locked (po_pc p i)" by (simp add: pc locked_def)
    have "thread_ok q j" for j
    proof (cases "j = i")
      case True
      then show ?thesis using inv(4) [of i] ok by (simp add: q pool_defs)
    next
      case False
      then show ?thesis using store_frame [OF inv(5) False other [OF lock False] ok(1,3,2) q] by simp
    qed
    moreover have "spaced (po_issued q)"
      using inv(1,2) ok(1) by (auto simp: q goto_def spaced_Cons latest_def stale_def split: list.splits)
    moreover have "latest q" "\<forall>j. po_began q j \<le> po_now q" using inv(4) ok(2) by (simp_all add: q goto_def latest_def)
    moreover have "po_holder q = Some j \<longleftrightarrow> locked (po_pc q j)" for j
      using inv(3) [of j] pc by (auto simp: q goto_def locked_def)
    ultimately show ?thesis by (simp add: cache_inv_def)
  next
    case False
    then have same: "po_token q = po_token p" "po_expiry q = po_expiry p" "po_issued q = po_issued p" "po_now q = po_now p"
      and pcs: "\<And>j. j \<noteq> i \<Longrightarrow> po_pc q j = po_pc p j \<and> po_began q j = po_began p j"
      using assms(2) False by (cases "po_pc p i"; force simp: thread_step_def goto_def split: if_split_asm)+
    have "thread_ok q i"
    proof (cases "po_pc p i")
      case Called
      then show ?thesis using assms(2) by (auto simp: thread_step_def pool_defs split: if_splits)
    next
      case ReadToken
      then show ?thesis using assms(2) inv(5) [of i] inv(1) by (auto simp: thread_step_def pool_defs split: list.splits)
    next
      case HoldLock
      then show ?thesis using assms(2) inv(4) [of i] by (auto simp: thread_step_def pool_defs split: if_splits)
    next
      case (Sending s)
      then show ?thesis
        using assms(2) inv(5) [of i] token_of_reply_ok by (auto simp: thread_step_def pool_defs split: sum.splits)
    next
      case (Unlock e)
      then show ?thesis using assms(2) inv(5) [of i] by (cases e) (auto simp: thread_step_def pool_defs)
    qed (use assms(2) False in \<open>auto simp: thread_step_def pool_defs split: if_splits\<close>)
    then have "thread_ok q j" for j
      using thread_ok_frame [OF inv(5) [of j], of q] same pcs [of j] by (cases "j = i") auto
    moreover have "po_began q j \<le> po_now q" for j
      using assms(2) inv(4) by (cases "po_pc p i") (auto simp: thread_step_def goto_def split: if_split_asm)
    moreover have "po_holder q = Some j \<longleftrightarrow> locked (po_pc q j)" for j
      using assms(2) inv(3) [of j] inv(3) [of i] False
      by (cases "po_pc p i"; cases "j = i")
        (auto simp: thread_step_def goto_def locked_def split: if_split_asm sum.splits option.splits)
    moreover have "latest q" using inv(1) unfolding latest_def same .
    ultimately show ?thesis using inv(2) by (simp add: cache_inv_def same)
  qed
qed

lemma reachable_inv: "reachable p \<Longrightarrow> cache_inv p"
proof (induction rule: reachable.induct)
  case (start now)
  then show ?case by (simp add: cache_inv_def pool_defs fresh_pool_def)
next
  case (step p reply i p')
  then show ?case by (blast intro: cache_inv_step)
next
  case (pass p d)
  then show ?case
    by (auto simp: cache_inv_def latest_def intro: thread_ok_frame add_increasing2 split: list.split)
qed

lemma reachable_parts:
  assumes "reachable p"
  shows "spaced (po_issued p)" "po_holder p = Some i \<longleftrightarrow> locked (po_pc p i)" "thread_ok p i"
  using reachable_inv [OF assms] by (auto simp: cache_inv_def)

subsection \<open>Runs\<close>

text \<open>A schedule says which call takes the next step, and what the endpoint would answer.\<close>

fun run_schedule :: "(nat \<times> token_reply) list \<Rightarrow> pool \<Rightarrow> pool option" where
  "run_schedule [] p = Some p"
| "run_schedule ((i, reply) # es) p = Option.bind (thread_step reply i p) (run_schedule es)"

lemma run_reachable: "reachable p \<Longrightarrow> run_schedule es p = Some q \<Longrightarrow> reachable q"
  by (induction es p rule: run_schedule.induct) (auto simp: bind_eq_Some_conv intro: reachable.step)

lemma spaced_nth: "spaced xs \<Longrightarrow> Suc k < length xs \<Longrightarrow> is_stored (xs ! Suc k) + is_after (xs ! Suc k) \<le> is_asked (xs ! k)"
  by (induction xs arbitrary: k rule: spaced.induct) (auto simp: nth_Cons split: nat.split)

definition sending :: "pc \<Rightarrow> bool" where
  "sending c = (case c of Sending _ \<Rightarrow> True | Storing _ _ _ \<Rightarrow> True | _ \<Rightarrow> False)"

lemma sending_locked: "sending c \<Longrightarrow> locked c"
  by (simp add: sending_def locked_def split: pc.splits)

subsection \<open>Properties\<close>

text \<open>C1: However calls for the header interleave and time passes, at most one of them is asking the token
  endpoint, and only while there is no valid token in the cache; a token is asked for no earlier than
  the previous one was due for a refresh; and a header that is returned carries a non-empty token the
  endpoint issued and that was not yet due for a refresh when the call began.\<close>

theorem token_cache_safe:
  assumes "reachable p"
  shows "(\<forall>i j. sending (po_pc p i) \<and> sending (po_pc p j) \<longrightarrow> i = j) \<and>
    (\<forall>i. sending (po_pc p i) \<longrightarrow> \<not> tokenValid p) \<and>
    (\<forall>k. Suc k < length (po_issued p) \<longrightarrow>
       is_stored (po_issued p ! Suc k) + is_after (po_issued p ! Suc k) \<le> is_asked (po_issued p ! k)) \<and>
    (\<forall>i h. po_pc p i = Returned (Inr h) \<longrightarrow> (\<exists>x \<in> set (po_issued p). h = ''Bearer '' @ is_token x \<and>
       is_token x \<noteq> [] \<and> po_began p i \<le> is_stored x + is_after x))"
proof (intro conjI allI impI)
  fix i j assume "sending (po_pc p i) \<and> sending (po_pc p j)"
  then show "i = j" using reachable_parts(2) [OF assms] sending_locked by (metis option.inject)
next
  fix i assume "sending (po_pc p i)"
  then show "\<not> tokenValid p"
    using reachable_parts(3) [OF assms, of i] by (auto simp: sending_def thread_ok_def stale_def tokenValid_def split: pc.splits)
next
  fix k assume "Suc k < length (po_issued p)"
  then show "is_stored (po_issued p ! Suc k) + is_after (po_issued p ! Suc k) \<le> is_asked (po_issued p ! k)"
    by (rule spaced_nth [OF reachable_parts(1) [OF assms]])
next
  fix i h assume "po_pc p i = Returned (Inr h)"
  then show "\<exists>x \<in> set (po_issued p). h = ''Bearer '' @ is_token x \<and> is_token x \<noteq> [] \<and>
      po_began p i \<le> is_stored x + is_after x"
    using reachable_parts(3) [OF assms, of i] by (simp add: thread_ok_def served_def)
qed

definition token_body :: string where
  "token_body = json_text (JObj [(''access_token'', JStr ''t1''), (''expires_in'', JNum ''60'')])"

definition two_calls :: "(nat \<times> token_reply) list" where
  "two_calls = map (\<lambda>i. (i, Inr (200, token_body))) [0, 1, 0, 0, 0, 0, 0, 1, 1, 1, 1, 0]"

text \<open>Two calls find the cache empty; the first asks, the second waits, looks again and asks nothing.\<close>

theorem token_cache_safe_witness:
  "case run_schedule two_calls (fresh_pool 5) of None \<Rightarrow> False
   | Some p \<Rightarrow> length (po_issued p) = 1 \<and> po_pc p 0 = Returned (Inr ''Bearer t1'') \<and> po_pc p 1 = Returned (Inr ''Bearer t1'') \<and>
       po_began p 1 \<le> is_stored (po_issued p ! 0) + is_after (po_issued p ! 0)"
proof -
  have reply: "token_of_reply (Inr (200, token_body)) = Inr (''t1'', refreshAfter (60 * second))"
  proof -
    have "decode_token token_body = Inr \<lparr>tr_AccessToken = ''t1'', tr_ExpiresIn = 60, tr_Scope = []\<rparr>" by code_simp
    moreover have "token_lifetime 60 = 60 * second" by code_simp
    ultimately show ?thesis by (simp add: token_of_reply_def)
  qed
  have pos: "0 < refreshAfter (60 * second)" using refreshAfter_bounds(3) [of "60 * second"] by (simp add: second_def)
  have run: "case run_schedule two_calls (fresh_pool 5) of None \<Rightarrow> False
    | Some p \<Rightarrow> length (po_issued p) = 1 \<and> po_pc p 0 = Returned (Inr ''Bearer t1'') \<and> po_pc p 1 = Returned (Inr ''Bearer t1'')"
    using pos by (simp add: two_calls_def fresh_pool_def thread_step_def goto_def tokenValid_def reply)
  then obtain p where p: "run_schedule two_calls (fresh_pool 5) = Some p" by (auto split: option.splits)
  then have "reachable p" using run_reachable [OF reachable.start] by blast
  with token_cache_safe [of p] run p show ?thesis by (auto simp: length_Suc_conv)
qed

text \<open>C27: A call that waits for the refresh lock is not stuck: some other call holds it, no step of that
  call can block, and at most four of them release it, whatever the endpoint answers.\<close>

theorem refresh_lock_released:
  assumes "reachable p" "thread_step reply i p = None"
  shows "\<exists>j k q. j \<noteq> i \<and> po_holder p = Some j \<and> k \<le> 4 \<and>
    run_schedule (replicate k (j, r)) p = Some q \<and> po_holder q = None"
proof -
  have i: "po_pc p i = WaitRefresh" "po_holder p \<noteq> None"
    using assms(2) by (auto simp: thread_step_def split: pc.splits if_splits)
  then obtain j where j: "po_holder p = Some j" by blast
  then have "locked (po_pc p j)" using reachable_parts(2) [OF assms(1)] by simp
  then have "\<exists>k\<le>4. \<exists>q. run_schedule (replicate k (j, r)) p = Some q \<and> po_holder q = None"
  proof (cases "po_pc p j")
    case HoldLock
    show ?thesis
    proof (cases "tokenValid p")
      case True
      then show ?thesis using HoldLock j by (intro exI [of _ 2]) (simp add: numeral_eq_Suc thread_step_def goto_def)
    next
      case False
      then show ?thesis
        using HoldLock j
        by (intro exI [of _ "if isl (token_of_reply r) then 3 else 4"])
          (simp add: numeral_eq_Suc thread_step_def goto_def split: sum.splits)
    qed
  next
    case (Sending s)
    then show ?thesis
      using j
      by (intro exI [of _ "if isl (token_of_reply r) then 2 else 3"])
        (simp add: numeral_eq_Suc thread_step_def goto_def split: sum.splits)
  next
    case (Storing s t a)
    then show ?thesis using j by (intro exI [of _ 2]) (simp add: numeral_eq_Suc thread_step_def goto_def)
  next
    case (Unlock e)
    then show ?thesis using j by (intro exI [of _ 1]) (simp add: thread_step_def goto_def)
  qed (simp_all add: locked_def)
  moreover have "j \<noteq> i" using i(1) \<open>locked (po_pc p j)\<close> by (auto simp: locked_def)
  ultimately show ?thesis using j by blast
qed

definition one_waits :: pool where
  "one_waits = the (run_schedule (map (\<lambda>i. (i, Inr (200, token_body))) [0, 0, 1]) (fresh_pool 5))"

theorem refresh_lock_released_witness:
  "thread_step (Inl (ErrText ''refused'')) 1 one_waits = None \<and>
   (\<exists>j k q. j \<noteq> 1 \<and> po_holder one_waits = Some j \<and> k \<le> 4 \<and>
      run_schedule (replicate k (j, Inl (ErrText ''refused''))) one_waits = Some q \<and> po_holder q = None)"
proof -
  have run: "run_schedule (map (\<lambda>i. (i, Inr (200, token_body))) [0, 0, 1]) (fresh_pool 5) = Some one_waits"
    by (simp add: one_waits_def fresh_pool_def thread_step_def goto_def tokenValid_def)
  then have reach: "reachable one_waits" by (rule run_reachable [OF reachable.start])
  have wait: "thread_step (Inl (ErrText ''refused'')) 1 one_waits = None"
    by (simp add: one_waits_def fresh_pool_def thread_step_def goto_def tokenValid_def)
  show ?thesis using wait refresh_lock_released [OF reach wait, of "Inl (ErrText ''refused'')"] by simp
qed



end
