(* ===== verification/Auth.thy ===== *)
theory Auth
  imports Errors Paths
begin

section \<open>Authentication providers (client/auth)\<close>

text \<open>
  Every provider yields a header for a request; Kerberos signs the request in its transport instead.
  The Kerberos and SPNEGO libraries are third-party code: \<open>krb_lib\<close> holds their loading functions and
  \<open>krb_env\<close> what the transport calls, \<open>SetSPNEGOHeader\<close> and the base transport. The token cache of
  the OAuth provider is in OAuth.thy. Base64 is Go's \<open>StdEncoding\<close>.
\<close>

subsection \<open>Header providers (basic.go, simple.go, oauth_static.go)\<close>

definition base64_digit :: "nat \<Rightarrow> char" where
  "base64_digit n =
     (let m = n mod 64
      in if m < 26 then char_of (65 + m) else if m < 52 then char_of (71 + m) else if m < 62 then char_of (m - 4)
         else if m = 62 then CHR ''+'' else CHR ''/'')"

fun base64 :: "nat list \<Rightarrow> string" where
  "base64 (a # b # c # r) =
     (let n = a * 65536 + b * 256 + c
      in base64_digit (n div 262144) # base64_digit (n div 4096) # base64_digit (n div 64) # base64_digit n # base64 r)"
| "base64 [a, b] =
     (let n = a * 65536 + b * 256
      in [base64_digit (n div 262144), base64_digit (n div 4096), base64_digit (n div 64), CHR ''=''])"
| "base64 [a] = (let n = a * 65536 in [base64_digit (n div 262144), base64_digit (n div 4096), CHR ''='', CHR ''=''])"
| "base64 [] = []"

definition EncodeToString :: "string \<Rightarrow> string" where
  "EncodeToString s = base64 (map code s)"

definition BasicProvider_Header :: "string \<Rightarrow> string \<Rightarrow> string \<times> string" where
  "BasicProvider_Header username password =
     (''Authorization'', ''Basic '' @ EncodeToString (username @ '':'' @ password))"

text \<open>\<open>current\<close> is the user of the process, when the operating system knows it.\<close>

definition resolveUsername :: "(string \<Rightarrow> string) \<Rightarrow> string option \<Rightarrow> string \<Rightarrow> string" where
  "resolveUsername getenv current configured =
     (if configured \<noteq> [] then configured
      else if getenv ''GRAVITINO_USER'' \<noteq> [] then getenv ''GRAVITINO_USER''
      else case current of Some u \<Rightarrow> u | None \<Rightarrow> ''anonymous'')"

definition SimpleProvider_Header :: "(string \<Rightarrow> string) \<Rightarrow> string option \<Rightarrow> string \<Rightarrow> string \<times> string" where
  "SimpleProvider_Header getenv current username =
     (''Authorization'', ''Basic '' @ EncodeToString (resolveUsername getenv current username @ '':''))"

definition OAuthStaticProvider_Header :: "string \<Rightarrow> string \<times> string" where
  "OAuthStaticProvider_Header token = (''Authorization'', ''Bearer '' @ token)"

subsection \<open>Kerberos (kerberos.go)\<close>

record hrequest =
  hq_Method :: string
  hq_URL :: string
  hq_Header :: "(string \<times> string) list"
  hq_Body :: "string option"
  hq_GetBody :: "(gerror + string) option"

record hresponse =
  hs_StatusCode :: int
  hs_Header :: "(string \<times> string) list"
  hs_Body :: string

lemma dropWhile_span_less [termination_simp]:
  "dropWhile is_space s = c # t \<Longrightarrow> length (dropWhile (\<lambda>c. \<not> is_space c) (c # t)) < length s"
proof -
  assume d: "dropWhile is_space s = c # t"
  then have "\<not> is_space c" using hd_dropWhile [of is_space s] by simp
  then have "length (dropWhile (\<lambda>c. \<not> is_space c) (c # t)) \<le> length t" by (simp add: length_dropWhile_le)
  also have "length t < length s" using d length_dropWhile_le [of is_space s] by simp
  finally show ?thesis .
qed

function fields_of :: "string \<Rightarrow> string list" where
  "fields_of s =
     (case dropWhile is_space s of
        [] \<Rightarrow> []
      | c # t \<Rightarrow> takeWhile (\<lambda>c. \<not> is_space c) (c # t) # fields_of (dropWhile (\<lambda>c. \<not> is_space c) (c # t)))"
  by pat_completeness auto
termination
  by (relation "measure length") (simp_all add: dropWhile_span_less del: dropWhile.simps)

declare fields_of.simps [simp del]

definition hasNegotiateChallenge :: "hresponse \<Rightarrow> bool" where
  "hasNegotiateChallenge resp =
     list_ex (\<lambda>(k, v). k = ''Www-Authenticate'' \<and> (case fields_of v of f # _ \<Rightarrow> equal_fold f ''Negotiate'' | [] \<Rightarrow> False))
       (hs_Header resp)"

definition cloneRequestForRetry :: "hrequest \<Rightarrow> gerror + hrequest" where
  "cloneRequestForRetry req =
     (case hq_Body req of
        None \<Rightarrow> Inr req
      | Some _ \<Rightarrow>
          (case hq_GetBody req of
             None \<Rightarrow> Inl (ErrText ''request body is not rewindable'')
           | Some (Inl err) \<Rightarrow> Inl err
           | Some (Inr body) \<Rightarrow> Inr (req\<lparr>hq_Body := Some body\<rparr>)))"

record 'w krb_env =
  ke_sign :: "hrequest \<Rightarrow> 'w \<Rightarrow> (gerror + hrequest) \<times> 'w"
  ke_send :: "hrequest \<Rightarrow> 'w \<Rightarrow> (gerror + hresponse) \<times> 'w"

definition RoundTrip :: "'w krb_env \<Rightarrow> hrequest \<Rightarrow> 'w \<Rightarrow> (gerror + hresponse) \<times> 'w" where
  "RoundTrip env req w =
     (case ke_sign env req w of
        (Inl err, w1) \<Rightarrow> (Inl (ErrWrap ''kerberos authentication failed: '' err), w1)
      | (Inr signed, w1) \<Rightarrow>
          (case ke_send env signed w1 of
             (Inl err, w2) \<Rightarrow> (Inl err, w2)
           | (Inr resp, w2) \<Rightarrow>
               if hs_StatusCode resp = 401 \<and> hasNegotiateChallenge resp
               then (case cloneRequestForRetry signed of
                       Inl err \<Rightarrow> (Inl (ErrWrap ''kerberos authentication retry failed: '' err), w2)
                     | Inr retryReq \<Rightarrow>
                         (case ke_sign env retryReq w2 of
                            (Inl err, w3) \<Rightarrow> (Inl (ErrWrap ''kerberos authentication retry failed: '' err), w3)
                          | (Inr again, w3) \<Rightarrow> ke_send env again w3))
               else (Inr resp, w2)))"

text \<open>The transport under the round tripper is set once; before that it is the default one.\<close>

definition setBase :: "'t \<Rightarrow> 't option \<Rightarrow> 't option" where
  "setBase new base = (case base of None \<Rightarrow> Some new | Some b \<Rightarrow> Some b)"

definition baseTransport :: "'t \<Rightarrow> 't option \<Rightarrow> 't" where
  "baseTransport DefaultTransport base = (case base of None \<Rightarrow> DefaultTransport | Some b \<Rightarrow> b)"

definition extractRealm :: "string \<Rightarrow> string" where
  "extractRealm principalName = (case split_n CHR ''@'' 2 principalName of [_, realm] \<Rightarrow> realm | _ \<Rightarrow> [])"

record ('c, 'cc, 'kt, 'k) krb_lib =
  kl_getenv :: "string \<Rightarrow> string"
  kl_uid :: "gerror + string"
  kl_load_config :: "string \<Rightarrow> gerror + 'c"
  kl_new_config :: 'c
  kl_not_exist :: "gerror \<Rightarrow> bool"
  kl_load_ccache :: "string \<Rightarrow> gerror + 'cc"
  kl_from_ccache :: "'cc \<Rightarrow> 'c \<Rightarrow> gerror + 'k"
  kl_load_keytab :: "string \<Rightarrow> gerror + 'kt"
  kl_with_keytab :: "string \<Rightarrow> string \<Rightarrow> 'kt \<Rightarrow> 'c \<Rightarrow> 'k"

definition wrap_left :: "string \<Rightarrow> gerror + 'a \<Rightarrow> gerror + 'a" where
  "wrap_left text = map_sum (ErrWrap text) (\<lambda>a. a)"

definition loadKerberosConfig :: "('c, 'cc, 'kt, 'k) krb_lib \<Rightarrow> gerror + 'c" where
  "loadKerberosConfig lib =
     (let cfgPath = kl_getenv lib ''KRB5_CONFIG'' in
      if cfgPath \<noteq> [] then wrap_left (''failed to load KRB5_CONFIG '' @ cfgPath @ '': '') (kl_load_config lib cfgPath)
      else case kl_load_config lib ''/etc/krb5.conf'' of
             Inr cfg \<Rightarrow> Inr cfg
           | Inl err \<Rightarrow> if kl_not_exist lib err then Inr (kl_new_config lib)
                        else Inl (ErrWrap ''failed to load /etc/krb5.conf: '' err))"

definition krb_client :: "('c, 'cc, 'kt, 'k) krb_lib \<Rightarrow> string \<Rightarrow> string \<Rightarrow> bool \<Rightarrow> 'c \<Rightarrow> gerror + 'k" where
  "krb_client lib principalName keytabPath useTicketCache cfg =
     (if useTicketCache
      then (case (if kl_getenv lib ''KRB5CCNAME'' \<noteq> [] then Inr (kl_getenv lib ''KRB5CCNAME'')
                  else map_sum (ErrWrap ''failed to determine current user for default ccache path: '') (\<lambda>uid. ''/tmp/krb5cc_'' @ uid)
                         (kl_uid lib)) of
              Inl err \<Rightarrow> Inl err
            | Inr ccachePath \<Rightarrow>
                (case kl_load_ccache lib ccachePath of
                   Inl err \<Rightarrow> Inl (ErrWrap (''failed to load Kerberos CCache from '' @ ccachePath @ '': '') err)
                 | Inr cc \<Rightarrow> wrap_left ''failed to create Kerberos client from CCache: '' (kl_from_ccache lib cc cfg)))
      else if keytabPath = [] then Inl (ErrText ''keytab path is required when use_ticket_cache is false'')
      else map_sum (ErrWrap (''failed to load keytab from '' @ keytabPath @ '': ''))
             (\<lambda>kt. kl_with_keytab lib principalName (extractRealm principalName) kt cfg) (kl_load_keytab lib keytabPath))"

definition NewKerberosProvider :: "('c, 'cc, 'kt, 'k) krb_lib \<Rightarrow> string \<Rightarrow> string \<Rightarrow> bool \<Rightarrow> gerror + 'k" where
  "NewKerberosProvider lib principalName keytabPath useTicketCache =
     (if principalName = [] then Inl (ErrText ''kerberos principal is required'')
      else case loadKerberosConfig lib of
             Inl err \<Rightarrow> Inl (ErrWrap ''failed to load krb5 config: '' err)
           | Inr cfg \<Rightarrow> krb_client lib principalName keytabPath useTicketCache cfg)"

subsection \<open>Basic credentials can be read back\<close>

definition base64_value :: "char \<Rightarrow> nat" where
  "base64_value c =
     (if is_upper c then code c - 65 else if is_lower c then code c - 71 else if is_digit c then code c + 4
      else if c = CHR ''+'' then 62 else 63)"

fun unbase64 :: "string \<Rightarrow> nat list" where
  "unbase64 (p # q # r # s # rest) =
     (let n = base64_value p * 262144 + base64_value q * 4096 + base64_value r * 64 + base64_value s
      in if r = CHR ''='' then [n div 65536]
         else if s = CHR ''='' then [n div 65536, n div 256 mod 256]
         else n div 65536 # n div 256 mod 256 # n mod 256 # unbase64 rest)"
| "unbase64 _ = []"

lemma base64_digits: "n < 64 \<Longrightarrow> base64_value (base64_digit n) = n \<and> base64_digit n \<noteq> CHR ''=''"
proof -
  assume n: "n < 64"
  have "code (char_of (65 + n)) = 65 + n" "code (char_of (71 + n)) = 71 + n" "code (char_of (n - 4)) = n - 4"
    using n by (simp_all add: code_def)
  moreover have "code CHR ''+'' = 43" "code CHR ''/'' = 47" "code CHR ''='' = 61" by (simp_all add: code_def)
  ultimately show "base64_value (base64_digit n) = n \<and> base64_digit n \<noteq> CHR ''=''"
    using n by (auto simp: base64_value_def base64_digit_def Let_def is_upper_def is_lower_def is_digit_def simp flip: code_inject)
qed

lemma digit_mod: "base64_digit (n mod 64) = base64_digit n"
  by (simp add: base64_digit_def)

lemma digit_value [simp]: "base64_value (base64_digit n) = n mod 64"
  using base64_digits [of "n mod 64"] by (simp add: digit_mod)

lemma digit_not_pad [simp]: "base64_digit n \<noteq> CHR ''=''"
  using base64_digits [of "n mod 64"] by (simp add: digit_mod)

lemma sextets:
  assumes "n < 16777216"
  shows "n div 262144 mod 64 * 262144 + n div 4096 mod 64 * 4096 + n div 64 mod 64 * 64 + n mod 64 = (n :: nat)"
proof -
  have d: "n div 4096 = n div 64 div 64" "n div 262144 = n div 64 div 64 div 64" by (simp_all flip: div_mult2_eq)
  have "n div 262144 < 64" using assms by (simp add: less_mult_imp_div_less)
  then have "n div 64 div 64 div 64 mod 64 = n div 64 div 64 div 64" unfolding d by simp
  then show ?thesis
    using div_mult_mod_eq [of n 64] div_mult_mod_eq [of "n div 64" 64] div_mult_mod_eq [of "n div 64 div 64" 64] unfolding d
    by linarith
qed

lemma octet: "c < 256 \<Longrightarrow> (k * 256 + c) div 256 = (k :: nat) \<and> (k * 256 + c) mod 256 = c"
  by simp

lemma pad_value [simp]: "base64_value CHR ''='' = 63"
  by code_simp

lemma unbase64_base64: "\<forall>b \<in> set bs. b < 256 \<Longrightarrow> unbase64 (base64 bs) = bs"
proof (induction bs rule: base64.induct)
  case (1 a b c r)
  define n where "n = a * 65536 + b * 256 + c"
  have n: "n = (a * 256 + b) * 256 + c" by (simp add: n_def)
  have "n < 16777216" using "1.prems" by (simp add: n_def)
  moreover have "n div 256 = a * 256 + b" "n mod 256 = c" using octet [of c "a * 256 + b"] "1.prems" by (auto simp only: n list.set_intros)
  moreover have "n div 65536 = n div 256 div 256" by (simp flip: div_mult2_eq)
  ultimately show ?case
    using 1 octet [of b a] sextets [of n] unfolding base64.simps Let_def n_def [symmetric] by (simp add: Let_def)
next
  case (2 a b)
  define n where "n = a * 65536 + b * 256"
  have n: "n + 63 = (a * 256 + b) * 256 + 63" "n < 16777216" using "2.prems" by (simp_all add: n_def)
  have "n = (a * 1024 + b * 4) * 64" by (simp add: n_def)
  then have "n mod 64 = 0" by (simp only: mod_mult_self2_is_0)
  then have sum: "n div 262144 mod 64 * 262144 + n div 4096 mod 64 * 4096 + n div 64 mod 64 * 64 + 63 = n + 63"
    using sextets [OF n(2)] by linarith
  have b: "(n + 63) div 256 = a * 256 + b" unfolding n(1) using octet [of 63] by simp
  have "(n + 63) div 256 mod 256 = b" unfolding b using "2.prems" octet [of b a] by (simp only: list.set_intros)
  moreover have "(n + 63) div 65536 = a"
    using div_mult2_eq [of "n + 63" 256 256] octet [of b a] "2.prems" b by (simp only: list.set_intros) simp
  ultimately show ?case unfolding base64.simps Let_def n_def [symmetric] by (simp add: Let_def sum)
next
  case (3 a)
  define n where "n = a * 65536"
  have n: "n < 16777216" using "3.prems" by (simp add: n_def)
  have n64: "n = a * 16 * 64 * 64" by (simp add: n_def)
  have "n mod 64 = 0" "n div 64 mod 64 = 0" unfolding n64 by (simp_all only: mod_mult_self2_is_0 nonzero_mult_div_cancel_right)
  then have sum: "n div 262144 mod 64 * 262144 + n div 4096 mod 64 * 4096 + 63 * 64 + 63 = n + 4095"
    using sextets [OF n] by linarith
  have "(n + 4095) div 65536 = a" by (simp add: n_def)
  then show ?case unfolding base64.simps Let_def n_def [symmetric] by (simp add: Let_def sum [simplified])
qed simp

lemma EncodeToString_inject: "EncodeToString s = EncodeToString t \<longleftrightarrow> s = t"
proof
  assume "EncodeToString s = EncodeToString t"
  then have "unbase64 (base64 (map code s)) = unbase64 (base64 (map code t))" by (simp add: EncodeToString_def)
  then have "map code s = map code t" by (subst (asm) (1 2) unbase64_base64) (auto simp: code_lt)
  then show "s = t" by (simp add: inj_map_eq_map inj_on_def code_inject)
qed simp

text \<open>The header of the basic provider determines user and password, unless the user has a colon.\<close>

lemma basic_header_inject:
  assumes "CHR '':'' \<notin> set u" "CHR '':'' \<notin> set v"
  shows "BasicProvider_Header u p = BasicProvider_Header v q \<longleftrightarrow> u = v \<and> p = q"
  using assms by (auto simp: BasicProvider_Header_def EncodeToString_inject append_eq_append_conv2 append_eq_Cons_conv Cons_eq_append_conv)

subsection \<open>Properties\<close>

text \<open>Requests are recorded as they reach the base transport.\<close>

definition logged :: "'w krb_env \<Rightarrow> ('w \<times> hrequest list) krb_env" where
  "logged env =
     \<lparr>ke_sign = (\<lambda>r (w, sent). case ke_sign env r w of (x, w') \<Rightarrow> (x, w', sent)),
      ke_send = (\<lambda>r (w, sent). case ke_send env r w of (x, w') \<Rightarrow> (x, w', sent @ [r]))\<rparr>"

text \<open>Signing sets a header and nothing else; \<open>http.NewRequest\<close> makes a body that can be read again.\<close>

definition signs_header :: "'w krb_env \<Rightarrow> bool" where
  "signs_header env \<longleftrightarrow> (\<forall>r w r' w'. ke_sign env r w = (Inr r', w') \<longrightarrow> (\<exists>h. r' = r\<lparr>hq_Header := h\<rparr>))"

text \<open>A request sent through Kerberos reaches the server at most twice, the second time only after the
  first was answered 401 with a Negotiate challenge, and then as the same request with the same
  body; without a signature nothing is sent.\<close>

theorem kerberos_retry_same_request:
  assumes "signs_header env" "hq_GetBody req = map_option Inr (hq_Body req)"
    and "RoundTrip (logged env) req (w, []) = (result, w', sent)"
  shows "length sent \<le> 2 \<and> (\<forall>r \<in> set sent. \<exists>h. r = req\<lparr>hq_Header := h\<rparr>) \<and>
    (sent = [] \<longleftrightarrow> (\<exists>err w1. ke_sign env req w = (Inl err, w1))) \<and>
    (length sent = 2 \<longrightarrow> (\<exists>w1 resp w2. ke_send env (sent ! 0) w1 = (Inr resp, w2) \<and>
       hs_StatusCode resp = 401 \<and> hasNegotiateChallenge resp))"
proof (cases "ke_sign env req w")
  case (Pair x w1)
  show ?thesis
  proof (cases x)
    case (Inl err)
    then show ?thesis using assms(3) Pair by (auto simp: RoundTrip_def logged_def)
  next
    case (Inr signed)
    then obtain h where signed: "signed = req\<lparr>hq_Header := h\<rparr>" using assms(1) Pair unfolding signs_header_def by metis
    obtain y w2 where send: "ke_send env signed w1 = (y, w2)" by fastforce
    show ?thesis
    proof (cases "\<exists>resp. y = Inr resp \<and> hs_StatusCode resp = 401 \<and> hasNegotiateChallenge resp")
      case False
      then show ?thesis
        using assms(3) Pair Inr send signed by (cases y) (auto simp: RoundTrip_def logged_def split: if_splits)
    next
      case True
      then obtain resp where resp: "y = Inr resp" "hs_StatusCode resp = 401" "hasNegotiateChallenge resp" by blast
      have clone: "cloneRequestForRetry signed = Inr signed"
        using assms(2) by (cases "hq_Body req") (simp_all add: cloneRequestForRetry_def signed)
      obtain z w3 where sign: "ke_sign env signed w2 = (z, w3)" by fastforce
      show ?thesis
      proof (cases z)
        case (Inl err)
        then show ?thesis
          using assms(3) Pair Inr send resp clone sign signed by (auto simp: RoundTrip_def logged_def)
      next
        case again: (Inr signed2)
        then obtain h2 where "signed2 = signed\<lparr>hq_Header := h2\<rparr>" using assms(1) sign unfolding signs_header_def by metis
        then show ?thesis
          using assms(3) Pair Inr send resp clone sign signed again
          by (auto simp: RoundTrip_def logged_def split: prod.splits) (metis resp)
      qed
    qed
  qed
qed

definition challenge :: hresponse where
  "challenge = \<lparr>hs_StatusCode = 401, hs_Header = [(''Www-Authenticate'', ''Negotiate YII'')], hs_Body = []\<rparr>"

definition challenging :: "nat krb_env" where
  "challenging =
     \<lparr>ke_sign = (\<lambda>r w. (Inr (r\<lparr>hq_Header := [(''Authorization'', ''Negotiate'')]\<rparr>), w)),
      ke_send = (\<lambda>r w. (Inr (if w = 0 then challenge else challenge\<lparr>hs_StatusCode := 200\<rparr>), Suc w))\<rparr>"

definition put_request :: hrequest where
  "put_request = \<lparr>hq_Method = ''PUT'', hq_URL = ''u'', hq_Header = [], hq_Body = Some ''b'', hq_GetBody = Some (Inr ''b'')\<rparr>"

theorem kerberos_retry_same_request_witness:
  "case RoundTrip (logged challenging) put_request (0, []) of (result, w', sent) \<Rightarrow>
     length sent = 2 \<and> list_all (\<lambda>r. \<exists>h. r = put_request\<lparr>hq_Header := h\<rparr>) sent"
proof -
  obtain result w' sent where run: "RoundTrip (logged challenging) put_request (0, []) = (result, w', sent)"
    by (cases "RoundTrip (logged challenging) put_request (0, [])") auto
  have "signs_header challenging" by (auto simp: signs_header_def challenging_def)
  moreover have "hq_GetBody put_request = map_option Inr (hq_Body put_request)" by (simp add: put_request_def)
  moreover have "length (snd (snd (RoundTrip (logged challenging) put_request (0, [])))) = 2" by code_simp
  ultimately show ?thesis
    using kerberos_retry_same_request [OF _ _ run] run by (simp add: list_all_iff)
qed

end
