(* ===== verification/Entity.thy ===== *)
theory Entity
  imports Handlers CatalogResource RoleResource
begin

section \<open>What the resources of simple entities share\<close>

text \<open>
  Tags, topics, schemas and models are entities with a comment and a property map, below one or more
  containers. Their client calls have the same shape (\<open>entity_api\<close>, the containers as a list of
  names) and their property diffs produce the same requests, in either order. \<open>propertiesToState\<close>
  is the function of that name in resources/tag and resources/topic.
\<close>

record ('c, 'u, 'e, 'w) entity_api =
  ea_create :: "string list \<Rightarrow> 'c \<Rightarrow> 'w \<Rightarrow> (gerror + 'e) \<times> 'w"
  ea_get :: "string list \<Rightarrow> string \<Rightarrow> 'w \<Rightarrow> (gerror + 'e) \<times> 'w"
  ea_update :: "string list \<Rightarrow> string \<Rightarrow> 'u list \<Rightarrow> 'w \<Rightarrow> (gerror + 'e) \<times> 'w"
  ea_drop :: "string list \<Rightarrow> string \<Rightarrow> 'w \<Rightarrow> (gerror + bool) \<times> 'w"

text \<open>A sequence that succeeds is a sequence of successes.\<close>

lemma andThen_Inr: "andThen m f w = (Inr x, w') \<longleftrightarrow> (\<exists>a w1. m w = (Inr a, w1) \<and> f a w1 = (Inr x, w'))"
  by (auto simp: andThen_def split: prod.splits sum.splits)

lemma calling_Inr: "calling f report w = (Inr a, w') \<longleftrightarrow> f w = (Inr a, w')"
  by (auto simp: calling_def split: prod.splits sum.splits)

subsection \<open>Property diffs\<close>

definition set_requests :: "(string \<Rightarrow> string \<Rightarrow> 'u) \<Rightarrow> string gomap \<Rightarrow> string gomap \<Rightarrow> 'u list" where
  "set_requests set_u oldProps newProps =
     concat (map (\<lambda>(k, v). if map_of oldProps k \<noteq> Some v then [set_u k v] else []) newProps)"

definition remove_requests :: "(string \<Rightarrow> 'u) \<Rightarrow> string gomap \<Rightarrow> string gomap \<Rightarrow> 'u list" where
  "remove_requests rem_u oldProps newProps =
     concat (map (\<lambda>(k, _). if map_of newProps k = None then [rem_u k] else []) oldProps)"

lemma requests_members:
  assumes "wf_map p" "wf_map c"
  shows "u \<in> set (set_requests set_u c p) \<or> u \<in> set (remove_requests rem_u c p) \<longleftrightarrow>
      (\<exists>k v. u = set_u k v \<and> map_of p k = Some v \<and> map_of c k \<noteq> Some v) \<or>
      (\<exists>k. u = rem_u k \<and> map_of p k = None \<and> map_of c k \<noteq> None)"
proof -
  have "u \<in> set (set_requests set_u c p) \<longleftrightarrow> (\<exists>(k, v) \<in> set p. map_of c k \<noteq> Some v \<and> u = set_u k v)"
    unfolding set_requests_def set_concat set_map UN_iff bex_simps(7) case_prod_beta
    by (rule bex_cong [OF refl]; simp; blast)
  moreover have "u \<in> set (remove_requests rem_u c p) \<longleftrightarrow> (\<exists>(k, v) \<in> set c. map_of p k = None \<and> u = rem_u k)"
    unfolding remove_requests_def set_concat set_map UN_iff bex_simps(7) case_prod_beta
    by (rule bex_cong [OF refl]; simp; blast)
  ultimately show ?thesis
    unfolding Bex_def split_paired_Ex prod.case map_of_entry [OF assms(1)] map_of_entry [OF assms(2)] by blast
qed

subsection \<open>Values\<close>

text \<open>\<open>Map.Equal\<close> ignores the order of the entries.\<close>

definition map_Equal :: "tf_map \<Rightarrow> tf_map \<Rightarrow> bool" where
  "map_Equal a b =
     (case (a, b) of
        (TKnown m, TKnown n) \<Rightarrow> length m = length n \<and> list_all (\<lambda>(k, v). map_of n k = Some v) m
      | _ \<Rightarrow> a = b)"

lemma same_entries:
  assumes "wf_map a" "wf_map b"
  shows "length a = length b \<and> list_all (\<lambda>(k, v). map_of b k = Some v) a \<longleftrightarrow> map_of a = map_of b" (is "?same a b \<longleftrightarrow> _")
proof
  assume eq: "?same a b"
  have sub: "map_of a k = Some v \<Longrightarrow> map_of b k = Some v" for k v
    using eq by (auto simp: list_all_iff dest: map_of_SomeD)
  then have dom: "dom (map_of a) \<subseteq> dom (map_of b)" by auto
  have "card (dom (map_of a)) = card (dom (map_of b))"
    using eq assms by (simp add: wf_map_def keys_def dom_map_of_conv_image_fst distinct_card flip: set_map)
  then have "dom (map_of a) = dom (map_of b)" using dom by (simp add: card_subset_eq finite_dom_map_of)
  then show "map_of a = map_of b" using sub by (metis (no_types, opaque_lifting) domD domIff ext)
next
  assume eq: "map_of a = map_of b"
  have "card (dom (map_of a)) = length a" "card (dom (map_of b)) = length b"
    using assms by (simp_all add: wf_map_def keys_def dom_map_of_conv_image_fst distinct_card flip: set_map)
  then have "length a = length b" using eq by simp
  moreover have "list_all (\<lambda>(k, v). map_of b k = Some v) a"
    using assms(1) by (auto simp: list_all_iff eq [symmetric] wf_map_def keys_def intro: map_of_is_SomeI)
  ultimately show "?same a b" by simp
qed

lemma map_Equal_refl [simp]: "(\<And>m. v = TKnown m \<Longrightarrow> distinct (map fst m)) \<Longrightarrow> map_Equal v v"
  by (cases v) (auto simp: map_Equal_def list_all_iff)

definition string_map :: "('a fw_scheme) \<Rightarrow> tf_map \<Rightarrow> diags + string gomap" where
  "string_map fw v = (case StringMap fw v [] of (m, ds) \<Rightarrow> if HasError ds then Inl ds else Inr m)"

definition both_maps :: "('a fw_scheme) \<Rightarrow> tf_map \<Rightarrow> tf_map \<Rightarrow> diags + string gomap \<times> string gomap" where
  "both_maps fw oldValue newValue =
     (case StringMap fw oldValue [] of
        (oldProps, ds) \<Rightarrow>
          (case StringMap fw newValue ds of (newProps, es) \<Rightarrow> if HasError es then Inl es else Inr (oldProps, newProps)))"

text \<open>The key of an unknown or null planned value the server does not report is kept with the empty text.\<close>

definition propertiesToState :: "string gomap \<Rightarrow> tf_map \<Rightarrow> tf_map" where
  "propertiesToState server planned =
     (case planned of
        TKnown m \<Rightarrow> TKnown (known_map (merge_managed True server (mapFromTF planned)))
      | _ \<Rightarrow> if server = [] then TNull else TKnown (known_map server))"

text \<open>What a refresh with \<open>propertiesToState\<close> keeps: the managed keys, with the server's values.\<close>

lemma propertiesToState_lookup:
  "mapFromTF (propertiesToState server (TKnown m)) = merge_managed True server (mapFromTF (TKnown m))"
  by (simp add: propertiesToState_def mapFromTF_def known_map_def comp_def case_prod_beta)

lemma propertiesToState_keys:
  "keys (mapFromTF (propertiesToState server (TKnown m))) = keys (mapFromTF (TKnown m))"
  by (simp add: propertiesToState_lookup merge_keys)

subsection \<open>Compound ids (models/planmodifier.go)\<close>

text \<open>The components are read from plan and state by their attribute name; \<open>None\<close> is a failing read.\<close>

definition PlanModifyString ::
    "string list \<Rightarrow> (string \<Rightarrow> string tfval option) \<Rightarrow> (string \<Rightarrow> string tfval option) \<Rightarrow> string tfval \<Rightarrow> string tfval" where
  "PlanModifyString components stateAttr planAttr stateValue =
     (if IsNull stateValue then TUnknown
      else if list_all (\<lambda>c. stateAttr c \<noteq> None \<and> planAttr c \<noteq> None \<and> stateAttr c = planAttr c) components
      then stateValue else TUnknown)"

lemma compound_id_kept:
  assumes "PlanModifyString components stateAttr planAttr stateValue = TKnown v" "c \<in> set components"
  shows "stateAttr c = planAttr c \<and> stateValue = TKnown v"
  using assms by (auto simp: PlanModifyString_def list_all_iff split: if_splits)

end
