(* ===== verification/JobResource.thy ===== *)
theory JobResource
  imports Entity HttpClient TableModel
begin

section \<open>Jobs and job templates (resources/job, resources/job_template)\<close>

text \<open>
  A job is a run of a template: creating it starts the run, every change replaces it and deleting it
  cancels the run and waits, a bounded time, until it has stopped. The wait (\<open>poll_loop\<close>) is the
  code's \<open>for\<close> loop over a ticker. Clock and ticker are the run-time's: \<open>je_now\<close> reads the clock,
  \<open>je_newTicker\<close> gives the instant of the first tick, \<open>je_select\<close> waits for a tick or for the end of the
  context and gives the instant of the next tick. \<open>ticker_law\<close> is the documented behaviour: no tick
  comes early, two are at least an interval apart. The loop is a partial function, so that its end is
  a theorem.
\<close>

subsection \<open>Jobs\<close>

record job =
  jb_JobID :: string
  jb_JobTemplateName :: string
  jb_Status :: string
  jb_QueuedAt :: "string option"
  jb_StartedAt :: "string option"
  jb_FinishedAt :: "string option"
  jb_Audit :: "audit option"

record job_run_request =
  jrr_JobTemplateName :: string
  jrr_JobConf :: "string gomap"

record job_model =
  jm_ID :: "string tfval"
  jm_Metalake :: "string tfval"
  jm_JobTemplate :: "string tfval"
  jm_JobConf :: tf_map
  jm_JobID :: "string tfval"
  jm_Status :: "string tfval"
  jm_QueuedAt :: "string tfval"
  jm_StartedAt :: "string tfval"
  jm_FinishedAt :: "string tfval"
  jm_Audit :: "audit_tfsdk tfval"

record 'w job_api =
  ja_run :: "string \<Rightarrow> job_run_request \<Rightarrow> 'w \<Rightarrow> (gerror + job) \<times> 'w"
  ja_get :: "string \<Rightarrow> string \<Rightarrow> 'w \<Rightarrow> (gerror + job) \<times> 'w"
  ja_cancel :: "string \<Rightarrow> string \<Rightarrow> 'w \<Rightarrow> (gerror + job) \<times> 'w"

record 'w job_env =
  je_now :: "'w \<Rightarrow> int \<times> 'w"
  je_newTicker :: "int \<Rightarrow> 'w \<Rightarrow> int \<times> 'w"
  je_select :: "int \<Rightarrow> 'w \<Rightarrow> int option \<times> 'w"

definition timeToString :: "string option \<Rightarrow> string tfval" where
  "timeToString t = (case t of None \<Rightarrow> TNull | Some s \<Rightarrow> TKnown s)"

definition setStateFromJob :: "string \<Rightarrow> job \<Rightarrow> job_model \<Rightarrow> job_model" where
  "setStateFromJob metalake j m =
     m\<lparr>jm_Metalake := TKnown metalake, jm_JobID := TKnown (jb_JobID j), jm_JobTemplate := TKnown (jb_JobTemplateName j),
       jm_Status := TKnown (jb_Status j), jm_ID := TKnown (metalake @ ''.'' @ jb_JobID j),
       jm_QueuedAt := timeToString (jb_QueuedAt j), jm_StartedAt := timeToString (jb_StartedAt j),
       jm_FinishedAt := timeToString (jb_FinishedAt j), jm_Audit := AuditToObjectValue (jb_Audit j)\<rparr>"

definition jobIsTerminal :: "string \<Rightarrow> bool" where
  "jobIsTerminal status \<longleftrightarrow> status \<in> {''succeeded'', ''failed'', ''canceled''}"

definition job_Create :: "'w job_api \<Rightarrow> diags + job_model \<Rightarrow> (job_model state_write, 'w) step" where
  "job_Create api planGet =
     andThen (pure_step planGet) (\<lambda>plan.
     andThen (calling (ja_run api (ValueString (jm_Metalake plan))
                \<lparr>jrr_JobTemplateName = ValueString (jm_JobTemplate plan), jrr_JobConf = mapFromTF (jm_JobConf plan)\<rparr>)
              (NewResourceError ''running job'' (ValueString (jm_JobTemplate plan)))) (\<lambda>j.
     done_with (Save (setStateFromJob (ValueString (jm_Metalake plan)) j plan))))"

definition job_Read :: "'w job_api \<Rightarrow> diags + job_model \<Rightarrow> (job_model state_write, 'w) step" where
  "job_Read api stateGet =
     andThen (pure_step stateGet) (\<lambda>state.
       refresh (ja_get api (ValueString (jm_Metalake state)) (ValueString (jm_JobID state)))
         (NewResourceError ''reading job'' (ValueString (jm_JobID state)))
         (\<lambda>j. Inr (setStateFromJob (ValueString (jm_Metalake state)) j state)))"

definition job_Update :: "(job_model state_write, 'w) step" where
  "job_Update w =
     (Inl [error_diag ''Job update not supported''
        ''A Gravitino job run is immutable. Changing job_template, job_conf or metalake starts a new job run.''], w)"

definition cancelPollInterval :: int where "cancelPollInterval = 2 * second"

definition cancelPollTimeout :: int where "cancelPollTimeout = 10 * second"

partial_function (option) poll_loop ::
    "'w job_api \<Rightarrow> 'w job_env \<Rightarrow> string \<Rightarrow> string \<Rightarrow> int \<Rightarrow> int \<Rightarrow> 'w \<Rightarrow> 'w option" where
  "poll_loop api env metalake jobID deadline next_tick w =
     (case je_select env next_tick w of
        (None, w1) \<Rightarrow> Some w1
      | (Some following, w1) \<Rightarrow>
          (case je_now env w1 of
             (now, w2) \<Rightarrow>
               if deadline < now then Some w2
               else (case ja_get api metalake jobID w2 of
                       (Inl _, w3) \<Rightarrow> Some w3
                     | (Inr current, w3) \<Rightarrow>
                         if jobIsTerminal (jb_Status current) then Some w3
                         else poll_loop api env metalake jobID deadline following w3)))"

definition waitForTerminalJob :: "'w job_api \<Rightarrow> 'w job_env \<Rightarrow> string \<Rightarrow> string \<Rightarrow> 'w \<Rightarrow> 'w option" where
  "waitForTerminalJob api env metalake jobID w =
     (case je_now env w of
        (now, w1) \<Rightarrow>
          (case je_newTicker env cancelPollInterval w1 of
             (tick, w2) \<Rightarrow> poll_loop api env metalake jobID (now + cancelPollTimeout) tick w2))"

definition job_Delete ::
    "'w job_api \<Rightarrow> 'w job_env \<Rightarrow> diags + job_model \<Rightarrow> 'w \<Rightarrow> ((diags + job_model state_write) \<times> 'w) option" where
  "job_Delete api env stateGet w =
     (case stateGet of
        Inl ds \<Rightarrow> Some (Inl ds, w)
      | Inr state \<Rightarrow>
          (let metalake = ValueString (jm_Metalake state); jobID = ValueString (jm_JobID state) in
           case ja_get api metalake jobID w of
             (Inl err, w1) \<Rightarrow>
               Some (if IsNotFoundError err then Inr Remove else Inl (NewResourceError ''deleting job'' jobID err), w1)
           | (Inr current, w1) \<Rightarrow>
               if jobIsTerminal (jb_Status current) then Some (Inr Remove, w1)
               else (case ja_cancel api metalake jobID w1 of
                       (Inl err, w2) \<Rightarrow>
                         if \<not> IsNotFoundError err then Some (Inl (NewResourceError ''cancelling job'' jobID err), w2)
                         else map_option (Pair (Inr Remove)) (waitForTerminalJob api env metalake jobID w2)
                     | (Inr _, w2) \<Rightarrow> map_option (Pair (Inr Remove)) (waitForTerminalJob api env metalake jobID w2))))"

definition import_by_last_dot :: "string \<Rightarrow> string \<Rightarrow> string \<Rightarrow> diagnostic + (string \<times> string) list" where
  "import_by_last_dot expected attribute reqID =
     (let bad = error_diag ''Invalid import ID'' (''Expected '' @ [CHR 0x27] @ expected @ [CHR 0x27] @ '', got: '' @ reqID) in
      case split_last_dot reqID of
        None \<Rightarrow> Inl bad
      | Some (metalake, name) \<Rightarrow>
          if metalake = [] \<or> name = [] then Inl bad
          else Inr [(''metalake'', metalake), (attribute, name), (''id'', reqID)])"

definition job_ImportState :: "string \<Rightarrow> diagnostic + (string \<times> string) list" where
  "job_ImportState = import_by_last_dot ''metalake.job_id'' ''job_id''"

subsection \<open>Job templates\<close>

record job_template =
  jt_Name :: string
  jt_JobType :: string
  jt_Comment :: string
  jt_Executable :: string
  jt_Arguments :: "string list"
  jt_Environments :: "string gomap"
  jt_CustomFields :: "string gomap"
  jt_Scripts :: "string list"
  jt_ClassName :: string
  jt_Jars :: "string list"
  jt_Files :: "string list"
  jt_Archives :: "string list"
  jt_Configs :: "string gomap"
  jt_Audit :: "audit option"

record job_template_model =
  jtm_ID :: "string tfval"
  jtm_Metalake :: "string tfval"
  jtm_Name :: "string tfval"
  jtm_JobType :: "string tfval"
  jtm_Comment :: "string tfval"
  jtm_Executable :: "string tfval"
  jtm_Arguments :: tf_strings
  jtm_Environments :: tf_map
  jtm_CustomFields :: tf_map
  jtm_Scripts :: tf_strings
  jtm_ClassName :: "string tfval"
  jtm_Jars :: tf_strings
  jtm_Files :: tf_strings
  jtm_Archives :: tf_strings
  jtm_Configs :: tf_map
  jtm_Audit :: "audit_tfsdk tfval"

text \<open>A field that is set to \<open>nil\<close> or to the empty map is \<open>Some []\<close>; an unset one is left out.\<close>

record content_update =
  cu_Type :: string
  cu_NewExecutable :: "string option"
  cu_NewArguments :: "string list option"
  cu_NewEnvironments :: "string gomap option"
  cu_NewCustomFields :: "string gomap option"
  cu_NewScripts :: "string list option"
  cu_NewClassName :: "string option"
  cu_NewJars :: "string list option"
  cu_NewFiles :: "string list option"
  cu_NewArchives :: "string list option"
  cu_NewConfigs :: "string gomap option"

datatype job_template_update =
    NewJobTemplateRenameRequest string
  | NewJobTemplateUpdateCommentRequest string
  | NewJobTemplateUpdateContentRequest content_update

record 'w job_template_api =
  ta_register :: "string \<Rightarrow> job_template \<Rightarrow> 'w \<Rightarrow> (gerror + unit) \<times> 'w"
  ta_get :: "string \<Rightarrow> string \<Rightarrow> 'w \<Rightarrow> (gerror + job_template) \<times> 'w"
  ta_update :: "string \<Rightarrow> string \<Rightarrow> job_template_update list \<Rightarrow> 'w \<Rightarrow> (gerror + job_template) \<times> 'w"
  ta_delete :: "string \<Rightarrow> string \<Rightarrow> 'w \<Rightarrow> (gerror + bool) \<times> 'w"

subsubsection \<open>Values (helpers.go)\<close>

definition optionalStringToTF :: "string \<Rightarrow> string tfval" where
  "optionalStringToTF s = (if s = [] then TNull else TKnown s)"

definition mapToTF :: "string gomap \<Rightarrow> tf_map" where
  "mapToTF m = (if m = [] then TNull else TKnown (known_map m))"

definition template_listFromTF :: "('a fw_scheme) \<Rightarrow> tf_strings \<Rightarrow> diags + string list" where
  "template_listFromTF fw v = (case v of TKnown xs \<Rightarrow> fw_strings fw xs | _ \<Rightarrow> Inr [])"

definition stringsFromTF :: "('a fw_scheme) \<Rightarrow> tf_strings \<Rightarrow> string list" where
  "stringsFromTF fw v = (case template_listFromTF fw v of Inl _ \<Rightarrow> [] | Inr xs \<Rightarrow> xs)"

definition template_listToTF :: "string list \<Rightarrow> tf_strings" where
  "template_listToTF xs = (if xs = [] then TNull else TKnown (map TKnown xs))"

subsubsection \<open>Validation and requests\<close>

definition only_valid_for :: "string \<Rightarrow> string \<Rightarrow> string \<Rightarrow> 'v tfval \<Rightarrow> diags" where
  "only_valid_for this other name v =
     (if IsNull v then []
      else [attribute_error [AtName name] (''Invalid attribute for a '' @ this @ '' job template'')
              (quote name @ '' is only valid when job_type = '' @ quote other @ ''.'')])"

text \<open>The Go map of list attributes is ranged over in any order; the diagnostics come in this one.\<close>

definition template_ValidateConfig :: "diags + job_template_model \<Rightarrow> diags" where
  "template_ValidateConfig configGet =
     (case configGet of
        Inl ds \<Rightarrow> ds
      | Inr config \<Rightarrow>
          (case jtm_JobType config of
             TKnown t \<Rightarrow>
               if t = ''shell''
               then only_valid_for ''shell'' ''spark'' ''jars'' (jtm_Jars config)
                 @ only_valid_for ''shell'' ''spark'' ''files'' (jtm_Files config)
                 @ only_valid_for ''shell'' ''spark'' ''archives'' (jtm_Archives config)
                 @ only_valid_for ''shell'' ''spark'' ''class_name'' (jtm_ClassName config)
                 @ only_valid_for ''shell'' ''spark'' ''configs'' (jtm_Configs config)
               else if t = ''spark'' then only_valid_for ''spark'' ''shell'' ''scripts'' (jtm_Scripts config)
               else []
           | _ \<Rightarrow> []))"

definition jobTemplateRegisterRequestFromPlan :: "('a fw_scheme) \<Rightarrow> job_template_model \<Rightarrow> diags + job_template" where
  "jobTemplateRegisterRequestFromPlan fw plan =
     (let lists = map (\<lambda>f. template_listFromTF fw (f plan)) [jtm_Arguments, jtm_Scripts, jtm_Jars, jtm_Files, jtm_Archives];
          diags = concat (map (\<lambda>r. case r of Inl ds \<Rightarrow> ds | Inr _ \<Rightarrow> []) lists);
          shell = (ValueString (jtm_JobType plan) = ''shell'') in
      if HasError diags then Inl diags
      else Inr
        \<lparr>jt_Name = ValueString (jtm_Name plan), jt_JobType = ValueString (jtm_JobType plan),
         jt_Comment = ValueString (jtm_Comment plan), jt_Executable = ValueString (jtm_Executable plan),
         jt_Arguments = stringsFromTF fw (jtm_Arguments plan), jt_Environments = mapFromTF (jtm_Environments plan),
         jt_CustomFields = mapFromTF (jtm_CustomFields plan),
         jt_Scripts = (if shell then stringsFromTF fw (jtm_Scripts plan) else []),
         jt_ClassName = (if shell then [] else ValueString (jtm_ClassName plan)),
         jt_Jars = (if shell then [] else stringsFromTF fw (jtm_Jars plan)),
         jt_Files = (if shell then [] else stringsFromTF fw (jtm_Files plan)),
         jt_Archives = (if shell then [] else stringsFromTF fw (jtm_Archives plan)),
         jt_Configs = (if shell then [] else mapFromTF (jtm_Configs plan)), jt_Audit = None\<rparr>)"

definition set_if :: "bool \<Rightarrow> 'v \<Rightarrow> 'v option" where
  "set_if b v = (if b then Some v else None)"

definition jobTemplateContentUpdate ::
    "('a fw_scheme) \<Rightarrow> job_template_model \<Rightarrow> job_template_model \<Rightarrow> content_update \<times> bool" where
  "jobTemplateContentUpdate fw plan state =
     (let shell = (ValueString (jtm_JobType plan) = ''shell'');
          list = (\<lambda>on f. set_if (on \<and> f plan \<noteq> f state) (stringsFromTF fw (f plan)));
          dict = (\<lambda>on f. set_if (on \<and> \<not> map_Equal (f plan) (f state)) (mapFromTF (f plan)));
          text = (\<lambda>on f. set_if (on \<and> f plan \<noteq> f state) (ValueString (f plan)));
          u = \<lparr>cu_Type = ValueString (jtm_JobType plan), cu_NewExecutable = text True jtm_Executable,
               cu_NewArguments = list True jtm_Arguments, cu_NewEnvironments = dict True jtm_Environments,
               cu_NewCustomFields = dict True jtm_CustomFields, cu_NewScripts = list shell jtm_Scripts,
               cu_NewClassName = text (\<not> shell) jtm_ClassName, cu_NewJars = list (\<not> shell) jtm_Jars,
               cu_NewFiles = list (\<not> shell) jtm_Files, cu_NewArchives = list (\<not> shell) jtm_Archives,
               cu_NewConfigs = dict (\<not> shell) jtm_Configs\<rparr>
      in (u, cu_NewExecutable u \<noteq> None \<or> cu_NewArguments u \<noteq> None \<or> cu_NewEnvironments u \<noteq> None
             \<or> cu_NewCustomFields u \<noteq> None \<or> cu_NewScripts u \<noteq> None \<or> cu_NewClassName u \<noteq> None \<or> cu_NewJars u \<noteq> None
             \<or> cu_NewFiles u \<noteq> None \<or> cu_NewArchives u \<noteq> None \<or> cu_NewConfigs u \<noteq> None))"

subsubsection \<open>State and handlers\<close>

definition setStateFromJobTemplate :: "string \<Rightarrow> job_template option \<Rightarrow> job_template_model \<Rightarrow> job_template_model" where
  "setStateFromJobTemplate metalake template m =
     (let m' = m\<lparr>jtm_Metalake := TKnown metalake, jtm_ID := TKnown (metalake @ ''.'' @ ValueString (jtm_Name m))\<rparr> in
      case template of
        None \<Rightarrow> m'
      | Some t \<Rightarrow>
          m'\<lparr>jtm_Name := TKnown (jt_Name t), jtm_JobType := TKnown (jt_JobType t), jtm_Comment := optionalStringToTF (jt_Comment t),
             jtm_Executable := TKnown (jt_Executable t), jtm_ID := TKnown (metalake @ ''.'' @ jt_Name t),
             jtm_Arguments := template_listToTF (jt_Arguments t), jtm_Scripts := template_listToTF (jt_Scripts t),
             jtm_Jars := template_listToTF (jt_Jars t), jtm_Files := template_listToTF (jt_Files t),
             jtm_Archives := template_listToTF (jt_Archives t), jtm_ClassName := optionalStringToTF (jt_ClassName t),
             jtm_Environments := mapToTF (jt_Environments t), jtm_CustomFields := mapToTF (jt_CustomFields t),
             jtm_Configs := mapToTF (jt_Configs t), jtm_Audit := AuditToObjectValue (jt_Audit t)\<rparr>)"

definition template_Create ::
    "('a fw_scheme) \<Rightarrow> 'w job_template_api \<Rightarrow> diags + job_template_model \<Rightarrow> (job_template_model state_write, 'w) step" where
  "template_Create fw api planGet =
     andThen (pure_step planGet) (\<lambda>plan.
     let metalake = ValueString (jtm_Metalake plan); name = ValueString (jtm_Name plan) in
     andThen (pure_step (jobTemplateRegisterRequestFromPlan fw plan)) (\<lambda>registerReq.
     andThen (calling (ta_register api metalake registerReq) (NewResourceError ''creating job template'' name)) (\<lambda>_.
     andThen (calling (ta_get api metalake name) (NewResourceError ''reading job template after create'' name)) (\<lambda>t.
     done_with (Save (setStateFromJobTemplate metalake (Some t) plan))))))"

definition template_Read ::
    "'w job_template_api \<Rightarrow> diags + job_template_model \<Rightarrow> (job_template_model state_write, 'w) step" where
  "template_Read api stateGet =
     andThen (pure_step stateGet) (\<lambda>state.
       refresh (ta_get api (ValueString (jtm_Metalake state)) (ValueString (jtm_Name state)))
         (NewResourceError ''reading job template'' (ValueString (jtm_Name state)))
         (\<lambda>t. Inr (setStateFromJobTemplate (ValueString (jtm_Metalake state)) (Some t) state)))"

definition template_updates ::
    "('a fw_scheme) \<Rightarrow> job_template_model \<Rightarrow> job_template_model \<Rightarrow> job_template_update list" where
  "template_updates fw plan state =
     (if jtm_Name plan \<noteq> jtm_Name state then [NewJobTemplateRenameRequest (ValueString (jtm_Name plan))] else []) @
     (if jtm_Comment plan \<noteq> jtm_Comment state
      then [NewJobTemplateUpdateCommentRequest (ValueString (jtm_Comment plan))] else []) @
     (case jobTemplateContentUpdate fw plan state of
        (u, changed) \<Rightarrow> if changed then [NewJobTemplateUpdateContentRequest u] else [])"

definition template_Update ::
    "('a fw_scheme) \<Rightarrow> 'w job_template_api \<Rightarrow> diags + job_template_model \<Rightarrow> diags + job_template_model
       \<Rightarrow> (job_template_model state_write, 'w) step" where
  "template_Update fw api planGet stateGet =
     andThen (pure_step (both_get planGet stateGet)) (\<lambda>(plan, state).
     let metalake = ValueString (jtm_Metalake state); currentName = ValueString (jtm_Name state) in
     if template_updates fw plan state = []
     then done_with (Save (setStateFromJobTemplate metalake None plan))
     else andThen (calling (ta_update api metalake currentName (template_updates fw plan state))
                     (NewResourceError ''updating job template'' currentName)) (\<lambda>t.
          done_with (Save (setStateFromJobTemplate metalake (Some t) plan))))"

definition template_Delete ::
    "'w job_template_api \<Rightarrow> diags + job_template_model \<Rightarrow> (job_template_model state_write, 'w) step" where
  "template_Delete api stateGet =
     andThen (pure_step stateGet) (\<lambda>state.
       drop_or_gone (ta_delete api (ValueString (jtm_Metalake state)) (ValueString (jtm_Name state)))
         (NewResourceError ''deleting job template'' (ValueString (jtm_Name state))))"

definition template_ImportState :: "string \<Rightarrow> diagnostic + (string \<times> string) list" where
  "template_ImportState = import_by_last_dot ''metalake.job_template_name'' ''name''"

subsection \<open>The wait ends\<close>

definition ticker_law :: "'w job_env \<Rightarrow> bool" where
  "ticker_law env \<longleftrightarrow>
     (\<forall>w now w1 tick w2. je_now env w = (now, w1) \<and> je_newTicker env cancelPollInterval w1 = (tick, w2) \<longrightarrow>
        now + cancelPollInterval \<le> tick) \<and>
     (\<forall>tick w following w1 now w2. je_select env tick w = (Some following, w1) \<and> je_now env w1 = (now, w2) \<longrightarrow>
        tick \<le> now \<and> tick + cancelPollInterval \<le> following)"

datatype job_call = CalledGet | CalledCancel

definition lift_log :: "('w \<Rightarrow> 'a \<times> 'w) \<Rightarrow> 'c list \<Rightarrow> 'w \<times> 'c list \<Rightarrow> 'a \<times> 'w \<times> 'c list" where
  "lift_log f new = (\<lambda>(w, log). case f w of (x, w') \<Rightarrow> (x, w', log @ new))"

definition recording :: "'w job_api \<Rightarrow> ('w \<times> job_call list) job_api" where
  "recording api =
     \<lparr>ja_run = (\<lambda>m r. lift_log (ja_run api m r) []), ja_get = (\<lambda>m j. lift_log (ja_get api m j) [CalledGet]),
      ja_cancel = (\<lambda>m j. lift_log (ja_cancel api m j) [CalledCancel])\<rparr>"

definition recording_env :: "'w job_env \<Rightarrow> ('w \<times> job_call list) job_env" where
  "recording_env env =
     \<lparr>je_now = lift_log (je_now env) [], je_newTicker = (\<lambda>d. lift_log (je_newTicker env d) []),
      je_select = (\<lambda>t. lift_log (je_select env t) [])\<rparr>"

lemma poll_loop_ends:
  assumes "ticker_law env"
  shows "deadline < tick + int k * cancelPollInterval \<Longrightarrow>
    \<exists>w' n. poll_loop (recording api) (recording_env env) m j deadline tick (w, log) = Some (w', log @ replicate n CalledGet) \<and> n \<le> k"
proof (induction k arbitrary: tick w log)
  case 0
  then show ?case
    using assms
    by (subst poll_loop.simps)
      (fastforce simp: recording_env_def lift_log_def ticker_law_def split: prod.splits option.splits
        intro: exI [of _ 0])
next
  case (Suc k)
  obtain r w1 where sel: "je_select env tick w = (r, w1)" by fastforce
  show ?case
  proof (cases r)
    case None
    then show ?thesis using sel by (subst poll_loop.simps) (auto simp: recording_env_def lift_log_def intro: exI [of _ 0])
  next
    case (Some following)
    obtain now w2 where now: "je_now env w1 = (now, w2)" by fastforce
    obtain x w3 where get: "ja_get api m j w2 = (x, w3)" by fastforce
    have "tick + cancelPollInterval \<le> following"
      using assms sel now unfolding ticker_law_def Some by blast
    then have "deadline < following + int k * cancelPollInterval" using Suc.prems by (simp add: algebra_simps)
    from Suc.IH [OF this, of w3 "log @ [CalledGet]"] obtain w' n where
      rest: "poll_loop (recording api) (recording_env env) m j deadline following (w3, log @ [CalledGet])
        = Some (w', log @ replicate (Suc n) CalledGet)" "n \<le> k"
      by auto
    have "poll_loop (recording api) (recording_env env) m j deadline tick (w, log) =
      (if deadline < now then Some (w2, log)
       else case x of Inl _ \<Rightarrow> Some (w3, log @ [CalledGet])
            | Inr current \<Rightarrow> if jobIsTerminal (jb_Status current) then Some (w3, log @ [CalledGet])
                else poll_loop (recording api) (recording_env env) m j deadline following (w3, log @ [CalledGet]))"
      using sel now get Some by (subst poll_loop.simps) (simp add: recording_env_def recording_def lift_log_def split: sum.split)
    then show ?thesis
      using rest
      by (cases "deadline < now"; cases x)
        (fastforce intro: exI [of _ 0] exI [of _ "Suc 0"] exI [of _ "Suc n"])+
  qed
qed

lemma wait_ends:
  assumes "ticker_law env"
  shows "\<exists>w' n. waitForTerminalJob (recording api) (recording_env env) m j (w, log) = Some (w', log @ replicate n CalledGet) \<and> n \<le> 5"
proof -
  obtain now w1 where now: "je_now env w = (now, w1)" by fastforce
  obtain tick w2 where tick: "je_newTicker env cancelPollInterval w1 = (tick, w2)" by fastforce
  have "now + cancelPollInterval \<le> tick" using assms now tick unfolding ticker_law_def by blast
  then have "now + cancelPollTimeout < tick + int 5 * cancelPollInterval"
    by (simp add: cancelPollTimeout_def cancelPollInterval_def second_def)
  from poll_loop_ends [OF assms this, of api m j w2 log] show ?thesis
    using now tick by (simp add: waitForTerminalJob_def recording_env_def lift_log_def)
qed

subsection \<open>What a template keeps of its plan\<close>

definition known_strings :: "tf_strings \<Rightarrow> bool" where
  "known_strings v \<longleftrightarrow> v = TNull \<or> (\<exists>xs. v = TKnown (map TKnown xs))"

definition known_entries :: "tf_map \<Rightarrow> bool" where
  "known_entries v \<longleftrightarrow> v = TNull \<or> (\<exists>m. v = TKnown (known_map m))"

text \<open>A plan without unknown values apart from the id and the audit, and with the attributes of its type only.\<close>

definition plan_known :: "job_template_model \<Rightarrow> bool" where
  "plan_known plan \<longleftrightarrow> \<not> IsUnknown (jtm_Comment plan) \<and> \<not> IsUnknown (jtm_ClassName plan) \<and>
     (\<exists>m n e. jtm_Metalake plan = TKnown m \<and> jtm_Name plan = TKnown n \<and> jtm_Executable plan = TKnown e) \<and>
     jtm_JobType plan \<in> {TKnown ''shell'', TKnown ''spark''} \<and>
     (\<forall>v \<in> {jtm_Arguments plan, jtm_Scripts plan, jtm_Jars plan, jtm_Files plan, jtm_Archives plan}. known_strings v) \<and>
     (\<forall>v \<in> {jtm_Environments plan, jtm_CustomFields plan, jtm_Configs plan}. known_entries v) \<and>
     template_ValidateConfig (Inr plan) = []"

definition writes_empty :: "job_template_model \<Rightarrow> bool" where
  "writes_empty plan \<longleftrightarrow> TKnown [] \<in> {jtm_Comment plan, jtm_ClassName plan} \<or>
     TKnown [] \<in> {jtm_Arguments plan, jtm_Scripts plan, jtm_Jars plan, jtm_Files plan, jtm_Archives plan} \<or>
     TKnown [] \<in> {jtm_Environments plan, jtm_CustomFields plan, jtm_Configs plan}"

lemma list_kept:
  assumes "fw_decodes fw" "known_strings v"
  shows "template_listToTF (stringsFromTF fw v) = v \<longleftrightarrow> v \<noteq> TKnown []" "\<exists>xs. template_listFromTF fw v = Inr xs"
  using assms
  by (auto simp: known_strings_def fw_decodes_def template_listToTF_def stringsFromTF_def template_listFromTF_def)

lemma map_kept: "known_entries v \<Longrightarrow> mapToTF (mapFromTF v) = v \<longleftrightarrow> v \<noteq> TKnown []"
  by (auto simp: known_entries_def mapToTF_def mapFromTF_def known_map_def comp_def case_prod_beta)

lemma text_kept: "\<not> IsUnknown v \<Longrightarrow> optionalStringToTF (ValueString v) = v \<longleftrightarrow> v \<noteq> TKnown []"
  by (cases v) (auto simp: optionalStringToTF_def)

lemma only_valid_nil [simp]: "only_valid_for t u n v = [] \<longleftrightarrow> v = TNull"
  by (cases v) (simp_all add: only_valid_for_def)

lemma nothing_to [simp]: "template_listToTF [] = TNull" "optionalStringToTF [] = TNull" "mapToTF [] = TNull"
  by (simp_all add: template_listToTF_def optionalStringToTF_def mapToTF_def)

subsection \<open>Properties\<close>

text \<open>C13: Destroying a job always ends, also when the job never stops: whatever the server answers, its
  status is read at most six times and it is cancelled at most once, and a job that has already
  stopped is not cancelled.\<close>

theorem job_delete_terminates:
  assumes "ticker_law env"
  shows "\<exists>r w' sent. job_Delete (recording api) (recording_env env) stateGet (w, []) = Some (r, w', sent) \<and>
    length (filter (\<lambda>c. c = CalledGet) sent) \<le> 6 \<and> length (filter (\<lambda>c. c = CalledCancel) sent) \<le> 1 \<and>
    (\<forall>state current. stateGet = Inr state \<and> jobIsTerminal (jb_Status current) \<and>
       fst (ja_get api (ValueString (jm_Metalake state)) (ValueString (jm_JobID state)) w) = Inr current \<longrightarrow>
       CalledCancel \<notin> set sent)"
proof (cases stateGet)
  case (Inl ds)
  then show ?thesis by (simp add: job_Delete_def)
next
  case (Inr state)
  let ?m = "ValueString (jm_Metalake state)" and ?j = "ValueString (jm_JobID state)"
  obtain x w1 where get: "ja_get api ?m ?j w = (x, w1)" by fastforce
  obtain y w2 where cancel: "ja_cancel api ?m ?j w1 = (y, w2)" by fastforce
  obtain w' n where ends: "waitForTerminalJob (recording api) (recording_env env) ?m ?j (w2, [CalledGet, CalledCancel])
      = Some (w', [CalledGet, CalledCancel] @ replicate n CalledGet)" "n \<le> 5"
    using wait_ends [OF assms] by blast
  show ?thesis
  proof (cases "\<exists>current. x = Inr current \<and> \<not> jobIsTerminal (jb_Status current)")
    case False
    then show ?thesis
      using Inr get by (cases x) (auto simp: job_Delete_def recording_def lift_log_def)
  next
    case True
    then obtain current where x: "x = Inr current" "\<not> jobIsTerminal (jb_Status current)" by blast
    have "job_Delete (recording api) (recording_env env) stateGet (w, []) =
      (case y of
         Inl err \<Rightarrow>
           if \<not> IsNotFoundError err
           then Some (Inl (NewResourceError ''cancelling job'' ?j err), w2, [CalledGet, CalledCancel])
           else Some (Inr Remove, w', [CalledGet, CalledCancel] @ replicate n CalledGet)
       | Inr _ \<Rightarrow> Some (Inr Remove, w', [CalledGet, CalledCancel] @ replicate n CalledGet))"
      using Inr get cancel x ends(1) by (simp add: job_Delete_def recording_def lift_log_def split: sum.split)
    then show ?thesis using ends(2) get x Inr by (cases y) (auto simp: filter_replicate)
  qed
qed

text \<open>A job that never stops, on a clock that moves only with the ticks.\<close>

definition stubborn :: "int job_api" where
  "stubborn =
     (let j = \<lparr>jb_JobID = ''j1'', jb_JobTemplateName = ''t'', jb_Status = ''cancelling'', jb_QueuedAt = None,
            jb_StartedAt = None, jb_FinishedAt = None, jb_Audit = None\<rparr>
      in \<lparr>ja_run = (\<lambda>m r w. (Inr j, w)), ja_get = (\<lambda>m i w. (Inr j, w)), ja_cancel = (\<lambda>m i w. (Inr j, w))\<rparr>)"

definition ticking :: "int job_env" where
  "ticking = \<lparr>je_now = (\<lambda>w. (w, w)), je_newTicker = (\<lambda>d w. (w + d, w)),
     je_select = (\<lambda>t w. (Some (max w t + cancelPollInterval), max w t))\<rparr>"

definition stubborn_state :: job_model where
  "stubborn_state = \<lparr>jm_ID = TKnown ''m.j1'', jm_Metalake = TKnown ''m'', jm_JobTemplate = TKnown ''t'', jm_JobConf = TNull,
     jm_JobID = TKnown ''j1'', jm_Status = TKnown ''started'', jm_QueuedAt = TNull, jm_StartedAt = TNull,
     jm_FinishedAt = TNull, jm_Audit = TNull\<rparr>"

theorem job_delete_terminates_witness:
  "ticker_law ticking \<and> (\<exists>r w' sent. job_Delete (recording stubborn) (recording_env ticking) (Inr stubborn_state) (0, []) = Some (r, w', sent) \<and>
     length (filter (\<lambda>c. c = CalledGet) sent) \<le> 6)"
proof
  show "ticker_law ticking" by (auto simp: ticker_law_def ticking_def)
  from job_delete_terminates [OF this, of stubborn "Inr stubborn_state" 0]
  show "\<exists>r w' sent. job_Delete (recording stubborn) (recording_env ticking) (Inr stubborn_state) (0, []) = Some (r, w', sent) \<and>
     length (filter (\<lambda>c. c = CalledGet) sent) \<le> 6" by blast
qed

text \<open>C29: When the server stores a job template as it was registered, the state written after the apply
  is the plan with its id and audit filled in, exactly unless the plan writes an optional attribute as
  an empty string, list or map: such a value comes back as null, which Terraform rejects.\<close>

theorem template_apply_consistent:
  assumes "fw_decodes fw" "plan_known plan"
  shows "\<exists>t. jobTemplateRegisterRequestFromPlan fw plan = Inr t \<and>
    (\<forall>a. setStateFromJobTemplate (ValueString (jtm_Metalake plan)) (Some (t\<lparr>jt_Audit := a\<rparr>)) plan =
       plan\<lparr>jtm_ID := TKnown (ValueString (jtm_Metalake plan) @ ''.'' @ ValueString (jtm_Name plan)),
            jtm_Audit := AuditToObjectValue a\<rparr> \<longleftrightarrow> \<not> writes_empty plan)"
proof -
  note known = assms(2) [unfolded plan_known_def]
  have lists: "known_strings (jtm_Arguments plan)" "known_strings (jtm_Scripts plan)" "known_strings (jtm_Jars plan)"
    "known_strings (jtm_Files plan)" "known_strings (jtm_Archives plan)"
    and maps: "known_entries (jtm_Environments plan)" "known_entries (jtm_CustomFields plan)" "known_entries (jtm_Configs plan)"
    and texts: "\<not> IsUnknown (jtm_Comment plan)" "\<not> IsUnknown (jtm_ClassName plan)"
    using known by simp_all
  obtain m n e where names: "jtm_Metalake plan = TKnown m" "jtm_Name plan = TKnown n" "jtm_Executable plan = TKnown e"
    using known by blast
  note kept = list_kept(1) [OF assms(1) lists(1)] list_kept(1) [OF assms(1) lists(2)] list_kept(1) [OF assms(1) lists(3)]
    list_kept(1) [OF assms(1) lists(4)] list_kept(1) [OF assms(1) lists(5)]
    maps [THEN map_kept] texts [THEN text_kept]
  have shape: "jtm_JobType plan = TKnown ''shell'' \<and> jtm_Jars plan = TNull \<and> jtm_Files plan = TNull \<and> jtm_Archives plan = TNull
      \<and> jtm_ClassName plan = TNull \<and> jtm_Configs plan = TNull
    \<or> jtm_JobType plan = TKnown ''spark'' \<and> jtm_Scripts plan = TNull"
    using known by (auto simp: template_ValidateConfig_def)
  obtain t where t: "jobTemplateRegisterRequestFromPlan fw plan = Inr t"
    and fields: "jt_Name t = n" "jtm_JobType plan = TKnown (jt_JobType t)" "jt_Executable t = e"
      "jt_Comment t = ValueString (jtm_Comment plan)" "jt_Arguments t = stringsFromTF fw (jtm_Arguments plan)"
      "jt_Environments t = mapFromTF (jtm_Environments plan)" "jt_CustomFields t = mapFromTF (jtm_CustomFields plan)"
      "jt_Scripts t = stringsFromTF fw (jtm_Scripts plan)" "jt_ClassName t = ValueString (jtm_ClassName plan)"
      "jt_Jars t = stringsFromTF fw (jtm_Jars plan)" "jt_Files t = stringsFromTF fw (jtm_Files plan)"
      "jt_Archives t = stringsFromTF fw (jtm_Archives plan)" "jt_Configs t = mapFromTF (jtm_Configs plan)"
  proof -
    obtain l1 l2 l3 l4 l5 where "template_listFromTF fw (jtm_Arguments plan) = Inr l1"
      "template_listFromTF fw (jtm_Scripts plan) = Inr l2" "template_listFromTF fw (jtm_Jars plan) = Inr l3"
      "template_listFromTF fw (jtm_Files plan) = Inr l4" "template_listFromTF fw (jtm_Archives plan) = Inr l5"
      using lists [THEN list_kept(2) [OF assms(1)]] by blast
    then have request: "\<exists>t. jobTemplateRegisterRequestFromPlan fw plan = Inr t"
      by (simp add: jobTemplateRegisterRequestFromPlan_def Let_def)
    have absent: "stringsFromTF fw TNull = []" "mapFromTF TNull = []"
      by (simp_all add: stringsFromTF_def template_listFromTF_def mapFromTF_def)
    from request obtain t where t: "jobTemplateRegisterRequestFromPlan fw plan = Inr t" ..
    from names shape show thesis
      by (intro that [OF t]; insert t)
        (auto simp: jobTemplateRegisterRequestFromPlan_def Let_def absent split: if_split_asm)
  qed
  have "setStateFromJobTemplate (ValueString (jtm_Metalake plan)) (Some (t\<lparr>jt_Audit := a\<rparr>)) plan =
       plan\<lparr>jtm_ID := TKnown (ValueString (jtm_Metalake plan) @ ''.'' @ ValueString (jtm_Name plan)),
            jtm_Audit := AuditToObjectValue a\<rparr> \<longleftrightarrow> \<not> writes_empty plan" for a
    using names kept fields(2)
    by (cases plan; simp add: setStateFromJobTemplate_def fields writes_empty_def eq_commute [of _ "template_listToTF _"]
        eq_commute [of _ "mapToTF _"] eq_commute [of _ "optionalStringToTF _"] eq_commute [of "TKnown []"]; blast)
  then show ?thesis using t by blast
qed

definition shell_plan :: job_template_model where
  "shell_plan = \<lparr>jtm_ID = TUnknown, jtm_Metalake = TKnown ''m'', jtm_Name = TKnown ''t'', jtm_JobType = TKnown ''shell'',
     jtm_Comment = TNull, jtm_Executable = TKnown ''/bin/true'', jtm_Arguments = TKnown [TKnown ''-v''],
     jtm_Environments = TNull, jtm_CustomFields = TNull, jtm_Scripts = TNull, jtm_ClassName = TNull, jtm_Jars = TNull,
     jtm_Files = TNull, jtm_Archives = TNull, jtm_Configs = TNull, jtm_Audit = TUnknown\<rparr>"

theorem template_apply_consistent_witness:
  "(\<exists>t. jobTemplateRegisterRequestFromPlan strict_fw shell_plan = Inr t \<and>
      setStateFromJobTemplate ''m'' (Some (t\<lparr>jt_Audit := None\<rparr>)) shell_plan = shell_plan\<lparr>jtm_ID := TKnown ''m.t'', jtm_Audit := TNull\<rparr>) \<and>
   (\<exists>t. jobTemplateRegisterRequestFromPlan strict_fw (shell_plan\<lparr>jtm_Scripts := TKnown []\<rparr>) = Inr t \<and>
      setStateFromJobTemplate ''m'' (Some (t\<lparr>jt_Audit := None\<rparr>)) (shell_plan\<lparr>jtm_Scripts := TKnown []\<rparr>)
        \<noteq> shell_plan\<lparr>jtm_Scripts := TKnown [], jtm_ID := TKnown ''m.t'', jtm_Audit := TNull\<rparr>)"
proof -
  have args: "known_strings (TKnown [TKnown ''-v''])" unfolding known_strings_def by (rule disjI2, rule exI [of _ "[''-v'']"]) simp
  have none: "known_strings TNull" "known_entries TNull" "known_strings (TKnown [])"
    by (simp_all add: known_strings_def known_entries_def)
  have "plan_known shell_plan" "plan_known (shell_plan\<lparr>jtm_Scripts := TKnown []\<rparr>)"
    by (simp_all add: plan_known_def shell_plan_def template_ValidateConfig_def args none)
  note both = this [THEN template_apply_consistent [OF strict_fw_decodes]]
  have "\<not> writes_empty shell_plan" "writes_empty (shell_plan\<lparr>jtm_Scripts := TKnown []\<rparr>)"
    by (simp_all add: writes_empty_def shell_plan_def)
  note empty = this
  have names: "ValueString (jtm_Metalake shell_plan) = ''m''" "ValueString (jtm_Name shell_plan) = ''t''" "AuditToObjectValue None = TNull"
    by (simp_all add: shell_plan_def AuditToObjectValue_def)
  obtain t1 where t1: "jobTemplateRegisterRequestFromPlan strict_fw shell_plan = Inr t1" and
    kept1: "\<forall>a. setStateFromJobTemplate (ValueString (jtm_Metalake shell_plan)) (Some (t1\<lparr>jt_Audit := a\<rparr>)) shell_plan =
       shell_plan\<lparr>jtm_ID := TKnown (ValueString (jtm_Metalake shell_plan) @ ''.'' @ ValueString (jtm_Name shell_plan)),
         jtm_Audit := AuditToObjectValue a\<rparr> \<longleftrightarrow> \<not> writes_empty shell_plan"
    using both(1) by blast
  obtain t2 where t2: "jobTemplateRegisterRequestFromPlan strict_fw (shell_plan\<lparr>jtm_Scripts := TKnown []\<rparr>) = Inr t2" and
    kept2: "\<forall>a. setStateFromJobTemplate (ValueString (jtm_Metalake (shell_plan\<lparr>jtm_Scripts := TKnown []\<rparr>)))
        (Some (t2\<lparr>jt_Audit := a\<rparr>)) (shell_plan\<lparr>jtm_Scripts := TKnown []\<rparr>) =
       (shell_plan\<lparr>jtm_Scripts := TKnown []\<rparr>)\<lparr>jtm_ID := TKnown (ValueString (jtm_Metalake (shell_plan\<lparr>jtm_Scripts := TKnown []\<rparr>))
          @ ''.'' @ ValueString (jtm_Name (shell_plan\<lparr>jtm_Scripts := TKnown []\<rparr>))),
         jtm_Audit := AuditToObjectValue a\<rparr> \<longleftrightarrow> \<not> writes_empty (shell_plan\<lparr>jtm_Scripts := TKnown []\<rparr>)"
    using both(2) by blast
  show ?thesis
    using t1 t2 spec [OF kept1, of None] spec [OF kept2, of None] empty by (simp add: names)
qed

end
