(* ===== verification/TagResource.thy ===== *)
theory TagResource
  imports Entity
begin

section \<open>The tag resource (resources/tag/resource.go)\<close>

text \<open>A tag belongs to a metalake and can be renamed; an update with nothing to send reads it again.\<close>

record tag =
  tg_Name :: string
  tg_Comment :: string
  tg_Properties :: "string gomap"
  tg_Audit :: "audit option"
  tg_Inherited :: "bool option"

record tag_create_request =
  tgc_Name :: string
  tgc_Comment :: string
  tgc_Properties :: "string gomap"

datatype tag_update =
    NewRenameTagRequest string
  | NewUpdateTagCommentRequest string
  | NewSetTagPropertyRequest string string
  | NewRemoveTagPropertyRequest string

record tag_model =
  tgm_ID :: "string tfval"
  tgm_Metalake :: "string tfval"
  tgm_Name :: "string tfval"
  tgm_Comment :: "string tfval"
  tgm_Properties :: tf_map
  tgm_Audit :: "audit_tfsdk tfval"
  tgm_Inherited :: "bool tfval"

type_synonym 'w tag_api = "(tag_create_request, tag_update, tag, 'w) entity_api"

definition tag_commentFromServer :: "string \<Rightarrow> string tfval \<Rightarrow> string tfval" where
  "tag_commentFromServer server planned =
     (if server \<noteq> [] then TKnown server
      else case planned of TKnown s \<Rightarrow> TKnown s | _ \<Rightarrow> TNull)"

definition setStateFromTag :: "string \<Rightarrow> tag \<Rightarrow> tag_model \<Rightarrow> tag_model" where
  "setStateFromTag metalake t m =
     m\<lparr>tgm_Name := TKnown (tg_Name t), tgm_Comment := tag_commentFromServer (tg_Comment t) (tgm_Comment m),
       tgm_ID := TKnown (metalake @ ''.'' @ tg_Name t),
       tgm_Properties := propertiesToState (tg_Properties t) (tgm_Properties m),
       tgm_Audit := AuditToObjectValue (tg_Audit t),
       tgm_Inherited := (case tg_Inherited t of None \<Rightarrow> TNull | Some b \<Rightarrow> TKnown b),
       tgm_Metalake := TKnown metalake\<rparr>"

definition tag_propertyUpdates :: "string gomap \<Rightarrow> string gomap \<Rightarrow> tag_update list" where
  "tag_propertyUpdates oldProps newProps =
     set_requests NewSetTagPropertyRequest oldProps newProps @ remove_requests NewRemoveTagPropertyRequest oldProps newProps"

definition tag_updates :: "tag_model \<Rightarrow> tag_model \<Rightarrow> tag_update list" where
  "tag_updates plan state =
     (if tgm_Name plan \<noteq> tgm_Name state then [NewRenameTagRequest (ValueString (tgm_Name plan))] else []) @
     (if tgm_Comment plan \<noteq> tgm_Comment state then [NewUpdateTagCommentRequest (ValueString (tgm_Comment plan))] else []) @
     tag_propertyUpdates (mapFromTF (tgm_Properties state)) (mapFromTF (tgm_Properties plan))"

definition tag_Create :: "'w tag_api \<Rightarrow> diags + tag_model \<Rightarrow> (tag_model state_write, 'w) step" where
  "tag_Create api planGet =
     andThen (pure_step planGet) (\<lambda>plan.
     andThen (calling (ea_create api [ValueString (tgm_Metalake plan)]
                \<lparr>tgc_Name = ValueString (tgm_Name plan), tgc_Comment = ValueString (tgm_Comment plan),
                 tgc_Properties = mapFromTF (tgm_Properties plan)\<rparr>)
              (NewResourceError ''creating tag'' (ValueString (tgm_Name plan)))) (\<lambda>t.
     done_with (Save (setStateFromTag (ValueString (tgm_Metalake plan)) t plan))))"

definition tag_Read :: "'w tag_api \<Rightarrow> diags + tag_model \<Rightarrow> (tag_model state_write, 'w) step" where
  "tag_Read api stateGet =
     andThen (pure_step stateGet) (\<lambda>state.
       refresh (ea_get api [ValueString (tgm_Metalake state)] (ValueString (tgm_Name state)))
         (NewResourceError ''reading tag'' (ValueString (tgm_Name state)))
         (\<lambda>t. Inr (setStateFromTag (ValueString (tgm_Metalake state)) t state)))"

definition tag_Update ::
    "'w tag_api \<Rightarrow> diags + tag_model \<Rightarrow> diags + tag_model \<Rightarrow> (tag_model state_write, 'w) step" where
  "tag_Update api planGet stateGet =
     andThen (pure_step (both_get planGet stateGet)) (\<lambda>(plan, state).
     let loc = [ValueString (tgm_Metalake state)]; oldName = ValueString (tgm_Name state);
         absorb = (\<lambda>t. setStateFromTag (ValueString (tgm_Metalake plan)) t plan) in
     if tag_updates plan state \<noteq> []
     then andThen (calling (ea_update api loc oldName (tag_updates plan state)) (NewResourceError ''updating tag'' oldName)) (\<lambda>t.
          done_with (Save (absorb t)))
     else refresh (ea_get api loc oldName) (NewResourceError ''reading tag after update'' oldName) (\<lambda>t. Inr (absorb t)))"

definition tag_Delete :: "'w tag_api \<Rightarrow> diags + tag_model \<Rightarrow> (tag_model state_write, 'w) step" where
  "tag_Delete api stateGet =
     andThen (pure_step stateGet) (\<lambda>state.
       drop_or_gone (ea_drop api [ValueString (tgm_Metalake state)] (ValueString (tgm_Name state)))
         (NewResourceError ''deleting tag'' (ValueString (tgm_Name state))))"

definition tag_ImportState :: "string \<Rightarrow> diagnostic + (string \<times> string) list" where
  "tag_ImportState reqID =
     (case SplitImportID 2 ''metalake.tag_name'' reqID of
        Inl d \<Rightarrow> Inl d
      | Inr parts \<Rightarrow> Inr [(''metalake'', parts ! 0), (''name'', parts ! 1), (''id'', reqID)])"

interpretation tag_props: property_diff "\<lambda>p c. tag_propertyUpdates c p"
    NewSetTagPropertyRequest NewRemoveTagPropertyRequest "\<lambda>_. False"
  by unfold_locales (auto simp: tag_propertyUpdates_def requests_members)

end
