(* ===== verification/TopicResource.thy ===== *)
theory TopicResource
  imports Entity
begin

section \<open>The topic resource (resources/topic/resource.go)\<close>

text \<open>A topic cannot be renamed; only its comment and properties are updated in place.\<close>

record topic =
  to_Name :: string
  to_Comment :: string
  to_Properties :: "string gomap"
  to_Audit :: "audit option"

record topic_create_request =
  toc_Name :: string
  toc_Comment :: string
  toc_Properties :: "string gomap"

datatype topic_update =
    NewUpdateTopicCommentRequest string
  | NewSetTopicPropertyRequest string string
  | NewRemoveTopicPropertyRequest string

record topic_model =
  tom_ID :: "string tfval"
  tom_Metalake :: "string tfval"
  tom_Catalog :: "string tfval"
  tom_Schema :: "string tfval"
  tom_Name :: "string tfval"
  tom_Comment :: "string tfval"
  tom_Properties :: tf_map
  tom_Audit :: "audit_tfsdk tfval"

type_synonym 'w topic_api = "(topic_create_request, topic_update, topic, 'w) entity_api"

definition topic_location :: "topic_model \<Rightarrow> string list" where
  "topic_location m = [ValueString (tom_Metalake m), ValueString (tom_Catalog m), ValueString (tom_Schema m)]"

definition topic_commentFromServer :: "string \<Rightarrow> string tfval \<Rightarrow> string tfval" where
  "topic_commentFromServer server planned =
     (if server \<noteq> [] then TKnown server
      else case planned of TKnown s \<Rightarrow> TKnown s | _ \<Rightarrow> TNull)"

definition readTopicToState :: "topic \<Rightarrow> topic_model \<Rightarrow> topic_model" where
  "readTopicToState t m =
     m\<lparr>tom_ID := TKnown (ValueString (tom_Metalake m) @ ''.'' @ ValueString (tom_Catalog m) @ ''.''
         @ ValueString (tom_Schema m) @ ''.'' @ to_Name t),
       tom_Name := TKnown (to_Name t), tom_Comment := topic_commentFromServer (to_Comment t) (tom_Comment m),
       tom_Properties := propertiesToState (to_Properties t) (tom_Properties m),
       tom_Audit := AuditToObjectValue (to_Audit t)\<rparr>"

definition topic_propertyUpdates :: "string gomap \<Rightarrow> string gomap \<Rightarrow> topic_update list" where
  "topic_propertyUpdates oldProps newProps =
     remove_requests NewRemoveTopicPropertyRequest oldProps newProps @ set_requests NewSetTopicPropertyRequest oldProps newProps"

definition topic_updates :: "('a fw_scheme) \<Rightarrow> topic_model \<Rightarrow> topic_model \<Rightarrow> diags + topic_update list" where
  "topic_updates fw plan state =
     map_sum (\<lambda>ds. ds)
       (\<lambda>props. (if tom_Comment plan \<noteq> tom_Comment state
                 then [NewUpdateTopicCommentRequest (ValueString (tom_Comment plan))] else []) @ props)
       (if map_Equal (tom_Properties plan) (tom_Properties state) then Inr []
        else map_sum (\<lambda>ds. ds) (\<lambda>(oldProps, newProps). topic_propertyUpdates oldProps newProps)
               (both_maps fw (tom_Properties state) (tom_Properties plan)))"

definition topic_Create ::
    "('a fw_scheme) \<Rightarrow> 'w topic_api \<Rightarrow> diags + topic_model \<Rightarrow> (topic_model state_write, 'w) step" where
  "topic_Create fw api planGet =
     andThen (pure_step planGet) (\<lambda>plan.
     andThen (pure_step (string_map fw (tom_Properties plan))) (\<lambda>properties.
     andThen (calling (ea_create api (topic_location plan)
                \<lparr>toc_Name = ValueString (tom_Name plan), toc_Comment = ValueString (tom_Comment plan), toc_Properties = properties\<rparr>)
              (NewResourceError ''creating topic'' (ValueString (tom_Name plan)))) (\<lambda>t.
     done_with (Save (readTopicToState t plan)))))"

definition topic_Read :: "'w topic_api \<Rightarrow> diags + topic_model \<Rightarrow> (topic_model state_write, 'w) step" where
  "topic_Read api stateGet =
     andThen (pure_step stateGet) (\<lambda>state.
       refresh (ea_get api (topic_location state) (ValueString (tom_Name state)))
         (NewResourceError ''reading topic'' (ValueString (tom_Name state))) (\<lambda>t. Inr (readTopicToState t state)))"

definition topic_Update ::
    "('a fw_scheme) \<Rightarrow> 'w topic_api \<Rightarrow> diags + topic_model \<Rightarrow> diags + topic_model \<Rightarrow> (topic_model state_write, 'w) step" where
  "topic_Update fw api planGet stateGet =
     andThen (pure_step (both_get planGet stateGet)) (\<lambda>(plan, state).
     andThen (pure_step (topic_updates fw plan state)) (\<lambda>updates.
     let name = ValueString (tom_Name state) in
     andThen (if updates \<noteq> []
              then calling (ea_update api (topic_location state) name updates) (NewResourceError ''updating topic'' name)
              else calling (ea_get api (topic_location state) name) (NewResourceError ''reading topic after update'' name)) (\<lambda>t.
     done_with (Save (readTopicToState t plan)))))"

definition topic_Delete :: "'w topic_api \<Rightarrow> diags + topic_model \<Rightarrow> (topic_model state_write, 'w) step" where
  "topic_Delete api stateGet =
     andThen (pure_step stateGet) (\<lambda>state.
       drop_or_gone (ea_drop api (topic_location state) (ValueString (tom_Name state)))
         (NewResourceError ''deleting topic'' (ValueString (tom_Name state))))"

definition topic_ImportState :: "string \<Rightarrow> diagnostic + (string \<times> string) list" where
  "topic_ImportState reqID =
     (case SplitImportIDExact 4 ''metalake.catalog.schema.topic'' reqID of
        Inl d \<Rightarrow> Inl d
      | Inr parts \<Rightarrow> Inr [(''metalake'', parts ! 0), (''catalog'', parts ! 1), (''schema'', parts ! 2),
                         (''name'', parts ! 3), (''id'', reqID)])"

interpretation topic_props: property_diff "\<lambda>p c. topic_propertyUpdates c p"
    NewSetTopicPropertyRequest NewRemoveTopicPropertyRequest "\<lambda>_. False"
  by unfold_locales (auto simp: topic_propertyUpdates_def disj_commute [of "_ \<in> set (remove_requests _ _ _)"] requests_members)

end
