(* ===== verification/SchemaResource.thy ===== *)
theory SchemaResource
  imports Entity
begin

section \<open>The schema resource (resources/schema/resource.go)\<close>

text \<open>Only the properties of a schema are updated in place. After an apply the state keeps the plan; a
  refresh takes the server's values, and keeps a configured empty comment or map apart from an absent one.\<close>

record gschema =
  sc_Name :: string
  sc_Comment :: string
  sc_Properties :: "string gomap"
  sc_Audit :: "audit option"

record schema_create_request =
  scc_Name :: string
  scc_Comment :: string
  scc_Properties :: "string gomap"

datatype schema_update =
    NewSetSchemaPropertyRequest string string
  | NewRemoveSchemaPropertyRequest string

record schema_model =
  scm_ID :: "string tfval"
  scm_Metalake :: "string tfval"
  scm_Catalog :: "string tfval"
  scm_Name :: "string tfval"
  scm_Comment :: "string tfval"
  scm_Properties :: tf_map
  scm_Audit :: "audit_tfsdk tfval"

type_synonym 'w schema_api = "(schema_create_request, schema_update, gschema, 'w) entity_api"

definition schema_location :: "schema_model \<Rightarrow> string list" where
  "schema_location m = [ValueString (scm_Metalake m), ValueString (scm_Catalog m)]"

definition mergeSchemaResponse :: "gschema \<Rightarrow> schema_model \<Rightarrow> bool \<Rightarrow> schema_model" where
  "mergeSchemaResponse s m refreshing =
     (let m1 =
        (if refreshing
         then m\<lparr>scm_Name := TKnown (sc_Name s),
               scm_Comment := (if sc_Comment s \<noteq> [] then TKnown (sc_Comment s)
                               else if IsNull (scm_Comment m) then TNull else TKnown []),
               scm_Properties := (if sc_Properties s \<noteq> [] then TKnown (known_map (sc_Properties s))
                                  else if IsNull (scm_Properties m) then TNull else TKnown [])\<rparr>
         else if IsUnknown (scm_Name m) \<or> IsNull (scm_Name m) \<or> ValueString (scm_Name m) = []
         then m\<lparr>scm_Name := TKnown (sc_Name s)\<rparr>
         else m)
      in m1\<lparr>scm_ID := TKnown (ValueString (scm_Metalake m1) @ ''.'' @ ValueString (scm_Catalog m1) @ ''.'' @ ValueString (scm_Name m1)),
            scm_Audit := AuditToObjectValue (sc_Audit s)\<rparr>)"

definition schema_propertyUpdates :: "string gomap \<Rightarrow> string gomap \<Rightarrow> schema_update list" where
  "schema_propertyUpdates oldProps newProps =
     remove_requests NewRemoveSchemaPropertyRequest oldProps newProps @ set_requests NewSetSchemaPropertyRequest oldProps newProps"

definition schema_updates :: "('a fw_scheme) \<Rightarrow> schema_model \<Rightarrow> schema_model \<Rightarrow> diags + schema_update list" where
  "schema_updates fw plan state =
     (if IsUnknown (scm_Properties plan) \<or> map_Equal (scm_Properties plan) (scm_Properties state) then Inr []
      else map_sum (\<lambda>ds. ds) (\<lambda>(oldProps, newProps). schema_propertyUpdates oldProps newProps)
             (both_maps fw (scm_Properties state) (scm_Properties plan)))"

definition schema_unchanged :: "schema_model \<Rightarrow> schema_model \<Rightarrow> schema_model" where
  "schema_unchanged plan state =
     plan\<lparr>scm_Audit := (if IsUnknown (scm_Audit plan) then scm_Audit state else scm_Audit plan),
       scm_ID := (if IsUnknown (scm_ID plan) then scm_ID state else scm_ID plan)\<rparr>"

definition schema_Create ::
    "('a fw_scheme) \<Rightarrow> 'w schema_api \<Rightarrow> diags + schema_model \<Rightarrow> (schema_model state_write, 'w) step" where
  "schema_Create fw api planGet =
     andThen (pure_step planGet) (\<lambda>plan.
     andThen (pure_step (string_map fw (scm_Properties plan))) (\<lambda>properties.
     andThen (calling (ea_create api (schema_location plan)
                \<lparr>scc_Name = ValueString (scm_Name plan), scc_Comment = ValueString (scm_Comment plan), scc_Properties = properties\<rparr>)
              (NewResourceError ''creating schema'' (ValueString (scm_Name plan)))) (\<lambda>s.
     done_with (Save (mergeSchemaResponse s plan False)))))"

definition schema_Read :: "'w schema_api \<Rightarrow> diags + schema_model \<Rightarrow> (schema_model state_write, 'w) step" where
  "schema_Read api stateGet =
     andThen (pure_step stateGet) (\<lambda>state.
       refresh (ea_get api (schema_location state) (ValueString (scm_Name state)))
         (NewResourceError ''reading schema'' (ValueString (scm_Name state))) (\<lambda>s. Inr (mergeSchemaResponse s state True)))"

definition schema_Update ::
    "('a fw_scheme) \<Rightarrow> 'w schema_api \<Rightarrow> diags + schema_model \<Rightarrow> diags + schema_model
       \<Rightarrow> (schema_model state_write, 'w) step" where
  "schema_Update fw api planGet stateGet =
     andThen (pure_step (both_get planGet stateGet)) (\<lambda>(plan, state).
     andThen (pure_step (schema_updates fw plan state)) (\<lambda>updates.
     let name = ValueString (scm_Name state) in
     if updates = [] then done_with (Save (schema_unchanged plan state))
     else andThen (calling (ea_update api (schema_location state) name updates) (NewResourceError ''updating schema'' name)) (\<lambda>s.
          done_with (Save (mergeSchemaResponse s plan False)))))"

definition schema_Delete :: "'w schema_api \<Rightarrow> diags + schema_model \<Rightarrow> (schema_model state_write, 'w) step" where
  "schema_Delete api stateGet =
     andThen (pure_step stateGet) (\<lambda>state.
       drop_or_gone (ea_drop api (schema_location state) (ValueString (scm_Name state)))
         (NewResourceError ''deleting schema'' (ValueString (scm_Name state))))"

definition schema_ImportState :: "string \<Rightarrow> diagnostic + (string \<times> string) list" where
  "schema_ImportState reqID =
     (case SplitImportID 3 ''metalake.catalog.schema'' reqID of
        Inl d \<Rightarrow> Inl d
      | Inr parts \<Rightarrow> Inr [(''metalake'', parts ! 0), (''catalog'', parts ! 1), (''name'', parts ! 2), (''id'', reqID)])"

interpretation schema_props: property_diff "\<lambda>p c. schema_propertyUpdates c p"
    NewSetSchemaPropertyRequest NewRemoveSchemaPropertyRequest "\<lambda>_. False"
  by unfold_locales (auto simp: schema_propertyUpdates_def disj_commute [of "_ \<in> set (remove_requests _ _ _)"] requests_members)

end
