(* ===== verification/ModelResource.thy ===== *)
theory ModelResource
  imports Entity
begin

section \<open>The model resource (resources/model/resource.go)\<close>

text \<open>A model can be renamed; the server counts its versions. After an apply the planned properties are kept.\<close>

record gmodel =
  mo_Name :: string
  mo_LatestVersion :: int
  mo_Comment :: string
  mo_Properties :: "string gomap"
  mo_Audit :: "audit option"

record model_register_request =
  mrr_Name :: string
  mrr_Comment :: string
  mrr_Properties :: "string gomap"

datatype model_update =
    NewRenameModelRequest string
  | NewUpdateModelCommentRequest string
  | NewSetModelPropertyRequest string string
  | NewRemoveModelPropertyRequest string

record model_model =
  mom_ID :: "string tfval"
  mom_Metalake :: "string tfval"
  mom_Catalog :: "string tfval"
  mom_Schema :: "string tfval"
  mom_Name :: "string tfval"
  mom_Comment :: "string tfval"
  mom_LatestVersion :: "int tfval"
  mom_Properties :: tf_map
  mom_Audit :: "audit_tfsdk tfval"

type_synonym 'w model_api = "(model_register_request, model_update, gmodel, 'w) entity_api"

definition model_location :: "model_model \<Rightarrow> string list" where
  "model_location m = [ValueString (mom_Metalake m), ValueString (mom_Catalog m), ValueString (mom_Schema m)]"

definition optionalString :: "string \<Rightarrow> string tfval \<Rightarrow> string tfval" where
  "optionalString apiValue current =
     (if apiValue \<noteq> [] then TKnown apiValue
      else if IsNull current \<or> IsUnknown current then TNull else TKnown [])"

definition mapValueFrom :: "string gomap \<Rightarrow> tf_map \<Rightarrow> tf_map" where
  "mapValueFrom props current =
     (if props \<noteq> [] then TKnown (known_map props)
      else if \<not> IsNull current \<and> \<not> IsUnknown current then TKnown [] else TNull)"

definition readModelToState :: "gmodel \<Rightarrow> model_model \<Rightarrow> bool \<Rightarrow> model_model" where
  "readModelToState m state refreshing =
     state\<lparr>mom_Name := TKnown (mo_Name m),
       mom_ID := TKnown (ValueString (mom_Metalake state) @ ''.'' @ ValueString (mom_Catalog state) @ ''.''
         @ ValueString (mom_Schema state) @ ''.'' @ mo_Name m),
       mom_LatestVersion := TKnown (mo_LatestVersion m),
       mom_Comment := optionalString (mo_Comment m) (mom_Comment state),
       mom_Properties := (if refreshing \<or> IsUnknown (mom_Properties state)
                          then mapValueFrom (mo_Properties m) (mom_Properties state) else mom_Properties state),
       mom_Audit := AuditToObjectValue (mo_Audit m)\<rparr>"

definition model_propertyRequests :: "string gomap \<Rightarrow> string gomap \<Rightarrow> model_update list" where
  "model_propertyRequests oldProps newProps =
     remove_requests NewRemoveModelPropertyRequest oldProps newProps @ set_requests NewSetModelPropertyRequest oldProps newProps"

definition modelPropertyUpdates :: "('a fw_scheme) \<Rightarrow> tf_map \<Rightarrow> tf_map \<Rightarrow> diags + model_update list" where
  "modelPropertyUpdates fw oldValue newValue =
     map_sum (\<lambda>ds. ds) (\<lambda>(oldProps, newProps). model_propertyRequests oldProps newProps) (both_maps fw oldValue newValue)"

definition model_updates :: "('a fw_scheme) \<Rightarrow> model_model \<Rightarrow> model_model \<Rightarrow> diags + model_update list" where
  "model_updates fw plan state =
     map_sum (\<lambda>ds. ds)
       (\<lambda>props.
         (if mom_Name plan \<noteq> mom_Name state then [NewRenameModelRequest (ValueString (mom_Name plan))] else []) @
         (if mom_Comment plan \<noteq> mom_Comment state
          then [NewUpdateModelCommentRequest (ValueString (mom_Comment plan))] else []) @ props)
       (if map_Equal (mom_Properties plan) (mom_Properties state) then Inr []
        else modelPropertyUpdates fw (mom_Properties state) (mom_Properties plan))"

definition model_Create ::
    "('a fw_scheme) \<Rightarrow> 'w model_api \<Rightarrow> diags + model_model \<Rightarrow> (model_model state_write, 'w) step" where
  "model_Create fw api planGet =
     andThen (pure_step planGet) (\<lambda>plan.
     andThen (pure_step (string_map fw (mom_Properties plan))) (\<lambda>properties.
     andThen (calling (ea_create api (model_location plan)
                \<lparr>mrr_Name = ValueString (mom_Name plan), mrr_Comment = ValueString (mom_Comment plan), mrr_Properties = properties\<rparr>)
              (NewResourceError ''creating model'' (ValueString (mom_Name plan)))) (\<lambda>m.
     done_with (Save (readModelToState m plan False)))))"

definition model_Read :: "'w model_api \<Rightarrow> diags + model_model \<Rightarrow> (model_model state_write, 'w) step" where
  "model_Read api stateGet =
     andThen (pure_step stateGet) (\<lambda>state.
       refresh (ea_get api (model_location state) (ValueString (mom_Name state)))
         (NewResourceError ''reading model'' (ValueString (mom_Name state))) (\<lambda>m. Inr (readModelToState m state True)))"

definition model_Update ::
    "('a fw_scheme) \<Rightarrow> 'w model_api \<Rightarrow> diags + model_model \<Rightarrow> diags + model_model \<Rightarrow> (model_model state_write, 'w) step" where
  "model_Update fw api planGet stateGet =
     andThen (pure_step (both_get planGet stateGet)) (\<lambda>(plan, state).
     andThen (pure_step (model_updates fw plan state)) (\<lambda>updates.
     let name = ValueString (mom_Name state) in
     andThen (if updates \<noteq> []
              then calling (ea_update api (model_location state) name updates) (NewResourceError ''updating model'' name)
              else calling (ea_get api (model_location state) name) (NewResourceError ''reading model after update'' name)) (\<lambda>m.
     done_with (Save (readModelToState m plan False)))))"

definition model_Delete :: "'w model_api \<Rightarrow> diags + model_model \<Rightarrow> (model_model state_write, 'w) step" where
  "model_Delete api stateGet =
     andThen (pure_step stateGet) (\<lambda>state.
       drop_or_gone (ea_drop api (model_location state) (ValueString (mom_Name state)))
         (NewResourceError ''deleting model'' (ValueString (mom_Name state))))"

definition model_ImportState :: "string \<Rightarrow> diagnostic + (string \<times> string) list" where
  "model_ImportState reqID =
     (case SplitImportID 4 ''metalake.catalog.schema.model'' reqID of
        Inl d \<Rightarrow> Inl d
      | Inr parts \<Rightarrow> Inr [(''metalake'', parts ! 0), (''catalog'', parts ! 1), (''schema'', parts ! 2),
                         (''name'', parts ! 3), (''id'', reqID)])"

interpretation model_props: property_diff "\<lambda>p c. model_propertyRequests c p"
    NewSetModelPropertyRequest NewRemoveModelPropertyRequest "\<lambda>_. False"
  by unfold_locales (auto simp: model_propertyRequests_def disj_commute [of "_ \<in> set (remove_requests _ _ _)"] requests_members)

end
