(* ===== verification/EntityUpdates.thy ===== *)
theory EntityUpdates
  imports TagResource TopicResource SchemaResource ModelResource
begin

section \<open>Updates of simple entities refine assignment\<close>

text \<open>
  The abstract specification of an update: an entity is a name, a comment and a finite map, and the
  update assigns the planned one. \<open>entity_change\<close> is what one request asks of the server;
  the update requests of tags, topics, schemas and models are read as such changes, and the lists
  the handlers compute are shown to assign the plan. The locale \<open>entity_diff\<close> lifts the contract of
  a property diff to entities.
\<close>

datatype entity_change =
    Rename string
  | SetComment string
  | SetProperty string string
  | RemoveProperty string

record entity =
  en_name :: string
  en_comment :: string
  en_props :: "string \<Rightarrow> string option"

fun carry_out :: "entity_change \<Rightarrow> entity \<Rightarrow> entity" where
  "carry_out (Rename n) e = e\<lparr>en_name := n\<rparr>"
| "carry_out (SetComment c) e = e\<lparr>en_comment := c\<rparr>"
| "carry_out (SetProperty k v) e = e\<lparr>en_props := (en_props e)(k \<mapsto> v)\<rparr>"
| "carry_out (RemoveProperty k) e = e\<lparr>en_props := (en_props e)(k := None)\<rparr>"

fun tag_change :: "tag_update \<Rightarrow> entity_change" where
  "tag_change (NewRenameTagRequest n) = Rename n"
| "tag_change (NewUpdateTagCommentRequest c) = SetComment c"
| "tag_change (NewSetTagPropertyRequest k v) = SetProperty k v"
| "tag_change (NewRemoveTagPropertyRequest k) = RemoveProperty k"

fun topic_change :: "topic_update \<Rightarrow> entity_change" where
  "topic_change (NewUpdateTopicCommentRequest c) = SetComment c"
| "topic_change (NewSetTopicPropertyRequest k v) = SetProperty k v"
| "topic_change (NewRemoveTopicPropertyRequest k) = RemoveProperty k"

fun schema_change :: "schema_update \<Rightarrow> entity_change" where
  "schema_change (NewSetSchemaPropertyRequest k v) = SetProperty k v"
| "schema_change (NewRemoveSchemaPropertyRequest k) = RemoveProperty k"

fun model_change :: "model_update \<Rightarrow> entity_change" where
  "model_change (NewRenameModelRequest n) = Rename n"
| "model_change (NewUpdateModelCommentRequest c) = SetComment c"
| "model_change (NewSetModelPropertyRequest k v) = SetProperty k v"
| "model_change (NewRemoveModelPropertyRequest k) = RemoveProperty k"

definition tag_entity :: "tag_model \<Rightarrow> entity" where
  "tag_entity m = \<lparr>en_name = ValueString (tgm_Name m), en_comment = ValueString (tgm_Comment m),
     en_props = map_of (mapFromTF (tgm_Properties m))\<rparr>"

definition topic_entity :: "topic_model \<Rightarrow> entity" where
  "topic_entity m = \<lparr>en_name = ValueString (tom_Name m), en_comment = ValueString (tom_Comment m),
     en_props = map_of (mapFromTF (tom_Properties m))\<rparr>"

definition schema_entity :: "schema_model \<Rightarrow> entity" where
  "schema_entity m = \<lparr>en_name = ValueString (scm_Name m), en_comment = ValueString (scm_Comment m),
     en_props = map_of (mapFromTF (scm_Properties m))\<rparr>"

definition model_entity :: "model_model \<Rightarrow> entity" where
  "model_entity m = \<lparr>en_name = ValueString (mom_Name m), en_comment = ValueString (mom_Comment m),
     en_props = map_of (mapFromTF (mom_Properties m))\<rparr>"

subsection \<open>Property requests on entities\<close>

locale entity_diff = property_diff diff set_u rem_u "\<lambda>_. False"
  for diff :: "string gomap \<Rightarrow> string gomap \<Rightarrow> 'u list" and set_u rem_u +
  fixes change :: "'u \<Rightarrow> entity_change"
  assumes change_set: "change (set_u k v) = SetProperty k v"
    and change_rem: "change (rem_u k) = RemoveProperty k"
begin

lemma server: "property_server set_u rem_u en_props (carry_out \<circ> change)"
  by (simp add: property_server_def change_set change_rem)

lemma untouched:
  assumes "\<forall>u \<in> set us. legal p c u"
  shows "en_name (fold (carry_out \<circ> change) us e) = en_name e \<and> en_comment (fold (carry_out \<circ> change) us e) = en_comment e"
  using assms
proof (induction us arbitrary: e)
  case (Cons u us)
  have "legal p c u" using Cons.prems by simp
  then have "en_name (carry_out (change u) e) = en_name e \<and> en_comment (carry_out (change u) e) = en_comment e"
    unfolding legal_def by (auto simp: change_set change_rem)
  then show ?case using Cons by simp
qed simp

lemma assigns:
  assumes "wf_map p" "wf_map c" "en_props e = map_of c"
  shows "fold (carry_out \<circ> change) (diff p c) e = e\<lparr>en_props := map_of p\<rparr>"
proof -
  have "\<forall>u \<in> set (diff p c). legal p c u" using members [OF assms(1,2)] by (simp add: legal_def)
  moreover have "en_props (fold (carry_out \<circ> change) (diff p c) e) = map_of p"
    using converges [OF assms(1,2) server, of e] assms(3) by (simp add: fun_eq_iff)
  ultimately show ?thesis using untouched by simp
qed

end

interpretation tag_entity_diff: entity_diff "\<lambda>p c. tag_propertyUpdates c p"
    NewSetTagPropertyRequest NewRemoveTagPropertyRequest tag_change
  by unfold_locales simp_all

interpretation topic_entity_diff: entity_diff "\<lambda>p c. topic_propertyUpdates c p"
    NewSetTopicPropertyRequest NewRemoveTopicPropertyRequest topic_change
  by unfold_locales simp_all

interpretation schema_entity_diff: entity_diff "\<lambda>p c. schema_propertyUpdates c p"
    NewSetSchemaPropertyRequest NewRemoveSchemaPropertyRequest schema_change
  by unfold_locales simp_all

interpretation model_entity_diff: entity_diff "\<lambda>p c. model_propertyRequests c p"
    NewSetModelPropertyRequest NewRemoveModelPropertyRequest model_change
  by unfold_locales simp_all

subsection \<open>Values of a configuration\<close>

text \<open>A property map without unknown elements, or none.\<close>

definition plain :: "tf_map \<Rightarrow> bool" where
  "plain v \<longleftrightarrow> v = TNull \<or> (\<exists>m. v = TKnown (known_map m) \<and> wf_map m)"

lemma mapFromTF_known [simp]: "mapFromTF (TKnown (known_map m)) = m"
  by (simp add: mapFromTF_def known_map_def comp_def case_prod_beta)

lemma plain_wf: "plain v \<Longrightarrow> wf_map (mapFromTF v)"
  by (auto simp: plain_def mapFromTF_def [where v = TNull])

lemma plain_decodes:
  assumes "fw_decodes fw" "plain v"
  obtains m where "StringMap fw v ds = (m, ds)" "wf_map m" "map_of m = map_of (mapFromTF v)"
proof (cases v)
  case (TKnown x)
  then obtain m where m: "x = known_map m" "wf_map m" using assms(2) by (auto simp: plain_def)
  then obtain m' where m': "fw_map fw (known_map m) = Inr m'" "mset m' = mset m" using assms(1) by (auto simp: fw_decodes_def)
  then have "wf_map m'" "map_of m' = map_of m" using m(2) wf_map_mset map_of_mset by metis+
  then show thesis using that m m' TKnown by (simp add: StringMap_def)
qed (use assms that in \<open>auto simp: plain_def StringMap_def mapFromTF_def\<close>)

lemma map_Equal_same:
  assumes "map_Equal a b" "plain a" "plain b"
  shows "map_of (mapFromTF a) = map_of (mapFromTF b)"
proof (cases a)
  case (TKnown x)
  then obtain m where m: "a = TKnown (known_map m)" "wf_map m" using assms(2) by (auto simp: plain_def)
  moreover obtain n where n: "b = TKnown (known_map n)" "wf_map n"
    using assms(1,3) TKnown by (cases b) (auto simp: map_Equal_def plain_def)
  have look: "map_of (known_map n) k = map_option TKnown (map_of n k)" for k n
    by (induction n) (auto simp: known_map_def)
  have "list_all (\<lambda>(k, v). map_of (known_map n) k = Some v) (known_map m)" "length m = length n"
    using assms(1) m n by (simp_all add: map_Equal_def known_map_def)
  then have "length m = length n \<and> list_all (\<lambda>(k, v). map_of n k = Some v) m"
    by (auto simp: list_all_iff look) (auto simp: known_map_def)
  then show ?thesis using same_entries [OF m(2) n(2)] m(1) n(1) by simp
qed (use assms in \<open>auto simp: map_Equal_def split: tfval.splits\<close>)

lemma both_maps_plain:
  assumes "fw_decodes fw" "plain v" "plain w"
  obtains m n where "both_maps fw v w = Inr (m, n)" "wf_map m" "wf_map n"
    "map_of m = map_of (mapFromTF v)" "map_of n = map_of (mapFromTF w)"
proof -
  obtain m where m: "StringMap fw v [] = (m, [])" "wf_map m" "map_of m = map_of (mapFromTF v)"
    by (rule plain_decodes [OF assms(1,2)]) blast
  obtain n where n: "StringMap fw w [] = (n, [])" "wf_map n" "map_of n = map_of (mapFromTF w)"
    by (rule plain_decodes [OF assms(1,3)]) blast
  then show thesis using that m by (simp add: both_maps_def)
qed

subsection \<open>The requests of an update\<close>

lemma tag_updates_assign:
  assumes "plain (tgm_Properties plan)" "plain (tgm_Properties state)"
  shows "fold (carry_out \<circ> tag_change) (tag_updates plan state) (tag_entity state) = tag_entity plan"
proof -
  let ?e = "(tag_entity state)\<lparr>en_name := ValueString (tgm_Name plan), en_comment := ValueString (tgm_Comment plan)\<rparr>"
  have "fold (carry_out \<circ> tag_change)
      (tag_propertyUpdates (mapFromTF (tgm_Properties state)) (mapFromTF (tgm_Properties plan))) ?e
      = ?e\<lparr>en_props := map_of (mapFromTF (tgm_Properties plan))\<rparr>"
    using assms plain_wf by (intro tag_entity_diff.assigns) (simp_all add: tag_entity_def)
  then show ?thesis by (auto simp: tag_updates_def tag_entity_def)
qed

lemma topic_updates_assign:
  assumes "fw_decodes fw" "plain (tom_Properties plan)" "plain (tom_Properties state)"
    "ValueString (tom_Name plan) = ValueString (tom_Name state)"
  obtains us where "topic_updates fw plan state = Inr us"
    "fold (carry_out \<circ> topic_change) us (topic_entity state) = topic_entity plan"
proof (cases "map_Equal (tom_Properties plan) (tom_Properties state)")
  case True
  then have "map_of (mapFromTF (tom_Properties plan)) = map_of (mapFromTF (tom_Properties state))"
    using assms map_Equal_same by blast
  then show thesis using that True assms(4) by (auto simp: topic_updates_def topic_entity_def)
next
  case False
  obtain c p where cp: "both_maps fw (tom_Properties state) (tom_Properties plan) = Inr (c, p)" "wf_map c" "wf_map p"
      "map_of c = map_of (mapFromTF (tom_Properties state))" "map_of p = map_of (mapFromTF (tom_Properties plan))"
    by (rule both_maps_plain [OF assms(1,3,2)]) blast
  let ?e = "(topic_entity state)\<lparr>en_comment := ValueString (tom_Comment plan)\<rparr>"
  have "fold (carry_out \<circ> topic_change) (topic_propertyUpdates c p) ?e = ?e\<lparr>en_props := map_of p\<rparr>"
    using cp by (intro topic_entity_diff.assigns) (simp_all add: topic_entity_def)
  then show thesis
    using False cp assms(4)
    by (cases "tom_Comment plan = tom_Comment state"; intro that) (simp add: topic_updates_def topic_entity_def)+
qed

lemma schema_updates_assign:
  assumes "fw_decodes fw" "plain (scm_Properties plan)" "plain (scm_Properties state)"
  obtains us where "schema_updates fw plan state = Inr us"
    "fold (carry_out \<circ> schema_change) us (schema_entity state) =
       (schema_entity state)\<lparr>en_props := map_of (mapFromTF (scm_Properties plan))\<rparr>"
proof (cases "map_Equal (scm_Properties plan) (scm_Properties state)")
  case True
  then have "map_of (mapFromTF (scm_Properties plan)) = map_of (mapFromTF (scm_Properties state))"
    using assms map_Equal_same by blast
  then show thesis using that True by (auto simp: schema_updates_def schema_entity_def)
next
  case False
  obtain c p where cp: "both_maps fw (scm_Properties state) (scm_Properties plan) = Inr (c, p)" "wf_map c" "wf_map p"
      "map_of c = map_of (mapFromTF (scm_Properties state))" "map_of p = map_of (mapFromTF (scm_Properties plan))"
    by (rule both_maps_plain [OF assms(1,3,2)]) blast
  have "fold (carry_out \<circ> schema_change) (schema_propertyUpdates c p) (schema_entity state) = (schema_entity state)\<lparr>en_props := map_of p\<rparr>"
    using cp by (intro schema_entity_diff.assigns) (simp_all add: schema_entity_def)
  moreover have "\<not> IsUnknown (scm_Properties plan)" using assms(2) by (auto simp: plain_def)
  ultimately show thesis using that False cp by (simp add: schema_updates_def)
qed

lemma model_updates_assign:
  assumes "fw_decodes fw" "plain (mom_Properties plan)" "plain (mom_Properties state)"
  obtains us where "model_updates fw plan state = Inr us"
    "fold (carry_out \<circ> model_change) us (model_entity state) = model_entity plan"
proof (cases "map_Equal (mom_Properties plan) (mom_Properties state)")
  case True
  then have "map_of (mapFromTF (mom_Properties plan)) = map_of (mapFromTF (mom_Properties state))"
    using assms map_Equal_same by blast
  then show thesis using that True by (auto simp: model_updates_def model_entity_def)
next
  case False
  obtain c p where cp: "both_maps fw (mom_Properties state) (mom_Properties plan) = Inr (c, p)" "wf_map c" "wf_map p"
      "map_of c = map_of (mapFromTF (mom_Properties state))" "map_of p = map_of (mapFromTF (mom_Properties plan))"
    by (rule both_maps_plain [OF assms(1,3,2)]) blast
  let ?e = "(model_entity state)\<lparr>en_name := ValueString (mom_Name plan), en_comment := ValueString (mom_Comment plan)\<rparr>"
  have "fold (carry_out \<circ> model_change) (model_propertyRequests c p) ?e = ?e\<lparr>en_props := map_of p\<rparr>"
    using cp by (intro model_entity_diff.assigns) (simp_all add: model_entity_def)
  then show thesis
    using False cp
    by (cases "mom_Name plan = mom_Name state"; cases "mom_Comment plan = mom_Comment state"; intro that)
      (simp add: model_updates_def modelPropertyUpdates_def model_entity_def)+
qed

subsection \<open>Property\<close>

text \<open>C6: The update requests refine assigning the plan. Carried out one after the other on the entity the
  state records, the requests of a tag, topic or model update make its name, comment and properties
  the planned ones; those of a schema, whose name and comment are immutable, make its properties the
  planned ones. No update of fully known values fails before its requests are sent.\<close>

theorem entity_updates_refine:
  assumes "fw_decodes fw"
  shows "(plain (tgm_Properties tp) \<and> plain (tgm_Properties ts) \<longrightarrow>
      fold (carry_out \<circ> tag_change) (tag_updates tp ts) (tag_entity ts) = tag_entity tp) \<and>
    (plain (tom_Properties op) \<and> plain (tom_Properties os) \<and> ValueString (tom_Name op) = ValueString (tom_Name os) \<longrightarrow>
      (\<exists>us. topic_updates fw op os = Inr us \<and> fold (carry_out \<circ> topic_change) us (topic_entity os) = topic_entity op)) \<and>
    (plain (scm_Properties sp) \<and> plain (scm_Properties ss) \<longrightarrow>
      (\<exists>us. schema_updates fw sp ss = Inr us \<and> fold (carry_out \<circ> schema_change) us (schema_entity ss) =
         (schema_entity ss)\<lparr>en_props := map_of (mapFromTF (scm_Properties sp))\<rparr>)) \<and>
    (plain (mom_Properties mp) \<and> plain (mom_Properties ms) \<longrightarrow>
      (\<exists>us. model_updates fw mp ms = Inr us \<and> fold (carry_out \<circ> model_change) us (model_entity ms) = model_entity mp))"
  using tag_updates_assign topic_updates_assign [OF assms] schema_updates_assign [OF assms] model_updates_assign [OF assms]
  by (intro conjI impI; metis)

definition demo_model :: "string \<Rightarrow> string gomap \<Rightarrow> model_model" where
  "demo_model name props =
     \<lparr>mom_ID = TNull, mom_Metalake = TKnown ''m'', mom_Catalog = TKnown ''c'', mom_Schema = TKnown ''s'', mom_Name = TKnown name,
      mom_Comment = TNull, mom_LatestVersion = TNull, mom_Properties = TKnown (known_map props), mom_Audit = TNull\<rparr>"

theorem entity_updates_refine_witness:
  "\<exists>us. model_updates strict_fw (demo_model ''new'' [(''a'', ''2'')]) (demo_model ''old'' [(''a'', ''1''), (''b'', ''1'')]) = Inr us \<and>
     fold (carry_out \<circ> model_change) us
       \<lparr>en_name = ''old'', en_comment = [], en_props = [''a'' \<mapsto> ''1'', ''b'' \<mapsto> ''1'']\<rparr>
     = \<lparr>en_name = ''new'', en_comment = [], en_props = [''a'' \<mapsto> ''2'']\<rparr>"
proof -
  let ?p = "demo_model ''new'' [(''a'', ''2'')]" and ?s = "demo_model ''old'' [(''a'', ''1''), (''b'', ''1'')]"
  have "plain (mom_Properties ?p)" "plain (mom_Properties ?s)" by (auto simp: plain_def demo_model_def)
  then have "\<exists>us. model_updates strict_fw ?p ?s = Inr us \<and> fold (carry_out \<circ> model_change) us (model_entity ?s) = model_entity ?p"
    using entity_updates_refine [OF strict_fw_decodes] by blast
  moreover have "model_entity ?p = \<lparr>en_name = ''new'', en_comment = [], en_props = [''a'' \<mapsto> ''2'']\<rparr>"
    "model_entity ?s = \<lparr>en_name = ''old'', en_comment = [], en_props = [''a'' \<mapsto> ''1'', ''b'' \<mapsto> ''1'']\<rparr>"
    by (auto simp: model_entity_def demo_model_def ValueString_def fun_upd_twist)
  ultimately show ?thesis by simp
qed

end
