(* ===== verification/PolicyResource.thy ===== *)
theory PolicyResource
  imports Entity Version TableResource
begin

section \<open>The policy resource (resources/policy/resource.go)\<close>

text \<open>
  A policy is altered by a PUT (name, comment, content) and enabled or disabled by a PATCH, in this
  order; the PATCH goes to the new name. Object types that need Gravitino 1.3.1 are refused before a
  request is sent. The content of an answer may be absent; what is still unknown then becomes null.
\<close>

record policy_content =
  pc_SupportedObjectTypes :: "string list option"
  pc_Properties :: "string gomap option"
  pc_CustomRules :: "string gomap option"

record policy =
  po_Name :: string
  po_Comment :: string
  po_PolicyType :: string
  po_Enabled :: bool
  po_Content :: "policy_content option"
  po_Inherited :: "bool option"
  po_Audit :: "audit option"

record policy_create_request =
  pcr_Name :: string
  pcr_Comment :: string
  pcr_PolicyType :: string
  pcr_Enabled :: bool
  pcr_Content :: policy_content

datatype policy_update =
    NewRenamePolicyRequest string
  | NewUpdatePolicyCommentRequest string
  | NewUpdatePolicyContentRequest string policy_content

record policy_model =
  pm_ID :: "string tfval"
  pm_Metalake :: "string tfval"
  pm_Name :: "string tfval"
  pm_Comment :: "string tfval"
  pm_PolicyType :: "string tfval"
  pm_Enabled :: "bool tfval"
  pm_SupportedObjectTypes :: tf_strings
  pm_Properties :: tf_map
  pm_CustomRules :: tf_map
  pm_Audit :: "audit_tfsdk tfval"

record 'w policy_api =
  pa_create :: "string \<Rightarrow> policy_create_request \<Rightarrow> 'w \<Rightarrow> (gerror + policy) \<times> 'w"
  pa_get :: "string \<Rightarrow> string \<Rightarrow> 'w \<Rightarrow> (gerror + policy) \<times> 'w"
  pa_update :: "string \<Rightarrow> string \<Rightarrow> policy_update list \<Rightarrow> 'w \<Rightarrow> (gerror + policy) \<times> 'w"
  pa_set_enabled :: "string \<Rightarrow> string \<Rightarrow> bool \<Rightarrow> 'w \<Rightarrow> (gerror + unit) \<times> 'w"
  pa_delete :: "string \<Rightarrow> string \<Rightarrow> 'w \<Rightarrow> (gerror + bool) \<times> 'w"
  pa_probe :: "'w probe"

subsection \<open>Content\<close>

definition NormalizePolicyObjectTypes :: "string list option \<Rightarrow> string list option" where
  "NormalizePolicyObjectTypes ts = map_option (map to_upper) ts"

definition policyContentFromTF :: "policy_model \<Rightarrow> policy_content" where
  "policyContentFromTF m =
     \<lparr>pc_SupportedObjectTypes = SetToStrings (pm_SupportedObjectTypes m),
      pc_Properties = Some (mapFromTF (pm_Properties m)), pc_CustomRules = Some (mapFromTF (pm_CustomRules m))\<rparr>"

definition buildPolicyCreateRequest :: "policy_model \<Rightarrow> policy_create_request" where
  "buildPolicyCreateRequest m =
     \<lparr>pcr_Name = ValueString (pm_Name m), pcr_Comment = ValueString (pm_Comment m),
      pcr_PolicyType = ValueString (pm_PolicyType m), pcr_Enabled = ValueBool (pm_Enabled m),
      pcr_Content = policyContentFromTF m\<rparr>"

definition contentKnown :: "policy_model \<Rightarrow> bool" where
  "contentKnown m \<longleftrightarrow> \<not> IsUnknown (pm_SupportedObjectTypes m) \<and> \<not> IsUnknown (pm_Properties m) \<and> \<not> IsUnknown (pm_CustomRules m)"

fun counts_down :: "(string \<Rightarrow> int) \<Rightarrow> string list \<Rightarrow> bool" where
  "counts_down n [] = True"
| "counts_down n (v # b) = (if n v - 1 < 0 then False else counts_down (n(v := n v - 1)) b)"

definition stringSlicesEqual :: "string list \<Rightarrow> string list \<Rightarrow> bool" where
  "stringSlicesEqual a b =
     (length a = length b \<and> counts_down (fold (\<lambda>v n. n(v := n v + 1)) a (\<lambda>_. 0)) b)"

definition mapsEqual :: "string gomap \<Rightarrow> string gomap \<Rightarrow> bool" where
  "mapsEqual a b = (length a = length b \<and> list_all (\<lambda>(k, v). map_of b k = Some v) a)"

definition names_of :: "tf_strings \<Rightarrow> string list" where
  "names_of v = (case SetToStrings v of None \<Rightarrow> [] | Some xs \<Rightarrow> xs)"

definition policyContentEqual :: "policy_model \<Rightarrow> policy_model \<Rightarrow> bool" where
  "policyContentEqual plan state =
     (stringSlicesEqual (names_of (pm_SupportedObjectTypes plan)) (names_of (pm_SupportedObjectTypes state)) \<and>
      mapsEqual (mapFromTF (pm_Properties plan)) (mapFromTF (pm_Properties state)) \<and>
      mapsEqual (mapFromTF (pm_CustomRules plan)) (mapFromTF (pm_CustomRules state)))"

subsection \<open>State\<close>

definition reconcileStringMap :: "tf_map \<Rightarrow> string gomap option \<Rightarrow> tf_map" where
  "reconcileStringMap tracked server =
     (case tracked of
        TKnown m \<Rightarrow> TKnown (map (\<lambda>(k, planned).
          (k, case map_of (case server of None \<Rightarrow> [] | Some s \<Rightarrow> s) k of Some v \<Rightarrow> TKnown v | None \<Rightarrow> planned)) m)
      | _ \<Rightarrow> MapValueFrom server)"

definition null_if_unknown :: "'a tfval \<Rightarrow> 'a tfval" where
  "null_if_unknown v = (if IsUnknown v then TNull else v)"

definition nothing_unknown :: "policy_model \<Rightarrow> policy_model" where
  "nothing_unknown m =
     m\<lparr>pm_Comment := null_if_unknown (pm_Comment m), pm_PolicyType := null_if_unknown (pm_PolicyType m),
       pm_Enabled := null_if_unknown (pm_Enabled m),
       pm_SupportedObjectTypes := null_if_unknown (pm_SupportedObjectTypes m),
       pm_Properties := null_if_unknown (pm_Properties m), pm_CustomRules := null_if_unknown (pm_CustomRules m),
       pm_Audit := null_if_unknown (pm_Audit m)\<rparr>"

definition setStateFromPolicy :: "string \<Rightarrow> policy \<Rightarrow> policy_model \<Rightarrow> policy_model" where
  "setStateFromPolicy metalake p m =
     (let m1 = m\<lparr>pm_Name := TKnown (po_Name p), pm_Comment := TKnown (po_Comment p), pm_PolicyType := TKnown (po_PolicyType p),
                 pm_Enabled := TKnown (po_Enabled p), pm_ID := TKnown (metalake @ ''.'' @ po_Name p)\<rparr>;
          m2 = (case po_Content p of
                  None \<Rightarrow> m1
                | Some c \<Rightarrow>
                    m1\<lparr>pm_SupportedObjectTypes := (case NormalizePolicyObjectTypes (pc_SupportedObjectTypes c) of
                          None \<Rightarrow> TNull | Some ts \<Rightarrow> StringsToSet ts),
                       pm_Properties := reconcileStringMap (pm_Properties m1) (pc_Properties c),
                       pm_CustomRules := reconcileStringMap (pm_CustomRules m1) (pc_CustomRules c)\<rparr>)
      in nothing_unknown (m2\<lparr>pm_Audit := AuditToObjectValue (po_Audit p), pm_Metalake := TKnown metalake\<rparr>))"

definition known_or :: "'a tfval \<Rightarrow> 'a tfval \<Rightarrow> 'a tfval" where
  "known_or v previous = (if IsUnknown v then previous else v)"

definition stateToModel :: "policy_model \<Rightarrow> policy_model \<Rightarrow> policy_model" where
  "stateToModel m state =
     m\<lparr>pm_Metalake := pm_Metalake state,
       pm_ID := TKnown (ValueString (pm_Metalake state) @ ''.'' @ ValueString (pm_Name m)),
       pm_Comment := known_or (pm_Comment m) (pm_Comment state),
       pm_PolicyType := known_or (pm_PolicyType m) (pm_PolicyType state),
       pm_Enabled := known_or (pm_Enabled m) (pm_Enabled state),
       pm_SupportedObjectTypes := known_or (pm_SupportedObjectTypes m) (pm_SupportedObjectTypes state),
       pm_Properties := known_or (pm_Properties m) (pm_Properties state),
       pm_CustomRules := known_or (pm_CustomRules m) (pm_CustomRules state),
       pm_Audit := known_or (pm_Audit m) (pm_Audit state)\<rparr>"

subsection \<open>Handlers\<close>

definition policy_checkObjectTypesSupported :: "'w policy_api \<Rightarrow> string list \<Rightarrow> (unit, 'w vclient) step" where
  "policy_checkObjectTypesSupported api ts c =
     (case CheckPolicyObjectTypesSupported (pa_probe api) ts c of
        (Some err, c') \<Rightarrow>
          (Inl [attribute_error [AtName ''supported_object_types''] ''Unsupported supported_object_types value'' (err_text err)], c')
      | (None, c') \<Rightarrow> (Inr (), c'))"

definition policy_Create :: "'w policy_api \<Rightarrow> diags + policy_model \<Rightarrow> (policy_model state_write, 'w vclient) step" where
  "policy_Create api planGet =
     andThen (pure_step planGet) (\<lambda>plan.
     andThen (policy_checkObjectTypesSupported api (names_of (pm_SupportedObjectTypes plan))) (\<lambda>_.
     andThen (calling (on_world (pa_create api (ValueString (pm_Metalake plan)) (buildPolicyCreateRequest plan)))
              (NewResourceError ''creating policy'' (ValueString (pm_Name plan)))) (\<lambda>p.
     done_with (Save (setStateFromPolicy (ValueString (pm_Metalake plan)) p plan)))))"

definition policy_Read :: "'w policy_api \<Rightarrow> diags + policy_model \<Rightarrow> (policy_model state_write, 'w vclient) step" where
  "policy_Read api stateGet =
     andThen (pure_step stateGet) (\<lambda>state.
       refresh (on_world (pa_get api (ValueString (pm_Metalake state)) (ValueString (pm_Name state))))
         (NewResourceError ''reading policy'' (ValueString (pm_Name state)))
         (\<lambda>p. Inr (setStateFromPolicy (ValueString (pm_Metalake state)) p state)))"

definition changed_to :: "'a tfval \<Rightarrow> 'a tfval \<Rightarrow> bool" where
  "changed_to planned previous \<longleftrightarrow> \<not> IsUnknown planned \<and> planned \<noteq> previous"

definition policy_contentChanged :: "policy_model \<Rightarrow> policy_model \<Rightarrow> bool" where
  "policy_contentChanged plan state \<longleftrightarrow>
     contentKnown plan \<and> \<not> IsUnknown (pm_PolicyType plan) \<and> \<not> policyContentEqual plan state"

definition policy_updates :: "policy_model \<Rightarrow> policy_model \<Rightarrow> policy_update list" where
  "policy_updates plan state =
     (if changed_to (pm_Name plan) (pm_Name state) then [NewRenamePolicyRequest (ValueString (pm_Name plan))] else []) @
     (if changed_to (pm_Comment plan) (pm_Comment state)
      then [NewUpdatePolicyCommentRequest (ValueString (pm_Comment plan))] else []) @
     (if policy_contentChanged plan state
      then [NewUpdatePolicyContentRequest (ValueString (pm_PolicyType plan)) (policyContentFromTF plan)] else [])"

definition policy_Update ::
    "'w policy_api \<Rightarrow> diags + policy_model \<Rightarrow> diags + policy_model \<Rightarrow> (policy_model state_write, 'w vclient) step" where
  "policy_Update api planGet stateGet =
     andThen (pure_step (both_get planGet stateGet)) (\<lambda>(plan, state).
     let metalake = ValueString (pm_Metalake plan); currentName = ValueString (pm_Name state);
         updates = policy_updates plan state;
         newName = (if changed_to (pm_Name plan) (pm_Name state) then ValueString (pm_Name plan) else currentName) in
     andThen (if updates = [] then done_with None
              else andThen (if policy_contentChanged plan state
                            then policy_checkObjectTypesSupported api (names_of (pm_SupportedObjectTypes plan)) else done_with ()) (\<lambda>_.
                   andThen (calling (on_world (pa_update api metalake currentName updates))
                              (NewResourceError ''updating policy'' currentName)) (\<lambda>p. done_with (Some p)))) (\<lambda>updated.
     andThen (if changed_to (pm_Enabled plan) (pm_Enabled state)
              then calling (on_world (pa_set_enabled api metalake newName (ValueBool (pm_Enabled plan))))
                     (NewResourceError ''updating policy enabled state'' newName)
              else done_with ()) (\<lambda>_.
     let m = (case updated of Some p \<Rightarrow> setStateFromPolicy metalake p plan | None \<Rightarrow> stateToModel plan state)
     in done_with (Save (if IsUnknown (pm_Enabled plan) then m else m\<lparr>pm_Enabled := pm_Enabled plan\<rparr>)))))"

definition policy_Delete :: "'w policy_api \<Rightarrow> diags + policy_model \<Rightarrow> (policy_model state_write, 'w vclient) step" where
  "policy_Delete api stateGet =
     andThen (pure_step stateGet) (\<lambda>state.
       drop_or_gone (on_world (pa_delete api (ValueString (pm_Metalake state)) (ValueString (pm_Name state))))
         (NewResourceError ''deleting policy'' (ValueString (pm_Name state))))"

definition policy_ImportState :: "string \<Rightarrow> diagnostic + (string \<times> string) list" where
  "policy_ImportState reqID =
     (case SplitImportID 2 ''metalake.policy_name'' reqID of
        Inl d \<Rightarrow> Inl d
      | Inr parts \<Rightarrow> Inr [(''metalake'', parts ! 0), (''name'', parts ! 1), (''id'', reqID)])"

subsection \<open>Comparing contents\<close>

lemma count_up: "fold (\<lambda>v n. n(v := n v + 1)) a n v = n v + int (count (mset a) v)"
  by (induction a arbitrary: n) auto

lemma counts_down_iff: "(\<forall>v. 0 \<le> n v) \<Longrightarrow> counts_down n b \<longleftrightarrow> (\<forall>v. int (count (mset b) v) \<le> n v)"
proof (induction n b rule: counts_down.induct)
  case (2 n v b)
  show ?case
  proof (cases "n v - 1 < 0")
    case True
    then show ?thesis by (auto intro!: exI [of _ v])
  next
    case False
    then have "counts_down (n(v := n v - 1)) b \<longleftrightarrow> (\<forall>w. int (count (mset b) w) \<le> (n(v := n v - 1)) w)"
      using 2 by (intro "2.IH") auto
    then show ?thesis using False by (auto simp: fun_upd_def split: if_splits)
  qed
qed simp

lemma stringSlicesEqual_iff: "stringSlicesEqual a b \<longleftrightarrow> mset a = mset b"
proof
  assume eq: "stringSlicesEqual a b"
  have "counts_down (fold (\<lambda>v n. n(v := n v + 1)) a (\<lambda>_. 0)) b" using eq by (simp add: stringSlicesEqual_def)
  then have "\<forall>v. int (count (mset b) v) \<le> fold (\<lambda>v n. n(v := n v + 1)) a (\<lambda>_. 0) v"
    by (subst (asm) counts_down_iff) (simp_all add: count_up)
  then have "mset b \<subseteq># mset a" by (simp add: count_up subseteq_mset_def)
  moreover have "size (mset b) = size (mset a)" using eq by (simp add: stringSlicesEqual_def)
  ultimately show "mset a = mset b" by (metis mset_subset_size subset_mset.le_less less_irrefl)
next
  assume eq: "mset a = mset b"
  then have "length a = length b" by (metis size_mset)
  then show "stringSlicesEqual a b" using eq by (simp add: stringSlicesEqual_def counts_down_iff count_up)
qed

lemma mapsEqual_iff: "wf_map a \<Longrightarrow> wf_map b \<Longrightarrow> mapsEqual a b \<longleftrightarrow> map_of a = map_of b"
  unfolding mapsEqual_def by (rule same_entries)

end
