(* ===== verification/Associations.thy ===== *)
theory Associations
  imports PolicyResource
begin

section \<open>Attaching tags and policies to metadata objects\<close>

text \<open>
  resources/tag/association.go and resources/policy/association.go. The API has one request that adds
  and removes names; destroying an association removes every recorded name with it. The two
  handlers differ in the wording and in the policies being asked whether they support the object
  type (\<open>ak_check\<close>); \<open>tag_kind\<close> and \<open>policy_kind\<close> instantiate the common text.
\<close>

record assoc_model =
  am_ID :: "string tfval"
  am_Metalake :: "string tfval"
  am_ObjectType :: "string tfval"
  am_ObjectFullName :: "string tfval"
  am_Names :: tf_strings

record associated =
  as_Name :: string
  as_Inherited :: "bool option"

record associate_request =
  ar_Add :: "string list"
  ar_Remove :: "string list"

record 'w assoc_api =
  aa_associate :: "string \<Rightarrow> string \<Rightarrow> string \<Rightarrow> associate_request \<Rightarrow> 'w \<Rightarrow> (gerror + string list) \<times> 'w"
  aa_list :: "string \<Rightarrow> string \<Rightarrow> string \<Rightarrow> 'w \<Rightarrow> (gerror + associated list) \<times> 'w"
  aa_policy :: "string \<Rightarrow> string \<Rightarrow> 'w \<Rightarrow> (gerror + policy) \<times> 'w"
  aa_probe :: "'w probe"

record 'w assoc_kind =
  ak_noun :: string
  ak_types :: "string list"
  ak_check :: "'w assoc_api \<Rightarrow> string \<Rightarrow> string \<Rightarrow> string list \<Rightarrow> (unit, 'w vclient) step"

definition TagObjectTypes :: "string list" where
  "TagObjectTypes = [''CATALOG'', ''SCHEMA'', ''TABLE'', ''VIEW'', ''COLUMN'', ''FILESET'', ''TOPIC'', ''MODEL'', ''FUNCTION'']"

definition PolicyObjectTypes :: "string list" where
  "PolicyObjectTypes = [''CATALOG'', ''SCHEMA'', ''TABLE'', ''FILESET'', ''TOPIC'', ''MODEL'', ''VIEW'', ''FUNCTION'']"

subsection \<open>Checks before a request\<close>

definition checkObjectTypeSupported :: "'w assoc_api \<Rightarrow> string \<Rightarrow> (unit, 'w vclient) step" where
  "checkObjectTypeSupported api objectType c =
     (case CheckMetadataObjectTypeSupported (aa_probe api) objectType c of
        (Some err, c') \<Rightarrow> (Inl [attribute_error [AtName ''object_type''] ''Unsupported object_type value'' (err_text err)], c')
      | (None, c') \<Rightarrow> (Inr (), c'))"

definition policySupportedObjectTypes :: "policy \<Rightarrow> string list" where
  "policySupportedObjectTypes p =
     (case po_Content p of
        None \<Rightarrow> []
      | Some c \<Rightarrow> (case NormalizePolicyObjectTypes (pc_SupportedObjectTypes c) of None \<Rightarrow> [] | Some ts \<Rightarrow> ts))"

definition policy_read_error :: "string \<Rightarrow> string \<Rightarrow> string \<Rightarrow> gerror \<Rightarrow> diags" where
  "policy_read_error metalake objectType name err =
     (if IsNotFoundError err
      then [attribute_error [AtName ''policies''] ''Policy not found''
             (''No policy '' @ quote name @ '' exists in metalake '' @ quote metalake @
              ''; create it before associating it with a '' @ objectType @ ''.'')]
      else NewResourceError ''reading policy'' name err)"

fun policy_mismatches ::
    "'w assoc_api \<Rightarrow> string \<Rightarrow> string \<Rightarrow> string list \<Rightarrow> string list \<Rightarrow> (string list, 'w vclient) step" where
  "policy_mismatches api metalake objectType [] found c = (Inr found, c)"
| "policy_mismatches api metalake objectType (name # names) found c =
     (case on_world (aa_policy api metalake name) c of
        (Inl err, c') \<Rightarrow> (Inl (policy_read_error metalake objectType name err), c')
      | (Inr p, c') \<Rightarrow>
          let allowed = policySupportedObjectTypes p in
          policy_mismatches api metalake objectType names
            (if allowed = [] \<or> objectType \<in> set allowed then found
             else found @ [''policy '' @ quote name @ '' supports '' @ join '', '' allowed]) c')"

definition mismatch_error :: "string \<Rightarrow> string list \<Rightarrow> diags" where
  "mismatch_error objectType mismatches =
     [attribute_error [AtName ''policies''] ''Policy does not support the object type''
       (''Object type '' @ objectType @ '' is not listed in the supported_object_types of '' @ join ''; '' mismatches @
        ''. Attach a policy that supports '' @ objectType @ '', or change object_type.'')]"

definition checkPoliciesSupportObjectType ::
    "'w assoc_api \<Rightarrow> string \<Rightarrow> string \<Rightarrow> string list \<Rightarrow> (unit, 'w vclient) step" where
  "checkPoliciesSupportObjectType api metalake objectType names =
     (if names = [] then done_with ()
      else andThen (policy_mismatches api metalake (CanonicalObjectType objectType) names []) (\<lambda>mismatches.
           stop_if (mismatches \<noteq> []) (mismatch_error (CanonicalObjectType objectType) mismatches)))"

subsection \<open>Handlers\<close>

definition set_assoc_state :: "string \<Rightarrow> string list \<Rightarrow> assoc_model \<Rightarrow> assoc_model" where
  "set_assoc_state metalake names m =
     m\<lparr>am_Metalake := TKnown metalake,
       am_ID := TKnown (AssociationID metalake (ValueString (am_ObjectType m)) (ValueString (am_ObjectFullName m))),
       am_Names := StringsToSet names\<rparr>"

definition assoc_call ::
    "'w assoc_api \<Rightarrow> assoc_model \<Rightarrow> associate_request \<Rightarrow> 'w vclient \<Rightarrow> (gerror + string list) \<times> 'w vclient" where
  "assoc_call api m r =
     on_world (aa_associate api (ValueString (am_Metalake m)) (ValueString (am_ObjectType m)) (ValueString (am_ObjectFullName m)) r)"

definition assoc_Create ::
    "'w assoc_kind \<Rightarrow> 'w assoc_api \<Rightarrow> diags + assoc_model \<Rightarrow> (assoc_model state_write, 'w vclient) step" where
  "assoc_Create kind api planGet =
     andThen (pure_step planGet) (\<lambda>plan.
     let metalake = ValueString (am_Metalake plan); objectType = ValueString (am_ObjectType plan); names = names_of (am_Names plan) in
     andThen (checkObjectTypeSupported api objectType) (\<lambda>_.
     andThen (ak_check kind api metalake objectType names) (\<lambda>_.
     andThen (if names = [] then done_with []
              else calling (assoc_call api plan \<lparr>ar_Add = names, ar_Remove = []\<rparr>)
                     (NewResourceError (''associating '' @ ak_noun kind @ '' with'') (ValueString (am_ObjectFullName plan)))) (\<lambda>_.
     done_with (Save (set_assoc_state metalake names plan))))))"

definition assoc_Read ::
    "'w assoc_kind \<Rightarrow> 'w assoc_api \<Rightarrow> diags + assoc_model \<Rightarrow> (assoc_model state_write, 'w vclient) step" where
  "assoc_Read kind api stateGet =
     andThen (pure_step stateGet) (\<lambda>state.
     let metalake = ValueString (am_Metalake state); objectType = ValueString (am_ObjectType state);
         fullName = ValueString (am_ObjectFullName state) in
     andThen (checkObjectTypeSupported api objectType) (\<lambda>_.
     refresh (on_world (aa_list api metalake objectType fullName))
       (NewResourceError (''reading '' @ ak_noun kind @ '' of'') fullName)
       (\<lambda>ts. Inr (set_assoc_state metalake (map as_Name (filter (\<lambda>t. as_Inherited t \<noteq> Some True) ts)) state))))"

definition assoc_Update ::
    "'w assoc_kind \<Rightarrow> 'w assoc_api \<Rightarrow> diags + assoc_model \<Rightarrow> diags + assoc_model \<Rightarrow> (assoc_model state_write, 'w vclient) step" where
  "assoc_Update kind api planGet stateGet =
     andThen (pure_step (both_get planGet stateGet)) (\<lambda>(plan, state).
     let metalake = ValueString (am_Metalake plan); objectType = ValueString (am_ObjectType plan);
         desired = names_of (am_Names plan) in
     andThen (checkObjectTypeSupported api objectType) (\<lambda>_.
     case DiffAssociationNames (names_of (am_Names state)) desired of (toAdd, toRemove) \<Rightarrow>
     andThen (ak_check kind api metalake objectType toAdd) (\<lambda>_.
     andThen (if toAdd \<noteq> [] \<or> toRemove \<noteq> []
              then calling (assoc_call api plan \<lparr>ar_Add = toAdd, ar_Remove = toRemove\<rparr>)
                     (NewResourceError (''updating '' @ ak_noun kind @ '' of'') (ValueString (am_ObjectFullName plan)))
              else done_with []) (\<lambda>_.
     done_with (Save (set_assoc_state metalake desired plan))))))"

definition assoc_Delete ::
    "'w assoc_kind \<Rightarrow> 'w assoc_api \<Rightarrow> diags + assoc_model \<Rightarrow> (assoc_model state_write, 'w vclient) step" where
  "assoc_Delete kind api stateGet =
     andThen (pure_step stateGet) (\<lambda>state.
     let names = names_of (am_Names state) in
     if names = [] then done_with Remove
     else drop_or_gone (assoc_call api state \<lparr>ar_Add = [], ar_Remove = names\<rparr>)
            (NewResourceError (''deleting '' @ ak_noun kind @ '' of'') (ValueString (am_ObjectFullName state))))"

definition assoc_ImportState :: "'w assoc_kind \<Rightarrow> string \<Rightarrow> diagnostic + (string \<times> string) list" where
  "assoc_ImportState kind reqID =
     (case SplitImportID 3 ''metalake.object_type.object_full_name'' reqID of
        Inl d \<Rightarrow> Inl d
      | Inr parts \<Rightarrow>
          if parts ! 1 \<notin> set (ak_types kind)
          then Inl (error_diag ''Invalid import ID''
                 (''Unknown object type '' @ quote (parts ! 1) @ '' in import ID '' @ quote reqID @
                  ''; expected one of: '' @ join '', '' (ak_types kind) @ ''.''))
          else Inr [(''metalake'', parts ! 0), (''object_type'', parts ! 1), (''object_full_name'', parts ! 2),
                    (''id'', AssociationID (parts ! 0) (parts ! 1) (parts ! 2))])"

definition tag_kind :: "'w assoc_kind" where
  "tag_kind = \<lparr>ak_noun = ''tags'', ak_types = TagObjectTypes, ak_check = (\<lambda>_ _ _ _. done_with ())\<rparr>"

definition policy_kind :: "'w assoc_kind" where
  "policy_kind = \<lparr>ak_noun = ''policies'', ak_types = PolicyObjectTypes, ak_check = checkPoliciesSupportObjectType\<rparr>"

definition tagAssociation_Create :: "'w assoc_api \<Rightarrow> diags + assoc_model \<Rightarrow> (assoc_model state_write, 'w vclient) step" where
  "tagAssociation_Create = assoc_Create tag_kind"

definition tagAssociation_Read :: "'w assoc_api \<Rightarrow> diags + assoc_model \<Rightarrow> (assoc_model state_write, 'w vclient) step" where
  "tagAssociation_Read = assoc_Read tag_kind"

definition tagAssociation_Update ::
    "'w assoc_api \<Rightarrow> diags + assoc_model \<Rightarrow> diags + assoc_model \<Rightarrow> (assoc_model state_write, 'w vclient) step" where
  "tagAssociation_Update = assoc_Update tag_kind"

definition tagAssociation_Delete :: "'w assoc_api \<Rightarrow> diags + assoc_model \<Rightarrow> (assoc_model state_write, 'w vclient) step" where
  "tagAssociation_Delete = assoc_Delete tag_kind"

definition policyAssociation_Create :: "'w assoc_api \<Rightarrow> diags + assoc_model \<Rightarrow> (assoc_model state_write, 'w vclient) step" where
  "policyAssociation_Create = assoc_Create policy_kind"

definition policyAssociation_Read :: "'w assoc_api \<Rightarrow> diags + assoc_model \<Rightarrow> (assoc_model state_write, 'w vclient) step" where
  "policyAssociation_Read = assoc_Read policy_kind"

definition policyAssociation_Update ::
    "'w assoc_api \<Rightarrow> diags + assoc_model \<Rightarrow> diags + assoc_model \<Rightarrow> (assoc_model state_write, 'w vclient) step" where
  "policyAssociation_Update = assoc_Update policy_kind"

definition policyAssociation_Delete :: "'w assoc_api \<Rightarrow> diags + assoc_model \<Rightarrow> (assoc_model state_write, 'w vclient) step" where
  "policyAssociation_Delete = assoc_Delete policy_kind"

definition tagAssociation_ImportState :: "string \<Rightarrow> diagnostic + (string \<times> string) list" where
  "tagAssociation_ImportState = assoc_ImportState (tag_kind :: unit assoc_kind)"

definition policyAssociation_ImportState :: "string \<Rightarrow> diagnostic + (string \<times> string) list" where
  "policyAssociation_ImportState = assoc_ImportState (policy_kind :: unit assoc_kind)"

subsection \<open>What an update does to the object\<close>

text \<open>The names every object of the server carries directly, seen through \<open>view\<close>. The documented
  effect of \<open>associateTags\<close> and \<open>associatePolicies\<close>: one request removes and adds names of the addressed object as a whole, or
  not at all. An answered request was applied. A request that ends in an error was refused, or it was applied
  and its answer was lost.\<close>

type_synonym assoc_object = "string \<times> string \<times> string"
type_synonym assoc_view = "assoc_object \<Rightarrow> string set"

definition applied :: "assoc_object \<Rightarrow> associate_request \<Rightarrow> assoc_view \<Rightarrow> assoc_view" where
  "applied obj r v = v(obj := (v obj - set (ar_Remove r)) \<union> set (ar_Add r))"

definition whole_requests :: "'w assoc_api \<Rightarrow> ('w \<Rightarrow> assoc_view) \<Rightarrow> bool" where
  "whole_requests api view \<longleftrightarrow>
     (\<forall>m t f r w. case aa_associate api m t f r w of
        (Inr _, w') \<Rightarrow> view w' = applied (m, t, f) r (view w)
      | (Inl _, w') \<Rightarrow> view w' = view w \<or> view w' = applied (m, t, f) r (view w))"

definition reads_quietly :: "'w assoc_api \<Rightarrow> ('w \<Rightarrow> assoc_view) \<Rightarrow> bool" where
  "reads_quietly api view \<longleftrightarrow>
     (\<forall>w. view (snd (aa_probe api w)) = view w) \<and> (\<forall>m n w. view (snd (aa_policy api m n w)) = view w)"

definition object_of :: "assoc_model \<Rightarrow> assoc_object" where
  "object_of m = (ValueString (am_Metalake m), ValueString (am_ObjectType m), ValueString (am_ObjectFullName m))"

text \<open>The association request is answered with an error of the given kind when the objects carry these names.\<close>

definition request_fails ::
    "'w assoc_api \<Rightarrow> ('w \<Rightarrow> assoc_view) \<Rightarrow> assoc_view \<Rightarrow> assoc_model \<Rightarrow> associate_request \<Rightarrow> (gerror \<Rightarrow> bool) \<Rightarrow> bool" where
  "request_fails api view v m r p \<longleftrightarrow> (\<exists>c err. view (vc_world c) = v \<and> fst (assoc_call api m r c) = Inl err \<and> p err)"

lemma on_world_view: "(\<And>w. view (snd (f w)) = view w) \<Longrightarrow> view (vc_world (snd (on_world f c))) = view (vc_world c)"
  by (simp add: on_world_def case_prod_beta)

lemma resolve_view:
  assumes "\<And>w. view (snd (probe w)) = view w"
  shows "view (vc_world (snd (ResolveServerVersion probe c))) = view (vc_world c)"
  using assms [of "vc_world c"]
  by (auto simp: ResolveServerVersion_def GetVersion_def setServerVersion_def Let_def split: prod.splits sum.splits)

lemma type_check_view:
  assumes "reads_quietly api view"
  shows "view (vc_world (snd (checkObjectTypeSupported api t c))) = view (vc_world c)"
  using resolve_view [of view "aa_probe api" c] assms
  by (auto simp: checkObjectTypeSupported_def CheckMetadataObjectTypeSupported_def reads_quietly_def Let_def
      split: prod.splits sum.splits option.splits if_splits)

lemma mismatches_view:
  assumes "reads_quietly api view"
  shows "view (vc_world (snd (policy_mismatches api m t names found c))) = view (vc_world c)"
proof (induction names arbitrary: found c)
  case (Cons name names)
  have q: "view (vc_world (snd (on_world (aa_policy api m name) c))) = view (vc_world c)"
    using assms by (intro on_world_view) (simp add: reads_quietly_def)
  show ?case using q Cons.IH by (auto simp: Let_def split: prod.splits sum.splits)
qed simp

definition quiet_check :: "'w assoc_kind \<Rightarrow> 'w assoc_api \<Rightarrow> ('w \<Rightarrow> assoc_view) \<Rightarrow> bool" where
  "quiet_check kind api view \<longleftrightarrow>
     (\<forall>m t ns c. view (vc_world (snd (ak_check kind api m t ns c))) = view (vc_world c))"

lemma tag_check_quiet: "quiet_check tag_kind api view"
  by (simp add: quiet_check_def tag_kind_def done_with_def)

lemma policy_check_quiet: "reads_quietly api view \<Longrightarrow> quiet_check policy_kind api view"
  using mismatches_view [of api view]
  by (auto simp: quiet_check_def policy_kind_def checkPoliciesSupportObjectType_def andThen_def done_with_def stop_if_def
      split: prod.splits sum.splits) (metis snd_conv)+

text \<open>Whatever is checked first, the request is sent last, and it is sent once.\<close>

lemma assoc_call_effect:
  assumes "whole_requests api view" "assoc_call api m r c = (ans, c')"
  shows "view (vc_world c') = applied (object_of m) r (view (vc_world c)) \<or>
    view (vc_world c') = view (vc_world c) \<and> (\<exists>err. ans = Inl err)"
proof -
  obtain w where w: "aa_associate api (ValueString (am_Metalake m)) (ValueString (am_ObjectType m))
      (ValueString (am_ObjectFullName m)) r (vc_world c) = (ans, w)" "vc_world c' = w"
    using assms(2) by (auto simp: assoc_call_def on_world_eq)
  have "case aa_associate api (ValueString (am_Metalake m)) (ValueString (am_ObjectType m)) (ValueString (am_ObjectFullName m)) r (vc_world c) of
      (Inr _, w') \<Rightarrow> view w' = applied (object_of m) r (view (vc_world c))
    | (Inl _, w') \<Rightarrow> view w' = view (vc_world c) \<or> view w' = applied (object_of m) r (view (vc_world c))"
    unfolding object_of_def
    by (rule assms(1) [unfolded whole_requests_def, THEN spec [of _ "ValueString (am_Metalake m)"],
        THEN spec [of _ "ValueString (am_ObjectType m)"], THEN spec [of _ "ValueString (am_ObjectFullName m)"], THEN spec [of _ r],
        THEN spec [of _ "vc_world c"]])
  then show ?thesis unfolding w by (cases ans) auto
qed

definition moved :: "assoc_model \<Rightarrow> assoc_model \<Rightarrow> assoc_view \<Rightarrow> assoc_view" where
  "moved state plan v =
     v(object_of plan := (v (object_of plan) - set (names_of (am_Names state))) \<union> set (names_of (am_Names plan)))"

definition update_request :: "assoc_model \<Rightarrow> assoc_model \<Rightarrow> associate_request" where
  "update_request state plan =
     (case DiffAssociationNames (names_of (am_Names state)) (names_of (am_Names plan)) of
        (toAdd, toRemove) \<Rightarrow> \<lparr>ar_Add = toAdd, ar_Remove = toRemove\<rparr>)"

lemma update_request_moves:
  assumes "set (names_of (am_Names state)) \<inter> set (names_of (am_Names plan)) \<subseteq> v (object_of plan)"
  shows "applied (object_of plan) (update_request state plan) v = moved state plan v"
  using assms by (auto simp: applied_def moved_def update_request_def DiffAssociationNames_def fun_eq_iff)

text \<open>The two resources differ in the check before the request only, which must not change the object.\<close>

locale association =
  fixes kind :: "'w assoc_kind"
  assumes quiet: "reads_quietly api view \<Longrightarrow> quiet_check kind api view"
begin

lemma update_effect:
  assumes "whole_requests api view" "reads_quietly api view"
    "set (names_of (am_Names state)) \<inter> set (names_of (am_Names plan)) \<subseteq> view (vc_world c) (object_of plan)"
    "assoc_Update kind api (Inr plan) (Inr state) c = (r, c')"
  shows "case r of
      Inl _ \<Rightarrow> view (vc_world c') = view (vc_world c) \<or>
        view (vc_world c') = moved state plan (view (vc_world c)) \<and> request_fails api view (view (vc_world c)) plan (update_request state plan) (\<lambda>_. True)
    | Inr m \<Rightarrow> view (vc_world c') = moved state plan (view (vc_world c)) \<and>
        m = Save (set_assoc_state (ValueString (am_Metalake plan)) (names_of (am_Names plan)) plan)"
proof -
  let ?t = "ValueString (am_ObjectType plan)" and ?m = "ValueString (am_Metalake plan)"
  let ?add = "ar_Add (update_request state plan)" and ?req = "update_request state plan"
  obtain r1 c1 where one: "checkObjectTypeSupported api ?t c = (r1, c1)" by force
  obtain r2 c2 where two: "ak_check kind api ?m ?t ?add c1 = (r2, c2)" by force
  obtain ans c3 where call: "assoc_call api plan ?req c2 = (ans, c3)" by force
  have v1: "view (vc_world c1) = view (vc_world c)" using type_check_view [OF assms(2), of ?t c] one by simp
  have v2: "view (vc_world c2) = view (vc_world c1)" using quiet [OF assms(2)] two unfolding quiet_check_def by (metis snd_conv)
  have mv: "applied (object_of plan) ?req (view (vc_world c)) = moved state plan (view (vc_world c))"
    using assms(3) by (rule update_request_moves)
  have eff: "view (vc_world c3) = moved state plan (view (vc_world c)) \<or>
      view (vc_world c3) = view (vc_world c) \<and> (\<exists>err. ans = Inl err)"
    using assoc_call_effect [OF assms(1) call] v1 v2 mv by simp
  have fails: "ans = Inl err \<Longrightarrow> request_fails api view (view (vc_world c)) plan ?req (\<lambda>_. True)" for err
    unfolding request_fails_def using call v1 v2 by (metis fst_conv)
  have same: "?add = [] \<Longrightarrow> ar_Remove ?req = [] \<Longrightarrow> moved state plan (view (vc_world c)) = view (vc_world c)"
    unfolding mv [symmetric] applied_def by simp
  have req: "DiffAssociationNames (names_of (am_Names state)) (names_of (am_Names plan)) = (?add, ar_Remove ?req)"
    "\<lparr>ar_Add = ?add, ar_Remove = ar_Remove ?req\<rparr> = ?req"
    by (simp_all add: update_request_def case_prod_beta)
  have "assoc_Update kind api (Inr plan) (Inr state) c =
      (case r1 of Inl ds \<Rightarrow> (Inl ds, c1)
       | Inr _ \<Rightarrow> (case r2 of Inl ds \<Rightarrow> (Inl ds, c2)
         | Inr _ \<Rightarrow> (if ?add \<noteq> [] \<or> ar_Remove ?req \<noteq> []
             then (case ans of
                 Inl err \<Rightarrow> (Inl (NewResourceError (''updating '' @ ak_noun kind @ '' of'') (ValueString (am_ObjectFullName plan)) err), c3)
               | Inr _ \<Rightarrow> (Inr (Save (set_assoc_state ?m (names_of (am_Names plan)) plan)), c3))
             else (Inr (Save (set_assoc_state ?m (names_of (am_Names plan)) plan)), c2))))"
    unfolding assoc_Update_def both_get_def
    by (cases "?add \<noteq> [] \<or> ar_Remove ?req \<noteq> []"; cases r1; cases r2; cases ans)
       (simp_all only: sum.case andThen_pure prod.case Let_def req andThen_def one two calling_def call done_with_def
          if_True if_False simp_thms)
  then show ?thesis
    using assms(4) v1 v2 eff fails same by (auto split: sum.splits if_splits)
qed

lemma delete_effect:
  assumes "whole_requests api view" "assoc_Delete kind api (Inr state) c = (r, c')"
  defines "req \<equiv> \<lparr>ar_Add = [], ar_Remove = names_of (am_Names state)\<rparr>"
  shows "(view (vc_world c') = view (vc_world c) \<or> view (vc_world c') = applied (object_of state) req (view (vc_world c))) \<and>
    (r = Inr Remove \<longrightarrow> view (vc_world c') = applied (object_of state) req (view (vc_world c)) \<or>
       request_fails api view (view (vc_world c)) state req IsNotFoundError) \<and>
    (r \<noteq> Inr Remove \<longrightarrow> request_fails api view (view (vc_world c)) state req (\<lambda>err. \<not> IsNotFoundError err))"
proof (cases "names_of (am_Names state) = []")
  case True
  then show ?thesis using assms(2) by (simp add: req_def assoc_Delete_def andThen_pure done_with_def applied_def)
next
  case False
  obtain ans c1 where call: "assoc_call api state req c = (ans, c1)" by force
  have fails: "ans = Inl err \<Longrightarrow> p err \<Longrightarrow> request_fails api view (view (vc_world c)) state req p" for err p
    unfolding request_fails_def using call by (metis fst_conv)
  show ?thesis
    using False call assms(2) assoc_call_effect [OF assms(1) call] fails
    by (auto simp: req_def [symmetric] assoc_Delete_def andThen_pure drop_or_gone_def Let_def split: sum.splits if_splits)
qed

lemma delete_swallows_missing:
  assumes "aa_associate api (ValueString (am_Metalake state)) (ValueString (am_ObjectType state)) (ValueString (am_ObjectFullName state))
      \<lparr>ar_Add = [], ar_Remove = names_of (am_Names state)\<rparr> (vc_world c) = (Inl err, vc_world c)"
    "IsNotFoundError err"
  shows "assoc_Delete kind api (Inr state) c = (Inr Remove, c)"
  using assms by (simp add: assoc_Delete_def andThen_pure done_with_def drop_or_gone_def assoc_call_def on_world_def Let_def)

end

interpretation tag_association: association tag_kind
  by unfold_locales (rule tag_check_quiet)

interpretation policy_association: association policy_kind
  by unfold_locales (rule policy_check_quiet)

lemma names_of_StringsToSet [simp]: "names_of (StringsToSet xs) = xs"
  by (simp add: names_of_def SetToStrings_def StringsToSet_def comp_def ValueString_def)

lemma saved_names: "names_of (am_Names (set_assoc_state m names a)) = names"
  by (simp add: set_assoc_state_def)

subsection \<open>Properties\<close>

text \<open>C7: On a server where an association request is applied as a whole or not at all, and may be
  refused or lose its answer, a saved update of a tag or policy association has brought the object from the recorded to the
  planned names: the names of others stay, what was recorded and is no longer planned has left, what is planned is
  there, no other object has changed, and the planned names are recorded. A failed update has changed nothing,
  or everything when the request was answered with an error. Destroying removes exactly the recorded names or nothing; the
  association leaves the state only when they are gone or the server answered 404, and stays only after another error.\<close>

theorem association_update_converges:
  assumes "whole_requests api view" "reads_quietly api view"
    "upd \<in> {tagAssociation_Update, policyAssociation_Update}" "destroy \<in> {tagAssociation_Delete, policyAssociation_Delete}"
    "set (names_of (am_Names state)) \<inter> set (names_of (am_Names plan)) \<subseteq> view (vc_world c) (object_of plan)"
  shows "(case upd api (Inr plan) (Inr state) c of
       (Inl _, c') \<Rightarrow> view (vc_world c') = view (vc_world c) \<or>
         view (vc_world c') = moved state plan (view (vc_world c)) \<and> request_fails api view (view (vc_world c)) plan (update_request state plan) (\<lambda>_. True)
     | (Inr m, c') \<Rightarrow>
         view (vc_world c') = moved state plan (view (vc_world c)) \<and>
         (\<exists>saved. m = Save saved \<and> names_of (am_Names saved) = names_of (am_Names plan)))
    \<and> (case destroy api (Inr state) c of
        (r, c') \<Rightarrow>
          let req = \<lparr>ar_Add = [], ar_Remove = names_of (am_Names state)\<rparr>;
              gone = applied (object_of state) req (view (vc_world c)) in
          (view (vc_world c') = view (vc_world c) \<or> view (vc_world c') = gone) \<and>
          (r = Inr Remove \<longrightarrow> view (vc_world c') = gone \<or> request_fails api view (view (vc_world c)) state req IsNotFoundError) \<and>
          (r \<noteq> Inr Remove \<longrightarrow> request_fails api view (view (vc_world c)) state req (\<lambda>err. \<not> IsNotFoundError err)))"
proof
  obtain r c' where run: "upd api (Inr plan) (Inr state) c = (r, c')" by force
  note eff = tag_association.update_effect [OF assms(1,2,5)] policy_association.update_effect [OF assms(1,2,5)]
  show "case upd api (Inr plan) (Inr state) c of
       (Inl _, c') \<Rightarrow> view (vc_world c') = view (vc_world c) \<or>
         view (vc_world c') = moved state plan (view (vc_world c)) \<and> request_fails api view (view (vc_world c)) plan (update_request state plan) (\<lambda>_. True)
     | (Inr m, c') \<Rightarrow>
         view (vc_world c') = moved state plan (view (vc_world c)) \<and>
         (\<exists>saved. m = Save saved \<and> names_of (am_Names saved) = names_of (am_Names plan))"
    using assms(3) run eff [of r c']
    by (cases r) (auto simp: tagAssociation_Update_def policyAssociation_Update_def saved_names)
  obtain s d where out: "destroy api (Inr state) c = (s, d)" by force
  have "assoc_Delete tag_kind api (Inr state) c = (s, d) \<or> assoc_Delete policy_kind api (Inr state) c = (s, d)"
    using assms(4) out by (auto simp: tagAssociation_Delete_def policyAssociation_Delete_def)
  then have gone: "let req = \<lparr>ar_Add = [], ar_Remove = names_of (am_Names state)\<rparr>;
        gone = applied (object_of state) req (view (vc_world c)) in
      (view (vc_world d) = view (vc_world c) \<or> view (vc_world d) = gone) \<and>
      (s = Inr Remove \<longrightarrow> view (vc_world d) = gone \<or> request_fails api view (view (vc_world c)) state req IsNotFoundError) \<and>
      (s \<noteq> Inr Remove \<longrightarrow> request_fails api view (view (vc_world c)) state req (\<lambda>err. \<not> IsNotFoundError err))"
    unfolding Let_def using tag_association.delete_effect [OF assms(1)] policy_association.delete_effect [OF assms(1)] by blast
  show "case destroy api (Inr state) c of
        (r, c') \<Rightarrow>
          let req = \<lparr>ar_Add = [], ar_Remove = names_of (am_Names state)\<rparr>;
              gone = applied (object_of state) req (view (vc_world c)) in
          (view (vc_world c') = view (vc_world c) \<or> view (vc_world c') = gone) \<and>
          (r = Inr Remove \<longrightarrow> view (vc_world c') = gone \<or> request_fails api view (view (vc_world c)) state req IsNotFoundError) \<and>
          (r \<noteq> Inr Remove \<longrightarrow> request_fails api view (view (vc_world c)) state req (\<lambda>err. \<not> IsNotFoundError err))"
    using gone unfolding out prod.case .
qed

text \<open>The world of the witnesses: the names on every object; every policy supports tables. The server refuses to remove
  the name gone, which it does not know, and loses the answer of a request that adds the name lost.\<close>

definition demo_assoc_api :: "assoc_view assoc_api" where
  "demo_assoc_api =
     \<lparr>aa_associate = (\<lambda>m t f r v.
        if ''gone'' \<in> set (ar_Remove r) then (Inl no_such_catalog, v)
        else (if ''lost'' \<in> set (ar_Add r) then Inl (ErrText ''timeout'') else Inr [], applied (m, t, f) r v)),
      aa_list = (\<lambda>m t f w. (Inr [], w)),
      aa_policy = (\<lambda>m n w. (Inr \<lparr>po_Name = n, po_Comment = [], po_PolicyType = ''custom'', po_Enabled = True,
         po_Content = Some \<lparr>pc_SupportedObjectTypes = Some [''table''], pc_Properties = None, pc_CustomRules = None\<rparr>,
         po_Inherited = None, po_Audit = None\<rparr>, w)),
      aa_probe = (\<lambda>w. (Inr ''1.3.0'', w))\<rparr>"

definition demo_assoc :: "string list \<Rightarrow> assoc_model" where
  "demo_assoc names =
     \<lparr>am_ID = TNull, am_Metalake = TKnown ''ml'', am_ObjectType = TKnown ''TABLE'',
      am_ObjectFullName = TKnown ''c.s.t'', am_Names = StringsToSet names\<rparr>"

lemma demo_names [simp]: "names_of (am_Names (demo_assoc names)) = names"
  by (simp add: demo_assoc_def)

lemma demo_object [simp]: "object_of (demo_assoc names) = (''ml'', ''TABLE'', ''c.s.t'')"
  by (simp add: object_of_def demo_assoc_def ValueString_def)

lemma demo_laws: "whole_requests demo_assoc_api (\<lambda>w. w)" "reads_quietly demo_assoc_api (\<lambda>w. w)"
  by (auto simp: whole_requests_def reads_quietly_def demo_assoc_api_def)

lemma demo_checks:
  "checkObjectTypeSupported demo_assoc_api ''TABLE'' c = (Inr (), c)"
  "checkPoliciesSupportObjectType demo_assoc_api m ''TABLE'' names c = (Inr (), c)"
proof -
  have up: "CanonicalObjectType ''TABLE'' = ''TABLE''" "map to_upper [''table''] = [''TABLE'']" by code_simp+
  have "policy_mismatches demo_assoc_api m ''TABLE'' names found c = (Inr found, c)" for found
    by (induction names arbitrary: found)
      (simp_all add: demo_assoc_api_def on_world_def policySupportedObjectTypes_def NormalizePolicyObjectTypes_def up [simplified])
  then show "checkPoliciesSupportObjectType demo_assoc_api m ''TABLE'' names c = (Inr (), c)"
    by (simp add: checkPoliciesSupportObjectType_def up andThen_def done_with_def stop_if_def)
  show "checkObjectTypeSupported demo_assoc_api ''TABLE'' c = (Inr (), c)"
    by (simp add: checkObjectTypeSupported_def CheckMetadataObjectTypeSupported_def ObjectTypeRequiresGravitino131_def up)
qed

definition demo_names_on :: "string set \<Rightarrow> assoc_view vclient" where
  "demo_names_on names = \<lparr>vc_version = [], vc_world = (\<lambda>obj. if obj = (''ml'', ''TABLE'', ''c.s.t'') then names else {''p1''})\<rparr>"

theorem association_update_converges_witness:
  "let start = demo_names_on {''theirs'', ''p1'', ''p2''};
       u = policyAssociation_Update demo_assoc_api (Inr (demo_assoc [''p2'', ''p3''])) (Inr (demo_assoc [''p1'', ''p2''])) start;
       d = tagAssociation_Delete demo_assoc_api (Inr (demo_assoc [''p1'', ''p2''])) start in
   fst u = Inr (Save (set_assoc_state ''ml'' [''p2'', ''p3''] (demo_assoc [''p2'', ''p3'']))) \<and>
   vc_world (snd u) (''ml'', ''TABLE'', ''c.s.t'') = {''theirs'', ''p2'', ''p3''} \<and>
   vc_world (snd u) (''ml'', ''TABLE'', ''c.s.u'') = {''p1''} \<and>
   fst d = Inr Remove \<and> vc_world (snd d) (''ml'', ''TABLE'', ''c.s.t'') = {''theirs''}"
proof -
  let ?s = "demo_names_on {''theirs'', ''p1'', ''p2''}" and ?plan = "demo_assoc [''p2'', ''p3'']" and ?state = "demo_assoc [''p1'', ''p2'']"
  let ?u = "policyAssociation_Update demo_assoc_api (Inr ?plan) (Inr ?state) ?s"
  let ?d = "tagAssociation_Delete demo_assoc_api (Inr ?state) ?s"
  have ran: "fst ?u = Inr (Save (set_assoc_state ''ml'' [''p2'', ''p3''] ?plan))"
    by (simp add: policyAssociation_Update_def assoc_Update_def both_get_def andThen_pure andThen_def policy_kind_def demo_checks
        demo_assoc_def [THEN arg_cong [where f = am_ObjectType]] demo_assoc_def [THEN arg_cong [where f = am_Metalake]]
        DiffAssociationNames_def calling_def assoc_call_def on_world_def demo_assoc_api_def [THEN arg_cong [where f = aa_associate]]
        done_with_def ValueString_def Let_def)
  have dropped: "fst ?d = Inr Remove"
    by (simp add: tagAssociation_Delete_def assoc_Delete_def andThen_pure drop_or_gone_def assoc_call_def on_world_def
        demo_assoc_api_def Let_def)
  have answered: "\<not> request_fails demo_assoc_api (\<lambda>w. w) (vc_world ?s) ?state \<lparr>ar_Add = [], ar_Remove = [''p1'', ''p2'']\<rparr> IsNotFoundError"
    by (simp add: request_fails_def assoc_call_def on_world_def demo_assoc_api_def)
  have "set (names_of (am_Names ?state)) \<inter> set (names_of (am_Names ?plan)) \<subseteq> vc_world ?s (object_of ?plan)"
    by (simp add: demo_names_on_def)
  note t = association_update_converges [OF demo_laws, where upd = policyAssociation_Update and destroy = tagAssociation_Delete
      and plan = ?plan, OF _ _ this]
  have "vc_world (snd ?u) = moved ?state ?plan (vc_world ?s)"
    using t ran by (auto split: prod.splits)
  moreover have "vc_world (snd ?d) = applied (object_of ?state) \<lparr>ar_Add = [], ar_Remove = [''p1'', ''p2'']\<rparr> (vc_world ?s)"
    using t dropped answered by (auto simp: Let_def split: prod.splits)
  ultimately show ?thesis
    using ran dropped unfolding Let_def by (auto simp: moved_def applied_def demo_names_on_def)
qed

text \<open>A destroy that is answered 404 because one of several recorded names is gone drops the
  association from the state and leaves the other names attached.\<close>

theorem association_destroy_leaks:
  assumes "missing \<in> set (names_of (am_Names state))"
    "\<And>m t f r w. missing \<in> set (ar_Remove r) \<Longrightarrow> \<exists>err. aa_associate api m t f r w = (Inl err, w) \<and> IsNotFoundError err"
    "destroy \<in> {tagAssociation_Delete, policyAssociation_Delete}"
  shows "destroy api (Inr state) c = (Inr Remove, c)"
proof -
  obtain err where
    "aa_associate api (ValueString (am_Metalake state)) (ValueString (am_ObjectType state)) (ValueString (am_ObjectFullName state))
      \<lparr>ar_Add = [], ar_Remove = names_of (am_Names state)\<rparr> (vc_world c) = (Inl err, vc_world c)" "IsNotFoundError err"
    using assms(1,2) by (metis associate_request.select_convs(2))
  then show ?thesis
    using assms(3) tag_association.delete_swallows_missing policy_association.delete_swallows_missing
    by (auto simp: tagAssociation_Delete_def policyAssociation_Delete_def)
qed

theorem association_destroy_leaks_witness:
  "case tagAssociation_Delete demo_assoc_api (Inr (demo_assoc [''kept'', ''gone''])) (demo_names_on {''kept''}) of
     (r, c) \<Rightarrow> r = Inr Remove \<and> ''kept'' \<in> vc_world c (''ml'', ''TABLE'', ''c.s.t'')"
proof -
  have "IsNotFoundError no_such_catalog" by code_simp
  then show ?thesis
    by (subst association_destroy_leaks [where missing = "''gone''"]) (simp_all add: demo_assoc_api_def demo_names_on_def)
qed

end
