(* ===== verification/PartitionResource.thy ===== *)
theory PartitionResource
  imports Entity TableModel
begin

section \<open>Partitions (models/partition.go, resources/partition/resource.go)\<close>

text \<open>
  A partition of a table is of one of three dialects: an identity partition has field names and values and a
  name the catalog derives from them, a range partition has two bounds, a list partition lists of literals.
  The API can only add and drop partitions, so every change replaces the resource and \<open>Update\<close>
  reports an error.
\<close>

record partition =
  pn_Type :: string
  pn_Name :: string
  pn_FieldNames :: "string list list"
  pn_Values :: "literal list"
  pn_Upper :: "literal option"
  pn_Lower :: "literal option"
  pn_Lists :: "literal list list"
  pn_Properties :: "string gomap"

record literal_tf =
  ltf_data_type :: "string tfval"
  ltf_value :: "string tfval"

type_synonym tf_literals = "literal_tf tfval list tfval"

record partition_model =
  ptm_ID :: "string tfval"
  ptm_Metalake :: "string tfval"
  ptm_Catalog :: "string tfval"
  ptm_Schema :: "string tfval"
  ptm_Table :: "string tfval"
  ptm_Type :: "string tfval"
  ptm_Name :: "string tfval"
  ptm_FieldNames :: "tf_strings list tfval"
  ptm_Values :: tf_literals
  ptm_Upper :: "literal_tf tfval"
  ptm_Lower :: "literal_tf tfval"
  ptm_Lists :: "tf_literals list tfval"
  ptm_Properties :: tf_map

record 'w partition_api =
  pta_add :: "string list \<Rightarrow> partition list \<Rightarrow> 'w \<Rightarrow> (gerror + partition list) \<times> 'w"
  pta_get :: "string list \<Rightarrow> string \<Rightarrow> 'w \<Rightarrow> (gerror + partition) \<times> 'w"
  pta_drop :: "string list \<Rightarrow> string \<Rightarrow> 'w \<Rightarrow> (gerror + bool) \<times> 'w"

subsection \<open>Literals and lists\<close>

definition LiteralToObjectValue :: "literal \<Rightarrow> literal_tf tfval" where
  "LiteralToObjectValue l =
     TKnown \<lparr>ltf_data_type = (case lit_DataType l of None \<Rightarrow> TNull | Some d \<Rightarrow> TKnown (DataType_String d)),
       ltf_value = TKnown (lit_Value l)\<rparr>"

definition LiteralFromObjectValue :: "literal_tf tfval \<Rightarrow> diags + literal" where
  "LiteralFromObjectValue v =
     (case v of
        TKnown x \<Rightarrow>
          (let l = \<lparr>lit_Type = ''literal'', lit_DataType = None, lit_Value = ValueString (ltf_value x)\<rparr> in
           case ltf_data_type x of
             TKnown s \<Rightarrow>
               if s = [] then Inr l
               else (case ParseDataType s of
                       Inl err \<Rightarrow> Inl [error_diag ''Invalid partition value type'' (err_text err)]
                     | Inr d \<Rightarrow> Inr (l\<lparr>lit_DataType := Some d\<rparr>))
           | _ \<Rightarrow> Inr l)
      | _ \<Rightarrow> Inr \<lparr>lit_Type = [], lit_DataType = None, lit_Value = []\<rparr>)"

definition FieldNamesToList :: "string list list \<Rightarrow> tf_strings list tfval" where
  "FieldNamesToList fieldNames =
     (if fieldNames = [] then TNull else TKnown (map (\<lambda>f. TKnown (map TKnown f)) fieldNames))"

definition FieldNamesFromList :: "('a fw_scheme) \<Rightarrow> tf_strings list tfval \<Rightarrow> diags + string list list" where
  "FieldNamesFromList fw v = (case v of TKnown vs \<Rightarrow> inner_lists fw vs | _ \<Rightarrow> Inr [])"

definition LiteralsToList :: "literal list \<Rightarrow> tf_literals" where
  "LiteralsToList ls = (if ls = [] then TNull else TKnown (map LiteralToObjectValue ls))"

text \<open>The loops that convert a list stop at the first element that fails.\<close>

fun all_or_first :: "('v \<Rightarrow> diags + 'a) \<Rightarrow> 'v list \<Rightarrow> diags + 'a list" where
  "all_or_first f [] = Inr []"
| "all_or_first f (v # vs) =
     (case f v of Inl ds \<Rightarrow> Inl ds | Inr x \<Rightarrow> map_sum (\<lambda>ds. ds) (\<lambda>xs. x # xs) (all_or_first f vs))"

definition LiteralsFromList :: "tf_literals \<Rightarrow> diags + literal list" where
  "LiteralsFromList v = (case v of TKnown vs \<Rightarrow> all_or_first LiteralFromObjectValue vs | _ \<Rightarrow> Inr [])"

definition LiteralListsToList :: "literal list list \<Rightarrow> tf_literals list tfval" where
  "LiteralListsToList lss = (if lss = [] then TNull else TKnown (map LiteralsToList lss))"

definition LiteralListsFromList :: "tf_literals list tfval \<Rightarrow> diags + literal list list" where
  "LiteralListsFromList v = (case v of TKnown vs \<Rightarrow> all_or_first LiteralsFromList vs | _ \<Rightarrow> Inr [])"

subsection \<open>Requests\<close>

definition bad_attributes :: "string \<Rightarrow> bool \<Rightarrow> diags" where
  "bad_attributes text b = (if b then [attribute_error [AtName ''type''] ''Invalid partition attributes'' text] else [])"

definition missing_attribute :: "string \<Rightarrow> string \<Rightarrow> string \<Rightarrow> bool \<Rightarrow> diags" where
  "missing_attribute name summary text b = (if b then [attribute_error [AtName name] summary text] else [])"

definition validatePartitionSpec :: "partition_model \<Rightarrow> diags" where
  "validatePartitionSpec m =
     (let range_given = bad_attributes ''upper and lower belong to a range partition.''
            (\<not> IsNull (ptm_Upper m) \<or> \<not> IsNull (ptm_Lower m));
          lists_given = bad_attributes ''lists belongs to a list partition.'' (\<not> IsNull (ptm_Lists m));
          identity_given = bad_attributes ''field_names and values belong to an identity partition.''
            (\<not> IsNull (ptm_FieldNames m) \<or> \<not> IsNull (ptm_Values m)) in
      if ValueString (ptm_Type m) = ''identity'' then
        missing_attribute ''field_names'' ''Missing field_names'' ''An identity partition requires field_names.'' (IsNull (ptm_FieldNames m))
        @ missing_attribute ''values'' ''Missing values'' ''An identity partition requires values.'' (IsNull (ptm_Values m))
        @ range_given @ lists_given
      else if ValueString (ptm_Type m) = ''range'' then
        missing_attribute ''name'' ''Missing name'' ''A range partition requires a name.'' (IsNull (ptm_Name m))
        @ missing_attribute ''type'' ''Missing range bounds'' ''A range partition requires upper and lower.''
            (IsNull (ptm_Upper m) \<or> IsNull (ptm_Lower m))
        @ identity_given @ lists_given
      else if ValueString (ptm_Type m) = ''list'' then
        missing_attribute ''name'' ''Missing name'' ''A list partition requires a name.'' (IsNull (ptm_Name m))
        @ missing_attribute ''lists'' ''Missing lists'' ''A list partition requires lists.'' (IsNull (ptm_Lists m))
        @ identity_given @ range_given
      else [])"

definition literalFromObject :: "literal_tf tfval \<Rightarrow> diags + literal option" where
  "literalFromObject v = (case v of TKnown _ \<Rightarrow> map_sum (\<lambda>ds. ds) Some (LiteralFromObjectValue v) | _ \<Rightarrow> Inr None)"

definition mapFromModel :: "('a fw_scheme) \<Rightarrow> tf_map \<Rightarrow> diags + string gomap" where
  "mapFromModel fw v = (case v of TKnown m \<Rightarrow> fw_map fw m | _ \<Rightarrow> Inr [])"

definition errors_of :: "diags + 'a \<Rightarrow> diags" where
  "errors_of r = (case r of Inl ds \<Rightarrow> ds | Inr _ \<Rightarrow> [])"

definition partitionFromModel :: "('a fw_scheme) \<Rightarrow> partition_model \<Rightarrow> diags + partition" where
  "partitionFromModel fw m =
     (let props = mapFromModel fw (ptm_Properties m); fieldNames = FieldNamesFromList fw (ptm_FieldNames m);
          vals = LiteralsFromList (ptm_Values m); literals = LiteralListsFromList (ptm_Lists m);
          upper = literalFromObject (ptm_Upper m); lower = literalFromObject (ptm_Lower m);
          type = ValueString (ptm_Type m) in
      case (props, fieldNames, vals, literals) of
        (Inr ps, Inr fs, Inr vs, Inr ls) \<Rightarrow>
          (case (upper, lower) of
             (Inr u, Inr lo) \<Rightarrow>
               Inr \<lparr>pn_Type = type, pn_Name = (if type = ''identity'' then [] else ValueString (ptm_Name m)),
                    pn_FieldNames = fs, pn_Values = vs, pn_Upper = u, pn_Lower = lo, pn_Lists = ls, pn_Properties = ps\<rparr>
           | _ \<Rightarrow> Inl (errors_of upper @ errors_of lower))
      | _ \<Rightarrow> Inl (errors_of props @ errors_of fieldNames @ errors_of vals @ errors_of literals))"

subsection \<open>State\<close>

definition partitionID :: "string \<Rightarrow> string \<Rightarrow> string \<Rightarrow> string \<Rightarrow> string \<Rightarrow> string" where
  "partitionID m c s t n = m @ ''.'' @ c @ ''.'' @ s @ ''.'' @ t @ ''.'' @ n"

definition objectFromLiteral :: "literal option \<Rightarrow> literal_tf tfval" where
  "objectFromLiteral l = (case l of None \<Rightarrow> TNull | Some x \<Rightarrow> LiteralToObjectValue x)"

definition mergePartitionProperties :: "('a fw_scheme) \<Rightarrow> string gomap \<Rightarrow> tf_map \<Rightarrow> diags + tf_map" where
  "mergePartitionProperties fw server desired =
     (case desired of
        TKnown dm \<Rightarrow>
          (case fw_map fw dm of
             Inl es \<Rightarrow> Inl es
           | Inr managed \<Rightarrow>
               Inr (if managed = [] then desired else TKnown (known_map (merge_managed True server managed))))
      | _ \<Rightarrow> Inr (if server = [] then TNull else TKnown (known_map server)))"

definition setPartitionState ::
    "('a fw_scheme) \<Rightarrow> partition \<Rightarrow> partition_model \<Rightarrow> tf_map \<Rightarrow> diags + partition_model" where
  "setPartitionState fw p m desired =
     map_sum (\<lambda>ds. ds)
       (\<lambda>properties.
          m\<lparr>ptm_Type := TKnown (pn_Type p), ptm_Name := TKnown (pn_Name p),
            ptm_FieldNames := FieldNamesToList (pn_FieldNames p), ptm_Values := LiteralsToList (pn_Values p),
            ptm_Lists := LiteralListsToList (pn_Lists p), ptm_Upper := objectFromLiteral (pn_Upper p),
            ptm_Lower := objectFromLiteral (pn_Lower p), ptm_Properties := properties,
            ptm_ID := TKnown (partitionID (ValueString (ptm_Metalake m)) (ValueString (ptm_Catalog m))
              (ValueString (ptm_Schema m)) (ValueString (ptm_Table m)) (pn_Name p))\<rparr>)
       (mergePartitionProperties fw (pn_Properties p) desired)"

subsection \<open>Handlers\<close>

definition partition_location :: "partition_model \<Rightarrow> string list" where
  "partition_location m =
     [ValueString (ptm_Metalake m), ValueString (ptm_Catalog m), ValueString (ptm_Schema m), ValueString (ptm_Table m)]"

text \<open>The plan is \<open>None\<close> when the resource is being destroyed.\<close>

definition partition_ModifyPlan :: "(diags + partition_model) option \<Rightarrow> diags + partition_model option" where
  "partition_ModifyPlan planGet =
     (case planGet of
        None \<Rightarrow> Inr None
      | Some (Inl ds) \<Rightarrow> Inl ds
      | Some (Inr plan) \<Rightarrow>
          Inr (Some (if ValueString (ptm_Type plan) \<noteq> ''identity'' then plan
                     else if IsUnknown (ptm_Name plan) then plan
                     else plan\<lparr>ptm_Name := TUnknown\<rparr>)))"

definition partition_Create ::
    "('a fw_scheme) \<Rightarrow> 'w partition_api \<Rightarrow> diags + partition_model \<Rightarrow> (partition_model state_write, 'w) step" where
  "partition_Create fw api planGet =
     andThen (pure_step planGet) (\<lambda>plan.
     andThen (stop_if (HasError (validatePartitionSpec plan)) (validatePartitionSpec plan)) (\<lambda>_.
     andThen (pure_step (partitionFromModel fw plan)) (\<lambda>p.
     andThen (calling (pta_add api (partition_location plan) [p]) (NewResourceError ''adding partition'' (ValueString (ptm_Name plan)))) (\<lambda>added.
     case added of
       [] \<Rightarrow> pure_step (Inl [error_diag ''Partition not returned''
               ''Gravitino accepted the add partitions request but returned no partition.''])
     | first # _ \<Rightarrow>
         andThen (pure_step (setPartitionState fw first plan (ptm_Properties plan))) (\<lambda>m. done_with (Save m))))))"

definition partition_Read ::
    "('a fw_scheme) \<Rightarrow> 'w partition_api \<Rightarrow> diags + partition_model \<Rightarrow> (partition_model state_write, 'w) step" where
  "partition_Read fw api stateGet =
     andThen (pure_step stateGet) (\<lambda>state.
       refresh (pta_get api (partition_location state) (ValueString (ptm_Name state)))
         (NewResourceError ''reading partition'' (ValueString (ptm_Name state)))
         (\<lambda>p. setPartitionState fw p state (ptm_Properties state)))"

definition partition_Update :: "(partition_model state_write, 'w) step" where
  "partition_Update =
     pure_step (Inl [error_diag ''Partition update not supported''
       (''Gravitino v1.3.0 only exposes add partitions and drop partition; a partition cannot be modified. '' @
        ''Every attribute of gravitino_partition forces a replacement, so reaching this code path is a provider bug.'')])"

definition partition_Delete ::
    "'w partition_api \<Rightarrow> diags + partition_model \<Rightarrow> (partition_model state_write, 'w) step" where
  "partition_Delete api stateGet =
     andThen (pure_step stateGet) (\<lambda>state.
       drop_or_gone (pta_drop api (partition_location state) (ValueString (ptm_Name state)))
         (NewResourceError ''dropping partition'' (ValueString (ptm_Name state))))"

definition partition_ImportState :: "string \<Rightarrow> diagnostic + (string \<times> string) list" where
  "partition_ImportState reqID =
     (case SplitImportID 5 ''metalake.catalog.schema.table.partition'' reqID of
        Inl d \<Rightarrow> Inl d
      | Inr parts \<Rightarrow> Inr [(''metalake'', parts ! 0), (''catalog'', parts ! 1), (''schema'', parts ! 2),
                         (''table'', parts ! 3), (''name'', parts ! 4), (''id'', reqID)])"

subsection \<open>Conversions are inverse\<close>

text \<open>A literal the API answers: with no data type or with one whose text the parser reads back.\<close>

definition stable_literal :: "literal \<Rightarrow> bool" where
  "stable_literal l \<longleftrightarrow> lit_Type l = ''literal'' \<and>
     (case lit_DataType l of None \<Rightarrow> True | Some d \<Rightarrow> ParseDataType (DataType_String d) = Inr d)"

lemma parse_empty: "ParseDataType [] \<noteq> Inr d"
  by (simp add: ParseDataType_def trim_space_def)

lemma literal_object_roundtrip:
  assumes "stable_literal l"
  shows "LiteralFromObjectValue (LiteralToObjectValue l) = Inr l"
proof (cases "lit_DataType l")
  case (Some d)
  then have "ParseDataType (DataType_String d) = Inr d" "DataType_String d \<noteq> []"
    using assms parse_empty by (auto simp: stable_literal_def)
  then show ?thesis
    using Some assms by (cases l) (simp add: LiteralFromObjectValue_def LiteralToObjectValue_def Let_def stable_literal_def)
qed (use assms in \<open>cases l; simp add: LiteralFromObjectValue_def LiteralToObjectValue_def stable_literal_def\<close>)

lemma all_or_first_map: "(\<And>x. x \<in> set xs \<Longrightarrow> f (g x) = Inr x) \<Longrightarrow> all_or_first f (map g xs) = Inr xs"
  by (induction xs) simp_all

lemma literals_roundtrip: "\<forall>l \<in> set ls. stable_literal l \<Longrightarrow> LiteralsFromList (LiteralsToList ls) = Inr ls"
  by (simp add: LiteralsFromList_def LiteralsToList_def all_or_first_map literal_object_roundtrip)

lemma literal_lists_roundtrip:
  "\<forall>ls \<in> set lss. \<forall>l \<in> set ls. stable_literal l \<Longrightarrow> LiteralListsFromList (LiteralListsToList lss) = Inr lss"
  by (simp add: LiteralListsFromList_def LiteralListsToList_def all_or_first_map literals_roundtrip)

lemma field_names_roundtrip:
  assumes "fw_decodes fw"
  shows "FieldNamesFromList fw (FieldNamesToList fs) = Inr fs"
proof -
  have "inner_lists fw (map (\<lambda>f. TKnown (map TKnown f)) fs) = Inr fs"
    using assms by (induction fs) (simp_all add: fw_decodes_def)
  then show ?thesis by (simp add: FieldNamesFromList_def FieldNamesToList_def)
qed

lemma literal_option_roundtrip:
  "(\<And>l. x = Some l \<Longrightarrow> stable_literal l) \<Longrightarrow> literalFromObject (objectFromLiteral x) = Inr x"
  by (cases x) (use literal_object_roundtrip in \<open>auto simp: literalFromObject_def objectFromLiteral_def LiteralToObjectValue_def\<close>)

subsection \<open>Properties\<close>

definition partition_literals :: "partition \<Rightarrow> literal list" where
  "partition_literals p =
     pn_Values p @ concat (pn_Lists p) @ (case pn_Upper p of None \<Rightarrow> [] | Some l \<Rightarrow> [l])
       @ (case pn_Lower p of None \<Rightarrow> [] | Some l \<Rightarrow> [l])"

text \<open>The dialects of the API.\<close>

definition of_dialect :: "partition \<Rightarrow> bool" where
  "of_dialect p \<longleftrightarrow>
     (if pn_Type p = ''identity''
      then pn_FieldNames p \<noteq> [] \<and> pn_Values p \<noteq> [] \<and> pn_Upper p = None \<and> pn_Lower p = None \<and> pn_Lists p = []
      else if pn_Type p = ''range''
      then pn_Upper p \<noteq> None \<and> pn_Lower p \<noteq> None \<and> pn_FieldNames p = [] \<and> pn_Values p = [] \<and> pn_Lists p = []
      else pn_Type p = ''list'' \<and> pn_Lists p \<noteq> [] \<and> pn_FieldNames p = [] \<and> pn_Values p = []
        \<and> pn_Upper p = None \<and> pn_Lower p = None)"

definition spec_of :: "partition \<Rightarrow> partition" where
  "spec_of p = p\<lparr>pn_Name := if pn_Type p = ''identity'' then [] else pn_Name p\<rparr>"

lemma absent_iff [simp]:
  "IsNull (FieldNamesToList fs) \<longleftrightarrow> fs = []" "IsNull (LiteralsToList ls) \<longleftrightarrow> ls = []"
  "IsNull (LiteralListsToList lss) \<longleftrightarrow> lss = []" "IsNull (objectFromLiteral x) \<longleftrightarrow> x = None"
  by (simp_all add: FieldNamesToList_def LiteralsToList_def LiteralListsToList_def objectFromLiteral_def LiteralToObjectValue_def
      split: option.split)

text \<open>C9: A partition that is read into a model without managed properties is sent back as it was: the model
  passes the validation of its dialect, and the request carries the same field names, values, bounds, lists and
  properties; only the name of an identity partition, which the catalog derives, is left out. An
  imported partition is therefore recreated as it is by a replacement.\<close>

theorem partition_spec_roundtrip:
  assumes "fw_decodes fw" "wf_map (pn_Properties p)" "list_all stable_literal (partition_literals p)" "of_dialect p"
  shows "\<exists>m' q. setPartitionState fw p m TNull = Inr m' \<and> validatePartitionSpec m' = [] \<and>
    partitionFromModel fw m' = Inr q \<and> mset (pn_Properties q) = mset (pn_Properties p) \<and>
    q\<lparr>pn_Properties := pn_Properties p\<rparr> = spec_of p"
proof -
  let ?props = "if pn_Properties p = [] then TNull else TKnown (known_map (pn_Properties p))"
  obtain m' where m': "setPartitionState fw p m TNull = Inr m'"
      "ptm_Type m' = TKnown (pn_Type p)" "ptm_Name m' = TKnown (pn_Name p)" "ptm_FieldNames m' = FieldNamesToList (pn_FieldNames p)"
      "ptm_Values m' = LiteralsToList (pn_Values p)" "ptm_Lists m' = LiteralListsToList (pn_Lists p)"
      "ptm_Upper m' = objectFromLiteral (pn_Upper p)" "ptm_Lower m' = objectFromLiteral (pn_Lower p)" "ptm_Properties m' = ?props"
    by (simp add: setPartitionState_def mergePartitionProperties_def)
  obtain ps where ps: "mapFromModel fw ?props = Inr ps" "mset ps = mset (pn_Properties p)"
    using assms(1,2) by (cases "pn_Properties p = []") (fastforce simp: mapFromModel_def fw_decodes_def)+
  have lits: "\<forall>l \<in> set (pn_Values p). stable_literal l" "\<forall>ls \<in> set (pn_Lists p). \<forall>l \<in> set ls. stable_literal l"
      "\<And>l. pn_Upper p = Some l \<Longrightarrow> stable_literal l" "\<And>l. pn_Lower p = Some l \<Longrightarrow> stable_literal l"
    using assms(3) by (auto simp: partition_literals_def list_all_iff)
  have "partitionFromModel fw m' = Inr ((spec_of p)\<lparr>pn_Properties := ps\<rparr>)"
    using ps(1) field_names_roundtrip [OF assms(1)] literals_roundtrip [OF lits(1)] literal_lists_roundtrip [OF lits(2)]
      literal_option_roundtrip [OF lits(3)] literal_option_roundtrip [OF lits(4)]
    unfolding partitionFromModel_def m' by (simp add: spec_of_def)
  moreover have "validatePartitionSpec m' = []"
    using assms(4) unfolding validatePartitionSpec_def m'
    by (auto simp: of_dialect_def Let_def bad_attributes_def missing_attribute_def split: if_splits)
  ultimately show ?thesis
    using m'(1) ps(2) by (intro exI [of _ m'] exI [of _ "(spec_of p)\<lparr>pn_Properties := ps\<rparr>"]) (simp add: spec_of_def)
qed

definition day_partition :: partition where
  "day_partition =
     \<lparr>pn_Type = ''identity'', pn_Name = ''dt=2024'', pn_FieldNames = [[''dt'']],
      pn_Values = [NewLiteral (primitive ''date'') ''2024''], pn_Upper = None, pn_Lower = None, pn_Lists = [], pn_Properties = [(''k'', ''v'')]\<rparr>"

definition empty_partition_model :: partition_model where
  "empty_partition_model =
     \<lparr>ptm_ID = TNull, ptm_Metalake = TKnown ''m'', ptm_Catalog = TKnown ''c'', ptm_Schema = TKnown ''s'', ptm_Table = TKnown ''t'',
      ptm_Type = TKnown ''identity'', ptm_Name = TUnknown, ptm_FieldNames = TNull, ptm_Values = TNull, ptm_Upper = TNull,
      ptm_Lower = TNull, ptm_Lists = TNull, ptm_Properties = TNull\<rparr>"

theorem partition_spec_roundtrip_witness:
  "\<exists>m' q. setPartitionState strict_fw day_partition empty_partition_model TNull = Inr m' \<and>
     validatePartitionSpec m' = [] \<and> partitionFromModel strict_fw m' = Inr q \<and>
     mset (pn_Properties q) = {#(''k'', ''v'')#} \<and> q\<lparr>pn_Properties := [(''k'', ''v'')]\<rparr> = day_partition\<lparr>pn_Name := []\<rparr>"
proof -
  have lits: "list_all stable_literal (partition_literals day_partition)" by code_simp
  have "wf_map (pn_Properties day_partition)" "of_dialect day_partition" by (simp_all add: day_partition_def of_dialect_def)
  from partition_spec_roundtrip [OF strict_fw_decodes this(1) lits this(2), of empty_partition_model] show ?thesis
    by (simp add: day_partition_def spec_of_def)
qed

text \<open>C30: An identity partition never settles. Once it is created, every further plan, also one of an
  unchanged configuration, marks its known name as unknown and so differs from the state; no
  attribute forces a replacement at that point, so Terraform calls \<open>Update\<close>, and \<open>Update\<close> always fails.\<close>

theorem identity_partition_never_settles:
  assumes "partition_Create fw api (Inr plan) w = (Inr (Save m), w')" "ptm_Type m = TKnown ''identity''"
  shows "\<exists>planned. partition_ModifyPlan (Some (Inr m)) = Inr (Some planned) \<and> planned \<noteq> m \<and> ptm_Name planned = TUnknown \<and>
    (\<exists>ds. partition_Update w' = (Inl ds, w') \<and> HasError ds)"
proof -
  obtain added w1 where end_: "(case added of
       [] \<Rightarrow> pure_step (Inl [error_diag ''Partition not returned''
               ''Gravitino accepted the add partitions request but returned no partition.''])
     | first # _ \<Rightarrow>
         andThen (pure_step (setPartitionState fw first plan (ptm_Properties plan))) (\<lambda>m. done_with (Save m))) w1
      = (Inr (Save m), w')"
    using assms(1) unfolding partition_Create_def andThen_pure andThen_Inr by blast
  obtain p where "setPartitionState fw p plan (ptm_Properties plan) = Inr m"
    using end_ by (cases added) (auto simp: pure_step_def done_with_def andThen_Inr)
  then have "ptm_Name m = TKnown (pn_Name p)" by (auto simp: setPartitionState_def map_sum_def split: sum.splits)
  then have "m\<lparr>ptm_Name := TUnknown\<rparr> \<noteq> m" by (auto dest: arg_cong [where f = ptm_Name])
  then show ?thesis
    using assms(2) \<open>ptm_Name m = TKnown (pn_Name p)\<close>
    by (simp add: partition_ModifyPlan_def partition_Update_def pure_step_def)
qed

definition one_partition_api :: "unit partition_api" where
  "one_partition_api =
     \<lparr>pta_add = (\<lambda>_ ps w. (Inr [day_partition], w)), pta_get = (\<lambda>_ _ w. (Inr day_partition, w)),
      pta_drop = (\<lambda>_ _ w. (Inr True, w))\<rparr>"

definition day_plan :: partition_model where
  "day_plan = empty_partition_model
     \<lparr>ptm_FieldNames := TKnown [TKnown [TKnown ''dt'']],
      ptm_Values := TKnown [TKnown \<lparr>ltf_data_type = TKnown ''date'', ltf_value = TKnown ''2024''\<rparr>]\<rparr>"

theorem identity_partition_never_settles_witness:
  "\<exists>m planned ds. partition_Create strict_fw one_partition_api (Inr day_plan) () = (Inr (Save m), ()) \<and>
     partition_ModifyPlan (Some (Inr m)) = Inr (Some planned) \<and> planned \<noteq> m \<and> partition_Update () = (Inl ds, ())"
proof -
  have valid: "validatePartitionSpec day_plan = []" by code_simp
  have "\<not> isl (partitionFromModel strict_fw day_plan)" by code_simp
  then obtain p where p: "partitionFromModel strict_fw day_plan = Inr p" by (auto simp: isl_def sum.exhaust_sel) (metis sum.exhaust)
  have "ptm_Properties day_plan = TNull" by (simp add: day_plan_def empty_partition_model_def)
  then obtain m where m: "setPartitionState strict_fw day_partition day_plan (ptm_Properties day_plan) = Inr m" "ptm_Type m = TKnown ''identity''"
    by (simp add: setPartitionState_def mergePartitionProperties_def day_partition_def)
  have made: "partition_Create strict_fw one_partition_api (Inr day_plan) () = (Inr (Save m), ())"
    using valid p m(1) by (simp add: partition_Create_def andThen_pure one_partition_api_def andThen_def stop_if_def pure_step_def calling_def done_with_def)
  from identity_partition_never_settles [OF made m(2)] made show ?thesis by auto
qed

end
