(* ===== verification/ModelVersionResource.thy ===== *)
theory ModelVersionResource
  imports ModelResource HttpClient "HOL-Library.Word"
begin

section \<open>The model version resource (resources/model_version/resource.go)\<close>

text \<open>
  The server assigns the number of a linked version and answers the link request without it, so
  \<open>Create\<close> is two steps: it links (\<open>mv_link\<close>) and adopts the newest version of the model (\<open>mv_adopt\<close>). A version
  number is an \<open>int64\<close> in Terraform and an \<open>int32\<close> for the client (\<open>to_int32\<close>). The artifact locations are a
  map of named URIs; a URI without a name is changed by an update request with an empty name.
\<close>

record model_version =
  mv_URI :: string
  mv_URIs :: "string gomap"
  mv_Version :: int
  mv_Aliases :: "string list"
  mv_Comment :: string
  mv_Properties :: "string gomap"
  mv_Audit :: "audit option"

record model_version_link_request =
  ml_URI :: string
  ml_URIs :: "string gomap"
  ml_Aliases :: "string list"
  ml_Comment :: string
  ml_Properties :: "string gomap"

datatype model_version_update =
    NewUpdateModelVersionCommentRequest string
  | NewSetModelVersionPropertyRequest string string
  | NewRemoveModelVersionPropertyRequest string
  | NewUpdateModelVersionURIRequest string string
  | NewAddModelVersionURIRequest string string
  | NewRemoveModelVersionURIRequest string
  | NewUpdateModelVersionAliasesRequest "string list" "string list"

record model_version_model =
  mvm_ID :: "string tfval"
  mvm_Metalake :: "string tfval"
  mvm_Catalog :: "string tfval"
  mvm_Schema :: "string tfval"
  mvm_Model :: "string tfval"
  mvm_Version :: "int tfval"
  mvm_URI :: "string tfval"
  mvm_URIs :: tf_map
  mvm_Aliases :: tf_strings
  mvm_Comment :: "string tfval"
  mvm_Properties :: tf_map
  mvm_Audit :: "audit_tfsdk tfval"

text \<open>A listing holds the versions or their numbers only.\<close>

record 'w model_version_api =
  mva_link :: "string list \<Rightarrow> model_version_link_request \<Rightarrow> 'w \<Rightarrow> (gerror + unit) \<times> 'w"
  mva_list :: "string list \<Rightarrow> 'w \<Rightarrow> (gerror + model_version list \<times> int list) \<times> 'w"
  mva_get :: "string list \<Rightarrow> int \<Rightarrow> 'w \<Rightarrow> (gerror + model_version) \<times> 'w"
  mva_update :: "string list \<Rightarrow> int \<Rightarrow> model_version_update list \<Rightarrow> 'w \<Rightarrow> (gerror + model_version) \<times> 'w"
  mva_delete :: "string list \<Rightarrow> int \<Rightarrow> 'w \<Rightarrow> (gerror + bool) \<times> 'w"

definition to_int32 :: "int \<Rightarrow> int" where
  "to_int32 i = sint (word_of_int i :: 32 word)"

subsection \<open>State\<close>

definition setValueFrom :: "string list \<Rightarrow> tf_strings \<Rightarrow> tf_strings" where
  "setValueFrom vs current =
     (if vs \<noteq> [] then TKnown (map TKnown vs)
      else if \<not> IsNull current \<and> \<not> IsUnknown current then TKnown [] else TNull)"

definition version_location :: "model_version_model \<Rightarrow> string list" where
  "version_location m =
     [ValueString (mvm_Metalake m), ValueString (mvm_Catalog m), ValueString (mvm_Schema m), ValueString (mvm_Model m)]"

definition setModelVersionState :: "model_version \<Rightarrow> model_version_model \<Rightarrow> bool \<Rightarrow> model_version_model" where
  "setModelVersionState v m refreshing =
     m\<lparr>mvm_Version := TKnown (mv_Version v),
       mvm_ID := TKnown (join ''.'' (version_location m) @ ''.'' @ itoa (mv_Version v)),
       mvm_URI := optionalString (mv_URI v) (mvm_URI m), mvm_Comment := optionalString (mv_Comment v) (mvm_Comment m),
       mvm_URIs := (if refreshing \<or> IsUnknown (mvm_URIs m) then mapValueFrom (mv_URIs v) (mvm_URIs m) else mvm_URIs m),
       mvm_Properties := (if refreshing \<or> IsUnknown (mvm_Properties m)
                          then mapValueFrom (mv_Properties v) (mvm_Properties m) else mvm_Properties m),
       mvm_Aliases := setValueFrom (mv_Aliases v) (mvm_Aliases m), mvm_Audit := AuditToObjectValue (mv_Audit v)\<rparr>"

subsection \<open>Updates\<close>

definition attributeChanged :: "'a tfval \<Rightarrow> 'a tfval \<Rightarrow> bool" where
  "attributeChanged plan current \<longleftrightarrow> \<not> IsUnknown plan \<and> plan \<noteq> current"

definition sortedKeys :: "string gomap \<Rightarrow> string list" where
  "sortedKeys m = sort (keys m)"

definition version_property_requests :: "string gomap \<Rightarrow> string gomap \<Rightarrow> model_version_update list" where
  "version_property_requests oldProps newProps =
     map NewRemoveModelVersionPropertyRequest (filter (\<lambda>k. map_of newProps k = None) (sortedKeys oldProps)) @
     concat (map (\<lambda>k. case map_of newProps k of
         Some v \<Rightarrow> if map_of oldProps k \<noteq> Some v then [NewSetModelVersionPropertyRequest k v] else [] | None \<Rightarrow> [])
       (sortedKeys newProps))"

definition modelVersionPropertyUpdates :: "('a fw_scheme) \<Rightarrow> tf_map \<Rightarrow> tf_map \<Rightarrow> diags + model_version_update list" where
  "modelVersionPropertyUpdates fw oldValue newValue =
     map_sum (\<lambda>ds. ds) (\<lambda>(oldProps, newProps). version_property_requests oldProps newProps) (both_maps fw oldValue newValue)"

definition uri_requests :: "string gomap \<Rightarrow> string gomap \<Rightarrow> model_version_update list" where
  "uri_requests oldURIs newURIs =
     map NewRemoveModelVersionURIRequest (filter (\<lambda>n. map_of newURIs n = None) (sortedKeys oldURIs)) @
     concat (map (\<lambda>n. case map_of newURIs n of
         Some uri \<Rightarrow> (case map_of oldURIs n of
             None \<Rightarrow> [NewAddModelVersionURIRequest n uri]
           | Some old \<Rightarrow> if old \<noteq> uri then [NewUpdateModelVersionURIRequest uri n] else [])
       | None \<Rightarrow> []) (sortedKeys newURIs))"

definition uriUpdates :: "('a fw_scheme) \<Rightarrow> tf_map \<Rightarrow> tf_map \<Rightarrow> diags + model_version_update list" where
  "uriUpdates fw oldValue newValue =
     map_sum (\<lambda>ds. ds) (\<lambda>(oldURIs, newURIs). uri_requests oldURIs newURIs) (both_maps fw oldValue newValue)"

definition stringSetFromTF :: "('a fw_scheme) \<Rightarrow> tf_strings \<Rightarrow> diags + string list" where
  "stringSetFromTF fw v = (case v of TKnown xs \<Rightarrow> fw_strings fw xs | _ \<Rightarrow> Inr [])"

definition aliasDiff :: "('a fw_scheme) \<Rightarrow> tf_strings \<Rightarrow> tf_strings \<Rightarrow> diags + string list \<times> string list" where
  "aliasDiff fw oldValue newValue =
     (case (stringSetFromTF fw oldValue, stringSetFromTF fw newValue) of
        (Inr old, Inr new) \<Rightarrow> Inr (sort (filter (\<lambda>a. a \<notin> set old) new), sort (filter (\<lambda>a. a \<notin> set new) old))
      | (Inl ds, Inl es) \<Rightarrow> Inl (ds @ es)
      | (Inl ds, _) \<Rightarrow> Inl ds
      | (_, Inl es) \<Rightarrow> Inl es)"

definition also_do :: "diags + 'u list \<Rightarrow> diags + 'u list \<Rightarrow> diags + 'u list" where
  "also_do a b = (case a of Inl ds \<Rightarrow> Inl ds | Inr us \<Rightarrow> map_sum (\<lambda>ds. ds) (\<lambda>vs. us @ vs) b)"

definition version_updates ::
    "('a fw_scheme) \<Rightarrow> model_version_model \<Rightarrow> model_version_model \<Rightarrow> diags + model_version_update list" where
  "version_updates fw plan state =
     also_do (Inr (if attributeChanged (mvm_Comment plan) (mvm_Comment state)
                   then [NewUpdateModelVersionCommentRequest (ValueString (mvm_Comment plan))] else []))
     (also_do (if attributeChanged (mvm_Properties plan) (mvm_Properties state)
               then modelVersionPropertyUpdates fw (mvm_Properties state) (mvm_Properties plan) else Inr [])
     (also_do (if attributeChanged (mvm_Aliases plan) (mvm_Aliases state)
               then map_sum (\<lambda>ds. ds)
                      (\<lambda>(added, removed). if added \<noteq> [] \<or> removed \<noteq> [] then [NewUpdateModelVersionAliasesRequest added removed] else [])
                      (aliasDiff fw (mvm_Aliases state) (mvm_Aliases plan))
               else Inr [])
     (also_do (Inr (if attributeChanged (mvm_URI plan) (mvm_URI state) \<and> ValueString (mvm_URI plan) \<noteq> []
                    then [NewUpdateModelVersionURIRequest (ValueString (mvm_URI plan)) []] else []))
              (if attributeChanged (mvm_URIs plan) (mvm_URIs state)
               then uriUpdates fw (mvm_URIs state) (mvm_URIs plan) else Inr []))))"

subsection \<open>Handlers\<close>

definition link_request :: "('a fw_scheme) \<Rightarrow> model_version_model \<Rightarrow> diags + model_version_link_request" where
  "link_request fw plan =
     (let uri = ValueString (mvm_URI plan) in
      case string_map fw (mvm_URIs plan) of
        Inl ds \<Rightarrow> Inl ds
      | Inr uris \<Rightarrow>
          if uri = [] \<and> uris = []
          then Inl [error_diag ''Invalid model version configuration''
                 ''Either uri or uris must be set: Gravitino requires the artifact location of a model version.'']
          else (case (stringSetFromTF fw (mvm_Aliases plan), string_map fw (mvm_Properties plan)) of
                  (Inr aliases, Inr props) \<Rightarrow>
                    Inr \<lparr>ml_URI = (if uris \<noteq> [] then [] else uri), ml_URIs = uris, ml_Aliases = aliases,
                         ml_Comment = ValueString (mvm_Comment plan), ml_Properties = props\<rparr>
                | (Inl ds, Inl es) \<Rightarrow> Inl (ds @ es)
                | (Inl ds, _) \<Rightarrow> Inl ds
                | (_, Inl es) \<Rightarrow> Inl es))"

definition mv_link :: "('a fw_scheme) \<Rightarrow> 'w model_version_api \<Rightarrow> model_version_model \<Rightarrow> (unit, 'w) step" where
  "mv_link fw api plan =
     andThen (pure_step (link_request fw plan)) (\<lambda>req.
       calling (mva_link api (version_location plan) req)
         (NewResourceError ''creating model version'' (ValueString (mvm_Model plan))))"

fun newest :: "model_version \<Rightarrow> model_version list \<Rightarrow> model_version" where
  "newest best [] = best"
| "newest best (v # vs) = newest (if mv_Version best < mv_Version v then v else best) vs"

definition newestModelVersion ::
    "'w model_version_api \<Rightarrow> string list \<Rightarrow> 'w \<Rightarrow> (gerror + model_version) \<times> 'w" where
  "newestModelVersion api loc w =
     (case mva_list api loc w of
        (Inl err, w1) \<Rightarrow> (Inl err, w1)
      | (Inr (v # vs, _), w1) \<Rightarrow> (Inr (newest v vs), w1)
      | (Inr ([], n # ns), w1) \<Rightarrow> mva_get api loc (fold max ns n) w1
      | (Inr ([], []), w1) \<Rightarrow>
          (Inl (ErrText (''the server reported no model versions for model '' @ quote (last loc) @ '' after linking one'')), w1))"

definition mv_adopt :: "'w model_version_api \<Rightarrow> model_version_model \<Rightarrow> (model_version_model state_write, 'w) step" where
  "mv_adopt api plan =
     andThen (calling (newestModelVersion api (version_location plan))
                (NewResourceError ''reading the linked model version'' (ValueString (mvm_Model plan)))) (\<lambda>v.
       done_with (Save (setModelVersionState v plan False)))"

definition model_version_Create ::
    "('a fw_scheme) \<Rightarrow> 'w model_version_api \<Rightarrow> diags + model_version_model \<Rightarrow> (model_version_model state_write, 'w) step" where
  "model_version_Create fw api planGet =
     andThen (pure_step planGet) (\<lambda>plan. andThen (mv_link fw api plan) (\<lambda>_. mv_adopt api plan))"

definition version_name :: "model_version_model \<Rightarrow> string" where
  "version_name m = ValueString (mvm_Model m) @ '' version '' @ itoa (ValueInt64 (mvm_Version m))"

definition model_version_Read ::
    "'w model_version_api \<Rightarrow> diags + model_version_model \<Rightarrow> (model_version_model state_write, 'w) step" where
  "model_version_Read api stateGet =
     andThen (pure_step stateGet) (\<lambda>state.
       refresh (mva_get api (version_location state) (to_int32 (ValueInt64 (mvm_Version state))))
         (NewResourceError ''reading model version'' (version_name state)) (\<lambda>v. Inr (setModelVersionState v state True)))"

definition model_version_Update ::
    "('a fw_scheme) \<Rightarrow> 'w model_version_api \<Rightarrow> diags + model_version_model \<Rightarrow> diags + model_version_model
       \<Rightarrow> (model_version_model state_write, 'w) step" where
  "model_version_Update fw api planGet stateGet =
     andThen (pure_step (both_get planGet stateGet)) (\<lambda>(plan, state).
     andThen (pure_step (version_updates fw plan state)) (\<lambda>updates.
     let version = to_int32 (ValueInt64 (mvm_Version state)) in
     andThen (if updates \<noteq> []
              then calling (mva_update api (version_location state) version updates)
                     (NewResourceError ''updating model version'' (version_name state))
              else calling (mva_get api (version_location state) version)
                     (NewResourceError ''reading model version after update'' (version_name state))) (\<lambda>v.
     done_with (Save (setModelVersionState v plan False)))))"

definition model_version_Delete ::
    "'w model_version_api \<Rightarrow> diags + model_version_model \<Rightarrow> (model_version_model state_write, 'w) step" where
  "model_version_Delete api stateGet =
     andThen (pure_step stateGet) (\<lambda>state.
       drop_or_gone (mva_delete api (version_location state) (to_int32 (ValueInt64 (mvm_Version state))))
         (NewResourceError ''deleting model version'' (version_name state)))"

text \<open>The attributes that are set; the version is one of them.\<close>

definition model_version_ImportState :: "string \<Rightarrow> diagnostic + (string \<times> string) list \<times> int" where
  "model_version_ImportState reqID =
     (case SplitImportID 5 ''metalake.catalog.schema.model.version'' reqID of
        Inl d \<Rightarrow> Inl d
      | Inr parts \<Rightarrow>
          (let bad = error_diag ''Invalid import ID'' (''The version must be a non-negative integer, got '' @ quote (parts ! 4)) in
           case atoi (parts ! 4) of
             None \<Rightarrow> Inl bad
           | Some version \<Rightarrow>
               if version < 0 then Inl bad
               else Inr ([(''metalake'', parts ! 0), (''catalog'', parts ! 1), (''schema'', parts ! 2),
                          (''model'', parts ! 3), (''id'', reqID)], version)))"

subsection \<open>Requests\<close>

lemma version_property_members:
  assumes "wf_map p" "wf_map c"
  shows "u \<in> set (version_property_requests c p) \<longleftrightarrow>
      (\<exists>k v. u = NewSetModelVersionPropertyRequest k v \<and> map_of p k = Some v \<and> map_of c k \<noteq> Some v) \<or>
      (\<exists>k. u = NewRemoveModelVersionPropertyRequest k \<and> map_of p k = None \<and> map_of c k \<noteq> None)"
proof -
  have "u \<in> set (concat (map (\<lambda>k. case map_of p k of
      Some v \<Rightarrow> if map_of c k \<noteq> Some v then [NewSetModelVersionPropertyRequest k v] else [] | None \<Rightarrow> []) (sortedKeys p)))
    \<longleftrightarrow> (\<exists>k v. u = NewSetModelVersionPropertyRequest k v \<and> map_of p k = Some v \<and> map_of c k \<noteq> Some v)"
    by (auto simp: sortedKeys_def map_of_in_keys split: option.splits)
  moreover have "u \<in> set (map NewRemoveModelVersionPropertyRequest (filter (\<lambda>k. map_of p k = None) (sortedKeys c)))
    \<longleftrightarrow> (\<exists>k. u = NewRemoveModelVersionPropertyRequest k \<and> map_of p k = None \<and> map_of c k \<noteq> None)"
    by (auto simp: sortedKeys_def map_of_in_keys)
  ultimately show ?thesis unfolding version_property_requests_def set_append by blast
qed

interpretation version_props: property_diff "\<lambda>p c. version_property_requests c p"
    NewSetModelVersionPropertyRequest NewRemoveModelVersionPropertyRequest "\<lambda>_. False"
  by unfold_locales (simp_all add: version_property_members)

text \<open>What the server does to the named URIs of a version: it refuses to add a name that is there and to
  change or remove one that is not.\<close>

fun run_uri :: "model_version_update \<Rightarrow> (string \<Rightarrow> string option) \<Rightarrow> (string \<Rightarrow> string option) option" where
  "run_uri (NewAddModelVersionURIRequest n u) m = (if m n = None then Some (m(n \<mapsto> u)) else None)"
| "run_uri (NewUpdateModelVersionURIRequest u n) m = (if m n \<noteq> None then Some (m(n \<mapsto> u)) else None)"
| "run_uri (NewRemoveModelVersionURIRequest n) m = (if m n \<noteq> None then Some (m(n := None)) else None)"
| "run_uri _ m = Some m"

fun run_uris :: "model_version_update list \<Rightarrow> (string \<Rightarrow> string option) \<Rightarrow> (string \<Rightarrow> string option) option" where
  "run_uris [] m = Some m"
| "run_uris (u # us) m = Option.bind (run_uri u m) (run_uris us)"

lemma run_uris_append: "run_uris (us @ vs) m = Option.bind (run_uris us m) (run_uris vs)"
  by (induction us m rule: run_uris.induct) (auto simp: bind_eq_Some_conv split: bind_splits)

lemma run_uri_removals:
  "distinct ns \<Longrightarrow> (\<And>n. n \<in> set ns \<Longrightarrow> m n \<noteq> None) \<Longrightarrow>
   run_uris (map NewRemoveModelVersionURIRequest ns) m = Some (\<lambda>n. if n \<in> set ns then None else m n)"
proof (induction ns arbitrary: m)
  case (Cons n ns)
  then have "run_uris (map NewRemoveModelVersionURIRequest ns) (m(n := None)) =
      Some (\<lambda>k. if k \<in> set ns then None else (m(n := None)) k)"
    by (intro Cons.IH) auto
  then show ?case using Cons.prems(2) [of n] by (auto simp: fun_eq_iff)
qed simp

definition uri_request :: "string gomap \<Rightarrow> string gomap \<Rightarrow> string \<Rightarrow> model_version_update list" where
  "uri_request oldURIs newURIs n =
     (case map_of newURIs n of
         Some uri \<Rightarrow> (case map_of oldURIs n of
             None \<Rightarrow> [NewAddModelVersionURIRequest n uri]
           | Some old \<Rightarrow> if old \<noteq> uri then [NewUpdateModelVersionURIRequest uri n] else [])
       | None \<Rightarrow> [])"

lemma run_uri_settings:
  "distinct ns \<Longrightarrow> (\<And>n. n \<in> set ns \<Longrightarrow> map_of new n \<noteq> None \<and> m n = map_of old n) \<Longrightarrow>
   run_uris (concat (map (uri_request old new) ns)) m = Some (\<lambda>n. if n \<in> set ns then map_of new n else m n)"
proof (induction ns arbitrary: m)
  case (Cons n ns)
  obtain u where u: "map_of new n = Some u" using Cons.prems(2) [of n] by auto
  have first: "run_uris (uri_request old new n) m = Some (m(n \<mapsto> u))"
    using Cons.prems(2) [of n] u by (cases "map_of old n") (auto simp: uri_request_def fun_eq_iff)
  have "run_uris (concat (map (uri_request old new) ns)) (m(n \<mapsto> u)) =
      Some (\<lambda>k. if k \<in> set ns then map_of new k else (m(n \<mapsto> u)) k)"
    using Cons.prems by (intro Cons.IH) auto
  then show ?case using Cons.prems(1) u by (simp add: run_uris_append first fun_eq_iff)
qed simp

lemma uri_requests_assign:
  assumes "wf_map old" "wf_map new"
  shows "run_uris (uri_requests old new) (map_of old) = Some (map_of new)"
proof -
  let ?gone = "filter (\<lambda>n. map_of new n = None) (sortedKeys old)"
  have keys: "distinct (sortedKeys old)" "distinct (sortedKeys new)" "set (sortedKeys m) = dom (map_of m)" for m :: "string gomap"
    using assms by (simp_all add: sortedKeys_def wf_map_def set_keys)
  have "run_uris (map NewRemoveModelVersionURIRequest ?gone) (map_of old) = Some (\<lambda>n. if n \<in> set ?gone then None else map_of old n)"
    using keys by (intro run_uri_removals) auto
  moreover have "run_uris (concat (map (uri_request old new) (sortedKeys new))) (\<lambda>n. if n \<in> set ?gone then None else map_of old n)
      = Some (\<lambda>n. if n \<in> set (sortedKeys new) then map_of new n else if n \<in> set ?gone then None else map_of old n)"
    using keys by (intro run_uri_settings) auto
  moreover have "uri_requests old new = map NewRemoveModelVersionURIRequest ?gone @ concat (map (uri_request old new) (sortedKeys new))"
    by (simp add: uri_requests_def uri_request_def [abs_def])
  moreover have "(\<lambda>n. if n \<in> set (sortedKeys new) then map_of new n else if n \<in> set ?gone then None else map_of old n) = map_of new"
    by (auto simp: fun_eq_iff keys)
  ultimately show ?thesis by (simp add: run_uris_append)
qed

text \<open>The client's number of a version is the low 32 bits of Terraform's.\<close>

lemma import_wraps:
  assumes "0 \<le> v" "v < 2 ^ 31"
  shows "to_int32 (v + 2 ^ 32 * k) = v"
proof -
  have "(word_of_int (v + 2 ^ 32 * k) :: 32 word) = word_of_int v"
    by (rule word_of_int_eq_iff [THEN iffD2]) (simp add: take_bit_eq_mod mod_add_eq)
  then have "to_int32 (v + 2 ^ 32 * k) = signed_take_bit 31 v"
    unfolding to_int32_def by (simp only: sint_sbintrunc') simp
  then show ?thesis using assms by (simp add: signed_take_bit_int_eq_self)
qed

subsection \<open>Who gets which version\<close>

text \<open>The documented server: a link request appends a version with a higher number, a listing answers all of
  them. \<open>view\<close> is the list of versions of the model.\<close>

definition numbering_server :: "'w model_version_api \<Rightarrow> ('w \<Rightarrow> model_version list) \<Rightarrow> bool" where
  "numbering_server api view \<longleftrightarrow>
     (\<forall>loc req w. \<exists>v w'. mva_link api loc req w = (Inr (), w') \<and> view w' = view w @ [v] \<and>
        (\<forall>u \<in> set (view w). mv_Version u < mv_Version v)) \<and>
     (\<forall>loc w. \<exists>w'. mva_list api loc w = (Inr (view w, []), w') \<and> view w' = view w)"

lemma newest_last:
  "mv_Version best < mv_Version v \<Longrightarrow> (\<And>u. u \<in> set vs \<Longrightarrow> mv_Version u < mv_Version v) \<Longrightarrow> newest best (vs @ [v]) = v"
  by (induction vs arbitrary: best) auto

lemma adopt_last:
  assumes "numbering_server api view" "view w = vs @ [v]" "\<And>u. u \<in> set vs \<Longrightarrow> mv_Version u < mv_Version v"
  obtains w' where "mv_adopt api plan w = (Inr (Save (setModelVersionState v plan False)), w')" "view w' = view w"
proof -
  obtain w' where l: "mva_list api (version_location plan) w = (Inr (vs @ [v], []), w')" "view w' = view w"
    using assms(1,2) unfolding numbering_server_def by metis
  have "newestModelVersion api (version_location plan) w = (Inr v, w')"
  proof (cases vs)
    case (Cons u us)
    then show ?thesis using l(1) newest_last [of u v us] assms(3) by (simp add: newestModelVersion_def)
  qed (use l(1) in \<open>simp add: newestModelVersion_def\<close>)
  then show thesis using that l(2) by (simp add: mv_adopt_def andThen_def calling_def done_with_def)
qed

lemma link_appends:
  assumes "numbering_server api view" "link_request fw plan = Inr req"
  obtains v w' where "mv_link fw api plan w = (Inr (), w')" "view w' = view w @ [v]" "\<And>u. u \<in> set (view w) \<Longrightarrow> mv_Version u < mv_Version v"
proof -
  obtain v w' where "mva_link api (version_location plan) req w = (Inr (), w')" "view w' = view w @ [v]"
      "\<forall>u \<in> set (view w). mv_Version u < mv_Version v"
    using assms(1) unfolding numbering_server_def by metis
  then show thesis using that assms(2) by (simp add: mv_link_def andThen_def calling_def pure_step_def)
qed

text \<open>C31: A creation that runs alone records the version it linked. Two creations on one model that both link
  before either lists adopt the same version, the second one: both resources record its number and
  the version the first one linked is in no state. Terraform runs independent resources in parallel.\<close>

theorem parallel_creations_collide:
  assumes "numbering_server api view" "link_request fw p1 = Inr q1" "link_request fw p2 = Inr q2"
  shows "(\<exists>v w'. model_version_Create fw api (Inr p1) w = (Inr (Save (setModelVersionState v p1 False)), w') \<and>
      view w' = view w @ [v] \<and> v \<notin> set (view w)) \<and>
    (\<exists>a b w1 w2 w3 w4. mv_link fw api p1 w = (Inr (), w1) \<and> mv_link fw api p2 w1 = (Inr (), w2) \<and>
      mv_adopt api p1 w2 = (Inr (Save (setModelVersionState b p1 False)), w3) \<and>
      mv_adopt api p2 w3 = (Inr (Save (setModelVersionState b p2 False)), w4) \<and>
      view w4 = view w @ [a, b] \<and> mv_Version a \<noteq> mv_Version b)"
proof
  obtain a w1 where one: "mv_link fw api p1 w = (Inr (), w1)" "view w1 = view w @ [a]"
      "\<And>u. u \<in> set (view w) \<Longrightarrow> mv_Version u < mv_Version a"
    by (rule link_appends [OF assms(1,2)]) blast
  obtain w' where alone: "mv_adopt api p1 w1 = (Inr (Save (setModelVersionState a p1 False)), w')" "view w' = view w1"
    by (rule adopt_last [OF assms(1) one(2,3)]) blast+
  show "\<exists>v w'. model_version_Create fw api (Inr p1) w = (Inr (Save (setModelVersionState v p1 False)), w') \<and>
      view w' = view w @ [v] \<and> v \<notin> set (view w)"
    using one alone by (intro exI [of _ a] exI [of _ w']) (auto simp: model_version_Create_def andThen_def pure_step_def)
  obtain b w2 where two: "mv_link fw api p2 w1 = (Inr (), w2)" "view w2 = view w1 @ [b]"
      "\<And>u. u \<in> set (view w1) \<Longrightarrow> mv_Version u < mv_Version b"
    by (rule link_appends [OF assms(1,3)]) blast
  obtain w3 where three: "mv_adopt api p1 w2 = (Inr (Save (setModelVersionState b p1 False)), w3)" "view w3 = view w2"
    by (rule adopt_last [OF assms(1) two(2,3)]) blast+
  obtain w4 where four: "mv_adopt api p2 w3 = (Inr (Save (setModelVersionState b p2 False)), w4)" "view w4 = view w3"
    by (rule adopt_last [OF assms(1) _ two(3), where w = w3 and plan = p2]) (simp_all add: three two)
  have "mv_Version a < mv_Version b" using two(3) one(2) by simp
  then show "\<exists>a b w1 w2 w3 w4. mv_link fw api p1 w = (Inr (), w1) \<and> mv_link fw api p2 w1 = (Inr (), w2) \<and>
      mv_adopt api p1 w2 = (Inr (Save (setModelVersionState b p1 False)), w3) \<and>
      mv_adopt api p2 w3 = (Inr (Save (setModelVersionState b p2 False)), w4) \<and>
      view w4 = view w @ [a, b] \<and> mv_Version a \<noteq> mv_Version b"
    using one(1,2) two(1,2) three four by (intro exI [of _ a] exI [of _ b] exI [of _ w1] exI [of _ w2] exI [of _ w3] exI [of _ w4]) simp
qed

text \<open>A server that keeps the number of versions of one model.\<close>

definition plain_version :: "nat \<Rightarrow> model_version" where
  "plain_version n =
     \<lparr>mv_URI = ''s3://m'', mv_URIs = [], mv_Version = int n, mv_Aliases = [], mv_Comment = [], mv_Properties = [], mv_Audit = None\<rparr>"

definition counting_versions :: "nat model_version_api" where
  "counting_versions =
     \<lparr>mva_link = (\<lambda>_ _ n. (Inr (), Suc n)), mva_list = (\<lambda>_ n. (Inr (map plain_version [0..<n], []), n)),
      mva_get = (\<lambda>_ v n. (Inr (plain_version (nat v)), n)), mva_update = (\<lambda>_ v _ n. (Inr (plain_version (nat v)), n)),
      mva_delete = (\<lambda>_ _ n. (Inr True, n))\<rparr>"

definition version_plan :: model_version_model where
  "version_plan =
     \<lparr>mvm_ID = TUnknown, mvm_Metalake = TKnown ''m'', mvm_Catalog = TKnown ''c'', mvm_Schema = TKnown ''s'', mvm_Model = TKnown ''n'',
      mvm_Version = TUnknown, mvm_URI = TKnown ''s3://m'', mvm_URIs = TNull, mvm_Aliases = TNull, mvm_Comment = TNull,
      mvm_Properties = TNull, mvm_Audit = TUnknown\<rparr>"

theorem parallel_creations_collide_witness:
  "\<exists>w1 w2 w3 w4. mv_link strict_fw counting_versions version_plan 0 = (Inr (), w1) \<and>
     mv_link strict_fw counting_versions version_plan w1 = (Inr (), w2) \<and>
     mv_adopt counting_versions version_plan w2 = (Inr (Save (setModelVersionState (plain_version 1) version_plan False)), w3) \<and>
     mv_adopt counting_versions version_plan w3 = (Inr (Save (setModelVersionState (plain_version 1) version_plan False)), w4)"
proof -
  have law: "numbering_server counting_versions (\<lambda>n. map plain_version [0..<n])"
    by (auto simp: numbering_server_def counting_versions_def plain_version_def)
  obtain q where q: "link_request strict_fw version_plan = Inr q"
    by (simp add: link_request_def version_plan_def string_map_def StringMap_def stringSetFromTF_def)
  obtain a b w1 w2 w3 w4 where run: "mv_link strict_fw counting_versions version_plan 0 = (Inr (), w1)"
     "mv_link strict_fw counting_versions version_plan w1 = (Inr (), w2)"
     "mv_adopt counting_versions version_plan w2 = (Inr (Save (setModelVersionState b version_plan False)), w3)"
     "mv_adopt counting_versions version_plan w3 = (Inr (Save (setModelVersionState b version_plan False)), w4)"
     "map plain_version [0..<w4] = map plain_version [0..<0] @ [a, b]"
    using conjunct2 [OF parallel_creations_collide [OF law q q, of 0]] by blast
  have "length (map plain_version [0..<w4]) = 2" unfolding run(5) by simp
  then have "w4 = 2" by simp
  then have "b = plain_version 1" using run(5) by (simp add: upt_rec)
  then show ?thesis using run by blast
qed

end
