(* ===== verification/ViewResource.thy ===== *)
theory ViewResource
  imports ModelResource TableResource
begin

section \<open>The view resource (models/view.go, resources/view/resource.go)\<close>

text \<open>
  A view has columns, converted like those of a table, and representations of its body. Only its name and its
  properties are altered in place. The decoder of the representation blocks extends the record \<open>table_fw\<close>.
\<close>

record view_representation =
  vr_Type :: string
  vr_Dialect :: string
  vr_SQL :: string

record gview =
  vw_Name :: string
  vw_Comment :: string
  vw_Columns :: "column list"
  vw_Representations :: "view_representation list"
  vw_DefaultCatalog :: string
  vw_DefaultSchema :: string
  vw_Properties :: "string gomap"
  vw_Audit :: "audit option"

record view_create_request =
  vc_Name :: string
  vc_Comment :: string
  vc_Columns :: "column list"
  vc_Representations :: "view_representation list"
  vc_DefaultCatalog :: string
  vc_DefaultSchema :: string
  vc_Properties :: "string gomap"

datatype view_update =
    NewRenameViewRequest string
  | NewSetViewPropertyRequest string string
  | NewRemoveViewPropertyRequest string

record view_representation_tfsdk =
  vrt_Type :: "string tfval"
  vrt_Dialect :: "string tfval"
  vrt_SQL :: "string tfval"

record view_model =
  vm_ID :: "string tfval"
  vm_Metalake :: "string tfval"
  vm_Catalog :: "string tfval"
  vm_Schema :: "string tfval"
  vm_Name :: "string tfval"
  vm_Comment :: "string tfval"
  vm_Columns :: "column_tfsdk list option"
  vm_Representations :: "view_representation_tfsdk list option"
  vm_DefaultCatalog :: "string tfval"
  vm_DefaultSchema :: "string tfval"
  vm_Properties :: tf_map
  vm_Audit :: "audit_tfsdk tfval"

record view_tf =
  vt_ID :: "string tfval"
  vt_Metalake :: "string tfval"
  vt_Catalog :: "string tfval"
  vt_Schema :: "string tfval"
  vt_Name :: "string tfval"
  vt_Comment :: "string tfval"
  vt_Columns :: "column_tfsdk tfval list tfval"
  vt_Representations :: "view_representation_tfsdk tfval list tfval"
  vt_DefaultCatalog :: "string tfval"
  vt_DefaultSchema :: "string tfval"
  vt_Properties :: tf_map
  vt_Audit :: "audit_tfsdk tfval"

record view_fw = table_fw +
  vfw_representations :: "view_representation_tfsdk tfval list \<Rightarrow> diags + view_representation_tfsdk list"

type_synonym 'w view_api = "(view_create_request, view_update, gview, 'w) entity_api"

definition ViewRepresentationsToAPI :: "view_representation_tfsdk list \<Rightarrow> view_representation list" where
  "ViewRepresentationsToAPI reps =
     map (\<lambda>r. \<lparr>vr_Type = ValueString (vrt_Type r), vr_Dialect = ValueString (vrt_Dialect r), vr_SQL = ValueString (vrt_SQL r)\<rparr>) reps"

definition ViewRepresentationsToState :: "view_representation list \<Rightarrow> view_representation_tfsdk list" where
  "ViewRepresentationsToState reps =
     map (\<lambda>r. \<lparr>vrt_Type = TKnown (vr_Type r), vrt_Dialect = TKnown (vr_Dialect r), vrt_SQL = TKnown (vr_SQL r)\<rparr>) reps"

definition ViewRepresentationsFromList where "ViewRepresentationsFromList fw = blocks_from (vfw_representations fw)"

definition ViewRepresentationsToList :: "view_representation_tfsdk list option \<Rightarrow> view_representation_tfsdk tfval list tfval" where
  "ViewRepresentationsToList = blocks_to"

definition viewResourceModelFromTF :: "('a view_fw_scheme) \<Rightarrow> view_tf \<Rightarrow> diags \<Rightarrow> view_model \<times> diags" where
  "viewResourceModelFromTF fw t ds =
     (let (cols, ds1) = TableColumnsFromList fw (vt_Columns t) ds;
          (reps, ds2) = ViewRepresentationsFromList fw (vt_Representations t) ds1
      in (\<lparr>vm_ID = vt_ID t, vm_Metalake = vt_Metalake t, vm_Catalog = vt_Catalog t, vm_Schema = vt_Schema t, vm_Name = vt_Name t,
           vm_Comment = vt_Comment t, vm_Columns = cols, vm_Representations = reps, vm_DefaultCatalog = vt_DefaultCatalog t,
           vm_DefaultSchema = vt_DefaultSchema t, vm_Properties = vt_Properties t, vm_Audit = vt_Audit t\<rparr>, ds2))"

definition viewResourceModelToTF :: "view_model \<Rightarrow> view_tf" where
  "viewResourceModelToTF m =
     \<lparr>vt_ID = vm_ID m, vt_Metalake = vm_Metalake m, vt_Catalog = vm_Catalog m, vt_Schema = vm_Schema m, vt_Name = vm_Name m,
      vt_Comment = vm_Comment m, vt_Columns = blocks_to (vm_Columns m),
      vt_Representations = ViewRepresentationsToList (vm_Representations m), vt_DefaultCatalog = vm_DefaultCatalog m,
      vt_DefaultSchema = vm_DefaultSchema m, vt_Properties = vm_Properties m, vt_Audit = vm_Audit m\<rparr>"

definition view_from_tf :: "('a view_fw_scheme) \<Rightarrow> diags + view_tf \<Rightarrow> diags + view_model" where
  "view_from_tf fw r =
     (case r of
        Inl ds \<Rightarrow> Inl ds
      | Inr t \<Rightarrow> (case viewResourceModelFromTF fw t [] of (m, ds) \<Rightarrow> if HasError ds then Inl ds else Inr m))"

definition stringFromResponse :: "string \<Rightarrow> string tfval \<Rightarrow> string tfval" where
  "stringFromResponse = optionalString"

definition mapFromResponse :: "string gomap \<Rightarrow> tf_map \<Rightarrow> tf_map" where
  "mapFromResponse = mapValueFrom"

definition readViewToState :: "gview \<Rightarrow> view_model \<Rightarrow> bool \<Rightarrow> view_model" where
  "readViewToState v m refreshing =
     m\<lparr>vm_Name := TKnown (vw_Name v), vm_Comment := stringFromResponse (vw_Comment v) (vm_Comment m),
       vm_Columns := Some (TableColumnsToModel (vw_Columns v)),
       vm_Representations := Some (ViewRepresentationsToState (vw_Representations v)),
       vm_DefaultCatalog := stringFromResponse (vw_DefaultCatalog v) (vm_DefaultCatalog m),
       vm_DefaultSchema := stringFromResponse (vw_DefaultSchema v) (vm_DefaultSchema m),
       vm_Properties := (if refreshing \<or> IsUnknown (vm_Properties m)
                         then mapFromResponse (vw_Properties v) (vm_Properties m) else vm_Properties m),
       vm_ID := TKnown (ValueString (vm_Metalake m) @ ''.'' @ ValueString (vm_Catalog m) @ ''.'' @ ValueString (vm_Schema m)
         @ ''.'' @ vw_Name v),
       vm_Audit := AuditToObjectValue (vw_Audit v)\<rparr>"

definition column_type_ValidateString :: "path_step list \<Rightarrow> string tfval \<Rightarrow> diags" where
  "column_type_ValidateString p v =
     (case v of
        TKnown s \<Rightarrow> (case ParseDataType s of Inl err \<Rightarrow> [attribute_error p ''Invalid column type'' (err_text err)] | Inr _ \<Rightarrow> [])
      | _ \<Rightarrow> [])"

subsection \<open>Handlers\<close>

definition view_location :: "view_model \<Rightarrow> string list" where
  "view_location m = [ValueString (vm_Metalake m), ValueString (vm_Catalog m), ValueString (vm_Schema m)]"

definition view_columns :: "view_model \<Rightarrow> diags + column list" where
  "view_columns plan =
     (case TableColumnsFromModel (slice (vm_Columns plan)) of (cols, ds) \<Rightarrow> if HasError ds then Inl ds else Inr cols)"

definition save_view :: "view_model \<Rightarrow> (view_tf state_write, 'w) step" where
  "save_view m = done_with (Save (viewResourceModelToTF m))"

definition view_Create ::
    "('a view_fw_scheme) \<Rightarrow> 'w view_api \<Rightarrow> diags + view_tf \<Rightarrow> (view_tf state_write, 'w vclient) step" where
  "view_Create fw api planGet =
     andThen (pure_step (view_from_tf fw planGet)) (\<lambda>plan.
     andThen (CheckExternalTypesSupported (slice (vm_Columns plan))) (\<lambda>_.
     andThen (pure_step (view_columns plan)) (\<lambda>columns.
     andThen (pure_step (string_map fw (vm_Properties plan))) (\<lambda>properties.
     andThen (calling (on_world (ea_create api (view_location plan)
                \<lparr>vc_Name = ValueString (vm_Name plan), vc_Comment = ValueString (vm_Comment plan), vc_Columns = columns,
                 vc_Representations = ViewRepresentationsToAPI (slice (vm_Representations plan)),
                 vc_DefaultCatalog = ValueString (vm_DefaultCatalog plan), vc_DefaultSchema = ValueString (vm_DefaultSchema plan),
                 vc_Properties = properties\<rparr>))
              (NewResourceError ''creating view'' (ValueString (vm_Name plan)))) (\<lambda>v.
     save_view (readViewToState v plan False))))))"

definition view_Read ::
    "('a view_fw_scheme) \<Rightarrow> 'w view_api \<Rightarrow> diags + view_tf \<Rightarrow> (view_tf state_write, 'w) step" where
  "view_Read fw api stateGet =
     andThen (pure_step (view_from_tf fw stateGet)) (\<lambda>state.
       refresh (ea_get api (view_location state) (ValueString (vm_Name state)))
         (NewResourceError ''reading view'' (ValueString (vm_Name state)))
         (\<lambda>v. Inr (viewResourceModelToTF (readViewToState v state True))))"

definition view_propertyUpdates :: "string gomap \<Rightarrow> string gomap \<Rightarrow> view_update list" where
  "view_propertyUpdates oldProps newProps =
     remove_requests NewRemoveViewPropertyRequest oldProps newProps @ set_requests NewSetViewPropertyRequest oldProps newProps"

definition view_updates :: "('a fw_scheme) \<Rightarrow> view_model \<Rightarrow> view_model \<Rightarrow> diags + view_update list" where
  "view_updates fw plan state =
     map_sum (\<lambda>ds. ds)
       (\<lambda>props. (if \<not> IsUnknown (vm_Name plan) \<and> vm_Name plan \<noteq> vm_Name state
                 then [NewRenameViewRequest (ValueString (vm_Name plan))] else []) @ props)
       (if \<not> IsUnknown (vm_Properties plan) \<and> \<not> IsUnknown (vm_Properties state)
           \<and> \<not> map_Equal (vm_Properties plan) (vm_Properties state)
        then map_sum (\<lambda>ds. ds) (\<lambda>(oldProps, newProps). view_propertyUpdates oldProps newProps)
               (both_maps fw (vm_Properties state) (vm_Properties plan))
        else Inr [])"

text \<open>Plan and state are decoded one after the other before their errors are looked at.\<close>

definition both_views :: "('a view_fw_scheme) \<Rightarrow> view_tf \<times> view_tf \<Rightarrow> diags + view_model \<times> view_model" where
  "both_views fw = (\<lambda>(tfPlan, tfState).
     case viewResourceModelFromTF fw tfPlan [] of
       (plan, ds) \<Rightarrow>
         (case viewResourceModelFromTF fw tfState ds of (state, es) \<Rightarrow> if HasError es then Inl es else Inr (plan, state)))"

definition view_Update ::
    "('a view_fw_scheme) \<Rightarrow> 'w view_api \<Rightarrow> diags + view_tf \<Rightarrow> diags + view_tf \<Rightarrow> (view_tf state_write, 'w) step" where
  "view_Update fw api planGet stateGet =
     andThen (pure_step (both_get planGet stateGet)) (\<lambda>tfs.
     andThen (pure_step (both_views fw tfs)) (\<lambda>(plan, state).
     andThen (pure_step (view_updates fw plan state)) (\<lambda>updates.
     let name = ValueString (vm_Name state) in
     andThen (if updates \<noteq> []
              then calling (ea_update api (view_location state) name updates) (NewResourceError ''updating view'' name)
              else calling (ea_get api (view_location state) name) (NewResourceError ''reading view after update'' name)) (\<lambda>v.
     save_view (readViewToState v plan False)))))"

definition view_Delete ::
    "('a view_fw_scheme) \<Rightarrow> 'w view_api \<Rightarrow> diags + view_tf \<Rightarrow> (view_tf state_write, 'w) step" where
  "view_Delete fw api stateGet =
     andThen (pure_step (view_from_tf fw stateGet)) (\<lambda>state.
       drop_or_gone (ea_drop api (view_location state) (ValueString (vm_Name state)))
         (NewResourceError ''deleting view'' (ValueString (vm_Name state))))"

definition view_ImportState :: "string \<Rightarrow> diagnostic + (string \<times> string) list" where
  "view_ImportState reqID =
     (case SplitImportID 4 ''metalake.catalog.schema.view'' reqID of
        Inl d \<Rightarrow> Inl d
      | Inr parts \<Rightarrow> Inr [(''metalake'', parts ! 0), (''catalog'', parts ! 1), (''schema'', parts ! 2),
                         (''name'', parts ! 3), (''id'', reqID)])"

interpretation view_props: property_diff "\<lambda>p c. view_propertyUpdates c p"
    NewSetViewPropertyRequest NewRemoveViewPropertyRequest "\<lambda>_. False"
  by unfold_locales (auto simp: view_propertyUpdates_def disj_commute [of "_ \<in> set (remove_requests _ _ _)"] requests_members)

subsection \<open>Which columns come back as planned\<close>

text \<open>A column of a plan all of whose attributes are known, with a type the validator accepts.\<close>

definition planned_column :: "column_tfsdk \<Rightarrow> bool" where
  "planned_column c \<longleftrightarrow>
     (\<exists>n. ct_Name c = TKnown n) \<and> (\<exists>s d. ct_Type c = TKnown s \<and> ParseDataType s = Inr d) \<and> ct_Comment c \<noteq> TUnknown
     \<and> (\<exists>b. ct_Nullable c = TKnown b) \<and> (\<exists>b. ct_AutoIncrement c = TKnown b) \<and> ct_DefaultValue c \<noteq> TUnknown"

definition settled_column :: "column_tfsdk \<Rightarrow> bool" where
  "settled_column c =
     (case ParseDataType (ValueString (ct_Type c)) of
        Inl _ \<Rightarrow> False
      | Inr d \<Rightarrow> ValueString (ct_Type c) = DataType_String d \<and> ct_Comment c \<noteq> TKnown []
          \<and> (ct_DefaultValue c = TNull \<or> \<not> equal_fold (dt_Type d) ''null''))"

lemma column_roundtrip_iff:
  assumes "planned_column c"
  obtains col where "TableColumnsFromModel (c # cs) = (col # fst (TableColumnsFromModel cs), snd (TableColumnsFromModel cs))"
    "column_to_model col = c \<longleftrightarrow> settled_column c"
proof -
  obtain n t d u v where c: "ct_Name c = TKnown n" "ct_Type c = TKnown t" "ParseDataType t = Inr d" "ct_Nullable c = TKnown u"
      "ct_AutoIncrement c = TKnown v" "ct_Comment c \<noteq> TUnknown" "ct_DefaultValue c \<noteq> TUnknown"
    using assms unfolding planned_column_def by blast
  let ?col = "\<lparr>col_Name = n, col_Type = d, col_Comment = ValueString (ct_Comment c), col_Nullable = u, col_AutoIncrement = v,
      col_DefaultValue = ColumnDefaultValue c d\<rparr>"
  have "TableColumnsFromModel (c # cs) = (?col # fst (TableColumnsFromModel cs), snd (TableColumnsFromModel cs))"
    using c(1-5) by (simp add: case_prod_beta Let_def)
  moreover have "opt_text (ValueString (ct_Comment c)) = ct_Comment c \<longleftrightarrow> ct_Comment c \<noteq> TKnown []"
    using c(6) by (cases "ct_Comment c") (auto simp: opt_text_def)
  moreover have "DefaultValueToModel (ColumnDefaultValue c d) = ct_DefaultValue c
      \<longleftrightarrow> ct_DefaultValue c = TNull \<or> \<not> equal_fold (dt_Type d) ''null''"
    using c(7) by (cases "ct_DefaultValue c") (auto simp: DefaultValueToModel_def ColumnDefaultValue_def NewLiteral_def)
  moreover have "column_to_model ?col = c \<longleftrightarrow> DataType_String d = t \<and> opt_text (ValueString (ct_Comment c)) = ct_Comment c
      \<and> DefaultValueToModel (ColumnDefaultValue c d) = ct_DefaultValue c"
    using c(1,2,4,5) by (cases c) (simp add: column_to_model_def)
  moreover have "settled_column c \<longleftrightarrow> t = DataType_String d \<and> ct_Comment c \<noteq> TKnown []
      \<and> (ct_DefaultValue c = TNull \<or> \<not> equal_fold (dt_Type d) ''null'')"
    using c(2,3) by (simp add: settled_column_def)
  ultimately show thesis
    by (intro that [of ?col]) auto
qed

lemma columns_roundtrip_iff:
  assumes "list_all planned_column cs"
  shows "snd (TableColumnsFromModel cs) = [] \<and>
    (TableColumnsToModel (fst (TableColumnsFromModel cs)) = cs \<longleftrightarrow> list_all settled_column cs)"
  using assms
proof (induction cs)
  case (Cons c cs)
  obtain col where "TableColumnsFromModel (c # cs) = (col # fst (TableColumnsFromModel cs), snd (TableColumnsFromModel cs))"
      "column_to_model col = c \<longleftrightarrow> settled_column c"
    using column_roundtrip_iff Cons.prems by (metis list.pred_inject(2))
  then show ?case using Cons by (simp add: TableColumnsToModel_def)
qed (simp add: TableColumnsToModel_def)

lemma blocks_to_inject: "blocks_to (Some xs) = TKnown (map TKnown ys) \<longleftrightarrow> xs = ys"
  by (simp add: blocks_to_def inj_map_eq_map inj_def)

text \<open>C32: The columns recorded after a view is created, by a server that keeps the columns it is sent, are the
  planned ones exactly when every column spells its type canonically, has no empty comment and no default
  value of the null type. A view has no plan modifier that canonicalises them, as a table has: any other accepted
  spelling makes Terraform report an inconsistent result after apply.\<close>

theorem view_columns_settle_iff:
  assumes "table_fw_decodes fw" "vt_Columns t = TKnown (map TKnown cs)" "list_all planned_column cs"
    and "\<And>loc r w v w'. ea_create api loc r w = (Inr v, w') \<Longrightarrow> vw_Columns v = vc_Columns r"
    and "view_Create fw api (Inr t) c = (Inr (Save saved), c')"
  shows "vt_Columns saved = vt_Columns t \<longleftrightarrow> list_all settled_column cs"
proof -
  obtain plan where plan: "view_from_tf fw (Inr t) = Inr plan"
    using assms(5) unfolding view_Create_def andThen_Inr pure_step_def by blast
  have cols: "vm_Columns plan = Some cs"
    using plan assms(1,2)
    by (auto simp: view_from_tf_def viewResourceModelFromTF_def TableColumnsFromList_def blocks_from_def table_fw_decodes_def Let_def
        split: prod.splits if_splits)
  have sent: "view_columns plan = Inr (fst (TableColumnsFromModel cs))"
    using columns_roundtrip_iff [OF assms(3)] cols by (simp add: view_columns_def case_prod_beta)
  obtain r v w w' where "ea_create api (view_location plan) r w = (Inr v, w')" "vc_Columns r = fst (TableColumnsFromModel cs)"
      "saved = viewResourceModelToTF (readViewToState v plan False)"
    using assms(5) plan sent
    unfolding view_Create_def andThen_Inr calling_Inr pure_step_def save_view_def done_with_def on_world_eq
    by auto
  then have "vt_Columns saved = blocks_to (Some (TableColumnsToModel (fst (TableColumnsFromModel cs))))"
    using assms(4) by (fastforce simp: viewResourceModelToTF_def readViewToState_def)
  then show ?thesis
    using assms(2) columns_roundtrip_iff [OF assms(3)] by (simp add: blocks_to_inject)
qed

definition strict_view_fw :: view_fw where
  "strict_view_fw = table_fw.extend strict_table_fw \<lparr>vfw_representations = known_blocks\<rparr>"

definition echo_view :: "view_create_request \<Rightarrow> gview" where
  "echo_view r = \<lparr>vw_Name = vc_Name r, vw_Comment = vc_Comment r, vw_Columns = vc_Columns r, vw_Representations = vc_Representations r,
     vw_DefaultCatalog = vc_DefaultCatalog r, vw_DefaultSchema = vc_DefaultSchema r, vw_Properties = vc_Properties r, vw_Audit = None\<rparr>"

definition echo_views :: "gview option view_api" where
  "echo_views =
     \<lparr>ea_create = (\<lambda>_ r _. (Inr (echo_view r), Some (echo_view r))), ea_get = (\<lambda>_ _ w. (Inr (the w), w)),
      ea_update = (\<lambda>_ _ _ w. (Inr (the w), w)), ea_drop = (\<lambda>_ _ w. (Inr True, None))\<rparr>"

definition spaced_column :: column_tfsdk where
  "spaced_column = \<lparr>ct_Name = TKnown ''a'', ct_Type = TKnown '' integer'', ct_Comment = TNull, ct_Nullable = TKnown True,
     ct_AutoIncrement = TKnown False, ct_DefaultValue = TNull\<rparr>"

definition spaced_view :: view_tf where
  "spaced_view = \<lparr>vt_ID = TUnknown, vt_Metalake = TKnown ''m'', vt_Catalog = TKnown ''c'', vt_Schema = TKnown ''s'', vt_Name = TKnown ''v'',
     vt_Comment = TNull, vt_Columns = TKnown (map TKnown [spaced_column]), vt_Representations = TKnown [], vt_DefaultCatalog = TNull,
     vt_DefaultSchema = TNull, vt_Properties = TNull, vt_Audit = TUnknown\<rparr>"

theorem view_columns_settle_iff_witness:
  "\<exists>saved c'. view_Create strict_view_fw echo_views (Inr spaced_view) \<lparr>vc_version = [], vc_world = None\<rparr> = (Inr (Save saved), c') \<and>
     vt_Columns saved \<noteq> vt_Columns spaced_view"
proof -
  have fw: "table_fw_decodes strict_view_fw"
    using strict_fw_decodes
    by (simp add: table_fw_decodes_def fw_decodes_def strict_view_fw_def strict_table_fw_def table_fw.defs)
  have p: "ParseDataType '' integer'' = Inr (primitive ''integer'')" by code_simp
  have echo: "ea_create echo_views loc r w = (Inr v, w') \<Longrightarrow> vw_Columns v = vc_Columns r" for loc r w v w'
    by (auto simp: echo_views_def echo_view_def)
  have planned: "list_all planned_column [spaced_column]"
    by (simp add: planned_column_def spaced_column_def p ex_bool_eq)
  have cols: "vt_Columns spaced_view = TKnown (map TKnown [spaced_column])"
    by (simp add: spaced_view_def)
  have "AtLeast \<lparr>vc_version = [], vc_world = w\<rparr> 1 3 1" for w :: "gview option"
    by (simp add: AtLeast_def ServerVersion_def) code_simp
  then have "\<exists>saved c'. view_Create strict_view_fw echo_views (Inr spaced_view) \<lparr>vc_version = [], vc_world = None\<rparr> = (Inr (Save saved), c')"
    by (simp add: view_Create_def andThen_Inr calling_Inr pure_step_def save_view_def done_with_def on_world_eq
        CheckExternalTypesSupported_def SupportsExternalType_def ExternalTypeColumnDiagnostics_def Let_def
        view_from_tf_def viewResourceModelFromTF_def TableColumnsFromList_def ViewRepresentationsFromList_def blocks_from_def
        strict_view_fw_def strict_table_fw_def table_fw.defs spaced_view_def view_columns_def spaced_column_def p echo_views_def
        string_map_def StringMap_def)
  then show ?thesis
    using view_columns_settle_iff [OF fw cols planned echo]
    by (fastforce simp: settled_column_def spaced_column_def p DataType_String_def IsStructured_def structuredKindName_def primitive_def)
qed

end
