(* ===== verification/FilesetResource.thy ===== *)
theory FilesetResource
  imports EntityUpdates
begin

section \<open>The fileset resource (models/fileset.go, resources/fileset/resource.go)\<close>

text \<open>
  The server rewrites part of what it is given: it adds a property of its own and normalises the storage
  location. Known planned values therefore win over its answer after an apply, and a refresh takes over
  everything except the storage location and the keys it was not asked for. The requests are shown to
  assign the plan (locale \<open>entity_diff\<close>), an apply to keep the known planned values other than a planned identifier, and a refresh after
  it to change nothing.
\<close>

record fileset =
  fs_Name :: string
  fs_Comment :: string
  fs_Type :: string
  fs_StorageLocation :: string
  fs_Properties :: "string gomap"
  fs_Audit :: "audit option"

record fileset_create_request =
  fsr_Name :: string
  fsr_Comment :: string
  fsr_Type :: string
  fsr_StorageLocation :: string
  fsr_Properties :: "string gomap"

datatype fileset_update =
    NewRenameFilesetRequest string
  | NewUpdateFilesetCommentRequest string
  | NewRemoveFilesetCommentRequest
  | NewSetFilesetPropertyRequest string string
  | NewRemoveFilesetPropertyRequest string

record fileset_model =
  fsm_ID :: "string tfval"
  fsm_Metalake :: "string tfval"
  fsm_Catalog :: "string tfval"
  fsm_Schema :: "string tfval"
  fsm_Name :: "string tfval"
  fsm_Comment :: "string tfval"
  fsm_Type :: "string tfval"
  fsm_StorageLocation :: "string tfval"
  fsm_Properties :: tf_map
  fsm_Audit :: "audit_tfsdk tfval"

type_synonym 'w fileset_api = "(fileset_create_request, fileset_update, fileset, 'w) entity_api"

definition fileset_location :: "fileset_model \<Rightarrow> string list" where
  "fileset_location m = [ValueString (fsm_Metalake m), ValueString (fsm_Catalog m), ValueString (fsm_Schema m)]"

subsection \<open>Reading a response\<close>

definition serverManagedProperties :: "string list" where
  "serverManagedProperties = [''default-location-name'']"

definition serverProperties :: "string gomap \<Rightarrow> string gomap" where
  "serverProperties props = filter (\<lambda>(k, _). k \<notin> set serverManagedProperties) props"

text \<open>The elements of the recorded map, each with the server's value when it reports one; an unknown element
  it does not report is left out, a null one becomes the empty text.\<close>

definition projectProperties :: "(string \<times> string tfval) list \<Rightarrow> string gomap \<Rightarrow> string gomap" where
  "projectProperties current server =
     concat (map (\<lambda>(k, v). case map_of server k of
         Some s \<Rightarrow> [(k, s)]
       | None \<Rightarrow> if IsUnknown v then [] else [(k, ValueString v)]) current)"

definition adopted :: "bool \<Rightarrow> 'a tfval \<Rightarrow> 'a \<Rightarrow> 'a tfval" where
  "adopted always current reported = (if always \<or> IsUnknown current \<or> IsNull current then TKnown reported else current)"

definition mergeFilesetResponse :: "string \<Rightarrow> string \<Rightarrow> string \<Rightarrow> fileset \<Rightarrow> fileset_model \<Rightarrow> bool \<Rightarrow> fileset_model" where
  "mergeFilesetResponse metalake catalog schema f m refreshing =
     m\<lparr>fsm_Name := TKnown (if \<not> refreshing \<and> ValueString (fsm_Name m) \<noteq> [] then ValueString (fsm_Name m) else fs_Name f),
       fsm_Comment := adopted refreshing (fsm_Comment m) (fs_Comment f),
       fsm_Type := adopted refreshing (fsm_Type m) (fs_Type f),
       fsm_StorageLocation := adopted False (fsm_StorageLocation m) (fs_StorageLocation f),
       fsm_Properties :=
         (case fsm_Properties m of
            TKnown current \<Rightarrow>
              if refreshing then TKnown (known_map (projectProperties current (fs_Properties f))) else fsm_Properties m
          | _ \<Rightarrow> TKnown (known_map (serverProperties (fs_Properties f)))),
       fsm_ID := TKnown (metalake @ ''.'' @ catalog @ ''.'' @ schema @ ''.'' @ fs_Name f),
       fsm_Audit := AuditToObjectValue (fs_Audit f),
       fsm_Metalake := TKnown metalake, fsm_Catalog := TKnown catalog, fsm_Schema := TKnown schema\<rparr>"

definition merged_fileset :: "fileset \<Rightarrow> fileset_model \<Rightarrow> bool \<Rightarrow> fileset_model" where
  "merged_fileset f m =
     mergeFilesetResponse (ValueString (fsm_Metalake m)) (ValueString (fsm_Catalog m)) (ValueString (fsm_Schema m)) f m"

subsection \<open>Handlers\<close>

definition fileset_Create ::
    "('a fw_scheme) \<Rightarrow> 'w fileset_api \<Rightarrow> diags + fileset_model \<Rightarrow> (fileset_model state_write, 'w) step" where
  "fileset_Create fw api planGet =
     andThen (pure_step planGet) (\<lambda>plan.
     andThen (pure_step (string_map fw (fsm_Properties plan))) (\<lambda>properties.
     andThen (calling (ea_create api (fileset_location plan)
                \<lparr>fsr_Name = ValueString (fsm_Name plan), fsr_Comment = ValueString (fsm_Comment plan),
                 fsr_Type = ValueString (fsm_Type plan), fsr_StorageLocation = ValueString (fsm_StorageLocation plan),
                 fsr_Properties = properties\<rparr>)
              (NewResourceError ''creating fileset'' (ValueString (fsm_Name plan)))) (\<lambda>f.
     done_with (Save (merged_fileset f plan False)))))"

definition fileset_Read :: "'w fileset_api \<Rightarrow> diags + fileset_model \<Rightarrow> (fileset_model state_write, 'w) step" where
  "fileset_Read api stateGet =
     andThen (pure_step stateGet) (\<lambda>state.
       refresh (ea_get api (fileset_location state) (ValueString (fsm_Name state)))
         (NewResourceError ''reading fileset'' (ValueString (fsm_Name state))) (\<lambda>f. Inr (merged_fileset f state True)))"

definition fileset_propertyUpdates :: "string gomap \<Rightarrow> string gomap \<Rightarrow> fileset_update list" where
  "fileset_propertyUpdates oldProps newProps =
     set_requests NewSetFilesetPropertyRequest oldProps newProps @ remove_requests NewRemoveFilesetPropertyRequest oldProps newProps"

definition fileset_updates :: "('a fw_scheme) \<Rightarrow> fileset_model \<Rightarrow> fileset_model \<Rightarrow> diags + fileset_update list" where
  "fileset_updates fw plan state =
     map_sum (\<lambda>ds. ds)
       (\<lambda>props.
         (if \<not> IsUnknown (fsm_Name plan) \<and> fsm_Name plan \<noteq> fsm_Name state
          then [NewRenameFilesetRequest (ValueString (fsm_Name plan))] else []) @
         (if \<not> IsUnknown (fsm_Comment plan) \<and> fsm_Comment plan \<noteq> fsm_Comment state
          then if ValueString (fsm_Comment plan) = [] then [NewRemoveFilesetCommentRequest]
               else [NewUpdateFilesetCommentRequest (ValueString (fsm_Comment plan))]
          else []) @ props)
       (if IsUnknown (fsm_Properties plan) \<or> map_Equal (fsm_Properties plan) (fsm_Properties state) then Inr []
        else map_sum (\<lambda>ds. ds) (\<lambda>(oldProps, newProps). fileset_propertyUpdates oldProps newProps)
               (both_maps fw (fsm_Properties state) (fsm_Properties plan)))"

text \<open>Without a request to send, what is unknown in the plan is taken from the prior state.\<close>

definition fileset_previous :: "fileset_model \<Rightarrow> fileset_model \<Rightarrow> fileset_model" where
  "fileset_previous plan state =
     plan\<lparr>fsm_ID := StringOrPrevious (fsm_ID plan) (fsm_ID state), fsm_Name := StringOrPrevious (fsm_Name plan) (fsm_Name state),
       fsm_Comment := StringOrPrevious (fsm_Comment plan) (fsm_Comment state),
       fsm_Type := StringOrPrevious (fsm_Type plan) (fsm_Type state),
       fsm_StorageLocation := StringOrPrevious (fsm_StorageLocation plan) (fsm_StorageLocation state),
       fsm_Properties := MapOrPrevious (fsm_Properties plan) (fsm_Properties state),
       fsm_Audit := ObjectOrPrevious (fsm_Audit plan) (fsm_Audit state)\<rparr>"

definition fileset_Update ::
    "('a fw_scheme) \<Rightarrow> 'w fileset_api \<Rightarrow> diags + fileset_model \<Rightarrow> diags + fileset_model \<Rightarrow> (fileset_model state_write, 'w) step" where
  "fileset_Update fw api planGet stateGet =
     andThen (pure_step (both_get planGet stateGet)) (\<lambda>(plan, state).
     andThen (pure_step (fileset_updates fw plan state)) (\<lambda>updates.
     if updates = [] then done_with (Save (fileset_previous plan state))
     else
       let oldName = ValueString (fsm_Name state) in
       andThen (calling (ea_update api (fileset_location state) oldName updates) (NewResourceError ''updating fileset'' oldName)) (\<lambda>f.
       done_with (Save (merged_fileset f plan False)))))"

definition fileset_Delete :: "'w fileset_api \<Rightarrow> diags + fileset_model \<Rightarrow> (fileset_model state_write, 'w) step" where
  "fileset_Delete api stateGet =
     andThen (pure_step stateGet) (\<lambda>state.
       drop_or_gone (ea_drop api (fileset_location state) (ValueString (fsm_Name state)))
         (NewResourceError ''deleting fileset'' (ValueString (fsm_Name state))))"

definition fileset_ImportState :: "string \<Rightarrow> diagnostic + (string \<times> string) list" where
  "fileset_ImportState reqID =
     (case SplitImportID 4 ''metalake.catalog.schema.fileset'' reqID of
        Inl d \<Rightarrow> Inl d
      | Inr parts \<Rightarrow> Inr [(''metalake'', parts ! 0), (''catalog'', parts ! 1), (''schema'', parts ! 2),
                         (''name'', parts ! 3), (''id'', reqID)])"

subsection \<open>The requests assign the plan\<close>

fun fileset_change :: "fileset_update \<Rightarrow> entity_change" where
  "fileset_change (NewRenameFilesetRequest n) = Rename n"
| "fileset_change (NewUpdateFilesetCommentRequest c) = SetComment c"
| "fileset_change NewRemoveFilesetCommentRequest = SetComment []"
| "fileset_change (NewSetFilesetPropertyRequest k v) = SetProperty k v"
| "fileset_change (NewRemoveFilesetPropertyRequest k) = RemoveProperty k"

interpretation fileset_props: property_diff "\<lambda>p c. fileset_propertyUpdates c p"
    NewSetFilesetPropertyRequest NewRemoveFilesetPropertyRequest "\<lambda>_. False"
  by unfold_locales (auto simp: fileset_propertyUpdates_def requests_members)

interpretation fileset_entity_diff: entity_diff "\<lambda>p c. fileset_propertyUpdates c p"
    NewSetFilesetPropertyRequest NewRemoveFilesetPropertyRequest fileset_change
  by unfold_locales simp_all

definition fileset_entity :: "fileset_model \<Rightarrow> entity" where
  "fileset_entity m = \<lparr>en_name = ValueString (fsm_Name m), en_comment = ValueString (fsm_Comment m),
     en_props = map_of (mapFromTF (fsm_Properties m))\<rparr>"

lemma fileset_head_assigns:
  assumes "\<not> IsUnknown (fsm_Name plan)" "\<not> IsUnknown (fsm_Comment plan)"
  shows "fold (carry_out \<circ> fileset_change)
      ((if \<not> IsUnknown (fsm_Name plan) \<and> fsm_Name plan \<noteq> fsm_Name state
          then [NewRenameFilesetRequest (ValueString (fsm_Name plan))] else []) @
       (if \<not> IsUnknown (fsm_Comment plan) \<and> fsm_Comment plan \<noteq> fsm_Comment state
          then if ValueString (fsm_Comment plan) = [] then [NewRemoveFilesetCommentRequest]
               else [NewUpdateFilesetCommentRequest (ValueString (fsm_Comment plan))]
          else []))
      (fileset_entity state) =
    (fileset_entity state)\<lparr>en_name := ValueString (fsm_Name plan), en_comment := ValueString (fsm_Comment plan)\<rparr>"
  using assms by (auto simp: fileset_entity_def)

lemma fileset_updates_assign:
  assumes "fw_decodes fw" "plain (fsm_Properties plan)" "plain (fsm_Properties state)"
    and known: "\<not> IsUnknown (fsm_Name plan)" "\<not> IsUnknown (fsm_Comment plan)"
  obtains us where "fileset_updates fw plan state = Inr us"
    "fold (carry_out \<circ> fileset_change) us (fileset_entity state) = fileset_entity plan"
proof (cases "map_Equal (fsm_Properties plan) (fsm_Properties state)")
  case True
  then have "map_of (mapFromTF (fsm_Properties plan)) = map_of (mapFromTF (fsm_Properties state))"
    using assms map_Equal_same by blast
  then show thesis
    using that True fileset_head_assigns [OF known, of state] by (simp add: fileset_updates_def) (simp add: fileset_entity_def)
next
  case False
  obtain c p where cp: "both_maps fw (fsm_Properties state) (fsm_Properties plan) = Inr (c, p)" "wf_map c" "wf_map p"
      "map_of c = map_of (mapFromTF (fsm_Properties state))" "map_of p = map_of (mapFromTF (fsm_Properties plan))"
    by (rule both_maps_plain [OF assms(1,3,2)]) blast
  let ?e = "(fileset_entity state)\<lparr>en_name := ValueString (fsm_Name plan), en_comment := ValueString (fsm_Comment plan)\<rparr>"
  have "fold (carry_out \<circ> fileset_change) (fileset_propertyUpdates c p) ?e = ?e\<lparr>en_props := map_of p\<rparr>"
    using cp by (intro fileset_entity_diff.assigns) (simp_all add: fileset_entity_def)
  moreover have "\<not> IsUnknown (fsm_Properties plan)" using assms(2) by (auto simp: plain_def)
  ultimately show thesis
    using that False cp fileset_head_assigns [OF known, of state]
    by (simp add: fileset_updates_def del: fold_append) (simp add: fileset_entity_def)
qed

subsection \<open>What is recorded after an apply\<close>

text \<open>A planned value survives: it is recorded when it was known, and something known (or null) when it was not.\<close>

definition survives :: "'a tfval \<Rightarrow> 'a tfval \<Rightarrow> bool" where
  "survives planned recorded \<longleftrightarrow> (\<forall>v. planned = TKnown v \<longrightarrow> recorded = TKnown v) \<and> \<not> IsUnknown recorded"

lemma survives_adopted: "survives p (adopted False p s)"
  by (cases p) (auto simp: survives_def adopted_def)

lemma survives_previous: "survives p (StringOrPrevious p s)"
  by (cases p) (auto simp: survives_def StringOrPrevious_def)

lemma previous_known: "\<not> IsUnknown (StringOrPrevious p s)"
  by (simp add: StringOrPrevious_def)

text \<open>The attributes a plan and the record of its apply have to agree on, all but the computed identifier
  and audit, which have to be known only.\<close>

definition consistent_fileset :: "fileset_model \<Rightarrow> fileset_model \<Rightarrow> bool" where
  "consistent_fileset plan m \<longleftrightarrow>
     survives (fsm_Metalake plan) (fsm_Metalake m) \<and> survives (fsm_Catalog plan) (fsm_Catalog m) \<and>
     survives (fsm_Schema plan) (fsm_Schema m) \<and>
     survives (fsm_Name plan) (fsm_Name m) \<and> survives (fsm_Comment plan) (fsm_Comment m) \<and> survives (fsm_Type plan) (fsm_Type m) \<and>
     survives (fsm_StorageLocation plan) (fsm_StorageLocation m) \<and> survives (fsm_Properties plan) (fsm_Properties m) \<and>
     \<not> IsUnknown (fsm_ID m) \<and> \<not> IsUnknown (fsm_Audit m)"

definition fileset_id :: "fileset_model \<Rightarrow> string \<Rightarrow> string" where
  "fileset_id m name =
     ValueString (fsm_Metalake m) @ ''.'' @ ValueString (fsm_Catalog m) @ ''.'' @ ValueString (fsm_Schema m) @ ''.'' @ name"

lemma fileset_id_inject [simp]: "fileset_id m a = fileset_id m b \<longleftrightarrow> a = b"
  by (simp add: fileset_id_def)

definition fileset_parents_known :: "fileset_model \<Rightarrow> bool" where
  "fileset_parents_known m \<longleftrightarrow> \<not> IsUnknown (fsm_Metalake m) \<and> \<not> IsUnknown (fsm_Catalog m) \<and> \<not> IsUnknown (fsm_Schema m)"

lemma survives_self: "\<not> IsUnknown v \<Longrightarrow> survives v v"
  by (simp add: survives_def)

lemma survives_text: "survives v (TKnown (ValueString v))"
  by (cases v) (simp_all add: survives_def)

lemma merged_consistent:
  assumes "fsm_Name plan \<noteq> TKnown []"
  shows "consistent_fileset plan (merged_fileset f plan False)"
proof -
  have "survives (fsm_Name plan) (fsm_Name (merged_fileset f plan False))"
    using assms by (cases "fsm_Name plan") (simp_all add: survives_def merged_fileset_def mergeFilesetResponse_def)
  moreover have "survives (fsm_Properties plan) (fsm_Properties (merged_fileset f plan False))"
    by (cases "fsm_Properties plan") (simp_all add: survives_def merged_fileset_def mergeFilesetResponse_def)
  ultimately show ?thesis
    by (simp add: consistent_fileset_def merged_fileset_def mergeFilesetResponse_def survives_adopted survives_text AuditToObjectValue_def
        split: option.split)
qed

lemma merged_id: "fsm_ID (merged_fileset f plan refreshing) = TKnown (fileset_id plan (fs_Name f))"
  by (simp add: merged_fileset_def mergeFilesetResponse_def fileset_id_def)

lemma previous_consistent: "fileset_parents_known plan \<Longrightarrow> consistent_fileset plan (fileset_previous plan state)"
  by (simp add: consistent_fileset_def fileset_parents_known_def survives_self fileset_previous_def survives_previous previous_known
      MapOrPrevious_def ObjectOrPrevious_def)

lemma previous_id: "survives (fsm_ID plan) (fsm_ID (fileset_previous plan state))"
  by (simp add: fileset_previous_def survives_previous)

text \<open>The server answers the request of a creation, or of an update, with the fileset.\<close>

definition create_answers :: "'w fileset_api \<Rightarrow> fileset_model \<Rightarrow> 'w \<Rightarrow> fileset \<Rightarrow> bool" where
  "create_answers api plan w f \<longleftrightarrow> (\<exists>req. fst (ea_create api (fileset_location plan) req w) = Inr f)"

definition update_answers :: "'w fileset_api \<Rightarrow> fileset_model \<Rightarrow> 'w \<Rightarrow> fileset \<Rightarrow> bool" where
  "update_answers api state w f \<longleftrightarrow>
     (\<exists>us. us \<noteq> [] \<and> fst (ea_update api (fileset_location state) (ValueString (fsm_Name state)) us w) = Inr f)"

lemma created_fileset:
  assumes "fileset_Create fw api (Inr plan) w = (Inr (Save m), w')"
  obtains f where "create_answers api plan w f" "m = merged_fileset f plan False"
proof -
  obtain req f where "ea_create api (fileset_location plan) req w = (Inr f, w')" "m = merged_fileset f plan False"
    using assms by (auto simp: fileset_Create_def andThen_Inr calling_Inr pure_step_def done_with_def)
  then show thesis by (intro that [of f]) (auto simp: create_answers_def intro!: exI [of _ req])
qed

lemma updated_fileset:
  assumes "fileset_Update fw api (Inr plan) (Inr state) w = (Inr (Save m), w')"
  obtains f where "fileset_updates fw plan state \<noteq> Inr []" "update_answers api state w f" "m = merged_fileset f plan False"
    | "fileset_updates fw plan state = Inr []" "m = fileset_previous plan state"
proof -
  obtain us where us: "fileset_updates fw plan state = Inr us"
    using assms by (auto simp: fileset_Update_def both_get_def andThen_Inr pure_step_def)
  show thesis
  proof (cases "us = []")
    case True
    then show thesis
      using assms us that(2) by (simp add: fileset_Update_def both_get_def andThen_def pure_step_def done_with_def)
  next
    case False
    then obtain f where "ea_update api (fileset_location state) (ValueString (fsm_Name state)) us w = (Inr f, w')"
        "m = merged_fileset f plan False"
      using assms us by (auto simp: fileset_Update_def both_get_def andThen_Inr calling_Inr pure_step_def done_with_def Let_def)
    then show thesis using us False by (intro that(1) [of f]) (auto simp: update_answers_def intro!: exI [of _ us])
  qed
qed

text \<open>C33: What a successful creation or update of a fileset records agrees with the plan, whatever the server
  answers: the metalake, catalog, schema, name, comment, type, storage location and properties whose planned value was
  known are recorded with that value, and no unknown value remains. The name of a plan is never empty, and its
  parents are known. The identifier is the exception: after a request it carries the name of the server's answer, so a planned identifier
  survives exactly when the server answers with the planned name; without a request it survives.\<close>

theorem fileset_apply_consistent:
  assumes "fsm_Name plan \<noteq> TKnown []" "fileset_parents_known plan"
    and "fileset_Create fw api (Inr plan) w = (Inr (Save m), w') \<or>
      fileset_Update fw api (Inr plan) (Inr state) w = (Inr (Save m), w')"
  shows "consistent_fileset plan m \<and>
    ((\<exists>f. (create_answers api plan w f \<or> update_answers api state w f) \<and> fsm_ID m = TKnown (fileset_id plan (fs_Name f)) \<and>
        (fsm_ID plan = TKnown (fileset_id plan (ValueString (fsm_Name plan))) \<longrightarrow>
          (survives (fsm_ID plan) (fsm_ID m) \<longleftrightarrow> fs_Name f = ValueString (fsm_Name plan)))) \<or>
     fileset_updates fw plan state = Inr [] \<and> survives (fsm_ID plan) (fsm_ID m))"
proof -
  have asked: "consistent_fileset plan m \<and> fsm_ID m = TKnown (fileset_id plan (fs_Name f)) \<and>
      (fsm_ID plan = TKnown (fileset_id plan (ValueString (fsm_Name plan))) \<longrightarrow>
        (survives (fsm_ID plan) (fsm_ID m) \<longleftrightarrow> fs_Name f = ValueString (fsm_Name plan)))"
    if "m = merged_fileset f plan False" for f
    using merged_consistent [OF assms(1)] that by (auto simp: merged_id survives_def)
  show ?thesis
    using assms(3)
  proof
    assume "fileset_Create fw api (Inr plan) w = (Inr (Save m), w')"
    then show ?thesis using asked by (elim created_fileset) blast
  next
    assume "fileset_Update fw api (Inr plan) (Inr state) w = (Inr (Save m), w')"
    then show ?thesis
    proof (cases rule: updated_fileset)
      case (1 f)
      then show ?thesis using asked [of f] by blast
    next
      case 2
      then show ?thesis using previous_consistent [OF assms(2)] previous_id by simp
    qed
  qed
qed

definition stored_fileset :: fileset where
  "stored_fileset = \<lparr>fs_Name = ''f'', fs_Comment = [], fs_Type = ''managed'', fs_StorageLocation = ''file:/f'',
     fs_Properties = [(''k'', ''v''), (''default-location-name'', ''default'')], fs_Audit = None\<rparr>"

definition one_fileset_api :: "unit fileset_api" where
  "one_fileset_api =
     \<lparr>ea_create = \<lambda>_ _ w. (Inr stored_fileset, w), ea_get = \<lambda>_ _ w. (Inr stored_fileset, w),
      ea_update = \<lambda>_ _ _ w. (Inr stored_fileset, w), ea_drop = \<lambda>_ _ w. (Inr True, w)\<rparr>"

definition fileset_plan :: fileset_model where
  "fileset_plan = \<lparr>fsm_ID = TUnknown, fsm_Metalake = TKnown ''m'', fsm_Catalog = TKnown ''c'', fsm_Schema = TKnown ''s'',
     fsm_Name = TKnown ''f'', fsm_Comment = TUnknown, fsm_Type = TUnknown, fsm_StorageLocation = TKnown ''file:///f'',
     fsm_Properties = TKnown (known_map [(''k'', ''v'')]), fsm_Audit = TUnknown\<rparr>"

lemma one_fileset_created:
  "fileset_Create strict_fw one_fileset_api (Inr fileset_plan) () = (Inr (Save (merged_fileset stored_fileset fileset_plan False)), ())"
  by (simp add: fileset_Create_def andThen_def pure_step_def calling_def done_with_def one_fileset_api_def string_map_def StringMap_def
      strict_fw_map fileset_plan_def)

theorem fileset_apply_consistent_witness:
  "\<exists>m. fileset_Create strict_fw one_fileset_api (Inr fileset_plan) () = (Inr (Save m), ()) \<and> consistent_fileset fileset_plan m \<and>
     fsm_ID m = TKnown ''m.c.s.f''"
proof -
  let ?m = "merged_fileset stored_fileset fileset_plan False"
  have "fsm_Name fileset_plan \<noteq> TKnown []" "fileset_parents_known fileset_plan"
    by (simp_all add: fileset_plan_def fileset_parents_known_def)
  then have "consistent_fileset fileset_plan ?m"
    using fileset_apply_consistent [OF _ _ disjI1 [OF one_fileset_created]] by blast
  moreover have "fsm_ID ?m = TKnown ''m.c.s.f''"
    by (simp add: merged_id fileset_id_def fileset_plan_def stored_fileset_def)
  ultimately show ?thesis using one_fileset_created by blast
qed

subsection \<open>No drift\<close>

text \<open>What the server may report later without being a change of the fileset: any storage location, and any
  property the recorded map does not have.\<close>

definition reports :: "fileset \<Rightarrow> fileset_model \<Rightarrow> bool" where
  "reports f m \<longleftrightarrow>
     fsm_Name m = TKnown (fs_Name f) \<and> fsm_Comment m = TKnown (fs_Comment f) \<and> fsm_Type m = TKnown (fs_Type f) \<and>
     list_all (\<lambda>(k, v). map_of (fs_Properties f) k = Some v) (mapFromTF (fsm_Properties m)) \<and>
     fsm_ID m = TKnown (ValueString (fsm_Metalake m) @ ''.'' @ ValueString (fsm_Catalog m) @ ''.'' @ ValueString (fsm_Schema m)
       @ ''.'' @ fs_Name f) \<and> fsm_Audit m = AuditToObjectValue (fs_Audit f)"

lemma project_recorded:
  "list_all (\<lambda>(k, v). map_of server k = Some v) m \<Longrightarrow> projectProperties (known_map m) server = m"
  by (induction m) (auto simp: projectProperties_def known_map_def)

lemma refresh_recorded:
  assumes "reports f m" "fsm_Properties m = TKnown (known_map props)" "fsm_StorageLocation m = TKnown s"
    and "fsm_Metalake m = TKnown a" "fsm_Catalog m = TKnown b" "fsm_Schema m = TKnown c"
  shows "merged_fileset f m True = m"
  using assms by (cases m) (simp add: reports_def merged_fileset_def mergeFilesetResponse_def adopted_def project_recorded)

lemma recorded_known:
  assumes "m = merged_fileset f plan False" "plain (fsm_Properties plan) \<or> IsUnknown (fsm_Properties plan)"
  obtains props s where "fsm_Properties m = TKnown (known_map props)" "fsm_StorageLocation m = TKnown s"
    "fsm_Metalake m = TKnown (ValueString (fsm_Metalake plan))" "fsm_Catalog m = TKnown (ValueString (fsm_Catalog plan))"
    "fsm_Schema m = TKnown (ValueString (fsm_Schema plan))"
proof -
  have "\<exists>props. fsm_Properties m = TKnown (known_map props)"
    using assms by (cases "fsm_Properties plan") (auto simp: merged_fileset_def mergeFilesetResponse_def plain_def)
  moreover have "\<exists>s. fsm_StorageLocation m = TKnown s"
    using assms(1) by (cases "fsm_StorageLocation plan") (auto simp: merged_fileset_def mergeFilesetResponse_def adopted_def)
  ultimately show thesis
    using that assms(1) by (auto simp: merged_fileset_def mergeFilesetResponse_def)
qed

text \<open>C8: A fileset does not drift. After a successful creation, or an update that sent requests, a refresh changes
  nothing as long as the server reports the recorded name, comment, type, audit and values of the recorded
  properties; the storage location it echoes and the properties it adds are free.\<close>

theorem fileset_no_drift:
  assumes "fileset_Create fw api (Inr plan) w = (Inr (Save m), w') \<or>
      fileset_updates fw plan state \<noteq> Inr [] \<and> fileset_Update fw api (Inr plan) (Inr state) w = (Inr (Save m), w')"
    and "plain (fsm_Properties plan) \<or> IsUnknown (fsm_Properties plan)"
    and "ea_get api (fileset_location m) (ValueString (fsm_Name m)) w1 = (Inr f, w2)" "reports f m"
  shows "fileset_Read api (Inr m) w1 = (Inr (Save m), w2)"
proof -
  obtain created where "m = merged_fileset created plan False"
    using assms(1) by (auto elim: created_fileset updated_fileset)
  then have "merged_fileset f m True = m"
    using refresh_recorded [OF assms(4)] recorded_known [OF _ assms(2)] by metis
  then show ?thesis
    using assms(3) by (simp add: fileset_Read_def andThen_def pure_step_def refresh_def)
qed

theorem fileset_no_drift_witness:
  "\<exists>m. fileset_Create strict_fw one_fileset_api (Inr fileset_plan) () = (Inr (Save m), ()) \<and>
     fileset_Read one_fileset_api (Inr m) () = (Inr (Save m), ()) \<and> fsm_StorageLocation m = TKnown ''file:///f'' \<and>
     fs_StorageLocation stored_fileset = ''file:/f''"
proof -
  let ?m = "merged_fileset stored_fileset fileset_plan False"
  have "plain (fsm_Properties fileset_plan)" by (auto simp: plain_def fileset_plan_def wf_map_def keys_def)
  moreover have "reports stored_fileset ?m"
    by (simp add: reports_def stored_fileset_def fileset_plan_def merged_fileset_def mergeFilesetResponse_def adopted_def)
  ultimately have "fileset_Read one_fileset_api (Inr ?m) () = (Inr (Save ?m), ())"
    using fileset_no_drift [OF disjI1 [OF one_fileset_created] disjI1] by (simp add: one_fileset_api_def)
  then show ?thesis
    using one_fileset_created
    by (simp add: stored_fileset_def fileset_plan_def merged_fileset_def mergeFilesetResponse_def adopted_def)
qed

end
