(* ===== verification/StatisticsResource.thy ===== *)
theory StatisticsResource
  imports Entity TableResource
begin

section \<open>The statistics resources (models/statistics.go, resources/statistics)\<close>

text \<open>
  The statistics of an object are a map the server changes by two requests: one assigns values, one drops names.
  Both resources, of an object and of the partitions of a table, read the map, send what differs and drop what
  is not wanted any more (\<open>reconcile\<close>). The locale \<open>reconciliation\<close> states what the two lists of a request
  must contain and proves that the map then is the desired one; both resources interpret it. Only statistics
  the server calls modifiable, and whose value is not null, are seen.
\<close>

subsection \<open>Statistics as text\<close>

record statistic =
  st_Name :: string
  st_Value :: string
  st_Reserved :: bool
  st_Modifiable :: bool
  st_Audit :: "audit option"

text \<open>The value is the raw JSON, empty when the server reports none.\<close>

definition Statistic_ValueString :: "statistic \<Rightarrow> string option" where
  "Statistic_ValueString s =
     (let raw = trim_space (st_Value s) in
      if raw = [] \<or> raw = ''null'' then None
      else if hd raw = CHR 0x22 then (case parse_json raw of Some (JStr text) \<Rightarrow> Some text | _ \<Rightarrow> Some raw)
      else Some raw)"

definition modifiable_values :: "statistic list \<Rightarrow> string gomap" where
  "modifiable_values stats =
     fold (\<lambda>s m. if st_Reserved s \<or> \<not> st_Modifiable s then m
        else case Statistic_ValueString s of None \<Rightarrow> m | Some v \<Rightarrow> put (st_Name s) v m) stats []"

definition StatisticCustomPrefix :: string where "StatisticCustomPrefix = ''custom-''"

definition StatisticMaxNameLength :: nat where "StatisticMaxNameLength = 128"

definition validateStatisticName :: "string \<Rightarrow> path_step list \<Rightarrow> diags" where
  "validateStatisticName name attrPath =
     (if \<not> has_prefix name StatisticCustomPrefix
      then [attribute_error attrPath ''Invalid statistic name''
              (''Gravitino only accepts statistic names that start with '' @ quote StatisticCustomPrefix @ '', got '' @ quote name @ ''.'')]
      else if length name > StatisticMaxNameLength
      then [attribute_error attrPath ''Invalid statistic name''
              (''Statistic names must be at most '' @ itoa (int StatisticMaxNameLength) @ '' characters, '' @ quote name
               @ '' has '' @ itoa (int (length name)) @ ''.'')]
      else [])"

definition statistics_ValidateMap :: "path_step list \<Rightarrow> tf_map \<Rightarrow> diags" where
  "statistics_ValidateMap p v =
     (case v of TKnown m \<Rightarrow> concat (map (\<lambda>(name, _). validateStatisticName name (p @ [AtMapKey name])) m) | _ \<Rightarrow> [])"

subsection \<open>Reconciling\<close>

definition reconcile ::
    "('w \<Rightarrow> (gerror + 'm) \<times> 'w) \<Rightarrow> ('m \<Rightarrow> 'u list) \<Rightarrow> ('u list \<Rightarrow> 'w \<Rightarrow> (gerror + bool) \<times> 'w) \<Rightarrow>
     ('m \<Rightarrow> 'd list) \<Rightarrow> ('d list \<Rightarrow> 'w \<Rightarrow> (gerror + bool) \<times> 'w) \<Rightarrow> 'w \<Rightarrow> (gerror + unit) \<times> 'w" where
  "reconcile load updates send drops drop_names w =
     (case load w of
        (Inl err, w1) \<Rightarrow> (Inl err, w1)
      | (Inr current, w1) \<Rightarrow>
          (case (if updates current = [] then (Inr True, w1) else send (updates current) w1) of
             (Inl err, w2) \<Rightarrow> (Inl err, w2)
           | (Inr _, w2) \<Rightarrow>
               (case (if drops current = [] then (Inr True, w2) else drop_names (drops current) w2) of
                  (Inl err, w3) \<Rightarrow> (Inl err, w3)
                | (Inr _, w3) \<Rightarrow> (Inr (), w3))))"

text \<open>A store holds a map of texts: it reports it, assigns the values of a request and forgets the names of one.\<close>

definition lawful_store ::
    "('m \<Rightarrow> 'k \<Rightarrow> string option) \<Rightarrow> ('u list \<Rightarrow> 'k \<Rightarrow> string option) \<Rightarrow> ('d list \<Rightarrow> 'k \<Rightarrow> bool) \<Rightarrow>
     ('w \<Rightarrow> (gerror + 'm) \<times> 'w) \<Rightarrow> ('u list \<Rightarrow> 'w \<Rightarrow> (gerror + bool) \<times> 'w) \<Rightarrow> ('d list \<Rightarrow> 'w \<Rightarrow> (gerror + bool) \<times> 'w) \<Rightarrow>
     ('w \<Rightarrow> 'k \<Rightarrow> string option) \<Rightarrow> bool" where
  "lawful_store view assigned named load send drop_names content \<longleftrightarrow>
     (\<forall>w m w'. load w = (Inr m, w') \<longrightarrow> view m = content w \<and> content w' = content w) \<and>
     (\<forall>u w r w'. send u w = (Inr r, w') \<longrightarrow> content w' = content w ++ assigned u) \<and>
     (\<forall>d w r w'. drop_names d w = (Inr r, w') \<longrightarrow> content w' = (\<lambda>k. if named d k then None else content w k))"

locale reconciliation =
  fixes sound :: "'m \<Rightarrow> bool" and view :: "'m \<Rightarrow> 'k \<Rightarrow> string option"
    and updates :: "'m \<Rightarrow> 'm \<Rightarrow> 'u list" and assigned :: "'u list \<Rightarrow> 'k \<Rightarrow> string option"
    and drops :: "'m \<Rightarrow> 'm \<Rightarrow> 'd list" and named :: "'d list \<Rightarrow> 'k \<Rightarrow> bool"
  assumes assigned_updates: "sound c \<Longrightarrow> sound d \<Longrightarrow>
      assigned (updates c d) k = (if view d k \<noteq> None \<and> view c k \<noteq> view d k then view d k else None)"
    and named_drops: "sound c \<Longrightarrow> sound d \<Longrightarrow> named (drops c d) k \<longleftrightarrow> view c k \<noteq> None \<and> view d k = None"
    and updates_matter: "sound c \<Longrightarrow> sound d \<Longrightarrow> updates c d \<noteq> [] \<Longrightarrow> \<exists>k. assigned (updates c d) k \<noteq> None"
    and drops_matter: "sound c \<Longrightarrow> sound d \<Longrightarrow> drops c d \<noteq> [] \<Longrightarrow> \<exists>k. named (drops c d) k"
    and idle_requests: "assigned [] k = None" "\<not> named [] k"
begin

lemma no_request: "assigned [] = Map.empty"
  using idle_requests(1) by blast

lemma applied: "sound c \<Longrightarrow> sound d \<Longrightarrow> (if named (drops c d) k then None else (view c ++ assigned (updates c d)) k) = view d k"
  by (auto simp: named_drops assigned_updates map_add_def split: option.splits)

lemma converges:
  assumes "lawful_store view assigned named load send drop_names content" "sound d"
    and loaded: "\<And>w m w'. load w = (Inr m, w') \<Longrightarrow> sound m"
    and "reconcile load (\<lambda>c. updates c d) send (\<lambda>c. drops c d) drop_names w = (Inr x, w')"
  shows "content w' = view d"
proof -
  obtain c w1 where c: "load w = (Inr c, w1)"
    using assms(4) by (auto simp: reconcile_def split: prod.splits sum.splits)
  then have cw: "sound c" "view c = content w1" using assms(1) loaded by (simp_all add: lawful_store_def)
  obtain r w2 where u: "(if updates c d = [] then (Inr True, w1) else send (updates c d) w1) = (Inr r, w2)"
    using assms(4) c by (auto simp: reconcile_def split: prod.splits sum.splits)
  have "content w2 = content w1 ++ assigned (updates c d)"
  proof (cases "updates c d = []")
    case True
    then show ?thesis using u by (simp add: no_request)
  next
    case False
    then show ?thesis using u assms(1) unfolding lawful_store_def by simp
  qed
  moreover obtain r' where "(if drops c d = [] then (Inr True, w2) else drop_names (drops c d) w2) = (Inr r', w')"
    using assms(4) c u by (auto simp: reconcile_def split: prod.splits sum.splits)
  then have "content w' = (\<lambda>k. if named (drops c d) k then None else content w2 k)"
    using assms(1) idle_requests unfolding lawful_store_def by (cases "drops c d = []") auto
  ultimately show ?thesis using applied [OF cw(1) assms(2), unfolded cw(2)] by (intro ext) metis
qed

lemma idle:
  assumes "lawful_store view assigned named load send drop_names content" "sound d" "load w = (Inr c, w1)" "sound c" "content w = view d"
  shows "reconcile load (\<lambda>c. updates c d) send (\<lambda>c. drops c d) drop_names w = (Inr (), w1)"
proof -
  have c: "sound c" "view c = view d" using assms by (simp_all add: lawful_store_def)
  have "assigned (updates c d) k = None" "\<not> named (drops c d) k" for k
    using assigned_updates [OF c(1) assms(2)] named_drops [OF c(1) assms(2)] c(2) by auto
  then have "updates c d = []" "drops c d = []"
    using updates_matter [OF c(1) assms(2)] drops_matter [OF c(1) assms(2)] by (metis, metis)
  then show ?thesis using assms(3) by (simp add: reconcile_def)
qed

end

subsection \<open>The statistics of an object (resource.go)\<close>

record statistics_model =
  stm_ID :: "string tfval"
  stm_Metalake :: "string tfval"
  stm_ObjectType :: "string tfval"
  stm_ObjectFullName :: "string tfval"
  stm_Statistics :: tf_map

record 'w statistics_api =
  sa_list :: "string \<Rightarrow> string \<Rightarrow> string \<Rightarrow> 'w \<Rightarrow> (gerror + statistic list) \<times> 'w"
  sa_update :: "string \<Rightarrow> string \<Rightarrow> string \<Rightarrow> string gomap \<Rightarrow> 'w \<Rightarrow> (gerror + bool) \<times> 'w"
  sa_drop :: "string \<Rightarrow> string \<Rightarrow> string \<Rightarrow> string list \<Rightarrow> 'w \<Rightarrow> (gerror + bool) \<times> 'w"
  sa_probe :: "'w probe"

definition StatisticsObjectTypes :: "string list" where
  "StatisticsObjectTypes = [''METALAKE'', ''CATALOG'', ''SCHEMA'', ''TABLE'', ''VIEW'', ''COLUMN'', ''FILESET'', ''TOPIC'', ''MODEL'',
     ''FUNCTION'', ''ROLE'']"

definition statisticsID :: "string \<Rightarrow> string \<Rightarrow> string \<Rightarrow> string" where
  "statisticsID metalake objectType objectFullName = metalake @ ''.'' @ objectType @ ''.'' @ objectFullName"

definition currentStatistics :: "'w statistics_api \<Rightarrow> string \<Rightarrow> string \<Rightarrow> string \<Rightarrow> 'w \<Rightarrow> (gerror + string gomap) \<times> 'w" where
  "currentStatistics api metalake objectType objectFullName w =
     (case sa_list api metalake objectType objectFullName w of (r, w') \<Rightarrow> (map_sum (\<lambda>e. e) modifiable_values r, w'))"

definition statistic_updates :: "string gomap \<Rightarrow> string gomap \<Rightarrow> string gomap" where
  "statistic_updates current desired = filter (\<lambda>(name, v). map_of current name \<noteq> Some v) desired"

definition statistic_drops :: "string gomap \<Rightarrow> string gomap \<Rightarrow> string list" where
  "statistic_drops current desired = sort (filter (\<lambda>name. map_of desired name = None) (keys current))"

definition statistics_apply ::
    "'w statistics_api \<Rightarrow> string \<Rightarrow> string \<Rightarrow> string \<Rightarrow> string gomap \<Rightarrow> 'w \<Rightarrow> (gerror + unit) \<times> 'w" where
  "statistics_apply api metalake objectType objectFullName desired =
     reconcile (currentStatistics api metalake objectType objectFullName)
       (\<lambda>current. statistic_updates current desired) (sa_update api metalake objectType objectFullName)
       (\<lambda>current. statistic_drops current desired) (sa_drop api metalake objectType objectFullName)"

definition statistics_checkObjectType :: "'w statistics_api \<Rightarrow> string \<Rightarrow> (unit, 'w vclient) step" where
  "statistics_checkObjectType api objectType c =
     (case CheckMetadataObjectTypeSupported (sa_probe api) objectType c of
        (Some err, c') \<Rightarrow> (Inl [attribute_error [AtName ''object_type''] ''Unsupported object_type value'' (err_text err)], c')
      | (None, c') \<Rightarrow> (Inr (), c'))"

definition setStatisticsState :: "statistics_model \<Rightarrow> string gomap \<Rightarrow> statistics_model" where
  "setStatisticsState m statistics =
     m\<lparr>stm_ID := TKnown (statisticsID (ValueString (stm_Metalake m)) (ValueString (stm_ObjectType m)) (ValueString (stm_ObjectFullName m))),
       stm_Statistics := TKnown (known_map statistics)\<rparr>"

text \<open>\<open>Create\<close> and \<open>Update\<close> differ in the wording of the error only; \<open>Update\<close> does not look at the state.\<close>

definition statistics_write ::
    "string \<Rightarrow> ('a fw_scheme) \<Rightarrow> 'w statistics_api \<Rightarrow> diags + statistics_model \<Rightarrow> (statistics_model state_write, 'w vclient) step" where
  "statistics_write operation fw api planGet =
     andThen (pure_step planGet) (\<lambda>plan.
     andThen (statistics_checkObjectType api (ValueString (stm_ObjectType plan))) (\<lambda>_.
     andThen (pure_step (string_map fw (stm_Statistics plan))) (\<lambda>desired.
     andThen (calling (on_world (statistics_apply api (ValueString (stm_Metalake plan)) (ValueString (stm_ObjectType plan))
                (ValueString (stm_ObjectFullName plan)) desired))
              (NewStatisticsError operation (ValueString (stm_ObjectFullName plan)))) (\<lambda>_.
     done_with (Save (setStatisticsState plan desired))))))"

definition statistics_Create where "statistics_Create = statistics_write ''creating statistics of''"

definition statistics_Update where "statistics_Update = statistics_write ''updating statistics of''"

definition statistics_Read :: "'w statistics_api \<Rightarrow> diags + statistics_model \<Rightarrow> (statistics_model state_write, 'w vclient) step" where
  "statistics_Read api stateGet =
     andThen (pure_step stateGet) (\<lambda>state.
     andThen (statistics_checkObjectType api (ValueString (stm_ObjectType state))) (\<lambda>_.
       refresh (on_world (currentStatistics api (ValueString (stm_Metalake state)) (ValueString (stm_ObjectType state))
                  (ValueString (stm_ObjectFullName state))))
         (NewStatisticsError ''reading statistics of'' (ValueString (stm_ObjectFullName state)))
         (\<lambda>current. Inr (setStatisticsState state current))))"

definition statistics_Delete ::
    "('a fw_scheme) \<Rightarrow> 'w statistics_api \<Rightarrow> diags + statistics_model \<Rightarrow> (statistics_model state_write, 'w) step" where
  "statistics_Delete fw api stateGet =
     andThen (pure_step stateGet) (\<lambda>state.
     andThen (pure_step (string_map fw (stm_Statistics state))) (\<lambda>managed.
       let names = sort (keys managed) in
       if names = [] then done_with Remove
       else drop_or_gone (sa_drop api (ValueString (stm_Metalake state)) (ValueString (stm_ObjectType state))
                            (ValueString (stm_ObjectFullName state)) names)
              (NewStatisticsError ''deleting statistics of'' (ValueString (stm_ObjectFullName state)))))"

definition statistics_ImportState :: "string \<Rightarrow> diagnostic + (string \<times> string) list" where
  "statistics_ImportState reqID =
     (case SplitImportID 3 ''metalake.object_type.object_full_name'' reqID of
        Inl d \<Rightarrow> Inl d
      | Inr parts \<Rightarrow>
          if parts ! 1 \<notin> set StatisticsObjectTypes
          then Inl (error_diag ''Invalid import ID'' (''Unknown object type '' @ quote (parts ! 1) @ '' in import ID '' @ quote reqID
                 @ ''; expected one of: '' @ join '', '' StatisticsObjectTypes @ ''.''))
          else Inr [(''metalake'', parts ! 0), (''object_type'', parts ! 1), (''object_full_name'', parts ! 2),
                    (''id'', statisticsID (parts ! 0) (parts ! 1) (parts ! 2))])"

subsection \<open>The statistics of the partitions of a table (resource_partition.go)\<close>

record partition_statistics =
  ps_PartitionName :: string
  ps_Statistics :: "statistic list"

type_synonym partition_values = "string gomap gomap"

record partition_statistics_model =
  psm_ID :: "string tfval"
  psm_Metalake :: "string tfval"
  psm_Catalog :: "string tfval"
  psm_Schema :: "string tfval"
  psm_Table :: "string tfval"
  psm_Partitions :: "(string \<times> tf_map) list tfval"

text \<open>Decoding the missing map of a partition is left to the framework.\<close>

record statistics_fw = fw +
  sfw_absent :: "tf_map \<Rightarrow> diags + string gomap"

record 'w partition_statistics_api =
  psa_list :: "string \<Rightarrow> string \<Rightarrow> string \<Rightarrow> 'w \<Rightarrow> (gerror + partition_statistics list) \<times> 'w"
  psa_update :: "string \<Rightarrow> string \<Rightarrow> string \<Rightarrow> partition_values \<Rightarrow> 'w \<Rightarrow> (gerror + bool) \<times> 'w"
  psa_drop :: "string \<Rightarrow> string \<Rightarrow> string \<Rightarrow> (string \<times> string list) list \<Rightarrow> 'w \<Rightarrow> (gerror + bool) \<times> 'w"

definition tableFullName :: "partition_statistics_model \<Rightarrow> string" where
  "tableFullName m = ValueString (psm_Catalog m) @ ''.'' @ ValueString (psm_Schema m) @ ''.'' @ ValueString (psm_Table m)"

definition partitionStatisticsID :: "string \<Rightarrow> string \<Rightarrow> string \<Rightarrow> string \<Rightarrow> string" where
  "partitionStatisticsID metalake catalog schema name = metalake @ ''.'' @ catalog @ ''.'' @ schema @ ''.'' @ name"

definition value_of :: "partition_values \<Rightarrow> string \<Rightarrow> string \<Rightarrow> string option" where
  "value_of m p name = Option.bind (map_of m p) (\<lambda>statistics. map_of statistics name)"

definition partition_map :: "partition_statistics list \<Rightarrow> partition_values" where
  "partition_map ps =
     fold (\<lambda>p m. let statistics = modifiable_values (ps_Statistics p) in
        if statistics \<noteq> [] then put (ps_PartitionName p) statistics m else m) ps []"

definition currentPartitions ::
    "'w partition_statistics_api \<Rightarrow> partition_statistics_model \<Rightarrow> 'w \<Rightarrow> (gerror + partition_values) \<times> 'w" where
  "currentPartitions api m w =
     (case psa_list api (ValueString (psm_Metalake m)) ''TABLE'' (tableFullName m) w of
        (r, w') \<Rightarrow> (map_sum (\<lambda>e. e) partition_map r, w'))"

fun partition_elements :: "('a statistics_fw_scheme) \<Rightarrow> (string \<times> tf_map) list \<Rightarrow> diags + partition_values" where
  "partition_elements fw [] = Inr []"
| "partition_elements fw ((p, v) # rest) =
     (case (case v of TKnown m \<Rightarrow> fw_map fw m | _ \<Rightarrow> sfw_absent fw v) of
        Inl es \<Rightarrow> Inl es
      | Inr statistics \<Rightarrow> map_sum (\<lambda>es. es) (\<lambda>m. (p, statistics) # m) (partition_elements fw rest))"

definition partitionsFromModel :: "('a statistics_fw_scheme) \<Rightarrow> (string \<times> tf_map) list tfval \<Rightarrow> diags + partition_values" where
  "partitionsFromModel fw v = (case v of TKnown ps \<Rightarrow> partition_elements fw ps | _ \<Rightarrow> Inr [])"

definition partitionsToMap :: "partition_values \<Rightarrow> (string \<times> tf_map) list tfval" where
  "partitionsToMap m = TKnown (map (\<lambda>(p, statistics). (p, TKnown (known_map statistics))) m)"

definition setPartitionStatisticsState :: "partition_statistics_model \<Rightarrow> partition_values \<Rightarrow> partition_statistics_model" where
  "setPartitionStatisticsState m partitions =
     m\<lparr>psm_ID := TKnown (partitionStatisticsID (ValueString (psm_Metalake m)) (ValueString (psm_Catalog m))
         (ValueString (psm_Schema m)) (ValueString (psm_Table m))),
       psm_Partitions := partitionsToMap partitions\<rparr>"

definition partitionUpdates :: "partition_values \<Rightarrow> partition_values \<Rightarrow> partition_values" where
  "partitionUpdates current desired =
     sort_key fst (filter (\<lambda>(p, changed). changed \<noteq> [])
       (map (\<lambda>(p, statistics). (p, filter (\<lambda>(name, v). value_of current p name \<noteq> Some v) statistics)) desired))"

definition partitionDrops :: "partition_values \<Rightarrow> partition_values \<Rightarrow> (string \<times> string list) list" where
  "partitionDrops current desired =
     sort_key fst (filter (\<lambda>(p, names). names \<noteq> [])
       (map (\<lambda>(p, statistics). (p, sort (filter (\<lambda>name. value_of desired p name = None) (keys statistics)))) current))"

definition partition_statistics_apply ::
    "'w partition_statistics_api \<Rightarrow> partition_statistics_model \<Rightarrow> partition_values \<Rightarrow> 'w \<Rightarrow> (gerror + unit) \<times> 'w" where
  "partition_statistics_apply api m desired =
     reconcile (currentPartitions api m)
       (\<lambda>current. partitionUpdates current desired) (psa_update api (ValueString (psm_Metalake m)) ''TABLE'' (tableFullName m))
       (\<lambda>current. partitionDrops current desired) (psa_drop api (ValueString (psm_Metalake m)) ''TABLE'' (tableFullName m))"

definition partition_statistics_write ::
    "string \<Rightarrow> ('a statistics_fw_scheme) \<Rightarrow> 'w partition_statistics_api \<Rightarrow> diags + partition_statistics_model \<Rightarrow>
     (partition_statistics_model state_write, 'w) step" where
  "partition_statistics_write operation fw api planGet =
     andThen (pure_step planGet) (\<lambda>plan.
     andThen (pure_step (partitionsFromModel fw (psm_Partitions plan))) (\<lambda>desired.
     andThen (calling (partition_statistics_apply api plan desired) (NewStatisticsError operation (tableFullName plan))) (\<lambda>_.
     done_with (Save (setPartitionStatisticsState plan desired)))))"

definition partition_statistics_Create where
  "partition_statistics_Create = partition_statistics_write ''creating partition statistics of''"

definition partition_statistics_Update where
  "partition_statistics_Update = partition_statistics_write ''updating partition statistics of''"

definition partition_statistics_Read ::
    "'w partition_statistics_api \<Rightarrow> diags + partition_statistics_model \<Rightarrow> (partition_statistics_model state_write, 'w) step" where
  "partition_statistics_Read api stateGet =
     andThen (pure_step stateGet) (\<lambda>state.
       refresh (currentPartitions api state) (NewStatisticsError ''reading partition statistics of'' (tableFullName state))
         (\<lambda>current. Inr (setPartitionStatisticsState state current)))"

definition partition_statistics_Delete ::
    "('a statistics_fw_scheme) \<Rightarrow> 'w partition_statistics_api \<Rightarrow> diags + partition_statistics_model \<Rightarrow>
     (partition_statistics_model state_write, 'w) step" where
  "partition_statistics_Delete fw api stateGet =
     andThen (pure_step stateGet) (\<lambda>state.
     andThen (pure_step (partitionsFromModel fw (psm_Partitions state))) (\<lambda>managed.
       let drops = partitionDrops managed [] in
       if drops = [] then done_with Remove
       else drop_or_gone (psa_drop api (ValueString (psm_Metalake state)) ''TABLE'' (tableFullName state) drops)
              (NewStatisticsError ''deleting partition statistics of'' (tableFullName state))))"

definition partition_statistics_ImportState :: "string \<Rightarrow> diagnostic + (string \<times> string) list" where
  "partition_statistics_ImportState reqID =
     (case SplitImportID 4 ''metalake.catalog.schema.table'' reqID of
        Inl d \<Rightarrow> Inl d
      | Inr parts \<Rightarrow> Inr [(''metalake'', parts ! 0), (''catalog'', parts ! 1), (''schema'', parts ! 2), (''table'', parts ! 3),
                         (''id'', partitionStatisticsID (parts ! 0) (parts ! 1) (parts ! 2) (parts ! 3))])"

definition partition_statistics_ValidateMap :: "path_step list \<Rightarrow> (string \<times> tf_map) list tfval \<Rightarrow> diags" where
  "partition_statistics_ValidateMap p v =
     (case v of
        TKnown ps \<Rightarrow>
          concat (map (\<lambda>(name, element).
            if trim_space name = []
            then [attribute_error (p @ [AtMapKey name]) ''Invalid partition name''
                    ''A partition statistics entry must name the partition it belongs to.'']
            else case element of
              TKnown [] \<Rightarrow> [attribute_error (p @ [AtMapKey name]) ''Empty partition statistics''
                 (''A partition entry must list at least one statistic. Remove the partition key to drop every ''
                  @ ''statistic this resource manages for that partition.'')]
            | TKnown m \<Rightarrow> statistics_ValidateMap (p @ [AtMapKey name]) element
            | _ \<Rightarrow> []) ps)
      | _ \<Rightarrow> [])"

subsection \<open>Both resources reconcile\<close>

lemma map_of_filter:
  "wf_map m \<Longrightarrow> map_of (filter (\<lambda>(k, v). P k v) m) k = (case map_of m k of None \<Rightarrow> None | Some v \<Rightarrow> if P k v then Some v else None)"
proof (induction m)
  case (Cons kv m)
  then show ?case by (cases kv) (auto simp: map_of_None_keys [symmetric] split: option.splits)
qed simp

lemma wf_filter: "wf_map m \<Longrightarrow> wf_map (filter P m)"
  by (simp add: wf_map_def keys_def distinct_map_filter)

lemma wf_modifiable_values: "wf_map (modifiable_values stats)"
proof -
  have "wf_map m \<Longrightarrow> wf_map (fold (\<lambda>s m. if st_Reserved s \<or> \<not> st_Modifiable s then m
        else case Statistic_ValueString s of None \<Rightarrow> m | Some v \<Rightarrow> put (st_Name s) v m) stats m)" for m
    by (induction stats arbitrary: m) (auto split: option.split)
  then show ?thesis by (simp add: modifiable_values_def)
qed

interpretation object_statistics: reconciliation wf_map map_of statistic_updates map_of statistic_drops "\<lambda>names k. k \<in> set names"
proof
  fix c d :: "string gomap" and k
  assume wf: "wf_map c" "wf_map d"
  show assigned: "map_of (statistic_updates c d) k =
      (if map_of d k \<noteq> None \<and> map_of c k \<noteq> map_of d k then map_of d k else None)" for k
    by (auto simp: statistic_updates_def map_of_filter [OF wf(2)] split: option.split)
  show "k \<in> set (statistic_drops c d) \<longleftrightarrow> map_of c k \<noteq> None \<and> map_of d k = None"
    by (auto simp: statistic_drops_def set_keys)
  show "\<exists>k. map_of (statistic_updates c d) k \<noteq> None" if "statistic_updates c d \<noteq> []"
    using that by (cases "statistic_updates c d") auto
  show "\<exists>k. k \<in> set (statistic_drops c d)" if "statistic_drops c d \<noteq> []"
    using that by (cases "statistic_drops c d") auto
qed simp_all

definition wf_partitions :: "partition_values \<Rightarrow> bool" where
  "wf_partitions m \<longleftrightarrow> wf_map m \<and> list_all (\<lambda>(_, statistics). wf_map statistics) m"

lemma wf_put_partition:
  "wf_partitions m \<Longrightarrow> wf_map statistics \<Longrightarrow> wf_partitions (put p statistics m)"
  by (auto simp: wf_partitions_def list_all_iff) (auto simp: put_def split: if_splits)

lemma wf_partition_map: "wf_partitions (partition_map ps)"
proof -
  have "wf_partitions m \<Longrightarrow> wf_partitions (fold (\<lambda>p m. let statistics = modifiable_values (ps_Statistics p) in
        if statistics \<noteq> [] then put (ps_PartitionName p) statistics m else m) ps m)" for m
    by (induction ps arbitrary: m) (auto simp: wf_put_partition wf_modifiable_values Let_def)
  then show ?thesis by (simp add: partition_map_def wf_partitions_def)
qed

lemma map_of_mapped: "map_of (map (\<lambda>(p, s). (p, f p s)) m) p = map_option (f p) (map_of m p)"
  by (induction m) auto

lemma keys_mapped: "keys (map (\<lambda>(p, s). (p, f p s)) m) = keys m"
  by (simp add: keys_def comp_def case_prod_beta)

lemma map_of_sorted:
  assumes "wf_map m"
  shows "map_of (sort_key fst (filter (\<lambda>(p, s). s \<noteq> []) (map (\<lambda>(p, s). (p, f p s)) m))) p =
    (case map_of m p of None \<Rightarrow> None | Some s \<Rightarrow> if f p s = [] then None else Some (f p s))"
proof -
  have wf: "wf_map (map (\<lambda>(p, s). (p, f p s)) m)" using assms by (simp add: wf_map_def keys_mapped)
  have "map_of (sort_key fst (filter (\<lambda>(p, s). s \<noteq> []) (map (\<lambda>(p, s). (p, f p s)) m))) p =
      map_of (filter (\<lambda>(p, s). s \<noteq> []) (map (\<lambda>(p, s). (p, f p s)) m)) p"
    using wf_filter [OF wf] by (intro fun_cong [OF map_of_mset]) (simp_all add: wf_map_mset [OF mset_sort])
  then show ?thesis
    using map_of_filter [OF wf, of "\<lambda>_ s. s \<noteq> []" p] by (simp add: map_of_mapped split: option.split)
qed

lemma wf_inner: "wf_partitions m \<Longrightarrow> map_of m p = Some s \<Longrightarrow> wf_map s"
  by (auto simp: wf_partitions_def list_all_iff dest!: map_of_SomeD)

lemma partitionUpdates_value:
  assumes "wf_partitions d"
  shows "value_of (partitionUpdates c d) p n =
    (if value_of d p n \<noteq> None \<and> value_of c p n \<noteq> value_of d p n then value_of d p n else None)"
proof (cases "map_of d p")
  case (Some s)
  then have "map_of (filter (\<lambda>(n, v). value_of c p n \<noteq> Some v) s) n =
      (case map_of s n of None \<Rightarrow> None | Some v \<Rightarrow> if value_of c p n \<noteq> Some v then Some v else None)"
    using map_of_filter [OF wf_inner [OF assms Some], of "\<lambda>n v. value_of c p n \<noteq> Some v"] by simp
  then show ?thesis
    using assms Some
    by (auto simp: partitionUpdates_def value_of_def [of "sort_key _ _"] value_of_def [of d] map_of_sorted wf_partitions_def
        split: option.splits if_splits)
qed (use assms in \<open>simp add: partitionUpdates_def value_of_def [of "sort_key _ _"] value_of_def [of d] map_of_sorted wf_partitions_def\<close>)

definition drop_names :: "(string \<times> string list) list \<Rightarrow> string \<times> string \<Rightarrow> bool" where
  "drop_names ds = (\<lambda>(p, n). n \<in> set (concat (map snd (filter (\<lambda>(q, _). q = p) ds))))"

lemma drop_names_iff: "drop_names ds (p, n) \<longleftrightarrow> (\<exists>ns. (p, ns) \<in> set ds \<and> n \<in> set ns)"
  by (force simp: drop_names_def)

lemma in_partitionDrops:
  "(p, ns) \<in> set (partitionDrops c d) \<longleftrightarrow>
     (\<exists>s. (p, s) \<in> set c \<and> ns = sort (filter (\<lambda>name. value_of d p name = None) (keys s)) \<and> ns \<noteq> [])"
  by (auto simp: partitionDrops_def)

lemma partitionDrops_names:
  assumes "wf_partitions c"
  shows "drop_names (partitionDrops c d) (p, n) \<longleftrightarrow> value_of c p n \<noteq> None \<and> value_of d p n = None"
proof -
  have "drop_names (partitionDrops c d) (p, n) \<longleftrightarrow>
      (\<exists>s. (p, s) \<in> set c \<and> n \<in> set (sort (filter (\<lambda>name. value_of d p name = None) (keys s))))"
    unfolding drop_names_iff in_partitionDrops by (metis empty_iff empty_set)
  then have "drop_names (partitionDrops c d) (p, n) \<longleftrightarrow> (\<exists>s. (p, s) \<in> set c \<and> n \<in> set (keys s) \<and> value_of d p n = None)"
    by (simp only: set_sort set_filter mem_Collect_eq)
  also have "\<dots> \<longleftrightarrow> value_of c p n \<noteq> None \<and> value_of d p n = None"
    using assms by (cases "map_of c p") (auto simp: wf_partitions_def value_of_def map_of_entry set_keys)
  finally show ?thesis .
qed

interpretation partition_reconciliation: reconciliation wf_partitions "\<lambda>m (p, n). value_of m p n"
    partitionUpdates "\<lambda>m (p, n). value_of m p n" partitionDrops drop_names
proof
  fix c d :: partition_values and k :: "string \<times> string"
  assume wf: "wf_partitions c" "wf_partitions d"
  obtain p n where k: "k = (p, n)" by fastforce
  show "(\<lambda>(p, n). value_of (partitionUpdates c d) p n) k =
      (if (\<lambda>(p, n). value_of d p n) k \<noteq> None \<and> (\<lambda>(p, n). value_of c p n) k \<noteq> (\<lambda>(p, n). value_of d p n) k
       then (\<lambda>(p, n). value_of d p n) k else None)"
    using partitionUpdates_value [OF wf(2)] by (simp add: k)
  show "drop_names (partitionDrops c d) k \<longleftrightarrow> (\<lambda>(p, n). value_of c p n) k \<noteq> None \<and> (\<lambda>(p, n). value_of d p n) k = None"
    using partitionDrops_names [OF wf(1)] by (simp add: k)
next
  fix c d :: partition_values
  assume wf: "wf_partitions c" "wf_partitions d" and some: "partitionUpdates c d \<noteq> []"
  then obtain p s where "(p, s) \<in> set (partitionUpdates c d)" by (cases "partitionUpdates c d") auto
  then obtain q where q: "(p, q) \<in> set d" "s = filter (\<lambda>(n, v). value_of c p n \<noteq> Some v) q" "s \<noteq> []"
    by (auto simp: partitionUpdates_def)
  then obtain n v where "(n, v) \<in> set q" "value_of c p n \<noteq> Some v" by (auto simp: filter_empty_conv)
  then have "value_of d p n = Some v" "value_of c p n \<noteq> Some v"
    using q(1) wf(2) wf_inner [OF wf(2)] by (auto simp: wf_partitions_def value_of_def map_of_entry)
  then have "value_of (partitionUpdates c d) p n \<noteq> None" using partitionUpdates_value [OF wf(2)] by simp
  then show "\<exists>k. (\<lambda>(p, n). value_of (partitionUpdates c d) p n) k \<noteq> None" by auto
next
  fix c d :: partition_values
  assume "partitionDrops c d \<noteq> []"
  then obtain p ns where "(p, ns) \<in> set (partitionDrops c d)" by (cases "partitionDrops c d") auto
  moreover from this obtain n where "n \<in> set ns" by (cases ns) (auto simp: in_partitionDrops)
  ultimately show "\<exists>k. drop_names (partitionDrops c d) k" using drop_names_iff by blast
qed (auto simp: value_of_def drop_names_def)

subsection \<open>Properties\<close>

lemma statistics_saved:
  assumes "statistics_write operation fw api (Inr plan) c = (Inr (Save m), c')"
  obtains desired w w' where "string_map fw (stm_Statistics plan) = Inr desired" "m = setStatisticsState plan desired"
    "statistics_apply api (ValueString (stm_Metalake plan)) (ValueString (stm_ObjectType plan)) (ValueString (stm_ObjectFullName plan))
       desired w = (Inr (), w')" "vc_world c' = w'"
  using assms by (auto simp: statistics_write_def andThen_Inr calling_Inr pure_step_def done_with_def on_world_eq)

lemma currentStatistics_wf: "currentStatistics api a b c w = (Inr m, w') \<Longrightarrow> wf_map m"
  by (auto simp: currentStatistics_def wf_modifiable_values map_sum_def split: prod.splits sum.splits)

text \<open>Writing statistics converges. On a server whose list, update and drop requests act on a map of the modifiable
  statistics, a successful \<open>Create\<close> or \<open>Update\<close> leaves exactly the planned statistics, whatever was there
  before; whoever reads them next reads the recorded ones, and writing them again sends no request but the read.\<close>

theorem statistics_settle:
  assumes store: "lawful_store map_of map_of (\<lambda>names k. k \<in> set names)
      (currentStatistics api (ValueString (stm_Metalake plan)) (ValueString (stm_ObjectType plan)) (ValueString (stm_ObjectFullName plan)))
      (sa_update api (ValueString (stm_Metalake plan)) (ValueString (stm_ObjectType plan)) (ValueString (stm_ObjectFullName plan)))
      (sa_drop api (ValueString (stm_Metalake plan)) (ValueString (stm_ObjectType plan)) (ValueString (stm_ObjectFullName plan))) content"
    and "string_map fw (stm_Statistics plan) = Inr desired" "wf_map desired"
    and "statistics_write operation fw api (Inr plan) c = (Inr (Save m), c')"
    and "currentStatistics api (ValueString (stm_Metalake plan)) (ValueString (stm_ObjectType plan))
      (ValueString (stm_ObjectFullName plan)) (vc_world c') = (Inr current, w1)"
  shows "content (vc_world c') = map_of desired \<and> stm_Statistics m = TKnown (known_map desired) \<and>
    map_of current = map_of desired \<and>
    statistics_apply api (ValueString (stm_Metalake plan)) (ValueString (stm_ObjectType plan)) (ValueString (stm_ObjectFullName plan))
      desired (vc_world c') = (Inr (), w1)"
proof -
  obtain w where run: "m = setStatisticsState plan desired" "statistics_apply api (ValueString (stm_Metalake plan))
      (ValueString (stm_ObjectType plan)) (ValueString (stm_ObjectFullName plan)) desired w = (Inr (), vc_world c')"
    using statistics_saved [OF assms(4)] assms(2) by (metis sum.inject(2))
  have content: "content (vc_world c') = map_of desired"
    by (rule object_statistics.converges [OF store assms(3)])
      (use currentStatistics_wf run(2) in \<open>auto simp: statistics_apply_def\<close>)
  moreover have "map_of current = map_of desired"
    using assms(5) store content by (simp add: lawful_store_def)
  moreover have "statistics_apply api (ValueString (stm_Metalake plan)) (ValueString (stm_ObjectType plan))
      (ValueString (stm_ObjectFullName plan)) desired (vc_world c') = (Inr (), w1)"
    using object_statistics.idle [OF store assms(3,5) currentStatistics_wf [OF assms(5)] content] by (simp add: statistics_apply_def)
  ultimately show ?thesis using run(1) by (simp add: setStatisticsState_def)
qed

text \<open>A text sent as a JSON string is read back as itself.\<close>

lemma sent_text_read: "Statistic_ValueString \<lparr>st_Name = n, st_Value = string_text v, st_Reserved = r, st_Modifiable = b, st_Audit = a\<rparr> = Some v"
proof -
  have "trim_space (string_text v) = string_text v"
    by (simp add: string_text_def trim_space_def is_space_def code_def)
  moreover have "parse_json (string_text v) = Some (JStr v)" using parse_json_text [of "JStr v"] by simp
  ultimately show ?thesis by (simp add: Statistic_ValueString_def) (simp add: string_text_def)
qed

definition shelf_statistics :: "string gomap statistics_api" where
  "shelf_statistics =
     \<lparr>sa_list = \<lambda>_ _ _ w. (Inr (map (\<lambda>(k, v). \<lparr>st_Name = k, st_Value = string_text v, st_Reserved = False, st_Modifiable = True,
                                 st_Audit = None\<rparr>) (rev w)), w),
      sa_update = \<lambda>_ _ _ u w. (Inr True, u @ w),
      sa_drop = \<lambda>_ _ _ names w. (Inr True, filter (\<lambda>(k, v). k \<notin> set names) w),
      sa_probe = \<lambda>w. (Inr ''1.3.1'', w)\<rparr>"

lemma shelf_reported: "map_of (modifiable_values (map (\<lambda>(k, v). \<lparr>st_Name = k, st_Value = string_text v, st_Reserved = False,
     st_Modifiable = True, st_Audit = None\<rparr>) (rev w))) = map_of w"
  by (induction w) (auto simp: modifiable_values_def sent_text_read)

lemma shelf_lawful:
  "lawful_store map_of map_of (\<lambda>names k. k \<in> set names) (currentStatistics shelf_statistics a b c) (sa_update shelf_statistics a b c)
     (sa_drop shelf_statistics a b c) map_of"
proof -
  have "map_of (filter (\<lambda>(k, v). k \<notin> set names) w) = (\<lambda>k. if k \<in> set names then None else map_of w k)" for names and w :: "string gomap"
    by (induction w) (auto simp: fun_eq_iff)
  then show ?thesis
    using shelf_reported by (auto simp: lawful_store_def currentStatistics_def shelf_statistics_def)
qed

lemma shelf_succeeds: "\<exists>w'. statistics_apply shelf_statistics a b t desired w = (Inr (), w')"
  by (simp add: statistics_apply_def reconcile_def currentStatistics_def shelf_statistics_def)

definition statistics_plan :: statistics_model where
  "statistics_plan = \<lparr>stm_ID = TUnknown, stm_Metalake = TKnown ''m'', stm_ObjectType = TKnown ''TABLE'',
     stm_ObjectFullName = TKnown ''c.s.t'', stm_Statistics = TKnown (known_map [(''custom-rows'', ''7'')])\<rparr>"

theorem statistics_settle_witness:
  "\<exists>m c'. statistics_Create strict_fw shelf_statistics (Inr statistics_plan)
       \<lparr>vc_version = [], vc_world = [(''custom-old'', ''1''), (''custom-rows'', ''6'')]\<rparr> = (Inr (Save m), c') \<and>
     map_of (vc_world c') = [''custom-rows'' \<mapsto> ''7''] \<and> stm_Statistics m = stm_Statistics statistics_plan"
proof -
  let ?c = "\<lparr>vc_version = [], vc_world = [(''custom-old'', ''1''), (''custom-rows'', ''6'')]\<rparr> :: string gomap vclient"
  have sent: "string_map strict_fw (stm_Statistics statistics_plan) = Inr [(''custom-rows'', ''7'')]"
    by (simp add: string_map_def StringMap_def strict_fw_map statistics_plan_def)
  have gate: "statistics_checkObjectType shelf_statistics (ValueString (stm_ObjectType statistics_plan)) ?c = (Inr (), ?c)"
  proof -
    have "\<not> ObjectTypeRequiresGravitino131 ''TABLE''" by code_simp
    then show ?thesis by (simp add: statistics_checkObjectType_def CheckMetadataObjectTypeSupported_def statistics_plan_def)
  qed
  obtain w' where "statistics_apply shelf_statistics (ValueString (stm_Metalake statistics_plan))
      (ValueString (stm_ObjectType statistics_plan)) (ValueString (stm_ObjectFullName statistics_plan))
      [(''custom-rows'', ''7'')] (vc_world ?c) = (Inr (), w')"
    using shelf_succeeds by blast
  then have "\<exists>m c'. statistics_Create strict_fw shelf_statistics (Inr statistics_plan) ?c = (Inr (Save m), c')"
    by (simp add: statistics_Create_def statistics_write_def andThen_def calling_def pure_step_def done_with_def on_world_def sent gate)
  then obtain m c' where run: "statistics_write ''creating statistics of'' strict_fw shelf_statistics (Inr statistics_plan) ?c = (Inr (Save m), c')"
    by (auto simp: statistics_Create_def)
  obtain current w1 where cur: "currentStatistics shelf_statistics (ValueString (stm_Metalake statistics_plan))
      (ValueString (stm_ObjectType statistics_plan)) (ValueString (stm_ObjectFullName statistics_plan)) (vc_world c') = (Inr current, w1)"
    by (simp add: currentStatistics_def shelf_statistics_def)
  show ?thesis
    using statistics_settle [OF shelf_lawful sent _ run cur] run by (auto simp: statistics_Create_def statistics_plan_def)
qed

lemma partition_saved:
  assumes "partition_statistics_write operation fw api (Inr plan) w = (Inr (Save m), w')" "partitionsFromModel fw (psm_Partitions plan) = Inr desired"
  obtains w1 where "m = setPartitionStatisticsState plan desired" "partition_statistics_apply api plan desired w1 = (Inr (), w')"
  using assms by (auto simp: partition_statistics_write_def andThen_Inr calling_Inr pure_step_def done_with_def)

lemma currentPartitions_map: "currentPartitions api m w = (Inr c, w') \<Longrightarrow> \<exists>ps. c = partition_map ps"
  by (auto simp: currentPartitions_def map_sum_def split: prod.splits sum.splits)

lemma reported_nonempty: "map_of (partition_map ps) p \<noteq> Some []"
proof -
  have "map_of m p \<noteq> Some [] \<Longrightarrow> map_of (fold (\<lambda>p m. let statistics = modifiable_values (ps_Statistics p) in
        if statistics \<noteq> [] then put (ps_PartitionName p) statistics m else m) ps m) p \<noteq> Some []" for m
    by (induction ps arbitrary: m) (auto simp: Let_def)
  then show ?thesis by (simp add: partition_map_def)
qed

lemma same_values_keys:
  assumes "value_of c = value_of d" "\<And>p. map_of c p \<noteq> Some []"
  shows "set (keys c) = {p \<in> set (keys d). map_of d p \<noteq> Some []}"
proof -
  have nonempty: "map_of m p \<noteq> None \<and> map_of m p \<noteq> Some [] \<longleftrightarrow> (\<exists>n. value_of m p n \<noteq> None)" for m p
  proof (cases "map_of m p")
    case (Some s)
    then show ?thesis by (cases s) (auto simp: value_of_def)
  qed (simp add: value_of_def)
  have "map_of c p \<noteq> None \<longleftrightarrow> map_of d p \<noteq> None \<and> map_of d p \<noteq> Some []" for p
    using nonempty [of c p] nonempty [of d p] assms by simp
  then show ?thesis by (auto simp: set_keys)
qed

text \<open>C4: Writing the statistics of the partitions of a table converges. On a server that keeps a map from partition and
  statistic name to text, a successful \<open>Create\<close> or \<open>Update\<close> leaves exactly the planned values of every
  partition, the next read reports them, and writing them again sends no request but the read. The
  partitions read back are the planned ones that have at least one statistic, which is why the
  validator refuses an empty one.\<close>

theorem partition_statistics_settle:
  assumes store: "lawful_store (\<lambda>m (p, n). value_of m p n) (\<lambda>m (p, n). value_of m p n) drop_names (currentPartitions api plan)
      (psa_update api (ValueString (psm_Metalake plan)) ''TABLE'' (tableFullName plan))
      (psa_drop api (ValueString (psm_Metalake plan)) ''TABLE'' (tableFullName plan)) content"
    and "partitionsFromModel fw (psm_Partitions plan) = Inr desired" "wf_partitions desired"
    and "partition_statistics_write operation fw api (Inr plan) w = (Inr (Save m), w')"
    and "currentPartitions api plan w' = (Inr current, w1)"
  shows "content w' = (\<lambda>(p, n). value_of desired p n) \<and> psm_Partitions m = partitionsToMap desired \<and>
    value_of current = value_of desired \<and> set (keys current) = {p \<in> set (keys desired). map_of desired p \<noteq> Some []} \<and>
    partition_statistics_apply api plan desired w' = (Inr (), w1)"
proof -
  obtain w0 where run: "m = setPartitionStatisticsState plan desired" "partition_statistics_apply api plan desired w0 = (Inr (), w')"
    by (rule partition_saved [OF assms(4,2)])
  have wf: "currentPartitions api plan w = (Inr c, w'') \<Longrightarrow> wf_partitions c" for w c w''
    by (auto dest: currentPartitions_map simp: wf_partition_map)
  have content: "content w' = (\<lambda>(p, n). value_of desired p n)"
    by (rule partition_reconciliation.converges [OF store assms(3)])
      (use wf run(2) in \<open>auto simp: partition_statistics_apply_def\<close>)
  have "(\<lambda>(p, n). value_of current p n) = (\<lambda>(p, n). value_of desired p n)"
    using assms(5) store content by (simp add: lawful_store_def)
  then have same: "value_of current = value_of desired" by (simp add: fun_eq_iff)
  have "partition_statistics_apply api plan desired w' = (Inr (), w1)"
    using partition_reconciliation.idle [OF store assms(3,5) wf [OF assms(5)] content] by (simp add: partition_statistics_apply_def)
  moreover have "set (keys current) = {p \<in> set (keys desired). map_of desired p \<noteq> Some []}"
    using same_values_keys [OF same] currentPartitions_map [OF assms(5)] reported_nonempty by metis
  ultimately show ?thesis using content same run(1) by (simp add: setPartitionStatisticsState_def)
qed

text \<open>A server for the example: it keeps the values in a list and refuses an update that names a partition twice.\<close>

definition shelf_report :: "((string \<times> string) \<times> string) list \<Rightarrow> partition_statistics list" where
  "shelf_report w = map (\<lambda>p. \<lparr>ps_PartitionName = p, ps_Statistics = map (\<lambda>((_, n), v). \<lparr>st_Name = n, st_Value = string_text v,
     st_Reserved = False, st_Modifiable = True, st_Audit = None\<rparr>) (filter (\<lambda>((q, _), _). q = p) (rev w))\<rparr>) (remdups (map (fst \<circ> fst) w))"

definition shelf_partitions :: "((string \<times> string) \<times> string) list partition_statistics_api" where
  "shelf_partitions =
     \<lparr>psa_list = \<lambda>_ _ _ w. (Inr (shelf_report w), w),
      psa_update = \<lambda>_ _ _ u w. (if wf_map u then Inr True else Inl refused,
        concat (map (\<lambda>(p, s). map (\<lambda>(n, v). ((p, n), v)) s) u) @ w),
      psa_drop = \<lambda>_ _ _ ds w. (Inr True, filter (\<lambda>(k, _). \<not> drop_names ds k) w)\<rparr>"

lemma partition_map_values:
  assumes "distinct (map ps_PartitionName ps)"
  shows "value_of (partition_map ps) p n =
    Option.bind (map_of (map (\<lambda>q. (ps_PartitionName q, modifiable_values (ps_Statistics q))) ps) p) (\<lambda>s. map_of s n)"
proof -
  have "value_of (fold (\<lambda>p m. let statistics = modifiable_values (ps_Statistics p) in
        if statistics \<noteq> [] then put (ps_PartitionName p) statistics m else m) ps m) p n =
      (if p \<in> set (map ps_PartitionName ps)
       then Option.bind (map_of (map (\<lambda>q. (ps_PartitionName q, modifiable_values (ps_Statistics q))) ps) p) (\<lambda>s. map_of s n)
       else value_of m p n)" if "\<forall>p \<in> set (map ps_PartitionName ps). map_of m p = None" for m
    using assms that
  proof (induction ps arbitrary: m)
    case (Cons q ps)
    let ?m = "if modifiable_values (ps_Statistics q) \<noteq> [] then put (ps_PartitionName q) (modifiable_values (ps_Statistics q)) m else m"
    have "\<forall>p \<in> set (map ps_PartitionName ps). map_of ?m p = None" using Cons.prems by (fastforce simp: image_iff)
    note step = Cons.IH [OF _ this]
    show ?case using step Cons.prems by (auto simp: Let_def value_of_def)
  qed simp
  moreover have "p \<notin> set (map ps_PartitionName ps) \<Longrightarrow>
      map_of (map (\<lambda>q. (ps_PartitionName q, modifiable_values (ps_Statistics q))) ps) p = None"
    by (induction ps) auto
  ultimately show ?thesis
    by (cases "p \<in> set (map ps_PartitionName ps)") (simp_all add: partition_map_def value_of_def [of "[]"])
qed

lemma shelf_part:
  "map_of (modifiable_values (map (\<lambda>((_, n), v). \<lparr>st_Name = n, st_Value = string_text v, st_Reserved = False, st_Modifiable = True,
     st_Audit = None\<rparr>) (filter (\<lambda>((q, _), _). q = p) (rev w)))) n = map_of w (p, n)"
  by (induction w) (auto simp: modifiable_values_def sent_text_read)

lemma shelf_reports: "value_of (partition_map (shelf_report w)) p n = map_of w (p, n)"
proof -
  let ?part = "\<lambda>p. map (\<lambda>((_, n), v). \<lparr>st_Name = n, st_Value = string_text v, st_Reserved = False, st_Modifiable = True,
     st_Audit = None\<rparr>) (filter (\<lambda>((q, _), _). q = p) (rev w))"
  have "map_of (map (\<lambda>q. (ps_PartitionName q, modifiable_values (ps_Statistics q))) (shelf_report w)) p =
      (if p \<in> (fst \<circ> fst) ` set w then Some (modifiable_values (?part p)) else None)"
    by (simp add: shelf_report_def comp_def map_of_map_restrict restrict_map_def)
  moreover have "p \<notin> (fst \<circ> fst) ` set w \<Longrightarrow> map_of w (p, n) = None"
    by (force simp: map_of_eq_None_iff)
  ultimately show ?thesis
    using partition_map_values [of "shelf_report w" p n] shelf_part [of p w n]
    by (simp add: shelf_report_def comp_def split: if_splits)
qed

lemma shelf_partitions_lawful:
  "lawful_store (\<lambda>m (p, n). value_of m p n) (\<lambda>m (p, n). value_of m p n) drop_names (currentPartitions shelf_partitions plan)
     (psa_update shelf_partitions a t n) (psa_drop shelf_partitions a t n) map_of"
proof -
  have "wf_map u \<Longrightarrow> map_of (concat (map (\<lambda>(p, s). map (\<lambda>(n, v). ((p, n), v)) s) u)) (p, n) = value_of u p n" for u p n
  proof (induction u)
    case (Cons e u)
    obtain q s where e: "e = (q, s)" by fastforce
    have "map_of (map (\<lambda>(n, v). ((q, n), v)) s) (p, n) = (if p = q then map_of s n else None)" by (induction s) auto
    then show ?case
      using Cons by (auto simp: e value_of_def map_add_def map_of_None_keys [symmetric] split: option.splits)
  qed (simp add: value_of_def)
  moreover have "map_of (filter (\<lambda>(k, _). \<not> drop_names ds k) w) = (\<lambda>k. if drop_names ds k then None else map_of w k)"
    for ds and w :: "((string \<times> string) \<times> string) list"
    by (induction w) (auto simp: fun_eq_iff)
  ultimately show ?thesis
    using shelf_reports
    by (auto simp: lawful_store_def currentPartitions_def shelf_partitions_def fun_eq_iff map_add_def split: if_splits option.splits)
qed

definition partition_statistics_plan :: partition_statistics_model where
  "partition_statistics_plan = \<lparr>psm_ID = TUnknown, psm_Metalake = TKnown ''m'', psm_Catalog = TKnown ''c'', psm_Schema = TKnown ''s'',
     psm_Table = TKnown ''t'', psm_Partitions = TKnown [(''p'', TKnown (known_map [(''custom-rows'', ''7'')]))]\<rparr>"

definition strict_statistics_fw :: statistics_fw where
  "strict_statistics_fw = fw.extend strict_fw \<lparr>sfw_absent = \<lambda>_. Inr []\<rparr>"

theorem partition_statistics_settle_witness:
  "\<exists>m w'. partition_statistics_Create strict_statistics_fw shelf_partitions (Inr partition_statistics_plan)
       [((''old'', ''custom-x''), ''1''), ((''p'', ''custom-rows''), ''6'')] = (Inr (Save m), w') \<and>
     map_of w' = [(''p'', ''custom-rows'') \<mapsto> ''7''] \<and> psm_Partitions m = psm_Partitions partition_statistics_plan"
proof -
  let ?w = "[((''old'', ''custom-x''), ''1''), ((''p'', ''custom-rows''), ''6'')]"
  let ?d = "[(''p'', [(''custom-rows'', ''7'')])] :: partition_values"
  have known: "fw_map strict_statistics_fw (known_map m) = Inr m" for m
    using strict_fw_map [of m] by (simp add: strict_statistics_fw_def fw.defs strict_fw_def)
  have sent: "partitionsFromModel strict_statistics_fw (psm_Partitions partition_statistics_plan) = Inr ?d"
    by (simp add: partitionsFromModel_def partition_statistics_plan_def known)
  have wf: "wf_partitions ?d" by (simp add: wf_partitions_def)
  have "wf_map (partitionUpdates c ?d)" for c by (simp add: partitionUpdates_def)
  then have "\<exists>w'. partition_statistics_apply shelf_partitions partition_statistics_plan ?d ?w = (Inr (), w')"
    by (simp add: partition_statistics_apply_def reconcile_def currentPartitions_def shelf_partitions_def)
  then obtain m w' where run: "partition_statistics_write ''creating partition statistics of'' strict_statistics_fw shelf_partitions
      (Inr partition_statistics_plan) ?w = (Inr (Save m), w')"
    by (auto simp: partition_statistics_write_def andThen_def calling_def pure_step_def done_with_def sent)
  obtain current w1 where cur: "currentPartitions shelf_partitions partition_statistics_plan w' = (Inr current, w1)"
    by (simp add: currentPartitions_def shelf_partitions_def)
  have "map_of w' = (\<lambda>(p, n). value_of ?d p n)" "psm_Partitions m = partitionsToMap ?d"
    using partition_statistics_settle [OF shelf_partitions_lawful sent wf run cur] by simp_all
  moreover have "(\<lambda>(p, n). value_of ?d p n) = [(''p'', ''custom-rows'') \<mapsto> ''7'']"
    by (auto simp: fun_eq_iff value_of_def)
  ultimately show ?thesis
    using run by (auto simp: partition_statistics_Create_def partitionsToMap_def partition_statistics_plan_def)
qed

end
