(* ===== verification/PrincipalResources.thy ===== *)
theory PrincipalResources
  imports Entity
begin

section \<open>Users, groups, owners and the built-in identity provider\<close>

text \<open>
  resources/user, resources/group, resources/owner, resources/idp_user and resources/idp_group. A user or group
  of a metalake is granted and revoked roles by two requests; the two handlers differ in the wording only
  (\<open>grantee_\<close>, with the noun as an argument). The members of a built-in group are changed by one request. Both
  are shown to reach the planned set from the recorded one. An owner is set and read; Gravitino answers its type
  in lower case.
\<close>

subsection \<open>Users and groups (resources/user/resource.go, resources/group/resource.go)\<close>

record grantee =
  gr_Name :: string
  gr_Roles :: "string list option"
  gr_Audit :: "audit option"

record grantee_model =
  grm_ID :: "string tfval"
  grm_Metalake :: "string tfval"
  grm_Name :: "string tfval"
  grm_Roles :: tf_strings
  grm_Audit :: "audit_tfsdk tfval"

record 'w grantee_api =
  gra_add :: "string \<Rightarrow> string \<Rightarrow> 'w \<Rightarrow> (gerror + grantee) \<times> 'w"
  gra_get :: "string \<Rightarrow> string \<Rightarrow> 'w \<Rightarrow> (gerror + grantee) \<times> 'w"
  gra_remove :: "string \<Rightarrow> string \<Rightarrow> 'w \<Rightarrow> (gerror + bool) \<times> 'w"
  gra_grant :: "string \<Rightarrow> string \<Rightarrow> string list \<Rightarrow> 'w \<Rightarrow> (gerror + grantee) \<times> 'w"
  gra_revoke :: "string \<Rightarrow> string \<Rightarrow> string list \<Rightarrow> 'w \<Rightarrow> (gerror + grantee) \<times> 'w"

text \<open>A missing slice converts to a null set, an empty one to an empty set.\<close>

definition SetValueFrom :: "string list option \<Rightarrow> tf_strings" where
  "SetValueFrom xs = (case xs of None \<Rightarrow> TNull | Some ys \<Rightarrow> TKnown (map TKnown ys))"

definition elements_of :: "tf_strings \<Rightarrow> string list" where
  "elements_of v = (case SetToStrings v of None \<Rightarrow> [] | Some xs \<Rightarrow> xs)"

definition setStateFromGrantee :: "string \<Rightarrow> grantee option \<Rightarrow> grantee_model \<Rightarrow> grantee_model" where
  "setStateFromGrantee metalake g m =
     (let m1 = (case g of
          Some u \<Rightarrow> m\<lparr>grm_Name := TKnown (gr_Name u), grm_ID := TKnown (metalake @ ''.'' @ gr_Name u),
            grm_Roles := SetValueFrom (gr_Roles u), grm_Audit := AuditToObjectValue (gr_Audit u)\<rparr>
        | None \<Rightarrow> m\<lparr>grm_ID := TKnown (metalake @ ''.'' @ ValueString (grm_Name m))\<rparr>);
          m2 = m1\<lparr>grm_Metalake := TKnown metalake\<rparr>
      in m2\<lparr>grm_Roles := (if IsUnknown (grm_Roles m2) then TNull else grm_Roles m2),
            grm_Audit := (if IsUnknown (grm_Audit m2) then TNull else grm_Audit m2)\<rparr>)"

definition stateToModelGrantee :: "grantee_model \<Rightarrow> grantee_model \<Rightarrow> grantee_model" where
  "stateToModelGrantee m state =
     m\<lparr>grm_Metalake := grm_Metalake state,
       grm_ID := TKnown (ValueString (grm_Metalake state) @ ''.'' @ ValueString (grm_Name m)),
       grm_Roles := (if IsUnknown (grm_Roles m) then grm_Roles state else grm_Roles m),
       grm_Audit := (if IsUnknown (grm_Audit m) then grm_Audit state else grm_Audit m)\<rparr>"

definition diffRoles :: "string list \<Rightarrow> string list \<Rightarrow> string list" where
  "diffRoles a b = filter (\<lambda>v. v \<notin> set b) a"

definition grantee_Create ::
    "string \<Rightarrow> 'w grantee_api \<Rightarrow> diags + grantee_model \<Rightarrow> (grantee_model state_write, 'w) step" where
  "grantee_Create noun api planGet =
     andThen (pure_step planGet) (\<lambda>plan.
     let metalake = ValueString (grm_Metalake plan); name = ValueString (grm_Name plan); planned = elements_of (grm_Roles plan) in
     andThen (calling (gra_add api metalake name) (NewResourceError (''creating '' @ noun) name)) (\<lambda>u.
     andThen (if planned \<noteq> []
              then calling (gra_grant api metalake name planned) (NewResourceError (''granting roles to '' @ noun) name)
              else done_with u) (\<lambda>result.
     done_with (Save (setStateFromGrantee metalake (Some result) plan)))))"

definition grantee_Read :: "string \<Rightarrow> 'w grantee_api \<Rightarrow> diags + grantee_model \<Rightarrow> (grantee_model state_write, 'w) step" where
  "grantee_Read noun api stateGet =
     andThen (pure_step stateGet) (\<lambda>state.
       refresh (gra_get api (ValueString (grm_Metalake state)) (ValueString (grm_Name state)))
         (NewResourceError (''reading '' @ noun) (ValueString (grm_Name state)))
         (\<lambda>u. Inr (setStateFromGrantee (ValueString (grm_Metalake state)) (Some u) state)))"

text \<open>A request that is sent only for a non-empty list; its answer replaces the previous one.\<close>

definition if_any ::
    "string list \<Rightarrow> (string list \<Rightarrow> 'w \<Rightarrow> (gerror + grantee) \<times> 'w) \<Rightarrow> (gerror \<Rightarrow> diags) \<Rightarrow> grantee option \<Rightarrow> (grantee option, 'w) step" where
  "if_any names request report previous =
     (if names \<noteq> [] then andThen (calling (request names) report) (\<lambda>u. done_with (Some u)) else done_with previous)"

definition grantee_Update ::
    "string \<Rightarrow> 'w grantee_api \<Rightarrow> diags + grantee_model \<Rightarrow> diags + grantee_model \<Rightarrow> (grantee_model state_write, 'w) step" where
  "grantee_Update noun api planGet stateGet =
     andThen (pure_step (both_get planGet stateGet)) (\<lambda>(plan, state).
     let metalake = ValueString (grm_Metalake state); name = ValueString (grm_Name state);
         oldRoles = elements_of (grm_Roles state); newRoles = elements_of (grm_Roles plan) in
     andThen (if_any (diffRoles newRoles oldRoles) (gra_grant api metalake name)
                (NewResourceError (''granting roles to '' @ noun) name) None) (\<lambda>granted.
     andThen (if_any (diffRoles oldRoles newRoles) (gra_revoke api metalake name)
                (NewResourceError (''revoking roles from '' @ noun) name) granted) (\<lambda>updated.
     done_with (Save (case updated of
         Some u \<Rightarrow> setStateFromGrantee metalake (Some u) plan
       | None \<Rightarrow> stateToModelGrantee plan state)))))"

definition grantee_Delete :: "string \<Rightarrow> 'w grantee_api \<Rightarrow> diags + grantee_model \<Rightarrow> (grantee_model state_write, 'w) step" where
  "grantee_Delete noun api stateGet =
     andThen (pure_step stateGet) (\<lambda>state.
       drop_or_gone (gra_remove api (ValueString (grm_Metalake state)) (ValueString (grm_Name state)))
         (NewResourceError (''deleting '' @ noun) (ValueString (grm_Name state))))"

definition grantee_ImportState :: "string \<Rightarrow> string \<Rightarrow> diagnostic + (string \<times> string) list" where
  "grantee_ImportState noun reqID =
     map_sum (\<lambda>d. d) (\<lambda>parts. [(''metalake'', parts ! 0), (''name'', parts ! 1), (''id'', reqID)])
       (SplitImportID 2 (''metalake.'' @ noun @ ''_name'') reqID)"

definition user_Create where "user_Create = grantee_Create ''user''"
definition user_Read where "user_Read = grantee_Read ''user''"
definition user_Update where "user_Update = grantee_Update ''user''"
definition user_Delete where "user_Delete = grantee_Delete ''user''"
definition user_ImportState where "user_ImportState = grantee_ImportState ''user''"

definition group_Create where "group_Create = grantee_Create ''group''"
definition group_Read where "group_Read = grantee_Read ''group''"
definition group_Update where "group_Update = grantee_Update ''group''"
definition group_Delete where "group_Delete = grantee_Delete ''group''"
definition group_ImportState where "group_ImportState = grantee_ImportState ''group''"

subsection \<open>Owners (resources/owner/resource.go)\<close>

record owner_model =
  owm_ID :: "string tfval"
  owm_Metalake :: "string tfval"
  owm_ObjectType :: "string tfval"
  owm_ObjectFullName :: "string tfval"
  owm_OwnerName :: "string tfval"
  owm_OwnerType :: "string tfval"

record owner =
  ow_Name :: string
  ow_Type :: string

record 'w owner_api =
  oa_set :: "string \<Rightarrow> string \<Rightarrow> string \<Rightarrow> owner \<Rightarrow> 'w \<Rightarrow> (gerror + bool) \<times> 'w"
  oa_get :: "string \<Rightarrow> string \<Rightarrow> string \<Rightarrow> 'w \<Rightarrow> (gerror + owner) \<times> 'w"

definition OwnerObjectTypes :: "string list" where
  "OwnerObjectTypes = [''METALAKE'', ''CATALOG'', ''SCHEMA'', ''TABLE'', ''FILESET'', ''TOPIC'', ''ROLE'']"

definition NormalizeOwnerType :: "string \<Rightarrow> string" where
  "NormalizeOwnerType ownerType = to_upper ownerType"

definition owner_write :: "string \<Rightarrow> 'w owner_api \<Rightarrow> diags + owner_model \<Rightarrow> (owner_model state_write, 'w) step" where
  "owner_write operation api planGet =
     andThen (pure_step planGet) (\<lambda>plan.
     let metalake = ValueString (owm_Metalake plan); objectType = ValueString (owm_ObjectType plan);
         fullName = ValueString (owm_ObjectFullName plan) in
     andThen (calling (oa_set api metalake objectType fullName
                \<lparr>ow_Name = ValueString (owm_OwnerName plan), ow_Type = ValueString (owm_OwnerType plan)\<rparr>)
              (NewResourceError operation fullName)) (\<lambda>_.
     done_with (Save (plan\<lparr>owm_ID := TKnown (metalake @ ''.'' @ objectType @ ''.'' @ fullName)\<rparr>))))"

definition owner_Create where "owner_Create = owner_write ''setting owner''"
definition owner_Update where "owner_Update = owner_write ''updating owner''"

definition owner_Read :: "'w owner_api \<Rightarrow> diags + owner_model \<Rightarrow> (owner_model state_write, 'w) step" where
  "owner_Read api stateGet =
     andThen (pure_step stateGet) (\<lambda>state.
       refresh (oa_get api (ValueString (owm_Metalake state)) (ValueString (owm_ObjectType state)) (ValueString (owm_ObjectFullName state)))
         (NewResourceError ''reading owner'' (ValueString (owm_ObjectFullName state)))
         (\<lambda>w. Inr (state\<lparr>owm_OwnerName := TKnown (ow_Name w), owm_OwnerType := TKnown (NormalizeOwnerType (ow_Type w))\<rparr>)))"

text \<open>Deleting only forgets the owner.\<close>

definition owner_Delete :: "(owner_model state_write, 'w) step" where
  "owner_Delete = done_with Remove"

definition owner_ImportState :: "string \<Rightarrow> diagnostic + (string \<times> string) list" where
  "owner_ImportState reqID =
     (case SplitImportID 3 ''metalake.object_type.object_full_name'' reqID of
        Inl d \<Rightarrow> Inl d
      | Inr parts \<Rightarrow>
          if parts ! 1 \<notin> set OwnerObjectTypes
          then Inl (error_diag ''Invalid import ID'' (''Unknown object type '' @ quote (parts ! 1) @ '' in import ID '' @ quote reqID
                 @ ''; expected one of: '' @ join '', '' OwnerObjectTypes))
          else Inr [(''metalake'', parts ! 0), (''object_type'', parts ! 1), (''object_full_name'', parts ! 2), (''id'', reqID)])"

subsection \<open>Built-in users (resources/idp_user/resource.go)\<close>

record idp_user =
  iu_Name :: string
  iu_Groups :: "string list"

record idp_user_model =
  ium_ID :: "string tfval"
  ium_Name :: "string tfval"
  ium_Password :: "string tfval"
  ium_Groups :: tf_strings

record 'w idp_user_api =
  iua_add :: "string \<Rightarrow> string \<Rightarrow> 'w \<Rightarrow> (gerror + idp_user) \<times> 'w"
  iua_get :: "string \<Rightarrow> 'w \<Rightarrow> (gerror + idp_user) \<times> 'w"
  iua_password :: "string \<Rightarrow> string \<Rightarrow> 'w \<Rightarrow> (gerror + idp_user) \<times> 'w"
  iua_remove :: "string \<Rightarrow> 'w \<Rightarrow> (gerror + bool) \<times> 'w"

definition idp_user_Create :: "'w idp_user_api \<Rightarrow> diags + idp_user_model \<Rightarrow> (idp_user_model state_write, 'w) step" where
  "idp_user_Create api planGet =
     andThen (pure_step planGet) (\<lambda>plan.
     andThen (calling (iua_add api (ValueString (ium_Name plan)) (ValueString (ium_Password plan)))
              (NewResourceError ''creating IDP user'' (ValueString (ium_Name plan)))) (\<lambda>u.
     done_with (Save (plan\<lparr>ium_ID := TKnown (iu_Name u), ium_Groups := StringsToSet (iu_Groups u)\<rparr>))))"

text \<open>The password is write-only: a refresh keeps the recorded one.\<close>

definition absorb_idp_user :: "idp_user \<Rightarrow> idp_user_model \<Rightarrow> idp_user_model" where
  "absorb_idp_user u state =
     state\<lparr>ium_ID := TKnown (iu_Name u), ium_Name := TKnown (iu_Name u), ium_Groups := StringsToSet (iu_Groups u)\<rparr>"

definition idp_user_Read :: "'w idp_user_api \<Rightarrow> diags + idp_user_model \<Rightarrow> (idp_user_model state_write, 'w) step" where
  "idp_user_Read api stateGet =
     andThen (pure_step stateGet) (\<lambda>state.
       refresh (iua_get api (ValueString (ium_Name state))) (NewResourceError ''reading IDP user'' (ValueString (ium_Name state)))
         (\<lambda>u. Inr (absorb_idp_user u state)))"

definition idp_user_Update ::
    "'w idp_user_api \<Rightarrow> diags + idp_user_model \<Rightarrow> diags + idp_user_model \<Rightarrow> (idp_user_model state_write, 'w) step" where
  "idp_user_Update api planGet stateGet =
     andThen (pure_step (both_get planGet stateGet)) (\<lambda>(plan, state).
     andThen (if ium_Password plan \<noteq> ium_Password state
              then andThen (calling (iua_password api (ValueString (ium_Name state)) (ValueString (ium_Password plan)))
                     (NewResourceError ''updating IDP user'' (ValueString (ium_Name state)))) (\<lambda>u. done_with (absorb_idp_user u state))
              else done_with state) (\<lambda>m.
     done_with (Save (m\<lparr>ium_Password := ium_Password plan\<rparr>))))"

definition idp_user_Delete :: "'w idp_user_api \<Rightarrow> diags + idp_user_model \<Rightarrow> (idp_user_model state_write, 'w) step" where
  "idp_user_Delete api stateGet =
     andThen (pure_step stateGet) (\<lambda>state.
       drop_or_gone (iua_remove api (ValueString (ium_Name state))) (NewResourceError ''deleting IDP user'' (ValueString (ium_Name state))))"

definition idp_user_ImportState :: "string \<Rightarrow> diagnostic + (string \<times> string) list" where
  "idp_user_ImportState reqID =
     (if reqID = [] \<or> contains_sub reqID '':''
      then Inl (error_diag ''Unexpected Import Identifier''
             (''Expected the username of an existing built-in IDP user (not containing '' @ [CHR 0x27] @ '':'' @ [CHR 0x27] @ ''), got: '' @ quote reqID))
      else Inr [(''name'', reqID)])"

subsection \<open>Built-in groups (resources/idp_group/resource.go)\<close>

record idp_group =
  ig_Name :: string
  ig_Users :: "string list"

record idp_group_model =
  igm_ID :: "string tfval"
  igm_Name :: "string tfval"
  igm_Users :: tf_strings

record 'w idp_group_api =
  iga_add :: "string \<Rightarrow> 'w \<Rightarrow> (gerror + idp_group) \<times> 'w"
  iga_get :: "string \<Rightarrow> 'w \<Rightarrow> (gerror + idp_group) \<times> 'w"
  iga_members :: "string \<Rightarrow> string list \<Rightarrow> string list \<Rightarrow> 'w \<Rightarrow> (gerror + idp_group) \<times> 'w"
  iga_remove :: "string \<Rightarrow> bool \<Rightarrow> 'w \<Rightarrow> (gerror + bool) \<times> 'w"

definition idp_group_Create :: "'w idp_group_api \<Rightarrow> diags + idp_group_model \<Rightarrow> (idp_group_model state_write, 'w) step" where
  "idp_group_Create api planGet =
     andThen (pure_step planGet) (\<lambda>plan.
     let name = ValueString (igm_Name plan); users = elements_of (igm_Users plan) in
     andThen (calling (iga_add api name) (NewResourceError ''creating IDP group'' name)) (\<lambda>g.
     andThen (if users \<noteq> []
              then andThen (calling (iga_members api name users []) (NewResourceError ''adding IDP group members'' name))
                     (\<lambda>membership. done_with (ig_Users membership))
              else done_with users) (\<lambda>members.
     done_with (Save (plan\<lparr>igm_ID := TKnown (ig_Name g), igm_Users := StringsToSet members\<rparr>)))))"

definition idp_group_Read :: "'w idp_group_api \<Rightarrow> diags + idp_group_model \<Rightarrow> (idp_group_model state_write, 'w) step" where
  "idp_group_Read api stateGet =
     andThen (pure_step stateGet) (\<lambda>state.
       refresh (iga_get api (ValueString (igm_Name state))) (NewResourceError ''reading IDP group'' (ValueString (igm_Name state)))
         (\<lambda>g. Inr (state\<lparr>igm_ID := TKnown (ig_Name g), igm_Name := TKnown (ig_Name g), igm_Users := StringsToSet (ig_Users g)\<rparr>)))"

definition idp_group_Update ::
    "'w idp_group_api \<Rightarrow> diags + idp_group_model \<Rightarrow> diags + idp_group_model \<Rightarrow> (idp_group_model state_write, 'w) step" where
  "idp_group_Update api planGet stateGet =
     andThen (pure_step (both_get planGet stateGet)) (\<lambda>(plan, state).
     let name = ValueString (igm_Name state); oldUsers = elements_of (igm_Users state);
         newUsers = elements_of (if IsUnknown (igm_Users plan) then igm_Users state else igm_Users plan);
         toAdd = filter (\<lambda>u. u \<notin> set oldUsers) newUsers; toRemove = filter (\<lambda>u. u \<notin> set newUsers) oldUsers in
     andThen (if toAdd \<noteq> [] \<or> toRemove \<noteq> []
              then andThen (calling (iga_members api name toAdd toRemove) (NewResourceError ''updating IDP group membership'' name))
                     (\<lambda>g. done_with (ig_Users g))
              else done_with newUsers) (\<lambda>members.
     done_with (Save (state\<lparr>igm_Users := StringsToSet members\<rparr>))))"

definition idp_group_Delete :: "'w idp_group_api \<Rightarrow> diags + idp_group_model \<Rightarrow> (idp_group_model state_write, 'w) step" where
  "idp_group_Delete api stateGet =
     andThen (pure_step stateGet) (\<lambda>state.
       drop_or_gone (iga_remove api (ValueString (igm_Name state)) True) (NewResourceError ''deleting IDP group'' (ValueString (igm_Name state))))"

definition idp_group_ImportState :: "string \<Rightarrow> diagnostic + (string \<times> string) list" where
  "idp_group_ImportState reqID =
     (if reqID = []
      then Inl (error_diag ''Unexpected Import Identifier''
             ''Expected the name of an existing built-in IDP group, got an empty identifier.'')
      else Inr [(''name'', reqID)])"

subsection \<open>Sets are reached\<close>

lemma difference_reached: "(old \<union> set (filter (\<lambda>v. v \<notin> old) new)) - set (filter (\<lambda>v. v \<notin> set new) olds) = set new"
  if "old = set olds"
  using that by auto

definition answered :: "grantee \<Rightarrow> string set" where
  "answered u = (case gr_Roles u of None \<Rightarrow> {} | Some xs \<Rightarrow> set xs)"

lemma elements_SetValueFrom: "set (elements_of (SetValueFrom (gr_Roles u))) = answered u"
  by (simp add: elements_of_def SetToStrings_def SetValueFrom_def answered_def split: option.split)

text \<open>A server that keeps a set of roles for the user or group: a new one has none, a grant adds, a revocation
  removes, and the answers report the set, or omit it when it is empty.\<close>

definition role_server :: "'w grantee_api \<Rightarrow> string \<Rightarrow> string \<Rightarrow> ('w \<Rightarrow> string set) \<Rightarrow> bool" where
  "role_server api metalake name roles \<longleftrightarrow>
     (\<forall>w u w'. gra_add api metalake name w = (Inr u, w') \<longrightarrow> roles w' = {} \<and> answered u = {}) \<and>
     (\<forall>rs w u w'. gra_grant api metalake name rs w = (Inr u, w') \<longrightarrow> roles w' = roles w \<union> set rs \<and> answered u = roles w') \<and>
     (\<forall>rs w u w'. gra_revoke api metalake name rs w = (Inr u, w') \<longrightarrow> roles w' = roles w - set rs \<and> answered u = roles w')"

lemma recorded_roles [simp]:
  "set (elements_of (grm_Roles (setStateFromGrantee metalake (Some u) m))) = answered u"
  by (simp add: setStateFromGrantee_def Let_def elements_SetValueFrom) (simp add: SetValueFrom_def elements_of_def SetToStrings_def answered_def split: option.split)

lemma created_roles:
  assumes "role_server api (ValueString (grm_Metalake plan)) (ValueString (grm_Name plan)) roles"
    and "grantee_Create noun api (Inr plan) w = (Inr (Save m), w')"
  shows "roles w' = set (elements_of (grm_Roles plan)) \<and> set (elements_of (grm_Roles m)) = roles w'"
proof -
  let ?a = "ValueString (grm_Metalake plan)" and ?n = "ValueString (grm_Name plan)" and ?rs = "elements_of (grm_Roles plan)"
  obtain u w1 v where add: "gra_add api ?a ?n w = (Inr u, w1)" and m: "m = setStateFromGrantee ?a (Some v) plan"
    and "(if ?rs \<noteq> [] then calling (gra_grant api ?a ?n ?rs) (NewResourceError (''granting roles to '' @ noun) ?n)
          else done_with u) w1 = (Inr v, w')"
    using assms(2)
    by (auto simp: grantee_Create_def andThen_Inr calling_Inr pure_step_def done_with_def [of "Save _"] Let_def simp del: if_split)
  then have "?rs = [] \<and> v = u \<and> w' = w1 \<or> gra_grant api ?a ?n ?rs w1 = (Inr v, w')"
    by (cases "?rs = []") (simp_all add: calling_Inr done_with_def)
  then show ?thesis using assms(1) add m by (auto simp: role_server_def)
qed

lemma if_any_run:
  assumes "if_any names request report previous w = (Inr r, w')"
  shows "(names = [] \<and> r = previous \<and> w' = w) \<or> (\<exists>u. names \<noteq> [] \<and> request names w = (Inr u, w') \<and> r = Some u)"
  using assms by (auto simp: if_any_def andThen_Inr calling_Inr done_with_def split: if_splits)

lemma updated_roles:
  assumes "role_server api (ValueString (grm_Metalake state)) (ValueString (grm_Name state)) roles"
    and "roles w = set (elements_of (grm_Roles state))" "\<not> IsUnknown (grm_Roles plan)"
    and "grantee_Update noun api (Inr plan) (Inr state) w = (Inr (Save m), w')"
  shows "roles w' = set (elements_of (grm_Roles plan)) \<and> set (elements_of (grm_Roles m)) = roles w'"
proof -
  let ?ml = "ValueString (grm_Metalake state)" and ?n = "ValueString (grm_Name state)"
  let ?old = "elements_of (grm_Roles state)" and ?new = "elements_of (grm_Roles plan)"
  obtain g w1 r where g: "if_any (diffRoles ?new ?old) (gra_grant api ?ml ?n) (NewResourceError (''granting roles to '' @ noun) ?n) None w = (Inr g, w1)"
    and r: "if_any (diffRoles ?old ?new) (gra_revoke api ?ml ?n) (NewResourceError (''revoking roles from '' @ noun) ?n) g w1 = (Inr r, w')"
    and m: "m = (case r of Some u \<Rightarrow> setStateFromGrantee ?ml (Some u) plan | None \<Rightarrow> stateToModelGrantee plan state)"
    using assms(4) by (auto simp: grantee_Update_def both_get_def andThen_Inr pure_step_def done_with_def Let_def)
  have w1: "roles w1 = set ?old \<union> set (diffRoles ?new ?old) \<and> (\<forall>u. g = Some u \<longrightarrow> answered u = roles w1)
      \<and> (g = None \<longleftrightarrow> diffRoles ?new ?old = [])"
    using if_any_run [OF g] assms(1,2) by (auto simp: role_server_def)
  have w': "roles w' = roles w1 - set (diffRoles ?old ?new) \<and> (\<forall>u. r = Some u \<longrightarrow> answered u = roles w')
      \<and> (r = None \<longrightarrow> diffRoles ?new ?old = [] \<and> diffRoles ?old ?new = [])"
    using if_any_run [OF r] w1 assms(1) by (auto simp: role_server_def)
  have "roles w' = set ?new"
    using w1 w' difference_reached [of "set ?old" ?old ?new] by (simp add: diffRoles_def)
  moreover have "set (elements_of (grm_Roles m)) = roles w'"
    using m w' w1 assms(3) calculation by (cases r) (auto simp: stateToModelGrantee_def)
  ultimately show ?thesis by simp
qed

text \<open>C34: The roles of a user or group converge. On a server that keeps a set of roles, a successful creation, or
  an update that started from a state recording the server's set, leaves exactly the planned roles, and
  the state records them.\<close>

theorem grantee_roles_converge:
  assumes "grantee_Create noun api (Inr plan) w = (Inr (Save m), w') \<and>
        role_server api (ValueString (grm_Metalake plan)) (ValueString (grm_Name plan)) roles \<or>
      grantee_Update noun api (Inr plan) (Inr state) w = (Inr (Save m), w') \<and> \<not> IsUnknown (grm_Roles plan) \<and>
        role_server api (ValueString (grm_Metalake state)) (ValueString (grm_Name state)) roles \<and>
        roles w = set (elements_of (grm_Roles state))"
  shows "roles w' = set (elements_of (grm_Roles plan)) \<and> set (elements_of (grm_Roles m)) = roles w'"
  using assms created_roles updated_roles by metis

definition role_shelf :: "string list grantee_api" where
  "role_shelf =
     \<lparr>gra_add = \<lambda>_ n w. (Inr \<lparr>gr_Name = n, gr_Roles = None, gr_Audit = None\<rparr>, []),
      gra_get = \<lambda>_ n w. (Inr \<lparr>gr_Name = n, gr_Roles = Some w, gr_Audit = None\<rparr>, w),
      gra_remove = \<lambda>_ n w. (Inr True, []),
      gra_grant = \<lambda>_ n rs w. (Inr \<lparr>gr_Name = n, gr_Roles = Some (w @ rs), gr_Audit = None\<rparr>, w @ rs),
      gra_revoke = \<lambda>_ n rs w. let v = filter (\<lambda>x. x \<notin> set rs) w
        in (Inr \<lparr>gr_Name = n, gr_Roles = if v = [] then None else Some v, gr_Audit = None\<rparr>, v)\<rparr>"

definition grantee_with :: "string list \<Rightarrow> grantee_model" where
  "grantee_with rs = \<lparr>grm_ID = TKnown ''m.u'', grm_Metalake = TKnown ''m'', grm_Name = TKnown ''u'',
     grm_Roles = TKnown (map TKnown rs), grm_Audit = TNull\<rparr>"

lemma role_shelf_lawful: "role_server role_shelf a n set"
  by (auto simp: role_server_def role_shelf_def answered_def Let_def filter_empty_conv)

theorem grantee_roles_converge_witness:
  "\<exists>m w'. user_Update role_shelf (Inr (grantee_with [''b'', ''c''])) (Inr (grantee_with [''a'', ''b''])) [''a'', ''b''] = (Inr (Save m), w') \<and>
     set w' = {''b'', ''c''} \<and> set (elements_of (grm_Roles m)) = {''b'', ''c''}"
proof -
  let ?p = "grantee_with [''b'', ''c'']" and ?s = "grantee_with [''a'', ''b'']"
  have e: "elements_of (grm_Roles (grantee_with rs)) = rs" for rs
    by (simp add: elements_of_def grantee_with_def SetToStrings_def comp_def)
  have "\<exists>m w'. grantee_Update ''user'' role_shelf (Inr ?p) (Inr ?s) [''a'', ''b''] = (Inr (Save m), w')"
    by (simp add: grantee_Update_def both_get_def andThen_def pure_step_def done_with_def if_any_def calling_def diffRoles_def e
        role_shelf_def Let_def)
  then obtain m w' where run: "grantee_Update ''user'' role_shelf (Inr ?p) (Inr ?s) [''a'', ''b''] = (Inr (Save m), w')" by blast
  have known: "\<not> IsUnknown (grm_Roles ?p)" by (simp add: grantee_with_def)
  have same: "set [''a'', ''b''] = set (elements_of (grm_Roles ?s))" by (simp only: e)
  have "set w' = set (elements_of (grm_Roles ?p)) \<and> set (elements_of (grm_Roles m)) = set w'"
    by (rule grantee_roles_converge [OF disjI2 [OF conjI [OF run conjI [OF known conjI [OF role_shelf_lawful same]]]]])
  then show ?thesis using run by (auto simp: user_Update_def e)
qed

text \<open>A user whose creation succeeds and whose roles are refused exists without being recorded.\<close>

lemma grantee_created_untracked:
  assumes "gra_add api (ValueString (grm_Metalake plan)) (ValueString (grm_Name plan)) w = (Inr u, w1)" "elements_of (grm_Roles plan) \<noteq> []"
    and "gra_grant api (ValueString (grm_Metalake plan)) (ValueString (grm_Name plan)) (elements_of (grm_Roles plan)) w1 = (Inl err, w')"
  shows "\<exists>ds. grantee_Create noun api (Inr plan) w = (Inl ds, w') \<and> HasError ds"
  using assms by (simp add: grantee_Create_def andThen_def pure_step_def calling_def Let_def)

text \<open>When the answer omits an empty set of roles, the planned empty set is recorded as null.\<close>

lemma omitted_roles_recorded_null:
  "gr_Roles u = None \<Longrightarrow> grm_Roles (setStateFromGrantee metalake (Some u) m) = TNull"
  by (simp add: setStateFromGrantee_def SetValueFrom_def Let_def)

subsection \<open>Members of built-in groups and owners\<close>

text \<open>A server that keeps a set of members for the group.\<close>

definition member_server :: "'w idp_group_api \<Rightarrow> string \<Rightarrow> ('w \<Rightarrow> string set) \<Rightarrow> bool" where
  "member_server api name members \<longleftrightarrow>
     (\<forall>w g w'. iga_add api name w = (Inr g, w') \<longrightarrow> members w' = {}) \<and>
     (\<forall>added removed w g w'. iga_members api name added removed w = (Inr g, w') \<longrightarrow>
        members w' = (members w \<union> set added) - set removed \<and> set (ig_Users g) = members w')"

lemma elements_StringsToSet [simp]: "elements_of (StringsToSet xs) = xs"
  by (simp add: elements_of_def StringsToSet_def SetToStrings_def comp_def)

text \<open>The members of a built-in group converge in one request: on a server that keeps a set of members, a
  successful update from a state recording the server's set leaves exactly the planned members, or all of them
  when the configuration does not manage the members, and records them.\<close>

theorem idp_group_members_converge:
  assumes "member_server api (ValueString (igm_Name state)) members" "members w = set (elements_of (igm_Users state))"
    and "idp_group_Update api (Inr plan) (Inr state) w = (Inr (Save m), w')"
  shows "members w' = set (elements_of (if IsUnknown (igm_Users plan) then igm_Users state else igm_Users plan)) \<and>
    set (elements_of (igm_Users m)) = members w'"
proof -
  let ?old = "elements_of (igm_Users state)"
  let ?new = "elements_of (if IsUnknown (igm_Users plan) then igm_Users state else igm_Users plan)"
  let ?add = "filter (\<lambda>u. u \<notin> set ?old) ?new" and ?remove = "filter (\<lambda>u. u \<notin> set ?new) ?old"
  let ?name = "ValueString (igm_Name state)"
  obtain us where us: "(if ?add \<noteq> [] \<or> ?remove \<noteq> []
        then andThen (calling (iga_members api ?name ?add ?remove) (NewResourceError ''updating IDP group membership'' ?name))
               (\<lambda>g. done_with (ig_Users g)) else done_with ?new) w = (Inr us, w')" and m: "m = state\<lparr>igm_Users := StringsToSet us\<rparr>"
    using assms(3)
    by (simp add: idp_group_Update_def both_get_def andThen_Inr [of _ "\<lambda>members. done_with (Save (state\<lparr>igm_Users := StringsToSet members\<rparr>))"]
        andThen_Inr [of "pure_step _"] pure_step_def Let_def del: filter_empty_conv)
      (auto simp: done_with_def)
  have recorded: "elements_of (igm_Users m) = us" using m by simp
  have reached: "(set ?old \<union> set ?add) - set ?remove = set ?new" using difference_reached [of "set ?old" ?old ?new] by simp
  show ?thesis
  proof (cases "?add \<noteq> [] \<or> ?remove \<noteq> []")
    case True
    then obtain g where "iga_members api ?name ?add ?remove w = (Inr g, w')" "us = ig_Users g"
      using us by (auto simp only: if_True andThen_Inr calling_Inr) (auto simp: done_with_def)
    then show ?thesis using assms(1,2) reached m by (simp add: member_server_def)
  next
    case False
    then have "us = ?new" "w' = w" using us by (simp_all only: if_False done_with_def prod.inject sum.inject)
    moreover have "?add = []" "?remove = []" using False by blast+
    then have "set ?old = set ?new" using reached by (simp only: list.set Un_empty_right Diff_empty)
    ultimately show ?thesis using assms(2) recorded by metis
  qed
qed

definition member_shelf :: "string list idp_group_api" where
  "member_shelf =
     \<lparr>iga_add = \<lambda>n w. (Inr \<lparr>ig_Name = n, ig_Users = []\<rparr>, []), iga_get = \<lambda>n w. (Inr \<lparr>ig_Name = n, ig_Users = w\<rparr>, w),
      iga_members = \<lambda>n added removed w. let v = filter (\<lambda>u. u \<notin> set removed) (w @ added) in (Inr \<lparr>ig_Name = n, ig_Users = v\<rparr>, v),
      iga_remove = \<lambda>_ _ w. (Inr True, [])\<rparr>"

definition team :: "tf_strings \<Rightarrow> idp_group_model" where
  "team us = \<lparr>igm_ID = TKnown ''g'', igm_Name = TKnown ''g'', igm_Users = us\<rparr>"

theorem idp_group_members_converge_witness:
  "\<exists>m w'. idp_group_Update member_shelf (Inr (team (TKnown [TKnown ''b'']))) (Inr (team (TKnown [TKnown ''a'']))) [''a''] = (Inr (Save m), w') \<and>
     set w' = {''b''} \<and> set (elements_of (igm_Users m)) = {''b''}"
proof -
  let ?p = "team (TKnown [TKnown ''b''])" and ?s = "team (TKnown [TKnown ''a''])"
  have e: "elements_of (igm_Users ?p) = [''b'']" "elements_of (igm_Users ?s) = [''a'']" "\<not> IsUnknown (igm_Users ?p)"
    by (simp_all add: team_def elements_of_def SetToStrings_def)
  have law: "member_server member_shelf (ValueString (igm_Name ?s)) set"
    by (auto simp: member_server_def member_shelf_def Let_def)
  have "\<exists>m w'. idp_group_Update member_shelf (Inr ?p) (Inr ?s) [''a''] = (Inr (Save m), w')"
    by (simp add: idp_group_Update_def both_get_def andThen_def pure_step_def done_with_def calling_def member_shelf_def e Let_def)
  then obtain m w' where run: "idp_group_Update member_shelf (Inr ?p) (Inr ?s) [''a''] = (Inr (Save m), w')" by blast
  have "set [''a''] = set (elements_of (igm_Users ?s))" by (simp add: e)
  from idp_group_members_converge [OF law this run] show ?thesis using run by (simp add: e)
qed

text \<open>An owner does not drift: when the server keeps the owner and answers its type in lower case, reading after a
  successful write leaves the recorded owner as planned, for every type the schema accepts.\<close>

theorem owner_settles:
  assumes "\<And>r w a w'. oa_set api (ValueString (owm_Metalake plan)) (ValueString (owm_ObjectType plan)) (ValueString (owm_ObjectFullName plan)) r w
        = (Inr a, w') \<Longrightarrow>
      oa_get api (ValueString (owm_Metalake plan)) (ValueString (owm_ObjectType plan)) (ValueString (owm_ObjectFullName plan)) w'
        = (Inr \<lparr>ow_Name = ow_Name r, ow_Type = to_lower (ow_Type r)\<rparr>, w')"
    and "owm_OwnerName plan = TKnown name" "owm_OwnerType plan = TKnown ty" "ty \<in> {''USER'', ''GROUP''}"
    and "owner_write operation api (Inr plan) w = (Inr (Save m), w')"
  shows "owm_OwnerName m = owm_OwnerName plan \<and> owm_OwnerType m = owm_OwnerType plan \<and> owner_Read api (Inr m) w' = (Inr (Save m), w')"
proof -
  let ?id = "TKnown (ValueString (owm_Metalake plan) @ ''.'' @ ValueString (owm_ObjectType plan) @ ''.'' @ ValueString (owm_ObjectFullName plan))"
  have m: "m = plan\<lparr>owm_ID := ?id\<rparr>"
    and get: "oa_get api (ValueString (owm_Metalake plan)) (ValueString (owm_ObjectType plan)) (ValueString (owm_ObjectFullName plan)) w'
        = (Inr \<lparr>ow_Name = name, ow_Type = to_lower ty\<rparr>, w')"
    using assms(5) assms(1) assms(2,3) by (auto simp: owner_write_def andThen_Inr calling_Inr pure_step_def done_with_def Let_def)
  have "to_upper (to_lower ''USER'') = ''USER''" "to_upper (to_lower ''GROUP'') = ''GROUP''" by code_simp+
  then have "NormalizeOwnerType (to_lower ty) = ty" using assms(4) by (auto simp: NormalizeOwnerType_def)
  then show ?thesis
    using m get assms(2,3) by (simp add: owner_Read_def andThen_def pure_step_def refresh_def)
qed

definition owner_shelf :: "owner owner_api" where
  "owner_shelf = \<lparr>oa_set = \<lambda>_ _ _ r _. (Inr True, r\<lparr>ow_Type := to_lower (ow_Type r)\<rparr>), oa_get = \<lambda>_ _ _ w. (Inr w, w)\<rparr>"

definition owned_by_ada :: owner_model where
  "owned_by_ada = \<lparr>owm_ID = TUnknown, owm_Metalake = TKnown ''m'', owm_ObjectType = TKnown ''CATALOG'', owm_ObjectFullName = TKnown ''c'',
     owm_OwnerName = TKnown ''ada'', owm_OwnerType = TKnown ''USER''\<rparr>"

theorem owner_settles_witness:
  "\<exists>m w'. owner_Create owner_shelf (Inr owned_by_ada) \<lparr>ow_Name = [], ow_Type = []\<rparr> = (Inr (Save m), w') \<and>
     ow_Type w' = ''user'' \<and> owner_Read owner_shelf (Inr m) w' = (Inr (Save m), w')"
proof -
  let ?w = "\<lparr>ow_Name = ''ada'', ow_Type = ''user''\<rparr>"
  have "to_lower ''USER'' = ''user''" by code_simp
  then obtain m where run: "owner_write ''setting owner'' owner_shelf (Inr owned_by_ada) \<lparr>ow_Name = [], ow_Type = []\<rparr> = (Inr (Save m), ?w)"
    by (simp add: owner_write_def andThen_def pure_step_def calling_def done_with_def owner_shelf_def owned_by_ada_def Let_def)
  have "owner_Read owner_shelf (Inr m) ?w = (Inr (Save m), ?w)"
    using owner_settles [OF _ _ _ _ run, of "''ada''" "''USER''"] by (simp add: owner_shelf_def owned_by_ada_def)
  then show ?thesis using run by (simp add: owner_Create_def)
qed

end
