(* ===== verification/ProviderConfig.thy ===== *)
theory ProviderConfig
  imports HttpClient OAuth Auth Version
begin

section \<open>Configuring the provider (provider/provider.go, client/providerdata.go, providerbase/providerbase.go)\<close>

text \<open>
  A provider block and the environment are turned into a client and an authentication provider. Time limits are
  Go durations, so \<open>time.ParseDuration\<close> is modelled down to its 64-bit sums and its float64 fraction. The
  Kerberos library and \<open>url.Parse\<close> are parameters, as in \<open>Auth\<close> and \<open>HttpClient\<close>; \<open>getenv\<close> is the environment.
\<close>

subsection \<open>Durations (time.ParseDuration)\<close>

definition digit_of :: "char \<Rightarrow> nat" where
  "digit_of c = code c - 48"

fun leadingInt :: "nat \<Rightarrow> string \<Rightarrow> (nat \<times> string) option" where
  "leadingInt x [] = Some (x, [])"
| "leadingInt x (c # s) =
     (if \<not> is_digit c then Some (x, c # s)
      else if x > 2 ^ 63 div 10 then None
      else let y = x * 10 + digit_of c in if y > 2 ^ 63 then None else leadingInt y s)"

text \<open>The digits after the point and the power of ten they are divided by, a float64 (\<open>None\<close> is infinity);
  digits that would overflow are skipped.\<close>

fun leadingFraction :: "nat \<Rightarrow> rat option \<Rightarrow> bool \<Rightarrow> string \<Rightarrow> nat \<times> rat option \<times> string" where
  "leadingFraction x scale overflow [] = (x, scale, [])"
| "leadingFraction x scale overflow (c # s) =
     (if \<not> is_digit c then (x, scale, c # s)
      else if overflow \<or> x > (2 ^ 63 - 1) div 10 then leadingFraction x scale True s
      else let y = x * 10 + digit_of c in
           if y > 2 ^ 63 then leadingFraction x scale True s
           else leadingFraction y (Option.bind scale (\<lambda>r. float64 (r * 10))) False s)"

definition unitMap :: "(string \<times> nat) list" where
  "unitMap = [(''ns'', 1), (''us'', 10 ^ 3), ([CHR 0xC2, CHR 0xB5] @ ''s'', 10 ^ 3), ([CHR 0xCE, CHR 0xBC] @ ''s'', 10 ^ 3),
     (''ms'', 10 ^ 6), (''s'', 10 ^ 9), (''m'', 60 * 10 ^ 9), (''h'', 3600 * 10 ^ 9)]"

definition fraction_ns :: "nat \<Rightarrow> nat \<Rightarrow> rat option \<Rightarrow> nat" where
  "fraction_ns f unit scale =
     (case (scale, float64 (of_nat f)) of
        (Some r, Some g) \<Rightarrow>
          (case float64 (of_nat unit / r) of
             Some q \<Rightarrow> (case float64 (g * q) of Some z \<Rightarrow> nat \<lfloor>z\<rfloor> | None \<Rightarrow> 0)
           | None \<Rightarrow> 0)
      | _ \<Rightarrow> 0)"

text \<open>One number with its unit, in nanoseconds, and the rest of the text.\<close>

definition duration_part :: "string \<Rightarrow> (nat \<times> string) option" where
  "duration_part s =
     (if s = [] \<or> \<not> (hd s = CHR ''.'' \<or> is_digit (hd s)) then None
      else case leadingInt 0 s of
        None \<Rightarrow> None
      | Some (v, s1) \<Rightarrow>
          let point = (s1 \<noteq> [] \<and> hd s1 = CHR ''.'');
              (f, scale, s2) = (if point then leadingFraction 0 (Some 1) False (tl s1) else (0, Some 1, s1));
              pre = (length s1 \<noteq> length s);
              post = (point \<and> length s2 \<noteq> length (tl s1));
              u = takeWhile (\<lambda>c. c \<noteq> CHR ''.'' \<and> \<not> is_digit c) s2;
              rest = dropWhile (\<lambda>c. c \<noteq> CHR ''.'' \<and> \<not> is_digit c) s2
          in if \<not> pre \<and> \<not> post then None
             else if u = [] then None
             else case map_of unitMap u of
               None \<Rightarrow> None
             | Some unit \<Rightarrow>
                 if v > 2 ^ 63 div unit then None
                 else let w = (if f > 0 then (v * unit + fraction_ns f unit scale) mod 2 ^ 64 else v * unit)
                      in if w > 2 ^ 63 then None else Some (w, rest))"

lemma leadingInt_shorter: "leadingInt x s = Some (v, r) \<Longrightarrow> length r \<le> length s"
  by (induction x s rule: leadingInt.induct) (auto simp: Let_def split: if_splits)

lemma leadingFraction_shorter: "leadingFraction x sc ov s = (f, sc', r) \<Longrightarrow> length r \<le> length s"
  by (induction x sc ov s rule: leadingFraction.induct) (auto simp: Let_def split: if_splits)

lemma duration_part_shorter:
  assumes "duration_part s = Some (w, r)"
  shows "length r < length s"
proof -
  obtain v s1 where s1: "leadingInt 0 s = Some (v, s1)" using assms by (auto simp: duration_part_def split: if_splits option.splits)
  then have "length s1 \<le> length s" by (rule leadingInt_shorter)
  obtain f scale s2 where s2: "(if s1 \<noteq> [] \<and> hd s1 = CHR ''.'' then leadingFraction 0 (Some 1) False (tl s1) else (0, Some 1, s1)) = (f, scale, s2)"
    by (metis prod_cases3)
  then have "length s2 \<le> length s1"
    using leadingFraction_shorter [of 0 "Some 1" False "tl s1" f scale s2] by (auto split: if_splits)
  have u: "takeWhile (\<lambda>c. c \<noteq> CHR ''.'' \<and> \<not> is_digit c) s2 \<noteq> []"
    and r: "r = dropWhile (\<lambda>c. c \<noteq> CHR ''.'' \<and> \<not> is_digit c) s2"
    using assms s1 s2 by (auto simp: duration_part_def Let_def split: if_splits option.splits prod.splits)
  have "length r < length s2"
    using u unfolding r by (cases s2) (auto intro: le_imp_less_Suc length_dropWhile_le split: if_splits)
  then show ?thesis using \<open>length s2 \<le> length s1\<close> \<open>length s1 \<le> length s\<close> by simp
qed

function duration_sum :: "nat \<Rightarrow> string \<Rightarrow> nat option" where
  "duration_sum d s =
     (if s = [] then Some d
      else case duration_part s of
        None \<Rightarrow> None
      | Some (v, rest) \<Rightarrow> let e = (d + v) mod 2 ^ 64 in if e > 2 ^ 63 then None else duration_sum e rest)"
  by pat_completeness auto
termination by (relation "measure (\<lambda>(_, s). length s)") (auto dest: duration_part_shorter)

declare duration_sum.simps [simp del]

definition ParseDuration :: "string \<Rightarrow> int option" where
  "ParseDuration s =
     (let neg = (s \<noteq> [] \<and> hd s = CHR ''-'');
          t = (if s \<noteq> [] \<and> (hd s = CHR ''-'' \<or> hd s = CHR ''+'') then tl s else s)
      in if t = ''0'' then Some 0
         else if t = [] then None
         else case duration_sum 0 t of
           None \<Rightarrow> None
         | Some d \<Rightarrow> if neg then Some (- int d) else if d > 2 ^ 63 - 1 then None else Some (int d))"

lemma duration_sum_bound: "d \<le> 2 ^ 63 \<Longrightarrow> duration_sum d s = Some e \<Longrightarrow> e \<le> 2 ^ 63"
proof (induction d s rule: duration_sum.induct)
  case (1 d s)
  from "1.prems"(2) show ?case
    unfolding duration_sum.simps [of d s] using "1.prems"(1) "1.IH"
    by (auto simp: Let_def split: if_splits option.splits)
qed

lemma ParseDuration_fits: "ParseDuration s = Some t \<Longrightarrow> fits64 t"
  using duration_sum_bound [of 0]
  by (auto simp: ParseDuration_def Let_def fits64_def split: if_splits option.splits)

subsection \<open>Reading the provider block\<close>

record provider_model =
  pv_URI :: "string tfval"
  pv_Auth :: "string tfval"
  pv_Timeout :: "string tfval"
  pv_Username :: "string tfval"
  pv_Password :: "string tfval"
  pv_OAuthToken :: "string tfval"
  pv_OAuthClientID :: "string tfval"
  pv_OAuthClientSecret :: "string tfval"
  pv_OAuthServerURI :: "string tfval"
  pv_OAuthTokenPath :: "string tfval"
  pv_OAuthScope :: "string tfval"
  pv_KerberosPrincipal :: "string tfval"
  pv_KerberosKeytab :: "string tfval"
  pv_KerberosUseTicketCache :: "bool tfval"

definition readConfigString :: "(string \<Rightarrow> string) \<Rightarrow> string tfval \<Rightarrow> string \<Rightarrow> string" where
  "readConfigString getenv v envVar = (if \<not> IsNull v then ValueString v else getenv envVar)"

definition DefaultTimeout :: int where "DefaultTimeout = 30 * second"

definition resolveTimeout :: "(string \<Rightarrow> string) \<Rightarrow> string tfval \<Rightarrow> string \<Rightarrow> gerror + int" where
  "resolveTimeout getenv v envVar =
     (let raw = readConfigString getenv v envVar in
      if raw = [] then Inr DefaultTimeout
      else case ParseDuration raw of
        Some t \<Rightarrow> if t \<le> 0 then Inl (ErrText (''expected a positive Go duration such as '' @ quote ''30s'' @ '' or '' @ quote ''2m'' @ '', got '' @ quote raw)) else Inr t
      | None \<Rightarrow> Inl (ErrText (''expected a positive Go duration such as '' @ quote ''30s'' @ '' or '' @ quote ''2m'' @ '', got '' @ quote raw)))"

definition duration_ValidateString :: "path_step list \<Rightarrow> string tfval \<Rightarrow> diags" where
  "duration_ValidateString p v =
     (case v of
        TKnown raw \<Rightarrow>
          (case ParseDuration raw of
             Some t \<Rightarrow> if t \<le> 0 then [attribute_error p ''Invalid timeout''
                  (''Expected a positive Go duration such as '' @ quote ''30s'' @ '' or '' @ quote ''2m'' @ '', got '' @ quote raw @ ''.'')] else []
           | None \<Rightarrow> [attribute_error p ''Invalid timeout''
                  (''Expected a positive Go duration such as '' @ quote ''30s'' @ '' or '' @ quote ''2m'' @ '', got '' @ quote raw @ ''.'')])
      | _ \<Rightarrow> [])"

definition ParseBool :: "string \<Rightarrow> bool option" where
  "ParseBool s =
     (if s \<in> {''1'', ''t'', ''T'', ''true'', ''TRUE'', ''True''} then Some True
      else if s \<in> {''0'', ''f'', ''F'', ''false'', ''FALSE'', ''False''} then Some False else None)"

definition envBool :: "(string \<Rightarrow> string) \<Rightarrow> string \<Rightarrow> bool" where
  "envBool getenv name = (ParseBool (getenv name) = Some True)"

subsection \<open>The authentication provider\<close>

datatype 'k auth_provider =
    Anonymous
  | SimpleAuth string
  | BasicAuth string string
  | OAuthStatic string
  | OAuthCredentials oauth_config
  | KerberosAuth 'k

record auth_settings =
  as_method :: string
  as_username :: string
  as_password :: string
  as_oauthToken :: string
  as_oauthClientID :: string
  as_oauthClientSecret :: string
  as_oauthServerURI :: string
  as_oauthTokenPath :: string
  as_oauthScope :: string
  as_kerberosPrincipal :: string
  as_kerberosKeytab :: string
  as_kerberosUseTicketCache :: bool

definition buildAuthProvider :: "('c, 'cc, 'kt, 'k) krb_lib \<Rightarrow> auth_settings \<Rightarrow> gerror + 'k auth_provider" where
  "buildAuthProvider lib a =
     (let m = as_method a in
      if m = [] \<or> m = ''none'' then Inr Anonymous
      else if m = ''simple'' then Inr (SimpleAuth (as_username a))
      else if m = ''basic'' then
        if as_username a = [] then Inl (ErrText ''username is required for basic authentication'')
        else Inr (BasicAuth (as_username a) (as_password a))
      else if m = ''oauth'' then
        if as_oauthToken a \<noteq> [] then Inr (OAuthStatic (as_oauthToken a))
        else if as_oauthClientID a \<noteq> [] \<and> as_oauthClientSecret a \<noteq> [] \<and> as_oauthServerURI a \<noteq> [] \<and> as_oauthTokenPath a \<noteq> []
        then Inr (OAuthCredentials (NewOAuthCredentialsProvider (as_oauthClientID a) (as_oauthClientSecret a) (as_oauthServerURI a)
               (as_oauthTokenPath a) (as_oauthScope a)))
        else Inl (ErrText (''oauth requires either oauth_token (static) or oauth_client_id + oauth_client_secret + ''
               @ ''oauth_server_uri + oauth_token_path (client credentials)''))
      else if m = ''kerberos'' then
        if as_kerberosPrincipal a = [] then Inl (ErrText ''kerberos_principal is required for kerberos authentication'')
        else map_sum (\<lambda>e. e) KerberosAuth
               (NewKerberosProvider lib (as_kerberosPrincipal a) (as_kerberosKeytab a) (as_kerberosUseTicketCache a))
      else Inl (ErrText (''unknown authentication method: '' @ quote m)))"

subsection \<open>Building the client\<close>

type_synonym url_parser = "string \<Rightarrow> gerror + string \<times> string \<times> string"

definition auth_error :: "string \<Rightarrow> string \<Rightarrow> string \<Rightarrow> diags" where
  "auth_error attribute summary detail = [attribute_error [AtName attribute] summary detail]"

definition use_ticket_cache :: "(string \<Rightarrow> string) \<Rightarrow> bool tfval \<Rightarrow> diags + bool" where
  "use_ticket_cache getenv v =
     (let envVal = getenv ''GRAVITINO_KERBEROS_USE_TICKET_CACHE'' in
      if envVal \<noteq> [] \<and> ParseBool envVal = None
      then Inl (auth_error ''kerberos_use_ticket_cache'' ''Invalid GRAVITINO_KERBEROS_USE_TICKET_CACHE value''
             (''Expected a boolean, got '' @ quote envVal @ ''.''))
      else Inr (if \<not> IsNull v then ValueBool v else ParseBool envVal = Some True))"

definition config_settings :: "(string \<Rightarrow> string) \<Rightarrow> provider_model \<Rightarrow> bool \<Rightarrow> auth_settings" where
  "config_settings getenv m useTicketCache =
     \<lparr>as_method = readConfigString getenv (pv_Auth m) ''GRAVITINO_AUTH'',
      as_username = readConfigString getenv (pv_Username m) ''GRAVITINO_USERNAME'',
      as_password = readConfigString getenv (pv_Password m) ''GRAVITINO_PASSWORD'',
      as_oauthToken = readConfigString getenv (pv_OAuthToken m) ''GRAVITINO_OAUTH_TOKEN'',
      as_oauthClientID = readConfigString getenv (pv_OAuthClientID m) ''GRAVITINO_OAUTH_CLIENT_ID'',
      as_oauthClientSecret = readConfigString getenv (pv_OAuthClientSecret m) ''GRAVITINO_OAUTH_CLIENT_SECRET'',
      as_oauthServerURI = readConfigString getenv (pv_OAuthServerURI m) ''GRAVITINO_OAUTH_SERVER_URI'',
      as_oauthTokenPath = readConfigString getenv (pv_OAuthTokenPath m) ''GRAVITINO_OAUTH_TOKEN_PATH'',
      as_oauthScope = readConfigString getenv (pv_OAuthScope m) ''GRAVITINO_OAUTH_SCOPE'',
      as_kerberosPrincipal = readConfigString getenv (pv_KerberosPrincipal m) ''GRAVITINO_KERBEROS_PRINCIPAL'',
      as_kerberosKeytab = readConfigString getenv (pv_KerberosKeytab m) ''GRAVITINO_KERBEROS_KEYTAB'',
      as_kerberosUseTicketCache = useTicketCache\<rparr>"

text \<open>\<open>Configure\<close> up to the client; a version probe follows whose failure is only logged.\<close>

definition configured_client ::
    "(string \<Rightarrow> string) \<Rightarrow> ('c, 'cc, 'kt, 'k) krb_lib \<Rightarrow> url_parser \<Rightarrow> string \<Rightarrow> diags + provider_model \<Rightarrow> diags + client \<times> 'k auth_provider" where
  "configured_client getenv lib parse_url version configGet =
     (case configGet of
        Inl ds \<Rightarrow> Inl ds
      | Inr m \<Rightarrow>
          let uri = (if \<not> IsNull (pv_URI m) then ValueString (pv_URI m) else getenv ''GRAVITINO_URI'') in
          if uri = []
          then Inl (auth_error ''uri'' ''Missing Gravitino URI''
                 ''Set the uri attribute in the provider block or the GRAVITINO_URI environment variable.'')
          else case resolveTimeout getenv (pv_Timeout m) ''GRAVITINO_TIMEOUT'' of
            Inl err \<Rightarrow> Inl (auth_error ''timeout'' ''Invalid timeout'' (err_text err))
          | Inr timeout \<Rightarrow>
              (case use_ticket_cache getenv (pv_KerberosUseTicketCache m) of
                 Inl ds \<Rightarrow> Inl ds
               | Inr useTicketCache \<Rightarrow>
                   (case buildAuthProvider lib (config_settings getenv m useTicketCache) of
                      Inl err \<Rightarrow> Inl (auth_error ''auth'' ''Invalid authentication configuration'' (err_text err))
                    | Inr ap \<Rightarrow>
                        (case New parse_url uri [WithTimeout timeout, WithUserAgent version] of
                           Inl err \<Rightarrow> Inl [error_diag ''Failed to create client'' (err_text err)]
                         | Inr c \<Rightarrow> Inr (c, ap)))))"

definition provider_Configure ::
    "(string \<Rightarrow> string) \<Rightarrow> ('c, 'cc, 'kt, 'k) krb_lib \<Rightarrow> url_parser \<Rightarrow> (client \<Rightarrow> 'k auth_provider \<Rightarrow> 'w probe) \<Rightarrow> string \<Rightarrow>
     diags + provider_model \<Rightarrow> 'w \<Rightarrow> (diags + client \<times> 'k auth_provider \<times> string) \<times> 'w" where
  "provider_Configure getenv lib parse_url probe version configGet w =
     (case configured_client getenv lib parse_url version configGet of
        Inl ds \<Rightarrow> (Inl ds, w)
      | Inr (c, ap) \<Rightarrow>
          (case DetectServerVersion (probe c ap) \<lparr>vc_version = [], vc_world = w\<rparr> of
             (_, v) \<Rightarrow> (Inr (c, ap, ServerVersion v), vc_world v)))"

definition NewClientFromEnv ::
    "(string \<Rightarrow> string) \<Rightarrow> ('c, 'cc, 'kt, 'k) krb_lib \<Rightarrow> url_parser \<Rightarrow> string \<Rightarrow> gerror + client \<times> 'k auth_provider" where
  "NewClientFromEnv getenv lib parse_url uri =
     (case buildAuthProvider lib
             \<lparr>as_method = getenv ''GRAVITINO_AUTH'', as_username = getenv ''GRAVITINO_USERNAME'',
              as_password = getenv ''GRAVITINO_PASSWORD'', as_oauthToken = getenv ''GRAVITINO_OAUTH_TOKEN'',
              as_oauthClientID = getenv ''GRAVITINO_OAUTH_CLIENT_ID'', as_oauthClientSecret = getenv ''GRAVITINO_OAUTH_CLIENT_SECRET'',
              as_oauthServerURI = getenv ''GRAVITINO_OAUTH_SERVER_URI'', as_oauthTokenPath = getenv ''GRAVITINO_OAUTH_TOKEN_PATH'',
              as_oauthScope = getenv ''GRAVITINO_OAUTH_SCOPE'', as_kerberosPrincipal = getenv ''GRAVITINO_KERBEROS_PRINCIPAL'',
              as_kerberosKeytab = getenv ''GRAVITINO_KERBEROS_KEYTAB'',
              as_kerberosUseTicketCache = envBool getenv ''GRAVITINO_KERBEROS_USE_TICKET_CACHE''\<rparr> of
        Inl err \<Rightarrow> Inl err
      | Inr ap \<Rightarrow>
          (case resolveTimeout getenv TNull ''GRAVITINO_TIMEOUT'' of
             Inl err \<Rightarrow> Inl err
           | Inr timeout \<Rightarrow> map_sum (\<lambda>e. e) (\<lambda>c. (c, ap)) (New parse_url uri [WithTimeout timeout])))"

subsection \<open>Handing the client to resources and data sources\<close>

datatype 'c provider_data = NoData | ClientData 'c | OtherData string

definition FromProviderData :: "'c provider_data \<Rightarrow> 'c option \<times> diags" where
  "FromProviderData d =
     (case d of
        NoData \<Rightarrow> (None, [])
      | ClientData c \<Rightarrow> (Some c, [])
      | OtherData ty \<Rightarrow> (None, [error_diag ''Unexpected provider data type''
          (''Expected *client.Client, got '' @ ty @ ''. Please report this issue to the provider developers.'')]))"

definition Resource_Configure :: "'c provider_data \<Rightarrow> 'c option \<Rightarrow> 'c option \<times> diags" where
  "Resource_Configure d current =
     (case FromProviderData d of (c, ds) \<Rightarrow> (case c of Some x \<Rightarrow> Some x | None \<Rightarrow> current, ds))"

definition DataSource_Configure :: "'c provider_data \<Rightarrow> 'c option \<Rightarrow> 'c option \<times> diags" where
  "DataSource_Configure = Resource_Configure"

subsection \<open>Properties\<close>

lemma resolved_positive: "resolveTimeout getenv v e = Inr t \<Longrightarrow> 0 < t \<and> fits64 t"
  by (auto simp: resolveTimeout_def Let_def DefaultTimeout_def second_def fits64_def dest: ParseDuration_fits split: if_splits option.splits)

lemma new_client:
  assumes "New parse_url uri opts = Inr c"
  obtains b where "c = fold (\<lambda>f c. f c) opts \<lparr>cl_baseURL = b, cl_timeout = DefaultTimeout,
      cl_userAgent = ''terraform-provider-gravitino/dev'', cl_retry = defaultRetryPolicy\<rparr>"
  using assms by (auto simp: New_def DefaultTimeout_def split: sum.splits if_splits)

lemma configured:
  assumes "configured_client getenv lib parse_url version (Inr m) = Inr (c, ap)"
  obtains t cache uri where "resolveTimeout getenv (pv_Timeout m) ''GRAVITINO_TIMEOUT'' = Inr t"
    "buildAuthProvider lib (config_settings getenv m cache) = Inr ap" "New parse_url uri [WithTimeout t, WithUserAgent version] = Inr c"
  using assms by (auto simp: configured_client_def Let_def split: sum.splits if_splits)

text \<open>The time limit of a configured client is the resolved one: positive and at most the largest 64-bit duration. A
  known timeout the validator accepts at plan time resolves, to the duration it spells.\<close>

theorem timeout_resolved:
  "(configured_client getenv lib parse_url version (Inr m) = Inr (c, ap) \<longrightarrow>
      resolveTimeout getenv (pv_Timeout m) ''GRAVITINO_TIMEOUT'' = Inr (cl_timeout c) \<and> 0 < cl_timeout c \<and> fits64 (cl_timeout c)) \<and>
   (duration_ValidateString p (TKnown raw) = [] \<longrightarrow>
      (\<exists>t. resolveTimeout getenv (TKnown raw) e = Inr t \<and> ParseDuration raw = Some t))"
proof (intro conjI [of "_ \<longrightarrow> _"] impI)
  assume "configured_client getenv lib parse_url version (Inr m) = Inr (c, ap)"
  then obtain t cache uri where t: "resolveTimeout getenv (pv_Timeout m) ''GRAVITINO_TIMEOUT'' = Inr t"
    and new: "New parse_url uri [WithTimeout t, WithUserAgent version] = Inr c"
    by (rule configured)
  from new have "cl_timeout c = t"
    by (rule new_client) (use resolved_positive [OF t] in \<open>simp add: WithTimeout_def WithUserAgent_def Let_def\<close>)
  then show "resolveTimeout getenv (pv_Timeout m) ''GRAVITINO_TIMEOUT'' = Inr (cl_timeout c) \<and> 0 < cl_timeout c \<and> fits64 (cl_timeout c)"
    using t resolved_positive [OF t] by simp
next
  assume ok: "duration_ValidateString p (TKnown raw) = []"
  have "raw \<noteq> []"
  proof
    assume "raw = []"
    then show False using ok by (simp add: duration_ValidateString_def ParseDuration_def)
  qed
  then show "\<exists>t. resolveTimeout getenv (TKnown raw) e = Inr t \<and> ParseDuration raw = Some t"
    using ok by (auto simp: duration_ValidateString_def resolveTimeout_def readConfigString_def split: option.splits if_splits)
qed

theorem timeout_resolved_witness:
  "resolveTimeout (\<lambda>_. []) (TKnown ''1m30s'') ''GRAVITINO_TIMEOUT'' = Inr (90 * second)"
proof -
  have p: "ParseDuration ''1m30s'' = Some (90 * second)"
    by (simp add: ParseDuration_def duration_sum.simps duration_part_def unitMap_def digit_of_def is_digit_def code_def second_def)
  then have "duration_ValidateString [] (TKnown ''1m30s'') = []" by (simp add: duration_ValidateString_def second_def)
  then show ?thesis using timeout_resolved [where raw = "''1m30s''" and p = "[]" and getenv = "\<lambda>_. []" and e = "''GRAVITINO_TIMEOUT''", THEN conjunct2] p by auto
qed

text \<open>C35: A configured client sends no credentials exactly when the authentication method is \<open>none\<close>, empty or left out
  everywhere, or unknown while planning: a method that does not get what it needs is refused and never
  turned into anonymous access, but an unknown one is, whatever the environment says.\<close>

theorem anonymous_iff:
  assumes "configured_client getenv lib parse_url version (Inr m) = Inr (c, ap)"
  shows "ap = Anonymous \<longleftrightarrow> pv_Auth m \<in> {TUnknown, TKnown [], TKnown ''none''} \<or>
    pv_Auth m = TNull \<and> getenv ''GRAVITINO_AUTH'' \<in> {[], ''none''}"
proof -
  obtain cache where "buildAuthProvider lib (config_settings getenv m cache) = Inr ap"
    using assms by (rule configured)
  then have "ap = Anonymous \<longleftrightarrow> readConfigString getenv (pv_Auth m) ''GRAVITINO_AUTH'' \<in> {[], ''none''}"
    by (auto simp: buildAuthProvider_def config_settings_def Let_def map_sum_def split: if_splits sum.splits)
  then show ?thesis by (cases "pv_Auth m") (auto simp: readConfigString_def)
qed

definition empty_block :: provider_model where
  "empty_block = \<lparr>pv_URI = TNull, pv_Auth = TNull, pv_Timeout = TNull, pv_Username = TNull, pv_Password = TNull, pv_OAuthToken = TNull,
     pv_OAuthClientID = TNull, pv_OAuthClientSecret = TNull, pv_OAuthServerURI = TNull, pv_OAuthTokenPath = TNull, pv_OAuthScope = TNull,
     pv_KerberosPrincipal = TNull, pv_KerberosKeytab = TNull, pv_KerberosUseTicketCache = TNull\<rparr>"

definition no_kerberos :: "(unit, unit, unit, unit) krb_lib" where
  "no_kerberos = \<lparr>kl_getenv = \<lambda>_. [], kl_uid = Inr ''0'', kl_load_config = \<lambda>_. Inr (), kl_new_config = (), kl_not_exist = \<lambda>_. True,
     kl_load_ccache = \<lambda>_. Inr (), kl_from_ccache = \<lambda>_ _. Inr (), kl_load_keytab = \<lambda>_. Inr (), kl_with_keytab = \<lambda>_ _ _ _. ()\<rparr>"

definition basic_env :: "string \<Rightarrow> string" where
  "basic_env k = (if k = ''GRAVITINO_URI'' then ''http://h'' else if k = ''GRAVITINO_AUTH'' then ''basic''
     else if k = ''GRAVITINO_USERNAME'' then ''ada'' else [])"

definition plain_url :: url_parser where
  "plain_url u = Inr (''http'', ''h'', u)"

lemma basic_env_simps:
  "basic_env ''GRAVITINO_URI'' = ''http://h''" "basic_env ''GRAVITINO_AUTH'' = ''basic''" "basic_env ''GRAVITINO_USERNAME'' = ''ada''"
  "basic_env ''GRAVITINO_PASSWORD'' = []" "basic_env ''GRAVITINO_TIMEOUT'' = []" "basic_env ''GRAVITINO_KERBEROS_USE_TICKET_CACHE'' = []"
  by (simp_all add: basic_env_def)

theorem anonymous_iff_witness:
  "\<exists>c d. configured_client basic_env no_kerberos plain_url ''1'' (Inr empty_block) = Inr (c, BasicAuth ''ada'' []) \<and>
     configured_client basic_env no_kerberos plain_url ''1'' (Inr (empty_block\<lparr>pv_Auth := TUnknown\<rparr>)) = Inr (d, Anonymous)"
proof -
  have "\<exists>c. configured_client basic_env no_kerberos plain_url ''1'' (Inr empty_block) = Inr (c, BasicAuth ''ada'' [])"
    by (simp add: configured_client_def empty_block_def basic_env_simps resolveTimeout_def readConfigString_def use_ticket_cache_def
        config_settings_def buildAuthProvider_def New_def plain_url_def ParseBool_def Let_def)
  moreover have "\<exists>d ap. configured_client basic_env no_kerberos plain_url ''1'' (Inr (empty_block\<lparr>pv_Auth := TUnknown\<rparr>)) = Inr (d, ap)"
    by (simp add: configured_client_def empty_block_def basic_env_simps resolveTimeout_def readConfigString_def use_ticket_cache_def
        config_settings_def buildAuthProvider_def New_def plain_url_def ParseBool_def Let_def)
  then obtain d ap where d: "configured_client basic_env no_kerberos plain_url ''1'' (Inr (empty_block\<lparr>pv_Auth := TUnknown\<rparr>)) = Inr (d, ap)"
    by blast
  moreover have "ap = Anonymous" using anonymous_iff [OF d] by simp
  ultimately show ?thesis by blast
qed

lemma same_settings:
  assumes "getenv ''GRAVITINO_KERBEROS_USE_TICKET_CACHE'' = [] \<or> ParseBool (getenv ''GRAVITINO_KERBEROS_USE_TICKET_CACHE'') \<noteq> None"
  shows "use_ticket_cache getenv TNull = Inr (envBool getenv ''GRAVITINO_KERBEROS_USE_TICKET_CACHE'')"
  using assms by (auto simp: use_ticket_cache_def envBool_def Let_def)

lemma New_user_agent:
  "New parse_url uri [f, g] = map_sum (\<lambda>e. e) g (New parse_url uri [f])"
  by (simp add: New_def split: sum.splits)

text \<open>C36: An empty provider block and \<open>NewClientFromEnv\<close> agree: they fail together, and otherwise give the same client, up to the
  user agent, and the same authentication, as long as the ticket-cache variable is unset or a boolean. When it
  is neither, the provider refuses to start and \<open>NewClientFromEnv\<close> goes on without the ticket cache.\<close>

theorem env_client_agrees:
  assumes "getenv ''GRAVITINO_URI'' \<noteq> []"
  shows "(getenv ''GRAVITINO_KERBEROS_USE_TICKET_CACHE'' = [] \<or> ParseBool (getenv ''GRAVITINO_KERBEROS_USE_TICKET_CACHE'') \<noteq> None \<longrightarrow>
      (case (configured_client getenv lib parse_url version (Inr empty_block), NewClientFromEnv getenv lib parse_url (getenv ''GRAVITINO_URI'')) of
         (Inr (c, ap), Inr (d, aq)) \<Rightarrow> c = WithUserAgent version d \<and> ap = aq
       | (Inl _, Inl _) \<Rightarrow> True
       | _ \<Rightarrow> False)) \<and>
    (getenv ''GRAVITINO_KERBEROS_USE_TICKET_CACHE'' \<noteq> [] \<and> ParseBool (getenv ''GRAVITINO_KERBEROS_USE_TICKET_CACHE'') = None \<longrightarrow>
      isl (configured_client getenv lib parse_url version (Inr empty_block)))"
proof (intro conjI impI)
  let ?env = "config_settings getenv empty_block (envBool getenv ''GRAVITINO_KERBEROS_USE_TICKET_CACHE'')"
  have env: "\<lparr>as_method = getenv ''GRAVITINO_AUTH'', as_username = getenv ''GRAVITINO_USERNAME'',
      as_password = getenv ''GRAVITINO_PASSWORD'', as_oauthToken = getenv ''GRAVITINO_OAUTH_TOKEN'',
      as_oauthClientID = getenv ''GRAVITINO_OAUTH_CLIENT_ID'', as_oauthClientSecret = getenv ''GRAVITINO_OAUTH_CLIENT_SECRET'',
      as_oauthServerURI = getenv ''GRAVITINO_OAUTH_SERVER_URI'', as_oauthTokenPath = getenv ''GRAVITINO_OAUTH_TOKEN_PATH'',
      as_oauthScope = getenv ''GRAVITINO_OAUTH_SCOPE'', as_kerberosPrincipal = getenv ''GRAVITINO_KERBEROS_PRINCIPAL'',
      as_kerberosKeytab = getenv ''GRAVITINO_KERBEROS_KEYTAB'',
      as_kerberosUseTicketCache = envBool getenv ''GRAVITINO_KERBEROS_USE_TICKET_CACHE''\<rparr> = ?env"
    by (simp add: config_settings_def empty_block_def readConfigString_def)
  have block: "pv_URI empty_block = TNull" "pv_Timeout empty_block = TNull" "pv_KerberosUseTicketCache empty_block = TNull"
    by (simp_all add: empty_block_def)
  assume "getenv ''GRAVITINO_KERBEROS_USE_TICKET_CACHE'' = [] \<or> ParseBool (getenv ''GRAVITINO_KERBEROS_USE_TICKET_CACHE'') \<noteq> None"
  note cache = same_settings [of getenv, OF this]
  show "case (configured_client getenv lib parse_url version (Inr empty_block), NewClientFromEnv getenv lib parse_url (getenv ''GRAVITINO_URI'')) of
         (Inr (c, ap), Inr (d, aq)) \<Rightarrow> c = WithUserAgent version d \<and> ap = aq
       | (Inl _, Inl _) \<Rightarrow> True
       | _ \<Rightarrow> False"
    unfolding NewClientFromEnv_def env
    by (cases "resolveTimeout getenv TNull ''GRAVITINO_TIMEOUT''"; cases "buildAuthProvider lib ?env")
      (use assms in \<open>auto simp: configured_client_def block cache New_user_agent map_sum_def Let_def split: sum.splits\<close>)
next
  assume "getenv ''GRAVITINO_KERBEROS_USE_TICKET_CACHE'' \<noteq> [] \<and> ParseBool (getenv ''GRAVITINO_KERBEROS_USE_TICKET_CACHE'') = None"
  then show "isl (configured_client getenv lib parse_url version (Inr empty_block))"
    by (auto simp: configured_client_def use_ticket_cache_def empty_block_def Let_def split: sum.splits)
qed

theorem env_client_agrees_witness:
  "\<exists>d. configured_client basic_env no_kerberos plain_url ''1'' (Inr empty_block) = Inr (WithUserAgent ''1'' d, BasicAuth ''ada'' []) \<and>
     NewClientFromEnv basic_env no_kerberos plain_url ''http://h'' = Inr (d, BasicAuth ''ada'' [])"
proof -
  obtain c where c: "configured_client basic_env no_kerberos plain_url ''1'' (Inr empty_block) = Inr (c, BasicAuth ''ada'' [])"
    by (simp add: configured_client_def empty_block_def basic_env_simps resolveTimeout_def readConfigString_def use_ticket_cache_def
        config_settings_def buildAuthProvider_def New_def plain_url_def ParseBool_def Let_def)
  have "basic_env ''GRAVITINO_URI'' \<noteq> []" by (simp add: basic_env_simps)
  from env_client_agrees [where getenv = basic_env and lib = no_kerberos and parse_url = plain_url and version = "''1''", OF this] show ?thesis
    by (auto simp: c basic_env_simps split: sum.splits)
qed

end
