(* ===== verification/DataSources.thy ===== *)
theory DataSources
  imports PrincipalResources StatisticsResource
begin

section \<open>Data sources that look something up (datasources/*)\<close>

text \<open>
  A data source decodes its configuration, makes one or more reading calls and writes the answer into its
  computed attributes. Many of them turn a 404 into a message of their own (\<open>missing_or\<close>). A listing of a
  metalake or of a schema has the names of its containers and one list (\<open>metalake_listing\<close>,
  \<open>schema_listing\<close>, for all data sources of the shape). The calls of the client are arguments.
\<close>

definition missing_or :: "diagnostic \<Rightarrow> (gerror \<Rightarrow> diags) \<Rightarrow> gerror \<Rightarrow> diags" where
  "missing_or missing report err = (if IsNotFoundError err then [missing] else report err)"

record 'i metalake_listing =
  mli_Metalake :: "string tfval"
  mli_Items :: "'i tfval list tfval"

record 'i schema_listing =
  sli_Metalake :: "string tfval"
  sli_Catalog :: "string tfval"
  sli_Schema :: "string tfval"
  sli_Items :: "'i tfval list tfval"

subsection \<open>Names\<close>

text \<open>The names of groups and users are a slice that may be missing; those of roles and tables are copied.\<close>

definition groups_ds_Read ::
    "(string \<Rightarrow> 'w \<Rightarrow> (gerror + string list option) \<times> 'w) \<Rightarrow> diags + string metalake_listing
       \<Rightarrow> (string metalake_listing state_write, 'w) step" where
  "groups_ds_Read ListGroups configGet =
     andThen (pure_step configGet) (\<lambda>config.
     let m = ValueString (mli_Metalake config) in
     andThen (calling (ListGroups m)
       (missing_or (error_diag ''Metalake not found'' (''No metalake '' @ quote m @ '' exists; cannot list its groups.''))
          (NewResourceError ''listing groups'' m))) (\<lambda>names.
     done_with (Save (config\<lparr>mli_Items := SetValueFrom names\<rparr>))))"

definition users_ds_Read ::
    "(string \<Rightarrow> 'w \<Rightarrow> (gerror + string list option) \<times> 'w) \<Rightarrow> diags + string metalake_listing
       \<Rightarrow> (string metalake_listing state_write, 'w) step" where
  "users_ds_Read ListUsers configGet =
     andThen (pure_step configGet) (\<lambda>config.
     let m = ValueString (mli_Metalake config) in
     andThen (calling (ListUsers m)
       (missing_or (error_diag ''Metalake not found'' (''No metalake '' @ quote m @ '' exists; cannot list its users.''))
          (NewResourceError ''listing users'' m))) (\<lambda>names.
     done_with (Save (config\<lparr>mli_Items := SetValueFrom names\<rparr>))))"

definition roles_list_ds_Read ::
    "(string \<Rightarrow> 'w \<Rightarrow> (gerror + string list) \<times> 'w) \<Rightarrow> diags + string metalake_listing
       \<Rightarrow> (string metalake_listing state_write, 'w) step" where
  "roles_list_ds_Read ListAllRoles configGet =
     andThen (pure_step configGet) (\<lambda>config.
     let m = ValueString (mli_Metalake config) in
     andThen (calling (ListAllRoles m) (NewResourceError ''listing roles in'' m)) (\<lambda>names.
     done_with (Save (config\<lparr>mli_Items := TKnown (map TKnown names)\<rparr>))))"

definition metalake_roles_ds_Read ::
    "(string \<Rightarrow> 'w \<Rightarrow> (gerror + string list) \<times> 'w) \<Rightarrow> diags + string metalake_listing
       \<Rightarrow> (string metalake_listing state_write, 'w) step" where
  "metalake_roles_ds_Read ListAllRoles configGet =
     andThen (pure_step configGet) (\<lambda>config.
     let m = ValueString (mli_Metalake config) in
     andThen (calling (ListAllRoles m) (NewResourceError ''listing roles in'' m)) (\<lambda>names.
     done_with (Save (config\<lparr>mli_Items := TKnown (map TKnown names)\<rparr>))))"

record roles_ds_model =
  rdm_Metalake :: "string tfval"
  rdm_ResourceType :: "string tfval"
  rdm_Resource :: "string tfval"
  rdm_Names :: tf_strings

definition roles_ds_Read ::
    "(string \<Rightarrow> string \<Rightarrow> string \<Rightarrow> 'w \<Rightarrow> (gerror + string list) \<times> 'w) \<Rightarrow> diags + roles_ds_model
       \<Rightarrow> (roles_ds_model state_write, 'w) step" where
  "roles_ds_Read ListRoles configGet =
     andThen (pure_step configGet) (\<lambda>config.
     andThen (calling (ListRoles (ValueString (rdm_Metalake config)) (ValueString (rdm_ResourceType config)) (ValueString (rdm_Resource config)))
       (NewResourceError ''listing roles for'' (ValueString (rdm_Resource config)))) (\<lambda>names.
     done_with (Save (config\<lparr>rdm_Names := TKnown (map TKnown names)\<rparr>))))"

definition tables_ds_Read ::
    "(string \<Rightarrow> string \<Rightarrow> string \<Rightarrow> 'w \<Rightarrow> (gerror + string list) \<times> 'w) \<Rightarrow> diags + string schema_listing
       \<Rightarrow> (string schema_listing state_write, 'w) step" where
  "tables_ds_Read ListTables configGet =
     andThen (pure_step configGet) (\<lambda>config.
     andThen (calling (ListTables (ValueString (sli_Metalake config)) (ValueString (sli_Catalog config)) (ValueString (sli_Schema config)))
       (NewResourceError ''listing tables'' (ValueString (sli_Schema config)))) (\<lambda>names.
     done_with (Save (config\<lparr>sli_Items := TKnown (map TKnown names)\<rparr>))))"

subsection \<open>Principals\<close>

record auth_me =
  me_Principal :: string
  me_ServiceAdmin :: bool

record principal_ds_model =
  pdm_Name :: "string tfval"
  pdm_ServiceAdmin :: "bool tfval"

definition setPrincipalState :: "auth_me \<Rightarrow> principal_ds_model \<Rightarrow> principal_ds_model" where
  "setPrincipalState result model =
     model\<lparr>pdm_Name := TKnown (me_Principal result), pdm_ServiceAdmin := TKnown (me_ServiceAdmin result)\<rparr>"

definition principal_ds_Read ::
    "('w \<Rightarrow> (gerror + auth_me) \<times> 'w) \<Rightarrow> diags + principal_ds_model \<Rightarrow> (principal_ds_model state_write, 'w) step" where
  "principal_ds_Read GetAuthenticatedPrincipal configGet =
     andThen (pure_step configGet) (\<lambda>config.
     andThen (calling GetAuthenticatedPrincipal (NewResourceError ''reading authenticated principal'' ''/authn/me'')) (\<lambda>result.
     done_with (Save (setPrincipalState result config))))"

record grantee_ds_model =
  gdm_Metalake :: "string tfval"
  gdm_Name :: "string tfval"
  gdm_Roles :: tf_strings
  gdm_Audit :: "audit_tfsdk tfval"

definition setDataSourceStateFromGrantee :: "grantee \<Rightarrow> grantee_ds_model \<Rightarrow> grantee_ds_model" where
  "setDataSourceStateFromGrantee g model =
     model\<lparr>gdm_Roles := SetValueFrom (gr_Roles g), gdm_Audit := AuditToObjectValue (gr_Audit g)\<rparr>"

definition user_ds_Read ::
    "(string \<Rightarrow> string \<Rightarrow> 'w \<Rightarrow> (gerror + grantee) \<times> 'w) \<Rightarrow> diags + grantee_ds_model
       \<Rightarrow> (grantee_ds_model state_write, 'w) step" where
  "user_ds_Read GetUser configGet =
     andThen (pure_step configGet) (\<lambda>config.
     let m = ValueString (gdm_Metalake config); n = ValueString (gdm_Name config) in
     andThen (calling (GetUser m n)
       (missing_or (error_diag ''User not found'' (''No user '' @ quote n @ '' exists in metalake '' @ quote m @ ''.''))
          (NewResourceError ''reading user'' n))) (\<lambda>u.
     done_with (Save (setDataSourceStateFromGrantee u config))))"

definition group_ds_Read ::
    "(string \<Rightarrow> string \<Rightarrow> 'w \<Rightarrow> (gerror + grantee) \<times> 'w) \<Rightarrow> diags + grantee_ds_model
       \<Rightarrow> (grantee_ds_model state_write, 'w) step" where
  "group_ds_Read GetGroup configGet =
     andThen (pure_step configGet) (\<lambda>config.
     let m = ValueString (gdm_Metalake config); n = ValueString (gdm_Name config) in
     andThen (calling (GetGroup m n)
       (missing_or (error_diag ''Group not found'' (''No group '' @ quote n @ '' exists in metalake '' @ quote m @ ''.''))
          (NewResourceError ''reading group'' n))) (\<lambda>g.
     done_with (Save (setDataSourceStateFromGrantee g config))))"

record owner_ds_model =
  odm_Metalake :: "string tfval"
  odm_ObjectType :: "string tfval"
  odm_ObjectFullName :: "string tfval"
  odm_OwnerName :: "string tfval"
  odm_OwnerType :: "string tfval"

definition owner_ds_Read ::
    "(string \<Rightarrow> string \<Rightarrow> string \<Rightarrow> 'w \<Rightarrow> (gerror + owner) \<times> 'w) \<Rightarrow> diags + owner_ds_model
       \<Rightarrow> (owner_ds_model state_write, 'w) step" where
  "owner_ds_Read GetOwner configGet =
     andThen (pure_step configGet) (\<lambda>config.
     let m = ValueString (odm_Metalake config); t = ValueString (odm_ObjectType config); f = ValueString (odm_ObjectFullName config) in
     andThen (calling (GetOwner m t f)
       (missing_or (error_diag ''Owner not found''
            (''No owner is set for '' @ t @ '' '' @ quote f @ '' in metalake '' @ quote m @ ''.''))
          (NewResourceError ''reading owner'' f))) (\<lambda>own.
     done_with (Save (config\<lparr>odm_OwnerName := TKnown (ow_Name own), odm_OwnerType := TKnown (NormalizeOwnerType (ow_Type own))\<rparr>))))"

record idp_ds_model =
  idm_Name :: "string tfval"
  idm_Members :: tf_strings

definition idp_group_ds_Read ::
    "(string \<Rightarrow> 'w \<Rightarrow> (gerror + idp_group) \<times> 'w) \<Rightarrow> diags + idp_ds_model \<Rightarrow> (idp_ds_model state_write, 'w) step" where
  "idp_group_ds_Read GetIdpGroup configGet =
     andThen (pure_step configGet) (\<lambda>config.
     andThen (calling (GetIdpGroup (ValueString (idm_Name config)))
       (NewResourceError ''reading IDP group'' (ValueString (idm_Name config)))) (\<lambda>g.
     done_with (Save (config\<lparr>idm_Name := TKnown (ig_Name g), idm_Members := StringsToSet (ig_Users g)\<rparr>))))"

definition idp_user_ds_Read ::
    "(string \<Rightarrow> 'w \<Rightarrow> (gerror + idp_user) \<times> 'w) \<Rightarrow> diags + idp_ds_model \<Rightarrow> (idp_ds_model state_write, 'w) step" where
  "idp_user_ds_Read GetIdpUser configGet =
     andThen (pure_step configGet) (\<lambda>config.
     andThen (calling (GetIdpUser (ValueString (idm_Name config)))
       (NewResourceError ''reading IDP user'' (ValueString (idm_Name config)))) (\<lambda>u.
     done_with (Save (config\<lparr>idm_Name := TKnown (iu_Name u), idm_Members := StringsToSet (iu_Groups u)\<rparr>))))"

record role_ds_model =
  rod_Metalake :: "string tfval"
  rod_Name :: "string tfval"
  rod_Properties :: tf_map
  rod_SecurableObjects :: "securable_object_model tfval list tfval"
  rod_Audit :: "audit_tfsdk tfval"

text \<open>The loops of the data source, written beside those of the resource (\<open>securableObjectsToTF\<close>).\<close>

definition securableObjectsToTFForDS :: "securable_object list \<Rightarrow> securable_object_model tfval list tfval" where
  "securableObjectsToTFForDS objects =
     known_set (map (\<lambda>so.
       \<lparr>sm_FullName = TKnown (so_FullName so), sm_Type = TKnown (CanonicalObjectType (so_Type so)),
        sm_Privileges = known_set (map (\<lambda>p.
          \<lparr>pm_Name = TKnown (CanonicalPrivilege (pv_Name p)), pm_Condition = TKnown (CanonicalPrivilege (pv_Condition p))\<rparr>)
          (so_Privileges so))\<rparr>) objects)"

definition setDataSourceStateFromRole :: "role \<Rightarrow> role_ds_model \<Rightarrow> role_ds_model" where
  "setDataSourceStateFromRole r model =
     model\<lparr>rod_Properties := MapValueFrom (ro_Properties r),
       rod_SecurableObjects := securableObjectsToTFForDS (ro_SecurableObjects r), rod_Audit := AuditToObjectValue (ro_Audit r)\<rparr>"

definition role_ds_Read ::
    "(string \<Rightarrow> string \<Rightarrow> 'w \<Rightarrow> (gerror + role) \<times> 'w) \<Rightarrow> diags + role_ds_model \<Rightarrow> (role_ds_model state_write, 'w) step" where
  "role_ds_Read GetRole configGet =
     andThen (pure_step configGet) (\<lambda>config.
     andThen (calling (GetRole (ValueString (rod_Metalake config)) (ValueString (rod_Name config)))
       (NewResourceError ''reading role'' (ValueString (rod_Name config)))) (\<lambda>r.
     done_with (Save (setDataSourceStateFromRole r config))))"

subsection \<open>Health\<close>

text \<open>A missing list of checks stays missing, and so do the details of a check.\<close>

record health_check =
  hc_Name :: string
  hc_Status :: string
  hc_Details :: "string gomap option"

record health =
  hlt_Status :: string
  hlt_Checks :: "health_check list option"

record health_check_model =
  hcm_Name :: "string tfval"
  hcm_Status :: "string tfval"
  hcm_Details :: tf_map

record health_ds_model =
  hdm_Status :: "string tfval"
  hdm_Checks :: "health_check_model list option"

definition healthChecksToModel :: "health_check list option \<Rightarrow> health_check_model list option" where
  "healthChecksToModel checks =
     (case checks of
        None \<Rightarrow> None
      | Some cs \<Rightarrow> Some (map (\<lambda>c. \<lparr>hcm_Name = TKnown (hc_Name c), hcm_Status = TKnown (hc_Status c),
                                  hcm_Details = MapValueFrom (hc_Details c)\<rparr>) cs))"

definition health_ds_Read ::
    "('w \<Rightarrow> (gerror + health) \<times> 'w) \<Rightarrow> diags + health_ds_model \<Rightarrow> (health_ds_model state_write, 'w) step" where
  "health_ds_Read GetHealth configGet =
     andThen (pure_step configGet) (\<lambda>state.
     andThen (calling GetHealth (NewResourceError ''reading health'' ''health'')) (\<lambda>result.
     done_with (Save (state\<lparr>hdm_Status := TKnown (hlt_Status result), hdm_Checks := healthChecksToModel (hlt_Checks result)\<rparr>))))"

definition liveness_ds_Read ::
    "('w \<Rightarrow> (gerror + health) \<times> 'w) \<Rightarrow> diags + health_ds_model \<Rightarrow> (health_ds_model state_write, 'w) step" where
  "liveness_ds_Read GetLiveness configGet =
     andThen (pure_step configGet) (\<lambda>state.
     andThen (calling GetLiveness (NewResourceError ''reading liveness'' ''liveness'')) (\<lambda>result.
     done_with (Save (state\<lparr>hdm_Status := TKnown (hlt_Status result), hdm_Checks := healthChecksToModel (hlt_Checks result)\<rparr>))))"

definition readiness_ds_Read ::
    "('w \<Rightarrow> (gerror + health) \<times> 'w) \<Rightarrow> diags + health_ds_model \<Rightarrow> (health_ds_model state_write, 'w) step" where
  "readiness_ds_Read GetReadiness configGet =
     andThen (pure_step configGet) (\<lambda>state.
     andThen (calling GetReadiness (NewResourceError ''reading readiness'' ''readiness'')) (\<lambda>result.
     done_with (Save (state\<lparr>hdm_Status := TKnown (hlt_Status result), hdm_Checks := healthChecksToModel (hlt_Checks result)\<rparr>))))"

subsection \<open>Secrets and credentials\<close>

record 'v object_ds_model =
  obd_Metalake :: "string tfval"
  obd_ResourceType :: "string tfval"
  obd_Resource :: "string tfval"
  obd_Result :: 'v

definition secrets_ds_Read ::
    "(string \<Rightarrow> string \<Rightarrow> string \<Rightarrow> 'w \<Rightarrow> (gerror + string gomap option) \<times> 'w) \<Rightarrow> diags + tf_map object_ds_model
       \<Rightarrow> (tf_map object_ds_model state_write, 'w) step" where
  "secrets_ds_Read GetSecrets configGet =
     andThen (pure_step configGet) (\<lambda>config.
     andThen (calling (GetSecrets (ValueString (obd_Metalake config)) (ValueString (obd_ResourceType config)) (ValueString (obd_Resource config)))
       (missing_or (error_diag ''Secrets not found'' ''The specified metadata object does not exist.'')
          (NewResourceError ''reading secrets'' (ValueString (obd_Resource config))))) (\<lambda>secrets.
     done_with (Save (config\<lparr>obd_Result := MapValueFrom secrets\<rparr>))))"

record credential =
  cr_CredentialType :: string
  cr_ExpireTimeInMs :: int
  cr_CredentialInfo :: "string gomap"

record credential_item =
  cri_CredentialType :: "string tfval"
  cri_ExpireTimeInMs :: "int tfval"
  cri_CredentialInfo :: tf_map

definition credentialInfoValue :: "string gomap \<Rightarrow> tf_map" where
  "credentialInfoValue info = TKnown (known_map info)"

definition credentialsToItemModels :: "credential list \<Rightarrow> credential_item tfval list tfval" where
  "credentialsToItemModels creds =
     TKnown (map (\<lambda>c. TKnown \<lparr>cri_CredentialType = TKnown (cr_CredentialType c), cri_ExpireTimeInMs = TKnown (cr_ExpireTimeInMs c),
                             cri_CredentialInfo = credentialInfoValue (cr_CredentialInfo c)\<rparr>) creds)"

definition object_type_supported ::
    "'w probe \<Rightarrow> string \<Rightarrow> (gerror \<Rightarrow> diags) \<Rightarrow> (unit, 'w vclient) step" where
  "object_type_supported probe objectType report c =
     (case CheckMetadataObjectTypeSupported probe objectType c of
        (Some err, c') \<Rightarrow> (Inl (report err), c')
      | (None, c') \<Rightarrow> (Inr (), c'))"

definition credentials_ds_Read ::
    "'w probe \<Rightarrow> (string \<Rightarrow> string \<Rightarrow> string \<Rightarrow> 'w \<Rightarrow> (gerror + credential list) \<times> 'w)
       \<Rightarrow> diags + credential_item tfval list tfval object_ds_model
       \<Rightarrow> (credential_item tfval list tfval object_ds_model state_write, 'w vclient) step" where
  "credentials_ds_Read probe GetCredentials configGet =
     andThen (pure_step configGet) (\<lambda>config.
     let m = ValueString (obd_Metalake config); t = ValueString (obd_ResourceType config); f = ValueString (obd_Resource config) in
     andThen (object_type_supported probe t (NewResourceError ''reading credentials'' f)) (\<lambda>_.
     andThen (calling (on_world (GetCredentials m t f)) (NewResourceError ''reading credentials'' f)) (\<lambda>creds.
     done_with (Save (config\<lparr>obd_Result := credentialsToItemModels creds\<rparr>)))))"

subsection \<open>Statistics\<close>

record statistic_item =
  sti_Name :: "string tfval"
  sti_Value :: "string tfval"
  sti_Reserved :: "bool tfval"
  sti_Modifiable :: "bool tfval"
  sti_Audit :: "audit_tfsdk tfval"

definition statisticToItemModel :: "statistic \<Rightarrow> statistic_item" where
  "statisticToItemModel s =
     \<lparr>sti_Name = TKnown (st_Name s), sti_Value = (case Statistic_ValueString s of Some v \<Rightarrow> TKnown v | None \<Rightarrow> TNull),
      sti_Reserved = TKnown (st_Reserved s), sti_Modifiable = TKnown (st_Modifiable s), sti_Audit = AuditToObjectValue (st_Audit s)\<rparr>"

definition statistics_ds_Read ::
    "'w probe \<Rightarrow> (string \<Rightarrow> string \<Rightarrow> string \<Rightarrow> 'w \<Rightarrow> (gerror + statistic list) \<times> 'w)
       \<Rightarrow> diags + statistic_item tfval list tfval object_ds_model
       \<Rightarrow> (statistic_item tfval list tfval object_ds_model state_write, 'w vclient) step" where
  "statistics_ds_Read probe ListStatistics configGet =
     andThen (pure_step configGet) (\<lambda>config.
     let t = ValueString (obd_ResourceType config); f = ValueString (obd_Resource config) in
     andThen (object_type_supported probe t (NewResourceError ''reading statistics'' f)) (\<lambda>_.
     andThen (calling (on_world (ListStatistics (ValueString (obd_Metalake config)) t f)) (NewResourceError ''listing statistics'' f)) (\<lambda>stats.
     done_with (Save (config\<lparr>obd_Result := TKnown (map (\<lambda>s. TKnown (statisticToItemModel s)) stats)\<rparr>)))))"

record partition_statistic_item =
  psi_PartitionName :: "string tfval"
  psi_Statistics :: "statistic_item tfval list tfval"

record partition_statistics_ds_model =
  psd_Metalake :: "string tfval"
  psd_Catalog :: "string tfval"
  psd_Schema :: "string tfval"
  psd_Table :: "string tfval"
  psd_PartitionStatistics :: "partition_statistic_item tfval list tfval"

definition partitionStatisticToItemModel :: "partition_statistics \<Rightarrow> partition_statistic_item" where
  "partitionStatisticToItemModel ps =
     \<lparr>psi_PartitionName = TKnown (ps_PartitionName ps),
      psi_Statistics = (if ps_Statistics ps = [] then TNull
                        else TKnown (map (\<lambda>s. TKnown (statisticToItemModel s)) (ps_Statistics ps)))\<rparr>"

definition partition_statistics_ds_Read ::
    "(string \<Rightarrow> string \<Rightarrow> string \<Rightarrow> 'w \<Rightarrow> (gerror + partition_statistics list) \<times> 'w) \<Rightarrow> diags + partition_statistics_ds_model
       \<Rightarrow> (partition_statistics_ds_model state_write, 'w) step" where
  "partition_statistics_ds_Read ListPartitionStatistics configGet =
     andThen (pure_step configGet) (\<lambda>config.
     andThen (calling (ListPartitionStatistics (ValueString (psd_Metalake config)) ''TABLE''
         (ValueString (psd_Catalog config) @ ''.'' @ ValueString (psd_Schema config) @ ''.'' @ ValueString (psd_Table config)))
       (NewResourceError ''listing partition statistics'' (ValueString (psd_Table config)))) (\<lambda>stats.
     done_with (Save (config\<lparr>psd_PartitionStatistics := TKnown (map (\<lambda>p. TKnown (partitionStatisticToItemModel p)) stats)\<rparr>))))"

end
