(* ===== verification/VersionedDataSources.thy ===== *)
theory VersionedDataSources
  imports DataSources ModelVersionResource
begin

section \<open>Data sources that depend on a version\<close>

text \<open>
  The test of a catalog connection and the discovery of the Iceberg service depend on the version of the server
  (datasources/catalog/datasource_connection.go, iceberg_rest_service/datasource.go): the test of a stored catalog
  refuses when the version cannot be read, the discovery only when it was read and is too old. The model version data
  sources (datasources/model_version) look a version up by its number or an alias, or list all of them.
\<close>

text \<open>An empty text or map of an answer becomes a null value.\<close>

definition ds_optionalString :: "string \<Rightarrow> string tfval" where
  "ds_optionalString apiValue = (if apiValue \<noteq> [] then TKnown apiValue else TNull)"

definition ds_mapValueFrom :: "string gomap \<Rightarrow> tf_map" where
  "ds_mapValueFrom values = (if values \<noteq> [] then TKnown (known_map values) else TNull)"

definition ds_setValueFrom :: "string list \<Rightarrow> tf_strings" where
  "ds_setValueFrom values = (if values \<noteq> [] then TKnown (map TKnown values) else TNull)"

subsection \<open>Testing a catalog connection\<close>

record connection_test_model =
  ctm_Metalake :: "string tfval"
  ctm_Catalog :: "string tfval"
  ctm_Name :: "string tfval"
  ctm_Type :: "string tfval"
  ctm_Provider :: "string tfval"
  ctm_Comment :: "string tfval"
  ctm_Properties :: tf_map
  ctm_Success :: "bool tfval"
  ctm_Message :: "string tfval"

record connection_test =
  cnt_Code :: int
  cnt_Message :: string

definition existingCatalogSupported :: "'w probe \<Rightarrow> (unit, 'w vclient) step" where
  "existingCatalogSupported probe c =
     (case ResolveServerVersion probe c of
        (Inl err, c') \<Rightarrow> (Inl (NewResourceError ''reading the Gravitino server version'' ''catalog connection test'' err), c')
      | (Inr reported, c') \<Rightarrow>
          if ServerVersionAtLeast reported 1 3 1 then (Inr (), c')
          else (Inl [error_diag ''Unsupported Gravitino version''
             (''Testing an existing catalog connection (`catalog`) requires Gravitino >= 1.3.1, but the server reports version ''
              @ quote reported @ ''. Set `name` and `type` instead to test a proposed catalog configuration, which works on Gravitino 1.3.0 as well.'')], c'))"

definition proposed_properties :: "('a fw_scheme) \<Rightarrow> tf_map \<Rightarrow> diags + string gomap" where
  "proposed_properties fw v = (case v of TKnown m \<Rightarrow> fw_map fw m | _ \<Rightarrow> Inr [])"

definition test_outcome :: "connection_test \<Rightarrow> connection_test_model \<Rightarrow> connection_test_model" where
  "test_outcome result config =
     config\<lparr>ctm_Success := TKnown (cnt_Code result = 0), ctm_Message := TKnown (cnt_Message result)\<rparr>"

definition connection_test_ds_Read ::
    "('a fw_scheme) \<Rightarrow> 'w probe \<Rightarrow> (string \<Rightarrow> string \<Rightarrow> 'w \<Rightarrow> (gerror + connection_test) \<times> 'w)
       \<Rightarrow> (string \<Rightarrow> catalog_create_request \<Rightarrow> 'w \<Rightarrow> (gerror + connection_test) \<times> 'w)
       \<Rightarrow> diags + connection_test_model \<Rightarrow> (connection_test_model state_write, 'w vclient) step" where
  "connection_test_ds_Read fw probe TestConnection TestConfig configGet =
     andThen (pure_step configGet) (\<lambda>config.
     let m = ValueString (ctm_Metalake config); catalogName = ValueString (ctm_Catalog config) in
     andThen
       (if catalogName \<noteq> []
        then andThen (existingCatalogSupported probe) (\<lambda>_.
             calling (on_world (TestConnection m catalogName)) (NewResourceError ''testing the connection of catalog'' catalogName))
        else andThen (pure_step (proposed_properties fw (ctm_Properties config))) (\<lambda>properties.
             calling (on_world (TestConfig m
                 \<lparr>ccr_Name = ValueString (ctm_Name config), ccr_Type = ValueString (ctm_Type config),
                  ccr_Provider = ValueString (ctm_Provider config), ccr_Comment = ValueString (ctm_Comment config),
                  ccr_Properties = properties\<rparr>))
               (NewResourceError ''testing the connection of catalog'' (ValueString (ctm_Name config))))) (\<lambda>result.
     done_with (Save (test_outcome result config))))"

definition configured :: "'a tfval \<Rightarrow> bool" where
  "configured v \<longleftrightarrow> \<not> IsNull v \<and> \<not> IsUnknown v"

definition conflict :: "string \<Rightarrow> bool \<Rightarrow> diags" where
  "conflict name present =
     (if present
      then [attribute_error [AtName name] ''Conflicting catalog connection test configuration''
              (''`catalog` tests an existing catalog and cannot be combined with `'' @ name
               @ ''`, which belongs to a proposed configuration. Remove one of them.'')]
      else [])"

definition connection_test_ValidateDataSource :: "diags + connection_test_model \<Rightarrow> diags" where
  "connection_test_ValidateDataSource configGet =
     (case configGet of
        Inl ds \<Rightarrow> ds
      | Inr config \<Rightarrow>
          if IsUnknown (ctm_Catalog config) then []
          else if configured (ctm_Catalog config) \<and> ValueString (ctm_Catalog config) \<noteq> []
          then conflict ''name'' (configured (ctm_Name config)) @ conflict ''type'' (configured (ctm_Type config))
             @ conflict ''catalog_provider'' (configured (ctm_Provider config))
             @ conflict ''comment'' (configured (ctm_Comment config))
             @ conflict ''properties'' (configured (ctm_Properties config))
          else if IsUnknown (ctm_Name config) \<or> IsUnknown (ctm_Type config) then []
          else if \<not> configured (ctm_Name config) \<or> \<not> configured (ctm_Type config)
          then [attribute_error [AtName ''name''] ''Missing catalog connection test configuration''
                  ''Set `catalog` to test an existing catalog connection, or set both `name` and `type` to test a proposed catalog configuration.'']
          else [])"

subsection \<open>Discovering the Iceberg REST service\<close>

record iceberg_ds_model =
  ibm_Metalake :: "string tfval"
  ibm_URI :: "string tfval"

definition versionRequirement :: string where
  "versionRequirement = ''requires Gravitino >= 1.3.1''"

text \<open>A version that cannot be asked for is passed over: the request that follows fails in the same way.\<close>

definition discovery_supported :: "'w probe \<Rightarrow> (unit, 'w vclient) step" where
  "discovery_supported probe c =
     (case ResolveServerVersion probe c of
        (Inl err, c') \<Rightarrow> (Inr (), c')
      | (Inr v, c') \<Rightarrow>
          if \<not> ServerVersionAtLeast v 1 3 1
          then (Inl [error_diag ''Iceberg REST service discovery is not supported by this server''
             (''The data source '' @ versionRequirement @ '', but the connected server reports version '' @ v @ ''.'')], c')
          else (Inr (), c'))"

definition iceberg_ds_Read ::
    "'w probe \<Rightarrow> (string \<Rightarrow> 'w \<Rightarrow> (gerror + string option) \<times> 'w) \<Rightarrow> diags + iceberg_ds_model
       \<Rightarrow> (iceberg_ds_model state_write, 'w vclient) step" where
  "iceberg_ds_Read probe GetURI configGet =
     andThen (pure_step configGet) (\<lambda>config.
     let m = (if \<not> IsNull (ibm_Metalake config) then ValueString (ibm_Metalake config) else []) in
     andThen (discovery_supported probe) (\<lambda>_.
     andThen (calling (on_world (GetURI m))
       (missing_or (error_diag ''Iceberg REST service discovery is not supported by this server''
            (''GET /api/system/iceberg-rest answered 404; the data source '' @ versionRequirement @ ''.''))
          (NewResourceError ''discovering the Iceberg REST service endpoint'' ''/system/iceberg-rest''))) (\<lambda>uri.
     done_with (Save (config\<lparr>ibm_URI := (case uri of None \<Rightarrow> TNull | Some u \<Rightarrow> TKnown u)\<rparr>)))))"

subsection \<open>Model versions\<close>

text \<open>The computed attributes are those of an entry of the listing; a lookup also has its location and key.\<close>

record version_item =
  mvi_Version :: "int tfval"
  mvi_URI :: "string tfval"
  mvi_URIs :: tf_map
  mvi_Aliases :: tf_strings
  mvi_Comment :: "string tfval"
  mvi_Properties :: tf_map
  mvi_Audit :: "audit_tfsdk tfval"

record model_version_ds_model = version_item +
  mvd_Metalake :: "string tfval"
  mvd_Catalog :: "string tfval"
  mvd_Schema :: "string tfval"
  mvd_Model :: "string tfval"
  mvd_Alias :: "string tfval"

record model_versions_ds_model =
  mvs_Metalake :: "string tfval"
  mvs_Catalog :: "string tfval"
  mvs_Schema :: "string tfval"
  mvs_Model :: "string tfval"
  mvs_Versions :: "version_item tfval list tfval"

definition version_absorbed :: "model_version \<Rightarrow> model_version_ds_model \<Rightarrow> model_version_ds_model" where
  "version_absorbed v config =
     config\<lparr>mvi_Version := TKnown (mv_Version v), mvi_URI := ds_optionalString (mv_URI v),
       mvi_Comment := ds_optionalString (mv_Comment v), mvi_URIs := ds_mapValueFrom (mv_URIs v),
       mvi_Properties := ds_mapValueFrom (mv_Properties v), mvi_Aliases := ds_setValueFrom (mv_Aliases v),
       mvi_Audit := AuditToObjectValue (mv_Audit v)\<rparr>"

definition version_ds_location :: "model_version_ds_model \<Rightarrow> string list" where
  "version_ds_location config =
     [ValueString (mvd_Metalake config), ValueString (mvd_Catalog config), ValueString (mvd_Schema config), ValueString (mvd_Model config)]"

definition model_version_ds_Read ::
    "(string list \<Rightarrow> string \<Rightarrow> 'w \<Rightarrow> (gerror + model_version) \<times> 'w)
       \<Rightarrow> (string list \<Rightarrow> int \<Rightarrow> 'w \<Rightarrow> (gerror + model_version) \<times> 'w)
       \<Rightarrow> diags + model_version_ds_model \<Rightarrow> (model_version_ds_model state_write, 'w) step" where
  "model_version_ds_Read byAlias byNumber configGet =
     andThen (pure_step configGet) (\<lambda>config.
     let hasVersion = configured (mvi_Version config); hasAlias = configured (mvd_Alias config);
         loc = version_ds_location config; model = ValueString (mvd_Model config) in
     if hasVersion = hasAlias
     then pure_step (Inl [error_diag ''Invalid model version lookup'' ''Exactly one of version and alias must be set.''])
     else andThen
       (if hasAlias
        then calling (byAlias loc (ValueString (mvd_Alias config)))
               (NewResourceError ''reading model version'' (model @ '' alias '' @ quote (ValueString (mvd_Alias config))))
        else calling (byNumber loc (to_int32 (ValueInt64 (mvi_Version config))))
               (NewResourceError ''reading model version'' (model @ '' version '' @ itoa (ValueInt64 (mvi_Version config))))) (\<lambda>v.
     done_with (Save (version_absorbed v config))))"

text \<open>A server that ignores \<open>details=true\<close> answers with numbers; the versions are then read one by one.\<close>

fun fetch_versions ::
    "string \<Rightarrow> (int \<Rightarrow> 'w \<Rightarrow> (gerror + model_version) \<times> 'w) \<Rightarrow> int list \<Rightarrow> (model_version list, 'w) step" where
  "fetch_versions model get [] = done_with []"
| "fetch_versions model get (n # ns) =
     andThen (calling (get n) (NewResourceError ''reading model version'' (model @ '' version '' @ itoa n))) (\<lambda>v.
     andThen (fetch_versions model get ns) (\<lambda>vs. done_with (v # vs)))"

definition modelVersionListItemToObject :: "model_version \<Rightarrow> version_item" where
  "modelVersionListItemToObject v =
     \<lparr>mvi_Version = TKnown (mv_Version v), mvi_URI = ds_optionalString (mv_URI v), mvi_URIs = ds_mapValueFrom (mv_URIs v),
      mvi_Aliases = ds_setValueFrom (mv_Aliases v), mvi_Comment = ds_optionalString (mv_Comment v),
      mvi_Properties = ds_mapValueFrom (mv_Properties v), mvi_Audit = AuditToObjectValue (mv_Audit v)\<rparr>"

definition model_versions_ds_Read ::
    "(string list \<Rightarrow> 'w \<Rightarrow> (gerror + model_version list \<times> int list) \<times> 'w)
       \<Rightarrow> (string list \<Rightarrow> int \<Rightarrow> 'w \<Rightarrow> (gerror + model_version) \<times> 'w)
       \<Rightarrow> diags + model_versions_ds_model \<Rightarrow> (model_versions_ds_model state_write, 'w) step" where
  "model_versions_ds_Read listing byNumber configGet =
     andThen (pure_step configGet) (\<lambda>config.
     let model = ValueString (mvs_Model config);
         loc = [ValueString (mvs_Metalake config), ValueString (mvs_Catalog config), ValueString (mvs_Schema config), model] in
     andThen (calling (listing loc) (NewResourceError ''listing model versions'' model)) (\<lambda>(infos, numbers).
     andThen (if infos = [] \<and> numbers \<noteq> [] then fetch_versions model (byNumber loc) numbers else done_with infos) (\<lambda>versions.
     done_with (Save (config\<lparr>mvs_Versions := TKnown (map (\<lambda>v. TKnown (modelVersionListItemToObject v)) versions)\<rparr>)))))"

subsection \<open>Lemmas\<close>

lemma fetch_versions_all:
  assumes "\<And>v. v \<in> set vs \<Longrightarrow> get (mv_Version v) w = (Inr v, w)"
  shows "fetch_versions model get (map mv_Version vs) w = (Inr vs, w)"
  using assms by (induction vs) (auto simp: step_defs)

lemma fetch_versions_stops:
  assumes "\<And>v. v \<in> set vs \<Longrightarrow> get (mv_Version v) w = (Inr v, w)" "get n w = (Inl err, w)"
  shows "fetch_versions model get (map mv_Version vs @ n # ns) w
    = (Inl (NewResourceError ''reading model version'' (model @ '' version '' @ itoa n) err), w)"
  using assms by (induction vs) (auto simp: step_defs)

text \<open>A number above 32 bits looks up the version with its low 32 bits.\<close>

lemma lookup_wraps:
  assumes "0 \<le> v" "v < 2 ^ 31" "mvi_Version config = TKnown (v + 2 ^ 32 * k)" "mvd_Alias config = TNull"
    "byNumber (version_ds_location config) v w = (Inr answer, w')"
  shows "model_version_ds_Read byAlias byNumber (Inr config) w = (Inr (Save (version_absorbed answer config)), w')"
proof -
  have "to_int32 (v + 2 ^ 32 * k) = v" using assms(1,2) by (rule import_wraps)
  then show ?thesis using assms(3-5) by (simp add: model_version_ds_Read_def step_defs configured_def)
qed

text \<open>A configuration without unknown values selects its variant.\<close>

definition test_fully_known :: "connection_test_model \<Rightarrow> bool" where
  "test_fully_known config \<longleftrightarrow>
     \<not> IsUnknown (ctm_Catalog config) \<and> \<not> IsUnknown (ctm_Name config) \<and> \<not> IsUnknown (ctm_Type config) \<and>
     \<not> IsUnknown (ctm_Provider config) \<and> \<not> IsUnknown (ctm_Comment config) \<and> \<not> IsUnknown (ctm_Properties config)"

lemma validated_iff:
  assumes "test_fully_known config"
  shows "connection_test_ValidateDataSource (Inr config) = [] \<longleftrightarrow>
    (if ValueString (ctm_Catalog config) \<noteq> []
     then ctm_Name config = TNull \<and> ctm_Type config = TNull \<and> ctm_Provider config = TNull \<and> ctm_Comment config = TNull
       \<and> ctm_Properties config = TNull
     else \<not> IsNull (ctm_Name config) \<and> \<not> IsNull (ctm_Type config))"
proof -
  have null: "configured v \<longleftrightarrow> v \<noteq> TNull" if "\<not> IsUnknown v" for v :: "'v tfval"
    using that by (cases v) (auto simp: configured_def)
  have set: "configured (ctm_Catalog config)" if "ValueString (ctm_Catalog config) \<noteq> []"
    using that by (cases "ctm_Catalog config") (auto simp: configured_def)
  have isnull: "IsNull v \<longleftrightarrow> v = TNull" for v :: "'v tfval" by (cases v) auto
  have c: "conflict n b = [] \<longleftrightarrow> \<not> b" for n b by (simp add: conflict_def)
  show ?thesis
    using assms set
    by (simp add: connection_test_ValidateDataSource_def test_fully_known_def null c isnull)
qed

text \<open>What the two version checks do with the outcome of the version query.\<close>

definition reads_at_least_131 :: "'w probe \<Rightarrow> 'w vclient \<Rightarrow> bool" where
  "reads_at_least_131 probe c \<longleftrightarrow> (\<exists>v. fst (ResolveServerVersion probe c) = Inr v \<and> ServerVersionAtLeast v 1 3 1)"

lemma closed_check:
  "fst (existingCatalogSupported probe c) = Inr () \<longleftrightarrow> reads_at_least_131 probe c"
  "snd (existingCatalogSupported probe c) = snd (ResolveServerVersion probe c)"
  by (auto simp: existingCatalogSupported_def reads_at_least_131_def split: prod.splits sum.splits)

lemma open_check:
  "fst (discovery_supported probe c) = Inr () \<longleftrightarrow>
     reads_at_least_131 probe c \<or> (\<exists>err. fst (ResolveServerVersion probe c) = Inl err)"
  "snd (discovery_supported probe c) = snd (ResolveServerVersion probe c)"
  by (auto simp: discovery_supported_def reads_at_least_131_def split: prod.splits sum.splits)

lemma andThen_failed: "fst (m w) \<noteq> Inr () \<Longrightarrow> andThen m f w = (Inl (projl (fst (m w))), snd (m w))"
  by (cases "m w"; cases "fst (m w)") (auto simp: andThen_def)

subsection \<open>Properties\<close>

text \<open>C39: A connection test that was validated with known values runs exactly one variant. With a catalog it
  never sends a proposed configuration and sends nothing at all unless the version of the server was read and is at
  least 1.3.1; then it tests the stored catalog. Without one it sends the configured name, type, provider and comment, without asking for a version
  and whatever the other endpoint does; \<open>success\<close> then is whether the server reported code 0.\<close>

theorem connection_test_runs_one_variant:
  assumes "test_fully_known config" "connection_test_ValidateDataSource (Inr config) = []"
  shows "if ValueString (ctm_Catalog config) \<noteq> []
    then (\<forall>tp'. connection_test_ds_Read fw probe tc tp (Inr config) c = connection_test_ds_Read fw probe tc tp' (Inr config) c) \<and>
      (\<not> reads_at_least_131 probe c \<longrightarrow>
         (\<exists>ds. connection_test_ds_Read fw probe tc tp (Inr config) c = (Inl ds, snd (ResolveServerVersion probe c)))) \<and>
      (\<forall>result w'. reads_at_least_131 probe c \<longrightarrow>
         tc (ValueString (ctm_Metalake config)) (ValueString (ctm_Catalog config)) (vc_world (snd (ResolveServerVersion probe c))) =
           (Inr result, w') \<longrightarrow>
         connection_test_ds_Read fw probe tc tp (Inr config) c =
           (Inr (Save (config\<lparr>ctm_Success := TKnown (cnt_Code result = 0), ctm_Message := TKnown (cnt_Message result)\<rparr>)),
            (snd (ResolveServerVersion probe c))\<lparr>vc_world := w'\<rparr>))
    else (\<exists>n t. ctm_Name config = TKnown n \<and> ctm_Type config = TKnown t \<and>
      (\<forall>props result w'. proposed_properties fw (ctm_Properties config) = Inr props \<longrightarrow>
         tp (ValueString (ctm_Metalake config))
           \<lparr>ccr_Name = n, ccr_Type = t, ccr_Provider = ValueString (ctm_Provider config),
            ccr_Comment = ValueString (ctm_Comment config), ccr_Properties = props\<rparr> (vc_world c) = (Inr result, w') \<longrightarrow>
         connection_test_ds_Read fw probe tc tp (Inr config) c =
           (Inr (Save (config\<lparr>ctm_Success := TKnown (cnt_Code result = 0), ctm_Message := TKnown (cnt_Message result)\<rparr>)),
            c\<lparr>vc_world := w'\<rparr>)))"
proof (cases "ValueString (ctm_Catalog config) = []")
  case False
  have "\<exists>ds. connection_test_ds_Read fw probe tc tp (Inr config) c = (Inl ds, snd (ResolveServerVersion probe c))"
    if "\<not> reads_at_least_131 probe c"
  proof -
    have "fst (existingCatalogSupported probe c) \<noteq> Inr ()" using that closed_check(1) by blast
    then obtain ds where "existingCatalogSupported probe c = (Inl ds, snd (ResolveServerVersion probe c))"
      using closed_check(2) [of probe c]
      by (cases "existingCatalogSupported probe c"; cases "fst (existingCatalogSupported probe c)") auto
    then show ?thesis using False by (simp add: connection_test_ds_Read_def step_defs Let_def)
  qed
  moreover have "existingCatalogSupported probe c = (Inr (), snd (ResolveServerVersion probe c))" if "reads_at_least_131 probe c"
    using that closed_check [of probe c] by (metis prod.collapse)
  ultimately show ?thesis
    using False by (auto simp: connection_test_ds_Read_def andThen_def pure_step_def calling_def done_with_def on_world_def test_outcome_def Let_def)
next
  case True
  then have "\<not> IsNull (ctm_Name config)" "\<not> IsNull (ctm_Type config)"
    using assms validated_iff by auto
  then obtain n t where "ctm_Name config = TKnown n" "ctm_Type config = TKnown t"
    using assms(1) unfolding test_fully_known_def by (cases "ctm_Name config"; cases "ctm_Type config") auto
  then show ?thesis
    using True by (auto simp: connection_test_ds_Read_def step_defs on_world_def test_outcome_def Let_def)
qed

definition stored_test_config :: connection_test_model where
  "stored_test_config =
     \<lparr>ctm_Metalake = TKnown ''m'', ctm_Catalog = TKnown ''c'', ctm_Name = TNull, ctm_Type = TNull, ctm_Provider = TNull,
      ctm_Comment = TNull, ctm_Properties = TNull, ctm_Success = TNull, ctm_Message = TNull\<rparr>"

definition unreadable_client :: "nat vclient" where
  "unreadable_client = \<lparr>vc_version = [], vc_world = 0\<rparr>"

theorem connection_test_runs_one_variant_witness:
  "\<exists>ds. connection_test_ds_Read strict_fw (\<lambda>w. (Inr ''1.3.0'', Suc w)) (\<lambda>_ _ w. (Inr \<lparr>cnt_Code = 0, cnt_Message = []\<rparr>, w + 10))
      (\<lambda>_ _ w. (Inr \<lparr>cnt_Code = 0, cnt_Message = []\<rparr>, w + 100)) (Inr stored_test_config) unreadable_client
    = (Inl ds, \<lparr>vc_version = ''1.3.0'', vc_world = 1\<rparr>)"
proof -
  let ?probe = "\<lambda>w. (Inr ''1.3.0'', Suc w)"
  have "test_fully_known stored_test_config" "connection_test_ValidateDataSource (Inr stored_test_config) = []" by code_simp+
  note one = connection_test_runs_one_variant [OF this]
  have r: "ResolveServerVersion ?probe unreadable_client = (Inr ''1.3.0'', \<lparr>vc_version = ''1.3.0'', vc_world = 1\<rparr>)" by code_simp
  have "\<not> ServerVersionAtLeast ''1.3.0'' 1 3 1" by code_simp
  then have "\<not> reads_at_least_131 ?probe unreadable_client" by (simp add: reads_at_least_131_def r)
  then show ?thesis using one [of strict_fw ?probe _ _ unreadable_client] by (simp add: stored_test_config_def r)
qed

text \<open>The discovery of the Iceberg service asks the endpoint exactly when the version is at least 1.3.1 or
  could not be asked for; a version that was read and is older or not a version stops it before the
  request, and so a failed version query is never reported as a missing feature.\<close>

theorem discovery_asks_iff:
  "(if reads_at_least_131 probe c \<or> (\<exists>err. fst (ResolveServerVersion probe c) = Inl err)
    then iceberg_ds_Read probe get_uri (Inr config) c =
      (case get_uri (ValueString (ibm_Metalake config)) (vc_world (snd (ResolveServerVersion probe c))) of
         (Inr uri, w) \<Rightarrow>
           (Inr (Save (config\<lparr>ibm_URI := (case uri of None \<Rightarrow> TNull | Some u \<Rightarrow> TKnown u)\<rparr>)),
            (snd (ResolveServerVersion probe c))\<lparr>vc_world := w\<rparr>)
       | (Inl err, w) \<Rightarrow>
           (Inl (missing_or (error_diag ''Iceberg REST service discovery is not supported by this server''
                   (''GET /api/system/iceberg-rest answered 404; the data source '' @ versionRequirement @ ''.''))
                 (NewResourceError ''discovering the Iceberg REST service endpoint'' ''/system/iceberg-rest'') err),
            (snd (ResolveServerVersion probe c))\<lparr>vc_world := w\<rparr>))
    else \<exists>ds. iceberg_ds_Read probe get_uri (Inr config) c = (Inl ds, snd (ResolveServerVersion probe c)))"
proof -
  have m: "(if \<not> IsNull v then ValueString v else []) = ValueString v" for v :: "string tfval" by (cases v) auto
  have run: "iceberg_ds_Read probe get_uri (Inr config) c =
      andThen (discovery_supported probe) (\<lambda>_. andThen (calling (on_world (get_uri (ValueString (ibm_Metalake config))))
         (missing_or (error_diag ''Iceberg REST service discovery is not supported by this server''
            (''GET /api/system/iceberg-rest answered 404; the data source '' @ versionRequirement @ ''.''))
          (NewResourceError ''discovering the Iceberg REST service endpoint'' ''/system/iceberg-rest''))) (\<lambda>uri.
       done_with (Save (config\<lparr>ibm_URI := (case uri of None \<Rightarrow> TNull | Some u \<Rightarrow> TKnown u)\<rparr>)))) c"
    by (simp add: iceberg_ds_Read_def andThen_pure m Let_def)
  show ?thesis
  proof (cases "fst (discovery_supported probe c) = Inr ()")
    case True
    then have "discovery_supported probe c = (Inr (), snd (ResolveServerVersion probe c))"
      using open_check(2) by (metis prod.collapse)
    then show ?thesis
      using True unfolding open_check(1) run by (auto simp: step_defs on_world_def split: prod.splits sum.splits)
  next
    case False
    then show ?thesis
      using open_check(2) [of probe c] unfolding open_check(1) run by (simp add: andThen_failed open_check)
  qed
qed

text \<open>The listing of the versions of a model does not depend on whether the server honours
  \<open>details=true\<close>: from the numbers alone it reports the same entries, in the same order, as from the
  versions. The first number that cannot be read stops it.\<close>

theorem version_listing_agrees:
  assumes "vs \<noteq> []" "\<And>loc. detailed loc w = (Inr (vs, ns), w)" "\<And>loc. plain loc w = (Inr ([], map mv_Version vs), w)"
    and "\<And>loc v. v \<in> set vs \<Longrightarrow> get loc (mv_Version v) w = (Inr v, w)"
  shows "model_versions_ds_Read plain get (Inr config) w = model_versions_ds_Read detailed get (Inr config) w \<and>
    fst (model_versions_ds_Read plain get (Inr config) w) =
      Inr (Save (config\<lparr>mvs_Versions := TKnown (map (\<lambda>v. TKnown (modelVersionListItemToObject v)) vs)\<rparr>)) \<and>
    (\<forall>n err partial. (\<forall>loc. get loc n w = (Inl err, w) \<and> partial loc w = (Inr ([], map mv_Version vs @ [n]), w)) \<longrightarrow>
       fst (model_versions_ds_Read partial get (Inr config) w) =
         Inl (NewResourceError ''reading model version'' (ValueString (mvs_Model config) @ '' version '' @ itoa n) err))"
proof -
  have all: "fetch_versions model (get loc) (map mv_Version vs) w = (Inr vs, w)" for model loc
    using assms(4) by (intro fetch_versions_all) simp
  have stops: "fetch_versions model (get loc) (map mv_Version vs @ [n]) w
      = (Inl (NewResourceError ''reading model version'' (model @ '' version '' @ itoa n) err), w)"
    if "get loc n w = (Inl err, w)" for model loc n err
    using assms(4) that by (intro fetch_versions_stops) simp_all
  have partial: "fst (model_versions_ds_Read partial get (Inr config) w) =
      Inl (NewResourceError ''reading model version'' (ValueString (mvs_Model config) @ '' version '' @ itoa n) err)"
    if "\<And>loc. get loc n w = (Inl err, w)" "\<And>loc. partial loc w = (Inr ([], map mv_Version vs @ [n]), w)" for n err partial
    using that(2) stops [OF that(1)] by (simp add: model_versions_ds_Read_def step_defs Let_def)
  show ?thesis
    using assms(1-3) partial by (auto simp: model_versions_ds_Read_def step_defs all Let_def)
qed

definition two_versions :: "model_version list" where
  "two_versions =
     map (\<lambda>n. \<lparr>mv_URI = ''s3://b'', mv_URIs = [], mv_Version = n, mv_Aliases = [], mv_Comment = [], mv_Properties = [], mv_Audit = None\<rparr>) [0, 1]"

definition two_versions_config :: model_versions_ds_model where
  "two_versions_config =
     \<lparr>mvs_Metalake = TKnown ''m'', mvs_Catalog = TKnown ''c'', mvs_Schema = TKnown ''s'', mvs_Model = TKnown ''x'', mvs_Versions = TNull\<rparr>"

definition two_versions_get :: "string list \<Rightarrow> int \<Rightarrow> unit \<Rightarrow> (gerror + model_version) \<times> unit" where
  "two_versions_get loc n w = (if n \<in> {0, 1} then Inr (two_versions ! nat n) else Inl gone, w)"

theorem version_listing_agrees_witness:
  "fst (model_versions_ds_Read (\<lambda>_ w. (Inr ([], map mv_Version two_versions), w)) two_versions_get (Inr two_versions_config) ())
   = Inr (Save (two_versions_config\<lparr>mvs_Versions := TKnown (map (\<lambda>v. TKnown (modelVersionListItemToObject v)) two_versions)\<rparr>))"
proof -
  have "two_versions \<noteq> []" by (simp add: two_versions_def)
  moreover have "two_versions_get loc (mv_Version v) () = (Inr v, ())" if "v \<in> set two_versions" for loc v
    using that by (auto simp: two_versions_def two_versions_get_def)
  ultimately show ?thesis
    using version_listing_agrees [of two_versions "\<lambda>_ w. (Inr (two_versions, []), w)" "()" "[]"
        "\<lambda>_ w. (Inr ([], map mv_Version two_versions), w)" two_versions_get two_versions_config] by blast
qed

end
