(* ===== verification/EntityDataSources.thy ===== *)
theory EntityDataSources
  imports VersionedDataSources EntityUpdates FilesetResource PolicyResource JobResource FunctionResource PartitionResource ViewResource
begin

section \<open>Data sources of one object and of all objects\<close>

text \<open>
  Most kinds of objects have two data sources: one looks an object up by its name, the other lists all of them
  (datasources/tag, topic, schema, catalog, metalake, fileset, model, policy, job, job_template, function, view,
  partition). The attributes of an entry of the listing are a record, and the record of a lookup
  extends it by the containers. The code converts the answer twice, once in each package file; the locale
  \<open>listing_pair\<close> is the contract between the two: a lookup of a listed entry reports the listed attributes.
  A decoded map of properties can be missing, which only some of the conversions tell from an empty one.
\<close>

subsection \<open>The contract\<close>

text \<open>\<open>keyed\<close> names the entry in a configuration, \<open>part\<close> forgets the containers.\<close>

locale listing_pair =
  fixes entry :: "'e \<Rightarrow> 'i" and absorb :: "'e \<Rightarrow> 'm \<Rightarrow> 'm" and keyed :: "'i \<Rightarrow> 'm \<Rightarrow> 'm" and part :: "'m \<Rightarrow> 'i"
  assumes looked_up: "part (absorb e (keyed (entry e) m)) = entry e"
begin

lemma listing_looked_up: "map (\<lambda>e. part (absorb e (keyed (entry e) m))) es = map entry es"
  by (simp add: looked_up)

lemma lookups_agree:
  assumes "entry e = entry e'"
  shows "part (absorb e (keyed (entry e) m)) = part (absorb e' (keyed (entry e') m'))"
  by (metis assms looked_up)

end

subsection \<open>Tags\<close>

record tag_item =
  ti_Name :: "string tfval"
  ti_Comment :: "string tfval"
  ti_Properties :: tf_map
  ti_Audit :: "audit_tfsdk tfval"
  ti_Inherited :: "bool tfval"

record tag_ds_model = tag_item +
  tdm_Metalake :: "string tfval"

definition setDataSourceStateFromTag :: "tag \<Rightarrow> tag_ds_model \<Rightarrow> tag_ds_model" where
  "setDataSourceStateFromTag t model =
     model\<lparr>ti_Comment := (if tg_Comment t \<noteq> [] then TKnown (tg_Comment t) else TNull),
       ti_Properties := (if tg_Properties t \<noteq> [] then TKnown (known_map (tg_Properties t)) else TNull),
       ti_Audit := AuditToObjectValue (tg_Audit t),
       ti_Inherited := (case tg_Inherited t of Some b \<Rightarrow> TKnown b | None \<Rightarrow> TNull)\<rparr>"

definition tag_ds_Read ::
    "(string \<Rightarrow> string \<Rightarrow> 'w \<Rightarrow> (gerror + tag) \<times> 'w) \<Rightarrow> diags + tag_ds_model \<Rightarrow> (tag_ds_model state_write, 'w) step" where
  "tag_ds_Read GetTag' configGet =
     andThen (pure_step configGet) (\<lambda>config.
     let m = ValueString (tdm_Metalake config); n = ValueString (ti_Name config) in
     andThen (calling (GetTag' m n)
       (missing_or (error_diag ''Tag not found'' (''No Gravitino tag '' @ quote n @ '' exists in metalake '' @ quote m @ ''.''))
          (NewResourceError ''reading tag'' n))) (\<lambda>t.
     done_with (Save (setDataSourceStateFromTag t config))))"

definition commentToValue :: "string \<Rightarrow> string tfval" where
  "commentToValue comment = (if comment = [] then TNull else TKnown comment)"

definition tagToItemModel :: "tag \<Rightarrow> tag_item" where
  "tagToItemModel t =
     \<lparr>ti_Name = TKnown (tg_Name t), ti_Comment = commentToValue (tg_Comment t),
      ti_Properties = (if tg_Properties t \<noteq> [] then TKnown (known_map (tg_Properties t)) else TNull),
      ti_Audit = AuditToObjectValue (tg_Audit t),
      ti_Inherited = (case tg_Inherited t of Some b \<Rightarrow> TKnown b | None \<Rightarrow> TNull)\<rparr>"

definition tags_ds_Read ::
    "(string \<Rightarrow> 'w \<Rightarrow> (gerror + tag list) \<times> 'w) \<Rightarrow> diags + tag_item metalake_listing \<Rightarrow> (tag_item metalake_listing state_write, 'w) step" where
  "tags_ds_Read listing configGet =
     andThen (pure_step configGet) (\<lambda>config.
     let m = ValueString (mli_Metalake config) in
     andThen (calling (listing m)
       (missing_or (error_diag ''Metalake not found'' (''Cannot list tags of metalake '' @ quote m @ '': it does not exist.''))
          (NewResourceError ''listing tags'' m))) (\<lambda>tags.
     done_with (Save (config\<lparr>mli_Items := TKnown (map (\<lambda>t. TKnown (tagToItemModel t)) tags)\<rparr>))))"

interpretation tag_pair: listing_pair tagToItemModel setDataSourceStateFromTag "\<lambda>i. ti_Name_update (\<lambda>_. ti_Name i)" tag_item.truncate
  by unfold_locales (simp add: tag_item.truncate_def tagToItemModel_def setDataSourceStateFromTag_def commentToValue_def)

text \<open>The names of the tags, or policies, attached to an object, and the objects a tag or policy is attached to.\<close>

record attached_ds_model =
  atd_Metalake :: "string tfval"
  atd_ObjectType :: "string tfval"
  atd_ObjectFullName :: "string tfval"
  atd_Names :: tf_strings

definition object_tags_ds_Read ::
    "'w probe \<Rightarrow> (string \<Rightarrow> string \<Rightarrow> string \<Rightarrow> 'w \<Rightarrow> (gerror + tag list) \<times> 'w) \<Rightarrow> diags + attached_ds_model
       \<Rightarrow> (attached_ds_model state_write, 'w vclient) step" where
  "object_tags_ds_Read probe listing configGet =
     andThen (pure_step configGet) (\<lambda>config.
     let m = ValueString (atd_Metalake config); t = ValueString (atd_ObjectType config); f = ValueString (atd_ObjectFullName config) in
     andThen (object_type_supported probe t
       (\<lambda>err. [attribute_error [AtName ''object_type''] ''Unsupported object_type value'' (err_text err)])) (\<lambda>_.
     andThen (calling (on_world (listing m t f))
       (missing_or (error_diag ''Metadata object not found''
            (''Cannot list the tags of '' @ t @ '' '' @ quote f @ '' in metalake '' @ quote m @ '': the object does not exist.''))
          (NewResourceError ''listing tags of'' f))) (\<lambda>tags.
     done_with (Save (config\<lparr>atd_Names := StringsToList (map tg_Name tags)\<rparr>)))))"

record metadata_object =
  mto_Type :: string
  mto_FullName :: string

record object_item =
  oi_Type :: "string tfval"
  oi_FullName :: "string tfval"

record carriers_ds_model =
  cds_Metalake :: "string tfval"
  cds_Name :: "string tfval"
  cds_Objects :: "object_item tfval list tfval"

definition carriers :: "metadata_object list \<Rightarrow> object_item tfval list tfval" where
  "carriers objects =
     TKnown (map (\<lambda>x. TKnown \<lparr>oi_Type = TKnown (CanonicalObjectType (mto_Type x)), oi_FullName = TKnown (mto_FullName x)\<rparr>) objects)"

definition tag_objects_ds_Read ::
    "(string \<Rightarrow> string \<Rightarrow> 'w \<Rightarrow> (gerror + metadata_object list) \<times> 'w) \<Rightarrow> diags + carriers_ds_model
       \<Rightarrow> (carriers_ds_model state_write, 'w) step" where
  "tag_objects_ds_Read listing configGet =
     andThen (pure_step configGet) (\<lambda>config.
     let m = ValueString (cds_Metalake config); n = ValueString (cds_Name config) in
     andThen (calling (listing m n)
       (missing_or (error_diag ''Tag not found''
            (''No tag '' @ quote n @ '' exists in metalake '' @ quote m @ ''; cannot list the objects it is attached to.''))
          (NewResourceError ''listing objects of'' n))) (\<lambda>objects.
     done_with (Save (config\<lparr>cds_Objects := carriers objects\<rparr>))))"

subsection \<open>Topics and schemas\<close>

record topic_item =
  tpi_Name :: "string tfval"
  tpi_Comment :: "string tfval"
  tpi_Properties :: tf_map
  tpi_Audit :: "audit_tfsdk tfval"

record topic_ds_model = topic_item +
  tpd_Metalake :: "string tfval"
  tpd_Catalog :: "string tfval"
  tpd_Schema :: "string tfval"

definition topic_absorbed :: "topic \<Rightarrow> topic_ds_model \<Rightarrow> topic_ds_model" where
  "topic_absorbed t config =
     config\<lparr>tpi_Comment := (if to_Comment t \<noteq> [] then TKnown (to_Comment t) else TNull),
       tpi_Properties := (if to_Properties t \<noteq> [] then TKnown (known_map (to_Properties t)) else TNull),
       tpi_Audit := AuditToObjectValue (to_Audit t)\<rparr>"

definition topic_ds_Read ::
    "(string list \<Rightarrow> string \<Rightarrow> 'w \<Rightarrow> (gerror + topic) \<times> 'w) \<Rightarrow> diags + topic_ds_model \<Rightarrow> (topic_ds_model state_write, 'w) step" where
  "topic_ds_Read get configGet =
     andThen (pure_step configGet) (\<lambda>config.
     let m = ValueString (tpd_Metalake config); c = ValueString (tpd_Catalog config); s = ValueString (tpd_Schema config);
         n = ValueString (tpi_Name config) in
     andThen (calling (get [m, c, s] n)
       (missing_or (error_diag ''Topic not found'' (''No Gravitino topic '' @ quote n @ '' exists in '' @ m @ ''.'' @ c @ ''.'' @ s @ ''.''))
          (NewResourceError ''reading topic'' n))) (\<lambda>t.
     done_with (Save (topic_absorbed t config))))"

definition dslTopicListItemToObject :: "topic \<Rightarrow> topic_item" where
  "dslTopicListItemToObject t =
     \<lparr>tpi_Name = TKnown (to_Name t), tpi_Comment = commentToValue (to_Comment t),
      tpi_Properties = (if to_Properties t \<noteq> [] then TKnown (known_map (to_Properties t)) else TNull),
      tpi_Audit = AuditToObjectValue (to_Audit t)\<rparr>"

definition topics_ds_Read ::
    "(string list \<Rightarrow> 'w \<Rightarrow> (gerror + topic list) \<times> 'w) \<Rightarrow> diags + topic_item schema_listing \<Rightarrow> (topic_item schema_listing state_write, 'w) step" where
  "topics_ds_Read listing configGet =
     andThen (pure_step configGet) (\<lambda>config.
     let m = ValueString (sli_Metalake config); c = ValueString (sli_Catalog config); s = ValueString (sli_Schema config) in
     andThen (calling (listing [m, c, s])
       (missing_or (error_diag ''Metalake, catalog or schema not found''
            (''Cannot list topics of '' @ m @ ''.'' @ c @ ''.'' @ s @ '': it does not exist.''))
          (NewResourceError ''listing topics'' s))) (\<lambda>topics.
     done_with (Save (config\<lparr>sli_Items := TKnown (map (\<lambda>t. TKnown (dslTopicListItemToObject t)) topics)\<rparr>))))"

interpretation topic_pair: listing_pair dslTopicListItemToObject topic_absorbed "\<lambda>i. tpi_Name_update (\<lambda>_. tpi_Name i)" topic_item.truncate
  by unfold_locales (simp add: topic_item.truncate_def dslTopicListItemToObject_def topic_absorbed_def commentToValue_def)

record schema_item =
  sci_Name :: "string tfval"
  sci_Comment :: "string tfval"
  sci_Properties :: tf_map
  sci_Audit :: "audit_tfsdk tfval"

record schema_ds_model = schema_item +
  scd_Metalake :: "string tfval"
  scd_Catalog :: "string tfval"

record schemas_ds_model =
  scs_Metalake :: "string tfval"
  scs_Catalog :: "string tfval"
  scs_Schemas :: "schema_item tfval list tfval"

definition schema_absorbed :: "gschema \<Rightarrow> schema_ds_model \<Rightarrow> schema_ds_model" where
  "schema_absorbed s config =
     config\<lparr>sci_Comment := TKnown (sc_Comment s),
       sci_Properties := (if sc_Properties s \<noteq> [] then TKnown (known_map (sc_Properties s)) else TNull),
       sci_Audit := AuditToObjectValue (sc_Audit s)\<rparr>"

definition schema_ds_Read ::
    "(string \<Rightarrow> string \<Rightarrow> string \<Rightarrow> 'w \<Rightarrow> (gerror + gschema) \<times> 'w) \<Rightarrow> diags + schema_ds_model \<Rightarrow> (schema_ds_model state_write, 'w) step" where
  "schema_ds_Read get configGet =
     andThen (pure_step configGet) (\<lambda>config.
     let m = ValueString (scd_Metalake config); c = ValueString (scd_Catalog config); n = ValueString (sci_Name config) in
     andThen (calling (get m c n)
       (missing_or (error_diag ''Schema not found''
            (''No schema '' @ quote n @ '' exists in metalake '' @ quote m @ '', catalog '' @ quote c @ ''.''))
          (NewResourceError ''reading schema'' n))) (\<lambda>s.
     done_with (Save (schema_absorbed s config))))"

definition dslSchemaListItemToObject :: "gschema \<Rightarrow> schema_item" where
  "dslSchemaListItemToObject s =
     \<lparr>sci_Name = TKnown (sc_Name s), sci_Comment = TKnown (sc_Comment s),
      sci_Properties = (if sc_Properties s \<noteq> [] then TKnown (known_map (sc_Properties s)) else TNull),
      sci_Audit = AuditToObjectValue (sc_Audit s)\<rparr>"

definition schemas_ds_Read ::
    "(string \<Rightarrow> string \<Rightarrow> 'w \<Rightarrow> (gerror + gschema list) \<times> 'w) \<Rightarrow> diags + schemas_ds_model \<Rightarrow> (schemas_ds_model state_write, 'w) step" where
  "schemas_ds_Read listing configGet =
     andThen (pure_step configGet) (\<lambda>config.
     let m = ValueString (scs_Metalake config); c = ValueString (scs_Catalog config) in
     andThen (calling (listing m c)
       (missing_or (error_diag ''Metalake or catalog not found'' (''No metalake '' @ quote m @ '' or catalog '' @ quote c @ '' exists.''))
          (NewResourceError ''listing schemas'' c))) (\<lambda>schemas.
     done_with (Save (config\<lparr>scs_Schemas := TKnown (map (\<lambda>s. TKnown (dslSchemaListItemToObject s)) schemas)\<rparr>))))"

interpretation schema_pair: listing_pair dslSchemaListItemToObject schema_absorbed "\<lambda>i. sci_Name_update (\<lambda>_. sci_Name i)" schema_item.truncate
  by unfold_locales (simp add: schema_item.truncate_def dslSchemaListItemToObject_def schema_absorbed_def)

subsection \<open>Metalakes, catalogs and filesets\<close>

record metalake_item =
  mki_Name :: "string tfval"
  mki_Comment :: "string tfval"
  mki_Properties :: tf_map
  mki_Audit :: "audit_tfsdk tfval"

definition propertiesToMapDS :: "string gomap \<Rightarrow> tf_map" where
  "propertiesToMapDS props = (if props = [] then TNull else TKnown (known_map props))"

text \<open>A metalake has no container: the configuration of a lookup is an entry.\<close>

definition metalake_absorbed :: "metalake \<Rightarrow> metalake_item \<Rightarrow> metalake_item" where
  "metalake_absorbed ml state =
     state\<lparr>mki_Comment := TKnown (metalake.ml_Comment ml), mki_Properties := propertiesToMapDS (metalake.ml_Properties ml),
       mki_Audit := AuditToObjectValue (ml_Audit ml)\<rparr>"

definition metalake_ds_Read ::
    "(string \<Rightarrow> 'w \<Rightarrow> (gerror + metalake) \<times> 'w) \<Rightarrow> diags + metalake_item \<Rightarrow> (metalake_item state_write, 'w) step" where
  "metalake_ds_Read get configGet =
     andThen (pure_step configGet) (\<lambda>state.
     let n = ValueString (mki_Name state) in
     andThen (calling (get n)
       (missing_or (error_diag ''Metalake not found'' (''No metalake '' @ quote n @ '' exists.'')) (NewResourceError ''reading metalake'' n))) (\<lambda>ml.
     done_with (Save (metalake_absorbed ml state))))"

definition metalake_item_of :: "metalake \<Rightarrow> metalake_item" where
  "metalake_item_of ml =
     \<lparr>mki_Name = TKnown (ml_Name ml), mki_Comment = TKnown (metalake.ml_Comment ml), mki_Properties = propertiesToMapDS (metalake.ml_Properties ml),
      mki_Audit = AuditToObjectValue (ml_Audit ml)\<rparr>"

definition metalakes_ds_Read :: "('w \<Rightarrow> (gerror + metalake list) \<times> 'w) \<Rightarrow> (metalake_item list state_write, 'w) step" where
  "metalakes_ds_Read listing =
     andThen (calling listing (NewResourceError ''listing metalakes'' ''metalakes'')) (\<lambda>mls. done_with (Save (map metalake_item_of mls)))"

interpretation metalake_pair: listing_pair metalake_item_of metalake_absorbed "\<lambda>i. mki_Name_update (\<lambda>_. mki_Name i)" "\<lambda>m. m"
  by unfold_locales (simp add: metalake_item_of_def metalake_absorbed_def)

text \<open>An answer with the information whether its map of properties is missing.\<close>

record catalog_reply = catalog +
  car_NilProperties :: bool

record fileset_reply = fileset +
  far_NilProperties :: bool

definition go_map :: "bool \<Rightarrow> string gomap \<Rightarrow> string gomap option" where
  "go_map isnil m = (if isnil then None else Some m)"

record catalog_item =
  cti_Name :: "string tfval"
  cti_Type :: "string tfval"
  cti_Provider :: "string tfval"
  cti_Comment :: "string tfval"
  cti_Properties :: tf_map
  cti_Audit :: "audit_tfsdk tfval"

record catalog_ds_model = catalog_item +
  ctd_Metalake :: "string tfval"

definition setDataSourceStateFromCatalog :: "catalog_reply \<Rightarrow> catalog_ds_model \<Rightarrow> catalog_ds_model" where
  "setDataSourceStateFromCatalog c model =
     model\<lparr>cti_Type := TKnown (ca_Type c), cti_Provider := TKnown (ca_Provider c), cti_Comment := TKnown (ca_Comment c),
       cti_Properties := MapValueFrom (go_map (car_NilProperties c) (ca_Properties c)), cti_Audit := AuditToObjectValue (ca_Audit c)\<rparr>"

definition catalog_ds_Read ::
    "(string \<Rightarrow> string \<Rightarrow> 'w \<Rightarrow> (gerror + catalog_reply) \<times> 'w) \<Rightarrow> diags + catalog_ds_model \<Rightarrow> (catalog_ds_model state_write, 'w) step" where
  "catalog_ds_Read get configGet =
     andThen (pure_step configGet) (\<lambda>config.
     let m = ValueString (ctd_Metalake config); n = ValueString (cti_Name config) in
     andThen (calling (get m n)
       (missing_or (error_diag ''Catalog not found'' (''No catalog '' @ quote n @ '' exists in metalake '' @ quote m @ ''.''))
          (NewResourceError ''reading catalog'' n))) (\<lambda>c.
     done_with (Save (setDataSourceStateFromCatalog c config))))"

definition catalogToItemModel :: "catalog_reply \<Rightarrow> catalog_item" where
  "catalogToItemModel c =
     \<lparr>cti_Name = TKnown (ca_Name c), cti_Type = TKnown (ca_Type c), cti_Provider = TKnown (ca_Provider c),
      cti_Comment = TKnown (ca_Comment c), cti_Properties = MapValueFrom (go_map (car_NilProperties c) (ca_Properties c)),
      cti_Audit = AuditToObjectValue (ca_Audit c)\<rparr>"

definition catalogs_ds_Read ::
    "(string \<Rightarrow> 'w \<Rightarrow> (gerror + catalog_reply list) \<times> 'w) \<Rightarrow> diags + catalog_item metalake_listing
       \<Rightarrow> (catalog_item metalake_listing state_write, 'w) step" where
  "catalogs_ds_Read listing configGet =
     andThen (pure_step configGet) (\<lambda>config.
     let m = ValueString (mli_Metalake config) in
     andThen (calling (listing m)
       (missing_or (error_diag ''Metalake not found'' (''No metalake '' @ quote m @ '' exists; cannot list its catalogs.''))
          (NewResourceError ''listing catalogs'' m))) (\<lambda>catalogs.
     done_with (Save (config\<lparr>mli_Items := TKnown (map (\<lambda>c. TKnown (catalogToItemModel c)) catalogs)\<rparr>))))"

interpretation catalog_pair: listing_pair catalogToItemModel setDataSourceStateFromCatalog "\<lambda>i. cti_Name_update (\<lambda>_. cti_Name i)" catalog_item.truncate
  by unfold_locales (simp add: catalog_item.truncate_def catalogToItemModel_def setDataSourceStateFromCatalog_def)

record fileset_item =
  fsi_Name :: "string tfval"
  fsi_Comment :: "string tfval"
  fsi_Type :: "string tfval"
  fsi_StorageLocation :: "string tfval"
  fsi_Properties :: tf_map
  fsi_Audit :: "audit_tfsdk tfval"

record fileset_ds_model = fileset_item +
  fsd_Metalake :: "string tfval"
  fsd_Catalog :: "string tfval"
  fsd_Schema :: "string tfval"

definition setDataSourceStateFromFileset :: "fileset_reply \<Rightarrow> fileset_ds_model \<Rightarrow> fileset_ds_model" where
  "setDataSourceStateFromFileset fs model =
     model\<lparr>fsi_Comment := TKnown (fs_Comment fs), fsi_Type := TKnown (fs_Type fs), fsi_StorageLocation := TKnown (fs_StorageLocation fs),
       fsi_Properties := MapValueFrom (go_map (far_NilProperties fs) (fs_Properties fs)), fsi_Audit := AuditToObjectValue (fs_Audit fs)\<rparr>"

definition fileset_ds_Read ::
    "(string list \<Rightarrow> string \<Rightarrow> 'w \<Rightarrow> (gerror + fileset_reply) \<times> 'w) \<Rightarrow> diags + fileset_ds_model \<Rightarrow> (fileset_ds_model state_write, 'w) step" where
  "fileset_ds_Read get configGet =
     andThen (pure_step configGet) (\<lambda>config.
     let m = ValueString (fsd_Metalake config); c = ValueString (fsd_Catalog config); s = ValueString (fsd_Schema config);
         n = ValueString (fsi_Name config) in
     andThen (calling (get [m, c, s] n)
       (missing_or (error_diag ''Fileset not found''
            (''No fileset '' @ quote n @ '' exists in metalake '' @ quote m @ '', catalog '' @ quote c @ '', schema '' @ quote s @ ''.''))
          (NewResourceError ''reading fileset'' n))) (\<lambda>fs.
     done_with (Save (setDataSourceStateFromFileset fs config))))"

definition filesetToItemModel :: "fileset_reply \<Rightarrow> fileset_item" where
  "filesetToItemModel fs =
     \<lparr>fsi_Name = TKnown (fs_Name fs), fsi_Comment = TKnown (fs_Comment fs), fsi_Type = TKnown (fs_Type fs),
      fsi_StorageLocation = TKnown (fs_StorageLocation fs),
      fsi_Properties = MapValueFrom (go_map (far_NilProperties fs) (fs_Properties fs)), fsi_Audit = AuditToObjectValue (fs_Audit fs)\<rparr>"

definition filesets_ds_Read ::
    "(string list \<Rightarrow> 'w \<Rightarrow> (gerror + fileset_reply list) \<times> 'w) \<Rightarrow> diags + fileset_item schema_listing
       \<Rightarrow> (fileset_item schema_listing state_write, 'w) step" where
  "filesets_ds_Read listing configGet =
     andThen (pure_step configGet) (\<lambda>config.
     let m = ValueString (sli_Metalake config); c = ValueString (sli_Catalog config); s = ValueString (sli_Schema config) in
     andThen (calling (listing [m, c, s])
       (missing_or (error_diag ''Metalake, catalog or schema not found''
            (''No metalake '' @ quote m @ '', catalog '' @ quote c @ '' or schema '' @ quote s @ '' exists.''))
          (NewResourceError ''listing filesets'' s))) (\<lambda>filesets.
     done_with (Save (config\<lparr>sli_Items := TKnown (map (\<lambda>fs. TKnown (filesetToItemModel fs)) filesets)\<rparr>))))"

interpretation fileset_pair: listing_pair filesetToItemModel setDataSourceStateFromFileset "\<lambda>i. fsi_Name_update (\<lambda>_. fsi_Name i)" fileset_item.truncate
  by unfold_locales (simp add: fileset_item.truncate_def filesetToItemModel_def setDataSourceStateFromFileset_def)

subsection \<open>Models and functions\<close>

record model_item =
  moi_Name :: "string tfval"
  moi_Comment :: "string tfval"
  moi_LatestVersion :: "int tfval"
  moi_Properties :: tf_map
  moi_Audit :: "audit_tfsdk tfval"

record model_ds_model = model_item +
  mod_Metalake :: "string tfval"
  mod_Catalog :: "string tfval"
  mod_Schema :: "string tfval"

definition model_absorbed :: "gmodel \<Rightarrow> model_ds_model \<Rightarrow> model_ds_model" where
  "model_absorbed m config =
     config\<lparr>moi_Comment := ds_optionalString (mo_Comment m), moi_LatestVersion := TKnown (mo_LatestVersion m),
       moi_Properties := ds_mapValueFrom (mo_Properties m), moi_Audit := AuditToObjectValue (mo_Audit m)\<rparr>"

definition model_ds_Read ::
    "(string list \<Rightarrow> string \<Rightarrow> 'w \<Rightarrow> (gerror + gmodel) \<times> 'w) \<Rightarrow> diags + model_ds_model \<Rightarrow> (model_ds_model state_write, 'w) step" where
  "model_ds_Read get configGet =
     andThen (pure_step configGet) (\<lambda>config.
     andThen (calling (get [ValueString (mod_Metalake config), ValueString (mod_Catalog config), ValueString (mod_Schema config)]
           (ValueString (moi_Name config)))
       (NewResourceError ''reading model'' (ValueString (moi_Name config)))) (\<lambda>m.
     done_with (Save (model_absorbed m config))))"

definition modelListItemToObject :: "gmodel \<Rightarrow> model_item" where
  "modelListItemToObject m =
     \<lparr>moi_Name = TKnown (mo_Name m), moi_Comment = ds_optionalString (mo_Comment m), moi_LatestVersion = TKnown (mo_LatestVersion m),
      moi_Properties = ds_mapValueFrom (mo_Properties m), moi_Audit = AuditToObjectValue (mo_Audit m)\<rparr>"

definition models_ds_Read ::
    "(string list \<Rightarrow> 'w \<Rightarrow> (gerror + gmodel list) \<times> 'w) \<Rightarrow> diags + model_item schema_listing \<Rightarrow> (model_item schema_listing state_write, 'w) step" where
  "models_ds_Read listing configGet =
     andThen (pure_step configGet) (\<lambda>config.
     let m = ValueString (sli_Metalake config); c = ValueString (sli_Catalog config); s = ValueString (sli_Schema config) in
     andThen (calling (listing [m, c, s]) (NewResourceError ''listing models'' (m @ ''.'' @ c @ ''.'' @ s))) (\<lambda>ms.
     done_with (Save (config\<lparr>sli_Items := TKnown (map (\<lambda>x. TKnown (modelListItemToObject x)) ms)\<rparr>))))"

interpretation model_pair: listing_pair modelListItemToObject model_absorbed "\<lambda>i. moi_Name_update (\<lambda>_. moi_Name i)" model_item.truncate
  by unfold_locales (simp add: model_item.truncate_def modelListItemToObject_def model_absorbed_def)

interpretation version_pair: listing_pair modelVersionListItemToObject version_absorbed
    "\<lambda>i. mvi_Version_update (\<lambda>_. mvi_Version i)" version_item.truncate
  by unfold_locales (simp add: version_item.truncate_def modelVersionListItemToObject_def version_absorbed_def)

record function_item =
  fni_Name :: "string tfval"
  fni_FunctionType :: "string tfval"
  fni_Deterministic :: "bool tfval"
  fni_Comment :: "string tfval"
  fni_Definitions :: "function_definition_tfsdk tfval list tfval"
  fni_Audit :: "audit_tfsdk tfval"

record function_ds_model = function_item +
  fnd_Metalake :: "string tfval"
  fnd_Catalog :: "string tfval"
  fnd_Schema :: "string tfval"

definition function_absorbed :: "gfunction \<Rightarrow> function_ds_model \<Rightarrow> function_ds_model" where
  "function_absorbed f config =
     config\<lparr>fni_FunctionType := TKnown (NormalizeFunctionType (fn_FunctionType f)), fni_Deterministic := TKnown (fn_Deterministic f),
       fni_Comment := (if fn_Comment f \<noteq> [] then TKnown (fn_Comment f) else TNull),
       fni_Definitions := FunctionDefinitionsToTF (fn_Definitions f), fni_Audit := AuditToObjectValue (fn_Audit f)\<rparr>"

definition function_ds_Read ::
    "(string list \<Rightarrow> string \<Rightarrow> 'w \<Rightarrow> (gerror + gfunction) \<times> 'w) \<Rightarrow> diags + function_ds_model \<Rightarrow> (function_ds_model state_write, 'w) step" where
  "function_ds_Read get configGet =
     andThen (pure_step configGet) (\<lambda>config.
     andThen (calling (get [ValueString (fnd_Metalake config), ValueString (fnd_Catalog config), ValueString (fnd_Schema config)]
           (ValueString (fni_Name config)))
       (NewResourceError ''reading function'' (ValueString (fni_Name config)))) (\<lambda>f.
     done_with (Save (function_absorbed f config))))"

definition dslFunctionListItemToObject :: "gfunction \<Rightarrow> function_item" where
  "dslFunctionListItemToObject f =
     \<lparr>fni_Name = TKnown (fn_Name f), fni_FunctionType = TKnown (NormalizeFunctionType (fn_FunctionType f)),
      fni_Deterministic = TKnown (fn_Deterministic f), fni_Comment = (if fn_Comment f \<noteq> [] then TKnown (fn_Comment f) else TNull),
      fni_Definitions = FunctionDefinitionsToTF (fn_Definitions f), fni_Audit = AuditToObjectValue (fn_Audit f)\<rparr>"

definition functions_ds_Read ::
    "(string list \<Rightarrow> 'w \<Rightarrow> (gerror + gfunction list) \<times> 'w) \<Rightarrow> diags + function_item schema_listing
       \<Rightarrow> (function_item schema_listing state_write, 'w) step" where
  "functions_ds_Read listing configGet =
     andThen (pure_step configGet) (\<lambda>config.
     let m = ValueString (sli_Metalake config); c = ValueString (sli_Catalog config); s = ValueString (sli_Schema config) in
     andThen (calling (listing [m, c, s]) (NewResourceError ''listing functions'' s)) (\<lambda>fs.
     done_with (Save (config\<lparr>sli_Items := TKnown (map (\<lambda>f. TKnown (dslFunctionListItemToObject f)) fs)\<rparr>))))"

interpretation function_pair: listing_pair dslFunctionListItemToObject function_absorbed "\<lambda>i. fni_Name_update (\<lambda>_. fni_Name i)" function_item.truncate
  by unfold_locales (simp add: function_item.truncate_def dslFunctionListItemToObject_def function_absorbed_def)

subsection \<open>Policies\<close>

record policy_item =
  pli_Name :: "string tfval"
  pli_Comment :: "string tfval"
  pli_PolicyType :: "string tfval"
  pli_Enabled :: "bool tfval"
  pli_SupportedObjectTypes :: tf_strings
  pli_Properties :: tf_map
  pli_CustomRules :: tf_map
  pli_Audit :: "audit_tfsdk tfval"

record policy_ds_model = policy_item +
  pld_Metalake :: "string tfval"

definition ds_setStateFromPolicy :: "policy \<Rightarrow> policy_ds_model \<Rightarrow> policy_ds_model" where
  "ds_setStateFromPolicy p model =
     (let (ts, props, rules) =
        (case po_Content p of
           None \<Rightarrow> (None, None, None)
         | Some c \<Rightarrow> (NormalizePolicyObjectTypes (pc_SupportedObjectTypes c), pc_Properties c, pc_CustomRules c))
      in model\<lparr>pli_Name := TKnown (po_Name p), pli_Comment := TKnown (po_Comment p), pli_PolicyType := TKnown (po_PolicyType p),
           pli_Enabled := TKnown (po_Enabled p), pli_SupportedObjectTypes := SetValueFrom ts, pli_Properties := MapValueFrom props,
           pli_CustomRules := MapValueFrom rules, pli_Audit := AuditToObjectValue (po_Audit p)\<rparr>)"

definition policy_ds_Read ::
    "(string \<Rightarrow> string \<Rightarrow> 'w \<Rightarrow> (gerror + policy) \<times> 'w) \<Rightarrow> diags + policy_ds_model \<Rightarrow> (policy_ds_model state_write, 'w) step" where
  "policy_ds_Read get configGet =
     andThen (pure_step configGet) (\<lambda>config.
     let m = ValueString (pld_Metalake config); n = ValueString (pli_Name config) in
     andThen (calling (get m n)
       (missing_or (error_diag ''Policy not found'' (''No policy '' @ quote n @ '' exists in metalake '' @ quote m @ ''.''))
          (NewResourceError ''reading policy'' n))) (\<lambda>p.
     done_with (Save (ds_setStateFromPolicy p config))))"

definition policyToItemModel :: "policy \<Rightarrow> policy_item" where
  "policyToItemModel p =
     (let ts = (case po_Content p of None \<Rightarrow> None | Some c \<Rightarrow> NormalizePolicyObjectTypes (pc_SupportedObjectTypes c));
          props = (case po_Content p of None \<Rightarrow> None | Some c \<Rightarrow> pc_Properties c);
          rules = (case po_Content p of None \<Rightarrow> None | Some c \<Rightarrow> pc_CustomRules c)
      in \<lparr>pli_Name = TKnown (po_Name p), pli_Comment = TKnown (po_Comment p), pli_PolicyType = TKnown (po_PolicyType p),
          pli_Enabled = TKnown (po_Enabled p), pli_SupportedObjectTypes = SetValueFrom ts, pli_Properties = MapValueFrom props,
          pli_CustomRules = MapValueFrom rules, pli_Audit = AuditToObjectValue (po_Audit p)\<rparr>)"

definition policies_ds_Read ::
    "(string \<Rightarrow> 'w \<Rightarrow> (gerror + policy list) \<times> 'w) \<Rightarrow> diags + policy_item metalake_listing
       \<Rightarrow> (policy_item metalake_listing state_write, 'w) step" where
  "policies_ds_Read listing configGet =
     andThen (pure_step configGet) (\<lambda>config.
     let m = ValueString (mli_Metalake config) in
     andThen (calling (listing m)
       (missing_or (error_diag ''Metalake not found'' (''No metalake '' @ quote m @ '' exists; cannot list its policies.''))
          (NewResourceError ''listing policies'' m))) (\<lambda>ps.
     done_with (Save (config\<lparr>mli_Items := TKnown (map (\<lambda>p. TKnown (policyToItemModel p)) ps)\<rparr>))))"

interpretation policy_pair: listing_pair policyToItemModel ds_setStateFromPolicy "\<lambda>i. pli_Name_update (\<lambda>_. pli_Name i)" policy_item.truncate
  by unfold_locales (simp add: policy_item.truncate_def policyToItemModel_def ds_setStateFromPolicy_def split: option.split)

definition object_policies_ds_Read ::
    "'w probe \<Rightarrow> (string \<Rightarrow> string \<Rightarrow> string \<Rightarrow> 'w \<Rightarrow> (gerror + policy list) \<times> 'w) \<Rightarrow> diags + attached_ds_model
       \<Rightarrow> (attached_ds_model state_write, 'w vclient) step" where
  "object_policies_ds_Read probe listing configGet =
     andThen (pure_step configGet) (\<lambda>config.
     let m = ValueString (atd_Metalake config); t = ValueString (atd_ObjectType config); f = ValueString (atd_ObjectFullName config) in
     andThen (object_type_supported probe t
       (\<lambda>err. [attribute_error [AtName ''object_type''] ''Unsupported object_type value'' (err_text err)])) (\<lambda>_.
     andThen (calling (on_world (listing m t f))
       (missing_or (error_diag ''Metadata object not found''
            (''Cannot list the policies of '' @ t @ '' '' @ quote f @ '' in metalake '' @ quote m @ '': the object does not exist.''))
          (NewResourceError ''listing policies of'' f))) (\<lambda>ps.
     done_with (Save (config\<lparr>atd_Names := StringsToList (map po_Name ps)\<rparr>)))))"

definition policy_objects_ds_Read ::
    "(string \<Rightarrow> string \<Rightarrow> 'w \<Rightarrow> (gerror + metadata_object list) \<times> 'w) \<Rightarrow> diags + carriers_ds_model
       \<Rightarrow> (carriers_ds_model state_write, 'w) step" where
  "policy_objects_ds_Read listing configGet =
     andThen (pure_step configGet) (\<lambda>config.
     let m = ValueString (cds_Metalake config); n = ValueString (cds_Name config) in
     andThen (calling (listing m n)
       (missing_or (error_diag ''Policy not found''
            (''No policy '' @ quote n @ '' exists in metalake '' @ quote m @ ''; cannot list the objects it is attached to.''))
          (NewResourceError ''listing objects of'' n))) (\<lambda>objects.
     done_with (Save (config\<lparr>cds_Objects := carriers objects\<rparr>))))"

subsection \<open>Jobs and job templates\<close>

record job_item =
  jbi_JobID :: "string tfval"
  jbi_JobTemplate :: "string tfval"
  jbi_Status :: "string tfval"
  jbi_QueuedAt :: "string tfval"
  jbi_StartedAt :: "string tfval"
  jbi_FinishedAt :: "string tfval"
  jbi_Audit :: "audit_tfsdk tfval"

record job_ds_model = job_item +
  jbd_Metalake :: "string tfval"

record jobs_ds_model =
  jbs_Metalake :: "string tfval"
  jbs_Jobs :: "job_item tfval list tfval"
  jbs_JobTemplate :: "string tfval"

definition dataSourceTimeToString :: "string option \<Rightarrow> string tfval" where
  "dataSourceTimeToString t = (case t of None \<Rightarrow> TNull | Some s \<Rightarrow> TKnown s)"

definition setDataSourceStateFromJob :: "job \<Rightarrow> job_ds_model \<Rightarrow> job_ds_model" where
  "setDataSourceStateFromJob j model =
     model\<lparr>jbi_JobID := TKnown (jb_JobID j), jbi_JobTemplate := TKnown (jb_JobTemplateName j), jbi_Status := TKnown (jb_Status j),
       jbi_QueuedAt := dataSourceTimeToString (jb_QueuedAt j), jbi_StartedAt := dataSourceTimeToString (jb_StartedAt j),
       jbi_FinishedAt := dataSourceTimeToString (jb_FinishedAt j), jbi_Audit := AuditToObjectValue (jb_Audit j)\<rparr>"

definition job_ds_Read ::
    "(string \<Rightarrow> string \<Rightarrow> 'w \<Rightarrow> (gerror + job) \<times> 'w) \<Rightarrow> diags + job_ds_model \<Rightarrow> (job_ds_model state_write, 'w) step" where
  "job_ds_Read get configGet =
     andThen (pure_step configGet) (\<lambda>config.
     let m = ValueString (jbd_Metalake config); n = ValueString (jbi_JobID config) in
     andThen (calling (get m n)
       (missing_or (error_diag (''Job '' @ quote n @ '' not found'')
            (''No job run with id '' @ quote n @ '' exists in metalake '' @ quote m @ ''.''))
          (NewResourceError ''reading job'' n))) (\<lambda>j.
     done_with (Save (setDataSourceStateFromJob j config))))"

definition jobToItemModel :: "job \<Rightarrow> job_item" where
  "jobToItemModel j =
     \<lparr>jbi_JobID = TKnown (jb_JobID j), jbi_JobTemplate = TKnown (jb_JobTemplateName j), jbi_Status = TKnown (jb_Status j),
      jbi_QueuedAt = dataSourceTimeToString (jb_QueuedAt j), jbi_StartedAt = dataSourceTimeToString (jb_StartedAt j),
      jbi_FinishedAt = dataSourceTimeToString (jb_FinishedAt j), jbi_Audit = AuditToObjectValue (jb_Audit j)\<rparr>"

definition jobs_ds_Read ::
    "(string \<Rightarrow> 'w \<Rightarrow> (gerror + job list) \<times> 'w) \<Rightarrow> diags + jobs_ds_model \<Rightarrow> (jobs_ds_model state_write, 'w) step" where
  "jobs_ds_Read listing configGet =
     andThen (pure_step configGet) (\<lambda>config.
     let m = ValueString (jbs_Metalake config);
         wanted = (if \<not> IsNull (jbs_JobTemplate config) \<and> \<not> IsUnknown (jbs_JobTemplate config)
                   then ValueString (jbs_JobTemplate config) else []) in
     andThen (calling (listing m) (NewResourceError ''listing jobs'' m)) (\<lambda>jobs.
     done_with (Save (config\<lparr>jbs_Jobs := TKnown (map (\<lambda>j. TKnown (jobToItemModel j))
       (filter (\<lambda>j. \<not> (wanted \<noteq> [] \<and> jb_JobTemplateName j \<noteq> wanted)) jobs))\<rparr>))))"

interpretation job_pair: listing_pair jobToItemModel setDataSourceStateFromJob "\<lambda>i. jbi_JobID_update (\<lambda>_. jbi_JobID i)" job_item.truncate
  by unfold_locales (simp add: job_item.truncate_def jobToItemModel_def setDataSourceStateFromJob_def)

record template_item =
  jti_Name :: "string tfval"
  jti_JobType :: "string tfval"
  jti_Comment :: "string tfval"
  jti_Executable :: "string tfval"
  jti_Arguments :: tf_strings
  jti_Environments :: tf_map
  jti_CustomFields :: tf_map
  jti_Scripts :: tf_strings
  jti_ClassName :: "string tfval"
  jti_Jars :: tf_strings
  jti_Files :: tf_strings
  jti_Archives :: tf_strings
  jti_Configs :: tf_map
  jti_Audit :: "audit_tfsdk tfval"

record template_ds_model = template_item +
  jtd_Metalake :: "string tfval"

definition optionalStringValue :: "string \<Rightarrow> string tfval" where
  "optionalStringValue s = (if s = [] then TNull else TKnown s)"

definition jobTemplateList :: "string list \<Rightarrow> tf_strings" where
  "jobTemplateList s = (if s = [] then TNull else TKnown (map TKnown s))"

definition jobTemplateMap :: "string gomap \<Rightarrow> tf_map" where
  "jobTemplateMap m = (if m = [] then TNull else TKnown (known_map m))"

definition setJobTemplateState :: "job_template \<Rightarrow> template_ds_model \<Rightarrow> template_ds_model" where
  "setJobTemplateState t model =
     model\<lparr>jti_Name := TKnown (jt_Name t), jti_JobType := TKnown (jt_JobType t), jti_Comment := optionalStringValue (jt_Comment t),
       jti_Executable := TKnown (jt_Executable t), jti_Arguments := jobTemplateList (jt_Arguments t),
       jti_Environments := jobTemplateMap (jt_Environments t), jti_CustomFields := jobTemplateMap (jt_CustomFields t),
       jti_Scripts := jobTemplateList (jt_Scripts t), jti_ClassName := optionalStringValue (jt_ClassName t),
       jti_Jars := jobTemplateList (jt_Jars t), jti_Files := jobTemplateList (jt_Files t), jti_Archives := jobTemplateList (jt_Archives t),
       jti_Configs := jobTemplateMap (jt_Configs t), jti_Audit := AuditToObjectValue (jt_Audit t)\<rparr>"

definition template_ds_Read ::
    "(string \<Rightarrow> string \<Rightarrow> 'w \<Rightarrow> (gerror + job_template) \<times> 'w) \<Rightarrow> diags + template_ds_model \<Rightarrow> (template_ds_model state_write, 'w) step" where
  "template_ds_Read get configGet =
     andThen (pure_step configGet) (\<lambda>config.
     let m = ValueString (jtd_Metalake config); n = ValueString (jti_Name config) in
     andThen (calling (get m n)
       (missing_or (error_diag (''Job template '' @ quote n @ '' not found'')
            (''No job template named '' @ quote n @ '' exists in metalake '' @ quote m @ ''.''))
          (NewResourceError ''reading job template'' n))) (\<lambda>t.
     done_with (Save (setJobTemplateState t config))))"

text \<open>The zero value of the model: every attribute null.\<close>

definition zero_template :: template_ds_model where
  "zero_template =
     \<lparr>jti_Name = TNull, jti_JobType = TNull, jti_Comment = TNull, jti_Executable = TNull, jti_Arguments = TNull, jti_Environments = TNull,
      jti_CustomFields = TNull, jti_Scripts = TNull, jti_ClassName = TNull, jti_Jars = TNull, jti_Files = TNull, jti_Archives = TNull,
      jti_Configs = TNull, jti_Audit = TNull, jtd_Metalake = TNull\<rparr>"

definition jobTemplateItem :: "job_template \<Rightarrow> template_item" where
  "jobTemplateItem t =
     (let flat = setJobTemplateState t zero_template in
      \<lparr>jti_Name = jti_Name flat, jti_JobType = jti_JobType flat, jti_Comment = jti_Comment flat, jti_Executable = jti_Executable flat,
       jti_Arguments = jti_Arguments flat, jti_Environments = jti_Environments flat, jti_CustomFields = jti_CustomFields flat,
       jti_Scripts = jti_Scripts flat, jti_ClassName = jti_ClassName flat, jti_Jars = jti_Jars flat, jti_Files = jti_Files flat,
       jti_Archives = jti_Archives flat, jti_Configs = jti_Configs flat, jti_Audit = jti_Audit flat\<rparr>)"

definition templates_ds_Read ::
    "(string \<Rightarrow> 'w \<Rightarrow> (gerror + job_template list) \<times> 'w) \<Rightarrow> diags + template_item metalake_listing
       \<Rightarrow> (template_item metalake_listing state_write, 'w) step" where
  "templates_ds_Read listing configGet =
     andThen (pure_step configGet) (\<lambda>config.
     let m = ValueString (mli_Metalake config) in
     andThen (calling (listing m) (NewResourceError ''listing job templates'' m)) (\<lambda>ts.
     done_with (Save (config\<lparr>mli_Items := TKnown (map (\<lambda>t. TKnown (jobTemplateItem t)) ts)\<rparr>))))"

interpretation template_pair: listing_pair jobTemplateItem setJobTemplateState "\<lambda>i. jti_Name_update (\<lambda>_. jti_Name i)" template_item.truncate
  by unfold_locales (simp add: template_item.truncate_def jobTemplateItem_def setJobTemplateState_def)

subsection \<open>Views and partitions\<close>

record view_entry =
  vwe_Name :: "string tfval"
  vwe_Comment :: "string tfval"
  vwe_Columns :: "column_tfsdk list option"
  vwe_Representations :: "view_representation_tfsdk list option"
  vwe_DefaultCatalog :: "string tfval"
  vwe_DefaultSchema :: "string tfval"
  vwe_Properties :: tf_map
  vwe_Audit :: "audit_tfsdk tfval"

record view_ds_model = view_entry +
  vwd_Metalake :: "string tfval"
  vwd_Catalog :: "string tfval"
  vwd_Schema :: "string tfval"

record view_entry_tf =
  vwt_Name :: "string tfval"
  vwt_Comment :: "string tfval"
  vwt_Columns :: "column_tfsdk tfval list tfval"
  vwt_Representations :: "view_representation_tfsdk tfval list tfval"
  vwt_DefaultCatalog :: "string tfval"
  vwt_DefaultSchema :: "string tfval"
  vwt_Properties :: tf_map
  vwt_Audit :: "audit_tfsdk tfval"

record view_ds_tf = view_entry_tf +
  vwtd_Metalake :: "string tfval"
  vwtd_Catalog :: "string tfval"
  vwtd_Schema :: "string tfval"

definition viewDataSourceModelToTF :: "view_ds_model \<Rightarrow> view_ds_tf" where
  "viewDataSourceModelToTF m =
     \<lparr>vwt_Name = vwe_Name m, vwt_Comment = vwe_Comment m, vwt_Columns = blocks_to (vwe_Columns m),
      vwt_Representations = ViewRepresentationsToList (vwe_Representations m), vwt_DefaultCatalog = vwe_DefaultCatalog m,
      vwt_DefaultSchema = vwe_DefaultSchema m, vwt_Properties = vwe_Properties m, vwt_Audit = vwe_Audit m,
      vwtd_Metalake = vwd_Metalake m, vwtd_Catalog = vwd_Catalog m, vwtd_Schema = vwd_Schema m\<rparr>"

text \<open>The configuration is copied into a fresh model, whose other attributes the answer fills.\<close>

definition view_absorbed :: "gview \<Rightarrow> view_ds_tf \<Rightarrow> view_ds_tf" where
  "view_absorbed v tfConfig =
     viewDataSourceModelToTF
       \<lparr>vwe_Name = TKnown (vw_Name v), vwe_Comment = TKnown (vw_Comment v), vwe_Columns = Some (TableColumnsToModel (vw_Columns v)),
        vwe_Representations = Some (ViewRepresentationsToState (vw_Representations v)),
        vwe_DefaultCatalog = TKnown (vw_DefaultCatalog v), vwe_DefaultSchema = TKnown (vw_DefaultSchema v),
        vwe_Properties = (if vw_Properties v \<noteq> [] then TKnown (known_map (vw_Properties v)) else TNull),
        vwe_Audit = AuditToObjectValue (vw_Audit v),
        vwd_Metalake = vwtd_Metalake tfConfig, vwd_Catalog = vwtd_Catalog tfConfig, vwd_Schema = vwtd_Schema tfConfig\<rparr>"

definition view_ds_Read ::
    "(string list \<Rightarrow> string \<Rightarrow> 'w \<Rightarrow> (gerror + gview) \<times> 'w) \<Rightarrow> diags + view_ds_tf \<Rightarrow> (view_ds_tf state_write, 'w) step" where
  "view_ds_Read get configGet =
     andThen (pure_step configGet) (\<lambda>tfConfig.
     andThen (calling (get [ValueString (vwtd_Metalake tfConfig), ValueString (vwtd_Catalog tfConfig), ValueString (vwtd_Schema tfConfig)]
           (ValueString (vwt_Name tfConfig)))
       (NewResourceError ''reading view'' (ValueString (vwt_Name tfConfig)))) (\<lambda>v.
     done_with (Save (view_absorbed v tfConfig))))"

definition viewListEntryToModel :: "gview \<Rightarrow> view_entry" where
  "viewListEntryToModel v =
     \<lparr>vwe_Name = TKnown (vw_Name v), vwe_Comment = TKnown (vw_Comment v), vwe_Columns = Some (TableColumnsToModel (vw_Columns v)),
      vwe_Representations = Some (ViewRepresentationsToState (vw_Representations v)),
      vwe_DefaultCatalog = TKnown (vw_DefaultCatalog v), vwe_DefaultSchema = TKnown (vw_DefaultSchema v),
      vwe_Properties = (if vw_Properties v \<noteq> [] then TKnown (known_map (vw_Properties v)) else TNull),
      vwe_Audit = AuditToObjectValue (vw_Audit v)\<rparr>"

definition viewListEntryToTF :: "view_entry \<Rightarrow> view_entry_tf" where
  "viewListEntryToTF e =
     \<lparr>vwt_Name = vwe_Name e, vwt_Comment = vwe_Comment e, vwt_Columns = blocks_to (vwe_Columns e),
      vwt_Representations = ViewRepresentationsToList (vwe_Representations e), vwt_DefaultCatalog = vwe_DefaultCatalog e,
      vwt_DefaultSchema = vwe_DefaultSchema e, vwt_Properties = vwe_Properties e, vwt_Audit = vwe_Audit e\<rparr>"

definition views_ds_Read ::
    "(string list \<Rightarrow> 'w \<Rightarrow> (gerror + gview list) \<times> 'w) \<Rightarrow> diags + view_entry_tf schema_listing
       \<Rightarrow> (view_entry_tf schema_listing state_write, 'w) step" where
  "views_ds_Read listing configGet =
     andThen (pure_step configGet) (\<lambda>config.
     let m = ValueString (sli_Metalake config); c = ValueString (sli_Catalog config); s = ValueString (sli_Schema config) in
     andThen (calling (listing [m, c, s]) (NewResourceError ''listing views'' s)) (\<lambda>vs.
     done_with (Save (config\<lparr>sli_Items := TKnown (map (\<lambda>v. TKnown (viewListEntryToTF (viewListEntryToModel v))) vs)\<rparr>))))"

interpretation view_pair: listing_pair "viewListEntryToTF \<circ> viewListEntryToModel" view_absorbed "\<lambda>i. vwt_Name_update (\<lambda>_. vwt_Name i)"
    view_entry_tf.truncate
  by unfold_locales
    (simp add: view_entry_tf.truncate_def viewListEntryToTF_def viewListEntryToModel_def view_absorbed_def viewDataSourceModelToTF_def)

record partition_item =
  ptn_Type :: "string tfval"
  ptn_Name :: "string tfval"
  ptn_FieldNames :: "tf_strings list tfval"
  ptn_Values :: tf_literals
  ptn_Upper :: "literal_tf tfval"
  ptn_Lower :: "literal_tf tfval"
  ptn_Lists :: "tf_literals list tfval"
  ptn_Properties :: tf_map

record partition_ds_model = partition_item +
  ptd_Metalake :: "string tfval"
  ptd_Catalog :: "string tfval"
  ptd_Schema :: "string tfval"
  ptd_Table :: "string tfval"

record partitions_ds_model =
  pts_Metalake :: "string tfval"
  pts_Catalog :: "string tfval"
  pts_Schema :: "string tfval"
  pts_Table :: "string tfval"
  pts_Partitions :: "partition_item tfval list tfval"

definition partitionToDataSourceModel :: "partition \<Rightarrow> partition_ds_model \<Rightarrow> partition_ds_model" where
  "partitionToDataSourceModel p model =
     model\<lparr>ptn_Type := TKnown (pn_Type p), ptn_FieldNames := FieldNamesToList (pn_FieldNames p), ptn_Values := LiteralsToList (pn_Values p),
       ptn_Lists := LiteralListsToList (pn_Lists p),
       ptn_Upper := (case pn_Upper p of None \<Rightarrow> TNull | Some l \<Rightarrow> LiteralToObjectValue l),
       ptn_Lower := (case pn_Lower p of None \<Rightarrow> TNull | Some l \<Rightarrow> LiteralToObjectValue l),
       ptn_Properties := (if pn_Properties p \<noteq> [] then TKnown (known_map (pn_Properties p)) else TNull)\<rparr>"

definition partition_ds_Read ::
    "(string list \<Rightarrow> string \<Rightarrow> 'w \<Rightarrow> (gerror + partition) \<times> 'w) \<Rightarrow> diags + partition_ds_model \<Rightarrow> (partition_ds_model state_write, 'w) step" where
  "partition_ds_Read get configGet =
     andThen (pure_step configGet) (\<lambda>config.
     andThen (calling (get [ValueString (ptd_Metalake config), ValueString (ptd_Catalog config), ValueString (ptd_Schema config),
             ValueString (ptd_Table config)] (ValueString (ptn_Name config)))
       (NewResourceError ''reading partition'' (ValueString (ptn_Name config)))) (\<lambda>p.
     done_with (Save (partitionToDataSourceModel p (config\<lparr>ptn_Name := TKnown (pn_Name p)\<rparr>)))))"

definition PartitionToObjectValue :: "partition \<Rightarrow> partition_item" where
  "PartitionToObjectValue p =
     \<lparr>ptn_Type = TKnown (pn_Type p), ptn_Name = TKnown (pn_Name p), ptn_FieldNames = FieldNamesToList (pn_FieldNames p),
      ptn_Values = LiteralsToList (pn_Values p),
      ptn_Upper = (case pn_Upper p of None \<Rightarrow> TNull | Some l \<Rightarrow> LiteralToObjectValue l),
      ptn_Lower = (case pn_Lower p of None \<Rightarrow> TNull | Some l \<Rightarrow> LiteralToObjectValue l),
      ptn_Lists = LiteralListsToList (pn_Lists p),
      ptn_Properties = (if pn_Properties p \<noteq> [] then TKnown (known_map (pn_Properties p)) else TNull)\<rparr>"

definition partitions_ds_Read ::
    "(string list \<Rightarrow> 'w \<Rightarrow> (gerror + partition list) \<times> 'w) \<Rightarrow> diags + partitions_ds_model \<Rightarrow> (partitions_ds_model state_write, 'w) step" where
  "partitions_ds_Read listing configGet =
     andThen (pure_step configGet) (\<lambda>config.
     andThen (calling (listing [ValueString (pts_Metalake config), ValueString (pts_Catalog config), ValueString (pts_Schema config),
             ValueString (pts_Table config)])
       (NewResourceError ''listing partitions'' (ValueString (pts_Table config)))) (\<lambda>ps.
     done_with (Save (config\<lparr>pts_Partitions := TKnown (map (\<lambda>p. TKnown (PartitionToObjectValue p)) ps)\<rparr>))))"

interpretation partition_pair: listing_pair PartitionToObjectValue
    "\<lambda>p m. partitionToDataSourceModel p (m\<lparr>ptn_Name := TKnown (pn_Name p)\<rparr>)" "\<lambda>i. ptn_Name_update (\<lambda>_. ptn_Name i)" partition_item.truncate
  by unfold_locales (simp add: partition_item.truncate_def PartitionToObjectValue_def partitionToDataSourceModel_def)

subsection \<open>Tables\<close>

text \<open>The listing of tables has names only (\<open>tables_ds_Read\<close>); a lookup converts the blocks as the resource does.\<close>

record table_reply = table +
  tbr_NilProperties :: bool

record table_ds_model =
  tbd_Metalake :: "string tfval"
  tbd_Catalog :: "string tfval"
  tbd_Schema :: "string tfval"
  tbd_Name :: "string tfval"
  tbd_Comment :: "string tfval"
  tbd_Properties :: tf_map
  tbd_Audit :: "audit_tfsdk tfval"
  tbd_Columns :: "column_tfsdk list option"
  tbd_SortOrders :: "sort_order_tfsdk list option"
  tbd_Distribution :: "distribution_tfsdk option"
  tbd_Partitioning :: "partitioning_tfsdk list option"
  tbd_Indexes :: "index_tfsdk list option"

record table_ds_tf =
  tbt_Metalake :: "string tfval"
  tbt_Catalog :: "string tfval"
  tbt_Schema :: "string tfval"
  tbt_Name :: "string tfval"
  tbt_Comment :: "string tfval"
  tbt_Properties :: tf_map
  tbt_Audit :: "audit_tfsdk tfval"
  tbt_Columns :: "column_tfsdk tfval list tfval"
  tbt_SortOrders :: "sort_order_tfsdk tfval list tfval"
  tbt_Distribution :: "distribution_tfsdk tfval"
  tbt_Partitioning :: "partitioning_tfsdk tfval list tfval"
  tbt_Indexes :: "index_tfsdk tfval list tfval"

definition TableDataSourceModelToTF :: "table_ds_model \<Rightarrow> table_ds_tf" where
  "TableDataSourceModelToTF m =
     \<lparr>tbt_Metalake = tbd_Metalake m, tbt_Catalog = tbd_Catalog m, tbt_Schema = tbd_Schema m, tbt_Name = tbd_Name m,
      tbt_Comment = tbd_Comment m, tbt_Properties = tbd_Properties m, tbt_Audit = tbd_Audit m,
      tbt_Columns = blocks_to (tbd_Columns m), tbt_SortOrders = blocks_to (tbd_SortOrders m),
      tbt_Distribution = (case tbd_Distribution m of None \<Rightarrow> TNull | Some d \<Rightarrow> TKnown d),
      tbt_Partitioning = blocks_to (tbd_Partitioning m), tbt_Indexes = blocks_to (tbd_Indexes m)\<rparr>"

definition mapTableToDataSourceState :: "table_reply \<Rightarrow> table_ds_model \<Rightarrow> table_ds_model" where
  "mapTableToDataSourceState t state =
     state\<lparr>tbd_Name := TKnown (tb_Name t), tbd_Comment := (if tb_Comment t = [] then TNull else TKnown (tb_Comment t)),
       tbd_Properties := (if tbr_NilProperties t then TNull else MapValueFrom (go_map (tbr_NilProperties t) (tb_Properties t))),
       tbd_Audit := AuditToObjectValue (tb_Audit t), tbd_Columns := Some (TableColumnsToModel (tb_Columns t)),
       tbd_SortOrders := Some (TableSortOrdersToModel (tb_SortOrders t)),
       tbd_Distribution := TableDistributionToModel (tb_Distribution t),
       tbd_Partitioning := Some (TablePartitioningToModel (tb_Partitioning t)),
       tbd_Indexes := Some (TableIndexesToModel (tb_Indexes t))\<rparr>"

definition table_ds_Read ::
    "(string list \<Rightarrow> string \<Rightarrow> 'w \<Rightarrow> (gerror + table_reply) \<times> 'w) \<Rightarrow> diags + table_ds_tf \<Rightarrow> (table_ds_tf state_write, 'w) step" where
  "table_ds_Read get configGet =
     andThen (pure_step configGet) (\<lambda>tfConfig.
     andThen (calling (get [ValueString (tbt_Metalake tfConfig), ValueString (tbt_Catalog tfConfig), ValueString (tbt_Schema tfConfig)]
           (ValueString (tbt_Name tfConfig)))
       (NewResourceError ''reading table'' (ValueString (tbt_Name tfConfig)))) (\<lambda>t.
     done_with (Save (TableDataSourceModelToTF (mapTableToDataSourceState t
       \<lparr>tbd_Metalake = tbt_Metalake tfConfig, tbd_Catalog = tbt_Catalog tfConfig, tbd_Schema = tbt_Schema tfConfig,
        tbd_Name = tbt_Name tfConfig, tbd_Comment = TNull, tbd_Properties = TNull, tbd_Audit = TNull, tbd_Columns = None,
        tbd_SortOrders = None, tbd_Distribution = None, tbd_Partitioning = None, tbd_Indexes = None\<rparr>)))))"

subsection \<open>Lemmas\<close>

text \<open>The blocks of a table that a lookup reports are those a refresh of the resource converts from the same answer.\<close>

lemma table_blocks_as_resource:
  "tbd_Columns (mapTableToDataSourceState t m) = Some (TableColumnsToModel (tb_Columns t))"
  "tbd_SortOrders (mapTableToDataSourceState t m) = Some (TableSortOrdersToModel (tb_SortOrders t))"
  "tbd_Partitioning (mapTableToDataSourceState t m) = Some (TablePartitioningToModel (tb_Partitioning t))"
  by (simp_all add: mapTableToDataSourceState_def)

lemma role_objects_as_resource: "securableObjectsToTFForDS = securableObjectsToTF"
  by (simp add: fun_eq_iff securableObjectsToTFForDS_def securableObjectsToTF_def object_to_def [abs_def] privilege_to_def [abs_def])

text \<open>What a listing of jobs keeps.\<close>

lemma jobs_listed:
  assumes "listing (ValueString (jbs_Metalake config)) w = (Inr jobs, w')"
  shows "jobs_ds_Read listing (Inr config) w = (Inr (Save (config\<lparr>jbs_Jobs := TKnown (map (\<lambda>j. TKnown (jobToItemModel j))
      (if ValueString (jbs_JobTemplate config) = [] then jobs
       else filter (\<lambda>j. jb_JobTemplateName j = ValueString (jbs_JobTemplate config)) jobs))\<rparr>)), w')"
proof (cases "jbs_JobTemplate config")
  case (TKnown n)
  then show ?thesis using assms by (cases n) (simp_all add: jobs_ds_Read_def step_defs Let_def)
qed (use assms in \<open>simp_all add: jobs_ds_Read_def step_defs Let_def\<close>)

text \<open>Kinds whose answer carries the key: the configuration does not matter.\<close>

lemma version_looked_up: "version_item.truncate (version_absorbed v m) = modelVersionListItemToObject v"
  by (simp add: version_item.truncate_def modelVersionListItemToObject_def version_absorbed_def)

lemma policy_looked_up: "policy_item.truncate (ds_setStateFromPolicy p m) = policyToItemModel p"
  by (simp add: policy_item.truncate_def policyToItemModel_def ds_setStateFromPolicy_def split: option.split)

lemma job_looked_up: "job_item.truncate (setDataSourceStateFromJob j m) = jobToItemModel j"
  by (simp add: job_item.truncate_def jobToItemModel_def setDataSourceStateFromJob_def)

lemma template_looked_up: "template_item.truncate (setJobTemplateState t m) = jobTemplateItem t"
  by (simp add: template_item.truncate_def jobTemplateItem_def setJobTemplateState_def)

lemma view_looked_up: "view_entry_tf.truncate (view_absorbed v m) = viewListEntryToTF (viewListEntryToModel v)"
  by (simp add: view_entry_tf.truncate_def viewListEntryToTF_def viewListEntryToModel_def view_absorbed_def viewDataSourceModelToTF_def)

text \<open>The entry of a topic, and a lookup of it.\<close>

lemma topic_found:
  assumes "get [ValueString (tpd_Metalake config), ValueString (tpd_Catalog config), ValueString (tpd_Schema config)]
      (ValueString (tpi_Name config)) w = (Inr t, w)"
  shows "topic_ds_Read get (Inr config) w = (Inr (Save (topic_absorbed t config)), w)"
  using assms by (simp add: topic_ds_Read_def step_defs Let_def)

lemma topic_missing:
  assumes "get [m, c, s] n w = (Inl err, w)" "IsNotFoundError err"
    and "ValueString (tpd_Metalake config) = m" "ValueString (tpd_Catalog config) = c" "ValueString (tpd_Schema config) = s"
      "ValueString (tpi_Name config) = n"
  shows "topic_ds_Read get (Inr config) w =
    (Inl [error_diag ''Topic not found'' (''No Gravitino topic '' @ quote n @ '' exists in '' @ m @ ''.'' @ c @ ''.'' @ s @ ''.'')], w)"
  using assms by (simp add: topic_ds_Read_def step_defs Let_def missing_or_def)

subsection \<open>Properties\<close>

text \<open>C38: The two data sources of a kind of object convert an answer alike: the conversion of a lookup by the name of an
  entry yields exactly the attributes that the conversion of the listing gives that entry, with the same null values for what the server leaves
  out, for all fourteen kinds whose listing has details. Only the conversions are compared, most of which are written twice; the listing of
  job templates goes through the conversion of the lookup and copies its attributes one by one. The
  securable objects of a role, which has no such listing, are converted as by the resource.\<close>

theorem lookup_reports_listed_entry:
  "(\<forall>t m. tag_item.truncate (setDataSourceStateFromTag t (m\<lparr>ti_Name := ti_Name (tagToItemModel t)\<rparr>)) = tagToItemModel t) \<and>
   (\<forall>t m. topic_item.truncate (topic_absorbed t (m\<lparr>tpi_Name := tpi_Name (dslTopicListItemToObject t)\<rparr>)) = dslTopicListItemToObject t) \<and>
   (\<forall>s m. schema_item.truncate (schema_absorbed s (m\<lparr>sci_Name := sci_Name (dslSchemaListItemToObject s)\<rparr>)) = dslSchemaListItemToObject s) \<and>
   (\<forall>l m. metalake_absorbed l (m\<lparr>mki_Name := mki_Name (metalake_item_of l)\<rparr>) = metalake_item_of l) \<and>
   (\<forall>c m. catalog_item.truncate (setDataSourceStateFromCatalog c (m\<lparr>cti_Name := cti_Name (catalogToItemModel c)\<rparr>)) = catalogToItemModel c) \<and>
   (\<forall>f m. fileset_item.truncate (setDataSourceStateFromFileset f (m\<lparr>fsi_Name := fsi_Name (filesetToItemModel f)\<rparr>)) = filesetToItemModel f) \<and>
   (\<forall>x m. model_item.truncate (model_absorbed x (m\<lparr>moi_Name := moi_Name (modelListItemToObject x)\<rparr>)) = modelListItemToObject x) \<and>
   (\<forall>v m. version_item.truncate (version_absorbed v m) = modelVersionListItemToObject v) \<and>
   (\<forall>f m. function_item.truncate (function_absorbed f (m\<lparr>fni_Name := fni_Name (dslFunctionListItemToObject f)\<rparr>))
        = dslFunctionListItemToObject f) \<and>
   (\<forall>p m. policy_item.truncate (ds_setStateFromPolicy p m) = policyToItemModel p) \<and>
   (\<forall>j m. job_item.truncate (setDataSourceStateFromJob j m) = jobToItemModel j) \<and>
   (\<forall>t m. template_item.truncate (setJobTemplateState t m) = jobTemplateItem t) \<and>
   (\<forall>v m. view_entry_tf.truncate (view_absorbed v m) = viewListEntryToTF (viewListEntryToModel v)) \<and>
   (\<forall>p m. partition_item.truncate (partitionToDataSourceModel p (m\<lparr>ptn_Name := TKnown (pn_Name p)\<rparr>)) = PartitionToObjectValue p) \<and>
   securableObjectsToTFForDS = securableObjectsToTF"
  using partition_pair.looked_up
  by (auto simp: version_looked_up policy_looked_up job_looked_up template_looked_up view_looked_up role_objects_as_resource
      tag_pair.looked_up topic_pair.looked_up schema_pair.looked_up metalake_pair.looked_up catalog_pair.looked_up
      fileset_pair.looked_up model_pair.looked_up function_pair.looked_up)

text \<open>C37: The listing of topics and the lookup of a topic agree through the whole client: the listing loads the
  identifiers and then each topic, leaving out those that are gone meanwhile. It reports, in the order of the
  identifiers, exactly the topics a lookup finds, with the attributes the lookup reports, and a lookup of any other of the
  loaded identifiers reports that the topic does not exist.\<close>

theorem topics_listed_iff_found:
  fixes lconfig :: "topic_item schema_listing" and config :: topic_ds_model
  assumes "ids w = (Inr ns, w)" "\<And>n. run (GetTopic m c s n) w = (view n, w)"
    and gone: "\<forall>n \<in> set ns. \<forall>err. view n = Inl err \<longrightarrow> IsNotFoundError err"
    and named: "\<forall>n \<in> set ns. \<forall>t. view n = Inr t \<longrightarrow> to_Name t = n"
    and "ValueString (sli_Metalake lconfig) = m" "ValueString (sli_Catalog lconfig) = c" "ValueString (sli_Schema lconfig) = s"
    and "ValueString (tpd_Metalake config) = m" "ValueString (tpd_Catalog config) = c" "ValueString (tpd_Schema config) = s"
  shows "topics_ds_Read (\<lambda>loc. ListTopicsDetails (\<lambda>_. ids) run (loc ! 0) (loc ! 1) (loc ! 2)) (Inr lconfig) w =
      (Inr (Save (lconfig\<lparr>sli_Items := TKnown (map (\<lambda>t. TKnown (dslTopicListItemToObject t)) (read_result view ns))\<rparr>)), w) \<and>
    (\<forall>n \<in> set ns.
       case view n of
         Inr t \<Rightarrow> t \<in> set (read_result view ns) \<and>
           (\<exists>st. topic_ds_Read (\<lambda>loc n. run (GetTopic (loc ! 0) (loc ! 1) (loc ! 2) n)) (Inr (config\<lparr>tpi_Name := TKnown n\<rparr>)) w
               = (Inr (Save st), w) \<and> topic_item.truncate st = dslTopicListItemToObject t)
       | Inl _ \<Rightarrow>
           topic_ds_Read (\<lambda>loc n. run (GetTopic (loc ! 0) (loc ! 1) (loc ! 2) n)) (Inr (config\<lparr>tpi_Name := TKnown n\<rparr>)) w =
             (Inl [error_diag ''Topic not found'' (''No Gravitino topic '' @ quote n @ '' exists in '' @ m @ ''.'' @ c @ ''.'' @ s @ ''.'')], w))"
proof (intro conjI ballI)
  have "fetch_details True (\<lambda>k. run (GetTopic m c s k)) ks w = fetch_details True (\<lambda>k w. (view k, w)) ks w" for ks
    using assms(2) by (induction ks) (auto split: sum.splits)
  then have "ListTopicsDetails (\<lambda>_. ids) run m c s w = (Inr (read_result view ns), w)"
    using assms(1) fetch_details_skips [OF gone] by (simp add: ListTopicsDetails_def list_details_def)
  then show "topics_ds_Read (\<lambda>loc. ListTopicsDetails (\<lambda>_. ids) run (loc ! 0) (loc ! 1) (loc ! 2)) (Inr lconfig) w =
      (Inr (Save (lconfig\<lparr>sli_Items := TKnown (map (\<lambda>t. TKnown (dslTopicListItemToObject t)) (read_result view ns))\<rparr>)), w)"
    using assms(5-7) by (simp add: topics_ds_Read_def step_defs Let_def)
next
  fix n assume n: "n \<in> set ns"
  let ?get = "\<lambda>loc n. run (GetTopic (loc ! 0) (loc ! 1) (loc ! 2) n)" and ?cfg = "config\<lparr>tpi_Name := TKnown n\<rparr>"
  show "case view n of
      Inr t \<Rightarrow> t \<in> set (read_result view ns) \<and>
        (\<exists>st. topic_ds_Read ?get (Inr ?cfg) w = (Inr (Save st), w) \<and> topic_item.truncate st = dslTopicListItemToObject t)
    | Inl _ \<Rightarrow> topic_ds_Read ?get (Inr ?cfg) w =
        (Inl [error_diag ''Topic not found'' (''No Gravitino topic '' @ quote n @ '' exists in '' @ m @ ''.'' @ c @ ''.'' @ s @ ''.'')], w)"
  proof (cases "view n")
    case (Inl err)
    then show ?thesis using topic_missing [of ?get m c s n w err ?cfg] n gone assms(2,8-10) by simp
  next
    case (Inr t)
    then have "to_Name t = n" "t \<in> set (read_result view ns)" using n named by (force simp: read_result_def)+
    moreover have "topic_ds_Read ?get (Inr ?cfg) w = (Inr (Save (topic_absorbed t ?cfg)), w)"
      using Inr assms(2,8-10) by (intro topic_found) simp
    moreover have "topic_item.truncate (topic_absorbed t ?cfg) = dslTopicListItemToObject t"
      using topic_pair.looked_up [of t config] \<open>to_Name t = n\<close> by (simp add: dslTopicListItemToObject_def)
    ultimately show ?thesis using Inr by simp
  qed
qed

definition plain_topic :: "string \<Rightarrow> topic" where
  "plain_topic n = \<lparr>to_Name = n, to_Comment = [], to_Properties = [], to_Audit = None\<rparr>"

definition one_topic_left :: "call \<Rightarrow> unit \<Rightarrow> (gerror + topic) \<times> unit" where
  "one_topic_left ca w = (if ca = GetTopic ''m'' ''c'' ''s'' ''b'' then Inr (plain_topic ''b'') else Inl Api.gone, w)"

theorem topics_listed_iff_found_witness:
  "topics_ds_Read (\<lambda>loc. ListTopicsDetails (\<lambda>_ w. (Inr [''a'', ''b''], w)) one_topic_left (loc ! 0) (loc ! 1) (loc ! 2))
     (Inr \<lparr>sli_Metalake = TKnown ''m'', sli_Catalog = TKnown ''c'', sli_Schema = TKnown ''s'', sli_Items = TNull\<rparr>) () =
   (Inr (Save \<lparr>sli_Metalake = TKnown ''m'', sli_Catalog = TKnown ''c'', sli_Schema = TKnown ''s'',
      sli_Items = TKnown [TKnown (dslTopicListItemToObject (plain_topic ''b''))]\<rparr>), ())"
proof -
  let ?view = "\<lambda>n. if n = ''b'' then Inr (plain_topic ''b'') else Inl Api.gone"
  let ?l = "\<lparr>sli_Metalake = TKnown ''m'', sli_Catalog = TKnown ''c'', sli_Schema = TKnown ''s'', sli_Items = TNull\<rparr>"
  let ?cfg = "\<lparr>tpi_Name = TNull, tpi_Comment = TNull, tpi_Properties = TNull, tpi_Audit = TNull,
    tpd_Metalake = TKnown ''m'', tpd_Catalog = TKnown ''c'', tpd_Schema = TKnown ''s''\<rparr>"
  have inj: "catalogEntityPath ''m'' ''c'' ''s'' ''topics'' n = catalogEntityPath ''m'' ''c'' ''s'' ''topics'' n' \<longleftrightarrow> n = n'" for n n'
    using url.render_inject [of "[Word ''metalakes'', Name ''m'', Word ''catalogs'', Name ''c'', Word ''schemas'', Name ''s'', Word ''topics'', Name n]"
        "[Word ''metalakes'', Name ''m'', Word ''catalogs'', Name ''c'', Word ''schemas'', Name ''s'', Word ''topics'', Name n']"]
    by (auto simp: path_rendered url.plain_def)
  have "one_topic_left (GetTopic ''m'' ''c'' ''s'' n) () = (?view n, ())" for n
    by (simp add: one_topic_left_def GetTopic_def Get_def inj)
  moreover have "IsNotFoundError Api.gone" by (simp add: Api.gone_def IsNotFoundError_def AsNotFound_def)
  ultimately show ?thesis
    using conjunct1 [OF topics_listed_iff_found [of "\<lambda>w. (Inr [''a'', ''b''], w)" "()" "[''a'', ''b'']" one_topic_left "''m''" "''c''" "''s''"
        ?view ?l ?cfg]] by (simp add: read_result_def plain_topic_def)
qed

end
