(* ===== verification/LostAnswers.thy ===== *)
theory LostAnswers
  imports TagResource HttpClient
begin

section \<open>Resources over the retrying client\<close>

text \<open>
  The handlers of a resource run over the client, and the client repeats a request whose answer is lost. The
  server here is any state; \<open>carries_out\<close> says that it carries out a request each time it arrives, and that
  its answer either arrives or is lost on the way (the connection is reset, or a proxy answers with a transient
  status). The client then leaves the server as after one or more executions, and its caller sees the answer to the
  last one (\<open>attempts_repeat\<close>, \<open>call_repeats\<close>). \<open>http_tag_api\<close> is the client of the tag resource
  (client/tag.go, models/tag.go) over this transport; the decoders of the answers are arguments.
\<close>

subsection \<open>A server whose answers may be lost\<close>

definition lost :: "gerror + response \<Rightarrow> bool" where
  "lost r = (case r of Inl err \<Rightarrow> isConnectionReset err | Inr resp \<Rightarrow> retryableStatus (rs_StatusCode resp))"

text \<open>Nothing but a request changes what \<open>view\<close> sees, and nothing cancels a call.\<close>

definition steady :: "'w env \<Rightarrow> ('w \<Rightarrow> 's) \<Rightarrow> bool" where
  "steady ev view \<longleftrightarrow>
     (\<forall>verb url. ev_new_request ev verb url = None) \<and>
     (\<forall>header. ev_auth ev = Some header \<longrightarrow> (\<forall>w. \<exists>kv w'. header w = (Inr kv, w') \<and> view w' = view w)) \<and>
     (\<forall>w. ev_ctx_err ev w = None) \<and>
     (\<forall>d w. fst (ev_wait ev d w) = None \<and> view (snd (ev_wait ev d w)) = view w) \<and>
     (\<forall>m w. view (snd (ev_rand ev m w)) = view w)"

definition carries_out ::
    "'w env \<Rightarrow> ('w \<Rightarrow> 's) \<Rightarrow> string \<Rightarrow> string \<Rightarrow> string option \<Rightarrow> ('s \<Rightarrow> 's) \<Rightarrow> ('s \<Rightarrow> response) \<Rightarrow> bool" where
  "carries_out ev view verb url payload eff reply \<longleftrightarrow>
     (\<forall>hs w. view (snd (ev_send ev \<lparr>rq_method = verb, rq_url = url, rq_headers = hs, rq_body = payload\<rparr> w)) = eff (view w) \<and>
        (fst (ev_send ev \<lparr>rq_method = verb, rq_url = url, rq_headers = hs, rq_body = payload\<rparr> w) = Inr (reply (view w)) \<or>
         lost (fst (ev_send ev \<lparr>rq_method = verb, rq_url = url, rq_headers = hs, rq_body = payload\<rparr> w)))) \<and>
     (\<forall>s. \<not> retryableStatus (rs_StatusCode (reply s)))"

lemma is_sys_not_http: "is_sys err k \<Longrightarrow> as_http err = None"
  by (induction err k rule: is_sys.induct) auto

lemma reset_not_missing:
  "isConnectionReset err \<Longrightarrow> ev_ctx_err ev w = None \<Longrightarrow> \<not> IsNotFoundError (requestError c ev verb path err w)"
  by (simp add: isConnectionReset_def IsNotFoundError_def requestError_def is_sys_not_http)

text \<open>What a caller sees when no answer arrived: an error that is not a 404, or a transient status.\<close>

definition unanswered :: "gerror + response \<Rightarrow> bool" where
  "unanswered r = (case r of Inl err \<Rightarrow> \<not> IsNotFoundError err | Inr resp \<Rightarrow> retryableStatus (rs_StatusCode resp))"

lemma headers_steady:
  assumes "steady ev view"
  obtains hs n' where "auth_headers ev n = (Inr hs, n')" "view (nt_world n') = view (nt_world n)" "nt_sent n' = nt_sent n"
proof (cases "ev_auth ev")
  case None
  then show ?thesis using that by (simp add: auth_headers_def)
next
  case (Some header)
  then obtain kv w' where kv: "header (nt_world n) = (Inr kv, w')" "view w' = view (nt_world n)"
    using assms unfolding steady_def by metis
  then show ?thesis using that Some by (cases kv) (simp add: auth_headers_def)
qed

lemma pause_steady:
  assumes "steady ev view"
  shows "\<exists>n'. pause c ev verb path attempt ra n = (Again, n') \<and> view (nt_world n') = view (nt_world n) \<and> nt_sent n' = nt_sent n"
proof -
  obtain delay w where b: "backoff (cl_retry c) (ev_rand ev) attempt ra (nt_world n) = (delay, w)" by fastforce
  have w: "view w = view (nt_world n)"
    using b assms by (auto simp: backoff_def steady_def Let_def split: option.splits prod.splits)
      (metis snd_conv)+
  have none: "fst (ev_wait ev delay w) = None" "view (snd (ev_wait ev delay w)) = view w"
    using assms by (simp_all add: steady_def)
  then obtain w' where "ev_wait ev delay w = (None, w')" "view w' = view w" by (metis prod.collapse)
  then show ?thesis using w by (simp add: pause_def b sleepContext_def)
qed

lemma attempt_repeats:
  assumes "steady ev view" "carries_out ev view verb (cl_baseURL c @ ''/api'' @ path) payload eff reply"
  shows "\<exists>r n'. attempt_once c ev verb path payload True attempt n = (r, n') \<and>
    view (nt_world n') = eff (view (nt_world n)) \<and> length (nt_sent n') = Suc (length (nt_sent n)) \<and>
    (r = Again \<or> r = Final (Inr (reply (view (nt_world n)))) \<or>
     (\<exists>x. r = Final x \<and> unanswered x \<and> rp_maxRetries (cl_retry c) \<le> attempt))"
proof -
  let ?url = "cl_baseURL c @ ''/api'' @ path"
  obtain hs n1 where h: "auth_headers ev n = (Inr hs, n1)" "view (nt_world n1) = view (nt_world n)" "nt_sent n1 = nt_sent n"
    using headers_steady [OF assms(1)] by blast
  define rq where "rq = \<lparr>rq_method = verb, rq_url = ?url, rq_headers = base_headers c payload @ hs, rq_body = payload\<rparr>"
  obtain s w where s: "ev_send ev rq (nt_world n1) = (s, w)" by fastforce
  have sent: "view w = eff (view (nt_world n))" "s = Inr (reply (view (nt_world n))) \<or> lost s"
    using assms(2) s h(2) unfolding carries_out_def rq_def by (metis fst_conv snd_conv)+
  define n2 where "n2 = n1\<lparr>nt_world := w, nt_sent := nt_sent n1 @ [rq]\<rparr>"
  have n2: "view (nt_world n2) = eff (view (nt_world n))" "length (nt_sent n2) = Suc (length (nt_sent n))"
    using sent(1) h(3) by (simp_all add: n2_def)
  have go: "ev_new_request ev v u = None" "ev_ctx_err ev w' = None" for v u w'
    using assms(1) by (simp_all add: steady_def)
  have eq: "attempt_once c ev verb path payload True attempt n = (case s of
        Inl err \<Rightarrow>
          if attempt < rp_maxRetries (cl_retry c) \<and> isConnectionReset err then pause c ev verb path attempt None n2
          else (Final (Inl (requestError c ev verb path err (nt_world n2))), n2)
      | Inr resp \<Rightarrow>
          if attempt \<ge> rp_maxRetries (cl_retry c) \<or> \<not> retryableStatus (rs_StatusCode resp) then (Final (Inr resp), n2)
          else pause c ev verb path attempt (parseRetryAfter (\<lambda>v. ev_date ev v (nt_world n2)) (rs_RetryAfter resp)) n2)"
    using s by (simp add: attempt_once_def Let_def go h(1) send_request_def rq_def n2_def split: sum.splits)
  have paused: "\<exists>n'. pause c ev verb path attempt ra n2 = (Again, n') \<and> view (nt_world n') = eff (view (nt_world n))
      \<and> length (nt_sent n') = Suc (length (nt_sent n))" for ra
    using pause_steady [OF assms(1)] n2 by metis
  show ?thesis
  proof (cases s)
    case (Inl err)
    then have "isConnectionReset err" using sent(2) by (simp add: lost_def)
    then show ?thesis
      using Inl eq paused [of None] n2 by (cases "attempt < rp_maxRetries (cl_retry c)") (auto simp: unanswered_def reset_not_missing go)
  next
    case (Inr resp)
    then have "resp = reply (view (nt_world n)) \<or> retryableStatus (rs_StatusCode resp)" using sent(2) by (auto simp: lost_def)
    then show ?thesis
      using Inr eq paused [of "parseRetryAfter (\<lambda>v. ev_date ev v (nt_world n2)) (rs_RetryAfter resp)"] n2
      by (cases "attempt \<ge> rp_maxRetries (cl_retry c) \<or> \<not> retryableStatus (rs_StatusCode resp)") (auto simp: unanswered_def)
  qed
qed

lemma attempts_repeat:
  assumes "steady ev view" "carries_out ev view verb (cl_baseURL c @ ''/api'' @ path) payload eff reply"
    and "attempt_loop c ev verb path payload True attempt n = (r, n')"
  shows "\<exists>k. view (nt_world n') = (eff ^^ Suc k) (view (nt_world n)) \<and> length (nt_sent n') = length (nt_sent n) + Suc k \<and>
    (r = Inr (reply ((eff ^^ k) (view (nt_world n)))) \<or> (unanswered r \<and> rp_maxRetries (cl_retry c) \<le> attempt + k))"
  using assms(2,3)
proof (induction "rp_maxRetries (cl_retry c) - attempt" arbitrary: attempt n rule: less_induct)
  case less
  obtain a n1 where a: "attempt_once c ev verb path payload True attempt n = (a, n1)"
      "view (nt_world n1) = eff (view (nt_world n))" "length (nt_sent n1) = Suc (length (nt_sent n))"
      "a = Again \<or> a = Final (Inr (reply (view (nt_world n)))) \<or> (\<exists>x. a = Final x \<and> unanswered x \<and> rp_maxRetries (cl_retry c) \<le> attempt)"
    using attempt_repeats [OF assms(1) less.prems(1)] by blast
  show ?case
  proof (cases a)
    case (Final x)
    then have "r = x" "n' = n1"
      using less.prems(2) a(1) by (auto simp: attempt_loop.simps [of c ev verb path payload True attempt n])
    then show ?thesis using a(2-4) Final by (intro exI [of _ 0]) auto
  next
    case Again
    then have "attempt < rp_maxRetries (cl_retry c)" using attempt_again a(1) by blast
    then have "rp_maxRetries (cl_retry c) - Suc attempt < rp_maxRetries (cl_retry c) - attempt" by simp
    moreover have "attempt_loop c ev verb path payload True (Suc attempt) n1 = (r, n')"
      using less.prems(2) a(1) Again by (simp add: attempt_loop.simps [of c ev verb path payload True attempt n])
    ultimately obtain k where "view (nt_world n') = (eff ^^ Suc k) (view (nt_world n1))" "length (nt_sent n') = length (nt_sent n1) + Suc k"
        "r = Inr (reply ((eff ^^ k) (view (nt_world n1)))) \<or> (unanswered r \<and> rp_maxRetries (cl_retry c) \<le> Suc attempt + k)"
      using less.hyps less.prems(1) by blast
    then show ?thesis
      using a(2,3) by (intro exI [of _ "Suc k"]) (simp_all add: funpow_swap1)
  qed
qed

subsection \<open>A call\<close>

definition received :: "(string \<Rightarrow> gerror + 'r) \<Rightarrow> 'r \<Rightarrow> call \<Rightarrow> response \<Rightarrow> gerror + 'r" where
  "received decode zero ca resp =
     (if rs_StatusCode resp \<ge> 400 then Inl (ErrHTTP (newHTTPError resp))
      else (case decode (rs_Body resp) of
              Inr r \<Rightarrow> Inr r
            | Inl err \<Rightarrow>
                if is_sys err EndOfFile then Inr zero
                else Inl (ErrWrap (''failed to decode '' @ ca_method ca @ '' '' @ ca_path ca @ '' response: '') err)))"

lemma do_call_received:
  "do_call c ev decode zero ca n =
     (case doRequest c ev (ca_method ca) (ca_path ca) (ca_body ca) (ca_retryable ca) n of
        (Inl err, n') \<Rightarrow> (Inl err, n') | (Inr resp, n') \<Rightarrow> (received decode zero ca resp, n'))"
  by (simp add: do_call_def received_def split: prod.splits sum.splits)

lemma status_kept: "he_StatusCode (newHTTPError resp) = rs_StatusCode resp"
  by (simp add: newHTTPError_def Let_def split: option.splits)

lemma received_missing: "400 \<le> rs_StatusCode resp \<Longrightarrow>
    \<exists>err. received decode zero ca resp = Inl err \<and> (IsNotFoundError err \<longleftrightarrow> rs_StatusCode resp = 404)"
  by (simp add: received_def IsNotFoundError_def AsNotFound_def status_kept)

lemma call_repeats:
  assumes "steady ev view"
    and "carries_out ev view (ca_method ca) (cl_baseURL c @ ''/api'' @ ca_path ca) (map_option json_marshal (ca_body ca)) eff reply"
    and "ca_retryable ca" "do_call c ev decode zero ca n = (r, n')"
  shows "\<exists>k. view (nt_world n') = (eff ^^ Suc k) (view (nt_world n)) \<and> length (nt_sent n') = length (nt_sent n) + Suc k \<and>
    (r = received decode zero ca (reply ((eff ^^ k) (view (nt_world n)))) \<or>
     (\<exists>err. r = Inl err \<and> \<not> IsNotFoundError err \<and> rp_maxRetries (cl_retry c) \<le> k))"
proof -
  obtain x where x: "doRequest c ev (ca_method ca) (ca_path ca) (ca_body ca) True n = (x, n')"
    "r = (case x of Inl err \<Rightarrow> Inl err | Inr resp \<Rightarrow> received decode zero ca resp)"
    using assms(3,4) by (auto simp: do_call_received split: prod.splits sum.splits)
  obtain k where k: "view (nt_world n') = (eff ^^ Suc k) (view (nt_world n))" "length (nt_sent n') = length (nt_sent n) + Suc k"
      "x = Inr (reply ((eff ^^ k) (view (nt_world n)))) \<or> (unanswered x \<and> rp_maxRetries (cl_retry c) \<le> 0 + k)"
    using attempts_repeat [OF assms(1,2)] x(1) unfolding doRequest_def by blast
  have "\<exists>err. r = Inl err \<and> \<not> IsNotFoundError err" if "unanswered x"
  proof (cases x)
    case (Inr resp)
    then have "400 \<le> rs_StatusCode resp \<and> rs_StatusCode resp \<noteq> 404" using that by (auto simp: unanswered_def retryableStatus_def)
    then show ?thesis using received_missing [of resp decode zero ca] x(2) Inr by auto
  qed (use that x(2) in \<open>simp add: unanswered_def\<close>)
  then show ?thesis using k x(2) by (intro exI [of _ k]) auto
qed

subsection \<open>The client of the tag resource (client/tag.go)\<close>

definition tag_create_json :: "tag_create_request \<Rightarrow> json" where
  "tag_create_json r =
     JObj ([(''name'', JStr (tgc_Name r))]
       @ (if tgc_Comment r \<noteq> [] then [(''comment'', JStr (tgc_Comment r))] else [])
       @ (if tgc_Properties r \<noteq> [] then [(''properties'', jmap (map (\<lambda>(k, v). (k, JStr v)) (tgc_Properties r)))] else []))"

fun tag_update_json :: "tag_update \<Rightarrow> json" where
  "tag_update_json (NewRenameTagRequest newName) = JObj [(''@type'', JStr ''rename''), (''newName'', JStr newName)]"
| "tag_update_json (NewUpdateTagCommentRequest newComment) =
     JObj [(''@type'', JStr ''updateComment''), (''newComment'', JStr newComment)]"
| "tag_update_json (NewSetTagPropertyRequest property val) =
     JObj [(''@type'', JStr ''setProperty''), (''property'', JStr property), (''value'', JStr val)]"
| "tag_update_json (NewRemoveTagPropertyRequest property) =
     JObj [(''@type'', JStr ''removeProperty''), (''property'', JStr property)]"

definition zero_tag :: tag where
  "zero_tag = \<lparr>tg_Name = [], tg_Comment = [], tg_Properties = [], tg_Audit = None, tg_Inherited = None\<rparr>"

definition http_tag_api ::
    "client \<Rightarrow> 'w env \<Rightarrow> (string \<Rightarrow> gerror + tag) \<Rightarrow> (string \<Rightarrow> gerror + bool) \<Rightarrow> 'w net tag_api" where
  "http_tag_api c ev decode_tag decode_drop =
     \<lparr>ea_create = (\<lambda>loc req. do_call c ev decode_tag zero_tag (CreateTag (loc ! 0) (tag_create_json req))),
      ea_get = (\<lambda>loc n. do_call c ev decode_tag zero_tag (GetTag (loc ! 0) n)),
      ea_update = (\<lambda>loc n us. do_call c ev decode_tag zero_tag (UpdateTag (loc ! 0) n (map tag_update_json us))),
      ea_drop = (\<lambda>loc n. do_call c ev decode_drop False (DeleteTag (loc ! 0) n))\<rparr>"

subsection \<open>A deletion and a rename, seen by their caller\<close>

text \<open>The URL of a tag, and the two answers that matter: the object (\<open>served\<close>) or a 404.\<close>

definition tag_url :: "client \<Rightarrow> string \<Rightarrow> string \<Rightarrow> string" where
  "tag_url c m n = cl_baseURL c @ ''/api'' @ entityPath m ''tags'' n"

definition served :: "(string \<Rightarrow> gerror + 'r) \<Rightarrow> response \<Rightarrow> bool" where
  "served decode resp = (rs_StatusCode resp < 400 \<and> (case decode (rs_Body resp) of Inr _ \<Rightarrow> True | Inl _ \<Rightarrow> False))"

lemma served_received: "served decode resp \<Longrightarrow> \<exists>x. received decode zero ca resp = Inr x"
  by (auto simp: served_def received_def split: sum.splits)

lemma missing_received:
  "rs_StatusCode resp = 404 \<Longrightarrow> \<exists>err. received decode zero ca resp = Inl err \<and> IsNotFoundError err"
  using received_missing [of resp decode zero ca] by auto

lemma once_more: "eff (eff s) = eff s \<Longrightarrow> (eff ^^ Suc k) s = eff s"
  by (induction k) auto

lemma before_last: "eff (eff s) = eff s \<Longrightarrow> 0 < k \<Longrightarrow> (eff ^^ k) s = eff s"
  using once_more [of eff s "k - 1"] by simp

lemma tag_calls:
  "ca_method (DeleteTag m n) = ''DELETE''" "ca_body (DeleteTag m n) = None" "ca_path (DeleteTag m n) = entityPath m ''tags'' n"
  "ca_retryable (DeleteTag m n)"
  "ca_method (GetTag m n) = ''GET''" "ca_body (GetTag m n) = None" "ca_path (GetTag m n) = entityPath m ''tags'' n"
  "ca_retryable (GetTag m n)"
  "ca_method (UpdateTag m n us) = ''PUT''" "ca_body (UpdateTag m n us) = updates_body us"
  "ca_path (UpdateTag m n us) = entityPath m ''tags'' n" "ca_retryable (UpdateTag m n us)"
  by (simp_all add: DeleteTag_def Delete_def GetTag_def Get_def UpdateTag_def Put_def)

subsection \<open>A lossy server\<close>

text \<open>A server that keeps a set of tag names and loses its next answers, one per remaining fault.\<close>

definition status_reply :: "int \<Rightarrow> response" where
  "status_reply status = \<lparr>rs_StatusCode = status, rs_RetryAfter = [], rs_Body = ''{}'', rs_ReadFails = False\<rparr>"

definition tag_server :: "request \<Rightarrow> string set \<Rightarrow> string set" where
  "tag_server rq S =
     (if rq_url rq = tag_url local_client ''m'' ''a'' \<and> ''a'' \<in> S
      then (if rq_method rq = ''DELETE'' then S - {''a''} else if rq_method rq = ''PUT'' then insert ''b'' (S - {''a''}) else S)
      else S)"

definition lossy_env :: "(string set \<times> nat) env" where
  "lossy_env =
     \<lparr>ev_new_request = (\<lambda>_ _. None), ev_auth = None,
      ev_send = (\<lambda>rq (S, faults). (Inr (status_reply (if 0 < faults then 503 else if ''a'' \<in> S then 200 else 404)),
                   (tag_server rq S, faults - 1))),
      ev_ctx_err = (\<lambda>w. None), ev_wait = (\<lambda>d w. (None, w)), ev_rand = (\<lambda>m w. (0, w)), ev_date = (\<lambda>v w. None)\<rparr>"

definition lossy_net :: "nat \<Rightarrow> (string set \<times> nat) net" where
  "lossy_net faults = \<lparr>nt_world = ({''a'', ''c''}, faults), nt_sent = [], nt_slept = []\<rparr>"

definition recorded_tag :: "string \<Rightarrow> tag_model" where
  "recorded_tag name =
     \<lparr>tgm_ID = TNull, tgm_Metalake = TKnown ''m'', tgm_Name = TKnown name, tgm_Comment = TNull,
      tgm_Properties = TNull, tgm_Audit = TNull, tgm_Inherited = TNull\<rparr>"

lemma lossy_steady: "steady lossy_env fst"
  by (simp add: steady_def lossy_env_def)

lemma lossy_carries_out:
  assumes "\<And>S rq. rq_method rq = verb \<Longrightarrow> rq_url rq = tag_url local_client ''m'' ''a'' \<Longrightarrow> tag_server rq S = eff S"
  shows "carries_out lossy_env fst verb (tag_url local_client ''m'' ''a'') payload eff
     (\<lambda>S. status_reply (if ''a'' \<in> S then 200 else 404))"
  using assms by (auto simp: carries_out_def lossy_env_def status_reply_def lost_def retryableStatus_def)

lemma lossy_served:
  "if ''a'' \<in> S then served (\<lambda>_. Inr zero_tag) (status_reply (if ''a'' \<in> S then 200 else 404))
   else rs_StatusCode (status_reply (if ''a'' \<in> S then 200 else 404)) = 404"
  by (simp add: served_def status_reply_def)

lemma lossy_missing: "''a'' \<notin> S \<Longrightarrow> rs_StatusCode (status_reply (if ''a'' \<in> S then 200 else 404)) = 404"
  by (simp add: status_reply_def)

lemma lossy_dropped:
  "served (\<lambda>_. Inr True) (status_reply (if ''a'' \<in> S then 200 else 404)) \<or>
   rs_StatusCode (status_reply (if ''a'' \<in> S then 200 else 404)) = 404"
  by (simp add: served_def status_reply_def)

lemma recorded_values:
  "ValueString (tgm_Metalake (recorded_tag name)) = ''m''" "ValueString (tgm_Name (recorded_tag name)) = name"
  by (simp_all add: recorded_tag_def)

text \<open>One lost answer to a rename: the tag is called ''b'' on the server, the update fails, and the next refresh of the
  recorded name removes it from the state.\<close>

theorem one_lost_rename_answer:
  "case tag_Update (http_tag_api local_client lossy_env (\<lambda>_. Inr zero_tag) (\<lambda>_. Inr True))
      (Inr (recorded_tag ''b'')) (Inr (recorded_tag ''a'')) (lossy_net 1) of
     (r, net) \<Rightarrow> fst (nt_world net) = {''b'', ''c''} \<and> length (nt_sent net) = 2 \<and> (case r of Inl ds \<Rightarrow> True | Inr _ \<Rightarrow> False) \<and>
       (case fst (tag_Read (http_tag_api local_client lossy_env (\<lambda>_. Inr zero_tag) (\<lambda>_. Inr True)) (Inr (recorded_tag ''a'')) net) of
          Inr Remove \<Rightarrow> True | _ \<Rightarrow> False)"
  by code_simp

end
