(* ===== verification/SchemaModel.thy ===== *)
theory SchemaModel
  imports Prelude
begin

section \<open>Schemas\<close>

text \<open>
  The vocabulary of the schema declarations (\<open>Schema\<close> of every resource, data source and of the provider): the
  types of values, attributes with their flags, nested attributes and blocks. The names are those of the plugin
  framework's struct literals; texts for the documentation are left out. A schema determines the type of the object
  it describes (\<open>schema_types\<close>). Go structs are lists of their \<open>tfsdk\<close> tags with the types of the fields;
  \<open>AssertSchemaMatches\<close> is the repository's own comparison of a struct with a schema (models/modeltest).
\<close>

subsection \<open>Types\<close>

datatype attr_type =
    StringType
  | BoolType
  | Int64Type
  | ListType attr_type
  | SetType attr_type
  | MapType attr_type
  | ObjectType "(string \<times> attr_type) list"

subsection \<open>Attributes and blocks\<close>

datatype plan_modifier =
    RequiresReplace
  | RequiresReplaceIfConfigured
  | UseStateForUnknown
  | CompoundID "string list"
  | CommentModifier

datatype schema_validator =
    OneOf "string list"
  | NoneOf "string list"
  | SizeAtLeast nat
  | KeysAre schema_validator
  | ValueStringsAre schema_validator
  | ColumnTypeValidator
  | DataTypeStringValidator
  | DurationValidator
  | StatisticNameValidator
  | PartitionStatisticsValidator

datatype schema_default = StaticBool bool | StaticString string

record flags =
  Required :: bool
  Optional :: bool
  Computed :: bool
  Sensitive :: bool
  PlanModifiers :: "plan_modifier list"
  Validators :: "schema_validator list"
  Default :: "schema_default option"

text \<open>The zero value of the flags, and the three usual settings.\<close>

definition unset :: flags where
  "unset = \<lparr>Required = False, Optional = False, Computed = False, Sensitive = False,
     PlanModifiers = [], Validators = [], Default = None\<rparr>"

definition required :: flags where "required = unset\<lparr>Required := True\<rparr>"

definition optional :: flags where "optional = unset\<lparr>Optional := True\<rparr>"

definition computed :: flags where "computed = unset\<lparr>Computed := True\<rparr>"

definition optional_computed :: flags where "optional_computed = unset\<lparr>Optional := True, Computed := True\<rparr>"

datatype attribute =
    Attribute attr_type flags
  | SingleNestedAttribute "(string \<times> attribute) list" flags
  | ListNestedAttribute "(string \<times> attribute) list" flags
  | SetNestedAttribute "(string \<times> attribute) list" flags

datatype block =
    SingleNestedBlock "(string \<times> attribute) list" "(string \<times> block) list" flags
  | ListNestedBlock "(string \<times> attribute) list" "(string \<times> block) list" flags

record schema =
  Attributes :: "(string \<times> attribute) list"
  Blocks :: "(string \<times> block) list"

primrec attribute_flags :: "attribute \<Rightarrow> flags" where
  "attribute_flags (Attribute t f) = f"
| "attribute_flags (SingleNestedAttribute as f) = f"
| "attribute_flags (ListNestedAttribute as f) = f"
| "attribute_flags (SetNestedAttribute as f) = f"

primrec block_flags :: "block \<Rightarrow> flags" where
  "block_flags (SingleNestedBlock as bs f) = f"
| "block_flags (ListNestedBlock as bs f) = f"

subsection \<open>The type of an object\<close>

fun attribute_type :: "attribute \<Rightarrow> attr_type" where
  "attribute_type (Attribute t f) = t"
| "attribute_type (SingleNestedAttribute as f) = ObjectType (map (\<lambda>(n, a). (n, attribute_type a)) as)"
| "attribute_type (ListNestedAttribute as f) = ListType (ObjectType (map (\<lambda>(n, a). (n, attribute_type a)) as))"
| "attribute_type (SetNestedAttribute as f) = SetType (ObjectType (map (\<lambda>(n, a). (n, attribute_type a)) as))"

definition attribute_types :: "(string \<times> attribute) list \<Rightarrow> (string \<times> attr_type) list" where
  "attribute_types as = map (\<lambda>(n, a). (n, attribute_type a)) as"

fun block_type :: "block \<Rightarrow> attr_type" where
  "block_type (SingleNestedBlock as bs f) = ObjectType (attribute_types as @ map (\<lambda>(n, b). (n, block_type b)) bs)"
| "block_type (ListNestedBlock as bs f) =
     ListType (ObjectType (attribute_types as @ map (\<lambda>(n, b). (n, block_type b)) bs))"

definition schema_types :: "schema \<Rightarrow> (string \<times> attr_type) list" where
  "schema_types s = attribute_types (Attributes s) @ map (\<lambda>(n, b). (n, block_type b)) (Blocks s)"

text \<open>Equality up to the order of the members, as Go maps have none.\<close>

fun same_type :: "attr_type \<Rightarrow> attr_type \<Rightarrow> bool" where
  "same_type (ListType a) t = (case t of ListType b \<Rightarrow> same_type a b | _ \<Rightarrow> False)"
| "same_type (SetType a) t = (case t of SetType b \<Rightarrow> same_type a b | _ \<Rightarrow> False)"
| "same_type (MapType a) t = (case t of MapType b \<Rightarrow> same_type a b | _ \<Rightarrow> False)"
| "same_type (ObjectType as) t =
     (case t of
        ObjectType bs \<Rightarrow> length as = length bs \<and>
          list_all (\<lambda>(n, a). case map_of bs n of None \<Rightarrow> False | Some b \<Rightarrow> same_type a b) as
      | _ \<Rightarrow> False)"
| "same_type a t = (a = t)"

subsection \<open>Plans\<close>

definition modifiers :: "schema \<Rightarrow> string \<Rightarrow> plan_modifier list" where
  "modifiers s n = (case map_of (Attributes s) n of None \<Rightarrow> [] | Some a \<Rightarrow> PlanModifiers (attribute_flags a))"

definition replaces :: "plan_modifier \<Rightarrow> bool" where
  "replaces m = (m = RequiresReplace \<or> m = RequiresReplaceIfConfigured)"

text \<open>What a configuration may set and change without a new object; blocks are configuration, too.\<close>

definition configurable :: "schema \<Rightarrow> string list" where
  "configurable s = map fst (filter (\<lambda>(n, a). Required (attribute_flags a) \<or> Optional (attribute_flags a)) (Attributes s))
     @ map fst (Blocks s)"

definition updatable :: "schema \<Rightarrow> string list" where
  "updatable s =
     map fst (filter (\<lambda>(n, a). (Required (attribute_flags a) \<or> Optional (attribute_flags a))
                \<and> \<not> list_ex replaces (PlanModifiers (attribute_flags a))) (Attributes s))
     @ map fst (filter (\<lambda>(n, b). \<not> list_ex replaces (PlanModifiers (block_flags b))) (Blocks s))"

text \<open>
  A value that the configuration leaves out of a plan is unknown in an update. Forcing a replacement when it differs
  from the state would then force one on every update, so the state must be used first.
\<close>

fun keeps_before_replacing :: "plan_modifier list \<Rightarrow> bool" where
  "keeps_before_replacing [] = True"
| "keeps_before_replacing (m # ms) = (m = UseStateForUnknown \<or> m \<noteq> RequiresReplace \<and> keeps_before_replacing ms)"

text \<open>The plan modifier of a compound identifier reads its components as strings at the top of the schema.\<close>

definition readable_components :: "schema \<Rightarrow> bool" where
  "readable_components s =
     list_all (\<lambda>(n, a). list_all (\<lambda>m. case m of
         CompoundID cs \<Rightarrow> cs \<noteq> [] \<and> list_all (\<lambda>c. map_of (schema_types s) c = Some StringType \<and> c \<in> set (configurable s)) cs
       | _ \<Rightarrow> True) (PlanModifiers (attribute_flags a))) (Attributes s)"

subsection \<open>Go structs\<close>

text \<open>The types of the fields with \<open>tfsdk\<close> tags; a slice or a pointer has a struct of its own.\<close>

datatype go_type =
    GoString
  | GoBool
  | GoInt64
  | GoList
  | GoSet
  | GoMap
  | GoObject
  | GoSlice "(string \<times> go_type) list"
  | GoPointer "(string \<times> go_type) list"

text \<open>models/modeltest/modeltest.go: the sorted names of a struct's tags and of a schema's members, and their comparison.\<close>

definition AttributeNames :: "(string \<times> go_type) list \<Rightarrow> string list" where
  "AttributeNames model = sort (map fst model)"

definition Keys :: "(string \<times> 'v) list \<Rightarrow> string list" where
  "Keys values = sort (map fst values)"

definition AssertAttributesMatch :: "(string \<times> go_type) list \<Rightarrow> string list \<Rightarrow> bool" where
  "AssertAttributesMatch model want = (AttributeNames model = sort want)"

definition AssertSchemaMatches :: "(string \<times> go_type) list \<Rightarrow> (string \<times> 'a) list \<Rightarrow> (string \<times> 'b) list \<Rightarrow> bool" where
  "AssertSchemaMatches model attributes blocks = AssertAttributesMatch model (Keys attributes @ Keys blocks)"

text \<open>Sorted lists are equal when they have the same names as often.\<close>

fun removes_to :: "string list \<Rightarrow> string list \<Rightarrow> bool" where
  "removes_to [] want = (want = [])"
| "removes_to (n # ns) want = (list_ex (\<lambda>m. m = n) want \<and> removes_to ns (remove1 n want))"

lemma removes_to_mset: "removes_to names want \<Longrightarrow> mset names = mset want"
proof (induction names want rule: removes_to.induct)
  case (2 n ns want)
  then have "n \<in># mset want" "mset ns = mset want - {#n#}" by (auto simp: list_ex_iff)
  then show ?case by simp
qed simp

lemma same_mset_sorted: "mset a = mset b \<Longrightarrow> sort a = sort b"
  by (metis sorted_list_of_multiset_mset)

lemma AssertAttributesMatch_names: "removes_to (map fst model) want \<Longrightarrow> AssertAttributesMatch model want"
  unfolding AssertAttributesMatch_def AttributeNames_def by (intro same_mset_sorted removes_to_mset)

lemma AssertAttributesMatch_keys: "removes_to (map fst model) (map fst ts) \<Longrightarrow> AssertAttributesMatch model (Keys ts)"
  using removes_to_mset [of "map fst model" "map fst ts"]
  by (simp add: AssertAttributesMatch_def AttributeNames_def Keys_def same_mset_sorted)

lemma AssertSchemaMatches_names:
  "removes_to (map fst model) (map fst attributes @ map fst blocks) \<Longrightarrow> AssertSchemaMatches model attributes blocks"
  using removes_to_mset [of "map fst model" "map fst attributes @ map fst blocks"]
  unfolding AssertSchemaMatches_def AssertAttributesMatch_def AttributeNames_def Keys_def by (intro same_mset_sorted) simp

subsection \<open>What the provider registers\<close>

record registered =
  rg_Metadata :: "string \<Rightarrow> string"
  rg_Fields :: "(string \<times> go_type) list"
  rg_Schema :: schema

end
