(* ===== verification/ResourceSchemas.thy ===== *)
theory ResourceSchemas
  imports SchemaModel RoleResource FunctionTf Associations StatisticsResource PrincipalResources
begin

section \<open>The schemas of the resources and of the provider\<close>

text \<open>
  For every resource: the fields of its Go model with their \<open>tfsdk\<close> tags (\<open>_fields\<close>), the name it registers
  (\<open>_Metadata\<close>) and its schema (\<open>_Schema\<close>), in the order of the packages; before them the tables of attribute types
  (\<open>AttrTypes\<close>) that the conversions build objects with. The entries are in the order of the Go literals.
\<close>

definition AuditAttrTypes :: "(string \<times> attr_type) list" where
  "AuditAttrTypes =
     [(''creator'', StringType), (''create_time'', StringType), (''last_modifier'', StringType),
      (''last_modified_time'', StringType)]"

definition ColumnAttrTypes :: "(string \<times> attr_type) list" where
  "ColumnAttrTypes =
     [(''name'', StringType), (''type'', StringType), (''comment'', StringType),
      (''nullable'', BoolType), (''auto_increment'', BoolType), (''default_value'', StringType)]"

definition SortOrderAttrTypes :: "(string \<times> attr_type) list" where
  "SortOrderAttrTypes =
     [(''field_name'', ListType StringType), (''direction'', StringType), (''null_ordering'', StringType)]"

definition DistributionAttrTypes :: "(string \<times> attr_type) list" where
  "DistributionAttrTypes =
     [(''strategy'', StringType), (''number'', Int64Type), (''func_args'', ListType StringType)]"

definition PartitioningAttrTypes :: "(string \<times> attr_type) list" where
  "PartitioningAttrTypes =
     [(''strategy'', StringType), (''field_name'', ListType StringType),
      (''field_names'', ListType (ListType StringType)), (''num_buckets'', Int64Type),
      (''width'', Int64Type), (''func_name'', StringType), (''func_args'', ListType StringType)]"

definition IndexAttrTypes :: "(string \<times> attr_type) list" where
  "IndexAttrTypes =
     [(''index_type'', StringType), (''name'', StringType),
      (''field_names'', ListType (ListType StringType)), (''properties'', MapType StringType)]"

definition PartitionLiteralAttrTypes :: "(string \<times> attr_type) list" where
  "PartitionLiteralAttrTypes =
     [(''data_type'', StringType), (''value'', StringType)]"

definition PartitionSpecAttrTypes :: "(string \<times> attr_type) list" where
  "PartitionSpecAttrTypes =
     [(''type'', StringType), (''name'', StringType), (''field_names'', ListType (ListType StringType)),
      (''values'', ListType (ObjectType PartitionLiteralAttrTypes)),
      (''upper'', ObjectType PartitionLiteralAttrTypes),
      (''lower'', ObjectType PartitionLiteralAttrTypes),
      (''lists'', ListType (ListType (ObjectType PartitionLiteralAttrTypes))),
      (''properties'', MapType StringType)]"

definition ViewRepresentationAttrTypes :: "(string \<times> attr_type) list" where
  "ViewRepresentationAttrTypes =
     [(''type'', StringType), (''dialect'', StringType), (''sql'', StringType)]"

definition ViewListEntryAttrTypes :: "(string \<times> attr_type) list" where
  "ViewListEntryAttrTypes =
     [(''name'', StringType), (''comment'', StringType),
      (''column'', ListType (ObjectType ColumnAttrTypes)),
      (''representation'', ListType (ObjectType ViewRepresentationAttrTypes)),
      (''default_catalog'', StringType), (''default_schema'', StringType),
      (''properties'', MapType StringType), (''audit'', ObjectType AuditAttrTypes)]"

definition FunctionResourcesAttrTypes :: "(string \<times> attr_type) list" where
  "FunctionResourcesAttrTypes =
     [(''jars'', ListType StringType), (''files'', ListType StringType),
      (''archives'', ListType StringType)]"

definition FunctionImplAttrTypes :: "(string \<times> attr_type) list" where
  "FunctionImplAttrTypes =
     [(''language'', StringType), (''runtime'', StringType), (''sql'', StringType),
      (''class_name'', StringType), (''handler'', StringType), (''code_block'', StringType),
      (''resources'', ObjectType FunctionResourcesAttrTypes), (''properties'', MapType StringType)]"

definition FunctionParamAttrTypes :: "(string \<times> attr_type) list" where
  "FunctionParamAttrTypes =
     [(''name'', StringType), (''data_type'', StringType), (''comment'', StringType),
      (''default_value'', StringType)]"

definition FunctionColumnAttrTypes :: "(string \<times> attr_type) list" where
  "FunctionColumnAttrTypes =
     [(''name'', StringType), (''data_type'', StringType), (''comment'', StringType)]"

definition FunctionDefinitionAttrTypes :: "(string \<times> attr_type) list" where
  "FunctionDefinitionAttrTypes =
     [(''parameters'', ListType (ObjectType FunctionParamAttrTypes)), (''return_type'', StringType),
      (''return_columns'', ListType (ObjectType FunctionColumnAttrTypes)),
      (''impls'', ListType (ObjectType FunctionImplAttrTypes))]"

definition FunctionDefinitionObjectType :: attr_type where
  "FunctionDefinitionObjectType = ObjectType FunctionDefinitionAttrTypes"

definition FunctionDefinitionsListType :: attr_type where
  "FunctionDefinitionsListType = ListType FunctionDefinitionObjectType"

definition AllFunctionTypes :: "string list" where
  "AllFunctionTypes = [''SCALAR'', ''AGGREGATE'', ''TABLE'']"

definition jobTypes :: "string list" where
  "jobTypes = [''shell'', ''spark'']"

definition CatalogResourceModel_fields :: "(string \<times> go_type) list" where
  "CatalogResourceModel_fields =
     [(''id'', GoString), (''metalake'', GoString), (''name'', GoString), (''type'', GoString),
      (''catalog_provider'', GoString), (''comment'', GoString), (''properties'', GoMap),
      (''in_use'', GoBool), (''force_destroy'', GoBool), (''audit'', GoObject)]"

definition CatalogResource_Metadata :: "string \<Rightarrow> string" where
  "CatalogResource_Metadata providerTypeName = ''gravitino_catalog''"

definition CatalogResource_Schema :: schema where
  "CatalogResource_Schema =
     \<lparr>Attributes =
        [(''id'', Attribute StringType (computed\<lparr>PlanModifiers := [CompoundID [''metalake'',
            ''name'']]\<rparr>)),
         (''metalake'', Attribute StringType (required\<lparr>PlanModifiers := [RequiresReplace]\<rparr>)),
         (''name'', Attribute StringType required),
         (''type'', Attribute StringType (required\<lparr>PlanModifiers := [RequiresReplace],
             Validators := [OneOf [''relational'', ''fileset'', ''messaging'', ''model'']]\<rparr>)),
         (''catalog_provider'',
             Attribute StringType (optional_computed\<lparr>PlanModifiers := [UseStateForUnknown, RequiresReplace],
             Validators := [OneOf [''hive'', ''lakehouse-iceberg'', ''lakehouse-paimon'', ''lakehouse-hudi'',
             ''jdbc-mysql'', ''jdbc-postgresql'', ''jdbc-doris'', ''jdbc-oceanbase'', ''kafka'', ''fileset'',
             ''model'']]\<rparr>)),
         (''comment'', Attribute StringType (optional_computed\<lparr>PlanModifiers := [UseStateForUnknown]\<rparr>)),
         (''in_use'', Attribute BoolType (optional_computed\<lparr>PlanModifiers := [UseStateForUnknown]\<rparr>)),
         (''force_destroy'',
             Attribute BoolType (optional_computed\<lparr>Default := Some (StaticBool False)\<rparr>)),
         (''properties'', Attribute (MapType StringType) (optional_computed\<lparr>Sensitive := True,
             PlanModifiers := [UseStateForUnknown], Validators := [KeysAre (NoneOf [''in-use''])]\<rparr>)),
         (''audit'', Attribute (ObjectType AuditAttrTypes) computed)],
      Blocks = []\<rparr>"

definition FilesetResourceModel_fields :: "(string \<times> go_type) list" where
  "FilesetResourceModel_fields =
     [(''id'', GoString), (''metalake'', GoString), (''catalog'', GoString), (''schema'', GoString),
      (''name'', GoString), (''comment'', GoString), (''type'', GoString),
      (''storage_location'', GoString), (''properties'', GoMap), (''audit'', GoObject)]"

definition FilesetResource_Metadata :: "string \<Rightarrow> string" where
  "FilesetResource_Metadata providerTypeName = ''gravitino_fileset''"

definition FilesetResource_Schema :: schema where
  "FilesetResource_Schema =
     \<lparr>Attributes =
        [(''id'', Attribute StringType (computed\<lparr>PlanModifiers := [CompoundID [''metalake'', ''catalog'',
            ''schema'', ''name'']]\<rparr>)),
         (''metalake'', Attribute StringType (required\<lparr>PlanModifiers := [RequiresReplace]\<rparr>)),
         (''catalog'', Attribute StringType (required\<lparr>PlanModifiers := [RequiresReplace]\<rparr>)),
         (''schema'', Attribute StringType (required\<lparr>PlanModifiers := [RequiresReplace]\<rparr>)),
         (''name'', Attribute StringType required),
         (''comment'', Attribute StringType (optional_computed\<lparr>PlanModifiers := [UseStateForUnknown]\<rparr>)),
         (''type'', Attribute StringType (optional_computed\<lparr>PlanModifiers := [UseStateForUnknown,
             RequiresReplace], Validators := [OneOf [''managed'', ''external'']]\<rparr>)),
         (''storage_location'',
             Attribute StringType (optional_computed\<lparr>PlanModifiers := [UseStateForUnknown,
             RequiresReplace]\<rparr>)),
         (''properties'',
             Attribute (MapType StringType) (optional_computed\<lparr>PlanModifiers := [UseStateForUnknown]\<rparr>)),
         (''audit'', Attribute (ObjectType AuditAttrTypes) computed)],
      Blocks = []\<rparr>"

definition FunctionResourceModel_fields :: "(string \<times> go_type) list" where
  "FunctionResourceModel_fields =
     [(''id'', GoString), (''metalake'', GoString), (''catalog'', GoString), (''schema'', GoString),
      (''name'', GoString), (''function_type'', GoString), (''deterministic'', GoBool),
      (''comment'', GoString), (''definitions'', GoList), (''audit'', GoObject)]"

definition FunctionResource_Metadata :: "string \<Rightarrow> string" where
  "FunctionResource_Metadata providerTypeName = ''gravitino_function''"

definition FunctionResource_Schema :: schema where
  "FunctionResource_Schema =
     \<lparr>Attributes =
        [(''id'', Attribute StringType (computed\<lparr>PlanModifiers := [UseStateForUnknown]\<rparr>)),
         (''metalake'', Attribute StringType (required\<lparr>PlanModifiers := [RequiresReplace]\<rparr>)),
         (''catalog'', Attribute StringType (required\<lparr>PlanModifiers := [RequiresReplace]\<rparr>)),
         (''schema'', Attribute StringType (required\<lparr>PlanModifiers := [RequiresReplace]\<rparr>)),
         (''name'', Attribute StringType (required\<lparr>PlanModifiers := [RequiresReplace]\<rparr>)),
         (''function_type'', Attribute StringType (required\<lparr>PlanModifiers := [RequiresReplace],
             Validators := [OneOf AllFunctionTypes]\<rparr>)),
         (''deterministic'', Attribute BoolType (optional_computed\<lparr>PlanModifiers := [RequiresReplace],
             Default := Some (StaticBool False)\<rparr>)),
         (''comment'', Attribute StringType (optional\<lparr>PlanModifiers := [CommentModifier]\<rparr>)),
         (''definitions'', ListNestedAttribute
           [(''parameters'', ListNestedAttribute
              [(''name'', Attribute StringType required),
               (''data_type'', Attribute StringType required),
               (''comment'', Attribute StringType optional),
               (''default_value'', Attribute StringType optional)]
              optional),
            (''return_type'', Attribute StringType optional),
            (''return_columns'', ListNestedAttribute
              [(''name'', Attribute StringType required),
               (''data_type'', Attribute StringType required),
               (''comment'', Attribute StringType optional)]
              optional),
            (''impls'', ListNestedAttribute
              [(''language'',
                  Attribute StringType (required\<lparr>Validators := [OneOf AllFunctionLanguages]\<rparr>)),
               (''runtime'', Attribute StringType (required\<lparr>Validators := [OneOf AllFunctionRuntimes]\<rparr>)),
               (''sql'', Attribute StringType optional),
               (''class_name'', Attribute StringType optional),
               (''handler'', Attribute StringType optional),
               (''code_block'', Attribute StringType optional),
               (''resources'', SingleNestedAttribute
                 [(''jars'', Attribute (ListType StringType) optional),
                  (''files'', Attribute (ListType StringType) optional),
                  (''archives'', Attribute (ListType StringType) optional)]
                 optional),
               (''properties'', Attribute (MapType StringType) optional)]
              optional)]
           (required\<lparr>Validators := [SizeAtLeast 1]\<rparr>)),
         (''audit'', Attribute (ObjectType AuditAttrTypes) computed)],
      Blocks = []\<rparr>"

definition GroupResourceModel_fields :: "(string \<times> go_type) list" where
  "GroupResourceModel_fields =
     [(''id'', GoString), (''metalake'', GoString), (''name'', GoString), (''roles'', GoSet),
      (''audit'', GoObject)]"

definition GroupResource_Metadata :: "string \<Rightarrow> string" where
  "GroupResource_Metadata providerTypeName = ''gravitino_group''"

definition GroupResource_Schema :: schema where
  "GroupResource_Schema =
     \<lparr>Attributes =
        [(''id'', Attribute StringType (computed\<lparr>PlanModifiers := [UseStateForUnknown]\<rparr>)),
         (''metalake'', Attribute StringType (required\<lparr>PlanModifiers := [RequiresReplace]\<rparr>)),
         (''name'', Attribute StringType (required\<lparr>PlanModifiers := [RequiresReplace]\<rparr>)),
         (''roles'', Attribute (SetType StringType) (optional_computed\<lparr>PlanModifiers := [UseStateForUnknown]\<rparr>)),
         (''audit'', Attribute (ObjectType AuditAttrTypes) computed)],
      Blocks = []\<rparr>"

definition IdpGroupResourceModel_fields :: "(string \<times> go_type) list" where
  "IdpGroupResourceModel_fields =
     [(''id'', GoString), (''name'', GoString), (''users'', GoSet)]"

definition IdpGroupResource_Metadata :: "string \<Rightarrow> string" where
  "IdpGroupResource_Metadata providerTypeName = ''gravitino_idp_group''"

definition IdpGroupResource_Schema :: schema where
  "IdpGroupResource_Schema =
     \<lparr>Attributes =
        [(''id'', Attribute StringType (computed\<lparr>PlanModifiers := [UseStateForUnknown]\<rparr>)),
         (''name'', Attribute StringType (required\<lparr>PlanModifiers := [RequiresReplace]\<rparr>)),
         (''users'', Attribute (SetType StringType) (optional_computed\<lparr>PlanModifiers := [UseStateForUnknown]\<rparr>))],
      Blocks = []\<rparr>"

definition IdpUserResourceModel_fields :: "(string \<times> go_type) list" where
  "IdpUserResourceModel_fields =
     [(''id'', GoString), (''name'', GoString), (''password'', GoString), (''groups'', GoSet)]"

definition IdpUserResource_Metadata :: "string \<Rightarrow> string" where
  "IdpUserResource_Metadata providerTypeName = ''gravitino_idp_user''"

definition IdpUserResource_Schema :: schema where
  "IdpUserResource_Schema =
     \<lparr>Attributes =
        [(''id'', Attribute StringType (computed\<lparr>PlanModifiers := [UseStateForUnknown]\<rparr>)),
         (''name'', Attribute StringType (required\<lparr>PlanModifiers := [RequiresReplace]\<rparr>)),
         (''password'', Attribute StringType (required\<lparr>Sensitive := True\<rparr>)),
         (''groups'', Attribute (SetType StringType) computed)],
      Blocks = []\<rparr>"

definition JobResourceModel_fields :: "(string \<times> go_type) list" where
  "JobResourceModel_fields =
     [(''id'', GoString), (''metalake'', GoString), (''job_template'', GoString), (''job_conf'', GoMap),
      (''job_id'', GoString), (''status'', GoString), (''queued_at'', GoString),
      (''started_at'', GoString), (''finished_at'', GoString), (''audit'', GoObject)]"

definition JobResource_Metadata :: "string \<Rightarrow> string" where
  "JobResource_Metadata providerTypeName = ''gravitino_job''"

definition JobResource_Schema :: schema where
  "JobResource_Schema =
     \<lparr>Attributes =
        [(''id'', Attribute StringType (computed\<lparr>PlanModifiers := [UseStateForUnknown]\<rparr>)),
         (''metalake'', Attribute StringType (required\<lparr>PlanModifiers := [RequiresReplace]\<rparr>)),
         (''job_template'', Attribute StringType (required\<lparr>PlanModifiers := [RequiresReplace]\<rparr>)),
         (''job_conf'', Attribute (MapType StringType) (optional\<lparr>PlanModifiers := [RequiresReplace]\<rparr>)),
         (''job_id'', Attribute StringType (computed\<lparr>PlanModifiers := [UseStateForUnknown]\<rparr>)),
         (''status'', Attribute StringType (computed\<lparr>PlanModifiers := [UseStateForUnknown]\<rparr>)),
         (''queued_at'', Attribute StringType (computed\<lparr>PlanModifiers := [UseStateForUnknown]\<rparr>)),
         (''started_at'', Attribute StringType (computed\<lparr>PlanModifiers := [UseStateForUnknown]\<rparr>)),
         (''finished_at'', Attribute StringType (computed\<lparr>PlanModifiers := [UseStateForUnknown]\<rparr>)),
         (''audit'', Attribute (ObjectType AuditAttrTypes) (computed\<lparr>PlanModifiers := [UseStateForUnknown]\<rparr>))],
      Blocks = []\<rparr>"

definition JobTemplateResourceModel_fields :: "(string \<times> go_type) list" where
  "JobTemplateResourceModel_fields =
     [(''id'', GoString), (''metalake'', GoString), (''name'', GoString), (''job_type'', GoString),
      (''comment'', GoString), (''executable'', GoString), (''arguments'', GoList),
      (''environments'', GoMap), (''custom_fields'', GoMap), (''scripts'', GoList),
      (''class_name'', GoString), (''jars'', GoList), (''files'', GoList), (''archives'', GoList),
      (''configs'', GoMap), (''audit'', GoObject)]"

definition JobTemplateResource_Metadata :: "string \<Rightarrow> string" where
  "JobTemplateResource_Metadata providerTypeName = ''gravitino_job_template''"

definition JobTemplateResource_Schema :: schema where
  "JobTemplateResource_Schema =
     \<lparr>Attributes =
        [(''id'', Attribute StringType (computed\<lparr>PlanModifiers := [CompoundID [''metalake'',
            ''name'']]\<rparr>)),
         (''metalake'', Attribute StringType (required\<lparr>PlanModifiers := [RequiresReplace]\<rparr>)),
         (''name'', Attribute StringType required),
         (''job_type'', Attribute StringType (required\<lparr>PlanModifiers := [RequiresReplace],
             Validators := [OneOf jobTypes]\<rparr>)),
         (''comment'', Attribute StringType optional),
         (''executable'', Attribute StringType required),
         (''arguments'', Attribute (ListType StringType) optional),
         (''environments'', Attribute (MapType StringType) optional),
         (''custom_fields'', Attribute (MapType StringType) optional),
         (''scripts'', Attribute (ListType StringType) optional),
         (''class_name'', Attribute StringType optional),
         (''jars'', Attribute (ListType StringType) optional),
         (''files'', Attribute (ListType StringType) optional),
         (''archives'', Attribute (ListType StringType) optional),
         (''configs'', Attribute (MapType StringType) optional),
         (''audit'', Attribute (ObjectType AuditAttrTypes) computed)],
      Blocks = []\<rparr>"

definition MetalakeResourceModel_fields :: "(string \<times> go_type) list" where
  "MetalakeResourceModel_fields =
     [(''id'', GoString), (''name'', GoString), (''comment'', GoString), (''properties'', GoMap),
      (''in_use'', GoBool), (''force_destroy'', GoBool), (''audit'', GoObject)]"

definition MetalakeResource_Metadata :: "string \<Rightarrow> string" where
  "MetalakeResource_Metadata providerTypeName = providerTypeName @ ''_metalake''"

definition MetalakeResource_Schema :: schema where
  "MetalakeResource_Schema =
     \<lparr>Attributes =
        [(''id'', Attribute StringType (computed\<lparr>PlanModifiers := [CompoundID [''name'']]\<rparr>)),
         (''name'', Attribute StringType required),
         (''comment'', Attribute StringType (optional_computed\<lparr>PlanModifiers := [UseStateForUnknown]\<rparr>)),
         (''in_use'', Attribute BoolType (optional_computed\<lparr>PlanModifiers := [UseStateForUnknown]\<rparr>)),
         (''force_destroy'',
             Attribute BoolType (optional_computed\<lparr>Default := Some (StaticBool False)\<rparr>)),
         (''properties'',
             Attribute (MapType StringType) (optional_computed\<lparr>PlanModifiers := [UseStateForUnknown],
             Validators := [KeysAre (NoneOf [''in-use'', ''gravitino.identifier''])]\<rparr>)),
         (''audit'', Attribute (ObjectType AuditAttrTypes) computed)],
      Blocks = []\<rparr>"

definition ModelResourceModel_fields :: "(string \<times> go_type) list" where
  "ModelResourceModel_fields =
     [(''id'', GoString), (''metalake'', GoString), (''catalog'', GoString), (''schema'', GoString),
      (''name'', GoString), (''comment'', GoString), (''latest_version'', GoInt64),
      (''properties'', GoMap), (''audit'', GoObject)]"

definition ModelResource_Metadata :: "string \<Rightarrow> string" where
  "ModelResource_Metadata providerTypeName = ''gravitino_model''"

definition ModelResource_Schema :: schema where
  "ModelResource_Schema =
     \<lparr>Attributes =
        [(''id'', Attribute StringType (computed\<lparr>PlanModifiers := [CompoundID [''metalake'', ''catalog'',
            ''schema'', ''name'']]\<rparr>)),
         (''metalake'', Attribute StringType (required\<lparr>PlanModifiers := [RequiresReplace]\<rparr>)),
         (''catalog'', Attribute StringType (required\<lparr>PlanModifiers := [RequiresReplace]\<rparr>)),
         (''schema'', Attribute StringType (required\<lparr>PlanModifiers := [RequiresReplace]\<rparr>)),
         (''name'', Attribute StringType required),
         (''comment'', Attribute StringType optional),
         (''latest_version'', Attribute Int64Type computed),
         (''properties'', Attribute (MapType StringType) optional),
         (''audit'', Attribute (ObjectType AuditAttrTypes) computed)],
      Blocks = []\<rparr>"

definition ModelVersionResourceModel_fields :: "(string \<times> go_type) list" where
  "ModelVersionResourceModel_fields =
     [(''id'', GoString), (''metalake'', GoString), (''catalog'', GoString), (''schema'', GoString),
      (''model'', GoString), (''version'', GoInt64), (''uri'', GoString), (''uris'', GoMap),
      (''aliases'', GoSet), (''comment'', GoString), (''properties'', GoMap), (''audit'', GoObject)]"

definition ModelVersionResource_Metadata :: "string \<Rightarrow> string" where
  "ModelVersionResource_Metadata providerTypeName = ''gravitino_model_version''"

definition ModelVersionResource_Schema :: schema where
  "ModelVersionResource_Schema =
     \<lparr>Attributes =
        [(''id'', Attribute StringType (computed\<lparr>PlanModifiers := [UseStateForUnknown]\<rparr>)),
         (''metalake'', Attribute StringType (required\<lparr>PlanModifiers := [RequiresReplace]\<rparr>)),
         (''catalog'', Attribute StringType (required\<lparr>PlanModifiers := [RequiresReplace]\<rparr>)),
         (''schema'', Attribute StringType (required\<lparr>PlanModifiers := [RequiresReplace]\<rparr>)),
         (''model'', Attribute StringType (required\<lparr>PlanModifiers := [RequiresReplace]\<rparr>)),
         (''version'', Attribute Int64Type (computed\<lparr>PlanModifiers := [UseStateForUnknown]\<rparr>)),
         (''uri'', Attribute StringType optional_computed),
         (''uris'', Attribute (MapType StringType) optional_computed),
         (''aliases'', Attribute (SetType StringType) optional_computed),
         (''comment'', Attribute StringType optional_computed),
         (''properties'', Attribute (MapType StringType) optional_computed),
         (''audit'', Attribute (ObjectType AuditAttrTypes) computed)],
      Blocks = []\<rparr>"

definition OwnerResourceModel_fields :: "(string \<times> go_type) list" where
  "OwnerResourceModel_fields =
     [(''id'', GoString), (''metalake'', GoString), (''object_type'', GoString),
      (''object_full_name'', GoString), (''owner_name'', GoString), (''owner_type'', GoString)]"

definition OwnerResource_Metadata :: "string \<Rightarrow> string" where
  "OwnerResource_Metadata providerTypeName = ''gravitino_owner''"

definition OwnerResource_Schema :: schema where
  "OwnerResource_Schema =
     \<lparr>Attributes =
        [(''id'', Attribute StringType (computed\<lparr>PlanModifiers := [UseStateForUnknown]\<rparr>)),
         (''metalake'', Attribute StringType (required\<lparr>PlanModifiers := [RequiresReplace]\<rparr>)),
         (''object_type'', Attribute StringType (required\<lparr>PlanModifiers := [RequiresReplace],
             Validators := [OneOf OwnerObjectTypes]\<rparr>)),
         (''object_full_name'', Attribute StringType (required\<lparr>PlanModifiers := [RequiresReplace]\<rparr>)),
         (''owner_name'', Attribute StringType required),
         (''owner_type'', Attribute StringType (required\<lparr>Validators := [OneOf [''USER'',
             ''GROUP'']]\<rparr>))],
      Blocks = []\<rparr>"

definition PartitionResourceModel_fields :: "(string \<times> go_type) list" where
  "PartitionResourceModel_fields =
     [(''id'', GoString), (''metalake'', GoString), (''catalog'', GoString), (''schema'', GoString),
      (''table'', GoString), (''type'', GoString), (''name'', GoString), (''field_names'', GoList),
      (''values'', GoList), (''upper'', GoObject), (''lower'', GoObject), (''lists'', GoList),
      (''properties'', GoMap)]"

definition PartitionResource_Metadata :: "string \<Rightarrow> string" where
  "PartitionResource_Metadata providerTypeName = ''gravitino_partition''"

definition PartitionResource_Schema :: schema where
  "PartitionResource_Schema =
     \<lparr>Attributes =
        [(''id'', Attribute StringType (computed\<lparr>PlanModifiers := [CompoundID [''metalake'', ''catalog'',
            ''schema'', ''table'', ''name'']]\<rparr>)),
         (''metalake'', Attribute StringType (required\<lparr>PlanModifiers := [RequiresReplace]\<rparr>)),
         (''catalog'', Attribute StringType (required\<lparr>PlanModifiers := [RequiresReplace]\<rparr>)),
         (''schema'', Attribute StringType (required\<lparr>PlanModifiers := [RequiresReplace]\<rparr>)),
         (''table'', Attribute StringType (required\<lparr>PlanModifiers := [RequiresReplace]\<rparr>)),
         (''type'', Attribute StringType (required\<lparr>PlanModifiers := [RequiresReplace],
             Validators := [OneOf [''identity'', ''range'', ''list'']]\<rparr>)),
         (''name'', Attribute StringType (optional_computed\<lparr>PlanModifiers := [RequiresReplace]\<rparr>)),
         (''field_names'',
             Attribute (ListType (ListType StringType)) (optional\<lparr>PlanModifiers := [RequiresReplace]\<rparr>)),
         (''values'', Attribute (ListType (ObjectType PartitionLiteralAttrTypes)) (optional\<lparr>PlanModifiers := [RequiresReplace]\<rparr>)),
         (''upper'', Attribute (ObjectType PartitionLiteralAttrTypes) (optional\<lparr>PlanModifiers := [RequiresReplace]\<rparr>)),
         (''lower'', Attribute (ObjectType PartitionLiteralAttrTypes) (optional\<lparr>PlanModifiers := [RequiresReplace]\<rparr>)),
         (''lists'', Attribute (ListType (ListType (ObjectType PartitionLiteralAttrTypes))) (optional\<lparr>PlanModifiers := [RequiresReplace]\<rparr>)),
         (''properties'',
             Attribute (MapType StringType) (optional_computed\<lparr>PlanModifiers := [RequiresReplace]\<rparr>))],
      Blocks = []\<rparr>"

definition PolicyAssociationResourceModel_fields :: "(string \<times> go_type) list" where
  "PolicyAssociationResourceModel_fields =
     [(''id'', GoString), (''metalake'', GoString), (''object_type'', GoString),
      (''object_full_name'', GoString), (''policies'', GoSet)]"

definition PolicyAssociationResource_Metadata :: "string \<Rightarrow> string" where
  "PolicyAssociationResource_Metadata providerTypeName = ''gravitino_policy_association''"

definition PolicyAssociationResource_Schema :: schema where
  "PolicyAssociationResource_Schema =
     \<lparr>Attributes =
        [(''id'', Attribute StringType (computed\<lparr>PlanModifiers := [CompoundID [''metalake'',
            ''object_type'', ''object_full_name'']]\<rparr>)),
         (''metalake'', Attribute StringType (required\<lparr>PlanModifiers := [RequiresReplace]\<rparr>)),
         (''object_type'', Attribute StringType (required\<lparr>PlanModifiers := [RequiresReplace],
             Validators := [OneOf PolicyObjectTypes]\<rparr>)),
         (''object_full_name'', Attribute StringType (required\<lparr>PlanModifiers := [RequiresReplace]\<rparr>)),
         (''policies'', Attribute (SetType StringType) required)],
      Blocks = []\<rparr>"

definition PolicyResourceModel_fields :: "(string \<times> go_type) list" where
  "PolicyResourceModel_fields =
     [(''id'', GoString), (''metalake'', GoString), (''name'', GoString), (''comment'', GoString),
      (''policy_type'', GoString), (''enabled'', GoBool), (''supported_object_types'', GoSet),
      (''properties'', GoMap), (''custom_rules'', GoMap), (''audit'', GoObject)]"

definition PolicyResource_Metadata :: "string \<Rightarrow> string" where
  "PolicyResource_Metadata providerTypeName = ''gravitino_policy''"

definition PolicyResource_Schema :: schema where
  "PolicyResource_Schema =
     \<lparr>Attributes =
        [(''id'', Attribute StringType (computed\<lparr>PlanModifiers := [CompoundID [''metalake'',
            ''name'']]\<rparr>)),
         (''metalake'', Attribute StringType (required\<lparr>PlanModifiers := [RequiresReplace]\<rparr>)),
         (''name'', Attribute StringType required),
         (''comment'', Attribute StringType (optional_computed\<lparr>PlanModifiers := [UseStateForUnknown]\<rparr>)),
         (''policy_type'', Attribute StringType (optional_computed\<lparr>PlanModifiers := [UseStateForUnknown,
             RequiresReplace], Validators := [OneOf [''custom'']],
             Default := Some (StaticString ''custom'')\<rparr>)),
         (''enabled'', Attribute BoolType (optional_computed\<lparr>PlanModifiers := [UseStateForUnknown],
             Default := Some (StaticBool True)\<rparr>)),
         (''supported_object_types'', Attribute (SetType StringType) (required\<lparr>Validators := [SizeAtLeast 1,
             ValueStringsAre (OneOf PolicyObjectTypes)]\<rparr>)),
         (''properties'',
             Attribute (MapType StringType) (optional_computed\<lparr>PlanModifiers := [UseStateForUnknown]\<rparr>)),
         (''custom_rules'',
             Attribute (MapType StringType) (optional_computed\<lparr>PlanModifiers := [UseStateForUnknown]\<rparr>)),
         (''audit'', Attribute (ObjectType AuditAttrTypes) computed)],
      Blocks = []\<rparr>"

definition PrivilegeAttrTypes :: "(string \<times> attr_type) list" where
  "PrivilegeAttrTypes =
     [(''name'', StringType), (''condition'', StringType)]"

definition SecurableObjectAttrTypes :: "(string \<times> attr_type) list" where
  "SecurableObjectAttrTypes =
     [(''full_name'', StringType), (''type'', StringType),
      (''privileges'', SetType (ObjectType PrivilegeAttrTypes))]"

definition RoleResourceModel_fields :: "(string \<times> go_type) list" where
  "RoleResourceModel_fields =
     [(''id'', GoString), (''metalake'', GoString), (''name'', GoString), (''properties'', GoMap),
      (''securable_objects'', GoSet), (''audit'', GoObject)]"

definition RoleResource_Metadata :: "string \<Rightarrow> string" where
  "RoleResource_Metadata providerTypeName = ''gravitino_role''"

definition RoleResource_Schema :: schema where
  "RoleResource_Schema =
     \<lparr>Attributes =
        [(''id'', Attribute StringType (computed\<lparr>PlanModifiers := [UseStateForUnknown]\<rparr>)),
         (''metalake'', Attribute StringType (required\<lparr>PlanModifiers := [RequiresReplace]\<rparr>)),
         (''name'', Attribute StringType (required\<lparr>PlanModifiers := [RequiresReplace]\<rparr>)),
         (''properties'',
             Attribute (MapType StringType) (optional_computed\<lparr>PlanModifiers := [UseStateForUnknown,
             RequiresReplaceIfConfigured]\<rparr>)),
         (''securable_objects'', SetNestedAttribute
           [(''full_name'', Attribute StringType required),
            (''type'', Attribute StringType (required\<lparr>Validators := [OneOf AllObjectTypes]\<rparr>)),
            (''privileges'', SetNestedAttribute
              [(''name'', Attribute StringType (required\<lparr>Validators := [OneOf AllPrivileges]\<rparr>)),
               (''condition'', Attribute StringType (required\<lparr>Validators := [OneOf [''ALLOW'',
                   ''DENY'']]\<rparr>))]
              required)]
           optional_computed),
         (''audit'', Attribute (ObjectType AuditAttrTypes) computed)],
      Blocks = []\<rparr>"

definition SchemaResourceModel_fields :: "(string \<times> go_type) list" where
  "SchemaResourceModel_fields =
     [(''id'', GoString), (''metalake'', GoString), (''catalog'', GoString), (''name'', GoString),
      (''comment'', GoString), (''properties'', GoMap), (''audit'', GoObject)]"

definition SchemaResource_Metadata :: "string \<Rightarrow> string" where
  "SchemaResource_Metadata providerTypeName = ''gravitino_schema''"

definition SchemaResource_Schema :: schema where
  "SchemaResource_Schema =
     \<lparr>Attributes =
        [(''id'', Attribute StringType (computed\<lparr>PlanModifiers := [UseStateForUnknown]\<rparr>)),
         (''metalake'', Attribute StringType (required\<lparr>PlanModifiers := [RequiresReplace]\<rparr>)),
         (''catalog'', Attribute StringType (required\<lparr>PlanModifiers := [RequiresReplace]\<rparr>)),
         (''name'', Attribute StringType (required\<lparr>PlanModifiers := [RequiresReplace]\<rparr>)),
         (''comment'', Attribute StringType (optional\<lparr>PlanModifiers := [RequiresReplace]\<rparr>)),
         (''properties'', Attribute (MapType StringType) optional),
         (''audit'', Attribute (ObjectType AuditAttrTypes) computed)],
      Blocks = []\<rparr>"

definition StatisticsResourceModel_fields :: "(string \<times> go_type) list" where
  "StatisticsResourceModel_fields =
     [(''id'', GoString), (''metalake'', GoString), (''object_type'', GoString),
      (''object_full_name'', GoString), (''statistics'', GoMap)]"

definition StatisticsResource_Metadata :: "string \<Rightarrow> string" where
  "StatisticsResource_Metadata providerTypeName = ''gravitino_statistics''"

definition StatisticsResource_Schema :: schema where
  "StatisticsResource_Schema =
     \<lparr>Attributes =
        [(''id'', Attribute StringType (computed\<lparr>PlanModifiers := [CompoundID [''metalake'',
            ''object_type'', ''object_full_name'']]\<rparr>)),
         (''metalake'', Attribute StringType (required\<lparr>PlanModifiers := [RequiresReplace]\<rparr>)),
         (''object_type'', Attribute StringType (required\<lparr>PlanModifiers := [RequiresReplace],
             Validators := [OneOf StatisticsObjectTypes]\<rparr>)),
         (''object_full_name'', Attribute StringType (required\<lparr>PlanModifiers := [RequiresReplace]\<rparr>)),
         (''statistics'',
             Attribute (MapType StringType) (required\<lparr>Validators := [StatisticNameValidator]\<rparr>))],
      Blocks = []\<rparr>"

definition PartitionStatisticsResourceModel_fields :: "(string \<times> go_type) list" where
  "PartitionStatisticsResourceModel_fields =
     [(''id'', GoString), (''metalake'', GoString), (''catalog'', GoString), (''schema'', GoString),
      (''table'', GoString), (''partitions'', GoMap)]"

definition PartitionStatisticsResource_Metadata :: "string \<Rightarrow> string" where
  "PartitionStatisticsResource_Metadata providerTypeName = ''gravitino_partition_statistics''"

definition PartitionStatisticsResource_Schema :: schema where
  "PartitionStatisticsResource_Schema =
     \<lparr>Attributes =
        [(''id'', Attribute StringType (computed\<lparr>PlanModifiers := [CompoundID [''metalake'', ''catalog'',
            ''schema'', ''table'']]\<rparr>)),
         (''metalake'', Attribute StringType (required\<lparr>PlanModifiers := [RequiresReplace]\<rparr>)),
         (''catalog'', Attribute StringType (required\<lparr>PlanModifiers := [RequiresReplace]\<rparr>)),
         (''schema'', Attribute StringType (required\<lparr>PlanModifiers := [RequiresReplace]\<rparr>)),
         (''table'', Attribute StringType (required\<lparr>PlanModifiers := [RequiresReplace]\<rparr>)),
         (''partitions'',
             Attribute (MapType (MapType StringType)) (required\<lparr>Validators := [PartitionStatisticsValidator]\<rparr>))],
      Blocks = []\<rparr>"

definition TableResourceTFModel_fields :: "(string \<times> go_type) list" where
  "TableResourceTFModel_fields =
     [(''metalake'', GoString), (''catalog'', GoString), (''schema'', GoString), (''name'', GoString),
      (''comment'', GoString), (''properties'', GoMap), (''id'', GoString), (''audit'', GoObject),
      (''column'', GoList), (''sort_order'', GoList), (''distribution'', GoObject),
      (''partitioning'', GoList), (''index'', GoList)]"

definition tableResource_Metadata :: "string \<Rightarrow> string" where
  "tableResource_Metadata providerTypeName = providerTypeName @ ''_table''"

definition tableResource_Schema :: schema where
  "tableResource_Schema =
     \<lparr>Attributes =
        [(''metalake'', Attribute StringType (required\<lparr>PlanModifiers := [RequiresReplace]\<rparr>)),
         (''catalog'', Attribute StringType (required\<lparr>PlanModifiers := [RequiresReplace]\<rparr>)),
         (''schema'', Attribute StringType (required\<lparr>PlanModifiers := [RequiresReplace]\<rparr>)),
         (''name'', Attribute StringType required),
         (''comment'', Attribute StringType optional),
         (''properties'',
             Attribute (MapType StringType) (optional_computed\<lparr>PlanModifiers := [UseStateForUnknown]\<rparr>)),
         (''id'', Attribute StringType (computed\<lparr>PlanModifiers := [CompoundID [''metalake'', ''catalog'',
             ''schema'', ''name'']]\<rparr>)),
         (''audit'', Attribute (ObjectType AuditAttrTypes) computed)],
      Blocks =
        [(''column'', ListNestedBlock
           [(''name'', Attribute StringType required),
            (''type'', Attribute StringType (required\<lparr>Validators := [DataTypeStringValidator]\<rparr>)),
            (''comment'', Attribute StringType optional),
            (''nullable'', Attribute BoolType (optional_computed\<lparr>Default := Some (StaticBool True)\<rparr>)),
            (''auto_increment'',
                Attribute BoolType (optional_computed\<lparr>Default := Some (StaticBool False)\<rparr>)),
            (''default_value'', Attribute StringType optional)]
           [] unset),
         (''sort_order'', ListNestedBlock
           [(''field_name'', Attribute (ListType StringType) required),
            (''direction'', Attribute StringType (optional_computed\<lparr>Validators := [OneOf [''asc'',
                ''desc'']], Default := Some (StaticString ''asc'')\<rparr>)),
            (''null_ordering'',
                Attribute StringType (optional_computed\<lparr>Validators := [OneOf [''nulls_first'',
                ''nulls_last'']]\<rparr>))]
           [] unset),
         (''distribution'', SingleNestedBlock
           [(''strategy'', Attribute StringType (optional_computed\<lparr>Validators := [OneOf [''hash'',
               ''range'', ''even'']], Default := Some (StaticString ''hash'')\<rparr>)),
            (''number'', Attribute Int64Type optional),
            (''func_args'', Attribute (ListType StringType) optional)]
           [] unset),
         (''partitioning'', ListNestedBlock
           [(''strategy'', Attribute StringType (required\<lparr>Validators := [OneOf [''identity'', ''year'',
               ''month'', ''day'', ''hour'', ''bucket'', ''truncate'', ''list'', ''range'', ''function'']]\<rparr>)),
            (''field_name'', Attribute (ListType StringType) optional),
            (''field_names'', Attribute (ListType (ListType StringType)) optional),
            (''num_buckets'', Attribute Int64Type optional),
            (''width'', Attribute Int64Type optional),
            (''func_name'', Attribute StringType optional),
            (''func_args'', Attribute (ListType StringType) optional)]
           [] unset),
         (''index'', ListNestedBlock
           [(''index_type'', Attribute StringType (required\<lparr>Validators := [OneOf [''primary_key'',
               ''unique_key'', ''data_skipping_minmax'', ''data_skipping_bloom_filter'',
               ''data_skipping_set'']]\<rparr>)),
            (''name'', Attribute StringType optional_computed),
            (''field_names'', Attribute (ListType (ListType StringType)) required),
            (''properties'', Attribute (MapType StringType) optional)]
           [] unset)]\<rparr>"

definition TagAssociationResourceModel_fields :: "(string \<times> go_type) list" where
  "TagAssociationResourceModel_fields =
     [(''id'', GoString), (''metalake'', GoString), (''object_type'', GoString),
      (''object_full_name'', GoString), (''tags'', GoSet)]"

definition TagAssociationResource_Metadata :: "string \<Rightarrow> string" where
  "TagAssociationResource_Metadata providerTypeName = ''gravitino_tag_association''"

definition TagAssociationResource_Schema :: schema where
  "TagAssociationResource_Schema =
     \<lparr>Attributes =
        [(''id'', Attribute StringType (computed\<lparr>PlanModifiers := [CompoundID [''metalake'',
            ''object_type'', ''object_full_name'']]\<rparr>)),
         (''metalake'', Attribute StringType (required\<lparr>PlanModifiers := [RequiresReplace]\<rparr>)),
         (''object_type'', Attribute StringType (required\<lparr>PlanModifiers := [RequiresReplace],
             Validators := [OneOf TagObjectTypes]\<rparr>)),
         (''object_full_name'', Attribute StringType (required\<lparr>PlanModifiers := [RequiresReplace]\<rparr>)),
         (''tags'', Attribute (SetType StringType) required)],
      Blocks = []\<rparr>"

definition TagResourceModel_fields :: "(string \<times> go_type) list" where
  "TagResourceModel_fields =
     [(''id'', GoString), (''metalake'', GoString), (''name'', GoString), (''comment'', GoString),
      (''properties'', GoMap), (''audit'', GoObject), (''inherited'', GoBool)]"

definition TagResource_Metadata :: "string \<Rightarrow> string" where
  "TagResource_Metadata providerTypeName = ''gravitino_tag''"

definition TagResource_Schema :: schema where
  "TagResource_Schema =
     \<lparr>Attributes =
        [(''id'', Attribute StringType (computed\<lparr>PlanModifiers := [CompoundID [''metalake'',
            ''name'']]\<rparr>)),
         (''metalake'', Attribute StringType (required\<lparr>PlanModifiers := [RequiresReplace]\<rparr>)),
         (''name'', Attribute StringType required),
         (''comment'', Attribute StringType (optional_computed\<lparr>PlanModifiers := [UseStateForUnknown]\<rparr>)),
         (''properties'',
             Attribute (MapType StringType) (optional_computed\<lparr>PlanModifiers := [UseStateForUnknown]\<rparr>)),
         (''audit'', Attribute (ObjectType AuditAttrTypes) computed),
         (''inherited'', Attribute BoolType (computed\<lparr>PlanModifiers := [UseStateForUnknown]\<rparr>))],
      Blocks = []\<rparr>"

definition TopicResourceModel_fields :: "(string \<times> go_type) list" where
  "TopicResourceModel_fields =
     [(''id'', GoString), (''metalake'', GoString), (''catalog'', GoString), (''schema'', GoString),
      (''name'', GoString), (''comment'', GoString), (''properties'', GoMap), (''audit'', GoObject)]"

definition TopicResource_Metadata :: "string \<Rightarrow> string" where
  "TopicResource_Metadata providerTypeName = ''gravitino_topic''"

definition TopicResource_Schema :: schema where
  "TopicResource_Schema =
     \<lparr>Attributes =
        [(''id'', Attribute StringType (computed\<lparr>PlanModifiers := [UseStateForUnknown]\<rparr>)),
         (''metalake'', Attribute StringType (required\<lparr>PlanModifiers := [RequiresReplace]\<rparr>)),
         (''catalog'', Attribute StringType (required\<lparr>PlanModifiers := [RequiresReplace]\<rparr>)),
         (''schema'', Attribute StringType (required\<lparr>PlanModifiers := [RequiresReplace]\<rparr>)),
         (''name'', Attribute StringType (required\<lparr>PlanModifiers := [RequiresReplace]\<rparr>)),
         (''comment'', Attribute StringType optional),
         (''properties'',
             Attribute (MapType StringType) (optional_computed\<lparr>PlanModifiers := [UseStateForUnknown]\<rparr>)),
         (''audit'', Attribute (ObjectType AuditAttrTypes) computed)],
      Blocks = []\<rparr>"

definition UserResourceModel_fields :: "(string \<times> go_type) list" where
  "UserResourceModel_fields =
     [(''id'', GoString), (''metalake'', GoString), (''name'', GoString), (''roles'', GoSet),
      (''audit'', GoObject)]"

definition UserResource_Metadata :: "string \<Rightarrow> string" where
  "UserResource_Metadata providerTypeName = ''gravitino_user''"

definition UserResource_Schema :: schema where
  "UserResource_Schema =
     \<lparr>Attributes =
        [(''id'', Attribute StringType (computed\<lparr>PlanModifiers := [UseStateForUnknown]\<rparr>)),
         (''metalake'', Attribute StringType (required\<lparr>PlanModifiers := [RequiresReplace]\<rparr>)),
         (''name'', Attribute StringType (required\<lparr>PlanModifiers := [RequiresReplace]\<rparr>)),
         (''roles'', Attribute (SetType StringType) (optional_computed\<lparr>PlanModifiers := [UseStateForUnknown]\<rparr>)),
         (''audit'', Attribute (ObjectType AuditAttrTypes) computed)],
      Blocks = []\<rparr>"

definition ViewResourceTFModel_fields :: "(string \<times> go_type) list" where
  "ViewResourceTFModel_fields =
     [(''id'', GoString), (''metalake'', GoString), (''catalog'', GoString), (''schema'', GoString),
      (''name'', GoString), (''comment'', GoString), (''column'', GoList), (''representation'', GoList),
      (''default_catalog'', GoString), (''default_schema'', GoString), (''properties'', GoMap),
      (''audit'', GoObject)]"

definition ViewResource_Metadata :: "string \<Rightarrow> string" where
  "ViewResource_Metadata providerTypeName = ''gravitino_view''"

definition ViewResource_Schema :: schema where
  "ViewResource_Schema =
     \<lparr>Attributes =
        [(''id'', Attribute StringType (computed\<lparr>PlanModifiers := [CompoundID [''metalake'', ''catalog'',
            ''schema'', ''name'']]\<rparr>)),
         (''metalake'', Attribute StringType (required\<lparr>PlanModifiers := [RequiresReplace]\<rparr>)),
         (''catalog'', Attribute StringType (required\<lparr>PlanModifiers := [RequiresReplace]\<rparr>)),
         (''schema'', Attribute StringType (required\<lparr>PlanModifiers := [RequiresReplace]\<rparr>)),
         (''name'', Attribute StringType required),
         (''comment'', Attribute StringType (optional\<lparr>PlanModifiers := [RequiresReplace]\<rparr>)),
         (''column'', ListNestedAttribute
           [(''name'', Attribute StringType required),
            (''type'', Attribute StringType (required\<lparr>Validators := [ColumnTypeValidator]\<rparr>)),
            (''comment'', Attribute StringType optional),
            (''nullable'', Attribute BoolType (optional_computed\<lparr>Default := Some (StaticBool True)\<rparr>)),
            (''auto_increment'',
                Attribute BoolType (optional_computed\<lparr>Default := Some (StaticBool False)\<rparr>)),
            (''default_value'', Attribute StringType optional)]
           (optional_computed\<lparr>PlanModifiers := [RequiresReplace]\<rparr>)),
         (''representation'', ListNestedAttribute
           [(''type'', Attribute StringType (required\<lparr>Validators := [OneOf [''sql'']]\<rparr>)),
            (''dialect'', Attribute StringType required),
            (''sql'', Attribute StringType required)]
           (required\<lparr>PlanModifiers := [RequiresReplace], Validators := [SizeAtLeast 1]\<rparr>)),
         (''default_catalog'', Attribute StringType (optional\<lparr>PlanModifiers := [RequiresReplace]\<rparr>)),
         (''default_schema'', Attribute StringType (optional\<lparr>PlanModifiers := [RequiresReplace]\<rparr>)),
         (''properties'', Attribute (MapType StringType) optional_computed),
         (''audit'', Attribute (ObjectType AuditAttrTypes) computed)],
      Blocks = []\<rparr>"

definition GravitinoProviderModel_fields :: "(string \<times> go_type) list" where
  "GravitinoProviderModel_fields =
     [(''uri'', GoString), (''auth'', GoString), (''timeout'', GoString), (''username'', GoString),
      (''password'', GoString), (''oauth_token'', GoString), (''oauth_client_id'', GoString),
      (''oauth_client_secret'', GoString), (''oauth_server_uri'', GoString),
      (''oauth_token_path'', GoString), (''oauth_scope'', GoString), (''kerberos_principal'', GoString),
      (''kerberos_keytab'', GoString), (''kerberos_use_ticket_cache'', GoBool)]"

definition GravitinoProvider_Metadata :: string where
  "GravitinoProvider_Metadata = ''gravitino''"

definition GravitinoProvider_Schema :: schema where
  "GravitinoProvider_Schema =
     \<lparr>Attributes =
        [(''uri'', Attribute StringType optional),
         (''auth'', Attribute StringType (optional\<lparr>Validators := [OneOf [''simple'', ''basic'', ''oauth'',
             ''kerberos'', ''none'']]\<rparr>)),
         (''timeout'', Attribute StringType (optional\<lparr>Validators := [DurationValidator]\<rparr>)),
         (''username'', Attribute StringType optional),
         (''password'', Attribute StringType (optional\<lparr>Sensitive := True\<rparr>)),
         (''oauth_token'', Attribute StringType (optional\<lparr>Sensitive := True\<rparr>)),
         (''oauth_client_id'', Attribute StringType optional),
         (''oauth_client_secret'', Attribute StringType (optional\<lparr>Sensitive := True\<rparr>)),
         (''oauth_server_uri'', Attribute StringType optional),
         (''oauth_token_path'', Attribute StringType optional),
         (''oauth_scope'', Attribute StringType optional),
         (''kerberos_principal'', Attribute StringType optional),
         (''kerberos_keytab'', Attribute StringType (optional\<lparr>Sensitive := True\<rparr>)),
         (''kerberos_use_ticket_cache'', Attribute BoolType optional)],
      Blocks = []\<rparr>"

definition FunctionDefinitionTFSDK_fields :: "(string \<times> go_type) list" where
  "FunctionDefinitionTFSDK_fields =
     [(''parameters'', GoList), (''return_type'', GoString), (''return_columns'', GoList),
      (''impls'', GoList)]"

definition FunctionParamTFSDK_fields :: "(string \<times> go_type) list" where
  "FunctionParamTFSDK_fields =
     [(''name'', GoString), (''data_type'', GoString), (''comment'', GoString),
      (''default_value'', GoString)]"

definition FunctionColumnTFSDK_fields :: "(string \<times> go_type) list" where
  "FunctionColumnTFSDK_fields =
     [(''name'', GoString), (''data_type'', GoString), (''comment'', GoString)]"

definition FunctionImplTFSDK_fields :: "(string \<times> go_type) list" where
  "FunctionImplTFSDK_fields =
     [(''language'', GoString), (''runtime'', GoString), (''sql'', GoString), (''class_name'', GoString),
      (''handler'', GoString), (''code_block'', GoString), (''resources'', GoObject),
      (''properties'', GoMap)]"

definition FunctionResourcesTFSDK_fields :: "(string \<times> go_type) list" where
  "FunctionResourcesTFSDK_fields =
     [(''jars'', GoList), (''files'', GoList), (''archives'', GoList)]"

definition ColumnTFSDK_fields :: "(string \<times> go_type) list" where
  "ColumnTFSDK_fields =
     [(''name'', GoString), (''type'', GoString), (''comment'', GoString), (''nullable'', GoBool),
      (''auto_increment'', GoBool), (''default_value'', GoString)]"

definition SortOrderTFSDK_fields :: "(string \<times> go_type) list" where
  "SortOrderTFSDK_fields =
     [(''field_name'', GoList), (''direction'', GoString), (''null_ordering'', GoString)]"

definition DistributionTFSDK_fields :: "(string \<times> go_type) list" where
  "DistributionTFSDK_fields =
     [(''strategy'', GoString), (''number'', GoInt64), (''func_args'', GoList)]"

definition PartitioningTFSDK_fields :: "(string \<times> go_type) list" where
  "PartitioningTFSDK_fields =
     [(''strategy'', GoString), (''field_name'', GoList), (''field_names'', GoList),
      (''num_buckets'', GoInt64), (''width'', GoInt64), (''func_name'', GoString), (''func_args'', GoList)]"

definition IndexTFSDK_fields :: "(string \<times> go_type) list" where
  "IndexTFSDK_fields =
     [(''index_type'', GoString), (''name'', GoString), (''field_names'', GoList), (''properties'', GoMap)]"

definition TableResourceModel_fields :: "(string \<times> go_type) list" where
  "TableResourceModel_fields =
     [(''metalake'', GoString), (''catalog'', GoString), (''schema'', GoString), (''name'', GoString),
      (''comment'', GoString), (''properties'', GoMap), (''id'', GoString), (''audit'', GoObject),
      (''column'', GoSlice ColumnTFSDK_fields), (''sort_order'', GoSlice SortOrderTFSDK_fields),
      (''distribution'', GoPointer DistributionTFSDK_fields),
      (''partitioning'', GoSlice PartitioningTFSDK_fields), (''index'', GoSlice IndexTFSDK_fields)]"

definition AuditTFSDK_fields :: "(string \<times> go_type) list" where
  "AuditTFSDK_fields =
     [(''creator'', GoString), (''create_time'', GoString), (''last_modifier'', GoString),
      (''last_modified_time'', GoString)]"

definition TableDataSourceModel_fields :: "(string \<times> go_type) list" where
  "TableDataSourceModel_fields =
     [(''metalake'', GoString), (''catalog'', GoString), (''schema'', GoString), (''name'', GoString),
      (''comment'', GoString), (''properties'', GoMap), (''audit'', GoObject),
      (''column'', GoSlice ColumnTFSDK_fields), (''sort_order'', GoSlice SortOrderTFSDK_fields),
      (''distribution'', GoPointer DistributionTFSDK_fields),
      (''partitioning'', GoSlice PartitioningTFSDK_fields), (''index'', GoSlice IndexTFSDK_fields)]"

definition TableDataSourceTFModel_fields :: "(string \<times> go_type) list" where
  "TableDataSourceTFModel_fields =
     [(''metalake'', GoString), (''catalog'', GoString), (''schema'', GoString), (''name'', GoString),
      (''comment'', GoString), (''properties'', GoMap), (''audit'', GoObject), (''column'', GoList),
      (''sort_order'', GoList), (''distribution'', GoObject), (''partitioning'', GoList),
      (''index'', GoList)]"

definition ViewRepresentationTFSDK_fields :: "(string \<times> go_type) list" where
  "ViewRepresentationTFSDK_fields =
     [(''type'', GoString), (''dialect'', GoString), (''sql'', GoString)]"

definition ViewDataSourceTFModel_fields :: "(string \<times> go_type) list" where
  "ViewDataSourceTFModel_fields =
     [(''metalake'', GoString), (''catalog'', GoString), (''schema'', GoString), (''name'', GoString),
      (''comment'', GoString), (''column'', GoList), (''representation'', GoList),
      (''default_catalog'', GoString), (''default_schema'', GoString), (''properties'', GoMap),
      (''audit'', GoObject)]"

definition ViewListEntryTFModel_fields :: "(string \<times> go_type) list" where
  "ViewListEntryTFModel_fields =
     [(''name'', GoString), (''comment'', GoString), (''column'', GoList), (''representation'', GoList),
      (''default_catalog'', GoString), (''default_schema'', GoString), (''properties'', GoMap),
      (''audit'', GoObject)]"

definition ViewsDataSourceTFModel_fields :: "(string \<times> go_type) list" where
  "ViewsDataSourceTFModel_fields =
     [(''metalake'', GoString), (''catalog'', GoString), (''schema'', GoString), (''views'', GoList)]"

definition securableObjectModel_fields :: "(string \<times> go_type) list" where
  "securableObjectModel_fields =
     [(''full_name'', GoString), (''type'', GoString), (''privileges'', GoSet)]"

definition privilegeModel_fields :: "(string \<times> go_type) list" where
  "privilegeModel_fields =
     [(''name'', GoString), (''condition'', GoString)]"

definition ViewResourceModel_fields :: "(string \<times> go_type) list" where
  "ViewResourceModel_fields =
     [(''id'', GoString), (''metalake'', GoString), (''catalog'', GoString), (''schema'', GoString),
      (''name'', GoString), (''comment'', GoString), (''column'', GoSlice ColumnTFSDK_fields),
      (''representation'', GoSlice ViewRepresentationTFSDK_fields), (''default_catalog'', GoString),
      (''default_schema'', GoString), (''properties'', GoMap), (''audit'', GoObject)]"

definition provider_Resources :: "registered list" where
  "provider_Resources =
     [\<lparr>rg_Metadata = MetalakeResource_Metadata, rg_Fields = MetalakeResourceModel_fields,
         rg_Schema = MetalakeResource_Schema\<rparr>,
      \<lparr>rg_Metadata = CatalogResource_Metadata, rg_Fields = CatalogResourceModel_fields,
          rg_Schema = CatalogResource_Schema\<rparr>,
      \<lparr>rg_Metadata = FilesetResource_Metadata, rg_Fields = FilesetResourceModel_fields,
          rg_Schema = FilesetResource_Schema\<rparr>,
      \<lparr>rg_Metadata = JobResource_Metadata, rg_Fields = JobResourceModel_fields,
          rg_Schema = JobResource_Schema\<rparr>,
      \<lparr>rg_Metadata = JobTemplateResource_Metadata, rg_Fields = JobTemplateResourceModel_fields,
          rg_Schema = JobTemplateResource_Schema\<rparr>,
      \<lparr>rg_Metadata = SchemaResource_Metadata, rg_Fields = SchemaResourceModel_fields,
          rg_Schema = SchemaResource_Schema\<rparr>,
      \<lparr>rg_Metadata = ModelResource_Metadata, rg_Fields = ModelResourceModel_fields,
          rg_Schema = ModelResource_Schema\<rparr>,
      \<lparr>rg_Metadata = ModelVersionResource_Metadata, rg_Fields = ModelVersionResourceModel_fields,
          rg_Schema = ModelVersionResource_Schema\<rparr>,
      \<lparr>rg_Metadata = OwnerResource_Metadata, rg_Fields = OwnerResourceModel_fields,
          rg_Schema = OwnerResource_Schema\<rparr>,
      \<lparr>rg_Metadata = tableResource_Metadata, rg_Fields = TableResourceTFModel_fields,
          rg_Schema = tableResource_Schema\<rparr>,
      \<lparr>rg_Metadata = TagResource_Metadata, rg_Fields = TagResourceModel_fields,
          rg_Schema = TagResource_Schema\<rparr>,
      \<lparr>rg_Metadata = TagAssociationResource_Metadata, rg_Fields = TagAssociationResourceModel_fields,
          rg_Schema = TagAssociationResource_Schema\<rparr>,
      \<lparr>rg_Metadata = TopicResource_Metadata, rg_Fields = TopicResourceModel_fields,
          rg_Schema = TopicResource_Schema\<rparr>,
      \<lparr>rg_Metadata = ViewResource_Metadata, rg_Fields = ViewResourceTFModel_fields,
          rg_Schema = ViewResource_Schema\<rparr>,
      \<lparr>rg_Metadata = FunctionResource_Metadata, rg_Fields = FunctionResourceModel_fields,
          rg_Schema = FunctionResource_Schema\<rparr>,
      \<lparr>rg_Metadata = GroupResource_Metadata, rg_Fields = GroupResourceModel_fields,
          rg_Schema = GroupResource_Schema\<rparr>,
      \<lparr>rg_Metadata = PartitionResource_Metadata, rg_Fields = PartitionResourceModel_fields,
          rg_Schema = PartitionResource_Schema\<rparr>,
      \<lparr>rg_Metadata = StatisticsResource_Metadata, rg_Fields = StatisticsResourceModel_fields,
          rg_Schema = StatisticsResource_Schema\<rparr>,
      \<lparr>rg_Metadata = PartitionStatisticsResource_Metadata,
          rg_Fields = PartitionStatisticsResourceModel_fields, rg_Schema = PartitionStatisticsResource_Schema\<rparr>,
      \<lparr>rg_Metadata = PolicyResource_Metadata, rg_Fields = PolicyResourceModel_fields,
          rg_Schema = PolicyResource_Schema\<rparr>,
      \<lparr>rg_Metadata = PolicyAssociationResource_Metadata, rg_Fields = PolicyAssociationResourceModel_fields,
          rg_Schema = PolicyAssociationResource_Schema\<rparr>,
      \<lparr>rg_Metadata = RoleResource_Metadata, rg_Fields = RoleResourceModel_fields,
          rg_Schema = RoleResource_Schema\<rparr>,
      \<lparr>rg_Metadata = UserResource_Metadata, rg_Fields = UserResourceModel_fields,
          rg_Schema = UserResource_Schema\<rparr>,
      \<lparr>rg_Metadata = IdpUserResource_Metadata, rg_Fields = IdpUserResourceModel_fields,
          rg_Schema = IdpUserResource_Schema\<rparr>,
      \<lparr>rg_Metadata = IdpGroupResource_Metadata, rg_Fields = IdpGroupResourceModel_fields,
          rg_Schema = IdpGroupResource_Schema\<rparr>]"

end
