(* ===== verification/DataSourceSchemas.thy ===== *)
theory DataSourceSchemas
  imports ResourceSchemas
begin

section \<open>The schemas of the data sources\<close>

text \<open>The fields of the Go model, the registered name and the schema of every data source, as for the resources.\<close>

definition CredentialObjectTypes :: "string list" where
  "CredentialObjectTypes = [''METALAKE'', ''CATALOG'', ''SCHEMA'', ''TABLE'', ''VIEW'', ''COLUMN'', ''FILESET'',
      ''TOPIC'',
      ''MODEL'', ''FUNCTION'', ''ROLE'']"

definition PrincipalDataSourceModel_fields :: "(string \<times> go_type) list" where
  "PrincipalDataSourceModel_fields =
     [(''name'', GoString), (''service_admin'', GoBool)]"

definition PrincipalDataSource_Metadata :: "string \<Rightarrow> string" where
  "PrincipalDataSource_Metadata providerTypeName = ''gravitino_principal''"

definition PrincipalDataSource_Schema :: schema where
  "PrincipalDataSource_Schema =
     \<lparr>Attributes =
        [(''name'', Attribute StringType computed),
         (''service_admin'', Attribute BoolType computed)],
      Blocks = []\<rparr>"

definition CatalogDataSourceModel_fields :: "(string \<times> go_type) list" where
  "CatalogDataSourceModel_fields =
     [(''metalake'', GoString), (''name'', GoString), (''type'', GoString),
      (''catalog_provider'', GoString), (''comment'', GoString), (''properties'', GoMap),
      (''audit'', GoObject)]"

definition CatalogDataSource_Metadata :: "string \<Rightarrow> string" where
  "CatalogDataSource_Metadata providerTypeName = ''gravitino_catalog''"

definition CatalogDataSource_Schema :: schema where
  "CatalogDataSource_Schema =
     \<lparr>Attributes =
        [(''metalake'', Attribute StringType required),
         (''name'', Attribute StringType required),
         (''type'', Attribute StringType computed),
         (''catalog_provider'', Attribute StringType computed),
         (''comment'', Attribute StringType computed),
         (''properties'', Attribute (MapType StringType) (computed\<lparr>Sensitive := True\<rparr>)),
         (''audit'', Attribute (ObjectType AuditAttrTypes) computed)],
      Blocks = []\<rparr>"

definition CatalogConnectionTestDataSourceModel_fields :: "(string \<times> go_type) list" where
  "CatalogConnectionTestDataSourceModel_fields =
     [(''metalake'', GoString), (''catalog'', GoString), (''name'', GoString), (''type'', GoString),
      (''catalog_provider'', GoString), (''comment'', GoString), (''properties'', GoMap),
      (''success'', GoBool), (''message'', GoString)]"

definition CatalogConnectionTestDataSource_Metadata :: "string \<Rightarrow> string" where
  "CatalogConnectionTestDataSource_Metadata providerTypeName = ''gravitino_catalog_connection_test''"

definition CatalogConnectionTestDataSource_Schema :: schema where
  "CatalogConnectionTestDataSource_Schema =
     \<lparr>Attributes =
        [(''metalake'', Attribute StringType required),
         (''catalog'', Attribute StringType optional),
         (''name'', Attribute StringType optional),
         (''type'', Attribute StringType (optional\<lparr>Validators := [OneOf [''relational'', ''fileset'',
             ''messaging'', ''model'']]\<rparr>)),
         (''catalog_provider'', Attribute StringType (optional\<lparr>Validators := [OneOf [''hive'',
             ''lakehouse-iceberg'', ''lakehouse-paimon'', ''lakehouse-hudi'', ''jdbc-mysql'', ''jdbc-postgresql'',
             ''jdbc-doris'', ''jdbc-oceanbase'', ''kafka'', ''fileset'', ''model'']]\<rparr>)),
         (''comment'', Attribute StringType optional),
         (''properties'', Attribute (MapType StringType) (optional\<lparr>Sensitive := True\<rparr>)),
         (''success'', Attribute BoolType computed),
         (''message'', Attribute StringType computed)],
      Blocks = []\<rparr>"

definition CatalogItemAttrTypes :: "(string \<times> attr_type) list" where
  "CatalogItemAttrTypes =
     [(''name'', StringType), (''type'', StringType), (''catalog_provider'', StringType),
      (''comment'', StringType), (''properties'', MapType StringType),
      (''audit'', ObjectType AuditAttrTypes)]"

definition CatalogsDataSourceModel_fields :: "(string \<times> go_type) list" where
  "CatalogsDataSourceModel_fields =
     [(''metalake'', GoString), (''catalogs'', GoList)]"

definition CatalogsDataSource_Metadata :: "string \<Rightarrow> string" where
  "CatalogsDataSource_Metadata providerTypeName = ''gravitino_catalogs''"

definition CatalogsDataSource_Schema :: schema where
  "CatalogsDataSource_Schema =
     \<lparr>Attributes =
        [(''metalake'', Attribute StringType required),
         (''catalogs'', ListNestedAttribute
           [(''name'', Attribute StringType computed),
            (''type'', Attribute StringType computed),
            (''catalog_provider'', Attribute StringType computed),
            (''comment'', Attribute StringType computed),
            (''properties'', Attribute (MapType StringType) (computed\<lparr>Sensitive := True\<rparr>)),
            (''audit'', Attribute (ObjectType AuditAttrTypes) computed)]
           computed)],
      Blocks = []\<rparr>"

definition CredentialItemAttrTypes :: "(string \<times> attr_type) list" where
  "CredentialItemAttrTypes =
     [(''credential_type'', StringType), (''expire_time_in_ms'', Int64Type),
      (''credential_info'', MapType StringType)]"

definition CredentialsDataSourceModel_fields :: "(string \<times> go_type) list" where
  "CredentialsDataSourceModel_fields =
     [(''metalake'', GoString), (''resource_type'', GoString), (''resource'', GoString),
      (''credentials'', GoList)]"

definition CredentialsDataSource_Metadata :: "string \<Rightarrow> string" where
  "CredentialsDataSource_Metadata providerTypeName = ''gravitino_credentials''"

definition CredentialsDataSource_Schema :: schema where
  "CredentialsDataSource_Schema =
     \<lparr>Attributes =
        [(''metalake'', Attribute StringType required),
         (''resource_type'',
             Attribute StringType (required\<lparr>Validators := [OneOf CredentialObjectTypes]\<rparr>)),
         (''resource'', Attribute StringType required),
         (''credentials'', ListNestedAttribute
           [(''credential_type'', Attribute StringType computed),
            (''expire_time_in_ms'', Attribute Int64Type computed),
            (''credential_info'', Attribute (MapType StringType) (computed\<lparr>Sensitive := True\<rparr>))]
           computed)],
      Blocks = []\<rparr>"

definition FilesetDataSourceModel_fields :: "(string \<times> go_type) list" where
  "FilesetDataSourceModel_fields =
     [(''metalake'', GoString), (''catalog'', GoString), (''schema'', GoString), (''name'', GoString),
      (''comment'', GoString), (''type'', GoString), (''storage_location'', GoString),
      (''properties'', GoMap), (''audit'', GoObject)]"

definition FilesetDataSource_Metadata :: "string \<Rightarrow> string" where
  "FilesetDataSource_Metadata providerTypeName = ''gravitino_fileset''"

definition FilesetDataSource_Schema :: schema where
  "FilesetDataSource_Schema =
     \<lparr>Attributes =
        [(''metalake'', Attribute StringType required),
         (''catalog'', Attribute StringType required),
         (''schema'', Attribute StringType required),
         (''name'', Attribute StringType required),
         (''comment'', Attribute StringType computed),
         (''type'', Attribute StringType computed),
         (''storage_location'', Attribute StringType computed),
         (''properties'', Attribute (MapType StringType) computed),
         (''audit'', Attribute (ObjectType AuditAttrTypes) computed)],
      Blocks = []\<rparr>"

definition FilesetItemAttrTypes :: "(string \<times> attr_type) list" where
  "FilesetItemAttrTypes =
     [(''name'', StringType), (''comment'', StringType), (''type'', StringType),
      (''storage_location'', StringType), (''properties'', MapType StringType),
      (''audit'', ObjectType AuditAttrTypes)]"

definition FilesetsDataSourceModel_fields :: "(string \<times> go_type) list" where
  "FilesetsDataSourceModel_fields =
     [(''metalake'', GoString), (''catalog'', GoString), (''schema'', GoString), (''filesets'', GoList)]"

definition FilesetsDataSource_Metadata :: "string \<Rightarrow> string" where
  "FilesetsDataSource_Metadata providerTypeName = ''gravitino_filesets''"

definition FilesetsDataSource_Schema :: schema where
  "FilesetsDataSource_Schema =
     \<lparr>Attributes =
        [(''metalake'', Attribute StringType required),
         (''catalog'', Attribute StringType required),
         (''schema'', Attribute StringType required),
         (''filesets'', ListNestedAttribute
           [(''name'', Attribute StringType computed),
            (''comment'', Attribute StringType computed),
            (''type'', Attribute StringType computed),
            (''storage_location'', Attribute StringType computed),
            (''properties'', Attribute (MapType StringType) computed),
            (''audit'', Attribute (ObjectType AuditAttrTypes) computed)]
           computed)],
      Blocks = []\<rparr>"

definition functionDefinitionsAttribute :: attribute where
  "functionDefinitionsAttribute =
     ListNestedAttribute
       [(''parameters'', ListNestedAttribute
          [(''name'', Attribute StringType computed),
           (''data_type'', Attribute StringType computed),
           (''comment'', Attribute StringType computed),
           (''default_value'', Attribute StringType computed)]
          computed),
        (''return_type'', Attribute StringType computed),
        (''return_columns'', ListNestedAttribute
          [(''name'', Attribute StringType computed),
           (''data_type'', Attribute StringType computed),
           (''comment'', Attribute StringType computed)]
          computed),
        (''impls'', ListNestedAttribute
          [(''language'', Attribute StringType computed),
           (''runtime'', Attribute StringType computed),
           (''sql'', Attribute StringType computed),
           (''class_name'', Attribute StringType computed),
           (''handler'', Attribute StringType computed),
           (''code_block'', Attribute StringType computed),
           (''resources'', SingleNestedAttribute
             [(''jars'', Attribute (ListType StringType) computed),
              (''files'', Attribute (ListType StringType) computed),
              (''archives'', Attribute (ListType StringType) computed)]
             computed),
           (''properties'', Attribute (MapType StringType) computed)]
          computed)]
       computed"

definition FunctionDataSourceModel_fields :: "(string \<times> go_type) list" where
  "FunctionDataSourceModel_fields =
     [(''metalake'', GoString), (''catalog'', GoString), (''schema'', GoString), (''name'', GoString),
      (''function_type'', GoString), (''deterministic'', GoBool), (''comment'', GoString),
      (''definitions'', GoList), (''audit'', GoObject)]"

definition FunctionDataSource_Metadata :: "string \<Rightarrow> string" where
  "FunctionDataSource_Metadata providerTypeName = ''gravitino_function''"

definition FunctionDataSource_Schema :: schema where
  "FunctionDataSource_Schema =
     \<lparr>Attributes =
        [(''metalake'', Attribute StringType required),
         (''catalog'', Attribute StringType required),
         (''schema'', Attribute StringType required),
         (''name'', Attribute StringType required),
         (''function_type'', Attribute StringType (computed\<lparr>Validators := [OneOf AllFunctionTypes]\<rparr>)),
         (''deterministic'', Attribute BoolType computed),
         (''comment'', Attribute StringType computed),
         (''definitions'', functionDefinitionsAttribute),
         (''audit'', Attribute (ObjectType AuditAttrTypes) computed)],
      Blocks = []\<rparr>"

definition dslFunctionListItemAttrTypes :: "(string \<times> attr_type) list" where
  "dslFunctionListItemAttrTypes =
     [(''name'', StringType), (''function_type'', StringType), (''deterministic'', BoolType),
      (''comment'', StringType), (''definitions'', FunctionDefinitionsListType),
      (''audit'', ObjectType AuditAttrTypes)]"

definition FunctionsDataSourceModel_fields :: "(string \<times> go_type) list" where
  "FunctionsDataSourceModel_fields =
     [(''metalake'', GoString), (''catalog'', GoString), (''schema'', GoString), (''functions'', GoList)]"

definition FunctionsDataSource_Metadata :: "string \<Rightarrow> string" where
  "FunctionsDataSource_Metadata providerTypeName = ''gravitino_functions''"

definition FunctionsDataSource_Schema :: schema where
  "FunctionsDataSource_Schema =
     \<lparr>Attributes =
        [(''metalake'', Attribute StringType required),
         (''catalog'', Attribute StringType required),
         (''schema'', Attribute StringType required),
         (''functions'', ListNestedAttribute
           [(''name'', Attribute StringType computed),
            (''function_type'', Attribute StringType computed),
            (''deterministic'', Attribute BoolType computed),
            (''comment'', Attribute StringType computed),
            (''definitions'', functionDefinitionsAttribute),
            (''audit'', Attribute (ObjectType AuditAttrTypes) computed)]
           computed)],
      Blocks = []\<rparr>"

definition GroupDataSourceModel_fields :: "(string \<times> go_type) list" where
  "GroupDataSourceModel_fields =
     [(''metalake'', GoString), (''name'', GoString), (''roles'', GoSet), (''audit'', GoObject)]"

definition GroupDataSource_Metadata :: "string \<Rightarrow> string" where
  "GroupDataSource_Metadata providerTypeName = ''gravitino_group''"

definition GroupDataSource_Schema :: schema where
  "GroupDataSource_Schema =
     \<lparr>Attributes =
        [(''metalake'', Attribute StringType required),
         (''name'', Attribute StringType required),
         (''roles'', Attribute (SetType StringType) computed),
         (''audit'', Attribute (ObjectType AuditAttrTypes) computed)],
      Blocks = []\<rparr>"

definition GroupsDataSourceModel_fields :: "(string \<times> go_type) list" where
  "GroupsDataSourceModel_fields =
     [(''metalake'', GoString), (''names'', GoList)]"

definition GroupsDataSource_Metadata :: "string \<Rightarrow> string" where
  "GroupsDataSource_Metadata providerTypeName = ''gravitino_groups''"

definition GroupsDataSource_Schema :: schema where
  "GroupsDataSource_Schema =
     \<lparr>Attributes =
        [(''metalake'', Attribute StringType required),
         (''names'', Attribute (ListType StringType) computed)],
      Blocks = []\<rparr>"

definition HealthCheckModel_fields :: "(string \<times> go_type) list" where
  "HealthCheckModel_fields =
     [(''name'', GoString), (''status'', GoString), (''details'', GoMap)]"

definition HealthDataSourceModel_fields :: "(string \<times> go_type) list" where
  "HealthDataSourceModel_fields =
     [(''status'', GoString), (''checks'', GoSlice HealthCheckModel_fields)]"

definition HealthDataSource_Metadata :: "string \<Rightarrow> string" where
  "HealthDataSource_Metadata providerTypeName = ''gravitino_health''"

definition HealthDataSource_Schema :: schema where
  "HealthDataSource_Schema =
     \<lparr>Attributes =
        [(''status'', Attribute StringType computed)],
      Blocks =
        [(''checks'', ListNestedBlock
           [(''name'', Attribute StringType computed),
            (''status'', Attribute StringType computed),
            (''details'', Attribute (MapType StringType) computed)]
           [] unset)]\<rparr>"

definition LivenessDataSourceModel_fields :: "(string \<times> go_type) list" where
  "LivenessDataSourceModel_fields =
     [(''status'', GoString), (''checks'', GoSlice HealthCheckModel_fields)]"

definition LivenessDataSource_Metadata :: "string \<Rightarrow> string" where
  "LivenessDataSource_Metadata providerTypeName = ''gravitino_liveness''"

definition LivenessDataSource_Schema :: schema where
  "LivenessDataSource_Schema =
     \<lparr>Attributes =
        [(''status'', Attribute StringType computed)],
      Blocks =
        [(''checks'', ListNestedBlock
           [(''name'', Attribute StringType computed),
            (''status'', Attribute StringType computed),
            (''details'', Attribute (MapType StringType) computed)]
           [] unset)]\<rparr>"

definition ReadinessDataSourceModel_fields :: "(string \<times> go_type) list" where
  "ReadinessDataSourceModel_fields =
     [(''status'', GoString), (''checks'', GoSlice HealthCheckModel_fields)]"

definition ReadinessDataSource_Metadata :: "string \<Rightarrow> string" where
  "ReadinessDataSource_Metadata providerTypeName = ''gravitino_readiness''"

definition ReadinessDataSource_Schema :: schema where
  "ReadinessDataSource_Schema =
     \<lparr>Attributes =
        [(''status'', Attribute StringType computed)],
      Blocks =
        [(''checks'', ListNestedBlock
           [(''name'', Attribute StringType computed),
            (''status'', Attribute StringType computed),
            (''details'', Attribute (MapType StringType) computed)]
           [] unset)]\<rparr>"

definition IcebergRESTServiceDataSourceModel_fields :: "(string \<times> go_type) list" where
  "IcebergRESTServiceDataSourceModel_fields =
     [(''metalake'', GoString), (''uri'', GoString)]"

definition IcebergRESTServiceDataSource_Metadata :: "string \<Rightarrow> string" where
  "IcebergRESTServiceDataSource_Metadata providerTypeName = ''gravitino_iceberg_rest_service''"

definition IcebergRESTServiceDataSource_Schema :: schema where
  "IcebergRESTServiceDataSource_Schema =
     \<lparr>Attributes =
        [(''metalake'', Attribute StringType optional),
         (''uri'', Attribute StringType computed)],
      Blocks = []\<rparr>"

definition IdpGroupDataSourceModel_fields :: "(string \<times> go_type) list" where
  "IdpGroupDataSourceModel_fields =
     [(''name'', GoString), (''users'', GoSet)]"

definition IdpGroupDataSource_Metadata :: "string \<Rightarrow> string" where
  "IdpGroupDataSource_Metadata providerTypeName = ''gravitino_idp_group''"

definition IdpGroupDataSource_Schema :: schema where
  "IdpGroupDataSource_Schema =
     \<lparr>Attributes =
        [(''name'', Attribute StringType required),
         (''users'', Attribute (SetType StringType) computed)],
      Blocks = []\<rparr>"

definition IdpUserDataSourceModel_fields :: "(string \<times> go_type) list" where
  "IdpUserDataSourceModel_fields =
     [(''name'', GoString), (''groups'', GoSet)]"

definition IdpUserDataSource_Metadata :: "string \<Rightarrow> string" where
  "IdpUserDataSource_Metadata providerTypeName = ''gravitino_idp_user''"

definition IdpUserDataSource_Schema :: schema where
  "IdpUserDataSource_Schema =
     \<lparr>Attributes =
        [(''name'', Attribute StringType required),
         (''groups'', Attribute (SetType StringType) computed)],
      Blocks = []\<rparr>"

definition JobDataSourceModel_fields :: "(string \<times> go_type) list" where
  "JobDataSourceModel_fields =
     [(''metalake'', GoString), (''job_id'', GoString), (''job_template'', GoString),
      (''status'', GoString), (''queued_at'', GoString), (''started_at'', GoString),
      (''finished_at'', GoString), (''audit'', GoObject)]"

definition JobDataSource_Metadata :: "string \<Rightarrow> string" where
  "JobDataSource_Metadata providerTypeName = ''gravitino_job''"

definition JobDataSource_Schema :: schema where
  "JobDataSource_Schema =
     \<lparr>Attributes =
        [(''metalake'', Attribute StringType required),
         (''job_id'', Attribute StringType required),
         (''job_template'', Attribute StringType computed),
         (''status'', Attribute StringType computed),
         (''queued_at'', Attribute StringType computed),
         (''started_at'', Attribute StringType computed),
         (''finished_at'', Attribute StringType computed),
         (''audit'', Attribute (ObjectType AuditAttrTypes) computed)],
      Blocks = []\<rparr>"

definition JobItemAttrTypes :: "(string \<times> attr_type) list" where
  "JobItemAttrTypes =
     [(''job_id'', StringType), (''job_template'', StringType), (''status'', StringType),
      (''queued_at'', StringType), (''started_at'', StringType), (''finished_at'', StringType),
      (''audit'', ObjectType AuditAttrTypes)]"

definition JobsDataSourceModel_fields :: "(string \<times> go_type) list" where
  "JobsDataSourceModel_fields =
     [(''metalake'', GoString), (''jobs'', GoList), (''job_template'', GoString)]"

definition JobsDataSource_Metadata :: "string \<Rightarrow> string" where
  "JobsDataSource_Metadata providerTypeName = ''gravitino_jobs''"

definition JobsDataSource_Schema :: schema where
  "JobsDataSource_Schema =
     \<lparr>Attributes =
        [(''metalake'', Attribute StringType required),
         (''job_template'', Attribute StringType optional),
         (''jobs'', ListNestedAttribute
           [(''job_id'', Attribute StringType computed),
            (''job_template'', Attribute StringType computed),
            (''status'', Attribute StringType computed),
            (''queued_at'', Attribute StringType computed),
            (''started_at'', Attribute StringType computed),
            (''finished_at'', Attribute StringType computed),
            (''audit'', Attribute (ObjectType AuditAttrTypes) computed)]
           computed)],
      Blocks = []\<rparr>"

definition jobTemplateAttributes :: "(string \<times> attribute) list" where
  "jobTemplateAttributes =
     [(''job_type'', Attribute StringType computed),
      (''comment'', Attribute StringType computed),
      (''executable'', Attribute StringType computed),
      (''arguments'', Attribute (ListType StringType) computed),
      (''environments'', Attribute (MapType StringType) computed),
      (''custom_fields'', Attribute (MapType StringType) computed),
      (''scripts'', Attribute (ListType StringType) computed),
      (''class_name'', Attribute StringType computed),
      (''jars'', Attribute (ListType StringType) computed),
      (''files'', Attribute (ListType StringType) computed),
      (''archives'', Attribute (ListType StringType) computed),
      (''configs'', Attribute (MapType StringType) computed),
      (''audit'', Attribute (ObjectType AuditAttrTypes) computed)]"

definition JobTemplateDataSourceModel_fields :: "(string \<times> go_type) list" where
  "JobTemplateDataSourceModel_fields =
     [(''metalake'', GoString), (''name'', GoString), (''job_type'', GoString), (''comment'', GoString),
      (''executable'', GoString), (''arguments'', GoList), (''environments'', GoMap),
      (''custom_fields'', GoMap), (''scripts'', GoList), (''class_name'', GoString), (''jars'', GoList),
      (''files'', GoList), (''archives'', GoList), (''configs'', GoMap), (''audit'', GoObject)]"

definition JobTemplateDataSource_Metadata :: "string \<Rightarrow> string" where
  "JobTemplateDataSource_Metadata providerTypeName = ''gravitino_job_template''"

definition JobTemplateDataSource_Schema :: schema where
  "JobTemplateDataSource_Schema =
     \<lparr>Attributes =
        ([(''metalake'', Attribute StringType required),
          (''name'', Attribute StringType required)] @ jobTemplateAttributes),
      Blocks = []\<rparr>"

definition JobTemplateItemAttrTypes :: "(string \<times> attr_type) list" where
  "JobTemplateItemAttrTypes =
     [(''name'', StringType), (''job_type'', StringType), (''comment'', StringType),
      (''executable'', StringType), (''arguments'', ListType StringType),
      (''environments'', MapType StringType), (''custom_fields'', MapType StringType),
      (''scripts'', ListType StringType), (''class_name'', StringType), (''jars'', ListType StringType),
      (''files'', ListType StringType), (''archives'', ListType StringType),
      (''configs'', MapType StringType), (''audit'', ObjectType AuditAttrTypes)]"

definition JobTemplatesDataSourceModel_fields :: "(string \<times> go_type) list" where
  "JobTemplatesDataSourceModel_fields =
     [(''metalake'', GoString), (''job_templates'', GoList)]"

definition JobTemplatesDataSource_Metadata :: "string \<Rightarrow> string" where
  "JobTemplatesDataSource_Metadata providerTypeName = ''gravitino_job_templates''"

definition JobTemplatesDataSource_Schema :: schema where
  "JobTemplatesDataSource_Schema =
     \<lparr>Attributes =
        [(''metalake'', Attribute StringType required),
         (''job_templates'', ListNestedAttribute
           ((jobTemplateAttributes @ [(''name'', Attribute StringType computed)]))
           computed)],
      Blocks = []\<rparr>"

definition MetalakeDataSourceModel_fields :: "(string \<times> go_type) list" where
  "MetalakeDataSourceModel_fields =
     [(''name'', GoString), (''comment'', GoString), (''properties'', GoMap), (''audit'', GoObject)]"

definition MetalakeDataSource_Metadata :: "string \<Rightarrow> string" where
  "MetalakeDataSource_Metadata providerTypeName = providerTypeName @ ''_metalake''"

definition MetalakeDataSource_Schema :: schema where
  "MetalakeDataSource_Schema =
     \<lparr>Attributes =
        [(''name'', Attribute StringType required),
         (''comment'', Attribute StringType computed),
         (''properties'', Attribute (MapType StringType) computed),
         (''audit'', Attribute (ObjectType AuditAttrTypes) computed)],
      Blocks = []\<rparr>"

definition MetalakeItemModel_fields :: "(string \<times> go_type) list" where
  "MetalakeItemModel_fields =
     [(''name'', GoString), (''comment'', GoString), (''properties'', GoMap), (''audit'', GoObject)]"

definition MetalakesDataSourceModel_fields :: "(string \<times> go_type) list" where
  "MetalakesDataSourceModel_fields =
     [(''metalakes'', GoSlice MetalakeItemModel_fields)]"

definition MetalakesDataSource_Metadata :: "string \<Rightarrow> string" where
  "MetalakesDataSource_Metadata providerTypeName = providerTypeName @ ''_metalakes''"

definition MetalakesDataSource_Schema :: schema where
  "MetalakesDataSource_Schema =
     \<lparr>Attributes =
        [],
      Blocks =
        [(''metalakes'', ListNestedBlock
           [(''name'', Attribute StringType computed),
            (''comment'', Attribute StringType computed),
            (''properties'', Attribute (MapType StringType) computed),
            (''audit'', Attribute (ObjectType AuditAttrTypes) computed)]
           [] unset)]\<rparr>"

definition ModelDataSourceModel_fields :: "(string \<times> go_type) list" where
  "ModelDataSourceModel_fields =
     [(''metalake'', GoString), (''catalog'', GoString), (''schema'', GoString), (''name'', GoString),
      (''comment'', GoString), (''latest_version'', GoInt64), (''properties'', GoMap),
      (''audit'', GoObject)]"

definition ModelDataSource_Metadata :: "string \<Rightarrow> string" where
  "ModelDataSource_Metadata providerTypeName = ''gravitino_model''"

definition ModelDataSource_Schema :: schema where
  "ModelDataSource_Schema =
     \<lparr>Attributes =
        [(''metalake'', Attribute StringType required),
         (''catalog'', Attribute StringType required),
         (''schema'', Attribute StringType required),
         (''name'', Attribute StringType required),
         (''comment'', Attribute StringType computed),
         (''latest_version'', Attribute Int64Type computed),
         (''properties'', Attribute (MapType StringType) computed),
         (''audit'', Attribute (ObjectType AuditAttrTypes) computed)],
      Blocks = []\<rparr>"

definition ModelItemAttrTypes :: "(string \<times> attr_type) list" where
  "ModelItemAttrTypes =
     [(''name'', StringType), (''comment'', StringType), (''latest_version'', Int64Type),
      (''properties'', MapType StringType), (''audit'', ObjectType AuditAttrTypes)]"

definition ModelsDataSourceModel_fields :: "(string \<times> go_type) list" where
  "ModelsDataSourceModel_fields =
     [(''metalake'', GoString), (''catalog'', GoString), (''schema'', GoString), (''models'', GoList)]"

definition ModelsDataSource_Metadata :: "string \<Rightarrow> string" where
  "ModelsDataSource_Metadata providerTypeName = ''gravitino_models''"

definition ModelsDataSource_Schema :: schema where
  "ModelsDataSource_Schema =
     \<lparr>Attributes =
        [(''metalake'', Attribute StringType required),
         (''catalog'', Attribute StringType required),
         (''schema'', Attribute StringType required),
         (''models'', ListNestedAttribute
           [(''name'', Attribute StringType computed),
            (''comment'', Attribute StringType computed),
            (''latest_version'', Attribute Int64Type computed),
            (''properties'', Attribute (MapType StringType) computed),
            (''audit'', Attribute (ObjectType AuditAttrTypes) computed)]
           computed)],
      Blocks = []\<rparr>"

definition ModelVersionDataSourceModel_fields :: "(string \<times> go_type) list" where
  "ModelVersionDataSourceModel_fields =
     [(''metalake'', GoString), (''catalog'', GoString), (''schema'', GoString), (''model'', GoString),
      (''version'', GoInt64), (''alias'', GoString), (''uri'', GoString), (''uris'', GoMap),
      (''aliases'', GoSet), (''comment'', GoString), (''properties'', GoMap), (''audit'', GoObject)]"

definition ModelVersionDataSource_Metadata :: "string \<Rightarrow> string" where
  "ModelVersionDataSource_Metadata providerTypeName = ''gravitino_model_version''"

definition ModelVersionDataSource_Schema :: schema where
  "ModelVersionDataSource_Schema =
     \<lparr>Attributes =
        [(''metalake'', Attribute StringType required),
         (''catalog'', Attribute StringType required),
         (''schema'', Attribute StringType required),
         (''model'', Attribute StringType required),
         (''version'', Attribute Int64Type optional_computed),
         (''alias'', Attribute StringType optional),
         (''uri'', Attribute StringType computed),
         (''uris'', Attribute (MapType StringType) computed),
         (''aliases'', Attribute (SetType StringType) computed),
         (''comment'', Attribute StringType computed),
         (''properties'', Attribute (MapType StringType) computed),
         (''audit'', Attribute (ObjectType AuditAttrTypes) computed)],
      Blocks = []\<rparr>"

definition ModelVersionItemAttrTypes :: "(string \<times> attr_type) list" where
  "ModelVersionItemAttrTypes =
     [(''version'', Int64Type), (''uri'', StringType), (''uris'', MapType StringType),
      (''aliases'', SetType StringType), (''comment'', StringType), (''properties'', MapType StringType),
      (''audit'', ObjectType AuditAttrTypes)]"

definition ModelVersionsDataSourceModel_fields :: "(string \<times> go_type) list" where
  "ModelVersionsDataSourceModel_fields =
     [(''metalake'', GoString), (''catalog'', GoString), (''schema'', GoString), (''model'', GoString),
      (''versions'', GoList)]"

definition ModelVersionsDataSource_Metadata :: "string \<Rightarrow> string" where
  "ModelVersionsDataSource_Metadata providerTypeName = ''gravitino_model_versions''"

definition ModelVersionsDataSource_Schema :: schema where
  "ModelVersionsDataSource_Schema =
     \<lparr>Attributes =
        [(''metalake'', Attribute StringType required),
         (''catalog'', Attribute StringType required),
         (''schema'', Attribute StringType required),
         (''model'', Attribute StringType required),
         (''versions'', ListNestedAttribute
           [(''version'', Attribute Int64Type computed),
            (''uri'', Attribute StringType computed),
            (''uris'', Attribute (MapType StringType) computed),
            (''aliases'', Attribute (SetType StringType) computed),
            (''comment'', Attribute StringType computed),
            (''properties'', Attribute (MapType StringType) computed),
            (''audit'', Attribute (ObjectType AuditAttrTypes) computed)]
           computed)],
      Blocks = []\<rparr>"

definition OwnerDataSourceModel_fields :: "(string \<times> go_type) list" where
  "OwnerDataSourceModel_fields =
     [(''metalake'', GoString), (''object_type'', GoString), (''object_full_name'', GoString),
      (''owner_name'', GoString), (''owner_type'', GoString)]"

definition OwnerDataSource_Metadata :: "string \<Rightarrow> string" where
  "OwnerDataSource_Metadata providerTypeName = ''gravitino_owner''"

definition OwnerDataSource_Schema :: schema where
  "OwnerDataSource_Schema =
     \<lparr>Attributes =
        [(''metalake'', Attribute StringType required),
         (''object_type'', Attribute StringType (required\<lparr>Validators := [OneOf OwnerObjectTypes]\<rparr>)),
         (''object_full_name'', Attribute StringType required),
         (''owner_name'', Attribute StringType computed),
         (''owner_type'', Attribute StringType computed)],
      Blocks = []\<rparr>"

definition PartitionDataSourceModel_fields :: "(string \<times> go_type) list" where
  "PartitionDataSourceModel_fields =
     [(''metalake'', GoString), (''catalog'', GoString), (''schema'', GoString), (''table'', GoString),
      (''name'', GoString), (''type'', GoString), (''field_names'', GoList), (''values'', GoList),
      (''upper'', GoObject), (''lower'', GoObject), (''lists'', GoList), (''properties'', GoMap)]"

definition PartitionDataSource_Metadata :: "string \<Rightarrow> string" where
  "PartitionDataSource_Metadata providerTypeName = ''gravitino_partition''"

definition PartitionDataSource_Schema :: schema where
  "PartitionDataSource_Schema =
     \<lparr>Attributes =
        [(''metalake'', Attribute StringType required),
         (''catalog'', Attribute StringType required),
         (''schema'', Attribute StringType required),
         (''table'', Attribute StringType required),
         (''name'', Attribute StringType required),
         (''type'', Attribute StringType computed),
         (''field_names'', Attribute (ListType (ListType StringType)) computed),
         (''values'', Attribute (ListType (ObjectType PartitionLiteralAttrTypes)) computed),
         (''upper'', Attribute (ObjectType PartitionLiteralAttrTypes) computed),
         (''lower'', Attribute (ObjectType PartitionLiteralAttrTypes) computed),
         (''lists'', Attribute (ListType (ListType (ObjectType PartitionLiteralAttrTypes))) computed),
         (''properties'', Attribute (MapType StringType) computed)],
      Blocks = []\<rparr>"

definition PartitionsDataSourceModel_fields :: "(string \<times> go_type) list" where
  "PartitionsDataSourceModel_fields =
     [(''metalake'', GoString), (''catalog'', GoString), (''schema'', GoString), (''table'', GoString),
      (''partitions'', GoList)]"

definition PartitionsDataSource_Metadata :: "string \<Rightarrow> string" where
  "PartitionsDataSource_Metadata providerTypeName = ''gravitino_partitions''"

definition PartitionsDataSource_Schema :: schema where
  "PartitionsDataSource_Schema =
     \<lparr>Attributes =
        [(''metalake'', Attribute StringType required),
         (''catalog'', Attribute StringType required),
         (''schema'', Attribute StringType required),
         (''table'', Attribute StringType required),
         (''partitions'', ListNestedAttribute
           [(''type'', Attribute StringType computed),
            (''name'', Attribute StringType computed),
            (''field_names'', Attribute (ListType (ListType StringType)) computed),
            (''values'', Attribute (ListType (ObjectType PartitionLiteralAttrTypes)) computed),
            (''upper'', Attribute (ObjectType PartitionLiteralAttrTypes) computed),
            (''lower'', Attribute (ObjectType PartitionLiteralAttrTypes) computed),
            (''lists'', Attribute (ListType (ListType (ObjectType PartitionLiteralAttrTypes))) computed),
            (''properties'', Attribute (MapType StringType) computed)]
           computed)],
      Blocks = []\<rparr>"

definition policyComputedAttributes :: "(string \<times> attribute) list" where
  "policyComputedAttributes =
     [(''comment'', Attribute StringType computed),
      (''policy_type'', Attribute StringType computed),
      (''enabled'', Attribute BoolType computed),
      (''supported_object_types'', Attribute (SetType StringType) computed),
      (''properties'', Attribute (MapType StringType) computed),
      (''custom_rules'', Attribute (MapType StringType) computed),
      (''audit'', Attribute (ObjectType AuditAttrTypes) computed)]"

definition PolicyDataSourceModel_fields :: "(string \<times> go_type) list" where
  "PolicyDataSourceModel_fields =
     [(''metalake'', GoString), (''name'', GoString), (''comment'', GoString),
      (''policy_type'', GoString), (''enabled'', GoBool), (''supported_object_types'', GoSet),
      (''properties'', GoMap), (''custom_rules'', GoMap), (''audit'', GoObject)]"

definition PolicyDataSource_Metadata :: "string \<Rightarrow> string" where
  "PolicyDataSource_Metadata providerTypeName = ''gravitino_policy''"

definition PolicyDataSource_Schema :: schema where
  "PolicyDataSource_Schema =
     \<lparr>Attributes =
        (policyComputedAttributes @ [(''metalake'', Attribute StringType required), (''name'',
            Attribute StringType required)]),
      Blocks = []\<rparr>"

definition PolicyItemAttrTypes :: "(string \<times> attr_type) list" where
  "PolicyItemAttrTypes =
     [(''name'', StringType), (''comment'', StringType), (''policy_type'', StringType),
      (''enabled'', BoolType), (''supported_object_types'', SetType StringType),
      (''properties'', MapType StringType), (''custom_rules'', MapType StringType),
      (''audit'', ObjectType AuditAttrTypes)]"

definition PoliciesDataSourceModel_fields :: "(string \<times> go_type) list" where
  "PoliciesDataSourceModel_fields =
     [(''metalake'', GoString), (''policies'', GoList)]"

definition PoliciesDataSource_Metadata :: "string \<Rightarrow> string" where
  "PoliciesDataSource_Metadata providerTypeName = ''gravitino_policies''"

definition PoliciesDataSource_Schema :: schema where
  "PoliciesDataSource_Schema =
     \<lparr>Attributes =
        [(''metalake'', Attribute StringType required),
         (''policies'', ListNestedAttribute
           ((policyComputedAttributes @ [(''name'', Attribute StringType computed)]))
           computed)],
      Blocks = []\<rparr>"

definition ObjectPoliciesDataSourceModel_fields :: "(string \<times> go_type) list" where
  "ObjectPoliciesDataSourceModel_fields =
     [(''metalake'', GoString), (''object_type'', GoString), (''object_full_name'', GoString),
      (''policies'', GoList)]"

definition ObjectPoliciesDataSource_Metadata :: "string \<Rightarrow> string" where
  "ObjectPoliciesDataSource_Metadata providerTypeName = ''gravitino_object_policies''"

definition ObjectPoliciesDataSource_Schema :: schema where
  "ObjectPoliciesDataSource_Schema =
     \<lparr>Attributes =
        [(''metalake'', Attribute StringType required),
         (''object_type'', Attribute StringType (required\<lparr>Validators := [OneOf PolicyObjectTypes]\<rparr>)),
         (''object_full_name'', Attribute StringType required),
         (''policies'', Attribute (ListType StringType) computed)],
      Blocks = []\<rparr>"

definition PolicyObjectItemAttrTypes :: "(string \<times> attr_type) list" where
  "PolicyObjectItemAttrTypes =
     [(''type'', StringType), (''full_name'', StringType)]"

definition PolicyObjectsDataSourceModel_fields :: "(string \<times> go_type) list" where
  "PolicyObjectsDataSourceModel_fields =
     [(''metalake'', GoString), (''policy'', GoString), (''objects'', GoList)]"

definition PolicyObjectsDataSource_Metadata :: "string \<Rightarrow> string" where
  "PolicyObjectsDataSource_Metadata providerTypeName = ''gravitino_policy_objects''"

definition PolicyObjectsDataSource_Schema :: schema where
  "PolicyObjectsDataSource_Schema =
     \<lparr>Attributes =
        [(''metalake'', Attribute StringType required),
         (''policy'', Attribute StringType required),
         (''objects'', ListNestedAttribute
           [(''type'', Attribute StringType computed),
            (''full_name'', Attribute StringType computed)]
           computed)],
      Blocks = []\<rparr>"

definition RolePrivilegeAttrTypes :: "(string \<times> attr_type) list" where
  "RolePrivilegeAttrTypes =
     [(''name'', StringType), (''condition'', StringType)]"

definition RoleSecurableObjectAttrTypes :: "(string \<times> attr_type) list" where
  "RoleSecurableObjectAttrTypes =
     [(''full_name'', StringType), (''type'', StringType),
      (''privileges'', SetType (ObjectType RolePrivilegeAttrTypes))]"

definition RoleDataSourceModel_fields :: "(string \<times> go_type) list" where
  "RoleDataSourceModel_fields =
     [(''metalake'', GoString), (''name'', GoString), (''properties'', GoMap),
      (''securable_objects'', GoSet), (''audit'', GoObject)]"

definition RoleDataSource_Metadata :: "string \<Rightarrow> string" where
  "RoleDataSource_Metadata providerTypeName = ''gravitino_role''"

definition RoleDataSource_Schema :: schema where
  "RoleDataSource_Schema =
     \<lparr>Attributes =
        [(''metalake'', Attribute StringType required),
         (''name'', Attribute StringType required),
         (''properties'', Attribute (MapType StringType) computed),
         (''securable_objects'', SetNestedAttribute
           [(''full_name'', Attribute StringType computed),
            (''type'', Attribute StringType computed),
            (''privileges'', SetNestedAttribute
              [(''name'', Attribute StringType computed),
               (''condition'', Attribute StringType computed)]
              computed)]
           computed),
         (''audit'', Attribute (ObjectType AuditAttrTypes) computed)],
      Blocks = []\<rparr>"

definition RolesDataSourceModel_fields :: "(string \<times> go_type) list" where
  "RolesDataSourceModel_fields =
     [(''metalake'', GoString), (''resource_type'', GoString), (''resource'', GoString),
      (''names'', GoList)]"

definition RolesDataSource_Metadata :: "string \<Rightarrow> string" where
  "RolesDataSource_Metadata providerTypeName = ''gravitino_roles''"

definition RolesDataSource_Schema :: schema where
  "RolesDataSource_Schema =
     \<lparr>Attributes =
        [(''metalake'', Attribute StringType required),
         (''resource_type'', Attribute StringType (required\<lparr>Validators := [OneOf AllObjectTypes]\<rparr>)),
         (''resource'', Attribute StringType required),
         (''names'', Attribute (ListType StringType) computed)],
      Blocks = []\<rparr>"

definition RolesListDataSourceModel_fields :: "(string \<times> go_type) list" where
  "RolesListDataSourceModel_fields =
     [(''metalake'', GoString), (''names'', GoList)]"

definition RolesListDataSource_Metadata :: "string \<Rightarrow> string" where
  "RolesListDataSource_Metadata providerTypeName = ''gravitino_roles_list''"

definition RolesListDataSource_Schema :: schema where
  "RolesListDataSource_Schema =
     \<lparr>Attributes =
        [(''metalake'', Attribute StringType required),
         (''names'', Attribute (ListType StringType) computed)],
      Blocks = []\<rparr>"

definition MetalakeRolesDataSourceModel_fields :: "(string \<times> go_type) list" where
  "MetalakeRolesDataSourceModel_fields =
     [(''metalake'', GoString), (''names'', GoList)]"

definition MetalakeRolesDataSource_Metadata :: "string \<Rightarrow> string" where
  "MetalakeRolesDataSource_Metadata providerTypeName = ''gravitino_metalake_roles''"

definition MetalakeRolesDataSource_Schema :: schema where
  "MetalakeRolesDataSource_Schema =
     \<lparr>Attributes =
        [(''metalake'', Attribute StringType required),
         (''names'', Attribute (ListType StringType) computed)],
      Blocks = []\<rparr>"

definition SchemaDataSourceModel_fields :: "(string \<times> go_type) list" where
  "SchemaDataSourceModel_fields =
     [(''metalake'', GoString), (''catalog'', GoString), (''name'', GoString), (''comment'', GoString),
      (''properties'', GoMap), (''audit'', GoObject)]"

definition SchemaDataSource_Metadata :: "string \<Rightarrow> string" where
  "SchemaDataSource_Metadata providerTypeName = ''gravitino_schema''"

definition SchemaDataSource_Schema :: schema where
  "SchemaDataSource_Schema =
     \<lparr>Attributes =
        [(''metalake'', Attribute StringType required),
         (''catalog'', Attribute StringType required),
         (''name'', Attribute StringType required),
         (''comment'', Attribute StringType computed),
         (''properties'', Attribute (MapType StringType) computed),
         (''audit'', Attribute (ObjectType AuditAttrTypes) computed)],
      Blocks = []\<rparr>"

definition dslSchemaListItemAttrTypes :: "(string \<times> attr_type) list" where
  "dslSchemaListItemAttrTypes =
     [(''name'', StringType), (''comment'', StringType), (''properties'', MapType StringType),
      (''audit'', ObjectType AuditAttrTypes)]"

definition SchemasDataSourceModel_fields :: "(string \<times> go_type) list" where
  "SchemasDataSourceModel_fields =
     [(''metalake'', GoString), (''catalog'', GoString), (''schemas'', GoList)]"

definition SchemasDataSource_Metadata :: "string \<Rightarrow> string" where
  "SchemasDataSource_Metadata providerTypeName = ''gravitino_schemas''"

definition SchemasDataSource_Schema :: schema where
  "SchemasDataSource_Schema =
     \<lparr>Attributes =
        [(''metalake'', Attribute StringType required),
         (''catalog'', Attribute StringType required),
         (''schemas'', ListNestedAttribute
           [(''name'', Attribute StringType computed),
            (''comment'', Attribute StringType computed),
            (''properties'', Attribute (MapType StringType) computed),
            (''audit'', Attribute (ObjectType AuditAttrTypes) computed)]
           computed)],
      Blocks = []\<rparr>"

definition SecretsDataSourceModel_fields :: "(string \<times> go_type) list" where
  "SecretsDataSourceModel_fields =
     [(''metalake'', GoString), (''resource_type'', GoString), (''resource'', GoString),
      (''secrets'', GoMap)]"

definition SecretsDataSource_Metadata :: "string \<Rightarrow> string" where
  "SecretsDataSource_Metadata providerTypeName = ''gravitino_secrets''"

definition SecretsDataSource_Schema :: schema where
  "SecretsDataSource_Schema =
     \<lparr>Attributes =
        [(''metalake'', Attribute StringType required),
         (''resource_type'', Attribute StringType (required\<lparr>Validators := [OneOf [''CATALOG'', ''SCHEMA'',
             ''FILESET'']]\<rparr>)),
         (''resource'', Attribute StringType required),
         (''secrets'', Attribute (MapType StringType) (computed\<lparr>Sensitive := True\<rparr>))],
      Blocks = []\<rparr>"

definition StatisticItemAttrTypes :: "(string \<times> attr_type) list" where
  "StatisticItemAttrTypes =
     [(''name'', StringType), (''value'', StringType), (''reserved'', BoolType),
      (''modifiable'', BoolType), (''audit'', ObjectType AuditAttrTypes)]"

definition StatisticsDataSourceModel_fields :: "(string \<times> go_type) list" where
  "StatisticsDataSourceModel_fields =
     [(''metalake'', GoString), (''resource_type'', GoString), (''resource'', GoString),
      (''statistics'', GoList)]"

definition StatisticsDataSource_Metadata :: "string \<Rightarrow> string" where
  "StatisticsDataSource_Metadata providerTypeName = ''gravitino_statistics''"

definition StatisticsDataSource_Schema :: schema where
  "StatisticsDataSource_Schema =
     \<lparr>Attributes =
        [(''metalake'', Attribute StringType required),
         (''resource_type'',
             Attribute StringType (required\<lparr>Validators := [OneOf StatisticsObjectTypes]\<rparr>)),
         (''resource'', Attribute StringType required),
         (''statistics'', ListNestedAttribute
           [(''name'', Attribute StringType computed),
            (''value'', Attribute StringType computed),
            (''reserved'', Attribute BoolType computed),
            (''modifiable'', Attribute BoolType computed),
            (''audit'', SingleNestedAttribute
              [(''creator'', Attribute StringType computed),
               (''create_time'', Attribute StringType computed),
               (''last_modifier'', Attribute StringType computed),
               (''last_modified_time'', Attribute StringType computed)]
              computed)]
           computed)],
      Blocks = []\<rparr>"

definition PartitionStatisticItemAttrTypes :: "(string \<times> attr_type) list" where
  "PartitionStatisticItemAttrTypes =
     [(''partition_name'', StringType), (''statistics'', ListType (ObjectType StatisticItemAttrTypes))]"

definition PartitionStatisticsDataSourceModel_fields :: "(string \<times> go_type) list" where
  "PartitionStatisticsDataSourceModel_fields =
     [(''metalake'', GoString), (''catalog'', GoString), (''schema'', GoString), (''table'', GoString),
      (''partition_statistics'', GoList)]"

definition PartitionStatisticsDataSource_Metadata :: "string \<Rightarrow> string" where
  "PartitionStatisticsDataSource_Metadata providerTypeName = ''gravitino_partition_statistics''"

definition PartitionStatisticsDataSource_Schema :: schema where
  "PartitionStatisticsDataSource_Schema =
     \<lparr>Attributes =
        [(''metalake'', Attribute StringType required),
         (''catalog'', Attribute StringType required),
         (''schema'', Attribute StringType required),
         (''table'', Attribute StringType required),
         (''partition_statistics'', ListNestedAttribute
           [(''partition_name'', Attribute StringType computed),
            (''statistics'', ListNestedAttribute
              [(''name'', Attribute StringType computed),
               (''value'', Attribute StringType computed),
               (''reserved'', Attribute BoolType computed),
               (''modifiable'', Attribute BoolType computed),
               (''audit'', SingleNestedAttribute
                 [(''creator'', Attribute StringType computed),
                  (''create_time'', Attribute StringType computed),
                  (''last_modifier'', Attribute StringType computed),
                  (''last_modified_time'', Attribute StringType computed)]
                 computed)]
              computed)]
           computed)],
      Blocks = []\<rparr>"

definition tableDataSource_Metadata :: "string \<Rightarrow> string" where
  "tableDataSource_Metadata providerTypeName = providerTypeName @ ''_table''"

definition tableDataSource_Schema :: schema where
  "tableDataSource_Schema =
     \<lparr>Attributes =
        [(''metalake'', Attribute StringType required),
         (''catalog'', Attribute StringType required),
         (''schema'', Attribute StringType required),
         (''name'', Attribute StringType required),
         (''comment'', Attribute StringType computed),
         (''properties'', Attribute (MapType StringType) computed),
         (''audit'', Attribute (ObjectType AuditAttrTypes) computed)],
      Blocks =
        [(''column'', ListNestedBlock
           [(''name'', Attribute StringType computed),
            (''type'', Attribute StringType computed),
            (''comment'', Attribute StringType computed),
            (''nullable'', Attribute BoolType computed),
            (''auto_increment'', Attribute BoolType computed),
            (''default_value'', Attribute StringType computed)]
           [] unset),
         (''sort_order'', ListNestedBlock
           [(''field_name'', Attribute (ListType StringType) computed),
            (''direction'', Attribute StringType computed),
            (''null_ordering'', Attribute StringType computed)]
           [] unset),
         (''distribution'', SingleNestedBlock
           [(''strategy'', Attribute StringType computed),
            (''number'', Attribute Int64Type computed),
            (''func_args'', Attribute (ListType StringType) computed)]
           [] unset),
         (''partitioning'', ListNestedBlock
           [(''strategy'', Attribute StringType computed),
            (''field_name'', Attribute (ListType StringType) computed),
            (''field_names'', Attribute (ListType (ListType StringType)) computed),
            (''num_buckets'', Attribute Int64Type computed),
            (''width'', Attribute Int64Type computed),
            (''func_name'', Attribute StringType computed),
            (''func_args'', Attribute (ListType StringType) computed)]
           [] unset),
         (''index'', ListNestedBlock
           [(''index_type'', Attribute StringType computed),
            (''name'', Attribute StringType computed),
            (''field_names'', Attribute (ListType (ListType StringType)) computed),
            (''properties'', Attribute (MapType StringType) computed)]
           [] unset)]\<rparr>"

definition tablesDataSourceModel_fields :: "(string \<times> go_type) list" where
  "tablesDataSourceModel_fields =
     [(''metalake'', GoString), (''catalog'', GoString), (''schema'', GoString), (''tables'', GoList)]"

definition tablesDataSource_Metadata :: "string \<Rightarrow> string" where
  "tablesDataSource_Metadata providerTypeName = providerTypeName @ ''_tables''"

definition tablesDataSource_Schema :: schema where
  "tablesDataSource_Schema =
     \<lparr>Attributes =
        [(''metalake'', Attribute StringType required),
         (''catalog'', Attribute StringType required),
         (''schema'', Attribute StringType required),
         (''tables'', Attribute (ListType StringType) computed)],
      Blocks = []\<rparr>"

definition TagDataSourceModel_fields :: "(string \<times> go_type) list" where
  "TagDataSourceModel_fields =
     [(''metalake'', GoString), (''name'', GoString), (''comment'', GoString), (''properties'', GoMap),
      (''audit'', GoObject), (''inherited'', GoBool)]"

definition TagDataSource_Metadata :: "string \<Rightarrow> string" where
  "TagDataSource_Metadata providerTypeName = ''gravitino_tag''"

definition TagDataSource_Schema :: schema where
  "TagDataSource_Schema =
     \<lparr>Attributes =
        [(''metalake'', Attribute StringType required),
         (''name'', Attribute StringType required),
         (''comment'', Attribute StringType computed),
         (''properties'', Attribute (MapType StringType) computed),
         (''audit'', Attribute (ObjectType AuditAttrTypes) computed),
         (''inherited'', Attribute BoolType computed)],
      Blocks = []\<rparr>"

definition TagItemAttrTypes :: "(string \<times> attr_type) list" where
  "TagItemAttrTypes =
     [(''name'', StringType), (''comment'', StringType), (''properties'', MapType StringType),
      (''audit'', ObjectType AuditAttrTypes), (''inherited'', BoolType)]"

definition TagsDataSourceModel_fields :: "(string \<times> go_type) list" where
  "TagsDataSourceModel_fields =
     [(''metalake'', GoString), (''tags'', GoList)]"

definition TagsDataSource_Metadata :: "string \<Rightarrow> string" where
  "TagsDataSource_Metadata providerTypeName = ''gravitino_tags''"

definition TagsDataSource_Schema :: schema where
  "TagsDataSource_Schema =
     \<lparr>Attributes =
        [(''metalake'', Attribute StringType required),
         (''tags'', ListNestedAttribute
           [(''name'', Attribute StringType computed),
            (''comment'', Attribute StringType computed),
            (''properties'', Attribute (MapType StringType) computed),
            (''audit'', Attribute (ObjectType AuditAttrTypes) computed),
            (''inherited'', Attribute BoolType computed)]
           computed)],
      Blocks = []\<rparr>"

definition ObjectTagsDataSourceModel_fields :: "(string \<times> go_type) list" where
  "ObjectTagsDataSourceModel_fields =
     [(''metalake'', GoString), (''object_type'', GoString), (''object_full_name'', GoString),
      (''tags'', GoList)]"

definition ObjectTagsDataSource_Metadata :: "string \<Rightarrow> string" where
  "ObjectTagsDataSource_Metadata providerTypeName = ''gravitino_object_tags''"

definition ObjectTagsDataSource_Schema :: schema where
  "ObjectTagsDataSource_Schema =
     \<lparr>Attributes =
        [(''metalake'', Attribute StringType required),
         (''object_type'', Attribute StringType (required\<lparr>Validators := [OneOf TagObjectTypes]\<rparr>)),
         (''object_full_name'', Attribute StringType required),
         (''tags'', Attribute (ListType StringType) computed)],
      Blocks = []\<rparr>"

definition TagObjectItemAttrTypes :: "(string \<times> attr_type) list" where
  "TagObjectItemAttrTypes =
     [(''type'', StringType), (''full_name'', StringType)]"

definition TagObjectsDataSourceModel_fields :: "(string \<times> go_type) list" where
  "TagObjectsDataSourceModel_fields =
     [(''metalake'', GoString), (''tag'', GoString), (''objects'', GoList)]"

definition TagObjectsDataSource_Metadata :: "string \<Rightarrow> string" where
  "TagObjectsDataSource_Metadata providerTypeName = ''gravitino_tag_objects''"

definition TagObjectsDataSource_Schema :: schema where
  "TagObjectsDataSource_Schema =
     \<lparr>Attributes =
        [(''metalake'', Attribute StringType required),
         (''tag'', Attribute StringType required),
         (''objects'', ListNestedAttribute
           [(''type'', Attribute StringType computed),
            (''full_name'', Attribute StringType computed)]
           computed)],
      Blocks = []\<rparr>"

definition TopicDataSourceModel_fields :: "(string \<times> go_type) list" where
  "TopicDataSourceModel_fields =
     [(''metalake'', GoString), (''catalog'', GoString), (''schema'', GoString), (''name'', GoString),
      (''comment'', GoString), (''properties'', GoMap), (''audit'', GoObject)]"

definition TopicDataSource_Metadata :: "string \<Rightarrow> string" where
  "TopicDataSource_Metadata providerTypeName = ''gravitino_topic''"

definition TopicDataSource_Schema :: schema where
  "TopicDataSource_Schema =
     \<lparr>Attributes =
        [(''metalake'', Attribute StringType required),
         (''catalog'', Attribute StringType required),
         (''schema'', Attribute StringType required),
         (''name'', Attribute StringType required),
         (''comment'', Attribute StringType computed),
         (''properties'', Attribute (MapType StringType) computed),
         (''audit'', Attribute (ObjectType AuditAttrTypes) computed)],
      Blocks = []\<rparr>"

definition dslTopicListItemAttrTypes :: "(string \<times> attr_type) list" where
  "dslTopicListItemAttrTypes =
     [(''name'', StringType), (''comment'', StringType), (''properties'', MapType StringType),
      (''audit'', ObjectType AuditAttrTypes)]"

definition TopicsDataSourceModel_fields :: "(string \<times> go_type) list" where
  "TopicsDataSourceModel_fields =
     [(''metalake'', GoString), (''catalog'', GoString), (''schema'', GoString), (''topics'', GoList)]"

definition TopicsDataSource_Metadata :: "string \<Rightarrow> string" where
  "TopicsDataSource_Metadata providerTypeName = ''gravitino_topics''"

definition TopicsDataSource_Schema :: schema where
  "TopicsDataSource_Schema =
     \<lparr>Attributes =
        [(''metalake'', Attribute StringType required),
         (''catalog'', Attribute StringType required),
         (''schema'', Attribute StringType required),
         (''topics'', ListNestedAttribute
           [(''name'', Attribute StringType computed),
            (''comment'', Attribute StringType computed),
            (''properties'', Attribute (MapType StringType) computed),
            (''audit'', Attribute (ObjectType AuditAttrTypes) computed)]
           computed)],
      Blocks = []\<rparr>"

definition UserDataSourceModel_fields :: "(string \<times> go_type) list" where
  "UserDataSourceModel_fields =
     [(''metalake'', GoString), (''name'', GoString), (''roles'', GoSet), (''audit'', GoObject)]"

definition UserDataSource_Metadata :: "string \<Rightarrow> string" where
  "UserDataSource_Metadata providerTypeName = ''gravitino_user''"

definition UserDataSource_Schema :: schema where
  "UserDataSource_Schema =
     \<lparr>Attributes =
        [(''metalake'', Attribute StringType required),
         (''name'', Attribute StringType required),
         (''roles'', Attribute (SetType StringType) computed),
         (''audit'', Attribute (ObjectType AuditAttrTypes) computed)],
      Blocks = []\<rparr>"

definition UsersDataSourceModel_fields :: "(string \<times> go_type) list" where
  "UsersDataSourceModel_fields =
     [(''metalake'', GoString), (''names'', GoList)]"

definition UsersDataSource_Metadata :: "string \<Rightarrow> string" where
  "UsersDataSource_Metadata providerTypeName = ''gravitino_users''"

definition UsersDataSource_Schema :: schema where
  "UsersDataSource_Schema =
     \<lparr>Attributes =
        [(''metalake'', Attribute StringType required),
         (''names'', Attribute (ListType StringType) computed)],
      Blocks = []\<rparr>"

definition ViewDataSource_Metadata :: "string \<Rightarrow> string" where
  "ViewDataSource_Metadata providerTypeName = ''gravitino_view''"

definition ViewDataSource_Schema :: schema where
  "ViewDataSource_Schema =
     \<lparr>Attributes =
        [(''metalake'', Attribute StringType required),
         (''catalog'', Attribute StringType required),
         (''schema'', Attribute StringType required),
         (''name'', Attribute StringType required),
         (''comment'', Attribute StringType computed),
         (''column'', ListNestedAttribute
           [(''name'', Attribute StringType computed),
            (''type'', Attribute StringType computed),
            (''comment'', Attribute StringType computed),
            (''nullable'', Attribute BoolType computed),
            (''auto_increment'', Attribute BoolType computed),
            (''default_value'', Attribute StringType computed)]
           computed),
         (''representation'', ListNestedAttribute
           [(''type'', Attribute StringType computed),
            (''dialect'', Attribute StringType computed),
            (''sql'', Attribute StringType computed)]
           computed),
         (''default_catalog'', Attribute StringType computed),
         (''default_schema'', Attribute StringType computed),
         (''properties'', Attribute (MapType StringType) computed),
         (''audit'', Attribute (ObjectType AuditAttrTypes) computed)],
      Blocks = []\<rparr>"

definition ViewsDataSource_Metadata :: "string \<Rightarrow> string" where
  "ViewsDataSource_Metadata providerTypeName = ''gravitino_views''"

definition ViewsDataSource_Schema :: schema where
  "ViewsDataSource_Schema =
     \<lparr>Attributes =
        [(''metalake'', Attribute StringType required),
         (''catalog'', Attribute StringType required),
         (''schema'', Attribute StringType required),
         (''views'', ListNestedAttribute
           [(''name'', Attribute StringType computed),
            (''comment'', Attribute StringType computed),
            (''column'', ListNestedAttribute
              [(''name'', Attribute StringType computed),
               (''type'', Attribute StringType computed),
               (''comment'', Attribute StringType computed),
               (''nullable'', Attribute BoolType computed),
               (''auto_increment'', Attribute BoolType computed),
               (''default_value'', Attribute StringType computed)]
              computed),
            (''representation'', ListNestedAttribute
              [(''type'', Attribute StringType computed),
               (''dialect'', Attribute StringType computed),
               (''sql'', Attribute StringType computed)]
              computed),
            (''default_catalog'', Attribute StringType computed),
            (''default_schema'', Attribute StringType computed),
            (''properties'', Attribute (MapType StringType) computed),
            (''audit'', Attribute (ObjectType AuditAttrTypes) computed)]
           computed)],
      Blocks = []\<rparr>"

definition catalogItemModel_fields :: "(string \<times> go_type) list" where
  "catalogItemModel_fields =
     [(''name'', GoString), (''type'', GoString), (''catalog_provider'', GoString),
      (''comment'', GoString), (''properties'', GoMap), (''audit'', GoObject)]"

definition CredentialItemModel_fields :: "(string \<times> go_type) list" where
  "CredentialItemModel_fields =
     [(''credential_type'', GoString), (''expire_time_in_ms'', GoInt64), (''credential_info'', GoMap)]"

definition filesetItemModel_fields :: "(string \<times> go_type) list" where
  "filesetItemModel_fields =
     [(''name'', GoString), (''comment'', GoString), (''type'', GoString),
      (''storage_location'', GoString), (''properties'', GoMap), (''audit'', GoObject)]"

definition policyItemModel_fields :: "(string \<times> go_type) list" where
  "policyItemModel_fields =
     [(''name'', GoString), (''comment'', GoString), (''policy_type'', GoString), (''enabled'', GoBool),
      (''supported_object_types'', GoSet), (''properties'', GoMap), (''custom_rules'', GoMap),
      (''audit'', GoObject)]"

definition policyObjectItemModel_fields :: "(string \<times> go_type) list" where
  "policyObjectItemModel_fields =
     [(''type'', GoString), (''full_name'', GoString)]"

definition statisticItemModel_fields :: "(string \<times> go_type) list" where
  "statisticItemModel_fields =
     [(''name'', GoString), (''value'', GoString), (''reserved'', GoBool), (''modifiable'', GoBool),
      (''audit'', GoObject)]"

definition partitionStatisticItemModel_fields :: "(string \<times> go_type) list" where
  "partitionStatisticItemModel_fields =
     [(''partition_name'', GoString), (''statistics'', GoList)]"

definition tagItemModel_fields :: "(string \<times> go_type) list" where
  "tagItemModel_fields =
     [(''name'', GoString), (''comment'', GoString), (''properties'', GoMap), (''audit'', GoObject),
      (''inherited'', GoBool)]"

definition tagObjectItemModel_fields :: "(string \<times> go_type) list" where
  "tagObjectItemModel_fields =
     [(''type'', GoString), (''full_name'', GoString)]"

definition ViewDataSourceModel_fields :: "(string \<times> go_type) list" where
  "ViewDataSourceModel_fields =
     [(''metalake'', GoString), (''catalog'', GoString), (''schema'', GoString), (''name'', GoString),
      (''comment'', GoString), (''column'', GoSlice ColumnTFSDK_fields),
      (''representation'', GoSlice ViewRepresentationTFSDK_fields), (''default_catalog'', GoString),
      (''default_schema'', GoString), (''properties'', GoMap), (''audit'', GoObject)]"

definition ViewListEntryModel_fields :: "(string \<times> go_type) list" where
  "ViewListEntryModel_fields =
     [(''name'', GoString), (''comment'', GoString), (''column'', GoSlice ColumnTFSDK_fields),
      (''representation'', GoSlice ViewRepresentationTFSDK_fields), (''default_catalog'', GoString),
      (''default_schema'', GoString), (''properties'', GoMap), (''audit'', GoObject)]"

definition ViewsDataSourceModel_fields :: "(string \<times> go_type) list" where
  "ViewsDataSourceModel_fields =
     [(''metalake'', GoString), (''catalog'', GoString), (''schema'', GoString),
      (''views'', GoSlice ViewListEntryModel_fields)]"

definition provider_DataSources :: "registered list" where
  "provider_DataSources =
     [\<lparr>rg_Metadata = MetalakesDataSource_Metadata, rg_Fields = MetalakesDataSourceModel_fields,
         rg_Schema = MetalakesDataSource_Schema\<rparr>,
      \<lparr>rg_Metadata = MetalakeDataSource_Metadata, rg_Fields = MetalakeDataSourceModel_fields,
          rg_Schema = MetalakeDataSource_Schema\<rparr>,
      \<lparr>rg_Metadata = CatalogsDataSource_Metadata, rg_Fields = CatalogsDataSourceModel_fields,
          rg_Schema = CatalogsDataSource_Schema\<rparr>,
      \<lparr>rg_Metadata = CatalogDataSource_Metadata, rg_Fields = CatalogDataSourceModel_fields,
          rg_Schema = CatalogDataSource_Schema\<rparr>,
      \<lparr>rg_Metadata = CatalogConnectionTestDataSource_Metadata,
          rg_Fields = CatalogConnectionTestDataSourceModel_fields,
          rg_Schema = CatalogConnectionTestDataSource_Schema\<rparr>,
      \<lparr>rg_Metadata = JobsDataSource_Metadata, rg_Fields = JobsDataSourceModel_fields,
          rg_Schema = JobsDataSource_Schema\<rparr>,
      \<lparr>rg_Metadata = JobDataSource_Metadata, rg_Fields = JobDataSourceModel_fields,
          rg_Schema = JobDataSource_Schema\<rparr>,
      \<lparr>rg_Metadata = JobTemplateDataSource_Metadata, rg_Fields = JobTemplateDataSourceModel_fields,
          rg_Schema = JobTemplateDataSource_Schema\<rparr>,
      \<lparr>rg_Metadata = JobTemplatesDataSource_Metadata, rg_Fields = JobTemplatesDataSourceModel_fields,
          rg_Schema = JobTemplatesDataSource_Schema\<rparr>,
      \<lparr>rg_Metadata = SchemaDataSource_Metadata, rg_Fields = SchemaDataSourceModel_fields,
          rg_Schema = SchemaDataSource_Schema\<rparr>,
      \<lparr>rg_Metadata = SchemasDataSource_Metadata, rg_Fields = SchemasDataSourceModel_fields,
          rg_Schema = SchemasDataSource_Schema\<rparr>,
      \<lparr>rg_Metadata = ModelDataSource_Metadata, rg_Fields = ModelDataSourceModel_fields,
          rg_Schema = ModelDataSource_Schema\<rparr>,
      \<lparr>rg_Metadata = ModelsDataSource_Metadata, rg_Fields = ModelsDataSourceModel_fields,
          rg_Schema = ModelsDataSource_Schema\<rparr>,
      \<lparr>rg_Metadata = ModelVersionDataSource_Metadata, rg_Fields = ModelVersionDataSourceModel_fields,
          rg_Schema = ModelVersionDataSource_Schema\<rparr>,
      \<lparr>rg_Metadata = ModelVersionsDataSource_Metadata, rg_Fields = ModelVersionsDataSourceModel_fields,
          rg_Schema = ModelVersionsDataSource_Schema\<rparr>,
      \<lparr>rg_Metadata = TagsDataSource_Metadata, rg_Fields = TagsDataSourceModel_fields,
          rg_Schema = TagsDataSource_Schema\<rparr>,
      \<lparr>rg_Metadata = TagDataSource_Metadata, rg_Fields = TagDataSourceModel_fields,
          rg_Schema = TagDataSource_Schema\<rparr>,
      \<lparr>rg_Metadata = ObjectTagsDataSource_Metadata, rg_Fields = ObjectTagsDataSourceModel_fields,
          rg_Schema = ObjectTagsDataSource_Schema\<rparr>,
      \<lparr>rg_Metadata = TagObjectsDataSource_Metadata, rg_Fields = TagObjectsDataSourceModel_fields,
          rg_Schema = TagObjectsDataSource_Schema\<rparr>,
      \<lparr>rg_Metadata = ViewsDataSource_Metadata, rg_Fields = ViewsDataSourceTFModel_fields,
          rg_Schema = ViewsDataSource_Schema\<rparr>,
      \<lparr>rg_Metadata = ViewDataSource_Metadata, rg_Fields = ViewDataSourceTFModel_fields,
          rg_Schema = ViewDataSource_Schema\<rparr>,
      \<lparr>rg_Metadata = FunctionsDataSource_Metadata, rg_Fields = FunctionsDataSourceModel_fields,
          rg_Schema = FunctionsDataSource_Schema\<rparr>,
      \<lparr>rg_Metadata = FunctionDataSource_Metadata, rg_Fields = FunctionDataSourceModel_fields,
          rg_Schema = FunctionDataSource_Schema\<rparr>,
      \<lparr>rg_Metadata = FilesetsDataSource_Metadata, rg_Fields = FilesetsDataSourceModel_fields,
          rg_Schema = FilesetsDataSource_Schema\<rparr>,
      \<lparr>rg_Metadata = FilesetDataSource_Metadata, rg_Fields = FilesetDataSourceModel_fields,
          rg_Schema = FilesetDataSource_Schema\<rparr>,
      \<lparr>rg_Metadata = TopicsDataSource_Metadata, rg_Fields = TopicsDataSourceModel_fields,
          rg_Schema = TopicsDataSource_Schema\<rparr>,
      \<lparr>rg_Metadata = TopicDataSource_Metadata, rg_Fields = TopicDataSourceModel_fields,
          rg_Schema = TopicDataSource_Schema\<rparr>,
      \<lparr>rg_Metadata = GroupsDataSource_Metadata, rg_Fields = GroupsDataSourceModel_fields,
          rg_Schema = GroupsDataSource_Schema\<rparr>,
      \<lparr>rg_Metadata = GroupDataSource_Metadata, rg_Fields = GroupDataSourceModel_fields,
          rg_Schema = GroupDataSource_Schema\<rparr>,
      \<lparr>rg_Metadata = PartitionsDataSource_Metadata, rg_Fields = PartitionsDataSourceModel_fields,
          rg_Schema = PartitionsDataSource_Schema\<rparr>,
      \<lparr>rg_Metadata = PartitionDataSource_Metadata, rg_Fields = PartitionDataSourceModel_fields,
          rg_Schema = PartitionDataSource_Schema\<rparr>,
      \<lparr>rg_Metadata = tablesDataSource_Metadata, rg_Fields = tablesDataSourceModel_fields,
          rg_Schema = tablesDataSource_Schema\<rparr>,
      \<lparr>rg_Metadata = tableDataSource_Metadata, rg_Fields = TableDataSourceTFModel_fields,
          rg_Schema = tableDataSource_Schema\<rparr>,
      \<lparr>rg_Metadata = HealthDataSource_Metadata, rg_Fields = HealthDataSourceModel_fields,
          rg_Schema = HealthDataSource_Schema\<rparr>,
      \<lparr>rg_Metadata = LivenessDataSource_Metadata, rg_Fields = LivenessDataSourceModel_fields,
          rg_Schema = LivenessDataSource_Schema\<rparr>,
      \<lparr>rg_Metadata = ReadinessDataSource_Metadata, rg_Fields = ReadinessDataSourceModel_fields,
          rg_Schema = ReadinessDataSource_Schema\<rparr>,
      \<lparr>rg_Metadata = IcebergRESTServiceDataSource_Metadata,
          rg_Fields = IcebergRESTServiceDataSourceModel_fields,
          rg_Schema = IcebergRESTServiceDataSource_Schema\<rparr>,
      \<lparr>rg_Metadata = PoliciesDataSource_Metadata, rg_Fields = PoliciesDataSourceModel_fields,
          rg_Schema = PoliciesDataSource_Schema\<rparr>,
      \<lparr>rg_Metadata = PolicyDataSource_Metadata, rg_Fields = PolicyDataSourceModel_fields,
          rg_Schema = PolicyDataSource_Schema\<rparr>,
      \<lparr>rg_Metadata = ObjectPoliciesDataSource_Metadata, rg_Fields = ObjectPoliciesDataSourceModel_fields,
          rg_Schema = ObjectPoliciesDataSource_Schema\<rparr>,
      \<lparr>rg_Metadata = PolicyObjectsDataSource_Metadata, rg_Fields = PolicyObjectsDataSourceModel_fields,
          rg_Schema = PolicyObjectsDataSource_Schema\<rparr>,
      \<lparr>rg_Metadata = CredentialsDataSource_Metadata, rg_Fields = CredentialsDataSourceModel_fields,
          rg_Schema = CredentialsDataSource_Schema\<rparr>,
      \<lparr>rg_Metadata = SecretsDataSource_Metadata, rg_Fields = SecretsDataSourceModel_fields,
          rg_Schema = SecretsDataSource_Schema\<rparr>,
      \<lparr>rg_Metadata = RolesDataSource_Metadata, rg_Fields = RolesDataSourceModel_fields,
          rg_Schema = RolesDataSource_Schema\<rparr>,
      \<lparr>rg_Metadata = RoleDataSource_Metadata, rg_Fields = RoleDataSourceModel_fields,
          rg_Schema = RoleDataSource_Schema\<rparr>,
      \<lparr>rg_Metadata = MetalakeRolesDataSource_Metadata, rg_Fields = MetalakeRolesDataSourceModel_fields,
          rg_Schema = MetalakeRolesDataSource_Schema\<rparr>,
      \<lparr>rg_Metadata = RolesListDataSource_Metadata, rg_Fields = RolesListDataSourceModel_fields,
          rg_Schema = RolesListDataSource_Schema\<rparr>,
      \<lparr>rg_Metadata = StatisticsDataSource_Metadata, rg_Fields = StatisticsDataSourceModel_fields,
          rg_Schema = StatisticsDataSource_Schema\<rparr>,
      \<lparr>rg_Metadata = PartitionStatisticsDataSource_Metadata,
          rg_Fields = PartitionStatisticsDataSourceModel_fields,
          rg_Schema = PartitionStatisticsDataSource_Schema\<rparr>,
      \<lparr>rg_Metadata = PrincipalDataSource_Metadata, rg_Fields = PrincipalDataSourceModel_fields,
          rg_Schema = PrincipalDataSource_Schema\<rparr>,
      \<lparr>rg_Metadata = OwnerDataSource_Metadata, rg_Fields = OwnerDataSourceModel_fields,
          rg_Schema = OwnerDataSource_Schema\<rparr>,
      \<lparr>rg_Metadata = UsersDataSource_Metadata, rg_Fields = UsersDataSourceModel_fields,
          rg_Schema = UsersDataSource_Schema\<rparr>,
      \<lparr>rg_Metadata = UserDataSource_Metadata, rg_Fields = UserDataSourceModel_fields,
          rg_Schema = UserDataSource_Schema\<rparr>,
      \<lparr>rg_Metadata = IdpUserDataSource_Metadata, rg_Fields = IdpUserDataSourceModel_fields,
          rg_Schema = IdpUserDataSource_Schema\<rparr>,
      \<lparr>rg_Metadata = IdpGroupDataSource_Metadata, rg_Fields = IdpGroupDataSourceModel_fields,
          rg_Schema = IdpGroupDataSource_Schema\<rparr>]"

end
