(* ===== verification/SchemaContracts.thy ===== *)
theory SchemaContracts
  imports DataSourceSchemas
begin

section \<open>What the schemas promise to the handlers\<close>

text \<open>
  The handlers rely on their schemas: the framework decodes plans and states into their Go structs, and decides from
  the plan modifiers whether a change reaches \<open>Update\<close> at all. The first lemmas compare the declarations of
  \<open>ResourceSchemas\<close> and \<open>DataSourceSchemas\<close> with the structs and the types of the built objects, as the repository's tests
  do; the property is about the attributes a configuration leaves out.
\<close>

subsection \<open>Registration\<close>

text \<open>The struct that a handler decodes has the names of its schema, and the plan modifier of an identifier reads strings that
  the configuration sets.\<close>

lemma names_removed:
  "list_all (\<lambda>r. removes_to (map fst (rg_Fields r)) (map fst (Attributes (rg_Schema r)) @ map fst (Blocks (rg_Schema r)))) provider_Resources"
  "list_all (\<lambda>r. removes_to (map fst (rg_Fields r)) (map fst (Attributes (rg_Schema r)) @ map fst (Blocks (rg_Schema r)))) provider_DataSources"
  "removes_to (map fst GravitinoProviderModel_fields) (map fst (Attributes GravitinoProvider_Schema) @ map fst (Blocks GravitinoProvider_Schema))"
  by code_simp+

lemma structs_match_schemas:
  "list_all (\<lambda>r. AssertSchemaMatches (rg_Fields r) (Attributes (rg_Schema r)) (Blocks (rg_Schema r))) provider_Resources"
  "list_all (\<lambda>r. AssertSchemaMatches (rg_Fields r) (Attributes (rg_Schema r)) (Blocks (rg_Schema r))) provider_DataSources"
  "AssertSchemaMatches GravitinoProviderModel_fields (Attributes GravitinoProvider_Schema) (Blocks GravitinoProvider_Schema)"
  using names_removed AssertSchemaMatches_names unfolding list_all_iff by blast+

lemma identifier_components_readable: "list_all (\<lambda>r. readable_components (rg_Schema r)) provider_Resources"
  by code_simp

text \<open>No type name is registered twice.\<close>

lemma type_names_distinct:
  "distinct (map (\<lambda>r. rg_Metadata r GravitinoProvider_Metadata) provider_Resources)"
  "distinct (map (\<lambda>r. rg_Metadata r GravitinoProvider_Metadata) provider_DataSources)"
  by code_simp+

subsection \<open>Objects built from attribute types\<close>

text \<open>The attribute of a schema, and the type of the value that the conversions (named in \<open>ResourceSchemas\<close>) build for it.\<close>

definition built_values :: "(schema \<times> string \<times> attr_type) list" where
  "built_values =
     [(tableResource_Schema, ''column'', ListType (ObjectType ColumnAttrTypes)),
      (tableResource_Schema, ''sort_order'', ListType (ObjectType SortOrderAttrTypes)),
      (tableResource_Schema, ''partitioning'', ListType (ObjectType PartitioningAttrTypes)),
      (tableResource_Schema, ''distribution'', ObjectType DistributionAttrTypes),
      (tableResource_Schema, ''index'', ListType (ObjectType IndexAttrTypes)),
      (tableDataSource_Schema, ''column'', ListType (ObjectType ColumnAttrTypes)),
      (tableDataSource_Schema, ''sort_order'', ListType (ObjectType SortOrderAttrTypes)),
      (tableDataSource_Schema, ''partitioning'', ListType (ObjectType PartitioningAttrTypes)),
      (tableDataSource_Schema, ''distribution'', ObjectType DistributionAttrTypes),
      (tableDataSource_Schema, ''index'', ListType (ObjectType IndexAttrTypes)),
      (ViewResource_Schema, ''column'', ListType (ObjectType ColumnAttrTypes)),
      (ViewResource_Schema, ''representation'', ListType (ObjectType ViewRepresentationAttrTypes)),
      (ViewDataSource_Schema, ''column'', ListType (ObjectType ColumnAttrTypes)),
      (ViewDataSource_Schema, ''representation'', ListType (ObjectType ViewRepresentationAttrTypes)),
      (ViewsDataSource_Schema, ''views'', ListType (ObjectType ViewListEntryAttrTypes)),
      (FunctionResource_Schema, ''definitions'', FunctionDefinitionsListType),
      (FunctionDataSource_Schema, ''definitions'', FunctionDefinitionsListType),
      (FunctionsDataSource_Schema, ''functions'', ListType (ObjectType dslFunctionListItemAttrTypes)),
      (PartitionsDataSource_Schema, ''partitions'', ListType (ObjectType PartitionSpecAttrTypes)),
      (RoleResource_Schema, ''securable_objects'', SetType (ObjectType SecurableObjectAttrTypes)),
      (RoleDataSource_Schema, ''securable_objects'', SetType (ObjectType RoleSecurableObjectAttrTypes)),
      (CatalogsDataSource_Schema, ''catalogs'', ListType (ObjectType CatalogItemAttrTypes)),
      (SchemasDataSource_Schema, ''schemas'', ListType (ObjectType dslSchemaListItemAttrTypes)),
      (ModelsDataSource_Schema, ''models'', ListType (ObjectType ModelItemAttrTypes)),
      (ModelVersionsDataSource_Schema, ''versions'', ListType (ObjectType ModelVersionItemAttrTypes)),
      (JobsDataSource_Schema, ''jobs'', ListType (ObjectType JobItemAttrTypes)),
      (JobTemplatesDataSource_Schema, ''job_templates'', ListType (ObjectType JobTemplateItemAttrTypes)),
      (PoliciesDataSource_Schema, ''policies'', ListType (ObjectType PolicyItemAttrTypes)),
      (PolicyObjectsDataSource_Schema, ''objects'', ListType (ObjectType PolicyObjectItemAttrTypes)),
      (StatisticsDataSource_Schema, ''statistics'', ListType (ObjectType StatisticItemAttrTypes)),
      (PartitionStatisticsDataSource_Schema, ''partition_statistics'', ListType (ObjectType PartitionStatisticItemAttrTypes)),
      (FilesetsDataSource_Schema, ''filesets'', ListType (ObjectType FilesetItemAttrTypes)),
      (CredentialsDataSource_Schema, ''credentials'', ListType (ObjectType CredentialItemAttrTypes)),
      (TopicsDataSource_Schema, ''topics'', ListType (ObjectType dslTopicListItemAttrTypes)),
      (TagsDataSource_Schema, ''tags'', ListType (ObjectType TagItemAttrTypes)),
      (TagObjectsDataSource_Schema, ''objects'', ListType (ObjectType TagObjectItemAttrTypes))]"

text \<open>The structs that the conversions turn into objects with \<open>ObjectValueFrom\<close>.\<close>

definition struct_objects :: "((string \<times> go_type) list \<times> (string \<times> attr_type) list) list" where
  "struct_objects =
     [(ColumnTFSDK_fields, ColumnAttrTypes), (SortOrderTFSDK_fields, SortOrderAttrTypes),
      (PartitioningTFSDK_fields, PartitioningAttrTypes), (DistributionTFSDK_fields, DistributionAttrTypes),
      (IndexTFSDK_fields, IndexAttrTypes), (ViewRepresentationTFSDK_fields, ViewRepresentationAttrTypes),
      (ViewListEntryTFModel_fields, ViewListEntryAttrTypes), (FunctionDefinitionTFSDK_fields, FunctionDefinitionAttrTypes),
      (FunctionParamTFSDK_fields, FunctionParamAttrTypes), (FunctionColumnTFSDK_fields, FunctionColumnAttrTypes),
      (FunctionImplTFSDK_fields, FunctionImplAttrTypes), (FunctionResourcesTFSDK_fields, FunctionResourcesAttrTypes),
      (securableObjectModel_fields, SecurableObjectAttrTypes), (privilegeModel_fields, PrivilegeAttrTypes),
      (catalogItemModel_fields, CatalogItemAttrTypes), (policyItemModel_fields, PolicyItemAttrTypes),
      (policyObjectItemModel_fields, PolicyObjectItemAttrTypes), (statisticItemModel_fields, StatisticItemAttrTypes),
      (partitionStatisticItemModel_fields, PartitionStatisticItemAttrTypes), (filesetItemModel_fields, FilesetItemAttrTypes),
      (CredentialItemModel_fields, CredentialItemAttrTypes), (tagItemModel_fields, TagItemAttrTypes),
      (tagObjectItemModel_fields, TagObjectItemAttrTypes)]"

text \<open>The types agree with the schemas whatever the order of the members, and the structs have their names.\<close>

lemma conversion_types_agree:
  "list_all (\<lambda>(s, n, t). case map_of (schema_types s) n of None \<Rightarrow> False | Some u \<Rightarrow> same_type t u) built_values"
  by code_simp

lemma built_structs_match: "list_all (\<lambda>(fs, ts). AssertAttributesMatch fs (Keys ts)) struct_objects"
proof -
  have "list_all (\<lambda>(fs, ts). removes_to (map fst fs) (map fst ts)) struct_objects" by code_simp
  then show ?thesis by (auto simp: list_all_iff intro: AssertAttributesMatch_keys)
qed

subsection \<open>Changes in place\<close>

text \<open>
  What the framework documents of its plan modifiers, for an object that exists: the first two report a replacement
  when the planned value differs from the recorded one, the second only for a configured value; the third puts the
  recorded value in place of an unknown one. The arguments are the configured, the recorded and the planned value.
\<close>

type_synonym 'v modifier_run = "plan_modifier \<Rightarrow> 'v tfval \<Rightarrow> 'v tfval \<Rightarrow> 'v tfval \<Rightarrow> 'v tfval \<times> bool"

definition documented :: "'v modifier_run \<Rightarrow> bool" where
  "documented run \<longleftrightarrow>
     (\<forall>config state plan. run RequiresReplace config state plan = (plan, plan \<noteq> state)) \<and>
     (\<forall>config state plan. run RequiresReplaceIfConfigured config state plan = (plan, config \<noteq> TNull \<and> plan \<noteq> state)) \<and>
     (\<forall>config v plan. run UseStateForUnknown config (TKnown v) plan =
        (if plan = TUnknown \<and> config \<noteq> TUnknown then TKnown v else plan, False))"

text \<open>The modifiers of an attribute run in their order; each replacement they report counts.\<close>

fun modified :: "'v modifier_run \<Rightarrow> plan_modifier list \<Rightarrow> 'v tfval \<Rightarrow> 'v tfval \<Rightarrow> 'v tfval \<Rightarrow> 'v tfval \<times> bool" where
  "modified run [] config state plan = (plan, False)"
| "modified run (m # ms) config state plan =
     (case run m config state plan of
        (plan', replace) \<Rightarrow> (case modified run ms config state plan' of (plan'', replace') \<Rightarrow> (plan'', replace \<or> replace')))"

lemma same_value_kept:
  assumes "documented run" "set ms \<subseteq> {RequiresReplace, RequiresReplaceIfConfigured, UseStateForUnknown}"
  shows "modified run ms config (TKnown v) (TKnown v) = (TKnown v, False)"
  using assms(2)
proof (induction ms)
  case (Cons m ms)
  then have "run m config (TKnown v) (TKnown v) = (TKnown v, False)" using assms(1) by (auto simp: documented_def)
  then show ?case using Cons by simp
qed simp

lemma omitted_replaces:
  assumes "documented run" "set ms \<subseteq> {RequiresReplace, RequiresReplaceIfConfigured, UseStateForUnknown}"
  shows "snd (modified run ms TNull (TKnown v) TUnknown) \<longleftrightarrow> \<not> keeps_before_replacing ms"
  using assms(2)
proof (induction ms)
  case (Cons m ms)
  then consider "m = RequiresReplace" | "m = RequiresReplaceIfConfigured" | "m = UseStateForUnknown" by auto
  then show ?case
  proof cases
    case 1
    then have "run m TNull (TKnown v) TUnknown = (TUnknown, True)" using assms(1) by (simp add: documented_def)
    then show ?thesis using 1 by (simp split: prod.splits)
  next
    case 2
    then have "run m TNull (TKnown v) TUnknown = (TUnknown, False)" using assms(1) by (simp add: documented_def)
    then show ?thesis using 2 Cons by (simp split: prod.splits)
  next
    case 3
    then have "run m TNull (TKnown v) TUnknown = (TKnown v, False)" using assms(1) by (simp add: documented_def)
    then show ?thesis using 3 Cons.prems same_value_kept [OF assms(1), of ms] by simp
  qed
qed simp

text \<open>What a configuration may leave to the server.\<close>

definition left_to_server :: "attribute \<Rightarrow> bool" where
  "left_to_server a =
     (Optional (attribute_flags a) \<and> Computed (attribute_flags a) \<and> Default (attribute_flags a) = None)"

lemma view_columns_unkept:
  "list_all (\<lambda>r. updatable (rg_Schema r) = [] \<or>
       list_all (\<lambda>(n, a). \<not> left_to_server a \<or>
           list_all (\<lambda>m. m \<in> {RequiresReplace, RequiresReplaceIfConfigured, UseStateForUnknown}) (PlanModifiers (attribute_flags a)) \<and>
           keeps_before_replacing (PlanModifiers (attribute_flags a))
             = (\<not> (rg_Metadata r GravitinoProvider_Metadata = ''gravitino_view'' \<and> n = ''column'')))
         (Attributes (rg_Schema r))) provider_Resources"
  by code_simp

text \<open>C20: Leaving an attribute to the server never turns a change in place into a replacement, except for the columns of a
  view. In a plan that changes an object the framework marks each omitted attribute of this kind as unknown; the
  attributes of all other resources take their recorded value before a replacement is considered. A view whose columns
  are not configured is replaced by any change, also of its name or its properties, which the server could alter.\<close>

theorem omitted_attribute_replaces_iff:
  assumes "documented run" "r \<in> set provider_Resources" "updatable (rg_Schema r) \<noteq> []"
    and "(n, a) \<in> set (Attributes (rg_Schema r))" "left_to_server a"
  shows "snd (modified run (PlanModifiers (attribute_flags a)) TNull (TKnown v) TUnknown) \<longleftrightarrow>
    rg_Metadata r GravitinoProvider_Metadata = ''gravitino_view'' \<and> n = ''column''"
proof -
  have "set (PlanModifiers (attribute_flags a)) \<subseteq> {RequiresReplace, RequiresReplaceIfConfigured, UseStateForUnknown}"
    "keeps_before_replacing (PlanModifiers (attribute_flags a))
      = (\<not> (rg_Metadata r GravitinoProvider_Metadata = ''gravitino_view'' \<and> n = ''column''))"
    using view_columns_unkept assms(2-5) unfolding list_all_iff by fastforce+
  then show ?thesis using omitted_replaces [OF assms(1)] by simp
qed

text \<open>Modifiers as documented; the provider's own ones leave the plan alone here.\<close>

fun plain_run :: "string modifier_run" where
  "plain_run RequiresReplace config state plan = (plan, plan \<noteq> state)"
| "plain_run RequiresReplaceIfConfigured config state plan = (plan, config \<noteq> TNull \<and> plan \<noteq> state)"
| "plain_run UseStateForUnknown config state plan =
     (if plan = TUnknown \<and> config \<noteq> TUnknown \<and> state \<noteq> TNull then state else plan, False)"
| "plain_run m config state plan = (plan, False)"

theorem omitted_attribute_replaces_iff_witness:
  "snd (modified plain_run [RequiresReplace] TNull (TKnown ''recorded'') TUnknown)"
proof -
  have run: "documented plain_run" by (simp add: documented_def)
  let ?r = "\<lparr>rg_Metadata = ViewResource_Metadata, rg_Fields = ViewResourceTFModel_fields, rg_Schema = ViewResource_Schema\<rparr>"
  have "?r \<in> set provider_Resources" by (simp add: provider_Resources_def)
  moreover have "updatable ViewResource_Schema \<noteq> []" by code_simp
  moreover obtain a where "map_of (Attributes ViewResource_Schema) ''column'' = Some a" "left_to_server a"
      "PlanModifiers (attribute_flags a) = [RequiresReplace]"
    by (simp add: ViewResource_Schema_def left_to_server_def optional_computed_def unset_def)
  ultimately show ?thesis
    using omitted_attribute_replaces_iff [OF run, of ?r "''column''" a "''recorded''"]
    by (auto simp: ViewResource_Metadata_def dest: map_of_SomeD)
qed

end
