(* ===== verification/SchemaHandlers.thy ===== *)
theory SchemaHandlers
  imports SchemaContracts EntityUpdates FilesetResource ViewResource RoleResource FunctionResource PolicyResource JobResource
begin

section \<open>Handlers against their schemas\<close>

text \<open>
  An agreement between a handler and the schema of its resource: an attribute that a configuration may change without
  a new object must be one the update sends. Any other change would be planned and never carried out.
\<close>

subsection \<open>What an update sends\<close>

context property_diff
begin

lemma no_requests_iff:
  assumes "wf_map p" "wf_map c"
  shows "diff p c = [] \<longleftrightarrow> (\<forall>k. \<not> reserved k \<longrightarrow> map_of p k = map_of c k)"
proof
  assume empty: "diff p c = []"
  show "\<forall>k. \<not> reserved k \<longrightarrow> map_of p k = map_of c k"
  proof (intro allI impI)
    fix k assume k: "\<not> reserved k"
    have "\<not> legal p c (set_u k v)" "\<not> legal p c (rem_u k)" for v
      using members [OF assms] empty by (auto simp: legal_def)
    then show "map_of p k = map_of c k"
      using k unfolding legal_set legal_rem by (cases "map_of p k"; cases "map_of c k") auto
  qed
qed (simp add: quiet assms)

end

text \<open>The attributes that can change in place are the same in two models; \<open>same\<close> compares an attribute by its name.\<close>

definition unchanged :: "schema \<Rightarrow> (string \<Rightarrow> 'm \<Rightarrow> 'm \<Rightarrow> bool) \<Rightarrow> 'm \<Rightarrow> 'm \<Rightarrow> bool" where
  "unchanged s same p q = list_all (\<lambda>n. same n p q) (updatable s)"

definition same_properties :: "tf_map \<Rightarrow> tf_map \<Rightarrow> bool" where
  "same_properties p q \<longleftrightarrow> map_of (mapFromTF p) = map_of (mapFromTF q)"

definition tag_same :: "string \<Rightarrow> tag_model \<Rightarrow> tag_model \<Rightarrow> bool" where
  "tag_same n p q =
     (if n = ''name'' then tgm_Name p = tgm_Name q else if n = ''comment'' then tgm_Comment p = tgm_Comment q
      else n = ''properties'' \<and> same_properties (tgm_Properties p) (tgm_Properties q))"

definition topic_same :: "string \<Rightarrow> topic_model \<Rightarrow> topic_model \<Rightarrow> bool" where
  "topic_same n p q =
     (if n = ''comment'' then tom_Comment p = tom_Comment q
      else n = ''properties'' \<and> same_properties (tom_Properties p) (tom_Properties q))"

definition schema_same :: "string \<Rightarrow> schema_model \<Rightarrow> schema_model \<Rightarrow> bool" where
  "schema_same n p q \<longleftrightarrow> n = ''properties'' \<and> same_properties (scm_Properties p) (scm_Properties q)"

definition model_same :: "string \<Rightarrow> model_model \<Rightarrow> model_model \<Rightarrow> bool" where
  "model_same n p q =
     (if n = ''name'' then mom_Name p = mom_Name q else if n = ''comment'' then mom_Comment p = mom_Comment q
      else n = ''properties'' \<and> same_properties (mom_Properties p) (mom_Properties q))"

definition fileset_same :: "string \<Rightarrow> fileset_model \<Rightarrow> fileset_model \<Rightarrow> bool" where
  "fileset_same n p q =
     (if n = ''name'' then fsm_Name p = fsm_Name q else if n = ''comment'' then fsm_Comment p = fsm_Comment q
      else n = ''properties'' \<and> same_properties (fsm_Properties p) (fsm_Properties q))"

definition view_same :: "string \<Rightarrow> view_model \<Rightarrow> view_model \<Rightarrow> bool" where
  "view_same n p q =
     (if n = ''name'' then vm_Name p = vm_Name q
      else n = ''properties'' \<and> same_properties (vm_Properties p) (vm_Properties q))"

lemma updatable_attributes:
  "updatable TagResource_Schema = [''name'', ''comment'', ''properties'']"
  "updatable TopicResource_Schema = [''comment'', ''properties'']"
  "updatable SchemaResource_Schema = [''properties'']"
  "updatable ModelResource_Schema = [''name'', ''comment'', ''properties'']"
  "updatable FilesetResource_Schema = [''name'', ''comment'', ''properties'']"
  "updatable ViewResource_Schema = [''name'', ''properties'']"
  "updatable PolicyResource_Schema =
     [''name'', ''comment'', ''enabled'', ''supported_object_types'', ''properties'', ''custom_rules'']"
  "updatable RoleResource_Schema = [''securable_objects'']"
  "updatable FunctionResource_Schema = [''comment'', ''definitions'']"
  "updatable JobTemplateResource_Schema =
     [''name'', ''comment'', ''executable'', ''arguments'', ''environments'', ''custom_fields'', ''scripts'', ''class_name'',
      ''jars'', ''files'', ''archives'', ''configs'']"
  by code_simp+

lemma plain_not_unknown: "plain v \<Longrightarrow> \<not> IsUnknown v"
  by (auto simp: plain_def)

lemma tag_sends:
  assumes "plain (tgm_Properties p)" "plain (tgm_Properties q)"
  shows "tag_updates p q = [] \<longleftrightarrow> unchanged TagResource_Schema tag_same p q"
  using tag_props.no_requests_iff [OF assms [THEN plain_wf]]
  by (auto simp: tag_updates_def unchanged_def updatable_attributes tag_same_def same_properties_def fun_eq_iff)

text \<open>The requests for the properties of the other entities: none for equal maps, otherwise by comparing decoded maps.\<close>

lemma decoded_requests:
  assumes "fw_decodes fw" "plain p" "plain q"
    and "\<And>m n. wf_map m \<Longrightarrow> wf_map n \<Longrightarrow> diff m n = [] \<longleftrightarrow> (\<forall>k. map_of m k = map_of n k)"
  obtains us where "map_Equal p q \<Longrightarrow> us = []"
    "\<not> map_Equal p q \<Longrightarrow> map_sum (\<lambda>ds. ds) (\<lambda>(c, p). diff p c) (both_maps fw q p) = Inr us"
    "us = [] \<longleftrightarrow> same_properties p q"
proof (cases "map_Equal p q")
  case True
  then show thesis using that map_Equal_same [OF True assms(2,3)] by (simp add: same_properties_def)
next
  case False
  obtain m n where "both_maps fw q p = Inr (m, n)" "wf_map m" "wf_map n"
      "map_of m = map_of (mapFromTF q)" "map_of n = map_of (mapFromTF p)"
    by (rule both_maps_plain [OF assms(1,3,2)]) blast
  then show thesis using that False assms(4) [of n m] by (simp add: same_properties_def fun_eq_iff)
qed

lemmas sends_defs = unchanged_def updatable_attributes plain_not_unknown

lemma topic_sends:
  assumes "fw_decodes fw" "plain (tom_Properties p)" "plain (tom_Properties q)"
  shows "\<exists>us. topic_updates fw p q = Inr us \<and> (us = [] \<longleftrightarrow> unchanged TopicResource_Schema topic_same p q)"
  by (rule decoded_requests [OF assms, of "\<lambda>p c. topic_propertyUpdates c p"])
    (use topic_props.no_requests_iff in \<open>auto simp: topic_updates_def topic_same_def sends_defs\<close>)

lemma schema_sends:
  assumes "fw_decodes fw" "plain (scm_Properties p)" "plain (scm_Properties q)"
  shows "\<exists>us. schema_updates fw p q = Inr us \<and> (us = [] \<longleftrightarrow> unchanged SchemaResource_Schema schema_same p q)"
  by (rule decoded_requests [OF assms, of "\<lambda>p c. schema_propertyUpdates c p"])
    (use assms schema_props.no_requests_iff in \<open>auto simp: schema_updates_def schema_same_def sends_defs\<close>)

lemma model_sends:
  assumes "fw_decodes fw" "plain (mom_Properties p)" "plain (mom_Properties q)"
  shows "\<exists>us. model_updates fw p q = Inr us \<and> (us = [] \<longleftrightarrow> unchanged ModelResource_Schema model_same p q)"
  by (rule decoded_requests [OF assms, of "\<lambda>p c. model_propertyRequests c p"])
    (use model_props.no_requests_iff in \<open>auto simp: model_updates_def modelPropertyUpdates_def model_same_def sends_defs\<close>)

lemma fileset_sends:
  assumes "fw_decodes fw" "plain (fsm_Properties p)" "plain (fsm_Properties q)"
    and "\<not> IsUnknown (fsm_Name p)" "\<not> IsUnknown (fsm_Comment p)"
  shows "\<exists>us. fileset_updates fw p q = Inr us \<and> (us = [] \<longleftrightarrow> unchanged FilesetResource_Schema fileset_same p q)"
  by (rule decoded_requests [OF assms(1-3), of "\<lambda>p c. fileset_propertyUpdates c p"])
    (use assms fileset_props.no_requests_iff in \<open>auto simp: fileset_updates_def fileset_same_def sends_defs\<close>)

lemma view_sends:
  assumes "fw_decodes fw" "plain (vm_Properties p)" "plain (vm_Properties q)" "\<not> IsUnknown (vm_Name p)"
  shows "\<exists>us. view_updates fw p q = Inr us \<and> (us = [] \<longleftrightarrow> unchanged ViewResource_Schema view_same p q)"
  by (rule decoded_requests [OF assms(1-3), of "\<lambda>p c. view_propertyUpdates c p"])
    (use assms view_props.no_requests_iff in \<open>auto simp: view_updates_def view_same_def sends_defs\<close>)

text \<open>C18: An update sends a request exactly when an attribute has changed that the schema lets change in place, for tags,
  topics, schemas, models, filesets and views: no such change is ignored, and nothing else is sent. A property map
  counts as changed when its entries differ. Names and comments of the plan are known, and property maps have known
  elements.\<close>

theorem changes_in_place_sent:
  assumes "fw_decodes fw"
  shows "(plain (tgm_Properties tp) \<and> plain (tgm_Properties ts) \<longrightarrow>
      (tag_updates tp ts = [] \<longleftrightarrow> unchanged TagResource_Schema tag_same tp ts)) \<and>
    (plain (tom_Properties op) \<and> plain (tom_Properties os) \<longrightarrow>
      (\<exists>us. topic_updates fw op os = Inr us \<and> (us = [] \<longleftrightarrow> unchanged TopicResource_Schema topic_same op os))) \<and>
    (plain (scm_Properties sp) \<and> plain (scm_Properties ss) \<longrightarrow>
      (\<exists>us. schema_updates fw sp ss = Inr us \<and> (us = [] \<longleftrightarrow> unchanged SchemaResource_Schema schema_same sp ss))) \<and>
    (plain (mom_Properties mp) \<and> plain (mom_Properties ms) \<longrightarrow>
      (\<exists>us. model_updates fw mp ms = Inr us \<and> (us = [] \<longleftrightarrow> unchanged ModelResource_Schema model_same mp ms))) \<and>
    (plain (fsm_Properties fp) \<and> plain (fsm_Properties fs) \<and> \<not> IsUnknown (fsm_Name fp) \<and> \<not> IsUnknown (fsm_Comment fp) \<longrightarrow>
      (\<exists>us. fileset_updates fw fp fs = Inr us \<and> (us = [] \<longleftrightarrow> unchanged FilesetResource_Schema fileset_same fp fs))) \<and>
    (plain (vm_Properties vp) \<and> plain (vm_Properties vs) \<and> \<not> IsUnknown (vm_Name vp) \<longrightarrow>
      (\<exists>us. view_updates fw vp vs = Inr us \<and> (us = [] \<longleftrightarrow> unchanged ViewResource_Schema view_same vp vs)))"
  using tag_sends topic_sends [OF assms] schema_sends [OF assms] model_sends [OF assms] fileset_sends [OF assms]
    view_sends [OF assms]
  by simp

theorem changes_in_place_sent_witness:
  "\<exists>u us. model_updates strict_fw (demo_model ''n'' [(''a'', ''2'')]) (demo_model ''n'' [(''a'', ''1'')]) = Inr (u # us)"
proof -
  let ?p = "demo_model ''n'' [(''a'', ''2'')]" and ?s = "demo_model ''n'' [(''a'', ''1'')]"
  have "plain (mom_Properties ?p)" "plain (mom_Properties ?s)" by (auto simp: plain_def demo_model_def)
  then obtain us where us: "model_updates strict_fw ?p ?s = Inr us" "us = [] \<longleftrightarrow> unchanged ModelResource_Schema model_same ?p ?s"
    using changes_in_place_sent [OF strict_fw_decodes] by blast
  have "map_of [(''a'', ''2'')] ''a'' \<noteq> map_of [(''a'', ''1'')] ''a''" by simp
  then have "\<not> same_properties (mom_Properties ?p) (mom_Properties ?s)" unfolding same_properties_def demo_model_def
    by (metis mapFromTF_known model_model.select_convs(8))
  then have "us \<noteq> []" using us(2) by (simp add: unchanged_def updatable_attributes model_same_def)
  then show ?thesis using us(1) by (cases us) auto
qed

end
