(* ===== verification/PlannedIds.thy ===== *)
theory PlannedIds
  imports SchemaContracts SchemaResource TagResource TopicResource ViewResource PolicyResource JobResource FunctionResource
begin

section \<open>Planned and recorded identifiers\<close>

text \<open>
  Terraform fails an apply that records another identifier than the planned one. The schema says how the identifier is
  planned: by \<open>PlanModifyString\<close> from the components it lists, or as the recorded one; the handler computes what is
  recorded from the plan and the answer. The locale \<open>identified\<close> is the agreement of the two for one resource; its
  interpretations are the schemas and the update handlers of ten resources.
\<close>

text \<open>The identifier made of the components, and how a schema plans it; \<open>get\<close> reads a component of a model.\<close>

definition dotted :: "(string \<Rightarrow> 'm \<Rightarrow> string tfval) \<Rightarrow> string list \<Rightarrow> 'm \<Rightarrow> string" where
  "dotted get cs m = join ''.'' (map (\<lambda>c. ValueString (get c m)) cs)"

definition planned_id ::
    "schema \<Rightarrow> (string \<Rightarrow> 'm \<Rightarrow> string tfval) \<Rightarrow> ('m \<Rightarrow> string tfval) \<Rightarrow> 'm \<Rightarrow> 'm \<Rightarrow> string tfval" where
  "planned_id s get ident plan state =
     (case modifiers s ''id'' of
        [CompoundID cs] \<Rightarrow> PlanModifyString cs (\<lambda>c. Some (get c state)) (\<lambda>c. Some (get c plan)) (ident state)
      | [UseStateForUnknown] \<Rightarrow> ident state
      | _ \<Rightarrow> TUnknown)"

text \<open>An update is run for a plan that keeps every component whose change would make a new object.\<close>

definition planned_update ::
    "schema \<Rightarrow> string list \<Rightarrow> (string \<Rightarrow> 'm \<Rightarrow> string tfval) \<Rightarrow> ('m \<Rightarrow> string tfval) \<Rightarrow> 'm \<Rightarrow> 'm \<Rightarrow> bool" where
  "planned_update s cs get ident plan state \<longleftrightarrow>
     ident state = TKnown (dotted get cs state) \<and> ident plan = planned_id s get ident plan state \<and>
     list_all (\<lambda>c. c \<in> set (updatable s) \<or> get c plan = get c state) cs"

text \<open>The recorded identifier names the recorded components, and it is the planned one when the components are.\<close>

definition id_agrees :: "string list \<Rightarrow> (string \<Rightarrow> 'm \<Rightarrow> string tfval) \<Rightarrow> ('m \<Rightarrow> string tfval) \<Rightarrow> 'm \<Rightarrow> 'm \<Rightarrow> bool" where
  "id_agrees cs get ident plan saved \<longleftrightarrow>
     ident saved = TKnown (dotted get cs saved) \<and>
     (list_all (\<lambda>c. get c saved = get c plan) cs \<longrightarrow> ident plan = TUnknown \<or> ident saved = ident plan)"

locale identified =
  fixes s :: schema and cs :: "string list" and get :: "string \<Rightarrow> 'm \<Rightarrow> string tfval" and ident :: "'m \<Rightarrow> string tfval"
    and saves :: "'m \<Rightarrow> 'm \<Rightarrow> 'm \<Rightarrow> bool"
  assumes planned: "modifiers s ''id'' = [CompoundID cs] \<or>
      modifiers s ''id'' = [UseStateForUnknown] \<and> list_all (\<lambda>c. c \<notin> set (updatable s)) cs"
    and recorded: "\<lbrakk>saves plan state saved; planned_update s cs get ident plan state\<rbrakk>
      \<Longrightarrow> ident saved = TKnown (dotted get cs saved)"
begin

lemma known_plan:
  assumes "planned_update s cs get ident plan state"
  shows "ident plan = TUnknown \<or> ident plan = TKnown (dotted get cs plan)"
proof -
  have same: "dotted get cs plan = dotted get cs state" if "\<forall>c \<in> set cs. get c plan = get c state"
    using that unfolding dotted_def by (metis (mono_tags, lifting) map_eq_conv)
  from planned show ?thesis
  proof
    assume "modifiers s ''id'' = [CompoundID cs]"
    then show ?thesis using assms same by (auto simp: planned_update_def planned_id_def PlanModifyString_def list_all_iff)
  next
    assume "modifiers s ''id'' = [UseStateForUnknown] \<and> list_all (\<lambda>c. c \<notin> set (updatable s)) cs"
    then show ?thesis using assms same by (auto simp: planned_update_def planned_id_def list_all_iff)
  qed
qed

lemma agrees:
  assumes "saves plan state saved" "planned_update s cs get ident plan state"
  shows "id_agrees cs get ident plan saved"
proof -
  have "dotted get cs saved = dotted get cs plan" if "list_all (\<lambda>c. get c saved = get c plan) cs"
    using that unfolding dotted_def list_all_iff by (metis (mono_tags, lifting) map_eq_conv)
  then show ?thesis using recorded [OF assms] known_plan [OF assms(2)] by (auto simp: id_agrees_def)
qed

end

subsection \<open>The components of the models\<close>

definition tag_component :: "string \<Rightarrow> tag_model \<Rightarrow> string tfval" where
  "tag_component c = (if c = ''metalake'' then tgm_Metalake else tgm_Name)"

definition policy_component :: "string \<Rightarrow> policy_model \<Rightarrow> string tfval" where
  "policy_component c = (if c = ''metalake'' then pm_Metalake else pm_Name)"

definition template_component :: "string \<Rightarrow> job_template_model \<Rightarrow> string tfval" where
  "template_component c = (if c = ''metalake'' then jtm_Metalake else jtm_Name)"

definition role_component :: "string \<Rightarrow> role_model \<Rightarrow> string tfval" where
  "role_component c = (if c = ''metalake'' then rm_Metalake else rm_Name)"

definition catalog_component :: "string \<Rightarrow> catalog_model \<Rightarrow> string tfval" where
  "catalog_component c = (if c = ''metalake'' then cm_Metalake else cm_Name)"

definition schema_component :: "string \<Rightarrow> schema_model \<Rightarrow> string tfval" where
  "schema_component c = (if c = ''metalake'' then scm_Metalake else if c = ''catalog'' then scm_Catalog else scm_Name)"

definition topic_component :: "string \<Rightarrow> topic_model \<Rightarrow> string tfval" where
  "topic_component c =
     (if c = ''metalake'' then tom_Metalake else if c = ''catalog'' then tom_Catalog else if c = ''schema'' then tom_Schema
      else tom_Name)"

definition model_component :: "string \<Rightarrow> model_model \<Rightarrow> string tfval" where
  "model_component c =
     (if c = ''metalake'' then mom_Metalake else if c = ''catalog'' then mom_Catalog else if c = ''schema'' then mom_Schema
      else mom_Name)"

definition view_component :: "string \<Rightarrow> view_tf \<Rightarrow> string tfval" where
  "view_component c =
     (if c = ''metalake'' then vt_Metalake else if c = ''catalog'' then vt_Catalog else if c = ''schema'' then vt_Schema
      else vt_Name)"

definition function_component :: "string \<Rightarrow> function_model \<Rightarrow> string tfval" where
  "function_component c =
     (if c = ''metalake'' then fm_Metalake else if c = ''catalog'' then fm_Catalog else if c = ''schema'' then fm_Schema
      else fm_Name)"

lemmas component_defs = tag_component_def policy_component_def template_component_def role_component_def
  catalog_component_def schema_component_def topic_component_def model_component_def view_component_def
  function_component_def

subsection \<open>What the updates record\<close>

lemma schema_plans:
  "modifiers TagResource_Schema ''id'' = [CompoundID [''metalake'', ''name'']]"
  "modifiers PolicyResource_Schema ''id'' = [CompoundID [''metalake'', ''name'']]"
  "modifiers JobTemplateResource_Schema ''id'' = [CompoundID [''metalake'', ''name'']]"
  "modifiers CatalogResource_Schema ''id'' = [CompoundID [''metalake'', ''name'']]"
  "modifiers ModelResource_Schema ''id'' = [CompoundID [''metalake'', ''catalog'', ''schema'', ''name'']]"
  "modifiers ViewResource_Schema ''id'' = [CompoundID [''metalake'', ''catalog'', ''schema'', ''name'']]"
  "modifiers RoleResource_Schema ''id'' = [UseStateForUnknown]"
  "modifiers SchemaResource_Schema ''id'' = [UseStateForUnknown]"
  "modifiers TopicResource_Schema ''id'' = [UseStateForUnknown]"
  "modifiers FunctionResource_Schema ''id'' = [UseStateForUnknown]"
  by code_simp+

lemma fixed_components:
  "list_all (\<lambda>c. c \<notin> set (updatable RoleResource_Schema)) [''metalake'', ''name'']"
  "list_all (\<lambda>c. c \<notin> set (updatable SchemaResource_Schema)) [''metalake'', ''catalog'', ''name'']"
  "list_all (\<lambda>c. c \<notin> set (updatable TopicResource_Schema)) [''metalake'', ''catalog'', ''schema'', ''name'']"
  "list_all (\<lambda>c. c \<notin> set (updatable FunctionResource_Schema)) [''metalake'', ''catalog'', ''schema'', ''name'']"
  "list_all (\<lambda>s. ''metalake'' \<notin> set (updatable s)) [PolicyResource_Schema]"
  by code_simp+

lemma refresh_Save:
  "refresh load report absorb w = (Inr (Save m), w') \<longleftrightarrow> (\<exists>e. load w = (Inr e, w') \<and> absorb e = Inr m)"
  by (auto simp: refresh_def map_sum_def split: prod.splits sum.splits)

lemmas update_run = andThen_Inr refresh_Save calling_Inr both_get_def pure_step_def done_with_def Let_def

lemma tag_recorded:
  assumes "tag_Update api (Inr plan) (Inr state) w = (Inr (Save saved), w')"
  shows "\<exists>t. saved = setStateFromTag (ValueString (tgm_Metalake plan)) t plan"
  using assms by (auto simp: tag_Update_def update_run split: if_splits)

lemma model_recorded:
  assumes "model_Update fw api (Inr plan) (Inr state) w = (Inr (Save saved), w')"
  shows "\<exists>m. saved = readModelToState m plan False"
  using assms by (auto simp: model_Update_def update_run split: if_splits)

lemma topic_recorded:
  assumes "topic_Update fw api (Inr plan) (Inr state) w = (Inr (Save saved), w')"
  shows "\<exists>t. saved = readTopicToState t plan"
  using assms by (auto simp: topic_Update_def update_run split: if_splits)

lemma schema_recorded:
  assumes "schema_Update fw api (Inr plan) (Inr state) w = (Inr (Save saved), w')"
  shows "saved = schema_unchanged plan state \<or> (\<exists>s. saved = mergeSchemaResponse s plan False)"
  using assms by (auto simp: schema_Update_def update_run split: if_splits)

lemma role_recorded:
  assumes "role_Update api (Inr plan) (Inr state) w = (Inr (Save saved), w')"
  shows "\<exists>r. saved = setStateFromRole (ValueString (rm_Metalake plan)) r plan"
  using assms by (auto simp: role_Update_def update_run split: if_splits)

lemma function_recorded:
  assumes "function_Update fw api (Inr plan) (Inr state) w = (Inr (Save saved), w')"
  shows "\<exists>f ds. saved = applyFunctionToModel f plan ds False"
  using assms
  by (auto simp: function_Update_def update_run map_sum_def split: if_splits sum.splits)

lemma template_recorded:
  assumes "template_Update fw api (Inr plan) (Inr state) w = (Inr (Save saved), w')"
  shows "\<exists>t. saved = setStateFromJobTemplate (ValueString (jtm_Metalake state)) t plan"
  using assms by (auto simp: template_Update_def update_run split: if_splits)

lemma view_recorded:
  assumes "view_Update fw api (Inr plan) (Inr state) w = (Inr (Save saved), w')"
  shows "\<exists>v m. saved = viewResourceModelToTF (readViewToState v m False)"
  using assms by (auto simp: view_Update_def update_run save_view_def split: if_splits)

lemma policy_recorded:
  assumes "policy_Update api (Inr plan) (Inr state) w = (Inr (Save saved), w')"
  shows "\<exists>m. (m = stateToModel plan state \<or> (\<exists>p. m = setStateFromPolicy (ValueString (pm_Metalake plan)) p plan)) \<and>
    (saved = m \<or> saved = m\<lparr>pm_Enabled := pm_Enabled plan\<rparr>)"
proof -
  obtain updated where "saved = (let m = (case updated of Some p \<Rightarrow> setStateFromPolicy (ValueString (pm_Metalake plan)) p plan
      | None \<Rightarrow> stateToModel plan state) in if IsUnknown (pm_Enabled plan) then m else m\<lparr>pm_Enabled := pm_Enabled plan\<rparr>)"
    using assms unfolding policy_Update_def both_get_def Let_def
    by (auto simp: andThen_Inr pure_step_def done_with_def)
  then show ?thesis by (cases updated) (auto simp: Let_def)
qed

lemma catalog_recorded:
  assumes "catalog_Update fw api (Inr plan) (Inr state) w = (Inr (Save saved), w')"
  shows "\<exists>metalake m. saved = catalog_defaults metalake m \<and> cm_ID m = TKnown (metalake @ ''.'' @ ValueString (cm_Name m))"
proof -
  have set: "setStateFromCatalog fw metalake answer m = Inr x \<Longrightarrow> \<exists>m'. x = catalog_defaults metalake m' \<and>
      cm_ID m' = TKnown (metalake @ ''.'' @ ValueString (cm_Name m'))" for metalake answer m x
    by (cases answer) (auto simp: setStateFromCatalog_def map_sum_def split: sum.splits)
  have "\<exists>answer m. setStateFromCatalog fw (ValueString (cm_Metalake state)) answer m = Inr saved"
    using assms
    by (auto simp: catalog_Update_def in_use_update_def andThen_Inr pure_step_def done_with_def both_get_def Let_def split: if_splits)
  then show ?thesis using set by blast
qed

subsection \<open>Interpretations\<close>

lemmas id_defs = component_defs dotted_def

interpretation tag_id: identified TagResource_Schema "[''metalake'', ''name'']" tag_component tgm_ID
    "\<lambda>plan state saved. \<exists>metalake t. saved = setStateFromTag metalake t plan"
  by unfold_locales (auto simp: schema_plans id_defs setStateFromTag_def)

interpretation policy_id: identified PolicyResource_Schema "[''metalake'', ''name'']" policy_component pm_ID
    "\<lambda>plan state saved. \<exists>m. (m = stateToModel plan state \<or> (\<exists>metalake p. m = setStateFromPolicy metalake p plan)) \<and>
       (saved = m \<or> saved = m\<lparr>pm_Enabled := pm_Enabled plan\<rparr>)"
  by unfold_locales
    (auto simp: schema_plans id_defs stateToModel_def setStateFromPolicy_def nothing_unknown_def Let_def split: option.splits)

interpretation template_id: identified JobTemplateResource_Schema "[''metalake'', ''name'']" template_component jtm_ID
    "\<lambda>plan state saved. \<exists>metalake t. saved = setStateFromJobTemplate metalake t plan"
  by unfold_locales (auto simp: schema_plans id_defs setStateFromJobTemplate_def Let_def split: option.splits)

interpretation catalog_id: identified CatalogResource_Schema "[''metalake'', ''name'']" catalog_component cm_ID
    "\<lambda>plan state saved. \<exists>metalake m. saved = catalog_defaults metalake m \<and>
       cm_ID m = TKnown (metalake @ ''.'' @ ValueString (cm_Name m))"
  by unfold_locales (auto simp: schema_plans id_defs catalog_defaults_def)

interpretation model_id: identified ModelResource_Schema "[''metalake'', ''catalog'', ''schema'', ''name'']" model_component mom_ID
    "\<lambda>plan state saved. \<exists>m. saved = readModelToState m plan False"
  by unfold_locales (auto simp: schema_plans id_defs readModelToState_def)

interpretation view_id: identified ViewResource_Schema "[''metalake'', ''catalog'', ''schema'', ''name'']" view_component vt_ID
    "\<lambda>plan state saved. \<exists>v m. saved = viewResourceModelToTF (readViewToState v m False)"
  by unfold_locales (auto simp: schema_plans id_defs viewResourceModelToTF_def readViewToState_def)

interpretation role_id: identified RoleResource_Schema "[''metalake'', ''name'']" role_component rm_ID
    "\<lambda>plan state saved. \<exists>metalake r. saved = setStateFromRole metalake r plan"
  using fixed_components(1) by unfold_locales (auto simp: schema_plans id_defs setStateFromRole_def)

interpretation topic_id: identified TopicResource_Schema "[''metalake'', ''catalog'', ''schema'', ''name'']" topic_component tom_ID
    "\<lambda>plan state saved. \<exists>t. saved = readTopicToState t plan"
  using fixed_components(3) by unfold_locales (auto simp: schema_plans id_defs readTopicToState_def)

interpretation function_id: identified FunctionResource_Schema "[''metalake'', ''catalog'', ''schema'', ''name'']"
    function_component fm_ID "\<lambda>plan state saved. \<exists>f ds. saved = applyFunctionToModel f plan ds False"
  using fixed_components(4) by unfold_locales (auto simp: schema_plans id_defs applyFunctionToModel_def)

interpretation schema_id: identified SchemaResource_Schema "[''metalake'', ''catalog'', ''name'']" schema_component scm_ID
    "\<lambda>plan state saved. saved = schema_unchanged plan state \<or> (\<exists>s. saved = mergeSchemaResponse s plan False)"
proof unfold_locales
  fix plan state saved
  assume "saved = schema_unchanged plan state \<or> (\<exists>s. saved = mergeSchemaResponse s plan False)"
    and plan: "planned_update SchemaResource_Schema [''metalake'', ''catalog'', ''name''] schema_component scm_ID plan state"
  then consider "saved = schema_unchanged plan state" | s where "saved = mergeSchemaResponse s plan False" by blast
  then show "scm_ID saved = TKnown (dotted schema_component [''metalake'', ''catalog'', ''name''] saved)"
  proof cases
    case 1
    then show ?thesis using plan fixed_components(2)
      by (auto simp: planned_update_def planned_id_def schema_plans schema_unchanged_def id_defs)
  qed (auto simp: mergeSchemaResponse_def id_defs Let_def)
qed (use fixed_components(2) in \<open>simp add: schema_plans\<close>)

subsection \<open>The property\<close>

lemma tag_id_agrees:
  assumes "tag_Update tapi (Inr tp) (Inr ts) tw = (Inr (Save tm), tw')"
    and "planned_update TagResource_Schema [''metalake'', ''name''] tag_component tgm_ID tp ts"
  shows "id_agrees [''metalake'', ''name''] tag_component tgm_ID tp tm"
  using tag_id.agrees [OF _ assms(2)] tag_recorded [OF assms(1)] by blast

lemma policy_id_agrees:
  assumes "policy_Update papi (Inr pp) (Inr ps) pw = (Inr (Save pm), pw')"
    and "planned_update PolicyResource_Schema [''metalake'', ''name''] policy_component pm_ID pp ps"
  shows "id_agrees [''metalake'', ''name''] policy_component pm_ID pp pm"
  using policy_id.agrees [OF _ assms(2)] policy_recorded [OF assms(1)] by blast

lemma template_id_agrees:
  assumes "template_Update fw japi (Inr jp) (Inr js) jw = (Inr (Save jm), jw')"
    and "planned_update JobTemplateResource_Schema [''metalake'', ''name''] template_component jtm_ID jp js"
  shows "id_agrees [''metalake'', ''name''] template_component jtm_ID jp jm"
  using template_id.agrees [OF _ assms(2)] template_recorded [OF assms(1)] by blast

lemma catalog_id_agrees:
  assumes "catalog_Update fw capi (Inr cp) (Inr cs) cw = (Inr (Save cm), cw')"
    and "planned_update CatalogResource_Schema [''metalake'', ''name''] catalog_component cm_ID cp cs"
  shows "id_agrees [''metalake'', ''name''] catalog_component cm_ID cp cm"
  using catalog_id.agrees [OF _ assms(2)] catalog_recorded [OF assms(1)] by blast

lemma model_id_agrees:
  assumes "model_Update fw mapi (Inr mp) (Inr ms) mw = (Inr (Save mm), mw')"
    and "planned_update ModelResource_Schema [''metalake'', ''catalog'', ''schema'', ''name''] model_component mom_ID mp ms"
  shows "id_agrees [''metalake'', ''catalog'', ''schema'', ''name''] model_component mom_ID mp mm"
  using model_id.agrees [OF _ assms(2)] model_recorded [OF assms(1)] by blast

lemma view_id_agrees:
  assumes "view_Update vfw vapi (Inr vp) (Inr vs) vw = (Inr (Save vm), vw')"
    and "planned_update ViewResource_Schema [''metalake'', ''catalog'', ''schema'', ''name''] view_component vt_ID vp vs"
  shows "id_agrees [''metalake'', ''catalog'', ''schema'', ''name''] view_component vt_ID vp vm"
  using view_id.agrees [OF _ assms(2)] view_recorded [OF assms(1)] by blast

lemma role_id_agrees:
  assumes "role_Update rapi (Inr rp) (Inr rs) rw = (Inr (Save rm), rw')"
    and "planned_update RoleResource_Schema [''metalake'', ''name''] role_component rm_ID rp rs"
  shows "id_agrees [''metalake'', ''name''] role_component rm_ID rp rm"
  using role_id.agrees [OF _ assms(2)] role_recorded [OF assms(1)] by blast

lemma topic_id_agrees:
  assumes "topic_Update fw oapi (Inr op) (Inr os) ow = (Inr (Save om), ow')"
    and "planned_update TopicResource_Schema [''metalake'', ''catalog'', ''schema'', ''name''] topic_component tom_ID op os"
  shows "id_agrees [''metalake'', ''catalog'', ''schema'', ''name''] topic_component tom_ID op om"
  using topic_id.agrees [OF _ assms(2)] topic_recorded [OF assms(1)] by blast

lemma function_id_agrees:
  assumes "function_Update ffw fapi (Inr fp) (Inr fs) fw0 = (Inr (Save fm), fw')"
    and "planned_update FunctionResource_Schema [''metalake'', ''catalog'', ''schema'', ''name''] function_component fm_ID fp fs"
  shows "id_agrees [''metalake'', ''catalog'', ''schema'', ''name''] function_component fm_ID fp fm"
  using function_id.agrees [OF _ assms(2)] function_recorded [OF assms(1)] by blast

lemma schema_id_agrees:
  assumes "schema_Update fw sapi (Inr sp) (Inr ss) sw = (Inr (Save sm), sw')"
    and "planned_update SchemaResource_Schema [''metalake'', ''catalog'', ''name''] schema_component scm_ID sp ss"
  shows "id_agrees [''metalake'', ''catalog'', ''name''] schema_component scm_ID sp sm"
  using schema_id.agrees [OF _ assms(2)] schema_recorded [OF assms(1)] by blast

text \<open>C19: An update records the identifier that was planned. Whenever the update of a tag, policy, job template, catalog,
  model, view, role, topic, function or schema saves a state, the saved identifier is made of the saved components in
  the order the schema lists them, and it is the planned one unless that was unknown, provided the components are
  saved as planned. The recorded state has an identifier of this form, the plan was made from the schema, and
  components whose change makes a new object are unchanged.\<close>

theorem planned_id_recorded:
  "(tag_Update tapi (Inr tp) (Inr ts) tw = (Inr (Save tm), tw') \<and>
      planned_update TagResource_Schema [''metalake'', ''name''] tag_component tgm_ID tp ts
    \<longrightarrow> id_agrees [''metalake'', ''name''] tag_component tgm_ID tp tm) \<and>
   (policy_Update papi (Inr pp) (Inr ps) pw = (Inr (Save pm), pw') \<and>
      planned_update PolicyResource_Schema [''metalake'', ''name''] policy_component pm_ID pp ps
    \<longrightarrow> id_agrees [''metalake'', ''name''] policy_component pm_ID pp pm) \<and>
   (template_Update fw japi (Inr jp) (Inr js) jw = (Inr (Save jm), jw') \<and>
      planned_update JobTemplateResource_Schema [''metalake'', ''name''] template_component jtm_ID jp js
    \<longrightarrow> id_agrees [''metalake'', ''name''] template_component jtm_ID jp jm) \<and>
   (catalog_Update fw capi (Inr cp) (Inr cs) cw = (Inr (Save cm), cw') \<and>
      planned_update CatalogResource_Schema [''metalake'', ''name''] catalog_component cm_ID cp cs
    \<longrightarrow> id_agrees [''metalake'', ''name''] catalog_component cm_ID cp cm) \<and>
   (model_Update fw mapi (Inr mp) (Inr ms) mw = (Inr (Save mm), mw') \<and>
      planned_update ModelResource_Schema [''metalake'', ''catalog'', ''schema'', ''name''] model_component mom_ID mp ms
    \<longrightarrow> id_agrees [''metalake'', ''catalog'', ''schema'', ''name''] model_component mom_ID mp mm) \<and>
   (view_Update vfw vapi (Inr vp) (Inr vs) vw = (Inr (Save vm), vw') \<and>
      planned_update ViewResource_Schema [''metalake'', ''catalog'', ''schema'', ''name''] view_component vt_ID vp vs
    \<longrightarrow> id_agrees [''metalake'', ''catalog'', ''schema'', ''name''] view_component vt_ID vp vm) \<and>
   (role_Update rapi (Inr rp) (Inr rs) rw = (Inr (Save rm), rw') \<and>
      planned_update RoleResource_Schema [''metalake'', ''name''] role_component rm_ID rp rs
    \<longrightarrow> id_agrees [''metalake'', ''name''] role_component rm_ID rp rm) \<and>
   (topic_Update fw oapi (Inr op) (Inr os) ow = (Inr (Save om), ow') \<and>
      planned_update TopicResource_Schema [''metalake'', ''catalog'', ''schema'', ''name''] topic_component tom_ID op os
    \<longrightarrow> id_agrees [''metalake'', ''catalog'', ''schema'', ''name''] topic_component tom_ID op om) \<and>
   (function_Update ffw fapi (Inr fp) (Inr fs) fw0 = (Inr (Save fm), fw') \<and>
      planned_update FunctionResource_Schema [''metalake'', ''catalog'', ''schema'', ''name''] function_component fm_ID fp fs
    \<longrightarrow> id_agrees [''metalake'', ''catalog'', ''schema'', ''name''] function_component fm_ID fp fm) \<and>
   (schema_Update fw sapi (Inr sp) (Inr ss) sw = (Inr (Save sm), sw') \<and>
      planned_update SchemaResource_Schema [''metalake'', ''catalog'', ''name''] schema_component scm_ID sp ss
    \<longrightarrow> id_agrees [''metalake'', ''catalog'', ''name''] schema_component scm_ID sp sm)"
  by (intro conjI impI; elim conjE)
    (erule (1) tag_id_agrees policy_id_agrees template_id_agrees catalog_id_agrees model_id_agrees view_id_agrees
      role_id_agrees topic_id_agrees function_id_agrees schema_id_agrees)+

text \<open>A server that answers every request for a tag with its name and a new comment, and a tag whose comment changes.\<close>

definition answering :: "unit tag_api" where
  "answering =
     (let answer = (\<lambda>name w. (Inr \<lparr>tg_Name = name, tg_Comment = ''new'', tg_Properties = [], tg_Audit = None,
                                 tg_Inherited = None\<rparr>, w))
      in \<lparr>ea_create = (\<lambda>_ r. answer (tgc_Name r)), ea_get = (\<lambda>_. answer), ea_update = (\<lambda>_ name _. answer name),
          ea_drop = (\<lambda>_ _ w. (Inr True, w))\<rparr>)"

definition commented :: "string \<Rightarrow> tag_model" where
  "commented comment =
     \<lparr>tgm_ID = TKnown ''m.t'', tgm_Metalake = TKnown ''m'', tgm_Name = TKnown ''t'', tgm_Comment = TKnown comment,
      tgm_Properties = TNull, tgm_Audit = TNull, tgm_Inherited = TNull\<rparr>"

theorem planned_id_recorded_witness:
  "case fst (tag_Update answering (Inr (commented ''new'')) (Inr (commented ''old'')) ()) of
     Inr (Save m) \<Rightarrow> tgm_Comment m = TKnown ''new'' \<and> tgm_ID m = tgm_ID (commented ''new'') | _ \<Rightarrow> False"
proof -
  let ?p = "commented ''new''" and ?s = "commented ''old''"
  obtain m w' where run: "tag_Update answering (Inr ?p) (Inr ?s) () = (Inr (Save m), w')"
      and m: "tgm_Comment m = TKnown ''new''" "tgm_Metalake m = TKnown ''m''" "tgm_Name m = TKnown ''t''"
    by (simp add: tag_Update_def tag_updates_def update_run answering_def commented_def setStateFromTag_def
        tag_commentFromServer_def)
  have "planned_update TagResource_Schema [''metalake'', ''name''] tag_component tgm_ID ?p ?s"
    by (simp add: planned_update_def planned_id_def schema_plans PlanModifyString_def id_defs commented_def)
  with run have "id_agrees [''metalake'', ''name''] tag_component tgm_ID ?p m"
    by (intro planned_id_recorded [THEN conjunct1, THEN mp]) simp
  then show ?thesis using run m by (simp add: id_agrees_def id_defs commented_def)
qed

end
