(* ===== verification/TableValidators.thy ===== *)
theory TableValidators
  imports ViewResource ResourceSchemas
begin

section \<open>Validators of tables and views (resources/table/schema.go)\<close>

text \<open>
  A validator looks at the configuration before anything is planned. The lemmas say what it spares the handlers: a
  column type that passes is one that \<open>Create\<close> and \<open>Update\<close> convert, and a distribution that passes has a number. Both
  schemas put the validator on the type of their columns.
\<close>

definition data_type_ValidateString :: "path_step list \<Rightarrow> string tfval \<Rightarrow> diags" where
  "data_type_ValidateString p v =
     (if IsNull v \<or> IsUnknown v then []
      else case ParseDataType (ValueString v) of
        Inl err \<Rightarrow> [attribute_error p ''Invalid column type'' (err_text err)]
      | Inr _ \<Rightarrow> [])"

definition distribution_number_ValidateResource :: "diags + table_tf \<Rightarrow> diags" where
  "distribution_number_ValidateResource configGet =
     (case configGet of
        Inl ds \<Rightarrow> ds
      | Inr config \<Rightarrow>
          (case TableDistributionFromObject (tt_Distribution config) [] of
             None \<Rightarrow> []
           | Some d \<Rightarrow>
               if IsUnknown (dx_Number d) \<or> \<not> IsNull (dx_Number d) then []
               else [attribute_error [AtName ''distribution'', AtName ''number''] ''Missing distribution number''
                       ''tables.yaml requires the number of a distribution, and it must be greater than 0.'']))"

text \<open>The two validators of a column type are one function.\<close>

lemma column_type_validators_agree: "data_type_ValidateString = column_type_ValidateString"
  by (auto simp: fun_eq_iff data_type_ValidateString_def column_type_ValidateString_def split: tfval.split)

lemma columns_validated:
  assumes "\<forall>c \<in> set cs. \<exists>s. ct_Type c = TKnown s"
  shows "snd (TableColumnsFromModel cs) = [] \<longleftrightarrow> (\<forall>c \<in> set cs. data_type_ValidateString p (ct_Type c) = [])"
  using assms
proof (induction cs)
  case (Cons c cs)
  then obtain s where "ct_Type c = TKnown s" by auto
  with Cons show ?case
    by (cases "ParseDataType s"; cases "TableColumnsFromModel cs") (auto simp: data_type_ValidateString_def)
qed simp

text \<open>Validated columns are sent: none is left out and none reported.\<close>

lemma validated_columns_converted:
  assumes "\<forall>c \<in> set cs. \<exists>s. ct_Type c = TKnown s" "\<forall>c \<in> set cs. data_type_ValidateString p (ct_Type c) = []"
  shows "\<exists>cols. TableColumnsFromModel cs = (cols, []) \<and> map col_Name cols = map (\<lambda>c. ValueString (ct_Name c)) cs"
  using assms
proof (induction cs)
  case (Cons c cs)
  then obtain cols where "TableColumnsFromModel cs = (cols, [])" "map col_Name cols = map (\<lambda>c. ValueString (ct_Name c)) cs" by auto
  moreover obtain s where "ct_Type c = TKnown s" using Cons.prems(1) by auto
  moreover from this have "\<exists>d. ParseDataType s = Inr d"
    using Cons.prems(2) by (auto simp: data_type_ValidateString_def split: sum.splits)
  ultimately show ?case by auto
qed simp

lemma distribution_number_present:
  assumes "distribution_number_ValidateResource (Inr config) = []" "tt_Distribution config = TKnown d"
  shows "dx_Number d = TUnknown \<or> (\<exists>n. dx_Number d = TKnown n)"
  using assms by (cases "dx_Number d") (auto simp: distribution_number_ValidateResource_def TableDistributionFromObject_def)

text \<open>The message asks for a number greater than zero; zero and negative numbers pass.\<close>

lemma negative_distribution_passes:
  "distribution_number_ValidateResource (Inr (config\<lparr>tt_Distribution := TKnown (d\<lparr>dx_Number := TKnown n\<rparr>)\<rparr>)) = []"
  by (simp add: distribution_number_ValidateResource_def TableDistributionFromObject_def)

end
