(* ===== verification/PolicyContent.thy ===== *)
theory PolicyContent
  imports PolicyResource FunctionModel
begin

section \<open>Custom rules of a policy on the wire (models/policy.go)\<close>

text \<open>
  A custom rule may be any JSON value on the server and is a text in Terraform. \<open>customRuleToString\<close> unwraps a string
  and decodes every other value into Go values, which it encodes again: numbers become float64 and are printed in the
  shortest form that reads back as the same number, members of an object are sorted and the last of two equal names
  wins, and the HTML characters are escaped. A string is its bytes, as in \<open>Json\<close>.
\<close>

subsection \<open>How encoding/json prints a float64\<close>

text \<open>The decimal exponent of a positive number; 400 steps reach the smallest float64.\<close>

fun tens :: "nat \<Rightarrow> rat \<Rightarrow> int" where
  "tens 0 v = int (length (itoa \<lfloor>v\<rfloor>)) - 1"
| "tens (Suc n) v = (if 1 \<le> v then int (length (itoa \<lfloor>v\<rfloor>)) - 1 else tens n (10 * v) - 1)"

text \<open>The shortest decimal that rounds to \<open>v\<close>, the nearest one when two are as short, as digits and exponent. Seventeen
  digits identify every float64.\<close>

fun digit_search :: "nat \<Rightarrow> rat \<Rightarrow> int \<Rightarrow> int \<times> int" where
  "digit_search 0 v q = (round_half_even (v / 10 powi q), q)"
| "digit_search (Suc n) v q =
     (let x = v / 10 powi q; reads_back = (\<lambda>d. float64 (of_int d * 10 powi q) = Some v) in
      if reads_back \<lfloor>x\<rfloor> \<and> reads_back (\<lfloor>x\<rfloor> + 1) then (round_half_even x, q)
      else if reads_back \<lfloor>x\<rfloor> then (\<lfloor>x\<rfloor>, q)
      else if reads_back (\<lfloor>x\<rfloor> + 1) then (\<lfloor>x\<rfloor> + 1, q)
      else digit_search n v (q - 1))"

definition shortest_decimal :: "rat \<Rightarrow> int \<times> int" where
  "shortest_decimal v =
     (case digit_search 17 v (tens 400 v) of (d, q) \<Rightarrow> if d = 10 then (1, q + 1) else (d, q))"

definition fixed_text :: "int \<Rightarrow> int \<Rightarrow> string" where
  "fixed_text d q =
     (if 0 \<le> q then itoa (d * 10 ^ nat q)
      else let m = nat (- q); ds = replicate (Suc m - length (itoa d)) CHR ''0'' @ itoa d
           in take (length ds - m) ds @ ''.'' @ drop (length ds - m) ds)"

definition exponent_text :: "int \<Rightarrow> int \<Rightarrow> string" where
  "exponent_text d q =
     (let ds = itoa d; x = q + int (length ds) - 1
      in take 1 ds @ (if tl ds = [] then [] else ''.'' @ tl ds) @ ''e'' @ (if x < 0 then ''-'' else ''+'') @ itoa \<bar>x\<bar>)"

definition float_text :: "rat \<Rightarrow> string" where
  "float_text v =
     (if v = 0 then ''0''
      else case shortest_decimal v of (d, q) \<Rightarrow>
        if (case float64 (1 / 10 ^ 6) of None \<Rightarrow> False | Some t \<Rightarrow> v < t) \<or> 10 ^ 21 \<le> v
        then exponent_text d q else fixed_text d q)"

text \<open>The sign is that of the literal: a negative number that rounds to zero prints as \<open>-0\<close>.\<close>

definition number_text :: "string \<Rightarrow> string option" where
  "number_text n =
     map_option (\<lambda>v. (if take 1 n = ''-'' then ''-'' else []) @ float_text \<bar>v\<bar>) (float64 (number_value n))"

subsection \<open>Decoding and encoding again\<close>

definition object_text :: "(string \<times> string) list \<Rightarrow> string" where
  "object_text es =
     ''{'' @ join '','' (map (\<lambda>(k, t). str_marshal k @ '':'' @ t) (sort_key fst (fold (\<lambda>(k, t) m. put k t m) es []))) @ ''}''"

fun remarshal :: "json \<Rightarrow> string option" where
  "remarshal JNull = Some ''null''"
| "remarshal (JBool b) = Some (if b then ''true'' else ''false'')"
| "remarshal (JNum n) = number_text n"
| "remarshal (JStr s) = Some (str_marshal s)"
| "remarshal (JArr xs) = array_text (map remarshal xs)"
| "remarshal (JObj kvs) =
     map_option object_text (those (map (\<lambda>kv. map_option (Pair (fst kv)) (remarshal (snd kv))) kvs))"

definition customRuleToString :: "string \<Rightarrow> string option" where
  "customRuleToString raw =
     (case parse_json raw of None \<Rightarrow> None | Some (JStr s) \<Rightarrow> Some s | Some j \<Rightarrow> remarshal j)"

text \<open>The content as \<open>json.Unmarshal\<close> decodes it, with the rules left as text.\<close>

record raw_policy_content =
  rpc_SupportedObjectTypes :: "string list option"
  rpc_Properties :: "string gomap option"
  rpc_CustomRules :: "string gomap"

definition policy_content_UnmarshalJSON :: "raw_policy_content \<Rightarrow> policy_content option" where
  "policy_content_UnmarshalJSON raw =
     map_option
       (\<lambda>rules. \<lparr>pc_SupportedObjectTypes = rpc_SupportedObjectTypes raw, pc_Properties = rpc_Properties raw,
          pc_CustomRules = (if rpc_CustomRules raw = [] then None else Some rules)\<rparr>)
       (those (map (\<lambda>(k, v). map_option (Pair k) (customRuleToString v)) (rpc_CustomRules raw)))"

subsection \<open>Integers are printed as they are\<close>

lemma bitlen_one: "bitlen 1 = 1"
  by (simp add: bitlen_alt_def)

lemma float64_integer:
  assumes "\<bar>n\<bar> < 2 ^ 53"
  shows "float64 (of_int n) = Some (of_int n)"
proof (cases "n = 0")
  case False
  define a where "a = \<bar>n\<bar>"
  have a: "0 < a" "a < 2 ^ 53" "(of_int \<bar>n\<bar> :: rat) = of_int a" using False assms by (simp_all add: a_def)
  define e where "e = bitlen a - 1"
  have low: "2 ^ nat e \<le> a" "a < 2 ^ nat (bitlen a)" using bitlen_bounds [OF a(1)] by (simp_all add: e_def)
  have e0: "0 \<le> e" using a(1) bitlen_nonneg [of a] bitlen_eq_zero_iff [of a] by (simp add: e_def)
  have "(2 :: int) ^ nat e < 2 ^ 53" using low(1) a(2) by linarith
  then have "nat e < 53" by (rule power_less_imp_less_exp [rotated]) simp
  then have e: "e \<le> 52" by linarith
  have pow: "(2 :: rat) powi e = of_int (2 ^ nat e)" using e0 by (simp add: power_int_def)
  have "(2 :: rat) powi e \<le> of_int a" unfolding pow of_int_le_iff by (rule low(1))
  moreover have "(2 :: rat) powi (e - 52) = 1 / of_int (2 ^ nat (52 - e))"
    using e by (simp add: power_int_def nat_diff_distrib' field_simps)
  then have "of_int a / (2 :: rat) powi (e - 52) = of_int (a * 2 ^ nat (52 - e))" by simp
  then have "of_int (round_half_even (of_int a / 2 powi (e - 52))) * (2 :: rat) powi (e - 52) = of_int a"
    by (simp only: round_half_even_int) (metis nonzero_eq_divide_eq power_int_eq_0_iff zero_neq_numeral)
  moreover have "\<not> (2 :: rat) powi 1024 \<le> of_int a"
  proof -
    have "(of_int a :: rat) < of_int (2 ^ 53)" using a(2) by (simp only: of_int_less_iff)
    also have "\<dots> \<le> 2 powi 1024" by simp
    finally show ?thesis by simp
  qed
  moreover have "sgn (of_int n) * of_int a = (of_int n :: rat)" by (simp add: a_def sgn_if)
  ultimately show ?thesis
    using False e0 by (simp add: float64_def Let_def a(3) bitlen_one e_def [symmetric] flip: of_int_abs)
qed (simp add: float64_def)

text \<open>A step of the search: rounding up never reads back as an integer, rounding down only if it is the integer.\<close>

lemma digit_search_step:
  assumes "1 \<le> n" "n < 10 ^ 15" "j \<le> 15"
  shows "digit_search (Suc f) (of_int n) (int j) =
    (if n div 10 ^ j * 10 ^ j = n then (n div 10 ^ j, int j) else digit_search f (of_int n) (int j - 1))"
proof -
  let ?p = "10 ^ j :: int" and ?d = "n div 10 ^ j"
  have p: "(10 :: rat) powi int j = of_int ?p" "0 < ?p" by simp_all
  obtain k where k: "10 ^ 15 = k * ?p" using le_imp_power_dvd [OF assms(3), of "10 :: int"] by (metis dvd_def mult.commute)
  have "?d * ?p + n mod ?p = n" "0 \<le> n mod ?p" "n mod ?p < ?p" by (rule div_mult_mod_eq) simp_all
  then have around: "?d * ?p \<le> n" "n < (?d + 1) * ?p" unfolding distrib_right mult_1_left by linarith+
  then have "?d * ?p < k * ?p" using assms(2) k by linarith
  then have "?d + 1 \<le> k" by simp
  then have "(?d + 1) * ?p \<le> 10 ^ 15" unfolding k by (rule mult_right_mono) simp
  moreover have "0 \<le> ?d * ?p" using assms(1) by (simp add: pos_imp_zdiv_nonneg_iff)
  moreover have "float64 (of_int m) = Some (of_int m)" if "0 \<le> m" "m \<le> 10 ^ 15" for m
    using that by (intro float64_integer) simp
  ultimately have exact: "float64 (of_int (?d * ?p)) = Some (of_int (?d * ?p))"
      "float64 (of_int ((?d + 1) * ?p)) = Some (of_int ((?d + 1) * ?p))"
    using around assms(2) by (meson order.trans order.strict_implies_order)+
  have above: "(?d + 1) * ?p \<noteq> n" using around(2) by linarith
  then have "float64 (of_int ?d * of_int ?p :: rat) = Some (of_int n) \<longleftrightarrow> ?d * ?p = n"
      "\<not> float64 (of_int (?d + 1) * of_int ?p :: rat) = Some (of_int n)"
    using exact above by (simp_all only: of_int_mult [symmetric] option.inject of_int_eq_iff)
  then show ?thesis by (simp only: digit_search.simps Let_def p floor_divide_of_int_eq of_int_add of_int_1) simp
qed

text \<open>Below a quadrillion the search ends with the digits of the number.\<close>

lemma digit_search_integer:
  assumes "1 \<le> n" "n < 10 ^ 15" "j \<le> 15" "j < fuel"
  shows "\<exists>d i. digit_search fuel (of_int n) (int j) = (d, int i) \<and> d * 10 ^ i = n"
  using assms(3,4)
proof (induction j arbitrary: fuel)
  case 0
  then obtain f where f: "fuel = Suc f" by (cases fuel) auto
  show ?case using digit_search_step [OF assms(1,2), of 0 f] by (intro exI [of _ n] exI [of _ 0]) (simp add: f)
next
  case (Suc j)
  then obtain f where f: "fuel = Suc f" "j < f" by (cases fuel) auto
  show ?case
  proof (cases "n div 10 ^ Suc j * 10 ^ Suc j = n")
    case True
    then show ?thesis using digit_search_step [OF assms(1,2) Suc.prems(1), of f] unfolding f by (metis (full_types))
  next
    case False
    then have "digit_search fuel (of_int n) (int (Suc j)) = digit_search f (of_int n) (int j)"
      using digit_search_step [OF assms(1,2) Suc.prems(1), of f] by (simp add: f)
    then show ?thesis using Suc.IH [OF _ f(2)] Suc.prems(1) by simp
  qed
qed

lemma tens_integer: "1 \<le> n \<Longrightarrow> tens fuel (of_int n) = int (length (itoa n)) - 1"
  by (cases fuel) simp_all

lemma itoa_length:
  assumes "0 \<le> n" "n < 10 ^ k" "0 < k"
  shows "length (itoa n) \<le> k"
proof -
  have "m < 10 ^ k \<Longrightarrow> 0 < k \<Longrightarrow> length (nat_digits m) \<le> k" for m :: nat and k
  proof (induction k arbitrary: m)
    case (Suc k)
    show ?case
    proof (cases "m < 10")
      case False
      then have "0 < k" using Suc.prems(1) by (cases k) auto
      moreover have "m div 10 < 10 ^ k" using Suc.prems(1) by (simp add: less_mult_imp_div_less)
      ultimately show ?thesis using False Suc.IH by (simp add: nat_digits.simps [of m])
    qed (simp add: nat_digits.simps [of m])
  qed simp
  then show ?thesis using assms by (simp add: itoa_def nat_less_iff)
qed

lemma millionth:
  assumes "float64 (1 / 10 ^ 6) = Some t"
  shows "t \<le> 1 / 10 ^ 6 + 1 / 10 ^ 6"
proof -
  have "(2 :: rat) powi (- 1022) \<le> 2 powi (- 20)" by (rule power_int_increasing) simp_all
  also have "(2 :: rat) powi (- 20) \<le> 1 / 10 ^ 6" by (simp add: power_int_minus)
  finally have "(2 :: rat) powi (- 1022) \<le> 1 / 10 ^ 6" .
  moreover have "(1 :: rat) / 10 ^ 6 < 2 powi 0" by simp
  then have "(1 :: rat) / 10 ^ 6 < 2 powi 1023" by (rule less_le_trans) (rule power_int_increasing; simp)
  ultimately obtain r where "float64 (1 / 10 ^ 6) = Some r" "\<bar>r - 1 / 10 ^ 6\<bar> \<le> 1 / 10 ^ 6 * 2 powi (- 53)"
    by (rule float64_normal)
  moreover have "(1 :: rat) / 10 ^ 6 * 2 powi (- 53) \<le> 1 / 10 ^ 6" by (simp add: power_int_minus)
  ultimately have "r = t" "\<bar>r - 1 / 10 ^ 6\<bar> \<le> 1 / 10 ^ 6" using assms by simp_all
  then show ?thesis by linarith
qed

lemma float_text_integer:
  assumes "0 \<le> n" "n < 10 ^ 15"
  shows "float_text (of_int n) = itoa n"
proof (cases "n = 0")
  case True
  have "CHR ''0'' = char_of (48 :: nat)" by (simp flip: code_inject add: code_def)
  with True show ?thesis by (simp add: float_text_def itoa_def nat_digits.simps)
next
  case False
  then have n: "1 \<le> n" using assms(1) by simp
  have len: "length (itoa n) \<le> 15" "itoa n \<noteq> []" using itoa_length [OF assms(1,2)] itoa_digits [OF assms(1)] by auto
  define j where "j = length (itoa n) - 1"
  have j: "tens 400 (of_int n) = int j" "j \<le> 14" using len by (simp_all add: tens_integer [OF n] j_def of_nat_diff Suc_le_eq)
  obtain d i where "digit_search 17 (of_int n) (int j) = (d, int i)" "d * 10 ^ i = n"
    using digit_search_integer [OF n assms(2), of j 17] j(2) by auto
  then obtain d' i' where short: "shortest_decimal (of_int n) = (d', int i')" "d' * 10 ^ i' = n"
  proof (cases "d = 10")
    case True
    then show thesis using that [of 1 "Suc i"] \<open>d * 10 ^ i = n\<close> \<open>digit_search _ _ _ = _\<close> by (simp add: shortest_decimal_def j(1))
  next
    case False
    then show thesis using that [of d i] \<open>d * 10 ^ i = n\<close> \<open>digit_search _ _ _ = _\<close> by (simp add: shortest_decimal_def j(1))
  qed
  have one: "(of_int 1 :: rat) \<le> of_int n" using n by (simp only: of_int_le_iff)
  have "(of_int n :: rat) < of_int (10 ^ 21)" using assms(2) by (intro of_int_less_iff [THEN iffD2]) simp
  then have "\<not> (10 :: rat) ^ 21 \<le> of_int n" by simp
  moreover have "\<not> of_int n < t" if "float64 (1 / 10 ^ 6) = Some t" for t
    using millionth [OF that] one by simp
  ultimately have "\<not> ((case float64 (1 / 10 ^ 6) of None \<Rightarrow> False | Some t \<Rightarrow> of_int n < t) \<or> (10 :: rat) ^ 21 \<le> of_int n)"
    by (cases "float64 (1 / 10 ^ 6)") simp_all
  then have "float_text (of_int n) = fixed_text d' (int i')"
    unfolding float_text_def short(1) prod.case using False by (simp only: if_False of_int_eq_0_iff)
  then show ?thesis by (simp add: fixed_text_def short(2))
qed

subsection \<open>Integers as JSON\<close>

lemma digits_only:
  assumes "list_all is_digit s"
  shows "takeWhile is_digit s = s" "dropWhile is_digit s = []"
  using assms by (simp_all add: list_all_iff)

lemma nat_digits_head: "0 < n \<Longrightarrow> hd (nat_digits n) \<noteq> CHR ''0''"
proof (induction n rule: nat_digits.induct)
  case (1 n)
  show ?case
  proof (cases "n < 10")
    case True
    have "code CHR ''0'' = 48" by (simp add: code_def)
    moreover have "code (char_of (48 + n)) = 48 + n" using True by simp
    ultimately have "char_of (48 + n) \<noteq> CHR ''0''" using "1.prems" by auto
    then show ?thesis using True by (simp add: nat_digits.simps [of n])
  next
    case False
    then show ?thesis using 1 nat_digits_props [of "n div 10"] by (simp add: nat_digits.simps [of n])
  qed
qed

lemma parse_int_digits: "parse_int_part (nat_digits n) = Some (nat_digits n, [])"
proof -
  have d: "list_all is_digit (nat_digits n)" using nat_digits_props [of n] by blast
  obtain c cs where s: "nat_digits n = c # cs" using nat_digits_props [of n] by (cases "nat_digits n") auto
  show ?thesis
  proof (cases "n = 0")
    case True
    have "CHR ''0'' = char_of (48 :: nat)" by (simp flip: code_inject add: code_def)
    with True show ?thesis by (simp add: nat_digits.simps parse_int_part_def)
  next
    case False
    then have "c \<noteq> CHR ''0''" using nat_digits_head [of n] s by simp
    then show ?thesis using d digits_only [OF d] by (simp add: s parse_int_part_def span_digits_def)
  qed
qed

lemma nat_digits_sign: "take (Suc 0) (nat_digits n) \<noteq> ''-''"
  using nat_digits_props [of n] by (cases "nat_digits n") (auto simp: is_digit_def code_def)

lemma nat_digits_spans:
  "takeWhile is_digit (nat_digits n) = nat_digits n" "dropWhile is_digit (nat_digits n) = []"
  "digits_val (nat_digits n) = int n"
  using nat_digits_props [of n] digits_only [of "nat_digits n"] by simp_all

lemma parse_number_itoa: "parse_number (itoa k) = Some (itoa k, [])"
proof -
  have "parse_number (nat_digits n) = Some (nat_digits n, [])" for n
  proof -
    obtain c cs where "nat_digits n = c # cs" "c \<noteq> CHR ''-''"
      using nat_digits_props [of n] nat_digits_sign [of n] by (cases "nat_digits n") auto
    then show ?thesis using parse_int_digits [of n] by (simp add: parse_number_def parse_frac_def parse_exp_def)
  qed
  then show ?thesis
    by (simp add: itoa_def) (simp add: parse_number_def parse_int_digits parse_frac_def parse_exp_def)
qed

lemma number_value_itoa: "number_value (itoa k) = of_int k"
  by (simp add: number_value_def itoa_def Let_def nat_digits_sign nat_digits_spans)

lemma number_text_itoa:
  assumes "\<bar>k\<bar> < 10 ^ 15"
  shows "number_text (itoa k) = Some (itoa k)"
proof -
  have "float64 (of_int k) = Some (of_int k)" using assms by (intro float64_integer) simp
  moreover have "float_text (of_int \<bar>k\<bar>) = itoa \<bar>k\<bar>" using assms by (intro float_text_integer) simp_all
  then have "float_text \<bar>of_int k\<bar> = nat_digits (nat \<bar>k\<bar>)" by (simp add: itoa_def)
  ultimately have "number_text (itoa k) = Some ((if take 1 (itoa k) = ''-'' then ''-'' else []) @ nat_digits (nat \<bar>k\<bar>))"
    by (simp add: number_text_def number_value_itoa)
  then show ?thesis by (simp add: itoa_def nat_digits_sign)
qed

subsection \<open>Which rules keep their text\<close>

text \<open>The documents the property ranges over: integers of at most fifteen digits and ASCII texts.\<close>

fun short_integers :: "json \<Rightarrow> bool" where
  "short_integers (JNum n) = (case atoi n of None \<Rightarrow> False | Some k \<Rightarrow> \<bar>k\<bar> < 10 ^ 15 \<and> n = itoa k)"
| "short_integers (JArr xs) = list_all short_integers xs"
| "short_integers (JObj kvs) = list_all (\<lambda>kv. short_integers (snd kv)) kvs"
| "short_integers _ = True"

fun all_texts :: "(string \<Rightarrow> bool) \<Rightarrow> json \<Rightarrow> bool" where
  "all_texts p (JStr s) = p s"
| "all_texts p (JArr xs) = list_all (all_texts p) xs"
| "all_texts p (JObj kvs) = list_all (\<lambda>kv. p (fst kv) \<and> all_texts p (snd kv)) kvs"
| "all_texts p _ = True"

definition simple_document :: "json \<Rightarrow> bool" where
  "simple_document j \<longleftrightarrow> short_integers j \<and> all_texts (list_all (\<lambda>c. code c < 128)) j"

text \<open>Among them the canonical ones: members in strict order of their names, no HTML characters.\<close>

fun in_order :: "json \<Rightarrow> bool" where
  "in_order (JArr xs) = list_all in_order xs"
| "in_order (JObj kvs) = (sorted_wrt (<) (map fst kvs) \<and> list_all (\<lambda>kv. in_order (snd kv)) kvs)"
| "in_order _ = True"

definition html_free :: "string \<Rightarrow> bool" where
  "html_free s = list_all (\<lambda>c. c \<notin> {CHR ''<'', CHR ''>'', CHR ''&''}) s"

definition canonical_document :: "json \<Rightarrow> bool" where
  "canonical_document j \<longleftrightarrow> in_order j \<and> all_texts html_free j"

lemma short_integers_wf: "short_integers j \<Longrightarrow> wf_json j"
  by (induction j rule: short_integers.induct) (auto simp: list_all_iff parse_number_itoa split: option.splits)

text \<open>Escaping leaves no HTML character, and changes a text unless it has none.\<close>

lemma html_free_simps [simp]:
  "html_free []" "html_free (c # s) \<longleftrightarrow> c \<notin> {CHR ''<'', CHR ''>'', CHR ''&''} \<and> html_free s"
  "html_free (a @ b) \<longleftrightarrow> html_free a \<and> html_free b"
  by (simp_all add: html_free_def)

lemma html_free_escaped: "html_free (concat (map html_char s))"
  by (induction s) (simp_all add: html_char_def)

lemma html_free_iff: "concat (map html_char s) = s \<longleftrightarrow> html_free s"
proof
  show "html_free s" if "concat (map html_char s) = s" using html_free_escaped [of s] unfolding that .
  show "concat (map html_char s) = s" if "html_free s"
    using that by (induction s) (simp_all add: html_char_def)
qed

lemma html_free_json_escape: "html_free (json_escape c) \<longleftrightarrow> c \<notin> {CHR ''<'', CHR ''>'', CHR ''&''}"
proof (cases "c \<in> {CHR ''<'', CHR ''>'', CHR ''&''}")
  case True
  then have "json_escape c = [c]" by (auto simp: json_escape_def code_def)
  then show ?thesis using True by simp
next
  case False
  then show ?thesis using html_escape_plain [OF False] html_free_iff [of "json_escape c"] by (simp add: html_escape_def)
qed

lemma html_free_string [simp]: "html_free (string_text s) \<longleftrightarrow> html_free s"
proof -
  have "html_free (concat (map json_escape s)) \<longleftrightarrow> html_free s" by (induction s) (simp_all add: html_free_json_escape)
  then show ?thesis by (simp add: string_text_def)
qed

lemma html_free_join: "html_free sep \<Longrightarrow> html_free (join sep xs) \<longleftrightarrow> list_all html_free xs"
  by (induction sep xs rule: join.induct) simp_all

lemma html_free_itoa: "html_free (itoa k)"
proof -
  have "c \<notin> {CHR ''<'', CHR ''>'', CHR ''&''}" if "is_digit c" for c using that by (auto simp: is_digit_def code_def)
  then have "html_free (nat_digits n)" for n
    using nat_digits_props [of n] by (auto simp: html_free_def list_all_iff)
  then show ?thesis by (simp add: itoa_def)
qed

lemma html_free_json: "short_integers j \<Longrightarrow> html_free (json_text j) \<longleftrightarrow> all_texts html_free j"
proof (induction j rule: short_integers.induct)
  case (1 n)
  then show ?case by (auto simp: html_free_itoa split: option.splits)
next
  case (2 xs)
  then have "list_all html_free (map json_text xs) \<longleftrightarrow> list_all (all_texts html_free) xs"
    by (simp add: list_all_iff)
  then show ?case by (simp add: html_free_join)
next
  case (3 kvs)
  then have "list_all html_free (map (\<lambda>kv. string_text (fst kv) @ '':'' @ json_text (snd kv)) kvs) \<longleftrightarrow>
      list_all (\<lambda>kv. html_free (fst kv) \<and> all_texts html_free (snd kv)) kvs"
    by (simp add: list_all_iff)
  then show ?case by (simp add: html_free_join)
qed simp_all

text \<open>Decoding into Go values and encoding again is encoding the document with the members of each object in
  order and the last of equal names only.\<close>

fun normal :: "json \<Rightarrow> json" where
  "normal (JArr xs) = JArr (map normal xs)"
| "normal (JObj kvs) = JObj (sort_key fst (fold (\<lambda>(k, j) m. put k j m) (map (\<lambda>kv. (fst kv, normal (snd kv))) kvs) []))"
| "normal j = j"

lemma those_map_Some: "(\<And>x. x \<in> set xs \<Longrightarrow> f x = Some (g x)) \<Longrightarrow> those (map f xs) = Some (map g xs)"
  by (induction xs) auto

definition on_value :: "('a \<Rightarrow> 'b) \<Rightarrow> string \<times> 'a \<Rightarrow> string \<times> 'b" where
  "on_value f e = (fst e, f (snd e))"

lemma on_value_simps [simp]: "fst (on_value f e) = fst e" "snd (on_value f e) = f (snd e)" "on_value f (k, x) = (k, f x)"
  by (simp_all add: on_value_def)

lemma fold_put_image:
  "fold (\<lambda>(k, t) m. put k t m) (map (on_value f) es) (map (on_value f) m) =
     map (on_value f) (fold (\<lambda>(k, t) m. put k t m) es m)"
proof (induction es arbitrary: m)
  case (Cons e es)
  have "put (fst e) (f (snd e)) (map (on_value f) m) = map (on_value f) (put (fst e) (snd e) m)"
    by (cases e) (auto simp: put_def keys_def)
  then show ?case using Cons [of "put (fst e) (snd e) m"] by (simp add: case_prod_beta)
qed simp

lemma sort_key_image: "sort_key fst (map (on_value f) es) = map (on_value f) (sort_key fst es)"
proof (induction es)
  case (Cons e es)
  have "insort_key fst (on_value f e) (map (on_value f) xs) = map (on_value f) (insort_key fst e xs)" for xs
    by (induction xs) simp_all
  then show ?case using Cons by simp
qed simp

lemma marshal_join: "concat (map html_char (join sep xs)) = join (concat (map html_char sep)) (map (\<lambda>x. concat (map html_char x)) xs)"
  by (induction sep xs rule: join.induct) simp_all

lemma marshal_object:
  "json_marshal (JObj kvs) = ''{'' @ join '','' (map (\<lambda>(k, t). str_marshal k @ '':'' @ t) (map (on_value json_marshal) kvs)) @ ''}''"
  by (simp add: json_marshal_def str_marshal_def marshal_join html_char_def comp_def case_prod_beta)

lemma remarshal_normal: "short_integers j \<Longrightarrow> remarshal j = Some (json_marshal (normal j))"
proof (induction j rule: short_integers.induct)
  case (1 n)
  then show ?case
    using html_free_iff [THEN iffD2, OF html_free_itoa] by (auto simp: number_text_itoa json_marshal_def split: option.splits)
next
  case (2 xs)
  then have "those (map remarshal xs) = Some (map (\<lambda>x. json_marshal (normal x)) xs)"
    by (intro those_map_Some) (simp add: list_all_iff)
  then show ?case by (simp add: array_text_def json_marshal_def marshal_join html_char_def comp_def)
next
  case (3 kvs)
  let ?es = "map (\<lambda>kv. (fst kv, normal (snd kv))) kvs"
  have "those (map (\<lambda>kv. map_option (Pair (fst kv)) (remarshal (snd kv))) kvs) = Some (map (on_value json_marshal) ?es)"
    unfolding map_map using 3 by (intro those_map_Some) (simp add: list_all_iff)
  then show ?case
    using fold_put_image [of json_marshal ?es "[]"]
    by (simp add: object_text_def sort_key_image marshal_object del: map_map)
qed (simp_all add: str_marshal_def json_marshal_def html_char_def)

lemma fold_put_members: "distinct (keys m @ map fst es) \<Longrightarrow> fold (\<lambda>(k, t) m. put k t m) es m = m @ es"
  by (induction es arbitrary: m) (auto simp: put_def)

lemma wf_fold_put: "wf_map m \<Longrightarrow> wf_map (fold (\<lambda>(k, t) m. put k t m) es m)"
  by (induction es arbitrary: m) auto

lemma normal_sorted:
  assumes "sorted_wrt (<) (map fst kvs)"
  shows "normal (JObj kvs) = JObj (map (\<lambda>kv. (fst kv, normal (snd kv))) kvs)"
proof -
  have "sorted (map fst kvs)" "distinct (map fst kvs)" using assms strict_sorted_iff [of "map fst kvs"] by blast+
  then show ?thesis
    using fold_put_members [of "[]" "map (\<lambda>kv. (fst kv, normal (snd kv))) kvs"] by (simp add: comp_def sort_key_id_if_sorted)
qed

lemma normal_iff: "normal j = j \<longleftrightarrow> in_order j"
proof (induction j rule: in_order.induct)
  case (1 xs)
  then show ?case by (auto simp: list_all_iff map_idI) (metis in_set_conv_nth nth_map)
next
  case (2 kvs)
  have order: "sorted_wrt (<) (map fst kvs)" if "normal (JObj kvs) = JObj kvs"
  proof -
    define m where "m = fold (\<lambda>(k, j) m. put k j m) (map (\<lambda>kv. (fst kv, normal (snd kv))) kvs) []"
    have m: "wf_map m" "kvs = sort_key fst m" using that wf_fold_put [OF wf_map_Nil] by (simp_all add: m_def)
    have "distinct (map fst kvs)" unfolding m(2) using m(1) by (simp add: wf_map_def keys_def distinct_map)
    moreover have "sorted (map fst kvs)" unfolding m(2) by (rule sorted_sort_key)
    ultimately show ?thesis using strict_sorted_iff by blast
  qed
  have members: "map (\<lambda>kv. (fst kv, normal (snd kv))) kvs = kvs \<longleftrightarrow> list_all (\<lambda>kv. normal (snd kv) = snd kv) kvs"
    by (induction kvs) (auto simp: prod_eq_iff)
  show ?case
    using order normal_sorted [of kvs] members 2 by (auto simp: list_all_iff)
qed simp_all

lemma put_members: "set (fold (\<lambda>(k, t) m. put k t m) es m) \<subseteq> set es \<union> set m"
proof (induction es arbitrary: m)
  case (Cons e es)
  have "set (put (fst e) (snd e) m) \<subseteq> insert e (set m)" by (auto simp: put_def split: if_splits)
  then show ?case using Cons [of "put (fst e) (snd e) m"] by (auto simp: case_prod_beta)
qed simp

lemma normal_members:
  assumes "normal (JObj kvs) = JObj es" "e \<in> set es"
  obtains kv where "kv \<in> set kvs" "e = (fst kv, normal (snd kv))"
proof -
  have "set es \<subseteq> set (map (\<lambda>kv. (fst kv, normal (snd kv))) kvs)"
    using assms(1) put_members [of "map (\<lambda>kv. (fst kv, normal (snd kv))) kvs" "[]"] by auto
  then show thesis using assms(2) that by auto
qed

lemma normal_short: "short_integers j \<Longrightarrow> short_integers (normal j)"
proof (induction j rule: short_integers.induct)
  case (3 kvs)
  obtain es where es: "normal (JObj kvs) = JObj es" by simp
  have "short_integers (snd e)" if e: "e \<in> set es" for e
  proof -
    obtain kv where "kv \<in> set kvs" "e = (fst kv, normal (snd kv))" by (rule normal_members [OF es e])
    then show ?thesis using 3 by (simp add: list_all_iff)
  qed
  then show ?case unfolding es by (simp add: list_all_iff)
qed (auto simp: list_all_iff)

lemma normal_texts: "all_texts p j \<Longrightarrow> all_texts p (normal j)"
proof (induction p j rule: all_texts.induct)
  case (3 p kvs)
  obtain es where es: "normal (JObj kvs) = JObj es" by simp
  have "p (fst e) \<and> all_texts p (snd e)" if e: "e \<in> set es" for e
  proof -
    obtain kv where "kv \<in> set kvs" "e = (fst kv, normal (snd kv))" by (rule normal_members [OF es e])
    then show ?thesis using 3 by (simp add: list_all_iff)
  qed
  then show ?case unfolding es by (simp add: list_all_iff)
qed (auto simp: list_all_iff)

text \<open>What is recorded for a simple document is its compact encoding just when it is canonical.\<close>

lemma remarshal_iff:
  assumes "short_integers j"
  shows "remarshal j = Some (json_text j) \<longleftrightarrow> canonical_document j"
proof
  assume "canonical_document j"
  then have "normal j = j" "html_free (json_text j)"
    using html_free_json [OF assms] by (simp_all add: canonical_document_def normal_iff)
  then show "remarshal j = Some (json_text j)"
    using remarshal_normal [OF assms] by (simp add: json_marshal_def html_free_iff)
next
  assume "remarshal j = Some (json_text j)"
  then have same: "concat (map html_char (json_text (normal j))) = json_text j"
    using remarshal_normal [OF assms] by (simp add: json_marshal_def)
  then have free: "all_texts html_free j" using html_free_escaped html_free_json [OF assms] by metis
  have norm: "short_integers (normal j)" "all_texts html_free (normal j)" using normal_short [OF assms] normal_texts [OF free] by simp_all
  then have "json_text (normal j) = json_text j" using same html_free_json html_free_iff by metis
  then have "normal j = j"
    using parse_json_text [OF short_integers_wf] assms norm(1) by (metis option.inject)
  then show "canonical_document j" using free by (simp add: canonical_document_def normal_iff)
qed

text \<open>A float64 has 53 bits: the next odd number is rounded to the even one below it.\<close>

lemma large_integers_collide: "float64 9007199254740993 = float64 9007199254740992"
proof -
  have "bitlen 9007199254740993 = 54" "bitlen 9007199254740992 = 54"
    using bitlen_pow2 [of 1 53] bitlen_one by (simp_all add: compute_bitlen)
  moreover have "\<lfloor>9007199254740993 / 2 :: rat\<rfloor> = 4503599627370496" by (simp add: floor_eq_iff)
  ultimately show ?thesis by (simp add: float64_def Let_def bitlen_one round_half_even_def power_int_def)
qed

text \<open>C40: A custom rule that is a string is recorded as its text, whatever it looks like. A rule that is another document with
  integers of at most fifteen digits and ASCII texts is recorded as its compact encoding, as the type promises, exactly when the members of each of its
  objects are listed in order, without repetition, and no text has an HTML character; the white space of the answer does not matter.
  Other numbers may change: 1.0 becomes 1, and two integers of sixteen digits become the same text.\<close>

theorem custom_rule_text:
  assumes "parse_json raw = Some j" "simple_document j" "\<not> is_JStr j"
  shows "(customRuleToString raw = Some (json_text j) \<longleftrightarrow> canonical_document j) \<and>
   customRuleToString (string_text s) = Some s \<and>
   customRuleToString ''1.0'' = Some ''1'' \<and>
   customRuleToString ''9007199254740993'' = customRuleToString ''9007199254740992''"
proof (intro conjI)
  show "customRuleToString (string_text s) = Some s"
    using parse_json_text [of "JStr s"] by (simp add: customRuleToString_def)
  have "customRuleToString raw = remarshal j" using assms(1,3) by (auto simp: customRuleToString_def split: json.split)
  then show "customRuleToString raw = Some (json_text j) \<longleftrightarrow> canonical_document j"
    using assms(2) remarshal_iff [of j] by (simp add: simple_document_def)
  have texts: "parse_json ''1.0'' = Some (JNum ''1.0'')" "parse_json ''9007199254740993'' = Some (JNum ''9007199254740993'')"
      "parse_json ''9007199254740992'' = Some (JNum ''9007199254740992'')" "itoa 1 = ''1''"
    and vals: "number_value ''1.0'' = 1" "number_value ''9007199254740993'' = 9007199254740993"
      "number_value ''9007199254740992'' = 9007199254740992"
    by code_simp+
  have "number_text ''1.0'' = number_text (itoa 1)"
    unfolding number_text_def number_value_itoa by (simp add: vals texts)
  then show "customRuleToString ''1.0'' = Some ''1''" using number_text_itoa [of 1] by (simp add: customRuleToString_def texts)
  show "customRuleToString ''9007199254740993'' = customRuleToString ''9007199254740992''"
    by (simp add: customRuleToString_def texts number_text_def vals large_integers_collide)
qed

theorem custom_rule_text_witness:
  "customRuleToString ''{\"limit\": -120, \"on\": [true, \"x\"]}'' = Some ''{\"limit\":-120,\"on\":[true,\"x\"]}'' \<and>
   customRuleToString ''{\"on\": 1, \"limit\": 2}'' \<noteq> Some ''{\"on\":1,\"limit\":2}''"
proof -
  have "parse_json ''{\"limit\": -120, \"on\": [true, \"x\"]}'' = Some (JObj [(''limit'', JNum ''-120''), (''on'', JArr [JBool True, JStr ''x''])])"
    "simple_document (JObj [(''limit'', JNum ''-120''), (''on'', JArr [JBool True, JStr ''x''])])"
    "canonical_document (JObj [(''limit'', JNum ''-120''), (''on'', JArr [JBool True, JStr ''x''])])"
    "json_text (JObj [(''limit'', JNum ''-120''), (''on'', JArr [JBool True, JStr ''x''])]) = ''{\"limit\":-120,\"on\":[true,\"x\"]}''"
    by code_simp+
  then have "customRuleToString ''{\"limit\": -120, \"on\": [true, \"x\"]}'' = Some ''{\"limit\":-120,\"on\":[true,\"x\"]}''"
    using custom_rule_text by fastforce
  moreover have "parse_json ''{\"on\": 1, \"limit\": 2}'' = Some (JObj [(''on'', JNum ''1''), (''limit'', JNum ''2'')])"
    "simple_document (JObj [(''on'', JNum ''1''), (''limit'', JNum ''2'')])"
    "\<not> canonical_document (JObj [(''on'', JNum ''1''), (''limit'', JNum ''2'')])"
    "json_text (JObj [(''on'', JNum ''1''), (''limit'', JNum ''2'')]) = ''{\"on\":1,\"limit\":2}''"
    by code_simp+
  then have "customRuleToString ''{\"on\": 1, \"limit\": 2}'' \<noteq> Some ''{\"on\":1,\"limit\":2}''"
    using custom_rule_text by fastforce
  ultimately show ?thesis by blast
qed

end
