(* ===== verification/Spec2Isabelle.thy ===== *)
theory Spec2Isabelle
  imports Version DataTypes Paths Api HttpClient TableResource RoleResource FunctionResource OAuth Auth JobResource EntityUpdates Associations
    PartitionResource ModelVersionResource ViewResource FilesetResource StatisticsResource PrincipalResources ProviderConfig
    EntityDataSources LostAnswers SchemaHandlers PlannedIds TableValidators PolicyContent
begin

text \<open>
  Verification library of the Terraform provider for Apache Gravitino (Go code under src/internal).

  \<^bold>\<open>The program.\<close> Terraform calls the provider with a configuration, a plan and a recorded state. A
  resource handler (\<open>Create\<close>, \<open>Read\<close>, \<open>Update\<close>, \<open>Delete\<close>, \<open>ImportState\<close>, \<open>ModifyPlan\<close>, \<open>ValidateConfig\<close>)
  turns the difference into calls of the client (\<open>client/\<close>), the client turns each call into one HTTP request of
  Gravitino's REST API and repeats it when that is safe, and the answer is converted (\<open>models/\<close>) and merged into
  the state. Authentication providers (\<open>client/auth/\<close>) sign the requests. Every layer has its own theories; they
  are listed in the order in which they import one another.

  \<^bold>\<open>Values, text and numbers.\<close>
  \<^item> \<open>Prelude\<close>: Terraform values (\<open>tfval\<close>: null, unknown, known), diagnostics, Go maps as association lists, Go
    errors, the outcome of a handler, and the state monad in which a handler talks to a server of any state type
    \<open>'w\<close>: \<open>calling\<close>, \<open>andThen\<close> and \<open>on_world\<close> are the calls, early returns and branches of a handler.
  \<^item> \<open>GoStrings\<close>, \<open>Json\<close>, \<open>Float64\<close>: the parts of \<open>strings\<close>, \<open>strconv\<close>, \<open>encoding/json\<close> and of float64
    arithmetic the provider relies on. A string is its bytes; a JSON document is parsed from and printed to text.
  \<^item> \<open>Errors\<close> (client/errors.go, models/common.go): \<open>HTTPError\<close>, \<open>ErrorResponse\<close>, hints, and which refusals of a drop
    earn the \<open>force_destroy\<close> hint.
  \<^item> \<open>Version\<close> (models/version.go, client/server_version.go, client/version.go): version strings, the remembered
    version and the gates. The locale \<open>fail_closed_gate\<close> is the contract of a gate that refuses when the version
    is unknown; it is interpreted for metadata objects, policies and indexes.
  \<^item> \<open>DataTypes\<close> (models/datatype.go): data types, literals, expressions and the column-type parser.
  \<^item> \<open>TfUtil\<close>, \<open>Handlers\<close>, \<open>Entity\<close> (tfutil, resourceutil, models/audit.go, models/planmodifier.go): conversion of
    framework values, import ids, and the shapes many handlers share: \<open>refresh\<close>, \<open>drop_or_gone\<close>, and the client
    calls of a simple entity (\<open>entity_api\<close>).
  \<^item> \<open>PropertyDiff\<close>: the locale \<open>property_diff\<close>, the contract of the functions that turn two property maps into
    update requests. It is interpreted on each resource's own function.

  \<^bold>\<open>The client.\<close>
  \<^item> \<open>Paths\<close> (client/paths.go): every path; the locale \<open>segment_escape\<close> says what an escaping function must promise
    so that different objects have different paths, and is interpreted on \<open>url.PathEscape\<close>.
  \<^item> \<open>Api\<close> (client/*.go): each method as the request it makes: verb, path, query, body, repeatable or not.
  \<^item> \<open>HttpClient\<close> (client/client.go): the retry loop over an environment that answers, ticks and cancels, with
    the pauses in wrapping 64-bit nanoseconds.
  \<^item> \<open>OAuth\<close>, \<open>Auth\<close> (client/auth): the token cache as a step relation over program points of concurrent calls,
    the other header providers, and the SPNEGO round trip.
  \<^item> \<open>ProviderConfig\<close> (provider/provider.go, client/providerdata.go, providerbase): how the provider block and the
    environment select an authentication provider and the client's limits, down to \<open>time.ParseDuration\<close>.

  \<^bold>\<open>The resources\<close> (resources/*, models/*). A theory has the model's conversions, the requests of an update and every
  handler, with each guard and early return of the code.
  \<^item> \<open>TableModel\<close>, \<open>TableResource\<close>, \<open>ViewResource\<close>, \<open>PartitionResource\<close>: tables with columns, partitioning, sort
    orders and indexes; views; partitions.
  \<^item> \<open>InUse\<close>, \<open>MetalakeResource\<close>, \<open>CatalogResource\<close>: the two objects that must be enabled to be altered and disabled
    to be dropped.
  \<^item> \<open>RoleResource\<close>, \<open>PrincipalResources\<close>: roles, users, groups, owners, and the built-in identity provider.
  \<^item> \<open>FunctionModel\<close>, \<open>FunctionTf\<close>, \<open>FunctionResource\<close>: functions and the diff of their definitions.
  \<^item> \<open>JobResource\<close>: jobs with their bounded wait for a cancellation, and job templates.
  \<^item> \<open>TagResource\<close>, \<open>TopicResource\<close>, \<open>SchemaResource\<close>, \<open>ModelResource\<close>, \<open>FilesetResource\<close>, \<open>ModelVersionResource\<close>,
    \<open>PolicyResource\<close>: entities with a name, a comment and properties. \<open>EntityUpdates\<close> states once, in the locale
    \<open>entity_diff\<close>, that the requests of an update assign the planned entity, and interprets it for each of them.
    \<open>PolicyContent\<close> decodes the custom rules of a policy, with numbers printed as encoding/json prints a float64.
  \<^item> \<open>Associations\<close>: tags and policies attached to an object; both handlers interpret the locale \<open>association\<close>.
  \<^item> \<open>StatisticsResource\<close>: statistics of objects and of partitions, two interpretations of \<open>reconciliation\<close>.

  \<^bold>\<open>The data sources\<close> (datasources/*). A data source validates its arguments, asks the client and turns the answer into
  attributes; a name that is not found is an error, never a removed state.
  \<^item> \<open>DataSources\<close>: lookups of names, users, groups, owners, roles, health, secrets, credentials and statistics.
  \<^item> \<open>VersionedDataSources\<close>: those that depend on the server's version: the connection test of a catalog, the
    discovery of an Iceberg service, and the lookups of model versions by number, alias or URI.
  \<^item> \<open>EntityDataSources\<close>: the lookup of one entity and the listing of all of them. The locale \<open>listing_pair\<close> says that
    both read the same entity; it is interpreted for every kind that has both.

  \<^bold>\<open>Resources over the client.\<close> \<open>LostAnswers\<close> runs the handlers of a tag over the retry loop, against a server whose
  answers may be lost: \<open>carries_out\<close> is the server, \<open>call_repeats\<close> what a caller can conclude. The two properties that
  follow from it span the client and a resource and stand at the end of this theory.

  \<^bold>\<open>The schemas\<close> (\<open>Schema\<close> and \<open>Metadata\<close> of resources/*, datasources/* and provider/provider.go, the structs with
  \<open>tfsdk\<close> tags and the \<open>AttrTypes\<close> of models/*). A schema declares what a configuration may contain, and its plan
  modifiers decide which changes reach \<open>Update\<close>.
  \<^item> \<open>SchemaModel\<close>: attributes, blocks, plan modifiers and validators as datatypes, the type of the object a schema
    describes, Go structs, and the repository's comparison of a struct with a schema (models/modeltest).
  \<^item> \<open>ResourceSchemas\<close>, \<open>DataSourceSchemas\<close>: the declarations, one definition per Go function or variable: \<open>X_Schema\<close>,
    \<open>X_Metadata\<close>, the members \<open>X_fields\<close> of a struct, the attribute types, and the lists the provider registers.
  \<^item> \<open>SchemaContracts\<close>: the structs of the handlers and of the conversions have the names of their schemas, and what
    the plan modifiers make of an attribute that is left to the server.
  \<^item> \<open>SchemaHandlers\<close>: an update sends requests exactly for the changes that its schema allows in place.
  \<^item> \<open>PlannedIds\<close>: the locale \<open>identified\<close>, interpreted for ten resources: the identifier an update records is the one
    that the schema's plan modifier has planned.
  \<^item> \<open>TableValidators\<close> (resources/table/schema.go): what passes the validators of tables and views is converted.

  \<^bold>\<open>What the lemmas show.\<close> Text and numbers: round trips and injectivity (import ids, paths, data types, table blocks,
  partitions) and the exact points where 32-bit, 64-bit or float64 arithmetic shows. Client: bounds on requests and
  pauses for every answer of the server; safety and progress of the token cache in every interleaving. Updates: the
  abstract server is a map (of names, properties, positions, definitions, statistics), and carrying out the computed
  requests assigns the planned map and touches nothing else. Handlers: what is sent under every answer, what is in
  the state afterwards, that an apply keeps the known planned values, that a refresh after it changes nothing, and
  the cases in which the code does not achieve this.

  \<^bold>\<open>Parameters and hypotheses.\<close> Code outside src/ is an argument. The decoder of the plugin framework is a record of
  functions (\<open>fw\<close>, \<open>table_fw\<close>, \<open>function_fw\<close>, \<open>statistics_fw\<close>, \<open>view_fw\<close>), and \<open>fw_decodes\<close> is its documented
  behaviour on known values. A server is a world of any type with a record of client calls that may answer anything;
  theorems about its state name what they assume of a server that does as it is told (\<open>lawful_store\<close>, \<open>role_server\<close>,
  \<open>member_server\<close>, \<open>numbering_server\<close>, \<open>function_server\<close>, \<open>whole_requests\<close>, which may refuse a request or lose its answer). The Kerberos library is \<open>krb_lib\<close>;
  \<open>url.Parse\<close>, the clock, the random source and the environment are arguments. Each such theorem has a witness that
  instantiates them with a concrete server.

  \<^bold>\<open>Bounds and fuel.\<close> The JSON parser takes the length of the text plus one as its fuel, and every call consumes a byte
  (\<open>Json\<close>). The retry loop counts up to \<open>maxRetries\<close>. The wait for a cancelled job is a \<open>partial_function\<close>, proved
  to return because a ticker and a deadline bound it. The shortest decimal of a float64 is searched among 17 digits,
  which identify every float64, below an exponent found within 400 steps (\<open>PolicyContent\<close>). \<open>time.ParseDuration\<close> recurses on the length of the text. Time in
  nanoseconds wraps at 64 bits; version numbers wrap at 32.

  \<^bold>\<open>Not modelled.\<close> Texts for the documentation in schemas. Logging, the HTTP transport and TLS are effects without a
  result the code uses. Servers in the theorems about lost answers carry out every request they are sent; requests
  that are lost before they arrive are not distinguished. How the framework makes a plan is known to the development
  only as far as \<open>documented\<close> and \<open>modified\<close> in \<open>SchemaContracts\<close> and \<open>planned_id\<close> in \<open>PlannedIds\<close> state it.
\<close>

section \<open>Properties that span the client and a resource\<close>

text \<open>C16: Deleting a tag survives lost answers. Whatever answers to the DELETE are lost on the way, the tag is gone on
  the server afterwards and every other tag is untouched; the handler forgets the tag, also when the server answers
  a repeated request with 404, unless no answer arrived to any of the \<open>maxRetries + 1\<close> requests.\<close>

theorem delete_survives_lost_answers:
  assumes "steady ev view"
    and "carries_out ev view ''DELETE'' (tag_url c m n) None (\<lambda>S. S - {n}) reply"
    and "\<And>S. served decode_drop (reply S) \<or> rs_StatusCode (reply S) = 404"
    and "ValueString (tgm_Metalake state) = m" "ValueString (tgm_Name state) = n"
    and "tag_Delete (http_tag_api c ev decode_tag decode_drop) (Inr state) net = (r, net')"
  shows "view (nt_world net') = view (nt_world net) - {n} \<and>
    (r = Inr Remove \<or>
     (\<exists>ds. r = Inl ds) \<and> length (nt_sent net) + Suc (rp_maxRetries (cl_retry c)) \<le> length (nt_sent net'))"
proof -
  obtain x where x: "do_call c ev decode_drop False (DeleteTag m n) net = (x, net')"
      "r = (case x of Inl err \<Rightarrow> if IsNotFoundError err then Inr Remove
              else Inl (NewResourceError ''deleting tag'' n err) | Inr _ \<Rightarrow> Inr Remove)"
    using assms(4-6) by (auto simp: tag_Delete_def andThen_pure drop_or_gone_def http_tag_api_def split: prod.splits sum.splits)
  have co: "carries_out ev view (ca_method (DeleteTag m n)) (cl_baseURL c @ ''/api'' @ ca_path (DeleteTag m n))
      (map_option json_marshal (ca_body (DeleteTag m n))) (\<lambda>S. S - {n}) reply"
    using assms(2) by (simp add: tag_calls tag_url_def)
  obtain k where k: "view (nt_world net') = ((\<lambda>S. S - {n}) ^^ Suc k) (view (nt_world net))"
      "length (nt_sent net') = length (nt_sent net) + Suc k"
      "x = received decode_drop False (DeleteTag m n) (reply (((\<lambda>S. S - {n}) ^^ k) (view (nt_world net)))) \<or>
       (\<exists>err. x = Inl err \<and> \<not> IsNotFoundError err \<and> rp_maxRetries (cl_retry c) \<le> k)"
    using call_repeats [OF assms(1) co _ x(1)] tag_calls(4) by blast
  have "view (nt_world net') = view (nt_world net) - {n}"
    unfolding k(1) by (rule once_more) simp
  moreover have "r = Inr Remove" if "x = received decode_drop False (DeleteTag m n) (reply S)" for S
    using assms(3) [of S] served_received [of decode_drop "reply S" False "DeleteTag m n"]
      missing_received [of "reply S" decode_drop False "DeleteTag m n"] that x(2) by auto
  ultimately show ?thesis using k(2,3) x(2) by auto
qed

theorem delete_survives_lost_answers_witness:
  "fst (nt_world (snd (tag_Delete (http_tag_api local_client lossy_env (\<lambda>_. Inr zero_tag) (\<lambda>_. Inr True))
     (Inr (recorded_tag ''a'')) (lossy_net 2)))) = {''c''}"
proof -
  obtain r net' where run: "tag_Delete (http_tag_api local_client lossy_env (\<lambda>_. Inr zero_tag) (\<lambda>_. Inr True))
      (Inr (recorded_tag ''a'')) (lossy_net 2) = (r, net')" by fastforce
  have "carries_out lossy_env fst ''DELETE'' (tag_url local_client ''m'' ''a'') None (\<lambda>S. S - {''a''})
      (\<lambda>S. status_reply (if ''a'' \<in> S then 200 else 404))"
    by (rule lossy_carries_out) (simp add: tag_server_def)
  from delete_survives_lost_answers [OF lossy_steady this lossy_dropped recorded_values(1) recorded_values(2) run, THEN conjunct1]
  have "fst (nt_world net') = {''c''}" by (auto simp: lossy_net_def)
  then show ?thesis by (simp only: run snd_conv)
qed

text \<open>C17: A lost answer to a rename loses track of the tag. The server has renamed it whichever answers are lost; but once
  the client has repeated the request, the server answers for the old name that there is no such tag, so the
  update reports an error and the state keeps the old name. The next refresh looks for that name and drops the
  renamed tag from the state, or fails.\<close>

theorem rename_answer_lost:
  assumes "steady ev view"
    and "carries_out ev view ''PUT'' (tag_url c m old) (map_option json_marshal (updates_body (map tag_update_json (tag_updates plan state))))
           (\<lambda>S. if old \<in> S then insert new (S - {old}) else S) reply"
    and "carries_out ev view ''GET'' (tag_url c m old) None (\<lambda>S. S) read_reply"
    and "\<And>S. if old \<in> S then served decode_tag (reply S) else rs_StatusCode (reply S) = 404"
    and "\<And>S. old \<notin> S \<Longrightarrow> rs_StatusCode (read_reply S) = 404"
    and "old \<in> view (nt_world net)" "new \<noteq> old"
    and "ValueString (tgm_Metalake state) = m" "ValueString (tgm_Name state) = old" "ValueString (tgm_Name plan) = new"
    and "tag_Update (http_tag_api c ev decode_tag decode_drop) (Inr plan) (Inr state) net = (r, net')"
  shows "view (nt_world net') = insert new (view (nt_world net) - {old}) \<and>
    (length (nt_sent net') = Suc (length (nt_sent net)) \<and> 0 < rp_maxRetries (cl_retry c) \<longrightarrow> (\<exists>saved. r = Inr (Save saved))) \<and>
    (Suc (length (nt_sent net)) < length (nt_sent net') \<longrightarrow> (\<exists>ds. r = Inl ds)) \<and>
    (fst (tag_Read (http_tag_api c ev decode_tag decode_drop) (Inr state) net') = Inr Remove \<or>
     (\<exists>ds. fst (tag_Read (http_tag_api c ev decode_tag decode_drop) (Inr state) net') = Inl ds))"
proof -
  let ?eff = "\<lambda>S. if old \<in> S then insert new (S - {old}) else S" and ?S = "view (nt_world net)"
  let ?ca = "UpdateTag m old (map tag_update_json (tag_updates plan state))"
  have "tgm_Name plan \<noteq> tgm_Name state" using assms(7,9,10) by auto
  then have "tag_updates plan state \<noteq> []" by (simp add: tag_updates_def)
  then obtain x where x: "do_call c ev decode_tag zero_tag ?ca net = (x, net')"
      "r = (case x of Inl err \<Rightarrow> Inl (NewResourceError ''updating tag'' old err)
              | Inr t \<Rightarrow> Inr (Save (setStateFromTag (ValueString (tgm_Metalake plan)) t plan)))"
    using assms(8-11) by (auto simp: tag_Update_def both_get_def andThen_pure andThen_def calling_def done_with_def Let_def http_tag_api_def split: prod.splits sum.splits)
  have put: "carries_out ev view (ca_method ?ca) (cl_baseURL c @ ''/api'' @ ca_path ?ca) (map_option json_marshal (ca_body ?ca)) ?eff reply"
    using assms(2) by (simp add: tag_calls tag_url_def)
  obtain k where k: "view (nt_world net') = (?eff ^^ Suc k) ?S" "length (nt_sent net') = length (nt_sent net) + Suc k"
      "x = received decode_tag zero_tag ?ca (reply ((?eff ^^ k) ?S)) \<or> (\<exists>err. x = Inl err \<and> rp_maxRetries (cl_retry c) \<le> k)"
    using call_repeats [OF assms(1) put _ x(1)] tag_calls(12) by blast
  have twice: "?eff (?eff ?S) = ?eff ?S" by auto
  then have gone: "view (nt_world net') = ?eff ?S" unfolding k(1) by (rule once_more)
  then have away: "old \<notin> view (nt_world net')" using assms(7) by auto
  have "\<exists>saved. r = Inr (Save saved)" if "k = 0" "0 < rp_maxRetries (cl_retry c)"
    using that k(3) x(2) served_received [of decode_tag "reply ?S" zero_tag ?ca] assms(4) [of ?S] assms(6) by auto
  moreover have "\<exists>ds. r = Inl ds" if "0 < k"
    using k(3) x(2) missing_received [of "reply (?eff ?S)" decode_tag zero_tag ?ca] assms(4) [of "?eff ?S"] away gone
    unfolding before_last [of ?eff, OF twice that] by auto
  moreover have "\<exists>err. fst (do_call c ev decode_tag zero_tag (GetTag m old) net') = Inl err"
  proof -
    obtain y n2 where y: "do_call c ev decode_tag zero_tag (GetTag m old) net' = (y, n2)" by fastforce
    have "carries_out ev view (ca_method (GetTag m old)) (cl_baseURL c @ ''/api'' @ ca_path (GetTag m old))
        (map_option json_marshal (ca_body (GetTag m old))) (\<lambda>S. S) read_reply"
      using assms(3) by (simp add: tag_calls tag_url_def)
    from call_repeats [OF assms(1) this _ y]
    obtain j where "y = received decode_tag zero_tag (GetTag m old) (read_reply (((\<lambda>S. S) ^^ j) (view (nt_world net')))) \<or> (\<exists>err. y = Inl err)"
      using tag_calls(8) by blast
    moreover have "((\<lambda>S. S) ^^ j) (view (nt_world net')) = view (nt_world net')" by (induction j) auto
    ultimately show ?thesis using y assms(5) [of "view (nt_world net')"] away missing_received by fastforce
  qed
  ultimately show ?thesis
    using k(2) gone assms(6,8,9) by (auto simp: tag_Read_def andThen_pure refresh_def http_tag_api_def split: prod.splits sum.splits)
qed

theorem rename_answer_lost_witness:
  "fst (nt_world (snd (tag_Update (http_tag_api local_client lossy_env (\<lambda>_. Inr zero_tag) (\<lambda>_. Inr True))
     (Inr (recorded_tag ''b'')) (Inr (recorded_tag ''a'')) (lossy_net 1)))) = {''b'', ''c''}"
proof -
  let ?api = "http_tag_api local_client lossy_env (\<lambda>_. Inr zero_tag) (\<lambda>_. Inr True)"
  obtain r net' where run: "tag_Update ?api (Inr (recorded_tag ''b'')) (Inr (recorded_tag ''a'')) (lossy_net 1) = (r, net')"
    by fastforce
  have put: "carries_out lossy_env fst ''PUT'' (tag_url local_client ''m'' ''a'') payload
      (\<lambda>S. if ''a'' \<in> S then insert ''b'' (S - {''a''}) else S) (\<lambda>S. status_reply (if ''a'' \<in> S then 200 else 404))" for payload
    by (rule lossy_carries_out) (simp add: tag_server_def)
  have get: "carries_out lossy_env fst ''GET'' (tag_url local_client ''m'' ''a'') None
      (\<lambda>S. S) (\<lambda>S. status_reply (if ''a'' \<in> S then 200 else 404))"
    by (rule lossy_carries_out) (simp add: tag_server_def)
  from rename_answer_lost [OF lossy_steady put get lossy_served lossy_missing _ _ recorded_values(1)
      recorded_values(2) recorded_values(2) run, THEN conjunct1]
  have "fst (nt_world net') = {''b'', ''c''}" by (auto simp: lossy_net_def)
  then show ?thesis by (simp only: run snd_conv)
qed

end
